(* ===== verification/Commerce_Prelude.thy ===== *)
theory Commerce_Prelude
  imports Main "HOL-Library.Word" "HOL-Library.AList"
begin

text \<open>
  Shared vocabulary of the development: machine integers as the Rust code uses them, the string
  operations of the Rust standard library the code calls, association lists standing for the
  iterated hash maps of the stores, and the shape of every fallible stateful operation
  (a \<open>Result\<close> together with the state left behind, on success and on failure alike).
\<close>

named_theorems op_defs \<open>unfolding rules of the state-and-result combinators\<close>
named_theorems i64_simps \<open>facts on wrapping 64-bit signed arithmetic\<close>

section \<open>Machine integers\<close>

text \<open>
  \<open>u32\<close> and \<open>u64\<close> are words. \<open>i64\<close> is an \<open>int\<close> in the range of the type; the arithmetic
  operators of the release profile wrap around, which \<open>wrap64\<close> writes out.
\<close>

type_synonym u16 = "16 word"
type_synonym u32 = "32 word"
type_synonym u64 = "64 word"
type_synonym i64 = int

definition i64_min :: i64 where "i64_min = - (2 ^ 63)"
definition i64_max :: i64 where "i64_max = 2 ^ 63 - 1"

definition in_i64 :: "int \<Rightarrow> bool" where
  "in_i64 x \<longleftrightarrow> i64_min \<le> x \<and> x \<le> i64_max"

definition wrap64 :: "int \<Rightarrow> i64" where
  "wrap64 x = (x + 2 ^ 63) mod 2 ^ 64 - 2 ^ 63"

definition i64_add :: "i64 \<Rightarrow> i64 \<Rightarrow> i64" where "i64_add a b = wrap64 (a + b)"
definition i64_sub :: "i64 \<Rightarrow> i64 \<Rightarrow> i64" where "i64_sub a b = wrap64 (a - b)"
definition i64_mul :: "i64 \<Rightarrow> i64 \<Rightarrow> i64" where "i64_mul a b = wrap64 (a * b)"

definition i64_saturating_add :: "i64 \<Rightarrow> i64 \<Rightarrow> i64" where
  "i64_saturating_add a b = max i64_min (min i64_max (a + b))"

definition i64_of_u32 :: "u32 \<Rightarrow> i64" where "i64_of_u32 q = int (unat q)"

lemma wrap64_in_i64 [simp, i64_simps]: "in_i64 (wrap64 x)"
proof -
  have "0 \<le> (x + 2 ^ 63) mod (2 ^ 64 :: int)" "(x + 2 ^ 63) mod (2 ^ 64 :: int) < 2 ^ 64"
    by simp_all
  then show ?thesis
    by (simp add: in_i64_def wrap64_def i64_min_def i64_max_def)
qed

lemma wrap64_id [simp, i64_simps]: "in_i64 x \<Longrightarrow> wrap64 x = x"
  by (simp add: in_i64_def wrap64_def i64_min_def i64_max_def mod_pos_pos_trivial)

lemma wrap64_cong: "wrap64 x mod 2 ^ 64 = x mod 2 ^ 64"
proof -
  have "((x + 2 ^ 63) mod 2 ^ 64 - 2 ^ 63) mod 2 ^ 64 = ((x + 2 ^ 63) - 2 ^ 63) mod (2 ^ 64 :: int)"
    by (rule mod_diff_left_eq)
  then show ?thesis by (simp add: wrap64_def)
qed

lemma i64_add_in [simp]: "in_i64 (i64_add a b)"
  and i64_sub_in [simp]: "in_i64 (i64_sub a b)"
  and i64_mul_in [simp]: "in_i64 (i64_mul a b)"
  by (simp_all add: i64_add_def i64_sub_def i64_mul_def)

lemma i64_zero_in [simp]: "in_i64 0"
  by (simp add: in_i64_def i64_min_def i64_max_def)

lemma i64_saturating_add_bounds:
  "i64_min \<le> i64_saturating_add a b \<and> i64_saturating_add a b \<le> i64_max"
  by (auto simp: i64_saturating_add_def i64_min_def i64_max_def)

lemma i64_saturating_add_nonneg:
  "0 \<le> a \<Longrightarrow> 0 \<le> b \<Longrightarrow> i64_saturating_add a b = min i64_max (a + b)"
  by (auto simp: i64_saturating_add_def i64_min_def i64_max_def)

section \<open>Strings\<close>

text \<open>
  A Rust \<open>String\<close> is a list of bytes; \<open>len\<close> counts bytes and so does \<open>length\<close>. The code trims and
  compares ASCII data; \<open>str_trim\<close> strips ASCII white space.
\<close>

definition is_ascii_ws :: "char \<Rightarrow> bool" where
  "is_ascii_ws c \<longleftrightarrow> of_char c = (32 :: nat) \<or> (9 \<le> (of_char c :: nat) \<and> (of_char c :: nat) \<le> 13)"

definition str_trim :: "string \<Rightarrow> string" where
  "str_trim s = rev (dropWhile is_ascii_ws (rev (dropWhile is_ascii_ws s)))"

definition ascii_lower :: "char \<Rightarrow> char" where
  "ascii_lower c = (if 65 \<le> (of_char c :: nat) \<and> (of_char c :: nat) \<le> 90
     then char_of ((of_char c :: nat) + 32) else c)"

definition eq_ignore_ascii_case :: "string \<Rightarrow> string \<Rightarrow> bool" where
  "eq_ignore_ascii_case a b \<longleftrightarrow> map ascii_lower a = map ascii_lower b"

fun strip_prefix :: "string \<Rightarrow> string \<Rightarrow> string option" where
  "strip_prefix [] s = Some s"
| "strip_prefix (p # ps) [] = None"
| "strip_prefix (p # ps) (c # cs) = (if p = c then strip_prefix ps cs else None)"

fun str_split :: "char \<Rightarrow> string \<Rightarrow> string list" where
  "str_split d [] = [[]]"
| "str_split d (c # cs) =
     (if c = d then [] # str_split d cs
      else (case str_split d cs of [] \<Rightarrow> [[c]] | p # ps \<Rightarrow> (c # p) # ps))"

fun str_join :: "string \<Rightarrow> string list \<Rightarrow> string" where
  "str_join sep [] = []"
| "str_join sep [s] = s"
| "str_join sep (s # t # ts) = s @ sep @ str_join sep (t # ts)"

definition starts_with :: "string \<Rightarrow> string \<Rightarrow> bool" where
  "starts_with s p \<longleftrightarrow> strip_prefix p s \<noteq> None"

lemma strip_prefix_Some: "strip_prefix p s = Some r \<longleftrightarrow> s = p @ r"
  by (induction p s rule: strip_prefix.induct) auto

lemma starts_with_append: "starts_with s p \<longleftrightarrow> (\<exists>r. s = p @ r)"
  by (auto simp: starts_with_def strip_prefix_Some)

lemma str_split_ne [simp]: "str_split d s \<noteq> []"
  by (induction d s rule: str_split.induct) (auto split: list.splits)

lemma str_join_split: "str_join [d] (str_split d s) = s"
proof (induction s)
  case Nil
  show ?case by simp
next
  case (Cons c cs)
  then show ?case
    by (cases "str_split d cs" rule: list.exhaust; cases "tl (str_split d cs)") auto
qed

lemma str_trim_Nil [simp]: "str_trim [] = []"
  by (simp add: str_trim_def)

lemma str_trim_ne_imp: "str_trim s \<noteq> [] \<Longrightarrow> s \<noteq> []"
  by auto

lemma eq_ignore_ascii_case_refl [simp]: "eq_ignore_ascii_case s s"
  by (simp add: eq_ignore_ascii_case_def)

lemma eq_ignore_ascii_case_sym: "eq_ignore_ascii_case a b \<Longrightarrow> eq_ignore_ascii_case b a"
  by (simp add: eq_ignore_ascii_case_def)

text \<open>Joining with a separator that none of the parts contains is injective.\<close>

lemma sep_append_inject:
  assumes "d \<notin> set a" "d \<notin> set b" "a @ d # x = b @ d # y"
  shows "a = b \<and> x = y"
  using assms
proof (induction a arbitrary: b)
  case Nil
  then show ?case by (cases b) auto
next
  case (Cons c cs)
  then show ?case by (cases b) auto
qed

section \<open>Fallible operations on a state\<close>

text \<open>
  Every \<open>async fn\<close> of the runtime that returns a \<open>Result\<close> is an operation: from the state it is
  called in to its result and the state it leaves. The state is returned with an error too, because
  an early return by \<open>?\<close> keeps the effects of everything that ran before it.
\<close>

type_synonym ('s, 'e, 'a) op = "'s \<Rightarrow> ('e + 'a) \<times> 's"

definition op_return :: "'a \<Rightarrow> ('s, 'e, 'a) op" where
  "op_return a s = (Inr a, s)"

definition op_fail :: "'e \<Rightarrow> ('s, 'e, 'a) op" where
  "op_fail e s = (Inl e, s)"

definition op_bind :: "('s, 'e, 'a) op \<Rightarrow> ('a \<Rightarrow> ('s, 'e, 'b) op) \<Rightarrow> ('s, 'e, 'b) op" where
  "op_bind m f s = (case m s of (Inl e, s') \<Rightarrow> (Inl e, s') | (Inr a, s') \<Rightarrow> f a s')"

definition op_seq :: "('s, 'e, unit) op \<Rightarrow> ('s, 'e, 'b) op \<Rightarrow> ('s, 'e, 'b) op" where
  "op_seq m n = op_bind m (\<lambda>_. n)"

definition op_gets :: "('s \<Rightarrow> 'a) \<Rightarrow> ('s, 'e, 'a) op" where
  "op_gets f s = (Inr (f s), s)"

definition op_modify :: "('s \<Rightarrow> 's) \<Rightarrow> ('s, 'e, unit) op" where
  "op_modify f s = (Inr (), f s)"

text \<open>\<open>ok_or\<close>: the value of an option, or the given error.\<close>

definition op_ok_or :: "'e \<Rightarrow> 'a option \<Rightarrow> ('s, 'e, 'a) op" where
  "op_ok_or e x = (case x of None \<Rightarrow> op_fail e | Some a \<Rightarrow> op_return a)"

text \<open>A guard: an early \<open>return Err\<close> when the condition fails.\<close>

definition op_guard :: "bool \<Rightarrow> 'e \<Rightarrow> ('s, 'e, unit) op" where
  "op_guard b e = (if b then op_return () else op_fail e)"

text \<open>\<open>map_err\<close> on the result of an operation.\<close>

definition op_map_err :: "('e \<Rightarrow> 'f) \<Rightarrow> ('s, 'e, 'a) op \<Rightarrow> ('s, 'f, 'a) op" where
  "op_map_err g m s = (case m s of (Inl e, s') \<Rightarrow> (Inl (g e), s') | (Inr a, s') \<Rightarrow> (Inr a, s'))"

text \<open>\<open>match\<close> on a result: the error branch runs as a handler of its own.\<close>

definition op_catch :: "('s, 'e, 'a) op \<Rightarrow> ('e \<Rightarrow> ('s, 'e, 'a) op) \<Rightarrow> ('s, 'e, 'a) op" where
  "op_catch m h s = (case m s of (Inl e, s') \<Rightarrow> h e s' | (Inr a, s') \<Rightarrow> (Inr a, s'))"

text \<open>A \<open>for\<close> loop whose body may return early.\<close>

fun op_for :: "'a list \<Rightarrow> ('a \<Rightarrow> ('s, 'e, unit) op) \<Rightarrow> ('s, 'e, unit) op" where
  "op_for [] f = op_return ()"
| "op_for (x # xs) f = op_seq (f x) (op_for xs f)"

lemmas op_combinators [op_defs] =
  op_return_def op_fail_def op_bind_def op_seq_def op_gets_def op_modify_def op_ok_or_def
  op_guard_def op_map_err_def op_catch_def

subsection \<open>Weakest preconditions\<close>

text \<open>
  \<open>op_wp m Q E s\<close>: running \<open>m\<close> in \<open>s\<close> ends either with a value and a state satisfying \<open>Q\<close> or with an
  error and a state satisfying \<open>E\<close>. The rules compute it through the combinators, so the proofs
  about whole handlers are a simplification followed by a case analysis of what the handler called.
\<close>

definition op_wp ::
  "('s, 'e, 'a) op \<Rightarrow> ('a \<Rightarrow> 's \<Rightarrow> bool) \<Rightarrow> ('e \<Rightarrow> 's \<Rightarrow> bool) \<Rightarrow> 's \<Rightarrow> bool" where
  "op_wp m Q E s = (case m s of (Inl e, s') \<Rightarrow> E e s' | (Inr a, s') \<Rightarrow> Q a s')"

named_theorems wp \<open>weakest-precondition rules\<close>

lemma wp_return [wp]: "op_wp (op_return a) Q E s = Q a s"
  by (simp add: op_wp_def op_defs)

lemma wp_fail [wp]: "op_wp (op_fail e) Q E s = E e s"
  by (simp add: op_wp_def op_defs)

lemma wp_gets [wp]: "op_wp (op_gets f) Q E s = Q (f s) s"
  by (simp add: op_wp_def op_defs)

lemma wp_modify [wp]: "op_wp (op_modify f) Q E s = Q () (f s)"
  by (simp add: op_wp_def op_defs)

lemma wp_bind [wp]: "op_wp (op_bind m f) Q E s = op_wp m (\<lambda>a. op_wp (f a) Q E) E s"
  by (auto simp: op_wp_def op_bind_def split: prod.splits sum.splits)

lemma wp_seq [wp]: "op_wp (op_seq m n) Q E s = op_wp m (\<lambda>_. op_wp n Q E) E s"
  by (simp add: op_seq_def wp_bind)

lemma wp_ok_or [wp]:
  "op_wp (op_ok_or e x) Q E s = (case x of None \<Rightarrow> E e s | Some a \<Rightarrow> Q a s)"
  by (auto simp: op_ok_or_def wp_return wp_fail split: option.splits)

lemma wp_guard [wp]: "op_wp (op_guard b e) Q E s = (if b then Q () s else E e s)"
  by (simp add: op_guard_def wp_return wp_fail)

lemma wp_map_err [wp]: "op_wp (op_map_err g m) Q E s = op_wp m Q (\<lambda>e. E (g e)) s"
  by (auto simp: op_wp_def op_map_err_def split: prod.splits sum.splits)

lemma wp_catch [wp]: "op_wp (op_catch m h) Q E s = op_wp m Q (\<lambda>e. op_wp (h e) Q E) s"
  by (auto simp: op_wp_def op_catch_def split: prod.splits sum.splits)

lemma wp_if [wp]:
  "op_wp (if b then m else n) Q E s = (if b then op_wp m Q E s else op_wp n Q E s)"
  by simp

lemma op_wp_mono:
  "op_wp m Q E s \<Longrightarrow> (\<And>a t. Q a t \<Longrightarrow> Q' a t) \<Longrightarrow> (\<And>e t. E e t \<Longrightarrow> E' e t) \<Longrightarrow> op_wp m Q' E' s"
  by (auto simp: op_wp_def split: prod.splits sum.splits)

lemma op_wp_conj:
  "op_wp m Q E s \<Longrightarrow> op_wp m Q' E' s \<Longrightarrow> op_wp m (\<lambda>a t. Q a t \<and> Q' a t) (\<lambda>e t. E e t \<and> E' e t) s"
  by (auto simp: op_wp_def split: prod.splits sum.splits)

lemma op_wpD_Inr: "op_wp m Q E s \<Longrightarrow> m s = (Inr a, t) \<Longrightarrow> Q a t"
  and op_wpD_Inl: "op_wp m Q E s \<Longrightarrow> m s = (Inl e, t) \<Longrightarrow> E e t"
  by (simp_all add: op_wp_def)

lemma op_wp_all: "op_wp m (\<lambda>_. P) (\<lambda>_. P) s \<longleftrightarrow> P (snd (m s))"
  by (auto simp: op_wp_def split: prod.splits sum.splits)

lemma op_wpI:
  "(\<And>a t. m s = (Inr a, t) \<Longrightarrow> Q a t) \<Longrightarrow> (\<And>e t. m s = (Inl e, t) \<Longrightarrow> E e t) \<Longrightarrow> op_wp m Q E s"
  by (auto simp: op_wp_def split: prod.splits sum.splits)

lemma op_bind_Inr:
  "op_bind m f s = (Inr b, t) \<longleftrightarrow> (\<exists>a u. m s = (Inr a, u) \<and> f a u = (Inr b, t))"
  by (auto simp: op_bind_def split: prod.splits sum.splits)

lemma op_bind_run [simp]: "m s = (Inr a, t) \<Longrightarrow> op_bind m f s = f a t"
  and op_bind_err [simp]: "m s = (Inl e, t) \<Longrightarrow> op_bind m f s = (Inl e, t)"
  by (simp_all add: op_bind_def)

text \<open>A loop keeps what every round of its body keeps.\<close>

lemma wp_for:
  assumes "\<And>x t. x \<in> set xs \<Longrightarrow> I t \<Longrightarrow> op_wp (f x) (\<lambda>_. I) E t" "I s"
  shows "op_wp (op_for xs f) (\<lambda>_. I) E s"
  using assms
proof (induction xs arbitrary: s)
  case Nil
  then show ?case by (simp add: wp)
next
  case (Cons x xs)
  have "op_wp (f x) (\<lambda>_. op_wp (op_for xs f) (\<lambda>_. I) E) E s"
    by (rule op_wp_mono [OF Cons.prems(1)]) (use Cons in auto)
  then show ?case by (simp add: wp)
qed

subsection \<open>Frames\<close>

text \<open>
  \<open>op_rel R m\<close>: whatever \<open>m\<close> answers, the states before and after are related by \<open>R\<close>. For a reflexive and
  transitive \<open>R\<close> this is compositional; the locale proves the rules once and every frame condition of
  the development (the call log only grows, a completed key stays completed, the rows of other carts
  are untouched, an invariant is kept) is an interpretation of it.
\<close>

definition op_rel :: "('s \<Rightarrow> 's \<Rightarrow> bool) \<Rightarrow> ('s, 'e, 'a) op \<Rightarrow> bool" where
  "op_rel R m \<longleftrightarrow> (\<forall>s. R s (snd (m s)))"

lemma op_relI: "(\<And>s. R s (snd (m s))) \<Longrightarrow> op_rel R m"
  by (simp add: op_rel_def)

lemma op_relD: "op_rel R m \<Longrightarrow> m s = (x, t) \<Longrightarrow> R s t"
  by (metis op_rel_def snd_conv)

lemma op_rel_wp: "op_rel R m \<Longrightarrow> op_wp m (\<lambda>_. R s) (\<lambda>_. R s) s"
  by (simp add: op_rel_def op_wp_all)

lemma op_rel_mono: "op_rel R m \<Longrightarrow> (\<And>s t. R s t \<Longrightarrow> R' s t) \<Longrightarrow> op_rel R' m"
  by (simp add: op_rel_def)

locale frame =
  fixes R :: "'s \<Rightarrow> 's \<Rightarrow> bool"
  assumes refl: "R s s" and trans: "R s t \<Longrightarrow> R t u \<Longrightarrow> R s u"
begin

lemma rel_return: "op_rel R (op_return a)"
  and rel_fail: "op_rel R (op_fail e)"
  and rel_gets: "op_rel R (op_gets f)"
  by (simp_all add: op_rel_def op_defs refl)

lemma rel_guard: "op_rel R (op_guard b e)"
  by (simp add: op_guard_def rel_return rel_fail)

lemma rel_ok_or: "op_rel R (op_ok_or e x)"
  by (cases x) (simp_all add: op_ok_or_def rel_return rel_fail)

lemma rel_bind:
  assumes "op_rel R m" "\<And>a. op_rel R (f a)"
  shows "op_rel R (op_bind m f)"
proof (rule op_relI)
  fix s
  obtain x t where m: "m s = (x, t)" by force
  with assms(1) have "R s t" by (rule op_relD)
  moreover have "R t (snd (f a t))" for a using assms(2) by (simp add: op_rel_def)
  ultimately show "R s (snd (op_bind m f s))" using m by (cases x) (auto intro: trans)
qed

lemma rel_seq: "op_rel R m \<Longrightarrow> op_rel R n \<Longrightarrow> op_rel R (op_seq m n)"
  by (simp add: op_seq_def rel_bind)

lemma rel_map_err: "op_rel R m \<Longrightarrow> op_rel R (op_map_err g m)"
  by (auto simp: op_rel_def op_map_err_def split: prod.splits sum.splits) (metis snd_conv)+

lemma rel_catch:
  assumes "op_rel R m" "\<And>e. op_rel R (h e)"
  shows "op_rel R (op_catch m h)"
proof (rule op_relI)
  fix s
  obtain x t where m: "m s = (x, t)" by force
  with assms(1) have "R s t" by (rule op_relD)
  moreover have "R t (snd (h e t))" for e using assms(2) by (simp add: op_rel_def)
  ultimately show "R s (snd (op_catch m h s))"
    using m by (cases x) (auto simp: op_catch_def intro: trans)
qed

lemma rel_for: "(\<And>x. op_rel R (f x)) \<Longrightarrow> op_rel R (op_for xs f)"
  by (induction xs) (simp_all add: rel_return rel_seq)

lemma rel_if: "op_rel R m \<Longrightarrow> op_rel R n \<Longrightarrow> op_rel R (if b then m else n)"
  by simp

lemma rel_case_option:
  "op_rel R m \<Longrightarrow> (\<And>a. op_rel R (f a)) \<Longrightarrow> op_rel R (case x of None \<Rightarrow> m | Some a \<Rightarrow> f a)"
  by (cases x) simp_all

lemma rel_modify: "(\<And>s. R s (f s)) \<Longrightarrow> op_rel R (op_modify f)"
  by (simp add: op_rel_def op_defs)

lemmas rel_rules =
  rel_return rel_fail rel_gets rel_guard rel_ok_or rel_bind rel_seq rel_map_err rel_catch rel_for
  rel_if rel_case_option

end

subsection \<open>Invariants with results\<close>

text \<open>
  \<open>op_keeps I m V\<close>: from a state satisfying \<open>I\<close>, \<open>m\<close> ends in a state satisfying \<open>I\<close>, whether it
  succeeds or fails, and a value it returns satisfies \<open>V\<close>.
\<close>

definition op_keeps :: "('s \<Rightarrow> bool) \<Rightarrow> ('s, 'e, 'a) op \<Rightarrow> ('a \<Rightarrow> bool) \<Rightarrow> bool" where
  "op_keeps I m V \<longleftrightarrow> (\<forall>s. I s \<longrightarrow> op_wp m (\<lambda>a t. I t \<and> V a) (\<lambda>_. I) s)"

named_theorems keeps \<open>rules for \<open>op_keeps\<close>\<close>

lemma keeps_return [keeps]: "V a \<Longrightarrow> op_keeps I (op_return a) V"
  and keeps_fail [keeps]: "op_keeps I (op_fail e) V"
  by (simp_all add: op_keeps_def wp)

lemma keeps_gets: "(\<And>s. I s \<Longrightarrow> V (f s)) \<Longrightarrow> op_keeps I (op_gets f) V"
  by (simp add: op_keeps_def wp)

lemma keeps_bind:
  assumes "op_keeps I m V" "\<And>a. V a \<Longrightarrow> op_keeps I (f a) U"
  shows "op_keeps I (op_bind m f) U"
  unfolding op_keeps_def wp
proof (intro allI impI)
  fix s assume "I s"
  with assms(1) have "op_wp m (\<lambda>a t. I t \<and> V a) (\<lambda>_. I) s" by (simp add: op_keeps_def)
  then show "op_wp m (\<lambda>a. op_wp (f a) (\<lambda>a t. I t \<and> U a) (\<lambda>_. I)) (\<lambda>_. I) s"
    by (rule op_wp_mono) (use assms(2) in \<open>auto simp: op_keeps_def\<close>)
qed

lemma keeps_seq [keeps]:
  "op_keeps I m (\<lambda>_. True) \<Longrightarrow> op_keeps I n U \<Longrightarrow> op_keeps I (op_seq m n) U"
  unfolding op_seq_def by (rule keeps_bind)

lemma keeps_guard: "op_keeps I (op_guard b e) (\<lambda>_. b)"
  by (simp add: op_keeps_def wp)

lemma keeps_ok_or: "op_keeps I (op_ok_or e x) (\<lambda>a. x = Some a)"
  by (auto simp: op_keeps_def wp split: option.splits)

lemma keeps_for: "(\<And>x. op_keeps I (f x) (\<lambda>_. True)) \<Longrightarrow> op_keeps I (op_for xs f) (\<lambda>_. True)"
  by (induction xs) (auto intro: keeps)

lemma keeps_catch:
  assumes "op_keeps I m V" "\<And>e. op_keeps I (h e) V"
  shows "op_keeps I (op_catch m h) V"
  unfolding op_keeps_def wp
proof (intro allI impI)
  fix s assume "I s"
  with assms(1) have "op_wp m (\<lambda>a t. I t \<and> V a) (\<lambda>_. I) s" by (simp add: op_keeps_def)
  then show "op_wp m (\<lambda>a t. I t \<and> V a) (\<lambda>e. op_wp (h e) (\<lambda>a t. I t \<and> V a) (\<lambda>_. I)) s"
    by (rule op_wp_mono) (use assms(2) in \<open>auto simp: op_keeps_def\<close>)
qed

lemma keeps_weaken: "op_keeps I m V \<Longrightarrow> (\<And>a. V a \<Longrightarrow> U a) \<Longrightarrow> op_keeps I m U"
  unfolding op_keeps_def by (blast intro: op_wp_mono)

lemma keeps_rel: "op_rel (\<lambda>s t. I s \<longrightarrow> I t) m \<Longrightarrow> op_keeps I m (\<lambda>_. True)"
  by (simp add: op_rel_def op_keeps_def op_wp_all)

lemma keepsD: "op_keeps I m V \<Longrightarrow> I s \<Longrightarrow> m s = (x, t) \<Longrightarrow> I t \<and> (\<forall>a. x = Inr a \<longrightarrow> V a)"
  unfolding op_keeps_def op_wp_def by (cases x) force+

section \<open>Association lists\<close>

text \<open>
  A hash map whose values the code iterates is an association list with distinct keys, written by
  \<^const>\<open>AList.update\<close> and \<^const>\<open>AList.delete\<close>; the iteration order is that of the list, and no
  statement of the development depends on it.
\<close>

definition map_vals :: "('v \<Rightarrow> 'v) \<Rightarrow> ('k \<times> 'v) list \<Rightarrow> ('k \<times> 'v) list" where
  "map_vals f = map (\<lambda>(k, v). (k, f v))"

lemma map_of_map_vals [simp]: "map_of (map_vals f xs) k = map_option f (map_of xs k)"
  by (induction xs) (auto simp: map_vals_def)

lemma fst_map_vals [simp]: "map fst (map_vals f xs) = map fst xs"
  by (auto simp: map_vals_def)

lemma set_map_vals: "(k, v) \<in> set (map_vals f xs) \<longleftrightarrow> (\<exists>u. (k, u) \<in> set xs \<and> v = f u)"
  by (auto simp: map_vals_def)

lemma vals_update_subset:
  "v \<in> snd ` set (AList.update k w xs) \<Longrightarrow> v = w \<or> v \<in> snd ` set xs"
  by (induction xs) (auto split: if_splits)

lemma vals_delete_subset: "v \<in> snd ` set (AList.delete k xs) \<Longrightarrow> v \<in> snd ` set xs"
  by (auto simp: AList.delete_eq)

text \<open>A table whose rows are filed under a key computed from the row itself.\<close>

definition keyed :: "('v \<Rightarrow> 'k) \<Rightarrow> ('k \<times> 'v) list \<Rightarrow> bool" where
  "keyed f xs \<longleftrightarrow> distinct (map fst xs) \<and> (\<forall>(k, v) \<in> set xs. f v = k)"

lemma keyed_Nil [simp]: "keyed f []"
  by (simp add: keyed_def)

lemma keyed_row: "keyed f xs \<Longrightarrow> map_of xs k = Some v \<Longrightarrow> f v = k"
  by (auto simp: keyed_def dest: map_of_SomeD)

lemma keyed_mem: "keyed f xs \<Longrightarrow> v \<in> snd ` set xs \<longleftrightarrow> map_of xs (f v) = Some v"
  by (force simp: keyed_def dest: map_of_SomeD)

lemma keyed_update:
  assumes "keyed f xs" "f v = k"
  shows "keyed f (AList.update k v xs)"
proof -
  have d: "distinct (map fst (AList.update k v xs))"
    using assms by (simp add: keyed_def distinct_update)
  have "f w = j" if "(j, w) \<in> set (AList.update k v xs)" for j w
  proof -
    have "map_of (AList.update k v xs) j = Some w" using that d by simp
    then show ?thesis
      using assms keyed_row [OF assms(1)] by (cases "j = k") (auto simp: update_conv')
  qed
  with d show ?thesis unfolding keyed_def by blast
qed

lemma keyed_delete: "keyed f xs \<Longrightarrow> keyed f (AList.delete k xs)"
  by (auto simp: keyed_def AList.delete_eq distinct_map intro: inj_on_subset)

lemma keyed_map_vals:
  assumes "keyed f xs" "\<And>v. f (g v) = f v"
  shows "keyed f (map_vals g xs)"
  using assms by (fastforce simp: keyed_def set_map_vals)

lemma keyed_update_mem:
  assumes "keyed f xs" "f v = k"
  shows "w \<in> snd ` set (AList.update k v xs) \<longleftrightarrow> w = v \<or> w \<in> snd ` set xs \<and> f w \<noteq> k"
  unfolding keyed_mem [OF assms(1)] keyed_mem [OF keyed_update [OF assms]]
  using assms(2) by (auto simp: update_conv')

end
