(* ===== verification/Contract.thy ===== *)
theory Contract
  imports Commerce_Prelude
begin

text \<open>
  The domain model of \<open>orchestrator-core\<close> (\<open>contract.rs\<close>, \<open>fulfillment.rs\<close>, \<open>discount.rs\<close>,
  \<open>capability.rs\<close>), the cart stream events of \<open>orchestrator-runtime/src/events.rs\<close> and the data
  types of \<open>provider-contracts\<close>. Record fields carry a short prefix because Isabelle record fields
  are global; enum constructors keep the names of the source and are qualified by their type where
  two enums share one.
\<close>

type_synonym uuid = "128 word"

datatype cart_id = CartId uuid

section \<open>Fulfillment (\<open>fulfillment.rs\<close>)\<close>

datatype fulfillment_method_type = Shipping | Pickup

record postal_address =
  pa_extended_address :: "string option"
  pa_street_address :: "string option"
  pa_address_locality :: "string option"
  pa_address_region :: "string option"
  pa_address_country :: "string option"
  pa_postal_code :: "string option"
  pa_first_name :: "string option"
  pa_last_name :: "string option"
  pa_phone_number :: "string option"

datatype fulfillment_destination =
    ShippingDest string postal_address
  | RetailDest string string "postal_address option"

fun destination_id :: "fulfillment_destination \<Rightarrow> string" where
  "destination_id (ShippingDest i a) = i"
| "destination_id (RetailDest i n a) = i"

record fulfillment_option =
  fo_id :: string
  fo_title :: string
  fo_description :: "string option"
  fo_carrier :: "string option"
  fo_earliest_fulfillment_time :: "string option"
  fo_latest_fulfillment_time :: "string option"
  fo_amount_minor :: i64

record fulfillment_group =
  fg_id :: string
  fg_line_item_ids :: "string list"
  fg_options :: "fulfillment_option list"
  fg_selected_option_id :: "string option"

record fulfillment_method =
  fm_id :: string
  fm_method_type :: fulfillment_method_type
  fm_line_item_ids :: "string list"
  fm_destinations :: "fulfillment_destination list"
  fm_selected_destination_id :: "string option"
  fm_groups :: "fulfillment_group list"

record fulfillment_state =
  fs_methods :: "fulfillment_method list"

fun default_options_for_method :: "fulfillment_method_type \<Rightarrow> fulfillment_option list" where
  "default_options_for_method Shipping =
     [\<lparr>fo_id = ''standard'', fo_title = ''Standard Shipping'',
       fo_description = Some ''Arrives in 5-8 business days'', fo_carrier = None,
       fo_earliest_fulfillment_time = None, fo_latest_fulfillment_time = None,
       fo_amount_minor = 500\<rparr>,
      \<lparr>fo_id = ''express'', fo_title = ''Express Shipping'',
       fo_description = Some ''Arrives in 2-3 business days'', fo_carrier = None,
       fo_earliest_fulfillment_time = None, fo_latest_fulfillment_time = None,
       fo_amount_minor = 1000\<rparr>]"
| "default_options_for_method Pickup =
     [\<lparr>fo_id = ''in_store'', fo_title = ''In-Store Pickup'',
       fo_description = Some ''Ready for pickup today'', fo_carrier = None,
       fo_earliest_fulfillment_time = None, fo_latest_fulfillment_time = None,
       fo_amount_minor = 0\<rparr>]"

section \<open>Discounts (\<open>discount.rs\<close>)\<close>

record applied_discount =
  ad_code :: string
  ad_description :: "string option"
  ad_amount_minor :: i64
  ad_line_id :: "string option"

definition total_discount_minor :: "applied_discount list \<Rightarrow> i64 \<Rightarrow> i64" where
  "total_discount_minor discounts owed =
     (let raw = fold (\<lambda>amount acc. i64_saturating_add acc amount)
                  (map (\<lambda>d. max (ad_amount_minor d) 0) discounts) 0
      in min raw (max owed 0))"

section \<open>Carts, checkouts, orders (\<open>contract.rs\<close>)\<close>

record create_cart_payload =
  cc_merchant_id :: string
  cc_currency :: string
  cc_tenant_id :: "string option"

record add_item_payload =
  ai_item_id :: string
  ai_quantity :: u32

record update_item_qty_payload =
  uq_line_id :: string
  uq_quantity :: u32

record remove_item_payload =
  ri_line_id :: string

record apply_adjustment_payload =
  aa_code :: string

record get_cart_payload =
  gc_cart_id :: cart_id

record start_checkout_payload =
  sc_cart_id :: cart_id
  sc_cart_version :: u64

record cancel_cart_payload =
  xc_cart_id :: cart_id

record set_fulfillment_selection_payload =
  sf_method_type :: fulfillment_method_type
  sf_line_item_ids :: "string list"
  sf_destination :: fulfillment_destination
  sf_selected_option_id :: "string option"

datatype cart_command =
    CreateCart create_cart_payload
  | AddItem add_item_payload
  | UpdateItemQty update_item_qty_payload
  | RemoveItem remove_item_payload
  | ApplyAdjustment apply_adjustment_payload
  | GetCart get_cart_payload
  | StartCheckout start_checkout_payload
  | CancelCart cancel_cart_payload
  | SetFulfillmentSelection set_fulfillment_selection_payload

fun with_tenant :: "cart_command \<Rightarrow> string \<Rightarrow> cart_command" where
  "with_tenant (CreateCart payload) tenant_id = CreateCart (payload\<lparr>cc_tenant_id := Some tenant_id\<rparr>)"
| "with_tenant cmd tenant_id = cmd"

record customer_hint =
  ch_email :: "string option"
  ch_full_name :: "string option"

record location_hint =
  lh_country_code :: "string option"
  lh_region :: "string option"
  lh_postal_code :: "string option"
  lh_intent :: "string option"

datatype payment_method_type = Ap2 | Mpp

record payment_intent =
  pi_amount_minor :: i64
  pi_token_or_reference :: string
  pi_ap2_consent_proof :: "string option"
  pi_payment_handler_id :: "string option"
  pi_payment_method_type :: "payment_method_type option"
  pi_mpp_method :: "string option"
  pi_mpp_intent :: "string option"

record checkout_request =
  cr_tenant_id :: string
  cr_merchant_id :: string
  cr_cart_id :: cart_id
  cr_cart_version :: u64
  cr_currency :: string
  cr_customer :: "customer_hint option"
  cr_location :: "location_hint option"
  cr_payment_intent :: payment_intent
  cr_idempotency_key :: string

datatype cart_status = Draft | CheckoutReady | Cancelled

record cart_line_projection =
  li_line_id :: string
  li_item_id :: string
  li_title :: string
  li_quantity :: u32
  li_unit_price_minor :: i64
  li_total_minor :: i64

record cart_projection =
  cp_cart_id :: cart_id
  cp_version :: u64
  cp_currency :: string
  cp_merchant_id :: string
  cp_tenant_id :: "string option"
  cp_lines :: "cart_line_projection list"
  cp_subtotal_minor :: i64
  cp_tax_minor :: i64
  cp_total_minor :: i64
  cp_geo_ok :: bool
  cp_status :: cart_status
  cp_fulfillment :: "fulfillment_state option"
  cp_fulfillment_minor :: i64
  cp_adjustment_codes :: "string list"
  cp_discounts :: "applied_discount list"
  cp_discount_minor :: i64

text \<open>
  The closure of \<open>find_map\<close> in \<open>CartProjection::location_hint\<close>: each \<open>?\<close> in it makes the closure
  yield nothing for this method, and the search goes on with the next one.
\<close>

definition destination_address :: "fulfillment_destination \<Rightarrow> postal_address option" where
  "destination_address d = (case d of ShippingDest _ a \<Rightarrow> Some a | RetailDest _ _ a \<Rightarrow> a)"

definition method_location_hint :: "fulfillment_method \<Rightarrow> location_hint option" where
  "method_location_hint m =
     (let selected = fm_selected_destination_id m;
          destination = (case List.find (\<lambda>d. Some (destination_id d) = selected) (fm_destinations m) of
              Some d \<Rightarrow> Some d
            | None \<Rightarrow> (case fm_destinations m of [] \<Rightarrow> None | d # _ \<Rightarrow> Some d))
      in case Option.bind destination destination_address of
           None \<Rightarrow> None
         | Some a \<Rightarrow>
             if pa_address_country a = None \<and> pa_address_region a = None \<and> pa_postal_code a = None
             then None
             else Some \<lparr>lh_country_code = pa_address_country a, lh_region = pa_address_region a,
                        lh_postal_code = pa_postal_code a, lh_intent = None\<rparr>)"

fun find_map :: "('a \<Rightarrow> 'b option) \<Rightarrow> 'a list \<Rightarrow> 'b option" where
  "find_map f [] = None"
| "find_map f (x # xs) = (case f x of Some y \<Rightarrow> Some y | None \<Rightarrow> find_map f xs)"

definition cart_location_hint :: "cart_projection \<Rightarrow> location_hint option" where
  "cart_location_hint c =
     (case cp_fulfillment c of None \<Rightarrow> None | Some st \<Rightarrow> find_map method_location_hint (fs_methods st))"

datatype transaction_status = Completed | Rejected | AuthFailed | CommitFailed | TimedOut

datatype payment_state =
  Authorized | Captured | Voided | RefundPending | Refunded | Reconciled | Failed

record totals_breakdown =
  tb_subtotal_minor :: i64
  tb_tax_minor :: i64
  tb_discount_minor :: i64
  tb_fulfillment_minor :: i64
  tb_total_minor :: i64

record transaction_result =
  tr_transaction_id :: string
  tr_status :: transaction_status
  tr_totals_breakdown :: totals_breakdown
  tr_payment_reference :: "string option"
  tr_receipt_payload :: "string option"
  tr_correlation_id :: uuid
  tr_audit_trail_id :: "string option"
  tr_payment_state :: payment_state
  tr_order_id :: "string option"

record payment_lifecycle_request =
  pl_tenant_id :: string
  pl_merchant_id :: string
  pl_transaction_id :: string
  pl_amount_minor :: i64
  pl_idempotency_key :: string

datatype order_status = Created | FulfillmentPending | Fulfilled | OrderCancelled

record order_event =
  oe_id :: string
  oe_event_type :: string
  oe_description :: string
  oe_occurred_at :: int

record order_adjustment =
  oa_id :: string
  oa_adjustment_type :: string
  oa_amount_minor :: i64
  oa_status :: string

record order_record =
  or_order_id :: string
  or_tenant_id :: string
  or_transaction_id :: string
  or_checkout_id :: cart_id
  or_status :: order_status
  or_currency :: string
  or_permalink_url :: string
  or_line_items :: "cart_line_projection list"
  or_totals :: totals_breakdown
  or_events :: "order_event list"
  or_adjustments :: "order_adjustment list"
  or_created_at :: int

definition default_order_currency :: string where
  "default_order_currency = ''USD''"

section \<open>Cart stream events (\<open>events.rs\<close>)\<close>

datatype cart_stream_event =
    CartCreatedEv string string
  | ItemAdded string string u32
  | ItemQtyUpdated string u32
  | ItemRemoved string
  | AdjustmentApplied string
  | FulfillmentSelected fulfillment_method_type "string option" i64
  | RepricedEv
  | RetaxedEv i64
  | GeoCheckedEv bool
  | CheckoutReadyEv
  | CancelledEv

section \<open>Provider data types (\<open>provider-contracts\<close>)\<close>

datatype catalog_error = CatalogNotFound string
datatype pricing_error = PricingFailed string
datatype tax_error = TaxFailed string
datatype geo_error = GeoFailed string
datatype fulfillment_error = FulfillmentFailed string
datatype receipt_error = ReceiptFailed string
datatype payment_error = PaymentAuthFailed string | PaymentUnsupported string

record catalog_item =
  ci_id :: string
  ci_title :: string
  ci_price_minor :: i64

record line_price =
  lp_line_id :: string
  lp_unit_price_minor :: i64
  lp_total_minor :: i64

record auth_result =
  ar_authorized :: bool
  ar_reference :: string

record payment_operation_result =
  por_success :: bool
  por_reference :: string

record fulfillment_quote_request =
  fq_method_type :: fulfillment_method_type
  fq_destination :: fulfillment_destination
  fq_line_item_ids :: "string list"

section \<open>Facts on discounts and destinations\<close>

definition clamped_sum :: "applied_discount list \<Rightarrow> int" where
  "clamped_sum ds = sum_list (map (\<lambda>d. max (ad_amount_minor d) 0) ds)"

lemma clamped_sum_nonneg [simp]: "0 \<le> clamped_sum ds"
  by (induction ds) (auto simp: clamped_sum_def)

lemma saturating_fold:
  assumes "\<forall>x \<in> set xs. 0 \<le> x" "0 \<le> a" "a \<le> i64_max"
  shows "fold (\<lambda>x acc. i64_saturating_add acc x) xs a = min i64_max (a + sum_list xs)"
  using assms
proof (induction xs arbitrary: a)
  case Nil
  then show ?case by simp
next
  case (Cons x xs)
  have "0 \<le> sum_list xs" using Cons.prems(1) by (simp add: sum_list_nonneg)
  moreover have "i64_saturating_add a x = min i64_max (a + x)"
    using Cons.prems by (simp add: i64_saturating_add_nonneg)
  moreover have "0 \<le> min i64_max (a + x)" using Cons.prems by (simp add: i64_max_def)
  ultimately show ?case using Cons by (auto simp: min_def)
qed

text \<open>The saturating fold computes the mathematical sum cut off at the largest \<open>i64\<close>.\<close>

lemma total_discount_minor_eq:
  "total_discount_minor ds owed = min (min i64_max (clamped_sum ds)) (max owed 0)"
  by (simp add: total_discount_minor_def clamped_sum_def saturating_fold i64_max_def Let_def)

lemma total_discount_minor_exact:
  assumes "owed \<le> i64_max"
  shows "total_discount_minor ds owed = min (clamped_sum ds) (max owed 0)"
  using assms by (auto simp: total_discount_minor_eq min_def i64_max_def)

lemma total_discount_minor_bounds:
  "0 \<le> total_discount_minor ds owed" "total_discount_minor ds owed \<le> max owed 0"
  by (simp_all add: total_discount_minor_eq i64_max_def)

lemma find_map_Some: "find_map f xs = Some y \<Longrightarrow> \<exists>x \<in> set xs. f x = Some y"
  by (induction xs) (auto split: option.splits)

lemma find_map_None: "find_map f xs = None \<longleftrightarrow> (\<forall>x \<in> set xs. f x = None)"
  by (induction xs) (auto split: option.splits)

section \<open>Sample values\<close>

text \<open>Concrete requests the closed instances of the theorems are evaluated on.\<close>

definition sample_intent :: payment_intent where
  "sample_intent = \<lparr>pi_amount_minor = 2200, pi_token_or_reference = ''tok'',
     pi_ap2_consent_proof = None, pi_payment_handler_id = None, pi_payment_method_type = None,
     pi_mpp_method = None, pi_mpp_intent = None\<rparr>"

definition sample_request :: checkout_request where
  "sample_request = \<lparr>cr_tenant_id = ''t1'', cr_merchant_id = ''m1'', cr_cart_id = CartId 7,
     cr_cart_version = 1, cr_currency = ''USD'', cr_customer = None, cr_location = None,
     cr_payment_intent = sample_intent, cr_idempotency_key = ''k1''\<rparr>"

definition sample_totals :: totals_breakdown where
  "sample_totals = \<lparr>tb_subtotal_minor = 2000, tb_tax_minor = 200, tb_discount_minor = 0,
     tb_fulfillment_minor = 0, tb_total_minor = 2200\<rparr>"

definition sample_result :: transaction_result where
  "sample_result = \<lparr>tr_transaction_id = ''txn_1'', tr_status = Completed,
     tr_totals_breakdown = sample_totals, tr_payment_reference = Some ''ref'',
     tr_receipt_payload = None, tr_correlation_id = 9, tr_audit_trail_id = None,
     tr_payment_state = Captured, tr_order_id = Some ''ord_1''\<rparr>"

definition sample_line :: cart_line_projection where
  "sample_line = \<lparr>li_line_id = ''li_1'', li_item_id = ''item_1'', li_title = ''Item'',
     li_quantity = 2, li_unit_price_minor = 1000, li_total_minor = 2000\<rparr>"

definition sample_cart :: cart_projection where
  "sample_cart = \<lparr>cp_cart_id = CartId 7, cp_version = 1, cp_currency = ''USD'',
     cp_merchant_id = ''m1'', cp_tenant_id = Some ''t1'', cp_lines = [sample_line],
     cp_subtotal_minor = 2000, cp_tax_minor = 200, cp_total_minor = 2200, cp_geo_ok = True,
     cp_status = Draft, cp_fulfillment = None, cp_fulfillment_minor = 0,
     cp_adjustment_codes = [], cp_discounts = [], cp_discount_minor = 0\<rparr>"

lemmas sample_defs =
  sample_intent_def sample_request_def sample_totals_def sample_result_def sample_line_def
  sample_cart_def

end
