(* ===== verification/State_Machine.thy ===== *)
theory State_Machine
  imports Contract
begin

text \<open>
  The deterministic cart and checkout state machines of
  \<open>orchestrator-core/src/state_machine.rs\<close>, as the transition functions of the source, together with
  the step relations they generate and the facts on reachable states.
\<close>

datatype cart_state =
  CartCreated | ItemsMutated | Repriced | Retaxed | GeoChecked | CheckoutReady | Cancelled

datatype cart_event =
  ItemChanged | PricingResolved | TaxResolved | GeoValidated | MarkCheckoutReady | Cancel

fun next_cart_state :: "cart_state \<Rightarrow> cart_event \<Rightarrow> cart_state option" where
  "next_cart_state CartCreated ItemChanged = Some ItemsMutated"
| "next_cart_state ItemsMutated ItemChanged = Some ItemsMutated"
| "next_cart_state ItemsMutated PricingResolved = Some Repriced"
| "next_cart_state Repriced TaxResolved = Some Retaxed"
| "next_cart_state Retaxed GeoValidated = Some GeoChecked"
| "next_cart_state CartCreated MarkCheckoutReady = Some cart_state.CheckoutReady"
| "next_cart_state ItemsMutated MarkCheckoutReady = Some cart_state.CheckoutReady"
| "next_cart_state Repriced MarkCheckoutReady = Some cart_state.CheckoutReady"
| "next_cart_state Retaxed MarkCheckoutReady = Some cart_state.CheckoutReady"
| "next_cart_state GeoChecked MarkCheckoutReady = Some cart_state.CheckoutReady"
| "next_cart_state GeoChecked ItemChanged = Some ItemsMutated"
| "next_cart_state cart_state.CheckoutReady ItemChanged = Some ItemsMutated"
| "next_cart_state CartCreated Cancel = Some cart_state.Cancelled"
| "next_cart_state ItemsMutated Cancel = Some cart_state.Cancelled"
| "next_cart_state Repriced Cancel = Some cart_state.Cancelled"
| "next_cart_state Retaxed Cancel = Some cart_state.Cancelled"
| "next_cart_state GeoChecked Cancel = Some cart_state.Cancelled"
| "next_cart_state cart_state.CheckoutReady Cancel = Some cart_state.Cancelled"
| "next_cart_state _ _ = None"

datatype checkout_state =
    Received | Validated | Priced | Taxed | KGeoChecked | PaymentAuthorized | Committed
  | ReceiptGenerated | KCompleted | KRejected | KAuthFailed | KCommitFailed | KTimedOut

datatype checkout_event =
    ValidatePassed | PriceResolved | KTaxResolved | KGeoValidated | EvPaymentAuthorized
  | EvCommitted | EvReceiptGenerated | Complete | Reject | PaymentFailed | EvCommitFailed | Timeout

text \<open>
  The match of the source on pairs, written state by state: in every state the \<open>Timeout\<close> event is
  accepted (the arm \<open>(_, E::Timeout)\<close>) and what no arm lists is refused.
\<close>

definition next_checkout_state :: "checkout_state \<Rightarrow> checkout_event \<Rightarrow> checkout_state option" where
  "next_checkout_state current event =
     (if event = Timeout then Some KTimedOut
      else case current of
        Received \<Rightarrow> if event = ValidatePassed then Some Validated
                    else if event = Reject then Some KRejected else None
      | Validated \<Rightarrow> if event = PriceResolved then Some Priced
                     else if event = Reject then Some KRejected else None
      | Priced \<Rightarrow> if event = KTaxResolved then Some Taxed
                  else if event = Reject then Some KRejected else None
      | Taxed \<Rightarrow> if event = KGeoValidated then Some KGeoChecked else None
      | KGeoChecked \<Rightarrow> if event = EvPaymentAuthorized then Some PaymentAuthorized
                       else if event = PaymentFailed then Some KAuthFailed else None
      | PaymentAuthorized \<Rightarrow> if event = EvCommitted then Some Committed
                             else if event = EvCommitFailed then Some KCommitFailed else None
      | Committed \<Rightarrow> if event = EvReceiptGenerated then Some ReceiptGenerated else None
      | ReceiptGenerated \<Rightarrow> if event = Complete then Some KCompleted else None
      | _ \<Rightarrow> None)"

fun terminal_status :: "checkout_state \<Rightarrow> transaction_status option" where
  "terminal_status KCompleted = Some Completed"
| "terminal_status KRejected = Some Rejected"
| "terminal_status KAuthFailed = Some AuthFailed"
| "terminal_status KCommitFailed = Some CommitFailed"
| "terminal_status KTimedOut = Some TimedOut"
| "terminal_status _ = None"

section \<open>Runs\<close>

text \<open>A run feeds events one by one and stops at the first that is not allowed.\<close>

fun cart_run :: "cart_state \<Rightarrow> cart_event list \<Rightarrow> cart_state option" where
  "cart_run s [] = Some s"
| "cart_run s (e # es) = Option.bind (next_cart_state s e) (\<lambda>t. cart_run t es)"

fun checkout_run :: "checkout_state \<Rightarrow> checkout_event list \<Rightarrow> checkout_state option" where
  "checkout_run s [] = Some s"
| "checkout_run s (e # es) = Option.bind (next_checkout_state s e) (\<lambda>t. checkout_run t es)"

inductive cart_step :: "cart_state \<Rightarrow> cart_state \<Rightarrow> bool" where
  cart_step: "next_cart_state s e = Some t \<Longrightarrow> cart_step s t"

inductive cart_reach :: "cart_state \<Rightarrow> cart_state \<Rightarrow> bool" for s where
  cart_reach_refl: "cart_reach s s"
| cart_reach_step: "cart_reach s t \<Longrightarrow> cart_step t u \<Longrightarrow> cart_reach s u"

lemma next_cart_state_cancelled [simp]: "next_cart_state cart_state.Cancelled e = None"
  by (cases e) simp_all

inductive_cases cart_step_CancelledE: "cart_step cart_state.Cancelled t"

lemma cancelled_no_step [simp]: "\<not> cart_step cart_state.Cancelled t"
  by (auto elim: cart_step_CancelledE)

lemma cancelled_absorbing: "cart_reach cart_state.Cancelled t \<Longrightarrow> t = cart_state.Cancelled"
  by (induction rule: cart_reach.induct) (auto elim: cart_step_CancelledE)

lemma every_live_state_cancellable:
  "s \<noteq> cart_state.Cancelled \<longleftrightarrow> next_cart_state s Cancel = Some cart_state.Cancelled"
  by (cases s) simp_all

lemma item_change_allowed:
  "next_cart_state s ItemChanged \<noteq> None \<longleftrightarrow>
     s \<in> {CartCreated, ItemsMutated, GeoChecked, cart_state.CheckoutReady}"
  by (cases s) simp_all

lemma item_change_target [simp]:
  "next_cart_state s ItemChanged = Some t \<Longrightarrow> t = ItemsMutated"
  by (cases s) auto

text \<open>The four events of one repricing pass, from any state in which items may change.\<close>

lemma repricing_pass:
  "s \<in> {CartCreated, ItemsMutated, GeoChecked, cart_state.CheckoutReady} \<Longrightarrow>
   cart_run s [ItemChanged, PricingResolved, TaxResolved, GeoValidated] = Some GeoChecked"
  by auto

lemma cart_run_append:
  "cart_run s (xs @ ys) = Option.bind (cart_run s xs) (\<lambda>t. cart_run t ys)"
proof (induction xs arbitrary: s)
  case Nil
  show ?case by simp
next
  case (Cons e es)
  then show ?case by (cases "next_cart_state s e") simp_all
qed

lemma cart_run_reach: "cart_run s es = Some t \<Longrightarrow> cart_reach s t"
proof (induction es arbitrary: t rule: rev_induct)
  case Nil
  then show ?case by (simp add: cart_reach_refl)
next
  case (snoc e es)
  then obtain u where "cart_run s es = Some u" "next_cart_state u e = Some t"
    by (cases "cart_run s es"; cases "next_cart_state (the (cart_run s es)) e")
      (auto simp: cart_run_append)
  with snoc.IH show ?case by (blast intro: cart_reach_step cart_step)
qed

section \<open>How a checkout can complete\<close>

text \<open>The position of a state on the way from \<open>Received\<close> to \<open>Completed\<close>.\<close>

fun checkout_rank :: "checkout_state \<Rightarrow> nat option" where
  "checkout_rank Received = Some 0"
| "checkout_rank Validated = Some 1"
| "checkout_rank Priced = Some 2"
| "checkout_rank Taxed = Some 3"
| "checkout_rank KGeoChecked = Some 4"
| "checkout_rank PaymentAuthorized = Some 5"
| "checkout_rank Committed = Some 6"
| "checkout_rank ReceiptGenerated = Some 7"
| "checkout_rank KCompleted = Some 8"
| "checkout_rank _ = None"

definition happy_path :: "checkout_event list" where
  "happy_path = [ValidatePassed, PriceResolved, KTaxResolved, KGeoValidated, EvPaymentAuthorized,
                 EvCommitted, EvReceiptGenerated, Complete]"

lemma checkout_rank_step:
  assumes "next_checkout_state s e = Some t" "checkout_rank t = Some n"
  shows "\<exists>m. checkout_rank s = Some m \<and> n = Suc m \<and> m < 8 \<and> e = happy_path ! m"
  using assms by (cases s) (auto simp: happy_path_def next_checkout_state_def split: if_splits)

text \<open>
  A run that ends on the way to \<open>Completed\<close> consists of the events of the happy path, none of
  them skipped or repeated.
\<close>

lemma checkout_run_append:
  "checkout_run s (xs @ ys) = Option.bind (checkout_run s xs) (\<lambda>t. checkout_run t ys)"
proof (induction xs arbitrary: s)
  case Nil
  show ?case by simp
next
  case (Cons e es)
  then show ?case by (cases "next_checkout_state s e") simp_all
qed

lemma checkout_run_rank:
  assumes "checkout_run Received es = Some t" "checkout_rank t = Some n"
  shows "es = take n happy_path \<and> n \<le> 8"
  using assms
proof (induction es arbitrary: t n rule: rev_induct)
  case Nil
  then show ?case by auto
next
  case (snoc e es)
  then obtain s where s: "checkout_run Received es = Some s" "next_checkout_state s e = Some t"
    by (cases "checkout_run Received es"; cases "next_checkout_state (the (checkout_run Received es)) e")
      (auto simp: checkout_run_append)
  from checkout_rank_step [OF s(2) snoc.prems(2)] obtain m where
    m: "checkout_rank s = Some m" "n = Suc m" "m < 8" "e = happy_path ! m" by blast
  from snoc.IH [OF s(1) m(1)] have es: "es = take m happy_path" by simp
  have "m < length happy_path" using m(3) by (simp add: happy_path_def)
  then have "take (Suc m) happy_path = take m happy_path @ [happy_path ! m]"
    by (rule take_Suc_conv_app_nth)
  with m es show ?case by simp
qed

lemma checkout_happy_run: "checkout_run Received happy_path = Some KCompleted"
  by (simp add: happy_path_def next_checkout_state_def)

lemma terminal_only_timeout:
  assumes "terminal_status s = Some st" "next_checkout_state s e = Some t"
  shows "e = Timeout \<and> t = KTimedOut"
  using assms by (cases s) (auto simp: next_checkout_state_def split: if_splits)

text \<open>
  C39: the checkout machine reaches \<open>Completed\<close> by exactly one sequence of events, the full path
  validate, price, tax, geo, authorize, commit, receipt, complete: no step can be skipped, repeated
  or taken after a failure.
\<close>

theorem completed_iff_happy_path:
  "checkout_run Received es = Some KCompleted \<longleftrightarrow> es = happy_path"
proof
  assume "checkout_run Received es = Some KCompleted"
  from checkout_run_rank [OF this] have "es = take 8 happy_path" by simp
  then show "es = happy_path" by (simp add: happy_path_def)
next
  assume "es = happy_path"
  then show "checkout_run Received es = Some KCompleted" by (simp add: checkout_happy_run)
qed

end
