(* ===== verification/Validation.thy ===== *)
theory Validation
  imports Contract
begin

text \<open>
  \<open>orchestrator-core/src/validation.rs\<close> and \<open>policy.rs\<close>: the prechecks of cart commands and checkout
  requests, and the policy engine. Error messages are kept verbatim, in the order the code pushes
  them; the messages with a formatted number take its decimal rendering.
\<close>

section \<open>Validation (\<open>validation.rs\<close>)\<close>

record validation_result =
  vr_valid :: bool
  vr_errors :: "string list"

definition validation_ok :: validation_result where
  "validation_ok = \<lparr>vr_valid = True, vr_errors = []\<rparr>"

definition validation_invalid :: "string list \<Rightarrow> validation_result" where
  "validation_invalid errors = \<lparr>vr_valid = False, vr_errors = errors\<rparr>"

text \<open>\<open>if c { errors.push(m) }\<close>\<close>

definition push_if :: "bool \<Rightarrow> string \<Rightarrow> string list" where
  "push_if c m = (if c then [m] else [])"

definition bad_currency :: "string \<Rightarrow> bool" where
  "bad_currency c \<longleftrightarrow> c = [] \<or> length c \<noteq> 3"

fun cart_command_errors :: "cart_command \<Rightarrow> string list" where
  "cart_command_errors (CreateCart p) =
     push_if (cc_merchant_id p = []) ''merchant_id required''
     @ push_if (bad_currency (cc_currency p)) ''currency must be 3-letter code''"
| "cart_command_errors (AddItem p) =
     push_if (ai_item_id p = []) ''item_id required''
     @ push_if (ai_quantity p = 0) ''quantity must be > 0''"
| "cart_command_errors (UpdateItemQty p) = push_if (uq_line_id p = []) ''line_id required''"
| "cart_command_errors (RemoveItem p) = push_if (ri_line_id p = []) ''line_id required''"
| "cart_command_errors (GetCart p) = []"
| "cart_command_errors (CancelCart p) = []"
| "cart_command_errors (StartCheckout p) =
     push_if (sc_cart_version p = 0) ''cart_version must be > 0''"
| "cart_command_errors (ApplyAdjustment p) = push_if (aa_code p = []) ''adjustment code required''"
| "cart_command_errors (SetFulfillmentSelection p) =
     push_if (destination_id (sf_destination p) = []) ''fulfillment destination id required''
     @ (case sf_destination p of
          RetailDest _ name _ \<Rightarrow> push_if (str_trim name = []) ''retail location name required''
        | ShippingDest _ _ \<Rightarrow> [])"

definition validate_cart_command :: "cart_command \<Rightarrow> validation_result" where
  "validate_cart_command cmd =
     (let errors = cart_command_errors cmd
      in if errors = [] then validation_ok else validation_invalid errors)"

definition validate_payment_intent :: "payment_intent \<Rightarrow> string list" where
  "validate_payment_intent i =
     push_if (pi_amount_minor i < 0) ''payment amount must be >= 0''
     @ push_if (pi_token_or_reference i = []) ''payment token_or_reference required''
     @ push_if (pi_payment_handler_id i = Some []) ''payment_handler_id cannot be empty''
     @ push_if (pi_mpp_method i = Some []) ''mpp_method cannot be empty''
     @ push_if (pi_mpp_intent i = Some []) ''mpp_intent cannot be empty''
     @ (if pi_payment_method_type i = Some Mpp then
          push_if (pi_mpp_method i = None) ''mpp_method required for payment_method_type=mpp''
          @ push_if (pi_mpp_intent i = None) ''mpp_intent required for payment_method_type=mpp''
          @ push_if (pi_ap2_consent_proof i \<noteq> None \<or> pi_payment_handler_id i \<noteq> None)
              ''ap2_consent_proof and payment_handler_id are not allowed for payment_method_type=mpp''
        else [])"

definition checkout_request_errors :: "checkout_request \<Rightarrow> string list" where
  "checkout_request_errors r =
     push_if (cr_tenant_id r = []) ''tenant_id required''
     @ push_if (cr_merchant_id r = []) ''merchant_id required''
     @ push_if (bad_currency (cr_currency r)) ''currency must be 3-letter code''
     @ push_if (cr_cart_version r = 0) ''cart_version must be > 0''
     @ push_if (cr_idempotency_key r = []) ''idempotency_key required''
     @ validate_payment_intent (cr_payment_intent r)"

definition validate_checkout_request :: "checkout_request \<Rightarrow> validation_result" where
  "validate_checkout_request r =
     (let errors = checkout_request_errors r
      in if errors = [] then validation_ok else validation_invalid errors)"

lemma push_if_Nil [simp]: "push_if c m = [] \<longleftrightarrow> \<not> c"
  by (simp add: push_if_def)

lemma validate_cart_command_valid [simp]:
  "vr_valid (validate_cart_command cmd) \<longleftrightarrow> cart_command_errors cmd = []"
  by (simp add: validate_cart_command_def validation_ok_def validation_invalid_def Let_def)

lemma validate_cart_command_errs [simp]:
  "vr_errors (validate_cart_command cmd) = cart_command_errors cmd"
  by (simp add: validate_cart_command_def validation_ok_def validation_invalid_def Let_def)

lemma validate_checkout_request_valid [simp]:
  "vr_valid (validate_checkout_request r) \<longleftrightarrow> checkout_request_errors r = []"
  by (simp add: validate_checkout_request_def validation_ok_def validation_invalid_def Let_def)

lemma validate_checkout_request_errs [simp]:
  "vr_errors (validate_checkout_request r) = checkout_request_errors r"
  by (simp add: validate_checkout_request_def validation_ok_def validation_invalid_def Let_def)

text \<open>What a payment intent that passes validation looks like.\<close>

definition payment_intent_ok :: "payment_intent \<Rightarrow> bool" where
  "payment_intent_ok i \<longleftrightarrow>
     0 \<le> pi_amount_minor i \<and> pi_token_or_reference i \<noteq> [] \<and>
     pi_payment_handler_id i \<noteq> Some [] \<and> pi_mpp_method i \<noteq> Some [] \<and> pi_mpp_intent i \<noteq> Some [] \<and>
     (pi_payment_method_type i = Some Mpp \<longrightarrow>
        pi_mpp_method i \<noteq> None \<and> pi_mpp_intent i \<noteq> None \<and>
        pi_ap2_consent_proof i = None \<and> pi_payment_handler_id i = None)"

lemma validate_payment_intent_Nil: "validate_payment_intent i = [] \<longleftrightarrow> payment_intent_ok i"
  by (auto simp: validate_payment_intent_def payment_intent_ok_def not_less)

text \<open>
  A checkout request passes validation exactly when tenant, merchant and idempotency key are
  present, the currency has three bytes, the cart version is positive, and the payment intent is well
  formed; in particular an accepted MPP intent names method and intent and carries no AP2 material.
\<close>

theorem validate_checkout_request_iff:
  "vr_valid (validate_checkout_request r) \<longleftrightarrow>
     cr_tenant_id r \<noteq> [] \<and> cr_merchant_id r \<noteq> [] \<and> length (cr_currency r) = 3 \<and>
     cr_cart_version r \<noteq> 0 \<and> cr_idempotency_key r \<noteq> [] \<and>
     payment_intent_ok (cr_payment_intent r)"
  by (auto simp: checkout_request_errors_def validate_payment_intent_Nil bad_currency_def)

section \<open>Policy (\<open>policy.rs\<close>)\<close>

record policy_engine =
  pe_max_total_minor :: "i64 option"
  pe_blocked_country_codes :: "string list"
  pe_require_payment_reference :: bool

definition policy_default :: policy_engine where
  "policy_default = \<lparr>pe_max_total_minor = None, pe_blocked_country_codes = [],
                     pe_require_payment_reference = True\<rparr>"

datatype policy_check_result = Allowed | PolicyRejected "string list"

text \<open>Decimal rendering of an \<open>i64\<close> by \<open>format!\<close>.\<close>

fun show_nat :: "nat \<Rightarrow> string" where
  "show_nat n = (if n < 10 then [char_of (48 + n)] else show_nat (n div 10) @ [char_of (48 + n mod 10)])"

declare show_nat.simps [simp del]

definition show_int :: "int \<Rightarrow> string" where
  "show_int i = (if i < 0 then CHR ''-'' # show_nat (nat (- i)) else show_nat (nat i))"

definition country_blocked :: "policy_engine \<Rightarrow> checkout_request \<Rightarrow> string option" where
  "country_blocked pe r =
     (case Option.bind (cr_location r) lh_country_code of
        Some cc \<Rightarrow> (if list_ex (\<lambda>b. eq_ignore_ascii_case b cc) (pe_blocked_country_codes pe)
                    then Some cc else None)
      | None \<Rightarrow> None)"

definition policy_errors :: "policy_engine \<Rightarrow> checkout_request \<Rightarrow> i64 \<Rightarrow> string list" where
  "policy_errors pe r total_minor =
     (case pe_max_total_minor pe of
        Some m \<Rightarrow> push_if (total_minor > m)
          (''total '' @ show_int total_minor @ '' exceeds max allowed '' @ show_int m)
      | None \<Rightarrow> [])
     @ (case country_blocked pe r of Some cc \<Rightarrow> [''country '' @ cc @ '' is not allowed''] | None \<Rightarrow> [])
     @ push_if (pe_require_payment_reference pe \<and> pi_token_or_reference (cr_payment_intent r) = [])
         ''payment token or reference required''"

definition check_checkout ::
  "policy_engine \<Rightarrow> checkout_request \<Rightarrow> i64 \<Rightarrow> policy_check_result" where
  "check_checkout pe r total_minor =
     (let errors = policy_errors pe r total_minor
      in if errors = [] then Allowed else PolicyRejected errors)"

lemma check_checkout_Allowed: "check_checkout pe r t = Allowed \<longleftrightarrow> policy_errors pe r t = []"
  by (simp add: check_checkout_def Let_def)

text \<open>
  The policy engine lets a checkout through exactly when the total is within the configured
  maximum, the request names no blocked country (compared without regard to ASCII case), and a payment
  reference is present when one is required.
\<close>

theorem check_checkout_allowed_iff:
  "check_checkout pe r t = Allowed \<longleftrightarrow>
     (\<forall>m. pe_max_total_minor pe = Some m \<longrightarrow> t \<le> m) \<and>
     (\<forall>loc cc. cr_location r = Some loc \<longrightarrow> lh_country_code loc = Some cc \<longrightarrow>
        (\<forall>b \<in> set (pe_blocked_country_codes pe). \<not> eq_ignore_ascii_case b cc)) \<and>
     (pe_require_payment_reference pe \<longrightarrow> pi_token_or_reference (cr_payment_intent r) \<noteq> [])"
proof -
  have blocked: "country_blocked pe r = None \<longleftrightarrow>
    (\<forall>loc cc. cr_location r = Some loc \<longrightarrow> lh_country_code loc = Some cc \<longrightarrow>
        (\<forall>b \<in> set (pe_blocked_country_codes pe). \<not> eq_ignore_ascii_case b cc))"
    by (cases "cr_location r"; cases "lh_country_code (the (cr_location r))")
      (auto simp: country_blocked_def list_ex_iff)
  have max_ok: "(case pe_max_total_minor pe of
        Some m \<Rightarrow> push_if (t > m) (''total '' @ show_int t @ '' exceeds max allowed '' @ show_int m)
      | None \<Rightarrow> []) = [] \<longleftrightarrow> (\<forall>m. pe_max_total_minor pe = Some m \<longrightarrow> t \<le> m)"
    by (auto simp: not_less split: option.splits)
  have country_ok: "(case country_blocked pe r of Some cc \<Rightarrow> [''country '' @ cc @ '' is not allowed'']
      | None \<Rightarrow> []) = [] \<longleftrightarrow> country_blocked pe r = None"
    by (auto split: option.splits)
  show ?thesis
    unfolding check_checkout_Allowed policy_errors_def append_is_Nil_conv max_ok country_ok blocked
    by simp
qed

theorem check_checkout_allowed_iff_witness:
  "check_checkout \<lparr>pe_max_total_minor = Some 5000, pe_blocked_country_codes = [''ZZ''],
      pe_require_payment_reference = True\<rparr> sample_request 2200 = Allowed"
  by (subst check_checkout_allowed_iff) (simp add: sample_defs)

end
