(* ===== verification/Idempotency.thy ===== *)
theory Idempotency
  imports Contract
begin

text \<open>
  Idempotency and in-flight deduplication (\<open>orchestrator-runtime/src/idempotency.rs\<close>, the trait
  \<open>IdempotencyStore\<close> of \<open>store_traits.rs\<close> and \<open>store_error.rs\<close>): keys, entries, the in-memory store,
  and the contract of the trait as a locale. The client lemmas of the locale are about histories, that
  is, about any interleaving of the calls of concurrent requests: every call is one atomic step under
  the store's lock.
\<close>

datatype store_error = StoreError string

record idempotency_key =
  ik_tenant_id :: string
  ik_merchant_id :: string
  ik_key :: string

definition ik_from_parts :: "string \<Rightarrow> string \<Rightarrow> string \<Rightarrow> idempotency_key" where
  "ik_from_parts tenant_id merchant_id key =
     \<lparr>ik_tenant_id = tenant_id, ik_merchant_id = merchant_id, ik_key = key\<rparr>"

datatype idempotency_state = InFlight | IdemCompleted transaction_result

type_synonym 'k idempotency_map = "'k \<rightharpoonup> idempotency_state"

section \<open>The in-memory store\<close>

definition mem_claim ::
  "'k \<Rightarrow> ('k idempotency_map, store_error, idempotency_state option) op" where
  "mem_claim key m =
     (case m key of
        Some st \<Rightarrow> (Inr (Some st), m)
      | None \<Rightarrow> (Inr None, m(key \<mapsto> InFlight)))"

definition mem_complete ::
  "'k \<Rightarrow> transaction_result \<Rightarrow> ('k idempotency_map, store_error, unit) op" where
  "mem_complete key result m = (Inr (), m(key \<mapsto> IdemCompleted result))"

definition mem_release :: "'k \<Rightarrow> ('k idempotency_map, store_error, unit) op" where
  "mem_release key m = (Inr (), if m key = Some InFlight then m(key := None) else m)"

section \<open>Histories\<close>

datatype 'k idem_ev =
    EvClaim 'k "idempotency_state option"
  | EvComplete 'k transaction_result
  | EvRelease 'k

text \<open>
  \<open>idem_hist claim complete release s es\<close>: the calls \<open>es\<close>, in this order and with these results, can
  happen from state \<open>s\<close>.
\<close>

fun idem_hist ::
  "('k \<Rightarrow> ('s, 'e, idempotency_state option) op) \<Rightarrow> ('k \<Rightarrow> transaction_result \<Rightarrow> ('s, 'e, unit) op) \<Rightarrow>
   ('k \<Rightarrow> ('s, 'e, unit) op) \<Rightarrow> 's \<Rightarrow> 'k idem_ev list \<Rightarrow> bool" where
  "idem_hist cl co re s [] = True"
| "idem_hist cl co re s (EvClaim k r # es) =
     (case cl k s of (Inr r', t) \<Rightarrow> r' = r \<and> idem_hist cl co re t es | (Inl _, _) \<Rightarrow> False)"
| "idem_hist cl co re s (EvComplete k v # es) =
     (case co k v s of (Inr _, t) \<Rightarrow> idem_hist cl co re t es | (Inl _, _) \<Rightarrow> False)"
| "idem_hist cl co re s (EvRelease k # es) =
     (case re k s of (Inr _, t) \<Rightarrow> idem_hist cl co re t es | (Inl _, _) \<Rightarrow> False)"

section \<open>The contract\<close>

text \<open>
  The weaker contract that every backend keeps: an outcome, once stored, is what a claim answers and
  what calls for other keys, and releases, leave in place.
\<close>

locale outcome_store =
  fixes lookup :: "'s \<Rightarrow> 'k \<Rightarrow> idempotency_state option"
    and claim :: "'k \<Rightarrow> ('s, 'e, idempotency_state option) op"
    and complete :: "'k \<Rightarrow> transaction_result \<Rightarrow> ('s, 'e, unit) op"
    and release :: "'k \<Rightarrow> ('s, 'e, unit) op"
  assumes claim_outcome: "claim k s = (Inr r, t) \<Longrightarrow> lookup s k = Some (IdemCompleted v) \<Longrightarrow>
      r = Some (IdemCompleted v)"
    and claim_keeps: "claim k' s = (Inr r, t) \<Longrightarrow> lookup s k = Some (IdemCompleted v) \<Longrightarrow>
      lookup t k = Some (IdemCompleted v)"
    and complete_keeps: "complete k' w s = (Inr u, t) \<Longrightarrow> k' \<noteq> k \<Longrightarrow>
      lookup s k = Some (IdemCompleted v) \<Longrightarrow> lookup t k = Some (IdemCompleted v)"
    and release_keeps: "release k' s = (Inr u, t) \<Longrightarrow> lookup s k = Some (IdemCompleted v) \<Longrightarrow>
      lookup t k = Some (IdemCompleted v)"
begin

text \<open>A completed result is what every later claim of the key sees, whatever happens to other keys.\<close>

lemma hist_completed_stable:
  assumes "idem_hist claim complete release s (es @ EvClaim k r # fs)"
    and "lookup s k = Some (IdemCompleted v)"
    and "\<forall>w. EvComplete k w \<notin> set es"
  shows "r = Some (IdemCompleted v)"
  using assms
proof (induction es arbitrary: s)
  case Nil
  then show ?case by (auto dest: claim_outcome split: prod.splits sum.splits)
next
  case (Cons e es)
  have keep: "\<forall>w. EvComplete k w \<notin> set es" using Cons.prems(3) by simp
  have other: "k' \<noteq> k" if "e = EvComplete k' w" for k' w using Cons.prems(3) that by auto
  obtain t where h: "idem_hist claim complete release t (es @ EvClaim k r # fs)"
    and l: "lookup t k = Some (IdemCompleted v)"
    using Cons.prems(1,2) other
    by (cases e) (auto dest: claim_keeps complete_keeps release_keeps split: prod.splits sum.splits)
  from Cons.IH [OF h] l Cons.prems(2) keep show ?case by simp
qed

end

locale idempotency_store =
  fixes lookup :: "'s \<Rightarrow> 'k \<Rightarrow> idempotency_state option"
    and claim :: "'k \<Rightarrow> ('s, 'e, idempotency_state option) op"
    and complete :: "'k \<Rightarrow> transaction_result \<Rightarrow> ('s, 'e, unit) op"
    and release :: "'k \<Rightarrow> ('s, 'e, unit) op"
  assumes claim_result: "claim k s = (Inr r, t) \<Longrightarrow> r = lookup s k"
    and claim_lookup: "claim k s = (Inr r, t) \<Longrightarrow>
      lookup t = (if lookup s k = None then (lookup s)(k \<mapsto> InFlight) else lookup s)"
    and complete_lookup: "complete k v s = (Inr u, t) \<Longrightarrow> lookup t = (lookup s)(k \<mapsto> IdemCompleted v)"
    and release_lookup: "release k s = (Inr u, t) \<Longrightarrow>
      lookup t = (if lookup s k = Some InFlight then (lookup s)(k := None) else lookup s)"
begin

text \<open>The contract makes a claim that wins leave its key taken.\<close>

lemma claim_takes: "claim k s = (Inr r, t) \<Longrightarrow> lookup t k \<noteq> None"
  by (frule claim_lookup) (auto split: if_splits)

lemma hist_taken:
  assumes "idem_hist claim complete release s (es @ EvClaim k None # fs)" "lookup s k \<noteq> None"
  shows "EvRelease k \<in> set es"
  using assms
proof (induction es arbitrary: s)
  case Nil
  then show ?case by (auto dest: claim_result split: prod.splits sum.splits)
next
  case (Cons e es)
  show ?case
  proof (cases e)
    case (EvClaim k' r)
    with Cons.prems(1) obtain t where t: "claim k' s = (Inr r, t)"
      and h: "idem_hist claim complete release t (es @ EvClaim k None # fs)"
      by (auto split: prod.splits sum.splits)
    have "lookup t k \<noteq> None" using claim_lookup [OF t] Cons.prems(2) by auto
    from Cons.IH [OF h this] show ?thesis by simp
  next
    case (EvComplete k' v)
    with Cons.prems(1) obtain u t where t: "complete k' v s = (Inr u, t)"
      and h: "idem_hist claim complete release t (es @ EvClaim k None # fs)"
      by (auto split: prod.splits sum.splits)
    have "lookup t k \<noteq> None" using complete_lookup [OF t] Cons.prems(2) by auto
    from Cons.IH [OF h this] show ?thesis by simp
  next
    case (EvRelease k')
    show ?thesis
    proof (cases "k' = k")
      case True
      with EvRelease show ?thesis by simp
    next
      case False
      from EvRelease Cons.prems(1) obtain u t where t: "release k' s = (Inr u, t)"
        and h: "idem_hist claim complete release t (es @ EvClaim k None # fs)"
        by (auto split: prod.splits sum.splits)
      have "lookup t k \<noteq> None" using release_lookup [OF t] Cons.prems(2) False by auto
      from Cons.IH [OF h this] show ?thesis by simp
    qed
  qed
qed

lemma hist_exclusive:
  assumes "idem_hist claim complete release s
             (es @ EvClaim k None # fs @ EvClaim k None # gs)"
  shows "EvRelease k \<in> set fs"
  using assms
proof (induction es arbitrary: s)
  case Nil
  then obtain t where "claim k s = (Inr None, t)"
    and "idem_hist claim complete release t (fs @ EvClaim k None # gs)"
    by (auto split: prod.splits sum.splits)
  then show ?case using claim_takes hist_taken by blast
next
  case (Cons e es)
  then show ?case by (cases e) (auto split: prod.splits sum.splits)
qed

end

sublocale idempotency_store \<subseteq> outcome_store
proof
  fix k k' s r t v
  assume "claim k' s = (Inr r, t)" "lookup s k = Some (IdemCompleted v)"
  then show "lookup t k = Some (IdemCompleted v)" by (cases "k' = k") (auto dest: claim_lookup)
next
  fix k k' s u t v
  assume "release k' s = (Inr u, t)" "lookup s k = Some (IdemCompleted v)"
  then show "lookup t k = Some (IdemCompleted v)" by (cases "k' = k") (auto dest: release_lookup)
qed (auto dest: claim_result complete_lookup)

interpretation mem_idem: idempotency_store "\<lambda>m k. m k" mem_claim mem_complete mem_release
  by unfold_locales
    (auto simp: mem_claim_def mem_complete_def mem_release_def split: option.splits)

lemma mem_claim_total: "\<exists>r t. mem_claim k m = (Inr r, t)"
  by (simp add: mem_claim_def split: option.splits)

section \<open>Properties\<close>

text \<open>
  C19: in-flight deduplication. Whatever the interleaving of claims, completions and releases by
  concurrent requests, two claims of the same key can both win (both see no entry) only if a release
  of that key lies between them: at most one request executes a given key at a time.
\<close>

theorem idempotency_claim_exclusive:
  assumes "idem_hist mem_claim mem_complete mem_release m
             (es @ EvClaim k None # fs @ EvClaim k None # gs)"
  shows "EvRelease k \<in> set fs"
  using assms by (rule mem_idem.hist_exclusive)

theorem idempotency_claim_exclusive_witness:
  "EvRelease (1 :: nat) \<in> set [EvClaim 1 (Some InFlight), EvClaim 2 None, EvRelease 1]"
  by (rule idempotency_claim_exclusive [of Map.empty "[]" 1 _ "[]"])
    (simp add: mem_claim_def mem_release_def)

text \<open>
  A completed outcome is final. Once a key carries a completed result, every later claim of it
  returns that result, across any history of other calls, until somebody completes the same key
  again: releases never discard a completed outcome.
\<close>

theorem idempotency_completed_stable:
  assumes "idem_hist mem_claim mem_complete mem_release m (es @ EvClaim k r # fs)"
    and "m k = Some (IdemCompleted v)"
    and "\<forall>w. EvComplete k w \<notin> set es"
  shows "r = Some (IdemCompleted v)"
  using assms by (rule mem_idem.hist_completed_stable)

theorem idempotency_completed_stable_witness:
  "\<exists>v. Some (IdemCompleted v) = Some (IdemCompleted v) \<and>
       idem_hist mem_claim mem_complete mem_release [1 :: nat \<mapsto> IdemCompleted v]
         ([EvRelease 1, EvClaim 2 None] @ EvClaim 1 (Some (IdemCompleted v)) # [])"
proof -
  fix v
  have h: "idem_hist mem_claim mem_complete mem_release [1 :: nat \<mapsto> IdemCompleted v]
         ([EvRelease 1, EvClaim 2 None] @ EvClaim 1 (Some (IdemCompleted v)) # [])"
    by (simp add: mem_claim_def mem_release_def)
  have "Some (IdemCompleted v) = Some (IdemCompleted v)"
    by (rule idempotency_completed_stable [OF h]) simp_all
  with h show ?thesis by blast
qed

end
