(* ===== verification/Effects.thy ===== *)
theory Effects
  imports Idempotency "HOL-Library.Multiset"
begin

text \<open>
  Reliable external effects (\<open>orchestrator-runtime/src/effects.rs\<close>): outbox messages, the in-memory
  outbox queue with the default \<open>claim\<close>/\<open>ack\<close>/\<open>release\<close> of the trait \<open>OutboxStore\<close>, the inbox and AP2
  mandate deduplication and the dead-letter store; and the one pass over the outbox of
  \<open>Runner::process_outbox_once_reporting\<close>, over whatever backend it is given, as the code calls it
  through trait objects. The contracts of the traits are the locales \<open>dedupe_store\<close> and
  \<open>outbox_backend\<close>.
\<close>

record outbox_message =
  om_id :: string
  om_topic :: string
  om_payload :: string
  om_correlation_id :: string
  om_attempts :: u32
  om_tenant_id :: "string option"

type_synonym outbox = "outbox_message list"
type_synonym dead_letter = "(string \<times> outbox_message) list"

section \<open>Outbox queue\<close>

definition outbox_enqueue :: "outbox_message \<Rightarrow> outbox \<Rightarrow> outbox" where
  "outbox_enqueue msg q = q @ [msg]"

definition outbox_dequeue :: "outbox \<Rightarrow> outbox_message option \<times> outbox" where
  "outbox_dequeue q = (case q of [] \<Rightarrow> (None, []) | m # ms \<Rightarrow> (Some m, ms))"

definition outbox_len :: "outbox \<Rightarrow> nat" where
  "outbox_len q = length q"

text \<open>The default methods of the trait: \<open>claim\<close> removes, \<open>ack\<close> does nothing, \<open>release\<close> enqueues.\<close>

definition outbox_claim :: "outbox \<Rightarrow> outbox_message option \<times> outbox" where
  "outbox_claim q = outbox_dequeue q"

definition outbox_ack :: "string \<Rightarrow> outbox \<Rightarrow> outbox" where
  "outbox_ack message_id q = q"

definition outbox_release :: "outbox_message \<Rightarrow> outbox \<Rightarrow> outbox" where
  "outbox_release msg q = outbox_enqueue msg q"

section \<open>Dead-letter store\<close>

definition dead_letter_put :: "outbox_message \<Rightarrow> dead_letter \<Rightarrow> dead_letter" where
  "dead_letter_put msg d = AList.update (om_id msg) msg d"

definition dead_letter_len :: "dead_letter \<Rightarrow> nat" where
  "dead_letter_len d = length d"

definition dead_letter_list :: "dead_letter \<Rightarrow> outbox_message list" where
  "dead_letter_list d = map snd d"

definition dead_letter_take :: "string \<Rightarrow> dead_letter \<Rightarrow> outbox_message option \<times> dead_letter" where
  "dead_letter_take message_id d = (map_of d message_id, AList.delete message_id d)"

section \<open>Deduplication: inbox and mandates\<close>

definition accept_once :: "string \<Rightarrow> (string set, store_error, bool) op" where
  "accept_once message_id seen = (Inr (message_id \<notin> seen), insert message_id seen)"

definition mandate_retain :: "i64 \<Rightarrow> (string \<rightharpoonup> i64) \<Rightarrow> (string \<rightharpoonup> i64)" where
  "mandate_retain now m = (\<lambda>k. case m k of Some e \<Rightarrow> if e > now then Some e else None | None \<Rightarrow> None)"

definition record_mandate ::
  "i64 \<Rightarrow> string \<Rightarrow> i64 \<Rightarrow> (string \<rightharpoonup> i64, store_error, bool) op" where
  "record_mandate now mandate_id expires_at m =
     (let live = mandate_retain now m
      in if live mandate_id \<noteq> None then (Inr False, live)
         else (Inr True, live(mandate_id \<mapsto> expires_at)))"

text \<open>A history of \<open>accept\<close> calls with their answers.\<close>

fun accept_hist ::
  "('k \<Rightarrow> ('s, 'e, bool) op) \<Rightarrow> 's \<Rightarrow> ('k \<times> bool) list \<Rightarrow> bool" where
  "accept_hist acc s [] = True"
| "accept_hist acc s ((k, b) # es) =
     (case acc k s of (Inr b', t) \<Rightarrow> b' = b \<and> accept_hist acc t es | (Inl _, _) \<Rightarrow> False)"

locale dedupe_store =
  fixes seen :: "'s \<Rightarrow> 'k set"
    and accept :: "'k \<Rightarrow> ('s, 'e, bool) op"
  assumes accept_answer: "accept k s = (Inr b, t) \<Longrightarrow> b \<longleftrightarrow> k \<notin> seen s"
    and accept_seen: "accept k s = (Inr b, t) \<Longrightarrow> seen t = insert k (seen s)"
begin

lemma hist_seen_never:
  "accept_hist accept s es \<Longrightarrow> k \<in> seen s \<Longrightarrow> (k, True) \<notin> set es"
proof (induction es arbitrary: s)
  case Nil
  then show ?case by simp
next
  case (Cons e es)
  obtain k' b where e: "e = (k', b)" by force
  with Cons.prems(1) obtain t where t: "accept k' s = (Inr b, t)" "accept_hist accept t es"
    by (auto split: prod.splits sum.splits)
  have "k \<in> seen t" using accept_seen [OF t(1)] Cons.prems(2) by simp
  then have "(k, True) \<notin> set es" using Cons.IH t(2) by blast
  moreover have "e \<noteq> (k, True)" using accept_answer [OF t(1)] Cons.prems(2) e by auto
  ultimately show ?case by simp
qed

lemma hist_first_only:
  assumes "accept_hist accept s (es @ (k, True) # fs)"
  shows "(k, True) \<notin> set es \<and> (k, True) \<notin> set fs"
  using assms
proof (induction es arbitrary: s)
  case Nil
  then obtain t where t: "accept k s = (Inr True, t)" "accept_hist accept t fs"
    by (auto split: prod.splits sum.splits)
  have "k \<in> seen t" using accept_seen [OF t(1)] by simp
  with t(2) show ?case using hist_seen_never by auto
next
  case (Cons e es)
  obtain k' b where e: "e = (k', b)" by force
  with Cons.prems obtain t where t: "accept k' s = (Inr b, t)"
    "accept_hist accept t (es @ (k, True) # fs)"
    by (auto split: prod.splits sum.splits)
  have "k \<notin> seen t" using hist_seen_never [OF t(2), of k] by auto
  then have "e \<noteq> (k, True)" using accept_seen [OF t(1)] e by auto
  with Cons.IH [OF t(2)] show ?case by simp
qed

end

interpretation mem_inbox: dedupe_store "\<lambda>s. s" accept_once
  by unfold_locales (auto simp: accept_once_def)

section \<open>One pass over the outbox\<close>

datatype outbox_outcome = Idle | Delivered | Retrying u32 | DeadLettered

text \<open>
  A deliverer answers whether the delivery failed (\<open>deliver(..).is_err()\<close>); without a configured one
  every attempt counts as failed.
\<close>

type_synonym 's deliverer = "outbox_message \<Rightarrow> 's \<Rightarrow> bool \<times> 's"

definition attempt_delivery ::
  "'s deliverer option \<Rightarrow> outbox_message \<Rightarrow> ('s, 'e, bool) op" where
  "attempt_delivery deliverer msg s =
     (case deliverer of
        Some deliver \<Rightarrow> (case deliver msg s of (failed, t) \<Rightarrow> (Inr failed, t))
      | None \<Rightarrow> (Inr True, s))"

definition settle_delivery ::
  "(string \<Rightarrow> ('s, 'e, unit) op) \<Rightarrow> (outbox_message \<Rightarrow> ('s, 'e, unit) op) \<Rightarrow>
   (outbox_message \<Rightarrow> ('s, 'e, unit) op) \<Rightarrow> u32 \<Rightarrow> outbox_message \<Rightarrow> bool \<Rightarrow>
   ('s, 'e, outbox_outcome) op" where
  "settle_delivery ack release dl_put max_attempts msg delivery_failed =
     (if delivery_failed then
        (let msg = msg\<lparr>om_attempts := om_attempts msg + 1\<rparr> in
         if om_attempts msg > max_attempts then
           op_seq (dl_put msg) (op_seq (ack (om_id msg)) (op_return DeadLettered))
         else op_seq (release msg) (op_return (Retrying (om_attempts msg))))
      else op_seq (ack (om_id msg)) (op_return Delivered))"

definition process_outbox_once_reporting ::
  "('s, 'e, outbox_message option) op \<Rightarrow> (string \<Rightarrow> ('s, 'e, unit) op) \<Rightarrow>
   (outbox_message \<Rightarrow> ('s, 'e, unit) op) \<Rightarrow> (outbox_message \<Rightarrow> ('s, 'e, unit) op) \<Rightarrow>
   's deliverer option \<Rightarrow> u32 \<Rightarrow> ('s, 'e, outbox_outcome) op" where
  "process_outbox_once_reporting claim ack release dl_put deliverer max_attempts =
     op_bind claim (\<lambda>c. case c of
        None \<Rightarrow> op_return Idle
      | Some msg \<Rightarrow> op_bind (attempt_delivery deliverer msg)
                      (settle_delivery ack release dl_put max_attempts msg))"

lemma attempt_delivery_total: "\<exists>b t. attempt_delivery deliverer msg s = (Inr b, t)"
  by (auto simp: attempt_delivery_def split: option.splits prod.splits)

lemmas op_steps = op_seq_def op_bind_Inr op_return_def

text \<open>
  What the pass relies on. \<open>held\<close> is what the outbox still owns, \<open>claimed s m\<close> says that \<open>m\<close> is out
  for delivery and \<open>rest s m\<close> what the outbox owns besides it: a backend that removes on claim and one
  that leases both fit.
\<close>

locale outbox_backend =
  fixes held :: "'s \<Rightarrow> outbox_message multiset"
    and dead :: "'s \<Rightarrow> string \<Rightarrow> outbox_message option"
    and invar :: "'s \<Rightarrow> bool"
    and claimed :: "'s \<Rightarrow> outbox_message \<Rightarrow> bool"
    and rest :: "'s \<Rightarrow> outbox_message \<Rightarrow> outbox_message multiset"
    and claim :: "('s, 'e, outbox_message option) op"
    and ack :: "string \<Rightarrow> ('s, 'e, unit) op"
    and release :: "outbox_message \<Rightarrow> ('s, 'e, unit) op"
    and dl_put :: "outbox_message \<Rightarrow> ('s, 'e, unit) op"
    and deliverer :: "'s deliverer option"
  assumes claim_none: "invar s \<Longrightarrow> claim s = (Inr None, t) \<Longrightarrow>
      invar t \<and> held t = held s \<and> dead t = dead s"
    and claim_some: "invar s \<Longrightarrow> claim s = (Inr (Some m), t) \<Longrightarrow>
      claimed t m \<and> held s = add_mset m (rest t m) \<and> dead t = dead s"
    and deliver_frame: "deliverer = Some d \<Longrightarrow> claimed s m \<Longrightarrow> d m s = (b, t) \<Longrightarrow>
      claimed t m \<and> rest t m = rest s m \<and> dead t = dead s"
    and ack_law: "claimed s m \<Longrightarrow> ack (om_id m) s = (Inr u, t) \<Longrightarrow>
      invar t \<and> held t = rest s m \<and> dead t = dead s"
    and release_law: "claimed s m \<Longrightarrow> om_id m' = om_id m \<Longrightarrow> release m' s = (Inr u, t) \<Longrightarrow>
      invar t \<and> held t = add_mset m' (rest s m) \<and> dead t = dead s"
    and dl_put_law: "claimed s m \<Longrightarrow> om_id m' = om_id m \<Longrightarrow> dl_put m' s = (Inr u, t) \<Longrightarrow>
      claimed t m \<and> rest t m = rest s m \<and> dead t = (dead s)(om_id m' \<mapsto> m')"
begin

text \<open>What each outcome did to the messages: none is lost and none is duplicated.\<close>

definition pass_effect ::
  "u32 \<Rightarrow> 's \<Rightarrow> outbox_outcome \<Rightarrow> 's \<Rightarrow> bool" where
  "pass_effect max_attempts s out t \<longleftrightarrow>
     (case out of
        Idle \<Rightarrow> held t = held s \<and> dead t = dead s
      | Delivered \<Rightarrow> (\<exists>m. held s = add_mset m (held t)) \<and> dead t = dead s
      | Retrying n \<Rightarrow> n \<le> max_attempts \<and> dead t = dead s \<and>
          (\<exists>m r. held s = add_mset m r \<and> n = om_attempts m + 1 \<and>
                 held t = add_mset (m\<lparr>om_attempts := n\<rparr>) r)
      | DeadLettered \<Rightarrow> (\<exists>m. held s = add_mset m (held t) \<and> max_attempts < om_attempts m + 1 \<and>
          dead t = (dead s)(om_id m \<mapsto> m\<lparr>om_attempts := om_attempts m + 1\<rparr>)))"

lemma delivery_frame:
  assumes "claimed s m" "attempt_delivery deliverer m s = (Inr b, t)"
  shows "claimed t m \<and> rest t m = rest s m \<and> dead t = dead s"
  using assms deliver_frame [of _ s m b t]
  by (auto simp: attempt_delivery_def split: option.splits prod.splits)

lemma settle_failed:
  assumes cl: "claimed v m"
    and run: "settle_delivery ack release dl_put mx m True v = (Inr out, t)"
  shows "invar t \<and>
    (if mx < om_attempts m + 1
     then out = DeadLettered \<and> held t = rest v m \<and>
          dead t = (dead v)(om_id m \<mapsto> m\<lparr>om_attempts := om_attempts m + 1\<rparr>)
     else out = Retrying (om_attempts m + 1) \<and> dead t = dead v \<and>
          held t = add_mset (m\<lparr>om_attempts := om_attempts m + 1\<rparr>) (rest v m))"
proof (cases "mx < om_attempts m + 1")
  case True
  let ?m = "m\<lparr>om_attempts := om_attempts m + 1\<rparr>"
  from True run obtain x y w where w: "dl_put ?m v = (Inr x, w)" "ack (om_id m) w = (Inr y, t)"
    "out = DeadLettered"
    by (auto simp: settle_delivery_def Let_def op_steps)
  from dl_put_law [OF cl _ w(1)] have d: "claimed w m" "rest w m = rest v m"
    "dead w = (dead v)(om_id m \<mapsto> ?m)" by simp_all
  from ack_law [OF d(1) w(2)] d w(3) True show ?thesis by simp
next
  case False
  with run obtain x where "release (m\<lparr>om_attempts := om_attempts m + 1\<rparr>) v = (Inr x, t)"
    "out = Retrying (om_attempts m + 1)"
    by (auto simp: settle_delivery_def Let_def op_steps)
  with release_law [OF cl _ this(1)] False show ?thesis by simp
qed

lemma settle_ok:
  assumes "claimed v m" "settle_delivery ack release dl_put mx m False v = (Inr out, t)"
  shows "invar t \<and> out = Delivered \<and> held t = rest v m \<and> dead t = dead v"
  using assms by (auto simp: settle_delivery_def op_steps dest: ack_law)

lemma pass_conserves:
  assumes "invar s"
    and run: "process_outbox_once_reporting claim ack release dl_put deliverer mx s = (Inr out, t)"
  shows "invar t \<and> pass_effect mx s out t"
proof -
  from run obtain c u where cu: "claim s = (Inr c, u)"
    and body: "(case c of None \<Rightarrow> op_return Idle | Some m \<Rightarrow> op_bind (attempt_delivery deliverer m)
                  (settle_delivery ack release dl_put mx m)) u = (Inr out, t)"
    by (auto simp: process_outbox_once_reporting_def op_bind_Inr)
  show ?thesis
  proof (cases c)
    case None
    with body cu claim_none [OF assms(1)] show ?thesis
      by (auto simp: op_return_def pass_effect_def)
  next
    case (Some m)
    with body obtain b v where b: "attempt_delivery deliverer m u = (Inr b :: 'e + bool, v)"
      and st: "settle_delivery ack release dl_put mx m b v = (Inr out, t)"
      by (auto simp: op_bind_Inr)
    from claim_some [OF assms(1)] cu Some have cl: "claimed u m" "held s = add_mset m (rest u m)"
      "dead u = dead s" by auto
    note fr = delivery_frame [OF cl(1) b]
    show ?thesis
      using settle_ok [of v m mx out t] settle_failed [of v m mx out t] st fr cl
      by (cases b) (auto simp: pass_effect_def not_less split: if_splits)
  qed
qed

end

end
