(* ===== verification/Inventory.thy ===== *)
theory Inventory
  imports Contract
begin

text \<open>
  Inventory reservations with a lease (\<open>orchestrator-runtime/src/inventory.rs\<close>): the in-memory store
  keyed by cart and SKU. The monotonic clock reading the code takes by \<open>Instant::now()\<close> is an argument,
  in milliseconds.
\<close>

datatype reservation_state = Reserved | Expired | Released | Finalized

record reservation_record =
  rr_cart_id :: cart_id
  rr_sku :: string
  rr_quantity :: u32
  rr_state :: reservation_state
  rr_lease_until :: int

type_synonym reservations = "((cart_id \<times> string) \<times> reservation_record) list"

definition reserve ::
  "int \<Rightarrow> cart_id \<Rightarrow> string \<Rightarrow> u32 \<Rightarrow> int \<Rightarrow> reservations \<Rightarrow> reservations" where
  "reserve now cart_id sku quantity ttl_secs inner =
     AList.update (cart_id, sku)
       \<lparr>rr_cart_id = cart_id, rr_sku = sku, rr_quantity = quantity, rr_state = Reserved,
        rr_lease_until = now + 1000 * ttl_secs\<rparr> inner"

text \<open>The \<open>for record in guard.values_mut().filter(..)\<close> loops of \<open>finalize_cart\<close> and \<open>release_cart\<close>.\<close>

definition set_cart_reservations ::
  "reservation_state \<Rightarrow> cart_id \<Rightarrow> reservations \<Rightarrow> reservations" where
  "set_cart_reservations st cart_id inner =
     map_vals (\<lambda>r. if rr_cart_id r = cart_id then r\<lparr>rr_state := st\<rparr> else r) inner"

definition finalize_cart :: "cart_id \<Rightarrow> reservations \<Rightarrow> reservations" where
  "finalize_cart cart_id inner = set_cart_reservations Finalized cart_id inner"

definition release_cart :: "cart_id \<Rightarrow> reservations \<Rightarrow> reservations" where
  "release_cart cart_id inner = set_cart_reservations Released cart_id inner"

definition lease_expired :: "int \<Rightarrow> reservation_record \<Rightarrow> bool" where
  "lease_expired now r \<longleftrightarrow> rr_state r = Reserved \<and> rr_lease_until r \<le> now"

definition sweep_expired :: "int \<Rightarrow> reservations \<Rightarrow> nat \<times> reservations" where
  "sweep_expired now inner =
     (length (filter (\<lambda>(_, r). lease_expired now r) inner),
      map_vals (\<lambda>r. if lease_expired now r then r\<lparr>rr_state := Expired\<rparr> else r) inner)"

definition by_cart :: "cart_id \<Rightarrow> reservations \<Rightarrow> reservation_record list" where
  "by_cart cart_id inner = filter (\<lambda>r. rr_cart_id r = cart_id) (map snd inner)"

section \<open>Invariant and behaviour\<close>

text \<open>Keys are distinct and every record is filed under its own cart and SKU.\<close>

definition reservations_ok :: "reservations \<Rightarrow> bool" where
  "reservations_ok = keyed (\<lambda>r. (rr_cart_id r, rr_sku r))"

lemma reserve_ok: "reservations_ok inner \<Longrightarrow> reservations_ok (reserve now c s q ttl inner)"
  unfolding reserve_def reservations_ok_def by (rule keyed_update) simp_all

lemma set_cart_reservations_ok:
  "reservations_ok inner \<Longrightarrow> reservations_ok (set_cart_reservations st c inner)"
  unfolding set_cart_reservations_def reservations_ok_def by (rule keyed_map_vals) simp_all

lemma sweep_expired_ok:
  "reservations_ok inner \<Longrightarrow> reservations_ok (snd (sweep_expired now inner))"
  unfolding sweep_expired_def snd_conv reservations_ok_def by (rule keyed_map_vals) simp_all

lemma by_cart_set_cart_reservations:
  "by_cart c' (set_cart_reservations st c inner) =
     (if c' = c then map (\<lambda>r. r\<lparr>rr_state := st\<rparr>) (by_cart c inner) else by_cart c' inner)"
  by (induction inner) (auto simp: by_cart_def set_cart_reservations_def map_vals_def)

lemma by_cart_reserve_mem:
  assumes "reservations_ok inner"
  shows "r \<in> set (by_cart c (reserve now c s q ttl inner)) \<longleftrightarrow>
    (r = \<lparr>rr_cart_id = c, rr_sku = s, rr_quantity = q, rr_state = Reserved,
          rr_lease_until = now + 1000 * ttl\<rparr> \<or> r \<in> set (by_cart c inner) \<and> rr_sku r \<noteq> s)"
  using assms keyed_update_mem [of "\<lambda>r. (rr_cart_id r, rr_sku r)" inner _ "(c, s)" r]
  by (force simp: by_cart_def reserve_def reservations_ok_def)

text \<open>A sweep expires exactly the reservations whose lease has run out, and counts them.\<close>

lemma sweep_expired_lookup:
  "map_of (snd (sweep_expired now inner)) k =
     map_option (\<lambda>r. if lease_expired now r then r\<lparr>rr_state := Expired\<rparr> else r) (map_of inner k)"
  by (simp add: sweep_expired_def)

lemma sweep_expired_idem:
  "fst (sweep_expired now (snd (sweep_expired now inner))) = 0"
  by (auto simp: sweep_expired_def map_vals_def lease_expired_def filter_empty_conv split: if_splits)

text \<open>Finalized and released reservations are never expired by a sweep.\<close>

lemma sweep_expired_keeps:
  "map_of inner k = Some r \<Longrightarrow> rr_state r \<noteq> Reserved \<Longrightarrow>
   map_of (snd (sweep_expired now inner)) k = Some r"
  by (simp add: sweep_expired_lookup lease_expired_def)

end
