(* ===== verification/Orders.thy ===== *)
theory Orders
  imports Contract
begin

text \<open>
  The order timeline (\<open>orchestrator-runtime/src/order.rs\<close>), the commit boundary (\<open>commit.rs\<close>) and
  payment state tracking with reconciliation (\<open>payment_state.rs\<close>, \<open>Runner::run_reconciliation\<close>).
\<close>

section \<open>Orders\<close>

type_synonym orders = "(string \<times> order_record) list"

definition order_put :: "order_record \<Rightarrow> orders \<Rightarrow> orders" where
  "order_put r os = AList.update (or_order_id r) r os"

definition order_get :: "string \<Rightarrow> orders \<Rightarrow> order_record option" where
  "order_get order_id os = map_of os order_id"

text \<open>\<open>sort_by_key(Reverse(created_at))\<close> is a stable sort by decreasing time of creation.\<close>

definition list_by_tenant :: "string \<Rightarrow> orders \<Rightarrow> order_record list" where
  "list_by_tenant tenant_id os =
     sort_key (\<lambda>r. - or_created_at r) (filter (\<lambda>r. or_tenant_id r = tenant_id) (map snd os))"

text \<open>The three updates: change the record in place and return a copy, or \<open>None\<close> when it is absent.\<close>

definition order_update ::
  "(order_record \<Rightarrow> order_record) \<Rightarrow> string \<Rightarrow> orders \<Rightarrow> order_record option \<times> orders" where
  "order_update f order_id os =
     (case map_of os order_id of
        Some r \<Rightarrow> (Some (f r), AList.update order_id (f r) os)
      | None \<Rightarrow> (None, os))"

definition append_event :: "string \<Rightarrow> order_event \<Rightarrow> orders \<Rightarrow> order_record option \<times> orders" where
  "append_event order_id e = order_update (\<lambda>r. r\<lparr>or_events := or_events r @ [e]\<rparr>) order_id"

definition add_adjustment ::
  "string \<Rightarrow> order_adjustment \<Rightarrow> orders \<Rightarrow> order_record option \<times> orders" where
  "add_adjustment order_id a = order_update (\<lambda>r. r\<lparr>or_adjustments := or_adjustments r @ [a]\<rparr>) order_id"

definition update_status :: "string \<Rightarrow> order_status \<Rightarrow> orders \<Rightarrow> order_record option \<times> orders" where
  "update_status order_id st = order_update (\<lambda>r. r\<lparr>or_status := st\<rparr>) order_id"

definition orders_ok :: "orders \<Rightarrow> bool" where
  "orders_ok = keyed or_order_id"

lemma orders_ok_put: "orders_ok os \<Longrightarrow> orders_ok (order_put r os)"
  unfolding order_put_def orders_ok_def by (rule keyed_update) simp_all

lemma orders_ok_order_update:
  assumes "orders_ok os" "\<And>r. or_order_id (f r) = or_order_id r"
  shows "orders_ok (snd (order_update f order_id os))"
proof (cases "map_of os order_id")
  case None
  with assms show ?thesis by (simp add: order_update_def)
next
  case (Some r)
  with assms have "or_order_id r = order_id" by (auto simp: orders_ok_def dest: keyed_row)
  with Some assms show ?thesis by (simp add: order_update_def orders_ok_def keyed_update)
qed

text \<open>The list of a tenant: its orders and no other tenant's, newest first.\<close>

lemma list_by_tenant_mem:
  "orders_ok os \<Longrightarrow>
   r \<in> set (list_by_tenant t os) \<longleftrightarrow> order_get (or_order_id r) os = Some r \<and> or_tenant_id r = t"
  using keyed_mem [of or_order_id os r] by (auto simp: list_by_tenant_def order_get_def orders_ok_def)

lemma list_by_tenant_sorted:
  "sorted (map (\<lambda>r. - or_created_at r) (list_by_tenant t os))"
  by (simp add: list_by_tenant_def)

lemma list_by_tenant_other:
  assumes a: "or_tenant_id r \<noteq> t" "order_get (or_order_id r) os = None"
  shows "list_by_tenant t (order_put r os) = list_by_tenant t os"
proof -
  have "AList.update (or_order_id r) r os = os @ [(or_order_id r, r)]"
    using a(2) unfolding order_get_def
    by (induction os) (auto split: if_splits)
  with a(1) show ?thesis by (simp add: list_by_tenant_def order_put_def)
qed

section \<open>Commit boundary\<close>

record commit_record =
  cm_transaction_id :: string
  cm_cart_id :: cart_id
  cm_payment_reference :: "string option"

text \<open>\<open>u\<close> is the rendered fresh UUID of the transaction.\<close>

definition commit_put ::
  "string \<Rightarrow> cart_id \<Rightarrow> string option \<Rightarrow> (cart_id \<rightharpoonup> commit_record) \<Rightarrow>
   commit_record \<times> (cart_id \<rightharpoonup> commit_record)" where
  "commit_put u cart_id payment_reference records =
     (let r = \<lparr>cm_transaction_id = ''txn_'' @ u, cm_cart_id = cart_id,
               cm_payment_reference = payment_reference\<rparr>
      in (r, records(cart_id \<mapsto> r)))"

section \<open>Payment states and reconciliation\<close>

type_synonym payment_states = "string \<rightharpoonup> payment_state"

definition payment_state_put :: "string \<Rightarrow> payment_state \<Rightarrow> payment_states \<Rightarrow> payment_states" where
  "payment_state_put transaction_id st m = m(transaction_id \<mapsto> st)"

record payment_mismatch =
  pm_transaction_id :: string
  pm_our_state :: payment_state
  pm_provider_state :: "payment_state option"

text \<open>One round of the loop: both sides must know the transaction and disagree.\<close>

definition reconcile_one ::
  "payment_state option \<Rightarrow> payment_state option \<Rightarrow> string \<Rightarrow> payment_mismatch list" where
  "reconcile_one our provider txn_id =
     (case (our, provider) of
        (Some our_s, Some prov_s) \<Rightarrow>
          if our_s \<noteq> prov_s
          then [\<lparr>pm_transaction_id = txn_id, pm_our_state = our_s, pm_provider_state = Some prov_s\<rparr>]
          else []
      | _ \<Rightarrow> [])"

lemma reconcile_one_iff:
  "m \<in> set (reconcile_one our prov t) \<longleftrightarrow>
     pm_transaction_id m = t \<and> our = Some (pm_our_state m) \<and> prov = pm_provider_state m \<and>
     prov \<noteq> None \<and> our \<noteq> prov"
  by (cases our; cases prov) (auto simp: reconcile_one_def)

end
