(* ===== verification/Webhooks.thy ===== *)
theory Webhooks
  imports Effects
begin

text \<open>
  Webhook registrations and delivery (\<open>orchestrator-runtime/src/webhooks.rs\<close>). The HTTP client, the
  HMAC and the JSON rendering are libraries: they are the fields of \<open>webhook_env\<close>, and the answer of the
  network to a request may depend on every request sent before. What the deliverer sent is the log it
  returns.
\<close>

record webhook_registration =
  wr_id :: string
  wr_tenant_id :: string
  wr_url :: string
  wr_secret :: string
  wr_event_filter :: "string list option"
  wr_active :: bool

type_synonym webhooks = "(string \<times> webhook_registration) list"

definition register :: "webhook_registration \<Rightarrow> webhooks \<Rightarrow> webhooks" where
  "register registration records = AList.update (wr_id registration) registration records"

definition unregister :: "string \<Rightarrow> webhooks \<Rightarrow> bool \<times> webhooks" where
  "unregister wid records = (map_of records wid \<noteq> None, AList.delete wid records)"

definition webhooks_list_by_tenant :: "string \<Rightarrow> webhooks \<Rightarrow> webhook_registration list" where
  "webhooks_list_by_tenant tenant_id records =
     filter (\<lambda>r. wr_tenant_id r = tenant_id) (map snd records)"

definition webhook_get :: "string \<Rightarrow> webhooks \<Rightarrow> webhook_registration option" where
  "webhook_get wid records = map_of records wid"

definition subscribes :: "webhook_registration \<Rightarrow> string \<Rightarrow> bool" where
  "subscribes r topic \<longleftrightarrow>
     (case wr_event_filter r of None \<Rightarrow> True | Some f \<Rightarrow> list_ex (\<lambda>t. t = topic) f)"

definition list_active_for_topic :: "string \<Rightarrow> string \<Rightarrow> webhooks \<Rightarrow> webhook_registration list" where
  "list_active_for_topic tenant_id topic records =
     filter (\<lambda>r. wr_active r \<and> wr_tenant_id r = tenant_id \<and> subscribes r topic) (map snd records)"

section \<open>Delivery\<close>

record webhook_post =
  wp_url :: string
  wp_message_id :: string
  wp_topic :: string
  wp_signature :: string
  wp_body :: string

datatype post_result = PostStatus u16 | PostFailed string

record webhook_env =
  we_send :: "webhook_post list \<Rightarrow> webhook_post \<Rightarrow> post_result"
  we_hmac :: "string \<Rightarrow> string \<Rightarrow> string"
  we_body :: "string \<Rightarrow> string \<Rightarrow> string \<Rightarrow> string \<Rightarrow> string + string"
  we_show_status :: "u16 \<Rightarrow> string"

definition compute_signature :: "webhook_env \<Rightarrow> string \<Rightarrow> string \<Rightarrow> string" where
  "compute_signature env secret body = we_hmac env secret body"

definition webhook_request ::
  "webhook_env \<Rightarrow> outbox_message \<Rightarrow> string \<Rightarrow> webhook_registration \<Rightarrow> webhook_post" where
  "webhook_request env msg body reg =
     \<lparr>wp_url = wr_url reg, wp_message_id = om_id msg, wp_topic = om_topic msg,
      wp_signature = compute_signature env (wr_secret reg) body, wp_body = body\<rparr>"

text \<open>The error of one attempt, if it failed; \<open>is_success\<close> is a status from 200 to 299.\<close>

definition post_error :: "webhook_env \<Rightarrow> string \<Rightarrow> post_result \<Rightarrow> string option" where
  "post_error env url r =
     (case r of
        PostStatus c \<Rightarrow>
          if 200 \<le> c \<and> c < 300 then None
          else Some (''webhook '' @ url @ '' returned '' @ we_show_status env c)
      | PostFailed e \<Rightarrow> Some (''webhook '' @ url @ '' failed: '' @ e))"

text \<open>The loop over the registrations, with the running \<open>last_error\<close> and the log.\<close>

fun deliver_loop ::
  "webhook_env \<Rightarrow> outbox_message \<Rightarrow> string \<Rightarrow> webhook_registration list \<Rightarrow> string option \<Rightarrow>
   webhook_post list \<Rightarrow> string option \<times> webhook_post list" where
  "deliver_loop env msg body [] last_error log = (last_error, log)"
| "deliver_loop env msg body (reg # regs) last_error log =
     (let p = webhook_request env msg body reg;
          err = post_error env (wr_url reg) (we_send env log p)
      in deliver_loop env msg body regs (if err = None then last_error else err) (log @ [p]))"

definition message_tenant :: "outbox_message \<Rightarrow> string option" where
  "message_tenant msg =
     (case om_tenant_id msg of
        None \<Rightarrow> None
      | Some t \<Rightarrow> if str_trim t = [] then None else Some (str_trim t))"

definition webhook_deliver ::
  "webhook_env \<Rightarrow> webhooks \<Rightarrow> outbox_message \<Rightarrow> webhook_post list \<Rightarrow>
   (string + unit) \<times> webhook_post list" where
  "webhook_deliver env records msg log =
     (case message_tenant msg of
        None \<Rightarrow> (Inr (), log)
      | Some tenant_id \<Rightarrow>
          (let registrations = list_active_for_topic tenant_id (om_topic msg) records in
           if registrations = [] then (Inr (), log)
           else case we_body env (om_id msg) (om_topic msg) (om_payload msg) (om_correlation_id msg) of
                  Inl e \<Rightarrow> (Inl e, log)
                | Inr body \<Rightarrow>
                    (case deliver_loop env msg body registrations None log of
                       (Some err, log') \<Rightarrow> (Inl err, log')
                     | (None, log') \<Rightarrow> (Inr (), log'))))"

lemma deliver_loop_log:
  "snd (deliver_loop env msg body regs le log) = log @ map (webhook_request env msg body) regs"
  by (induction regs arbitrary: le log) (simp_all add: Let_def)

text \<open>
  The loop reports no error exactly when no attempt failed, the network answering each attempt after
  the ones before it.
\<close>

lemma deliver_loop_error_stays:
  "deliver_loop env msg body regs (Some e) log \<noteq> (None, log')"
  by (induction regs arbitrary: e log) (simp_all add: Let_def, metis option.exhaust)

lemma deliver_loop_ok_iff:
  "fst (deliver_loop env msg body regs None log) = None \<longleftrightarrow>
     (\<forall>i < length regs. post_error env (wr_url (regs ! i))
        (we_send env (log @ map (webhook_request env msg body) (take i regs))
                     (webhook_request env msg body (regs ! i))) = None)"
proof (induction regs arbitrary: log)
  case Nil
  show ?case by simp
next
  case (Cons reg regs)
  let ?p = "webhook_request env msg body reg"
  show ?case
  proof (cases "post_error env (wr_url reg) (we_send env log ?p)")
    case None
    with Cons [of "log @ [?p]"] show ?thesis by (simp add: Let_def All_less_Suc2)
  next
    case (Some e)
    have "fst (deliver_loop env msg body regs (Some e) (log @ [?p])) \<noteq> None"
      using deliver_loop_error_stays by (metis prod.collapse)
    with Some show ?thesis by (auto simp: Let_def intro!: exI [of _ 0])
  qed
qed

section \<open>Tenant scoping\<close>

text \<open>
  Webhook fan-out is scoped to the owning tenant. Whatever is registered, every request that
  delivering a message adds to the log goes to an active registration of the message's own (trimmed)
  tenant that subscribes to the topic, signed with that registration's secret; a message without a
  tenant sends nothing at all.
\<close>

theorem webhook_delivery_scoped:
  "\<exists>regs. snd (webhook_deliver env records msg log) = log @ map (\<lambda>(body, r). webhook_request env msg body r) regs \<and>
     set (map snd regs) \<subseteq>
       {r \<in> snd ` set records. wr_active r \<and> Some (wr_tenant_id r) = message_tenant msg \<and>
                               subscribes r (om_topic msg)}"
proof -
  let ?R = "\<lambda>t. list_active_for_topic t (om_topic msg) records"
  have "\<exists>regs. snd (webhook_deliver env records msg log) = log @ map (\<lambda>(body, r). webhook_request env msg body r) regs \<and>
     (regs = [] \<or> (\<exists>t. message_tenant msg = Some t \<and> map snd regs = ?R t))"
  proof (cases "message_tenant msg")
    case None
    then show ?thesis by (intro exI [of _ "[]"]) (simp add: webhook_deliver_def)
  next
    case (Some t)
    show ?thesis
    proof (cases "we_body env (om_id msg) (om_topic msg) (om_payload msg) (om_correlation_id msg)")
      case (Inl e)
      with Some show ?thesis by (intro exI [of _ "[]"]) (simp add: webhook_deliver_def Let_def)
    next
      case (Inr body)
      have "snd (webhook_deliver env records msg log) = log @ map (webhook_request env msg body) (?R t)"
        using Some Inr deliver_loop_log [of env msg body "?R t" None log]
        by (auto simp: webhook_deliver_def Let_def split: prod.splits option.splits)
      with Some show ?thesis
        by (intro exI [of _ "map (Pair body) (?R t)"]) (simp add: comp_def)
    qed
  qed
  then show ?thesis by (fastforce simp: list_active_for_topic_def)
qed

end
