(* ===== verification/World.thy ===== *)
theory World
  imports State_Machine Validation Effects Inventory Orders Webhooks
begin

text \<open>
  The state a \<open>Runner\<close> works on (\<open>orchestrator-runtime/src/runner.rs\<close>): its stores, the calls it made
  to the outside, and the sources of fresh identifiers and times; the struct \<open>Runner\<close> itself with its
  providers; and one operation per store or provider call. The code reaches its stores through trait
  objects whose calls may fail: the plan \<open>w_faults\<close> says of each coming mutating store call whether it
  succeeds, fails before taking effect (a refused SQL statement) or fails after it (a file-backed store
  that changed its map and then could not save it). The empty plan never fails, as the in-memory stores.
\<close>

datatype fault = NoFault | FailBefore string | FailAfter string

text \<open>Every call to a provider, with its arguments.\<close>

datatype ext_call =
    CallGetItem string
  | CallLookupItems "string list"
  | CallSearchItems "string option"
  | CallPrices cart_projection
  | CallDiscounts cart_projection "string list"
  | CallTax cart_projection
  | CallGeo cart_projection checkout_request
  | CallQuote cart_projection fulfillment_quote_request
  | CallAuthorize checkout_request
  | CallCapture payment_lifecycle_request
  | CallVoid payment_lifecycle_request
  | CallRefund payment_lifecycle_request
  | CallPaymentState string
  | CallReceipt cart_projection transaction_result

type_synonym history = "ext_call list"

record world =
  w_events :: "cart_id \<Rightarrow> cart_stream_event list"
  w_snapshots :: "cart_id \<rightharpoonup> cart_projection"
  w_states :: "cart_id \<rightharpoonup> cart_state"
  w_idem :: "idempotency_key idempotency_map"
  w_commits :: "cart_id \<rightharpoonup> commit_record"
  w_reservations :: reservations
  w_outbox :: outbox
  w_inbox :: "string set"
  w_dead :: dead_letter
  w_orders :: orders
  w_payments :: payment_states
  w_mandates :: "string \<rightharpoonup> i64"
  w_webhooks :: webhooks
  w_posts :: "webhook_post list"
  w_log :: history
  w_uuid :: nat
  w_ticks :: nat
  w_faults :: "fault list"

definition empty_world :: world where
  "empty_world = \<lparr>w_events = (\<lambda>_. []), w_snapshots = Map.empty, w_states = Map.empty,
     w_idem = Map.empty, w_commits = Map.empty, w_reservations = [], w_outbox = [], w_inbox = {},
     w_dead = [], w_orders = [], w_payments = Map.empty, w_mandates = Map.empty, w_webhooks = [],
     w_posts = [], w_log = [], w_uuid = 0, w_ticks = 0, w_faults = []\<rparr>"

section \<open>Providers and the runner\<close>

text \<open>
  A provider is code outside the runtime: a function of the whole history of calls and of its
  arguments, so that it may answer the same question differently each time.
\<close>

record provider_set =
  ps_get_item :: "history \<Rightarrow> string \<Rightarrow> catalog_error + catalog_item"
  ps_lookup_items :: "history \<Rightarrow> string list \<Rightarrow> catalog_error + catalog_item list"
  ps_search_items :: "history \<Rightarrow> string option \<Rightarrow> catalog_error + catalog_item list"
  ps_resolve_prices :: "history \<Rightarrow> cart_projection \<Rightarrow> pricing_error + line_price list"
  ps_resolve_discounts ::
    "history \<Rightarrow> cart_projection \<Rightarrow> string list \<Rightarrow> pricing_error + applied_discount list"
  ps_resolve_tax :: "history \<Rightarrow> cart_projection \<Rightarrow> tax_error + i64"
  ps_geo_check :: "history \<Rightarrow> cart_projection \<Rightarrow> checkout_request \<Rightarrow> geo_error + bool"
  ps_authorize :: "history \<Rightarrow> checkout_request \<Rightarrow> payment_error + auth_result"
  ps_capture :: "history \<Rightarrow> payment_lifecycle_request \<Rightarrow> payment_error + payment_operation_result"
  ps_void :: "history \<Rightarrow> payment_lifecycle_request \<Rightarrow> payment_error + payment_operation_result"
  ps_refund :: "history \<Rightarrow> payment_lifecycle_request \<Rightarrow> payment_error + payment_operation_result"
  ps_payment_state :: "history \<Rightarrow> string \<Rightarrow> payment_state option"
  ps_receipt :: "history \<Rightarrow> cart_projection \<Rightarrow> transaction_result \<Rightarrow> receipt_error + string"
  ps_fulfillment :: "(history \<Rightarrow> cart_projection \<Rightarrow> fulfillment_quote_request \<Rightarrow>
                       fulfillment_error + fulfillment_option list) option"

text \<open>
  The runner: providers, policy and deliverer, and the identifiers and clocks it draws on, each read
  giving the next value of its source.
\<close>

record runner =
  ru_providers :: provider_set
  ru_policy :: policy_engine
  ru_deliverer :: "(webhooks \<Rightarrow> outbox_message \<Rightarrow> webhook_post list \<Rightarrow> bool \<times> webhook_post list) option"
  ru_new_v4 :: "nat \<Rightarrow> uuid"
  ru_uuid_str :: "uuid \<Rightarrow> string"
  ru_instant :: "nat \<Rightarrow> int"
  ru_utc :: "nat \<Rightarrow> int"

datatype runner_error =
    MissingCartId
  | CartNotFound
  | LineNotFound
  | FulfillmentOptionNotFound
  | FulfillmentQuote string
  | ValidationFailed "string list"
  | AlreadyInFlight
  | InvalidStateTransition
  | CartVersionConflict u64 u64
  | CartTenantMismatch
  | GeoBlocked
  | AmountMismatch i64 i64
  | UnsupportedCommand
  | StoreFailed store_error
  | CatalogErr catalog_error
  | PricingErr pricing_error
  | TaxErr tax_error
  | GeoErr geo_error
  | PaymentErr payment_error
  | ReceiptErr receipt_error

type_synonym 'a run = "(world, runner_error, 'a) op"

section \<open>Store calls\<close>

definition next_fault :: "world \<Rightarrow> fault" where
  "next_fault w = (case w_faults w of [] \<Rightarrow> NoFault | f # _ \<Rightarrow> f)"

definition clear_fault :: "world \<Rightarrow> world" where
  "clear_fault w = w\<lparr>w_faults := tl (w_faults w)\<rparr>"

definition store_call :: "(world \<Rightarrow> 'a \<times> world) \<Rightarrow> 'a run" where
  "store_call f w =
     (let w0 = clear_fault w in
      case next_fault w of
        NoFault \<Rightarrow> (case f w0 of (a, w') \<Rightarrow> (Inr a, w'))
      | FailBefore m \<Rightarrow> (Inl (StoreFailed (StoreError m)), w0)
      | FailAfter m \<Rightarrow> (Inl (StoreFailed (StoreError m)), snd (f w0)))"

definition store_put :: "(world \<Rightarrow> world) \<Rightarrow> unit run" where
  "store_put f = store_call (\<lambda>w. ((), f w))"

text \<open>\<open>InMemoryEventStore\<close>\<close>

definition append_cart_event :: "cart_id \<Rightarrow> cart_stream_event \<Rightarrow> unit run" where
  "append_cart_event cart_id ev =
     store_put (\<lambda>w. w\<lparr>w_events := (w_events w)(cart_id := w_events w cart_id @ [ev])\<rparr>)"

definition put_cart_snapshot :: "cart_projection \<Rightarrow> unit run" where
  "put_cart_snapshot p =
     store_put (\<lambda>w. w\<lparr>w_snapshots := (w_snapshots w)(cp_cart_id p \<mapsto> p)\<rparr>)"

definition get_cart_snapshot :: "cart_id \<Rightarrow> cart_projection option run" where
  "get_cart_snapshot cart_id = op_gets (\<lambda>w. w_snapshots w cart_id)"

definition get_cart_state :: "cart_id \<Rightarrow> cart_state option run" where
  "get_cart_state cart_id = op_gets (\<lambda>w. w_states w cart_id)"

definition set_cart_state :: "cart_id \<Rightarrow> cart_state \<Rightarrow> unit run" where
  "set_cart_state cart_id st = store_put (\<lambda>w. w\<lparr>w_states := (w_states w)(cart_id \<mapsto> st)\<rparr>)"

text \<open>
  The other stores, each by the operation of its own theory. An in-memory operation that answers with
  a result never answers with an error, so its value is what the call returns.
\<close>

definition lift_idem :: "('a \<Rightarrow> 'b) \<Rightarrow> (idempotency_key idempotency_map, store_error, 'a) op \<Rightarrow> world \<Rightarrow> 'b \<times> world" where
  "lift_idem g m w = (case m (w_idem w) of (r, s) \<Rightarrow> (g (projr r), w\<lparr>w_idem := s\<rparr>))"

definition idem_claim :: "idempotency_key \<Rightarrow> idempotency_state option run" where
  "idem_claim k = store_call (lift_idem id (mem_claim k))"

definition idem_complete :: "idempotency_key \<Rightarrow> transaction_result \<Rightarrow> unit run" where
  "idem_complete k r = store_call (lift_idem id (mem_complete k r))"

definition idem_release :: "idempotency_key \<Rightarrow> unit run" where
  "idem_release k = store_call (lift_idem id (mem_release k))"

definition store_commit :: "runner \<Rightarrow> cart_id \<Rightarrow> string option \<Rightarrow> commit_record run" where
  "store_commit r cart_id ref = store_call (\<lambda>w.
     case commit_put (ru_uuid_str r (ru_new_v4 r (w_uuid w))) cart_id ref (w_commits w) of
       (rec, m) \<Rightarrow> (rec, w\<lparr>w_uuid := Suc (w_uuid w), w_commits := m\<rparr>))"

definition store_reserve :: "runner \<Rightarrow> cart_id \<Rightarrow> string \<Rightarrow> u32 \<Rightarrow> int \<Rightarrow> unit run" where
  "store_reserve r cart_id sku q ttl = store_put (\<lambda>w.
     w\<lparr>w_reservations := reserve (ru_instant r (w_ticks w)) cart_id sku q ttl (w_reservations w),
       w_ticks := Suc (w_ticks w)\<rparr>)"

definition store_finalize :: "cart_id \<Rightarrow> unit run" where
  "store_finalize c = store_put (\<lambda>w. w\<lparr>w_reservations := finalize_cart c (w_reservations w)\<rparr>)"

definition store_release :: "cart_id \<Rightarrow> unit run" where
  "store_release c = store_put (\<lambda>w. w\<lparr>w_reservations := release_cart c (w_reservations w)\<rparr>)"

definition store_order :: "order_record \<Rightarrow> unit run" where
  "store_order rec = store_put (\<lambda>w. w\<lparr>w_orders := order_put rec (w_orders w)\<rparr>)"

definition store_enqueue :: "outbox_message \<Rightarrow> unit run" where
  "store_enqueue m = store_put (\<lambda>w. w\<lparr>w_outbox := outbox_enqueue m (w_outbox w)\<rparr>)"

text \<open>\<open>PaymentStateStore::put\<close> has no result to fail with.\<close>

definition store_payment_state :: "string \<Rightarrow> payment_state \<Rightarrow> unit run" where
  "store_payment_state t st = op_modify (\<lambda>w. w\<lparr>w_payments := payment_state_put t st (w_payments w)\<rparr>)"

section \<open>Provider calls, identifiers, clocks\<close>

definition provider_call :: "ext_call \<Rightarrow> ('e \<Rightarrow> runner_error) \<Rightarrow> (history \<Rightarrow> 'e + 'a) \<Rightarrow> 'a run" where
  "provider_call c err p w =
     ((case p (w_log w) of Inl e \<Rightarrow> Inl (err e) | Inr a \<Rightarrow> Inr a), w\<lparr>w_log := w_log w @ [c]\<rparr>)"

definition fresh_uuid :: "runner \<Rightarrow> uuid run" where
  "fresh_uuid r w = (Inr (ru_new_v4 r (w_uuid w)), w\<lparr>w_uuid := Suc (w_uuid w)\<rparr>)"

text \<open>\<open>format!("prefix{}", Uuid::new_v4())\<close>\<close>

definition fresh_id :: "runner \<Rightarrow> string \<Rightarrow> string run" where
  "fresh_id r prefix = op_bind (fresh_uuid r) (\<lambda>u. op_return (prefix @ ru_uuid_str r u))"

definition utc_now :: "runner \<Rightarrow> int run" where
  "utc_now r w = (Inr (ru_utc r (w_ticks w)), w\<lparr>w_ticks := Suc (w_ticks w)\<rparr>)"

section \<open>Reasoning about calls\<close>

lemma clear_fault_simps [simp]:
  "w_events (clear_fault w) = w_events w" "w_snapshots (clear_fault w) = w_snapshots w"
  "w_states (clear_fault w) = w_states w" "w_idem (clear_fault w) = w_idem w"
  "w_commits (clear_fault w) = w_commits w" "w_reservations (clear_fault w) = w_reservations w"
  "w_outbox (clear_fault w) = w_outbox w" "w_inbox (clear_fault w) = w_inbox w"
  "w_dead (clear_fault w) = w_dead w" "w_orders (clear_fault w) = w_orders w"
  "w_payments (clear_fault w) = w_payments w" "w_mandates (clear_fault w) = w_mandates w"
  "w_webhooks (clear_fault w) = w_webhooks w" "w_posts (clear_fault w) = w_posts w"
  "w_log (clear_fault w) = w_log w" "w_uuid (clear_fault w) = w_uuid w"
  "w_ticks (clear_fault w) = w_ticks w" "w_faults (clear_fault w) = tl (w_faults w)"
  by (simp_all add: clear_fault_def)

lemma no_faults [simp]:
  "w_faults w = [] \<Longrightarrow> clear_fault w = w" "w_faults w = [] \<Longrightarrow> next_fault w = NoFault"
  by (simp_all add: clear_fault_def next_fault_def)

text \<open>The three outcomes of a store call, as its weakest precondition.\<close>

lemma wp_store_call [wp]:
  "op_wp (store_call f) Q E w =
     (case next_fault w of
        NoFault \<Rightarrow> Q (fst (f (clear_fault w))) (snd (f (clear_fault w)))
      | FailBefore m \<Rightarrow> E (StoreFailed (StoreError m)) (clear_fault w)
      | FailAfter m \<Rightarrow> E (StoreFailed (StoreError m)) (snd (f (clear_fault w))))"
  by (simp add: op_wp_def store_call_def Let_def split: fault.splits prod.splits)

lemma wp_store_put [wp]:
  "op_wp (store_put f) Q E w =
     (case next_fault w of
        NoFault \<Rightarrow> Q () (f (clear_fault w))
      | FailBefore m \<Rightarrow> E (StoreFailed (StoreError m)) (clear_fault w)
      | FailAfter m \<Rightarrow> E (StoreFailed (StoreError m)) (f (clear_fault w)))"
  by (simp add: store_put_def wp split: fault.splits)

lemma store_call_ok: "w_faults w = [] \<Longrightarrow> store_call f w = (Inr (fst (f w)), snd (f w))"
  by (simp add: store_call_def split: prod.splits)

lemma store_put_ok [simp]: "w_faults w = [] \<Longrightarrow> store_put f w = (Inr (), f w)"
  by (simp add: store_put_def store_call_ok)

lemma wp_provider_call [wp]:
  "op_wp (provider_call c err p) Q E w =
     (case p (w_log w) of
        Inl e \<Rightarrow> E (err e) (w\<lparr>w_log := w_log w @ [c]\<rparr>)
      | Inr a \<Rightarrow> Q a (w\<lparr>w_log := w_log w @ [c]\<rparr>))"
  by (simp add: op_wp_def provider_call_def split: sum.splits)

lemma wp_fresh_uuid [wp]:
  "op_wp (fresh_uuid r) Q E w = Q (ru_new_v4 r (w_uuid w)) (w\<lparr>w_uuid := Suc (w_uuid w)\<rparr>)"
  by (simp add: op_wp_def fresh_uuid_def)

lemma wp_fresh_id [wp]:
  "op_wp (fresh_id r p) Q E w =
     Q (p @ ru_uuid_str r (ru_new_v4 r (w_uuid w))) (w\<lparr>w_uuid := Suc (w_uuid w)\<rparr>)"
  by (simp add: fresh_id_def wp)

lemma wp_utc_now [wp]:
  "op_wp (utc_now r) Q E w = Q (ru_utc r (w_ticks w)) (w\<lparr>w_ticks := Suc (w_ticks w)\<rparr>)"
  by (simp add: op_wp_def utc_now_def)

lemma rel_store_call:
  assumes "\<And>w. R w (clear_fault w)" "\<And>w. R w (snd (f (clear_fault w)))"
  shows "op_rel R (store_call f)"
  using assms by (auto simp: op_rel_def store_call_def Let_def split: fault.splits prod.splits)
    (metis snd_conv)

lemma rel_store_put:
  assumes "\<And>w. R w (clear_fault w)" "\<And>w. R w (f (clear_fault w))"
  shows "op_rel R (store_put f)"
  unfolding store_put_def by (rule rel_store_call) (use assms in simp_all)

lemma rel_provider_call:
  "(\<And>w. R w (w\<lparr>w_log := w_log w @ [c]\<rparr>)) \<Longrightarrow> op_rel R (provider_call c err p)"
  by (simp add: op_rel_def provider_call_def)

lemmas store_op_defs =
  append_cart_event_def put_cart_snapshot_def get_cart_snapshot_def get_cart_state_def
  set_cart_state_def idem_claim_def idem_complete_def idem_release_def store_commit_def
  store_reserve_def store_finalize_def store_release_def store_order_def store_enqueue_def
  store_payment_state_def

end
