(* ===== verification/Runner_Cart.thy ===== *)
theory Runner_Cart
  imports World
begin

text \<open>
  Cart commands (\<open>Runner::dispatch_cart_command\<close> and its helpers in
  \<open>orchestrator-runtime/src/runner.rs\<close>): one operation per command variant, with every store and
  provider call of the source in its order, so that what an early return leaves behind is visible.
\<close>

section \<open>Helpers of the runner\<close>

definition transition_cart :: "cart_id \<Rightarrow> cart_event \<Rightarrow> unit run" where
  "transition_cart cart_id event =
     op_bind (get_cart_state cart_id) (\<lambda>st.
     op_bind (op_ok_or CartNotFound st) (\<lambda>current.
     op_bind (op_ok_or InvalidStateTransition (next_cart_state current event)) (\<lambda>next.
     set_cart_state cart_id next)))"

text \<open>\<open>lines.iter_mut().find(..)\<close>: the first matching line is changed in place.\<close>

fun update_first :: "('a \<Rightarrow> bool) \<Rightarrow> ('a \<Rightarrow> 'a) \<Rightarrow> 'a list \<Rightarrow> 'a list" where
  "update_first P f [] = []"
| "update_first P f (x # xs) = (if P x then f x # xs else x # update_first P f xs)"

definition apply_line_price :: "line_price \<Rightarrow> cart_line_projection list \<Rightarrow> cart_line_projection list" where
  "apply_line_price priced =
     update_first (\<lambda>l. li_line_id l = lp_line_id priced)
       (\<lambda>l. l\<lparr>li_unit_price_minor := lp_unit_price_minor priced,
              li_total_minor := lp_total_minor priced\<rparr>)"

definition apply_prices :: "line_price list \<Rightarrow> cart_line_projection list \<Rightarrow> cart_line_projection list" where
  "apply_prices priced_lines lines = fold apply_line_price priced_lines lines"

text \<open>\<open>lines.iter().map(|l| l.total_minor).sum()\<close>\<close>

definition lines_total :: "cart_line_projection list \<Rightarrow> i64" where
  "lines_total lines = fold (\<lambda>l acc. i64_add acc (li_total_minor l)) lines 0"

definition reprice_lines :: "line_price list \<Rightarrow> cart_projection \<Rightarrow> cart_projection" where
  "reprice_lines priced p =
     (let lines = apply_prices priced (cp_lines p)
      in p\<lparr>cp_lines := lines, cp_subtotal_minor := lines_total lines\<rparr>)"

definition gross_minor :: "cart_projection \<Rightarrow> i64" where
  "gross_minor p = i64_add (i64_add (cp_subtotal_minor p) (cp_tax_minor p)) (cp_fulfillment_minor p)"

definition set_discounts :: "applied_discount list \<Rightarrow> cart_projection \<Rightarrow> cart_projection" where
  "set_discounts ds p =
     (let d = total_discount_minor ds (gross_minor p)
      in p\<lparr>cp_discount_minor := d, cp_discounts := ds, cp_total_minor := i64_sub (gross_minor p) d\<rparr>)"

definition apply_discounts :: "runner \<Rightarrow> cart_projection \<Rightarrow> cart_projection run" where
  "apply_discounts r p =
     (if cp_adjustment_codes p = []
      then op_return (p\<lparr>cp_discounts := [], cp_discount_minor := 0, cp_total_minor := gross_minor p\<rparr>)
      else op_bind (provider_call (CallDiscounts p (cp_adjustment_codes p)) PricingErr
                     (\<lambda>h. ps_resolve_discounts (ru_providers r) h p (cp_adjustment_codes p)))
             (\<lambda>ds. op_return (set_discounts ds p)))"

definition geo_check_request :: "cart_projection \<Rightarrow> checkout_request" where
  "geo_check_request cart =
     \<lparr>cr_tenant_id = (case cp_tenant_id cart of Some t \<Rightarrow> t | None \<Rightarrow> []),
      cr_merchant_id = cp_merchant_id cart, cr_cart_id = cp_cart_id cart,
      cr_cart_version = cp_version cart, cr_currency = cp_currency cart, cr_customer = None,
      cr_location = cart_location_hint cart,
      cr_payment_intent = \<lparr>pi_amount_minor = cp_total_minor cart, pi_token_or_reference = [],
        pi_ap2_consent_proof = None, pi_payment_handler_id = None, pi_payment_method_type = None,
        pi_mpp_method = None, pi_mpp_intent = None\<rparr>,
      cr_idempotency_key = []\<rparr>"

definition check_geo :: "runner \<Rightarrow> cart_projection \<Rightarrow> bool run" where
  "check_geo r cart =
     (let request = geo_check_request cart
      in provider_call (CallGeo cart request) GeoErr
           (\<lambda>h. ps_geo_check (ru_providers r) h cart request))"

definition resolve_prices :: "runner \<Rightarrow> cart_projection \<Rightarrow> cart_projection run" where
  "resolve_prices r p =
     op_bind (provider_call (CallPrices p) PricingErr (\<lambda>h. ps_resolve_prices (ru_providers r) h p))
       (\<lambda>priced. op_return (reprice_lines priced p))"

definition resolve_tax :: "runner \<Rightarrow> cart_projection \<Rightarrow> cart_projection run" where
  "resolve_tax r p =
     op_bind (provider_call (CallTax p) TaxErr (\<lambda>h. ps_resolve_tax (ru_providers r) h p))
       (\<lambda>tax. op_return (p\<lparr>cp_tax_minor := tax\<rparr>))"

definition reprice_for_checkout :: "runner \<Rightarrow> cart_projection \<Rightarrow> cart_projection run" where
  "reprice_for_checkout r cart =
     op_bind (resolve_prices r cart) (\<lambda>cart.
     op_bind (resolve_tax r cart) (\<lambda>cart.
     apply_discounts r cart))"

definition mutate_and_recalculate ::
  "runner \<Rightarrow> cart_id \<Rightarrow> cart_projection \<Rightarrow> cart_stream_event \<Rightarrow> cart_projection run" where
  "mutate_and_recalculate r cart_id projection primary_event =
     op_seq (transition_cart cart_id ItemChanged)
     (op_seq (append_cart_event cart_id primary_event)
     (op_bind (resolve_prices r projection) (\<lambda>projection.
     op_seq (transition_cart cart_id PricingResolved)
     (op_seq (append_cart_event cart_id RepricedEv)
     (op_bind (resolve_tax r projection) (\<lambda>projection.
     op_bind (apply_discounts r projection) (\<lambda>projection.
     op_seq (transition_cart cart_id TaxResolved)
     (op_seq (append_cart_event cart_id (RetaxedEv (cp_tax_minor projection)))
     (op_bind (check_geo r projection) (\<lambda>geo_ok.
      let projection = projection\<lparr>cp_geo_ok := geo_ok\<rparr> in
     op_seq (transition_cart cart_id GeoValidated)
     (op_seq (append_cart_event cart_id (GeoCheckedEv geo_ok))
     (op_seq (put_cart_snapshot projection)
     (op_return projection)))))))))))))"

text \<open>Item codes have the form \<open>item:<item_id>:<campaign>\<close>; the item must exist.\<close>

definition adjustment_item :: "string \<Rightarrow> string option" where
  "adjustment_item code =
     (case strip_prefix ''item:'' code of
        None \<Rightarrow> None
      | Some rest \<Rightarrow> (let item = hd (str_split (CHR '':'') rest) in if item = [] then None else Some item))"

definition validate_adjustment :: "runner \<Rightarrow> string \<Rightarrow> unit run" where
  "validate_adjustment r code =
     (case adjustment_item code of
        None \<Rightarrow> op_return ()
      | Some item_id \<Rightarrow>
          op_bind (provider_call (CallGetItem item_id) CatalogErr
                    (\<lambda>h. ps_get_item (ru_providers r) h item_id)) (\<lambda>_. op_return ()))"

definition require_cart :: "cart_id \<Rightarrow> cart_projection run" where
  "require_cart cart_id = op_bind (get_cart_snapshot cart_id) (op_ok_or CartNotFound)"

section \<open>The commands\<close>

definition new_cart :: "cart_id \<Rightarrow> create_cart_payload \<Rightarrow> cart_projection" where
  "new_cart i p =
     \<lparr>cp_cart_id = i, cp_version = 1, cp_currency = cc_currency p, cp_merchant_id = cc_merchant_id p,
      cp_tenant_id = cc_tenant_id p, cp_lines = [], cp_subtotal_minor = 0, cp_tax_minor = 0,
      cp_total_minor = 0, cp_geo_ok = True, cp_status = Draft, cp_fulfillment = None,
      cp_fulfillment_minor = 0, cp_adjustment_codes = [], cp_discounts = [], cp_discount_minor = 0\<rparr>"

definition create_cart :: "runner \<Rightarrow> create_cart_payload \<Rightarrow> cart_projection run" where
  "create_cart r p =
     op_bind (fresh_uuid r) (\<lambda>u.
      let i = CartId u; projection = new_cart i p in
     op_seq (append_cart_event i (CartCreatedEv (cc_merchant_id p) (cc_currency p)))
     (op_seq (put_cart_snapshot projection)
     (op_seq (set_cart_state i CartCreated)
     (op_return projection))))"

definition bump_version :: "cart_projection \<Rightarrow> cart_projection" where
  "bump_version p = p\<lparr>cp_version := cp_version p + 1\<rparr>"

definition add_item :: "runner \<Rightarrow> cart_id option \<Rightarrow> add_item_payload \<Rightarrow> cart_projection run" where
  "add_item r cart_id p =
     op_bind (op_ok_or MissingCartId cart_id) (\<lambda>i.
     op_bind (provider_call (CallGetItem (ai_item_id p)) CatalogErr
               (\<lambda>h. ps_get_item (ru_providers r) h (ai_item_id p))) (\<lambda>item.
     op_bind (require_cart i) (\<lambda>projection.
     op_bind (fresh_id r ''li_'') (\<lambda>line_id.
      let line = \<lparr>li_line_id = line_id, li_item_id = ci_id item, li_title = ci_title item,
                  li_quantity = ai_quantity p, li_unit_price_minor = ci_price_minor item,
                  li_total_minor = i64_mul (ci_price_minor item) (i64_of_u32 (ai_quantity p))\<rparr>
      in mutate_and_recalculate r i
           (bump_version (projection\<lparr>cp_lines := cp_lines projection @ [line]\<rparr>))
           (ItemAdded line_id (ai_item_id p) (ai_quantity p))))))"

definition set_line_qty :: "u32 \<Rightarrow> cart_line_projection \<Rightarrow> cart_line_projection" where
  "set_line_qty q l =
     l\<lparr>li_quantity := q, li_total_minor := i64_mul (li_unit_price_minor l) (i64_of_u32 q)\<rparr>"

definition update_item_qty ::
  "runner \<Rightarrow> cart_id option \<Rightarrow> update_item_qty_payload \<Rightarrow> cart_projection run" where
  "update_item_qty r cart_id p =
     op_bind (op_ok_or MissingCartId cart_id) (\<lambda>i.
     op_bind (require_cart i) (\<lambda>projection.
     op_seq (op_guard (list_ex (\<lambda>l. li_line_id l = uq_line_id p) (cp_lines projection)) LineNotFound)
     (mutate_and_recalculate r i
       (bump_version (projection\<lparr>cp_lines :=
          update_first (\<lambda>l. li_line_id l = uq_line_id p) (set_line_qty (uq_quantity p))
            (cp_lines projection)\<rparr>))
       (ItemQtyUpdated (uq_line_id p) (uq_quantity p)))))"

definition remove_item ::
  "runner \<Rightarrow> cart_id option \<Rightarrow> remove_item_payload \<Rightarrow> cart_projection run" where
  "remove_item r cart_id p =
     op_bind (op_ok_or MissingCartId cart_id) (\<lambda>i.
     op_bind (require_cart i) (\<lambda>projection.
     mutate_and_recalculate r i
       (bump_version (projection\<lparr>cp_lines :=
          filter (\<lambda>l. li_line_id l \<noteq> ri_line_id p) (cp_lines projection)\<rparr>))
       (ItemRemoved (ri_line_id p))))"

definition add_code :: "string \<Rightarrow> cart_projection \<Rightarrow> cart_projection" where
  "add_code code p =
     (if code \<in> set (cp_adjustment_codes p) then p
      else p\<lparr>cp_adjustment_codes := cp_adjustment_codes p @ [code]\<rparr>)"

definition apply_adjustment ::
  "runner \<Rightarrow> cart_id option \<Rightarrow> apply_adjustment_payload \<Rightarrow> cart_projection run" where
  "apply_adjustment r cart_id p =
     op_bind (op_ok_or MissingCartId cart_id) (\<lambda>i.
     op_bind (require_cart i) (\<lambda>projection.
     op_seq (validate_adjustment r (aa_code p))
     (mutate_and_recalculate r i (bump_version (add_code (aa_code p) projection))
       (AdjustmentApplied (aa_code p)))))"

subsection \<open>Fulfillment selection\<close>

definition selection_line_ids ::
  "cart_projection \<Rightarrow> set_fulfillment_selection_payload \<Rightarrow> string list run" where
  "selection_line_ids projection p =
     (if sf_line_item_ids p = [] then op_return (map li_line_id (cp_lines projection))
      else op_seq (op_for (sf_line_item_ids p) (\<lambda>line_id.
                     op_guard (list_ex (\<lambda>l. li_line_id l = line_id) (cp_lines projection)) LineNotFound))
             (op_return (sf_line_item_ids p)))"

fun fulfillment_error_display :: "fulfillment_error \<Rightarrow> string" where
  "fulfillment_error_display (FulfillmentFailed e) = ''fulfillment rating failed: '' @ e"

definition quote_options ::
  "runner \<Rightarrow> cart_projection \<Rightarrow> set_fulfillment_selection_payload \<Rightarrow> string list \<Rightarrow>
   fulfillment_option list run" where
  "quote_options r projection p line_item_ids =
     (case ps_fulfillment (ru_providers r) of
        Some provider \<Rightarrow>
          (let quote = \<lparr>fq_method_type = sf_method_type p, fq_destination = sf_destination p,
                        fq_line_item_ids = line_item_ids\<rparr>
           in provider_call (CallQuote projection quote)
                (\<lambda>e. FulfillmentQuote (fulfillment_error_display e)) (\<lambda>h. provider h projection quote))
      | None \<Rightarrow> op_return (default_options_for_method (sf_method_type p)))"

definition selected_amount :: "string option \<Rightarrow> fulfillment_option list \<Rightarrow> i64" where
  "selected_amount selected options =
     (case selected of
        None \<Rightarrow> 0
      | Some sel \<Rightarrow> (case List.find (\<lambda>opt. fo_id opt = sel) options of
                       Some opt \<Rightarrow> fo_amount_minor opt | None \<Rightarrow> 0))"

definition option_offered :: "string option \<Rightarrow> fulfillment_option list \<Rightarrow> bool" where
  "option_offered selected options =
     (case selected of None \<Rightarrow> True | Some sel \<Rightarrow> list_ex (\<lambda>opt. fo_id opt = sel) options)"

text \<open>The method is appended after dropping the methods of the same type.\<close>

definition select_method ::
  "set_fulfillment_selection_payload \<Rightarrow> fulfillment_method \<Rightarrow> i64 \<Rightarrow> cart_projection \<Rightarrow> cart_projection" where
  "select_method p m amount projection =
     (let st = (case cp_fulfillment projection of Some st \<Rightarrow> st | None \<Rightarrow> \<lparr>fs_methods = []\<rparr>);
          kept = filter (\<lambda>x. fm_method_type x \<noteq> sf_method_type p) (fs_methods st)
      in projection\<lparr>cp_fulfillment := Some (st\<lparr>fs_methods := kept @ [m]\<rparr>),
                     cp_fulfillment_minor := amount\<rparr>)"

definition set_fulfillment_selection ::
  "runner \<Rightarrow> cart_id option \<Rightarrow> set_fulfillment_selection_payload \<Rightarrow> cart_projection run" where
  "set_fulfillment_selection r cart_id p =
     op_bind (op_ok_or MissingCartId cart_id) (\<lambda>i.
     op_bind (require_cart i) (\<lambda>projection.
     op_bind (selection_line_ids projection p) (\<lambda>line_item_ids.
     op_bind (quote_options r projection p line_item_ids) (\<lambda>options.
     op_seq (op_guard (option_offered (sf_selected_option_id p) options) FulfillmentOptionNotFound)
     (let amount = selected_amount (sf_selected_option_id p) options in
     op_bind (fresh_id r ''fg_'') (\<lambda>gid.
     op_bind (fresh_id r ''fm_'') (\<lambda>mid.
      let group = \<lparr>fg_id = gid, fg_line_item_ids = line_item_ids, fg_options = options,
                   fg_selected_option_id = sf_selected_option_id p\<rparr>;
          m = \<lparr>fm_id = mid, fm_method_type = sf_method_type p, fm_line_item_ids = line_item_ids,
               fm_destinations = [sf_destination p],
               fm_selected_destination_id = Some (destination_id (sf_destination p)),
               fm_groups = [group]\<rparr> in
     op_bind (apply_discounts r (select_method p m amount projection)) (\<lambda>projection.
     op_bind (check_geo r projection) (\<lambda>geo_ok.
      let projection = bump_version (projection\<lparr>cp_geo_ok := geo_ok\<rparr>) in
     op_seq (append_cart_event i
              (FulfillmentSelected (sf_method_type p) (sf_selected_option_id p) amount))
     (op_seq (put_cart_snapshot projection)
     (op_return projection)))))))))))"

subsection \<open>Start of checkout, cancellation, dispatch\<close>

definition start_checkout :: "start_checkout_payload \<Rightarrow> cart_projection run" where
  "start_checkout p =
     op_bind (require_cart (sc_cart_id p)) (\<lambda>projection.
     op_seq (op_guard (cp_version projection = sc_cart_version p)
              (CartVersionConflict (sc_cart_version p) (cp_version projection)))
     (let projection = bump_version (projection\<lparr>cp_status := cart_status.CheckoutReady\<rparr>) in
      op_seq (append_cart_event (sc_cart_id p) CheckoutReadyEv)
     (op_seq (put_cart_snapshot projection)
     (op_seq (transition_cart (sc_cart_id p) MarkCheckoutReady)
     (op_return projection)))))"

definition cancel_cart :: "cancel_cart_payload \<Rightarrow> cart_projection run" where
  "cancel_cart p =
     op_bind (require_cart (xc_cart_id p)) (\<lambda>projection.
      let projection = bump_version (projection\<lparr>cp_status := cart_status.Cancelled\<rparr>) in
     op_seq (append_cart_event (xc_cart_id p) CancelledEv)
     (op_seq (put_cart_snapshot projection)
     (op_seq (transition_cart (xc_cart_id p) Cancel)
     (op_return projection))))"

definition run_cart_command :: "runner \<Rightarrow> cart_command \<Rightarrow> cart_id option \<Rightarrow> cart_projection run" where
  "run_cart_command r command cart_id =
     (case command of
        CreateCart p \<Rightarrow> create_cart r p
      | AddItem p \<Rightarrow> add_item r cart_id p
      | UpdateItemQty p \<Rightarrow> update_item_qty r cart_id p
      | RemoveItem p \<Rightarrow> remove_item r cart_id p
      | ApplyAdjustment p \<Rightarrow> apply_adjustment r cart_id p
      | SetFulfillmentSelection p \<Rightarrow> set_fulfillment_selection r cart_id p
      | GetCart p \<Rightarrow> require_cart (gc_cart_id p)
      | StartCheckout p \<Rightarrow> start_checkout p
      | CancelCart p \<Rightarrow> cancel_cart p)"

definition dispatch_cart_command ::
  "runner \<Rightarrow> cart_command \<Rightarrow> cart_id option \<Rightarrow> cart_projection run" where
  "dispatch_cart_command r command cart_id =
     (let validation = validate_cart_command command in
      if \<not> vr_valid validation then op_fail (ValidationFailed (vr_errors validation))
      else run_cart_command r command cart_id)"

end
