(* ===== verification/Samples.thy ===== *)
theory Samples
  imports Runner_Cart
begin

text \<open>
  A concrete runner and world, on which the theorems about the runner are instantiated: one cart of one
  line, providers that confirm the stored prices, charge a tax of 200 and accept every payment.
\<close>

definition sample_providers :: provider_set where
  "sample_providers =
     \<lparr>ps_get_item = (\<lambda>_ i. Inr \<lparr>ci_id = i, ci_title = ''Item'', ci_price_minor = 1000\<rparr>),
      ps_lookup_items = (\<lambda>_ _. Inr []), ps_search_items = (\<lambda>_ _. Inr []),
      ps_resolve_prices = (\<lambda>_ c. Inr []), ps_resolve_discounts = (\<lambda>_ _ _. Inr []),
      ps_resolve_tax = (\<lambda>_ _. Inr 200), ps_geo_check = (\<lambda>_ _ _. Inr True),
      ps_authorize = (\<lambda>_ _. Inr \<lparr>ar_authorized = True, ar_reference = ''ref''\<rparr>),
      ps_capture = (\<lambda>_ _. Inr \<lparr>por_success = True, por_reference = ''cap''\<rparr>),
      ps_void = (\<lambda>_ _. Inr \<lparr>por_success = True, por_reference = ''void''\<rparr>),
      ps_refund = (\<lambda>_ _. Inr \<lparr>por_success = True, por_reference = ''refund''\<rparr>),
      ps_payment_state = (\<lambda>_ _. None), ps_receipt = (\<lambda>_ _ _. Inr ''receipt''),
      ps_fulfillment = None\<rparr>"

definition sample_runner :: runner where
  "sample_runner =
     \<lparr>ru_providers = sample_providers, ru_policy = policy_default, ru_deliverer = None,
      ru_new_v4 = word_of_nat, ru_uuid_str = (\<lambda>u. replicate (unat u) CHR ''x''),
      ru_instant = int, ru_utc = int\<rparr>"

definition sample_world :: world where
  "sample_world = empty_world\<lparr>w_snapshots := [CartId 7 \<mapsto> sample_cart],
                              w_states := [CartId 7 \<mapsto> GeoChecked]\<rparr>"

lemmas sample_run_defs = sample_providers_def sample_runner_def sample_world_def empty_world_def

definition sample_start :: cart_command where
  "sample_start = StartCheckout \<lparr>sc_cart_id = CartId 7, sc_cart_version = 1\<rparr>"

lemmas cart_run_defs =
  dispatch_cart_command_def run_cart_command_def start_checkout_def cancel_cart_def require_cart_def
  get_cart_snapshot_def append_cart_event_def put_cart_snapshot_def transition_cart_def
  get_cart_state_def set_cart_state_def bump_version_def

lemma sample_start_runs:
  "\<exists>q w'. dispatch_cart_command sample_runner sample_start None sample_world = (Inr q, w')"
  by (simp add: cart_run_defs sample_start_def sample_run_defs sample_defs op_defs Let_def)

end
