(* ===== verification/Cart_Facts.thy ===== *)
theory Cart_Facts
  imports Samples
begin

text \<open>
  What the cart commands guarantee: the price integrity of every stored cart, the frame of each command
  (which rows of which stores it may touch), versions, cancellation, and how a failing provider leaves a
  cart.
\<close>

section \<open>Price integrity\<close>

text \<open>
  The amounts of a cart agree with each other: the subtotal is the sum of the line totals, the discount
  is the clamped sum of the resolved discounts, and the total is what remains.
\<close>

definition cart_summed :: "cart_projection \<Rightarrow> bool" where
  "cart_summed p \<longleftrightarrow> cp_subtotal_minor p = lines_total (cp_lines p)"

definition cart_priced :: "cart_projection \<Rightarrow> bool" where
  "cart_priced p \<longleftrightarrow>
     cart_summed p \<and>
     cp_discount_minor p = total_discount_minor (cp_discounts p) (gross_minor p) \<and>
     cp_total_minor p = i64_sub (gross_minor p) (cp_discount_minor p) \<and>
     (cp_adjustment_codes p = [] \<longrightarrow> cp_discounts p = [])"

definition snapshots_ok :: "world \<Rightarrow> bool" where
  "snapshots_ok w \<longleftrightarrow>
     (\<forall>c p. w_snapshots w c = Some p \<longrightarrow> cp_cart_id p = c \<and> cart_priced p)"

lemma lines_total_eq: "lines_total ls = wrap64 (sum_list (map li_total_minor ls))"
proof -
  have "fold (\<lambda>l acc. i64_add acc (li_total_minor l)) ls (wrap64 a) =
        wrap64 (a + sum_list (map li_total_minor ls))" for a
  proof (induction ls arbitrary: a)
    case Nil
    show ?case by simp
  next
    case (Cons l ls)
    have "i64_add (wrap64 a) (li_total_minor l) = wrap64 (a + li_total_minor l)"
      unfolding i64_add_def wrap64_def by (simp add: mod_simps add_ac)
    then show ?case using Cons [of "a + li_total_minor l"] by (simp add: add.assoc)
  qed
  from this [of 0] show ?thesis by (simp add: lines_total_def)
qed

lemma gross_in [simp]: "in_i64 (gross_minor p)"
  by (simp add: gross_minor_def)

lemma no_discounts [simp]: "total_discount_minor [] g = 0"
  by (simp add: total_discount_minor_def Let_def)

text \<open>Without overflow the total is the exact sum, never negative when something is owed.\<close>

lemma cart_priced_exact:
  assumes "cart_priced p" "gross_minor p = cp_subtotal_minor p + cp_tax_minor p + cp_fulfillment_minor p"
    and "0 \<le> gross_minor p"
  shows "cp_total_minor p =
           cp_subtotal_minor p + cp_tax_minor p + cp_fulfillment_minor p - cp_discount_minor p"
    and "0 \<le> cp_total_minor p" and "cp_total_minor p \<le> gross_minor p"
proof -
  have d: "0 \<le> cp_discount_minor p" "cp_discount_minor p \<le> gross_minor p"
    using assms total_discount_minor_bounds [of "cp_discounts p" "gross_minor p"]
    by (auto simp: cart_priced_def)
  have "in_i64 (gross_minor p - cp_discount_minor p)"
    using gross_in [of p] d assms(3) by (auto simp: in_i64_def i64_min_def)
  with assms(1) have "cp_total_minor p = gross_minor p - cp_discount_minor p"
    by (simp add: cart_priced_def i64_sub_def)
  with d assms(2) show "cp_total_minor p =
           cp_subtotal_minor p + cp_tax_minor p + cp_fulfillment_minor p - cp_discount_minor p"
    "0 \<le> cp_total_minor p" "cp_total_minor p \<le> gross_minor p" by auto
qed

lemma new_cart_priced: "cart_priced (new_cart i p)"
  by (simp add: cart_priced_def cart_summed_def new_cart_def gross_minor_def lines_total_def
      i64_add_def i64_sub_def)

lemma set_discounts_priced:
  assumes "cart_summed p" "cp_adjustment_codes p \<noteq> []"
  shows "cart_priced (set_discounts ds p)"
  using assms by (simp add: cart_priced_def cart_summed_def set_discounts_def gross_minor_def Let_def)

lemma clear_discounts_priced:
  assumes "cart_summed p"
  shows "cart_priced (p\<lparr>cp_discounts := [], cp_discount_minor := 0, cp_total_minor := gross_minor p\<rparr>)"
  using assms gross_in [of p]
  by (simp add: cart_priced_def cart_summed_def gross_minor_def i64_sub_def)

text \<open>Fields that no amount depends on may change.\<close>

lemma cart_priced_frame [simp]:
  "cart_priced (p\<lparr>cp_geo_ok := b\<rparr>) = cart_priced p"
  "cart_priced (p\<lparr>cp_status := st\<rparr>) = cart_priced p"
  "cart_priced (bump_version p) = cart_priced p"
  by (simp_all add: cart_priced_def cart_summed_def gross_minor_def bump_version_def)

lemma reprice_summed [simp]: "cart_summed (reprice_lines ps p)"
  by (simp add: cart_summed_def reprice_lines_def Let_def)

lemma cart_id_frame [simp]:
  "cp_cart_id (reprice_lines ps p) = cp_cart_id p" "cp_cart_id (set_discounts ds p) = cp_cart_id p"
  "cp_cart_id (bump_version p) = cp_cart_id p" "cp_cart_id (select_method s m a p) = cp_cart_id p"
  "cp_cart_id (add_code c p) = cp_cart_id p"
  by (simp_all add: reprice_lines_def set_discounts_def bump_version_def select_method_def add_code_def
      Let_def)

lemma tax_summed [simp]: "cart_summed (p\<lparr>cp_tax_minor := t\<rparr>) = cart_summed p"
  by (simp add: cart_summed_def)

lemma select_method_summed [simp]: "cart_summed (select_method s m a p) = cart_summed p"
  by (simp add: cart_summed_def select_method_def Let_def)

lemma sample_snapshots_ok: "snapshots_ok sample_world"
  by (simp add: snapshots_ok_def sample_run_defs sample_defs cart_priced_def cart_summed_def
      gross_minor_def lines_total_def i64_add_def i64_sub_def wrap64_def)

section \<open>The frame of a cart command\<close>

fun is_payment_call :: "ext_call \<Rightarrow> bool" where
  "is_payment_call (CallAuthorize _) = True"
| "is_payment_call (CallCapture _) = True"
| "is_payment_call (CallVoid _) = True"
| "is_payment_call (CallRefund _) = True"
| "is_payment_call _ = False"

definition log_extends :: "(ext_call \<Rightarrow> bool) \<Rightarrow> world \<Rightarrow> world \<Rightarrow> bool" where
  "log_extends P w w' \<longleftrightarrow> (\<exists>ext. w_log w' = w_log w @ ext \<and> list_all P ext)"

lemma log_extends_refl [simp]: "w_log w' = w_log w \<Longrightarrow> log_extends P w w'"
  by (auto simp: log_extends_def intro: exI [of _ "[]"])

lemma log_extends_step: "log_extends P w w' \<Longrightarrow> P c \<Longrightarrow> w_log w'' = w_log w' @ [c] \<Longrightarrow> log_extends P w w''"
  by (auto simp: log_extends_def)

lemma log_extends_trans: "log_extends P w w' \<Longrightarrow> log_extends P w' w'' \<Longrightarrow> log_extends P w w''"
  by (auto simp: log_extends_def)

text \<open>
  Only the event streams, snapshots and states of the carts \<open>C\<close> may change, no other store does, and
  only providers that move no money are called.
\<close>

definition same_effects :: "world \<Rightarrow> world \<Rightarrow> bool" where
  "same_effects w w' \<longleftrightarrow>
     w_idem w' = w_idem w \<and> w_commits w' = w_commits w \<and> w_reservations w' = w_reservations w \<and>
     w_outbox w' = w_outbox w \<and> w_inbox w' = w_inbox w \<and> w_dead w' = w_dead w \<and>
     w_orders w' = w_orders w \<and> w_payments w' = w_payments w \<and> w_mandates w' = w_mandates w \<and>
     w_webhooks w' = w_webhooks w \<and> w_posts w' = w_posts w"

definition same_carts :: "cart_id set \<Rightarrow> world \<Rightarrow> world \<Rightarrow> bool" where
  "same_carts C w w' \<longleftrightarrow>
     (\<forall>c. c \<notin> C \<longrightarrow> w_snapshots w' c = w_snapshots w c \<and> w_states w' c = w_states w c \<and>
                     w_events w' c = w_events w c)"

definition cart_frame :: "cart_id set \<Rightarrow> world \<Rightarrow> world \<Rightarrow> bool" where
  "cart_frame C w w' \<longleftrightarrow>
     same_carts C w w' \<and> same_effects w w' \<and> log_extends (\<lambda>c. \<not> is_payment_call c) w w'"

text \<open>What every step of a cart command keeps: price integrity, and the frame from the start \<open>w0\<close>.\<close>

definition cart_inv :: "cart_id set \<Rightarrow> world \<Rightarrow> world \<Rightarrow> bool" where
  "cart_inv C w0 w \<longleftrightarrow> snapshots_ok w \<and> cart_frame C w0 w"

lemmas cart_inv_defs =
  cart_inv_def cart_frame_def same_carts_def same_effects_def snapshots_ok_def

lemma cart_inv_start: "snapshots_ok w \<Longrightarrow> cart_inv C w w"
  by (simp add: cart_inv_defs)

lemma cart_inv_eq:
  assumes "cart_inv C w0 w" "w_snapshots w' = w_snapshots w" "w_log w' = w_log w"
    and "same_carts C w w'" "same_effects w w'"
  shows "cart_inv C w0 w'"
  using assms log_extends_trans [OF _ log_extends_refl, of _ w0 w w']
  by (auto simp: cart_inv_defs)

lemma keeps_store_put:
  assumes "\<And>w. cart_inv C w0 w \<Longrightarrow> cart_inv C w0 (f w)"
  shows "op_keeps (cart_inv C w0) (store_put f) (\<lambda>_. True)"
proof -
  have "cart_inv C w0 (clear_fault w)" if "cart_inv C w0 w" for w
    by (rule cart_inv_eq [OF that]) (simp_all add: same_carts_def same_effects_def)
  then show ?thesis using assms by (simp add: op_keeps_def wp split: fault.splits)
qed

lemma keeps_append_event [keeps]:
  "i \<in> C \<Longrightarrow> op_keeps (cart_inv C w0) (append_cart_event i ev) (\<lambda>_. True)"
  unfolding append_cart_event_def
  by (rule keeps_store_put, erule cart_inv_eq) (auto simp: same_carts_def same_effects_def)

lemma keeps_set_state [keeps]:
  "i \<in> C \<Longrightarrow> op_keeps (cart_inv C w0) (set_cart_state i st) (\<lambda>_. True)"
  unfolding set_cart_state_def
  by (rule keeps_store_put, erule cart_inv_eq) (auto simp: same_carts_def same_effects_def)

lemma keeps_put_snapshot [keeps]:
  assumes "cp_cart_id p \<in> C" "cart_priced p"
  shows "op_keeps (cart_inv C w0) (put_cart_snapshot p) (\<lambda>_. True)"
  unfolding put_cart_snapshot_def
  by (rule keeps_store_put) (use assms in \<open>auto simp: cart_inv_defs log_extends_def\<close>)

lemma keeps_get_state: "op_keeps (cart_inv C w0) (get_cart_state c) (\<lambda>_. True)"
  unfolding get_cart_state_def by (rule keeps_gets) simp

lemma keeps_require_cart:
  "op_keeps (cart_inv C w0) (require_cart c) (\<lambda>p. cp_cart_id p = c \<and> cart_priced p)"
  unfolding require_cart_def get_cart_snapshot_def
  by (auto simp: op_keeps_def wp cart_inv_def snapshots_ok_def split: option.splits)

lemma keeps_transition [keeps]:
  assumes "i \<in> C"
  shows "op_keeps (cart_inv C w0) (transition_cart i ev) (\<lambda>_. True)"
  unfolding transition_cart_def
  by (rule keeps_bind [OF keeps_get_state], rule keeps_bind [OF keeps_ok_or],
      rule keeps_bind [OF keeps_ok_or], rule keeps_set_state) (rule assms)

lemma keeps_provider_call:
  assumes "\<not> is_payment_call c"
  shows "op_keeps (cart_inv C w0) (provider_call c err p) (\<lambda>_. True)"
proof -
  have "cart_inv C w0 (w\<lparr>w_log := w_log w @ [c]\<rparr>)" if "cart_inv C w0 w" for w
    using that assms by (auto simp: cart_inv_defs intro: log_extends_step)
  then show ?thesis by (simp add: op_keeps_def wp split: sum.splits)
qed

lemma keeps_fresh [keeps]:
  "op_keeps (cart_inv C w0) (fresh_uuid r) (\<lambda>_. True)"
  "op_keeps (cart_inv C w0) (fresh_id r p) (\<lambda>_. True)"
  by (auto simp: op_keeps_def wp cart_inv_defs log_extends_def)

lemma keeps_bind_any:
  "op_keeps I m (\<lambda>_. True) \<Longrightarrow> (\<And>a. op_keeps I (f a) U) \<Longrightarrow> op_keeps I (op_bind m f) U"
  by (rule keeps_bind)

section \<open>The helpers keep it\<close>

lemma keeps_prices:
  "op_keeps (cart_inv C w0) (resolve_prices r p) (\<lambda>q. cp_cart_id q = cp_cart_id p \<and> cart_summed q)"
  unfolding resolve_prices_def
  by (rule keeps_bind_any [OF keeps_provider_call], simp, rule keeps_return) simp

lemma keeps_tax:
  "cart_summed p \<Longrightarrow>
   op_keeps (cart_inv C w0) (resolve_tax r p) (\<lambda>q. cp_cart_id q = cp_cart_id p \<and> cart_summed q)"
  unfolding resolve_tax_def
  by (rule keeps_bind_any [OF keeps_provider_call], simp, rule keeps_return) simp

lemma keeps_discounts:
  assumes "cart_summed p"
  shows "op_keeps (cart_inv C w0) (apply_discounts r p)
           (\<lambda>q. cp_cart_id q = cp_cart_id p \<and> cart_priced q)"
proof (cases "cp_adjustment_codes p = []")
  case True
  with assms show ?thesis by (simp add: apply_discounts_def keeps_return clear_discounts_priced)
next
  case False
  then show ?thesis
    unfolding apply_discounts_def
    by (simp, intro keeps_bind_any [OF keeps_provider_call] keeps_return)
      (use assms in \<open>simp_all add: set_discounts_priced\<close>)
qed

lemma keeps_geo: "op_keeps (cart_inv C w0) (check_geo r p) (\<lambda>_. True)"
  unfolding check_geo_def Let_def by (rule keeps_provider_call) simp

lemma keeps_reprice:
  "op_keeps (cart_inv C w0) (reprice_for_checkout r p)
     (\<lambda>q. cp_cart_id q = cp_cart_id p \<and> cart_priced q)"
  unfolding reprice_for_checkout_def
  by (rule keeps_bind [OF keeps_prices], rule keeps_bind [OF keeps_tax])
    (auto intro: keeps_weaken [OF keeps_discounts])

lemma keeps_mutate:
  assumes "i \<in> C" "cp_cart_id p = i"
  shows "op_keeps (cart_inv C w0) (mutate_and_recalculate r i p ev) cart_priced"
  unfolding mutate_and_recalculate_def Let_def
  apply (intro keeps_seq keeps_transition keeps_append_event assms)
  apply (rule keeps_bind [OF keeps_prices])
  apply (intro keeps_seq keeps_transition keeps_append_event assms)
  apply (rule keeps_bind [OF keeps_tax], simp)
  apply (rule keeps_bind [OF keeps_discounts], simp)
  apply (intro keeps_seq keeps_transition keeps_append_event assms)
  apply (rule keeps_bind_any [OF keeps_geo])
  apply (intro keeps_seq keeps_transition keeps_append_event keeps_put_snapshot keeps_return assms)
  using assms by simp_all

section \<open>Every command keeps it\<close>

text \<open>The carts a command may touch: the one it names, or the one created under the next identifier.\<close>

definition command_carts :: "runner \<Rightarrow> world \<Rightarrow> cart_command \<Rightarrow> cart_id option \<Rightarrow> cart_id set" where
  "command_carts r w command cart_id =
     (case command of
        CreateCart _ \<Rightarrow> {CartId (ru_new_v4 r (w_uuid w))}
      | GetCart _ \<Rightarrow> {}
      | StartCheckout p \<Rightarrow> {sc_cart_id p}
      | CancelCart p \<Rightarrow> {xc_cart_id p}
      | _ \<Rightarrow> set_option cart_id)"

lemma keeps_guard_any: "op_keeps I (op_guard b e) (\<lambda>_. True)"
  by (rule keeps_weaken [OF keeps_guard]) simp

lemma keeps_selection_ids: "op_keeps (cart_inv C w0) (selection_line_ids p s) (\<lambda>_. True)"
  unfolding selection_line_ids_def
  by (auto intro!: keeps_return keeps_seq keeps_for keeps_guard_any)

lemma keeps_quote: "op_keeps (cart_inv C w0) (quote_options r p s ids) (\<lambda>_. True)"
  unfolding quote_options_def Let_def
  by (auto intro!: keeps_return keeps_provider_call split: option.splits)

lemma keeps_validate_adjustment: "op_keeps (cart_inv C w0) (validate_adjustment r c) (\<lambda>_. True)"
  unfolding validate_adjustment_def
  by (auto intro!: keeps_return keeps_bind_any [OF keeps_provider_call] split: option.splits)

lemma keeps_add_item:
  "op_keeps (cart_inv (set_option c) w0) (add_item r c p) cart_priced"
  unfolding add_item_def Let_def
  by (rule keeps_bind [OF keeps_ok_or], rule keeps_bind_any [OF keeps_provider_call], simp,
      rule keeps_bind [OF keeps_require_cart], rule keeps_bind_any [OF keeps_fresh(2)],
      rule keeps_mutate) simp_all

lemma keeps_update_item_qty:
  "op_keeps (cart_inv (set_option c) w0) (update_item_qty r c p) cart_priced"
  unfolding update_item_qty_def
  by (rule keeps_bind [OF keeps_ok_or], rule keeps_bind [OF keeps_require_cart],
      rule keeps_seq [OF keeps_guard_any], rule keeps_mutate) simp_all

lemma keeps_remove_item:
  "op_keeps (cart_inv (set_option c) w0) (remove_item r c p) cart_priced"
  unfolding remove_item_def
  by (rule keeps_bind [OF keeps_ok_or], rule keeps_bind [OF keeps_require_cart],
      rule keeps_mutate) simp_all

lemma keeps_apply_adjustment:
  "op_keeps (cart_inv (set_option c) w0) (apply_adjustment r c p) cart_priced"
  unfolding apply_adjustment_def
  by (rule keeps_bind [OF keeps_ok_or], rule keeps_bind [OF keeps_require_cart],
      rule keeps_seq [OF keeps_validate_adjustment], rule keeps_mutate) simp_all

lemma keeps_set_fulfillment:
  "op_keeps (cart_inv (set_option c) w0) (set_fulfillment_selection r c p) cart_priced"
  unfolding set_fulfillment_selection_def Let_def
  apply (rule keeps_bind [OF keeps_ok_or], rule keeps_bind [OF keeps_require_cart])
  apply (rule keeps_bind_any [OF keeps_selection_ids], rule keeps_bind_any [OF keeps_quote])
  apply (rule keeps_seq [OF keeps_guard_any])
  apply (rule keeps_bind_any [OF keeps_fresh(2)], rule keeps_bind_any [OF keeps_fresh(2)])
  apply (rule keeps_bind [OF keeps_discounts], simp add: cart_priced_def)
  apply (rule keeps_bind_any [OF keeps_geo])
  by (intro keeps_seq keeps_append_event keeps_put_snapshot keeps_return) simp_all

lemma keeps_start_checkout:
  "op_keeps (cart_inv {sc_cart_id p} w0) (start_checkout p) cart_priced"
  unfolding start_checkout_def Let_def
  by (rule keeps_bind [OF keeps_require_cart], rule keeps_seq [OF keeps_guard_any],
      intro keeps_seq keeps_append_event keeps_put_snapshot keeps_transition keeps_return) simp_all

lemma keeps_cancel_cart:
  "op_keeps (cart_inv {xc_cart_id p} w0) (cancel_cart p) cart_priced"
  unfolding cancel_cart_def Let_def
  by (rule keeps_bind [OF keeps_require_cart],
      intro keeps_seq keeps_append_event keeps_put_snapshot keeps_transition keeps_return) simp_all

lemma create_cart_inv:
  assumes "snapshots_ok w" "create_cart r p w = (x, w')"
  shows "cart_inv {CartId (ru_new_v4 r (w_uuid w))} w w'"
proof -
  let ?i = "CartId (ru_new_v4 r (w_uuid w))" and ?w = "w\<lparr>w_uuid := Suc (w_uuid w)\<rparr>"
  have "op_keeps (cart_inv {?i} w)
     (op_seq (append_cart_event ?i (CartCreatedEv (cc_merchant_id p) (cc_currency p)))
     (op_seq (put_cart_snapshot (new_cart ?i p)) (op_seq (set_cart_state ?i CartCreated)
     (op_return (new_cart ?i p))))) (\<lambda>_. True)"
    by (intro keeps_seq keeps_append_event keeps_put_snapshot keeps_set_state keeps_return)
      (simp_all add: new_cart_priced, simp add: new_cart_def)
  moreover have "cart_inv {?i} w ?w" using assms(1) by (auto simp: cart_inv_defs)
  ultimately show ?thesis
    using keepsD assms(2) by (fastforce simp: create_cart_def fresh_uuid_def op_bind_def Let_def)
qed

text \<open>The whole dispatch, validation failures included.\<close>

lemma dispatch_cart_inv:
  assumes "snapshots_ok w" "dispatch_cart_command r command cart_id w = (x, w')"
  shows "cart_inv (command_carts r w command cart_id) w w'"
proof (cases "vr_valid (validate_cart_command command)")
  case False
  with assms show ?thesis
    by (auto simp: dispatch_cart_command_def op_fail_def cart_inv_start Let_def)
next
  case True
  then have run: "run_cart_command r command cart_id w = (x, w')"
    using assms(2) by (simp add: dispatch_cart_command_def Let_def)
  note keep = keeps_add_item keeps_update_item_qty keeps_remove_item keeps_apply_adjustment
    keeps_set_fulfillment keeps_require_cart keeps_start_checkout keeps_cancel_cart
  show ?thesis
    using run keep [THEN keepsD, OF cart_inv_start [OF assms(1)]] create_cart_inv [OF assms(1)]
    by (cases command) (auto simp: run_cart_command_def command_carts_def)
qed

section \<open>What a successful command writes\<close>

text \<open>What no recalculation changes: the identity of the cart, its owner, version and status.\<close>

definition same_cart :: "cart_projection \<Rightarrow> cart_projection \<Rightarrow> bool" where
  "same_cart p q \<longleftrightarrow>
     cp_cart_id q = cp_cart_id p \<and> cp_version q = cp_version p \<and> cp_tenant_id q = cp_tenant_id p \<and>
     cp_merchant_id q = cp_merchant_id p \<and> cp_currency q = cp_currency p \<and>
     cp_status q = cp_status p \<and> cp_adjustment_codes q = cp_adjustment_codes p \<and>
     cp_fulfillment q = cp_fulfillment p \<and> cp_fulfillment_minor q = cp_fulfillment_minor p"

lemma same_cart_refl [simp]: "same_cart p p"
  by (simp add: same_cart_def)

lemma same_cart_trans: "same_cart p q \<Longrightarrow> same_cart q q' \<Longrightarrow> same_cart p q'"
  by (simp add: same_cart_def)

definition snaps :: "(cart_id \<rightharpoonup> cart_projection) \<Rightarrow> world \<Rightarrow> bool" where
  "snaps S w \<longleftrightarrow> w_snapshots w = S"

lemma wp_bind_keeps:
  assumes "op_keeps I m V" "I s" "\<And>a t. V a \<Longrightarrow> I t \<Longrightarrow> op_wp (f a) Q (\<lambda>_ _. True) t"
  shows "op_wp (op_bind m f) Q (\<lambda>_ _. True) s"
  unfolding wp
  by (rule op_wp_mono [of m "\<lambda>a t. I t \<and> V a" "\<lambda>_. I"]) (use assms in \<open>auto simp: op_keeps_def\<close>)

lemma wp_seq_keeps:
  assumes "op_keeps I m (\<lambda>_. True)" "I s" "\<And>t. I t \<Longrightarrow> op_wp n Q (\<lambda>_ _. True) t"
  shows "op_wp (op_seq m n) Q (\<lambda>_ _. True) s"
  unfolding op_seq_def by (rule wp_bind_keeps [OF assms(1,2)]) (rule assms(3))

lemma snaps_append [simp]: "op_keeps (snaps S) (append_cart_event i ev) (\<lambda>_. True)"
  by (simp add: op_keeps_def append_cart_event_def wp snaps_def split: fault.splits)

lemma snaps_transition [simp]: "op_keeps (snaps S) (transition_cart i ev) (\<lambda>_. True)"
  by (simp add: op_keeps_def transition_cart_def get_cart_state_def set_cart_state_def wp snaps_def
      split: fault.splits option.splits)

lemma snaps_provider: "op_keeps (snaps S) (provider_call c err p) (\<lambda>_. True)"
  by (simp add: op_keeps_def wp snaps_def split: sum.splits)

lemma snaps_prices: "op_keeps (snaps S) (resolve_prices r p) (same_cart p)"
  unfolding resolve_prices_def
  by (rule keeps_bind_any [OF snaps_provider], rule keeps_return)
    (simp add: same_cart_def reprice_lines_def Let_def)

lemma snaps_tax: "op_keeps (snaps S) (resolve_tax r p) (same_cart p)"
  unfolding resolve_tax_def
  by (rule keeps_bind_any [OF snaps_provider], rule keeps_return) (simp add: same_cart_def)

lemma snaps_discounts: "op_keeps (snaps S) (apply_discounts r p) (same_cart p)"
  unfolding apply_discounts_def
  by (auto intro!: keeps_return keeps_bind_any [OF snaps_provider]
      simp: same_cart_def set_discounts_def Let_def)

lemma snaps_geo: "op_keeps (snaps S) (check_geo r p) (\<lambda>_. True)"
  unfolding check_geo_def Let_def by (rule snaps_provider)

lemma snaps_require:
  "op_keeps (snaps S) (require_cart c) (\<lambda>p. S c = Some p)"
  by (auto simp: op_keeps_def require_cart_def get_cart_snapshot_def wp snaps_def split: option.splits)

lemma snaps_fresh: "op_keeps (snaps S) (fresh_id r p) (\<lambda>_. True)"
  by (simp add: op_keeps_def wp snaps_def)

text \<open>The last store call of every command: the snapshot it returns is the one it stored.\<close>

definition stored :: "(cart_id \<rightharpoonup> cart_projection) \<Rightarrow> cart_projection \<Rightarrow> world \<Rightarrow> bool" where
  "stored S q w \<longleftrightarrow> w_snapshots w = S(cp_cart_id q \<mapsto> q)"

lemma wp_put_return:
  "snaps S w \<Longrightarrow> same_cart p q \<Longrightarrow>
   op_wp (op_seq (put_cart_snapshot q) (op_return q)) (\<lambda>q w. stored S q w \<and> same_cart p q) (\<lambda>_ _. True) w"
  by (simp add: put_cart_snapshot_def wp stored_def snaps_def split: fault.splits)

lemma mutate_stores:
  assumes "snaps S w"
  shows "op_wp (mutate_and_recalculate r i p ev) (\<lambda>q w. stored S q w \<and> same_cart p q)
           (\<lambda>_ _. True) w"
  unfolding mutate_and_recalculate_def Let_def
  apply (rule wp_seq_keeps [OF snaps_transition assms], rule wp_seq_keeps [OF snaps_append], assumption)
  apply (rule wp_bind_keeps [OF snaps_prices], assumption)
  apply (rule wp_seq_keeps [OF snaps_transition], assumption)
  apply (rule wp_seq_keeps [OF snaps_append], assumption)
  apply (rule wp_bind_keeps [OF snaps_tax], assumption)
  apply (rule wp_bind_keeps [OF snaps_discounts], assumption)
  apply (rule wp_seq_keeps [OF snaps_transition], assumption)
  apply (rule wp_seq_keeps [OF snaps_append], assumption)
  apply (rule wp_bind_keeps [OF snaps_geo], assumption)
  apply (rule wp_seq_keeps [OF snaps_transition], assumption)
  apply (rule wp_seq_keeps [OF snaps_append], assumption)
  by (rule wp_put_return) (auto simp: same_cart_def)

text \<open>
  One step of the life of a cart: its version goes up by one and its owner, merchant and currency stay.
\<close>

definition cart_advanced :: "cart_id \<Rightarrow> world \<Rightarrow> cart_projection \<Rightarrow> world \<Rightarrow> bool" where
  "cart_advanced c w q w' \<longleftrightarrow>
     (\<exists>p. w_snapshots w c = Some p \<and> w_snapshots w' = (w_snapshots w)(c \<mapsto> q) \<and>
          cp_cart_id q = c \<and> cp_version q = cp_version p + 1 \<and> cp_tenant_id q = cp_tenant_id p \<and>
          cp_merchant_id q = cp_merchant_id p \<and> cp_currency q = cp_currency p)"

lemma stored_advanced:
  assumes "snapshots_ok w" "w_snapshots w c = Some p" "stored (w_snapshots w) q w'"
    and "same_cart (bump_version p') q" "same_cart p p' \<or> p' = p\<lparr>cp_lines := ls\<rparr> \<or> p' = add_code k p"
  shows "cart_advanced c w q w'"
  using assms
  by (auto simp: cart_advanced_def snapshots_ok_def stored_def same_cart_def bump_version_def
      add_code_def)

definition command_target :: "cart_command \<Rightarrow> cart_id option \<Rightarrow> cart_id option" where
  "command_target command cart_id =
     (case command of
        CreateCart _ \<Rightarrow> None
      | GetCart _ \<Rightarrow> None
      | StartCheckout p \<Rightarrow> Some (sc_cart_id p)
      | CancelCart p \<Rightarrow> Some (xc_cart_id p)
      | _ \<Rightarrow> cart_id)"

abbreviation advances :: "cart_id option \<Rightarrow> world \<Rightarrow> cart_projection run \<Rightarrow> bool" where
  "advances c w m \<equiv> op_wp m (\<lambda>q w'. \<exists>i. c = Some i \<and> cart_advanced i w q w') (\<lambda>_ _. True) w"

lemma keeps_ok_or_snaps: "op_keeps (snaps S) (op_ok_or e x) (\<lambda>a. x = Some a)"
  by (rule keeps_ok_or)

lemma snaps_guard: "op_keeps (snaps S) (op_guard b e) (\<lambda>_. True)"
  by (rule keeps_guard_any)

lemma snaps_self: "snaps (w_snapshots w) w"
  by (simp add: snaps_def)

lemma mutate_advances:
  assumes "snapshots_ok w" "snaps (w_snapshots w) t" "w_snapshots w i = Some p" "c = Some i"
    and "same_cart p p' \<or> p' = p\<lparr>cp_lines := ls\<rparr> \<or> p' = add_code k p"
  shows "op_wp (mutate_and_recalculate r i (bump_version p') ev)
           (\<lambda>q w'. \<exists>i. c = Some i \<and> cart_advanced i w q w') (\<lambda>_ _. True) t"
  by (rule op_wp_mono [OF mutate_stores [OF assms(2)]])
    (use assms in \<open>auto intro: stored_advanced\<close>)

lemma add_item_advances: "snapshots_ok w \<Longrightarrow> advances c w (add_item r c p)"
  unfolding add_item_def Let_def
  by (rule wp_bind_keeps [OF keeps_ok_or_snaps snaps_self],
      rule wp_bind_keeps [OF snaps_provider], assumption,
      rule wp_bind_keeps [OF snaps_require], assumption,
      rule wp_bind_keeps [OF snaps_fresh], assumption,
      rule mutate_advances) auto

lemma update_item_qty_advances: "snapshots_ok w \<Longrightarrow> advances c w (update_item_qty r c p)"
  unfolding update_item_qty_def
  by (rule wp_bind_keeps [OF keeps_ok_or_snaps snaps_self],
      rule wp_bind_keeps [OF snaps_require], assumption,
      rule wp_seq_keeps [OF snaps_guard], assumption,
      rule mutate_advances) auto

lemma remove_item_advances: "snapshots_ok w \<Longrightarrow> advances c w (remove_item r c p)"
  unfolding remove_item_def
  by (rule wp_bind_keeps [OF keeps_ok_or_snaps snaps_self],
      rule wp_bind_keeps [OF snaps_require], assumption,
      rule mutate_advances) auto

lemma snaps_validate_adjustment: "op_keeps (snaps S) (validate_adjustment r c) (\<lambda>_. True)"
  unfolding validate_adjustment_def
  by (auto intro!: keeps_return keeps_bind_any [OF snaps_provider] split: option.splits)

lemma apply_adjustment_advances: "snapshots_ok w \<Longrightarrow> advances c w (apply_adjustment r c p)"
  unfolding apply_adjustment_def
  by (rule wp_bind_keeps [OF keeps_ok_or_snaps snaps_self],
      rule wp_bind_keeps [OF snaps_require], assumption,
      rule wp_seq_keeps [OF snaps_validate_adjustment], assumption,
      rule mutate_advances) auto

lemma snaps_selection_ids: "op_keeps (snaps S) (selection_line_ids p s) (\<lambda>_. True)"
  unfolding selection_line_ids_def
  by (auto intro!: keeps_return keeps_seq keeps_for keeps_guard_any)

lemma snaps_quote: "op_keeps (snaps S) (quote_options r p s ids) (\<lambda>_. True)"
  unfolding quote_options_def Let_def
  by (auto intro!: keeps_return snaps_provider split: option.splits)

lemma put_advances:
  assumes "snapshots_ok w" "snaps (w_snapshots w) t" "w_snapshots w i = Some p" "c = Some i"
    and "cp_cart_id q = cp_cart_id p" "cp_version q = cp_version p + 1"
    and "cp_tenant_id q = cp_tenant_id p" "cp_merchant_id q = cp_merchant_id p"
    and "cp_currency q = cp_currency p"
  shows "op_wp (op_seq (put_cart_snapshot q) (op_return q))
           (\<lambda>q w'. \<exists>i. c = Some i \<and> cart_advanced i w q w') (\<lambda>_ _. True) t"
  by (rule op_wp_mono [OF wp_put_return [OF assms(2) same_cart_refl]])
    (use assms in \<open>auto simp: cart_advanced_def snapshots_ok_def stored_def same_cart_def\<close>)

lemma set_fulfillment_advances: "snapshots_ok w \<Longrightarrow> advances c w (set_fulfillment_selection r c p)"
  unfolding set_fulfillment_selection_def Let_def
  apply (rule wp_bind_keeps [OF keeps_ok_or_snaps snaps_self])
  apply (rule wp_bind_keeps [OF snaps_require], assumption)
  apply (rule wp_bind_keeps [OF snaps_selection_ids], assumption)
  apply (rule wp_bind_keeps [OF snaps_quote], assumption)
  apply (rule wp_seq_keeps [OF snaps_guard], assumption)
  apply (rule wp_bind_keeps [OF snaps_fresh], assumption)+
  apply (rule wp_bind_keeps [OF snaps_discounts], assumption)
  apply (rule wp_bind_keeps [OF snaps_geo], assumption)
  apply (rule wp_seq_keeps [OF snaps_append], assumption)
  by (rule put_advances) (auto simp: same_cart_def bump_version_def select_method_def Let_def)

lemma status_advances:
  assumes "snapshots_ok w" "snaps (w_snapshots w) t" "w_snapshots w i = Some p"
  shows "op_wp (op_seq (put_cart_snapshot (bump_version (p\<lparr>cp_status := st\<rparr>)))
                 (op_seq (transition_cart i ev) (op_return (bump_version (p\<lparr>cp_status := st\<rparr>)))))
           (\<lambda>q w'. \<exists>j. Some i = Some j \<and> cart_advanced j w q w') (\<lambda>_ _. True) t"
  using assms
  by (auto simp: put_cart_snapshot_def transition_cart_def get_cart_state_def set_cart_state_def wp
      cart_advanced_def snapshots_ok_def snaps_def bump_version_def split: fault.splits option.splits)

lemma start_checkout_advances:
  "snapshots_ok w \<Longrightarrow> advances (Some (sc_cart_id p)) w (start_checkout p)"
  unfolding start_checkout_def Let_def
  by (rule wp_bind_keeps [OF snaps_require snaps_self],
      rule wp_seq_keeps [OF snaps_guard], assumption,
      rule wp_seq_keeps [OF snaps_append], assumption, rule status_advances)

lemma cancel_cart_advances:
  "snapshots_ok w \<Longrightarrow> advances (Some (xc_cart_id p)) w (cancel_cart p)"
  unfolding cancel_cart_def Let_def
  by (rule wp_bind_keeps [OF snaps_require snaps_self],
      rule wp_seq_keeps [OF snaps_append], assumption, rule status_advances)

lemmas command_advances =
  add_item_advances update_item_qty_advances remove_item_advances apply_adjustment_advances
  set_fulfillment_advances start_checkout_advances cancel_cart_advances

text \<open>What a successful command does, by kind.\<close>

definition cart_created :: "runner \<Rightarrow> create_cart_payload \<Rightarrow> world \<Rightarrow> cart_projection \<Rightarrow> world \<Rightarrow> bool" where
  "cart_created r p w q w' \<longleftrightarrow>
     q = new_cart (CartId (ru_new_v4 r (w_uuid w))) p \<and> cp_version q = 1 \<and> w_snapshots w' = (w_snapshots w)(cp_cart_id q \<mapsto> q)"

lemma create_cart_creates: "op_wp (create_cart r p) (cart_created r p w) (\<lambda>_ _. True) w"
  by (simp add: create_cart_def Let_def wp append_cart_event_def put_cart_snapshot_def set_cart_state_def
      cart_created_def new_cart_def split: fault.splits)

text \<open>
  C36: optimistic versions. A command that succeeds did one of three things. Creation stored the new, empty
  cart it returns, at version one, under a fresh id; a read returned the stored cart of its id and changed
  nothing at all; any other command found its cart, stored exactly the projection it returns, raised the
  version of that cart by one and left its owner, merchant and currency. No other snapshot changed.
\<close>

theorem cart_command_advances:
  assumes "snapshots_ok w" "dispatch_cart_command r command cart_id w = (Inr q, w')"
  shows "case command of
      CreateCart p \<Rightarrow> cart_created r p w q w'
    | GetCart p \<Rightarrow> w_snapshots w (gc_cart_id p) = Some q \<and> w' = w
    | _ \<Rightarrow> \<exists>c. command_target command cart_id = Some c \<and> cart_advanced c w q w'"
proof -
  have run: "run_cart_command r command cart_id w = (Inr q, w')"
    using assms(2) by (auto simp: dispatch_cart_command_def op_fail_def Let_def split: if_splits)
  show ?thesis
  proof (cases command)
    case (CreateCart p)
    with run op_wpD_Inr [OF create_cart_creates] show ?thesis by (simp add: run_cart_command_def)
  next
    case (GetCart p)
    with run show ?thesis
      by (auto simp: run_cart_command_def require_cart_def get_cart_snapshot_def op_defs split: option.splits)
  qed (use run command_advances [OF assms(1), THEN op_wpD_Inr] in
      \<open>auto simp: run_cart_command_def command_target_def\<close>)
qed

theorem cart_command_advances_witness:
  "\<exists>c q w'. command_target sample_start None = Some c \<and> cart_advanced c sample_world q w'"
proof -
  obtain q w' where "dispatch_cart_command sample_runner sample_start None sample_world = (Inr q, w')"
    using sample_start_runs by blast
  from cart_command_advances [OF sample_snapshots_ok this] show ?thesis
    by (auto simp: sample_start_def)
qed

text \<open>
  Isolation of carts. Whatever a cart command answers, failures of providers and stores included,
  it only touches the event stream, snapshot and state of the cart it addresses, changes no other
  store, and calls no provider that moves money.
\<close>

theorem cart_command_frame:
  assumes "snapshots_ok w" "dispatch_cart_command r command cart_id w = (x, w')"
  shows "cart_frame (command_carts r w command cart_id) w w'"
  using dispatch_cart_inv [OF assms] by (simp add: cart_inv_def)

theorem cart_command_frame_witness:
  "\<exists>w'. cart_frame (command_carts sample_runner sample_world sample_start None) sample_world w'"
  using cart_command_frame [OF sample_snapshots_ok prod.collapse [symmetric]] by blast

end
