(* ===== verification/Runner_Checkout.thy ===== *)
theory Runner_Checkout
  imports Cart_Facts
begin

text \<open>
  Checkout execution (\<open>Runner::execute_checkout\<close> and \<open>settle_cart_for_checkout\<close> in
  \<open>orchestrator-runtime/src/runner.rs\<close>): claim of the idempotency key, settlement of the cart at fresh
  prices, reservations, policy, authorization, commit, capture, order, receipt, outbox message and
  completion of the key, in the order of the source.
\<close>

section \<open>Settlement\<close>

definition tenant_matches :: "cart_projection \<Rightarrow> checkout_request \<Rightarrow> bool" where
  "tenant_matches cart request \<longleftrightarrow>
     (case cp_tenant_id cart of Some owner \<Rightarrow> owner = cr_tenant_id request | None \<Rightarrow> True)"

definition settle_cart_for_checkout :: "runner \<Rightarrow> checkout_request \<Rightarrow> cart_projection run" where
  "settle_cart_for_checkout r request =
     op_bind (require_cart (cr_cart_id request)) (\<lambda>cart.
     op_seq (op_guard (tenant_matches cart request) CartTenantMismatch)
     (op_seq (op_guard (cp_version cart = cr_cart_version request)
               (CartVersionConflict (cr_cart_version request) (cp_version cart)))
     (op_bind (reprice_for_checkout r cart) (\<lambda>cart.
     op_bind (check_geo r cart) (\<lambda>geo_ok.
      let cart = cart\<lparr>cp_geo_ok := geo_ok\<rparr> in
     op_seq (put_cart_snapshot cart)
     (op_seq (op_guard (cp_geo_ok cart) GeoBlocked)
     (op_seq (op_guard (pi_amount_minor (cr_payment_intent request) = cp_total_minor cart)
               (AmountMismatch (cp_total_minor cart) (pi_amount_minor (cr_payment_intent request))))
     (op_return cart))))))))"

section \<open>The stages of a checkout\<close>

definition request_key :: "checkout_request \<Rightarrow> idempotency_key" where
  "request_key request =
     ik_from_parts (cr_tenant_id request) (cr_merchant_id request) (cr_idempotency_key request)"

definition cart_totals :: "cart_projection \<Rightarrow> totals_breakdown" where
  "cart_totals cart =
     \<lparr>tb_subtotal_minor = cp_subtotal_minor cart, tb_tax_minor = cp_tax_minor cart,
      tb_discount_minor = cp_discount_minor cart, tb_fulfillment_minor = cp_fulfillment_minor cart,
      tb_total_minor = cp_total_minor cart\<rparr>"

text \<open>\<open>match self.settle_cart_for_checkout(..)\<close>: an error gives the key back.\<close>

definition settle_or_release :: "runner \<Rightarrow> checkout_request \<Rightarrow> cart_projection run" where
  "settle_or_release r request =
     op_catch (settle_cart_for_checkout r request)
       (\<lambda>e. op_seq (idem_release (request_key request)) (op_fail e))"

definition reserve_lines :: "runner \<Rightarrow> checkout_request \<Rightarrow> cart_projection \<Rightarrow> unit run" where
  "reserve_lines r request cart =
     op_for (cp_lines cart)
       (\<lambda>line. store_reserve r (cr_cart_id request) (li_item_id line) (li_quantity line) 300)"

definition advance :: "checkout_state \<Rightarrow> checkout_event \<Rightarrow> checkout_state run" where
  "advance st ev = op_ok_or InvalidStateTransition (next_checkout_state st ev)"

definition advance_to_geo_checked :: "checkout_state run" where
  "advance_to_geo_checked =
     op_bind (advance Received ValidatePassed) (\<lambda>st.
     op_bind (advance st PriceResolved) (\<lambda>st.
     op_bind (advance st KTaxResolved) (\<lambda>st.
     advance st KGeoValidated)))"

text \<open>\<open>errors.join(";")\<close> and the result of a checkout that ends without a payment.\<close>

definition unpaid_result ::
  "string \<Rightarrow> uuid \<Rightarrow> transaction_status \<Rightarrow> string option \<Rightarrow> string option \<Rightarrow> cart_projection \<Rightarrow>
   transaction_result" where
  "unpaid_result txn corr status reference trail cart =
     \<lparr>tr_transaction_id = txn, tr_status = status, tr_totals_breakdown = cart_totals cart,
      tr_payment_reference = reference, tr_receipt_payload = None, tr_correlation_id = corr,
      tr_audit_trail_id = trail, tr_payment_state = Failed, tr_order_id = None\<rparr>"

text \<open>The common end of the rejected and of the unauthorized branch.\<close>

definition finish_unpaid ::
  "runner \<Rightarrow> checkout_request \<Rightarrow> transaction_status \<Rightarrow> string option \<Rightarrow> string option \<Rightarrow>
   cart_projection \<Rightarrow> transaction_result run" where
  "finish_unpaid r request status reference trail cart =
     op_bind (fresh_id r ''txn_'') (\<lambda>txn.
     op_bind (fresh_uuid r) (\<lambda>corr.
      let result = unpaid_result txn corr status reference trail cart in
     op_seq (store_release (cr_cart_id request))
     (op_seq (idem_complete (request_key request) result)
     (op_seq (store_payment_state (tr_transaction_id result) (tr_payment_state result))
     (op_return result)))))"

definition lifecycle_request ::
  "checkout_request \<Rightarrow> cart_projection \<Rightarrow> string \<Rightarrow> payment_lifecycle_request" where
  "lifecycle_request request cart txn =
     \<lparr>pl_tenant_id = cr_tenant_id request, pl_merchant_id = cr_merchant_id request,
      pl_transaction_id = txn, pl_amount_minor = cp_total_minor cart,
      pl_idempotency_key = cr_idempotency_key request\<rparr>"

text \<open>Commit, then capture of the committed transaction.\<close>

definition commit_and_capture ::
  "runner \<Rightarrow> checkout_request \<Rightarrow> cart_projection \<Rightarrow> string \<Rightarrow>
   (commit_record \<times> payment_operation_result) run" where
  "commit_and_capture r request cart reference =
     op_bind (store_commit r (cr_cart_id request) (Some reference)) (\<lambda>committed.
      let lr = lifecycle_request request cart (cm_transaction_id committed) in
     op_bind (provider_call (CallCapture lr) PaymentErr (\<lambda>h. ps_capture (ru_providers r) h lr))
       (\<lambda>capture. op_return (committed, capture)))"

definition new_order ::
  "checkout_request \<Rightarrow> cart_projection \<Rightarrow> string \<Rightarrow> string \<Rightarrow> string \<Rightarrow> int \<Rightarrow> int \<Rightarrow> order_record" where
  "new_order request cart order_id evt_id txn occurred created =
     \<lparr>or_order_id = order_id, or_tenant_id = cr_tenant_id request, or_transaction_id = txn,
      or_checkout_id = cr_cart_id request, or_status = Created, or_currency = cr_currency request,
      or_permalink_url = ''/orders/'' @ order_id, or_line_items = cp_lines cart,
      or_totals = cart_totals cart,
      or_events = [\<lparr>oe_id = evt_id, oe_event_type = ''created'',
                    oe_description = ''Order created from committed checkout'',
                    oe_occurred_at = occurred\<rparr>],
      or_adjustments = [], or_created_at = created\<rparr>"

definition place_order ::
  "runner \<Rightarrow> checkout_request \<Rightarrow> cart_projection \<Rightarrow> commit_record \<Rightarrow> string run" where
  "place_order r request cart committed =
     op_bind (fresh_id r ''ord_'') (\<lambda>order_id.
     op_bind (fresh_id r ''evt_'') (\<lambda>evt_id.
     op_bind (utc_now r) (\<lambda>occurred.
     op_bind (utc_now r) (\<lambda>created.
     op_seq (store_order
              (new_order request cart order_id evt_id (cm_transaction_id committed) occurred created))
     (op_return order_id)))))"

definition paid_result ::
  "cart_projection \<Rightarrow> commit_record \<Rightarrow> payment_operation_result \<Rightarrow> transaction_status \<Rightarrow> string \<Rightarrow> uuid \<Rightarrow>
   transaction_result" where
  "paid_result cart committed capture status order_id corr =
     \<lparr>tr_transaction_id = cm_transaction_id committed, tr_status = status,
      tr_totals_breakdown = cart_totals cart, tr_payment_reference = cm_payment_reference committed,
      tr_receipt_payload = None, tr_correlation_id = corr, tr_audit_trail_id = None,
      tr_payment_state = (if por_success capture then Captured else Failed),
      tr_order_id = Some order_id\<rparr>"

definition order_message :: "checkout_request \<Rightarrow> string \<Rightarrow> string \<Rightarrow> string \<Rightarrow> outbox_message" where
  "order_message request msg_id order_id corr =
     \<lparr>om_id = msg_id, om_topic = ''order.created'', om_payload = order_id, om_correlation_id = corr,
      om_attempts = 0, om_tenant_id = Some (cr_tenant_id request)\<rparr>"

definition final_status :: "checkout_state \<Rightarrow> transaction_status run" where
  "final_status st =
     op_bind (advance st EvReceiptGenerated) (\<lambda>st.
     op_bind (advance st Complete) (\<lambda>st.
     op_ok_or InvalidStateTransition (terminal_status st)))"

text \<open>From the stored order to the completed key.\<close>

definition complete_checkout ::
  "runner \<Rightarrow> checkout_request \<Rightarrow> cart_projection \<Rightarrow> commit_record \<Rightarrow> payment_operation_result \<Rightarrow>
   checkout_state \<Rightarrow> string \<Rightarrow> transaction_result run" where
  "complete_checkout r request cart committed capture st order_id =
     op_bind (final_status st) (\<lambda>status.
     op_bind (fresh_uuid r) (\<lambda>corr.
      let result = paid_result cart committed capture status order_id corr in
     op_bind (provider_call (CallReceipt cart result) ReceiptErr
               (\<lambda>h. ps_receipt (ru_providers r) h cart result)) (\<lambda>content.
      let result = result\<lparr>tr_receipt_payload := Some content\<rparr> in
     op_seq (store_finalize (cr_cart_id request))
     (op_bind (fresh_id r ''msg_'') (\<lambda>msg_id.
      op_seq (store_enqueue (order_message request msg_id order_id (ru_uuid_str r corr)))
     (op_seq (idem_complete (request_key request) result)
     (op_seq (store_payment_state (tr_transaction_id result) (tr_payment_state result))
     (op_return result))))))))"

definition pay_and_complete ::
  "runner \<Rightarrow> checkout_request \<Rightarrow> cart_projection \<Rightarrow> checkout_state \<Rightarrow> transaction_result run" where
  "pay_and_complete r request cart st =
     op_bind (provider_call (CallAuthorize request) PaymentErr
               (\<lambda>h. ps_authorize (ru_providers r) h request)) (\<lambda>auth.
      if \<not> ar_authorized auth
      then finish_unpaid r request AuthFailed (Some (ar_reference auth)) None cart
      else
     op_bind (advance st EvPaymentAuthorized) (\<lambda>st.
     op_bind (commit_and_capture r request cart (ar_reference auth)) (\<lambda>cc.
     op_bind (advance st EvCommitted) (\<lambda>st.
     op_bind (place_order r request cart (fst cc)) (\<lambda>order_id.
     complete_checkout r request cart (fst cc) (snd cc) st order_id)))))"

definition checkout_settled ::
  "runner \<Rightarrow> checkout_request \<Rightarrow> cart_projection \<Rightarrow> transaction_result run" where
  "checkout_settled r request cart =
     op_seq (reserve_lines r request cart)
     (op_bind advance_to_geo_checked (\<lambda>st.
      case check_checkout (ru_policy r) request (cp_total_minor cart) of
        PolicyRejected errors \<Rightarrow>
          finish_unpaid r request Rejected None (Some (str_join '';'' errors)) cart
      | Allowed \<Rightarrow> pay_and_complete r request cart st))"

definition execute_checkout :: "runner \<Rightarrow> checkout_request \<Rightarrow> transaction_result run" where
  "execute_checkout r request =
     (let validation = validate_checkout_request request in
      if \<not> vr_valid validation then op_fail (ValidationFailed (vr_errors validation))
      else op_bind (idem_claim (request_key request)) (\<lambda>claimed.
        case claimed of
          Some InFlight \<Rightarrow> op_fail AlreadyInFlight
        | Some (IdemCompleted result) \<Rightarrow> op_return result
        | None \<Rightarrow> op_bind (settle_or_release r request) (checkout_settled r request)))"

end
