(* ===== verification/Checkout_Facts.thy ===== *)
theory Checkout_Facts
  imports Runner_Checkout
begin

text \<open>
  What a checkout guarantees: when money moves, what each outcome leaves in the stores, and that a
  request with the same idempotency key is answered from the stored outcome.
\<close>

lemma advance_to_geo_checked_eq [simp]: "advance_to_geo_checked = op_return KGeoChecked"
  by (rule ext) (simp add: advance_to_geo_checked_def advance_def op_defs next_checkout_state_def)

lemma final_status_eq [simp]: "final_status Committed = op_return Completed"
  by (rule ext) (simp add: final_status_def advance_def op_defs next_checkout_state_def)

lemma advance_paid [simp]:
  "advance KGeoChecked EvPaymentAuthorized = op_return PaymentAuthorized"
  "advance PaymentAuthorized EvCommitted = op_return Committed"
  by (rule ext, simp add: advance_def op_defs next_checkout_state_def)+

lemma op_bind_return [simp]: "op_bind (op_return a) f = f a"
  by (rule ext) (simp add: op_defs)

lemma op_bind_assoc: "op_bind (op_bind m f) g = op_bind m (\<lambda>a. op_bind (f a) g)"
  by (rule ext) (simp add: op_bind_def split: prod.splits sum.splits)

text \<open>The general rule to run an operation under an invariant of the stages before it.\<close>

lemma wp_bind_inv:
  assumes "op_keeps I m V" "I s" "\<And>e t. I t \<Longrightarrow> E e t"
    and "\<And>a t. V a \<Longrightarrow> I t \<Longrightarrow> op_wp (f a) Q E t"
  shows "op_wp (op_bind m f) Q E s"
  unfolding wp
  by (rule op_wp_mono [of m "\<lambda>a t. I t \<and> V a" "\<lambda>_. I"]) (use assms in \<open>auto simp: op_keeps_def\<close>)

lemma wp_seq_inv:
  assumes "op_keeps I m (\<lambda>_. True)" "I s" "\<And>e t. I t \<Longrightarrow> E e t" "\<And>t. I t \<Longrightarrow> op_wp n Q E t"
  shows "op_wp (op_seq m n) Q E s"
  unfolding op_seq_def by (rule wp_bind_inv [OF assms(1,2)]) (use assms in auto)

lemma keeps_wp: "op_keeps I m V \<Longrightarrow> I s \<Longrightarrow> (\<And>a t. I t \<Longrightarrow> V a \<Longrightarrow> Q a t) \<Longrightarrow> (\<And>e t. I t \<Longrightarrow> E e t) \<Longrightarrow> op_wp m Q E s"
  by (rule op_wp_mono [of m "\<lambda>a t. I t \<and> V a" "\<lambda>_. I"]) (auto simp: op_keeps_def)

lemma keeps_store_call:
  assumes "\<And>w. I w \<Longrightarrow> I (clear_fault w)" "\<And>w. I w \<Longrightarrow> I (snd (f w))"
  shows "op_keeps I (store_call f) (\<lambda>_. True)"
  using assms by (simp add: op_keeps_def wp split: fault.splits)

lemma keeps_store_put_any:
  assumes "\<And>w. I w \<Longrightarrow> I (clear_fault w)" "\<And>w. I w \<Longrightarrow> I (f w)"
  shows "op_keeps I (store_put f) (\<lambda>_. True)"
  unfolding store_put_def by (rule keeps_store_call) (use assms in simp_all)

section \<open>The payment calls of a checkout\<close>

definition payment_log :: "world \<Rightarrow> ext_call list" where
  "payment_log w = filter is_payment_call (w_log w)"

definition paid :: "(cart_id \<rightharpoonup> cart_projection) \<Rightarrow> ext_call list \<Rightarrow> world \<Rightarrow> bool" where
  "paid S X w \<longleftrightarrow> w_snapshots w = S \<and> payment_log w = X"

lemma paid_clear [simp]: "paid S X (clear_fault w) = paid S X w"
  by (simp add: paid_def payment_log_def)

lemma paid_stores [keeps]:
  "op_keeps (paid S X) (store_reserve r c sku q t) (\<lambda>_. True)"
  "op_keeps (paid S X) (store_release c) (\<lambda>_. True)"
  "op_keeps (paid S X) (store_finalize c) (\<lambda>_. True)"
  "op_keeps (paid S X) (store_order rec) (\<lambda>_. True)"
  "op_keeps (paid S X) (store_enqueue m) (\<lambda>_. True)"
  "op_keeps (paid S X) (idem_complete k v) (\<lambda>_. True)"
  "op_keeps (paid S X) (idem_release k) (\<lambda>_. True)"
  "op_keeps (paid S X) (store_commit r c ref) (\<lambda>_. True)"
  unfolding store_reserve_def store_release_def store_finalize_def store_order_def store_enqueue_def
    idem_complete_def idem_release_def store_commit_def
  by (rule keeps_store_put_any keeps_store_call;
      simp add: paid_def payment_log_def lift_idem_def split: prod.splits)+

lemma paid_steps [keeps]:
  "op_keeps (paid S X) (fresh_uuid r) (\<lambda>_. True)"
  "op_keeps (paid S X) (fresh_id r p) (\<lambda>_. True)"
  "op_keeps (paid S X) (utc_now r) (\<lambda>_. True)"
  "op_keeps (paid S X) (store_payment_state t st) (\<lambda>_. True)"
  by (simp_all add: op_keeps_def wp paid_def payment_log_def store_payment_state_def)

lemma paid_quiet_call:
  "\<not> is_payment_call c \<Longrightarrow> op_keeps (paid S X) (provider_call c err p) (\<lambda>_. True)"
  by (simp add: op_keeps_def wp paid_def payment_log_def split: sum.splits)

lemma paid_reserve_lines: "op_keeps (paid S X) (reserve_lines r q c) (\<lambda>_. True)"
  unfolding reserve_lines_def by (intro keeps_for keeps)

lemma paid_finish_unpaid: "op_keeps (paid S X) (finish_unpaid r q st ref tr c) (\<lambda>_. True)"
  unfolding finish_unpaid_def Let_def by (intro keeps_bind_any keeps) simp_all

lemma paid_place_order: "op_keeps (paid S X) (place_order r q c cm) (\<lambda>_. True)"
  unfolding place_order_def by (intro keeps_bind_any keeps) simp_all

lemma paid_complete_checkout:
  "op_keeps (paid S X) (complete_checkout r q c cm cap Committed oid) (\<lambda>_. True)"
  unfolding complete_checkout_def Let_def final_status_eq op_bind_return
  by (intro keeps_bind_any keeps paid_quiet_call) simp_all

text \<open>
  What must hold of a cart for the checkout \<open>request\<close> to be charged: it is the addressed cart, of the
  requesting tenant, at the requested version, deliverable, priced consistently, allowed by policy, and
  it costs exactly what the payment intent says.
\<close>

definition settled :: "checkout_request \<Rightarrow> cart_projection \<Rightarrow> bool" where
  "settled request cart \<longleftrightarrow>
     cp_cart_id cart = cr_cart_id request \<and> tenant_matches cart request \<and>
     cp_version cart = cr_cart_version request \<and> cp_geo_ok cart \<and> cart_priced cart \<and>
     pi_amount_minor (cr_payment_intent request) = cp_total_minor cart"

definition chargeable :: "runner \<Rightarrow> checkout_request \<Rightarrow> cart_projection \<Rightarrow> bool" where
  "chargeable r request cart \<longleftrightarrow>
     settled request cart \<and> check_checkout (ru_policy r) request (cp_total_minor cart) = Allowed"

text \<open>The payment calls a checkout makes on top of \<open>X\<close>: none, one authorization, or that and one capture.\<close>

definition charged_for ::
  "runner \<Rightarrow> checkout_request \<Rightarrow> cart_projection \<Rightarrow> ext_call list \<Rightarrow> world \<Rightarrow> bool" where
  "charged_for r request cart X w \<longleftrightarrow>
     payment_log w = X \<or>
     (w_snapshots w (cr_cart_id request) = Some cart \<and> chargeable r request cart \<and>
        (payment_log w = X @ [CallAuthorize request] \<or>
         (\<exists>txn. payment_log w =
            X @ [CallAuthorize request, CallCapture (lifecycle_request request cart txn)])))"

definition charged_at_most ::
  "runner \<Rightarrow> checkout_request \<Rightarrow> ext_call list \<Rightarrow> world \<Rightarrow> bool" where
  "charged_at_most r request X w \<longleftrightarrow>
     payment_log w = X \<or>
     (\<exists>cart. w_snapshots w (cr_cart_id request) = Some cart \<and> chargeable r request cart \<and>
        (payment_log w = X @ [CallAuthorize request] \<or>
         (\<exists>txn. payment_log w =
            X @ [CallAuthorize request, CallCapture (lifecycle_request request cart txn)])))"

lemma charged_for_at_most: "charged_for r request cart X w \<Longrightarrow> charged_at_most r request X w"
  by (auto simp: charged_for_def charged_at_most_def)

text \<open>
  The cart a settlement computes from the stored one, when the providers have been called with the history
  \<open>h\<close>: the unit prices and the tax they answer now, the discounts they grant now for the codes of the cart, and
  their present word on the destination.
\<close>

definition freshly_discounted ::
  "runner \<Rightarrow> ext_call list \<Rightarrow> cart_projection \<Rightarrow> cart_projection \<Rightarrow> ext_call list \<Rightarrow> bool" where
  "freshly_discounted r h taxed cart h' \<longleftrightarrow>
     (if cp_adjustment_codes taxed = []
      then cart = taxed\<lparr>cp_discounts := [], cp_discount_minor := 0, cp_total_minor := gross_minor taxed\<rparr> \<and> h' = h
      else \<exists>ds. ps_resolve_discounts (ru_providers r) h taxed (cp_adjustment_codes taxed) = Inr ds \<and>
             cart = set_discounts ds taxed \<and> h' = h @ [CallDiscounts taxed (cp_adjustment_codes taxed)])"

definition freshly_priced :: "runner \<Rightarrow> ext_call list \<Rightarrow> cart_projection \<Rightarrow> cart_projection \<Rightarrow> bool" where
  "freshly_priced r h old cart \<longleftrightarrow>
     (\<exists>prices tax discounted h' geo.
        ps_resolve_prices (ru_providers r) h old = Inr prices \<and>
        ps_resolve_tax (ru_providers r) (h @ [CallPrices old]) (reprice_lines prices old) = Inr tax \<and>
        freshly_discounted r (h @ [CallPrices old, CallTax (reprice_lines prices old)])
          ((reprice_lines prices old)\<lparr>cp_tax_minor := tax\<rparr>) discounted h' \<and>
        ps_geo_check (ru_providers r) h' discounted (geo_check_request discounted) = Inr geo \<and>
        cart = discounted\<lparr>cp_geo_ok := geo\<rparr>)"

text \<open>
  Between \<open>w\<close> and \<open>w'\<close> no payment provider was called, or it was for the cart stored in \<open>w\<close> at the prices, the tax
  and the discounts resolved since.
\<close>

definition charged_fresh :: "runner \<Rightarrow> checkout_request \<Rightarrow> world \<Rightarrow> world \<Rightarrow> bool" where
  "charged_fresh r request w w' \<longleftrightarrow>
     payment_log w' = payment_log w \<or>
     (\<exists>stored cart. w_snapshots w (cr_cart_id request) = Some stored \<and> freshly_priced r (w_log w) stored cart \<and>
        charged_for r request cart (payment_log w) w')"

lemma charged_fresh_at_most: "charged_fresh r request w w' \<Longrightarrow> charged_at_most r request (payment_log w) w'"
  by (auto simp: charged_fresh_def charged_at_most_def charged_for_def)

lemma paid_tail:
  assumes "paid S Y t" "\<And>t. paid S Y t \<Longrightarrow> P t"
  shows "op_wp (op_bind (place_order r request cart cm)
           (complete_checkout r request cart cm cap Committed)) (\<lambda>_. P) (\<lambda>_. P) t"
  by (rule wp_bind_inv [OF paid_place_order assms(1)], erule assms(2),
      rule keeps_wp [OF paid_complete_checkout], assumption) (erule assms(2))+

lemma paid_capture:
  assumes "paid S A t" "\<And>t. paid S A t \<Longrightarrow> P t"
    and "\<And>t txn. paid S (A @ [CallCapture (lifecycle_request request cart txn)]) t \<Longrightarrow> P t"
  shows "op_wp (op_bind (commit_and_capture r request cart ref) (\<lambda>cc.
           op_bind (place_order r request cart (fst cc))
             (complete_checkout r request cart (fst cc) (snd cc) Committed))) (\<lambda>_. P) (\<lambda>_. P) t"
proof -
  have log: "paid S (A @ [CallCapture lr]) (t\<lparr>w_log := w_log t @ [CallCapture lr]\<rparr>)"
    if "paid S A t" for t lr using that by (simp add: paid_def payment_log_def)
  show ?thesis
    unfolding commit_and_capture_def Let_def op_bind_assoc op_bind_return fst_conv snd_conv
    by (rule wp_bind_inv [OF paid_stores(8) assms(1)], erule assms(2), subst wp_bind)
      (auto simp: wp_provider_call split: sum.splits intro!: paid_tail log assms(3))
qed

lemma paid_pay_and_complete:
  assumes "paid S X w" "S (cr_cart_id request) = Some cart" "chargeable r request cart"
  shows "op_wp (pay_and_complete r request cart KGeoChecked)
           (\<lambda>_. charged_for r request cart X) (\<lambda>_. charged_for r request cart X) w"
proof -
  let ?P = "charged_for r request cart X" and ?A = "X @ [CallAuthorize request]"
  have A: "?P t" if "paid S ?A t" for t
    using that assms(2,3) by (auto simp: charged_for_def paid_def)
  have C: "?P t" if "paid S (?A @ [CallCapture (lifecycle_request request cart txn)]) t" for t txn
    using that assms(2,3) by (auto simp: charged_for_def paid_def)
  have log: "paid S ?A (w\<lparr>w_log := w_log w @ [CallAuthorize request]\<rparr>)"
    using assms(1) by (simp add: paid_def payment_log_def)
  have unpaid: "op_wp (finish_unpaid r request st ref tr cart) (\<lambda>_. ?P) (\<lambda>_. ?P) t"
    if "paid S ?A t" for t st ref tr
    by (rule keeps_wp [OF paid_finish_unpaid that]) (erule A)+
  note capture = paid_capture [OF log A C]
  show ?thesis
    unfolding pay_and_complete_def wp_bind [of "provider_call _ _ _"] wp_provider_call advance_paid
      op_bind_return
    using log by (auto split: sum.splits intro!: unpaid capture) (erule A)
qed

lemma paid_checkout_settled:
  assumes "paid S X w" "S (cr_cart_id request) = Some cart" "settled request cart"
  shows "op_wp (checkout_settled r request cart)
           (\<lambda>_. charged_for r request cart X) (\<lambda>_. charged_for r request cart X) w"
proof -
  let ?P = "charged_for r request cart X"
  have P: "?P t" if "paid S X t" for t using that by (simp add: charged_for_def paid_def)
  show ?thesis
    unfolding checkout_settled_def advance_to_geo_checked_eq op_bind_return
  proof (rule wp_seq_inv [OF paid_reserve_lines assms(1) P])
    fix t assume t: "paid S X t"
    show "op_wp (case check_checkout (ru_policy r) request (cp_total_minor cart) of
        Allowed \<Rightarrow> pay_and_complete r request cart KGeoChecked
      | PolicyRejected errors \<Rightarrow>
          finish_unpaid r request Rejected None (Some (str_join '';'' errors)) cart)
      (\<lambda>_. ?P) (\<lambda>_. ?P) t"
      using paid_pay_and_complete [OF t assms(2)] keeps_wp [OF paid_finish_unpaid t] P assms(3)
      by (auto simp: chargeable_def split: policy_check_result.splits)
  qed
qed

section \<open>Settlement\<close>

text \<open>
  Settlement only rewrites the snapshot of the addressed cart; when it succeeds the cart it returns is
  settled and is the one it stored.
\<close>

definition settling :: "world \<Rightarrow> checkout_request \<Rightarrow> world \<Rightarrow> bool" where
  "settling w0 request = cart_inv {cr_cart_id request} w0"

lemma keeps_value:
  assumes "op_keeps I m V" "\<And>S. op_keeps (snaps S) m U"
  shows "op_keeps I m (\<lambda>a. V a \<and> U a)"
  unfolding op_keeps_def
proof (intro allI impI)
  fix s assume "I s"
  have "op_wp m (\<lambda>a t. I t \<and> V a) (\<lambda>_. I) s" using assms(1) \<open>I s\<close> by (simp add: op_keeps_def)
  moreover have "op_wp m (\<lambda>a t. snaps (w_snapshots s) t \<and> U a) (\<lambda>_. snaps (w_snapshots s)) s"
    using assms(2) [of "w_snapshots s"] by (simp add: op_keeps_def snaps_def)
  ultimately show "op_wp m (\<lambda>a t. I t \<and> V a \<and> U a) (\<lambda>_. I) s"
    by (rule op_wp_mono [OF op_wp_conj]) auto
qed

lemma snaps_reprice: "op_keeps (snaps S) (reprice_for_checkout r p) (same_cart p)"
  unfolding reprice_for_checkout_def
  by (rule keeps_bind [OF snaps_prices], rule keeps_bind [OF snaps_tax],
      rule keeps_weaken [OF snaps_discounts]) (blast intro: same_cart_trans)

lemma settle_put:
  assumes "cart_inv {cr_cart_id request} w0 w" "cart_priced cart" "cp_cart_id cart = cr_cart_id request"
    and "tenant_matches cart request" "cp_version cart = cr_cart_version request"
  shows "op_wp (op_seq (put_cart_snapshot cart)
     (op_seq (op_guard (cp_geo_ok cart) GeoBlocked)
     (op_seq (op_guard (pi_amount_minor (cr_payment_intent request) = cp_total_minor cart) e)
     (op_return cart))))
           (\<lambda>cart w'. settling w0 request w' \<and> settled request cart \<and>
                      w_snapshots w' (cr_cart_id request) = Some cart)
           (\<lambda>_. settling w0 request) w"
proof -
  have "cart_inv {cr_cart_id request} w0 (clear_fault w)"
    by (rule cart_inv_eq [OF assms(1)]) (simp_all add: same_carts_def same_effects_def)
  moreover have "cart_inv {cr_cart_id request} w0
      ((clear_fault w)\<lparr>w_snapshots := (w_snapshots w)(cr_cart_id request \<mapsto> cart)\<rparr>)"
    using calculation assms(2,3) by (auto simp: cart_inv_defs log_extends_def)
  ultimately show ?thesis
    using assms by (auto simp: put_cart_snapshot_def wp settling_def settled_def split: fault.splits)
qed

lemma settle_wp:
  assumes "settling w0 request w"
  shows "op_wp (settle_cart_for_checkout r request)
           (\<lambda>cart w'. settling w0 request w' \<and> settled request cart \<and>
                      w_snapshots w' (cr_cart_id request) = Some cart)
           (\<lambda>_. settling w0 request) w"
proof -
  let ?I = "cart_inv {cr_cart_id request} w0"
  let ?Q = "\<lambda>cart w'. settling w0 request w' \<and> settled request cart \<and>
                      w_snapshots w' (cr_cart_id request) = Some cart"
  have tail: "op_wp (op_bind (reprice_for_checkout r cart) (\<lambda>cart.
     op_bind (check_geo r cart) (\<lambda>geo_ok.
     op_seq (put_cart_snapshot (cart\<lparr>cp_geo_ok := geo_ok\<rparr>))
     (op_seq (op_guard (cp_geo_ok (cart\<lparr>cp_geo_ok := geo_ok\<rparr>)) GeoBlocked)
     (op_seq (op_guard (pi_amount_minor (cr_payment_intent request) =
                        cp_total_minor (cart\<lparr>cp_geo_ok := geo_ok\<rparr>))
               (AmountMismatch (cp_total_minor (cart\<lparr>cp_geo_ok := geo_ok\<rparr>))
                 (pi_amount_minor (cr_payment_intent request))))
     (op_return (cart\<lparr>cp_geo_ok := geo_ok\<rparr>))))))) ?Q (\<lambda>_. settling w0 request) t"
    if "?I t" "cp_cart_id cart = cr_cart_id request" "tenant_matches cart request"
      "cp_version cart = cr_cart_version request" for t cart
    by (rule wp_bind_inv [OF keeps_value [OF keeps_reprice snaps_reprice] that(1)],
        simp add: settling_def, rule wp_bind_inv [OF keeps_geo], assumption, simp add: settling_def,
        rule settle_put) (use that in \<open>auto simp: same_cart_def tenant_matches_def\<close>)
  show ?thesis
    unfolding settle_cart_for_checkout_def Let_def
    by (rule wp_bind_inv [OF keeps_require_cart assms [unfolded settling_def]],
        simp add: settling_def, unfold wp_seq [of "op_guard _ _"] wp_guard)
      (simp only: split: if_split, intro conjI impI tail; simp add: settling_def)
qed

section \<open>The whole checkout\<close>

lemma settling_payment_log: "settling w0 request w \<Longrightarrow> payment_log w = payment_log w0"
  by (auto simp: settling_def cart_inv_def cart_frame_def log_extends_def payment_log_def
      filter_empty_conv list_all_iff)

lemma settle_or_release_wp:
  assumes "settling w0 request w"
  shows "op_wp (settle_or_release r request)
           (\<lambda>cart w'. settling w0 request w' \<and> settled request cart \<and>
                      w_snapshots w' (cr_cart_id request) = Some cart)
           (\<lambda>_ w'. payment_log w' = payment_log w0) w"
  unfolding settle_or_release_def wp_catch
  by (rule op_wp_mono [OF settle_wp [OF assms]])
    (auto simp: wp idem_release_def lift_idem_def dest!: settling_payment_log split: fault.splits prod.splits,
     auto simp: payment_log_def)

lemma settle_fresh:
  "op_wp (settle_cart_for_checkout r request)
     (\<lambda>cart _. \<exists>stored. w_snapshots w (cr_cart_id request) = Some stored \<and> freshly_priced r (w_log w) stored cart)
     (\<lambda>_ _. True) w"
  by (auto simp: settle_cart_for_checkout_def require_cart_def get_cart_snapshot_def reprice_for_checkout_def
      resolve_prices_def resolve_tax_def apply_discounts_def check_geo_def put_cart_snapshot_def wp Let_def
      freshly_priced_def freshly_discounted_def split: option.splits fault.splits sum.splits)

lemma settle_or_release_fresh:
  "op_wp (settle_or_release r request)
     (\<lambda>cart _. \<exists>stored. w_snapshots w (cr_cart_id request) = Some stored \<and> freshly_priced r (w_log w) stored cart)
     (\<lambda>_ _. True) w"
  unfolding settle_or_release_def wp_catch
  by (rule op_wp_mono [OF settle_fresh]) (auto simp: wp idem_release_def split: fault.splits)

lemma run_charged:
  assumes "snapshots_ok w"
  shows "op_wp (op_bind (settle_or_release r request) (checkout_settled r request))
     (\<lambda>_. charged_fresh r request w) (\<lambda>_. charged_fresh r request w) w"
proof -
  have "settling w request w" using assms by (simp add: settling_def cart_inv_start)
  note settle = op_wp_conj [OF settle_or_release_wp [OF this] settle_or_release_fresh]
  show ?thesis
    unfolding wp_bind [of "settle_or_release _ _"]
  proof (rule op_wp_mono [OF settle])
    fix cart t
    assume t: "(settling w request t \<and> settled request cart \<and> w_snapshots t (cr_cart_id request) = Some cart) \<and>
      (\<exists>stored. w_snapshots w (cr_cart_id request) = Some stored \<and> freshly_priced r (w_log w) stored cart)"
    then have "paid (w_snapshots t) (payment_log w) t" by (auto simp: paid_def settling_payment_log)
    from paid_checkout_settled [OF this] t
    have "op_wp (checkout_settled r request cart)
        (\<lambda>_. charged_for r request cart (payment_log w)) (\<lambda>_. charged_for r request cart (payment_log w)) t" by blast
    then show "op_wp (checkout_settled r request cart) (\<lambda>_. charged_fresh r request w) (\<lambda>_. charged_fresh r request w) t"
      by (rule op_wp_mono) (use t in \<open>auto simp: charged_fresh_def\<close>)
  qed (simp add: charged_fresh_def)
qed

text \<open>The three answers of the claim, from any state.\<close>

lemma idem_claim_wp:
  "op_wp (idem_claim k) Q E w =
     (case next_fault w of
        NoFault \<Rightarrow> Q (w_idem w k)
          ((clear_fault w)\<lparr>w_idem := (if w_idem w k = None then (w_idem w)(k \<mapsto> InFlight) else w_idem w)\<rparr>)
      | FailBefore m \<Rightarrow> E (StoreFailed (StoreError m)) (clear_fault w)
      | FailAfter m \<Rightarrow> E (StoreFailed (StoreError m))
          ((clear_fault w)\<lparr>w_idem := (if w_idem w k = None then (w_idem w)(k \<mapsto> InFlight) else w_idem w)\<rparr>))"
  by (auto simp: idem_claim_def wp lift_idem_def mem_claim_def split: fault.splits option.splits)

lemma checkout_charged_fresh:
  assumes "snapshots_ok w"
  shows "op_wp (execute_checkout r request) (\<lambda>_. charged_fresh r request w) (\<lambda>_. charged_fresh r request w) w"
proof -
  have ok: "snapshots_ok ((clear_fault w)\<lparr>w_idem := m\<rparr>)" for m
    using assms by (simp add: snapshots_ok_def)
  have log: "payment_log ((clear_fault w)\<lparr>w_idem := m\<rparr>) = payment_log w"
    "payment_log (clear_fault w) = payment_log w" for m by (simp_all add: payment_log_def)
  have "charged_fresh r request ((clear_fault w)\<lparr>w_idem := m\<rparr>) = charged_fresh r request w" for m
    by (rule ext) (simp add: charged_fresh_def log)
  note run = run_charged [where r = r and request = request, OF ok, unfolded this]
  have P: "charged_fresh r request w ((clear_fault w)\<lparr>w_idem := m\<rparr>)"
    "charged_fresh r request w (clear_fault w)" "charged_fresh r request w w" for m
    by (simp_all add: charged_fresh_def log)
  show ?thesis
    unfolding execute_checkout_def Let_def
    using run P by (auto simp: wp_fail wp_bind [of "idem_claim _"] idem_claim_wp wp_return
        split: fault.splits option.splits idempotency_state.splits)
qed

lemma checkout_charged:
  assumes "snapshots_ok w"
  shows "op_wp (execute_checkout r request)
     (\<lambda>_. charged_at_most r request (payment_log w)) (\<lambda>_. charged_at_most r request (payment_log w)) w"
  by (rule op_wp_mono [OF checkout_charged_fresh [OF assms]]) (rule charged_fresh_at_most, assumption)+

text \<open>
  C1: charge safety. For any providers, any store failures and any history, one execution of a checkout
  makes at most one authorization, with the request itself, and at most one capture, after that
  authorization; and it makes them only for a cart that is the addressed one, belongs to the requesting
  tenant, is at the requested version, passed the geo check, is allowed by the policy and costs exactly the
  amount of the payment intent, which is also the amount captured. That cart is the stored one repriced in
  this execution: its unit prices, tax, discounts and destination are what the providers answered to the
  calls of this settlement, and what the cart cost when it was stored plays no part.
\<close>

theorem checkout_charge_safety:
  assumes "snapshots_ok w" "execute_checkout r request w = (x, w')"
  shows "charged_fresh r request w w'"
  using checkout_charged_fresh [OF assms(1), of r request] assms(2) by (simp add: op_wp_all)

lemmas checkout_run_defs =
  execute_checkout_def settle_or_release_def settle_cart_for_checkout_def checkout_settled_def
  require_cart_def get_cart_snapshot_def reprice_for_checkout_def resolve_prices_def resolve_tax_def
  apply_discounts_def reprice_lines_def apply_prices_def gross_minor_def lines_total_def check_geo_def
  put_cart_snapshot_def reserve_lines_def pay_and_complete_def finish_unpaid_def
  commit_and_capture_def place_order_def complete_checkout_def tenant_matches_def idem_complete_def
  idem_release_def lift_idem_def mem_complete_def mem_release_def store_commit_def
  commit_put_def store_reserve_def store_finalize_def store_release_def store_order_def
  store_enqueue_def store_payment_state_def

lemma sample_request_valid: "checkout_request_errors sample_request = []"
  by (simp add: checkout_request_errors_def validate_payment_intent_def sample_defs bad_currency_def)

lemma sample_policy: "check_checkout policy_default sample_request t = Allowed"
  by (simp add: check_checkout_def policy_errors_def policy_default_def country_blocked_def sample_defs)

lemma sample_world_fields [simp]:
  "w_faults sample_world = []" "w_idem sample_world = Map.empty" "w_log sample_world = []"
  "w_snapshots sample_world = [CartId 7 \<mapsto> sample_cart]" "w_uuid sample_world = 0"
  by (simp_all add: sample_run_defs)

lemma sample_request_fields [simp]:
  "cr_cart_id sample_request = CartId 7" "cr_cart_version sample_request = 1"
  "cr_tenant_id sample_request = ''t1''" "pi_amount_minor (cr_payment_intent sample_request) = 2200"
  by (simp_all add: sample_defs)

lemma sample_checkout_runs:
  "op_wp (execute_checkout sample_runner sample_request)
     (\<lambda>res w'. tr_status res = Completed \<and> length (payment_log w') = 2 \<and> w_faults w' = [])
     (\<lambda>_ _. False) sample_world"
  by (simp add: checkout_run_defs idem_claim_wp sample_request_valid sample_policy wp
      sample_runner_def sample_providers_def Let_def i64_add_def wrap64_def payment_log_def
      sample_cart_def sample_line_def paid_result_def)

lemma sample_checkout_result:
  obtains res w' where "execute_checkout sample_runner sample_request sample_world = (Inr res, w')"
    "tr_status res = Completed" "length (payment_log w') = 2" "w_faults w' = []"
  using sample_checkout_runs
  by (auto simp: op_wp_def split: prod.splits sum.splits)

theorem checkout_charge_safety_witness:
  "\<exists>w' cart. freshly_priced sample_runner [] sample_cart cart \<and> cp_total_minor cart = 2200 \<and>
        charged_for sample_runner sample_request cart [] w' \<and> length (payment_log w') = 2"
proof -
  obtain res w' where run: "execute_checkout sample_runner sample_request sample_world = (Inr res, w')"
    and two: "length (payment_log w') = 2"
    by (rule sample_checkout_result)
  have none: "payment_log sample_world = []" by (simp add: payment_log_def)
  from checkout_charge_safety [OF sample_snapshots_ok run] two none
  obtain cart where cart: "freshly_priced sample_runner [] sample_cart cart" "charged_for sample_runner sample_request cart [] w'"
    by (auto simp: charged_fresh_def)
  with two have "settled sample_request cart" by (auto simp: charged_for_def chargeable_def)
  with cart two show ?thesis by (auto simp: settled_def)
qed

section \<open>Idempotent replay\<close>

lemma wp_bind_any:
  "(\<And>a t. op_wp (f a) Q (\<lambda>_ _. True) t) \<Longrightarrow> op_wp (op_bind m f) Q (\<lambda>_ _. True) s"
  unfolding wp by (rule op_wp_mono [of m "\<lambda>_ _. True" "\<lambda>_ _. True"]) (simp_all add: op_wp_all)

lemma wp_seq_any: "(\<And>t. op_wp n Q (\<lambda>_ _. True) t) \<Longrightarrow> op_wp (op_seq m n) Q (\<lambda>_ _. True) s"
  unfolding op_seq_def by (rule wp_bind_any)

definition completed :: "checkout_request \<Rightarrow> transaction_result \<Rightarrow> world \<Rightarrow> bool" where
  "completed request res w \<longleftrightarrow> w_idem w (request_key request) = Some (IdemCompleted res)"

lemma complete_key_wp:
  "op_wp (op_seq (idem_complete (request_key request) res)
     (op_seq (store_payment_state txn st) (op_return res))) (completed request) (\<lambda>_ _. True) w"
  by (simp add: wp idem_complete_def lift_idem_def mem_complete_def store_payment_state_def
      completed_def split: fault.splits)

lemma finish_unpaid_completes:
  "op_wp (finish_unpaid r request st ref tr cart) (completed request) (\<lambda>_ _. True) w"
  unfolding finish_unpaid_def Let_def
  by (intro wp_bind_any wp_seq_any [where m = "store_release _"] complete_key_wp)

lemma complete_checkout_completes:
  "op_wp (complete_checkout r request cart cm cap st oid) (completed request) (\<lambda>_ _. True) w"
  unfolding complete_checkout_def Let_def
  by (intro wp_bind_any wp_seq_any [where m = "store_finalize _"] wp_seq_any [where m = "store_enqueue _"]
      complete_key_wp)

lemma pay_and_complete_completes:
  "op_wp (pay_and_complete r request cart st) (completed request) (\<lambda>_ _. True) w"
  unfolding pay_and_complete_def
  by (rule wp_bind_any, subst wp_if, rule if_split [THEN iffD2], intro conjI impI finish_unpaid_completes
      wp_bind_any complete_checkout_completes)

lemma checkout_settled_completes:
  "op_wp (checkout_settled r request cart) (completed request) (\<lambda>_ _. True) w"
  unfolding checkout_settled_def
  by (intro wp_seq_any wp_bind_any)
    (auto split: policy_check_result.splits intro: finish_unpaid_completes pay_and_complete_completes)

lemma execute_completes: "op_wp (execute_checkout r request) (completed request) (\<lambda>_ _. True) w"
  unfolding execute_checkout_def Let_def
  by (auto simp: wp_fail wp_bind [of "idem_claim _"] idem_claim_wp wp_return completed_def
      split: fault.splits option.splits idempotency_state.splits
      intro!: wp_bind_any checkout_settled_completes)

lemma completed_replays:
  assumes "completed request res w" "w_faults w = []" "vr_valid (validate_checkout_request request)"
  shows "execute_checkout r request w = (Inr res, w)"
  using assms
  by (simp add: execute_checkout_def Let_def idem_claim_def store_call_ok lift_idem_def mem_claim_def
      completed_def op_bind_def op_return_def)

lemma execute_valid:
  "execute_checkout r request w = (Inr res, w') \<Longrightarrow> vr_valid (validate_checkout_request request)"
  by (auto simp: execute_checkout_def Let_def op_fail_def split: if_splits)

text \<open>
  Idempotent replay. If a checkout answered with a result, of whatever status, then sending the
  same request again, with whatever the providers would now say, returns that same result and changes
  nothing at all: no provider is called and no store is written.
\<close>

theorem checkout_idempotent:
  assumes "execute_checkout r request w = (Inr res, w')" "w_faults w' = []"
  shows "execute_checkout r' request w' = (Inr res, w')"
  using completed_replays [OF op_wpD_Inr [OF execute_completes assms(1)] assms(2) execute_valid [OF assms(1)]]
  by simp

theorem checkout_idempotent_witness:
  "\<exists>res w'. execute_checkout sample_runner sample_request sample_world = (Inr res, w') \<and>
            execute_checkout sample_runner sample_request w' = (Inr res, w')"
proof -
  obtain res w' where run: "execute_checkout sample_runner sample_request sample_world = (Inr res, w')"
    and nf: "w_faults w' = []"
    by (rule sample_checkout_result)
  from run checkout_idempotent [OF run nf] show ?thesis by blast
qed

text \<open>
  A request whose key is in flight is refused without any effect.
\<close>

theorem checkout_in_flight_refused:
  assumes "w_idem w (request_key request) = Some InFlight" "w_faults w = []"
    and "vr_valid (validate_checkout_request request)"
  shows "execute_checkout r request w = (Inl AlreadyInFlight, w)"
  using assms
  by (simp add: execute_checkout_def Let_def idem_claim_def store_call_ok lift_idem_def mem_claim_def
      op_bind_def op_fail_def)

theorem checkout_in_flight_refused_witness:
  "execute_checkout sample_runner sample_request
     (sample_world\<lparr>w_idem := [request_key sample_request \<mapsto> InFlight]\<rparr>) =
   (Inl AlreadyInFlight, sample_world\<lparr>w_idem := [request_key sample_request \<mapsto> InFlight]\<rparr>)"
  by (rule checkout_in_flight_refused) (simp_all add: sample_request_valid)

end
