(* ===== verification/Checkout_Outcome.thy ===== *)
theory Checkout_Outcome
  imports Checkout_Facts
begin

text \<open>
  What each outcome of a checkout leaves in the stores: the order, the outbox message, the reservations
  and the payment state of a completed checkout, the clean end of an unpaid one, the release of the key
  when settlement fails, and the key left in flight when a later stage fails.
\<close>

section \<open>Outcomes\<close>

definition reservations_all :: "reservation_state \<Rightarrow> cart_id \<Rightarrow> world \<Rightarrow> bool" where
  "reservations_all st c w \<longleftrightarrow> (\<forall>rec \<in> set (by_cart c (w_reservations w)). rr_state rec = st)"

lemma reservations_all_set:
  "w_reservations w = set_cart_reservations st c inner \<Longrightarrow> reservations_all st c w"
  by (auto simp: reservations_all_def by_cart_set_cart_reservations)

text \<open>Orders and outbox as they were, reservations of the cart released, payment failed.\<close>

definition unpaid_outcome :: "checkout_request \<Rightarrow> cart_projection \<Rightarrow> orders \<Rightarrow> outbox \<Rightarrow>
    transaction_result \<Rightarrow> world \<Rightarrow> bool" where
  "unpaid_outcome request cart os ob res w \<longleftrightarrow>
     tr_status res \<in> {Rejected, AuthFailed} \<and> tr_order_id res = None \<and>
     tr_payment_state res = Failed \<and> tr_totals_breakdown res = cart_totals cart \<and>
     w_orders w = os \<and> w_outbox w = ob \<and> reservations_all Released (cr_cart_id request) w \<and>
     w_payments w (tr_transaction_id res) = Some Failed"

text \<open>One new order with the totals of the cart, one message for it, everything finalized.\<close>

definition paid_outcome :: "checkout_request \<Rightarrow> cart_projection \<Rightarrow> orders \<Rightarrow> outbox \<Rightarrow>
    transaction_result \<Rightarrow> world \<Rightarrow> bool" where
  "paid_outcome request cart os ob res w \<longleftrightarrow>
     tr_status res = Completed \<and> tr_totals_breakdown res = cart_totals cart \<and>
     tr_receipt_payload res \<noteq> None \<and>
     (\<exists>oid evt t1 t2. tr_order_id res = Some oid \<and>
        w_orders w = order_put (new_order request cart oid evt (tr_transaction_id res) t1 t2) os) \<and>
     (\<exists>mid corr. w_outbox w = ob @ [order_message request mid (the (tr_order_id res)) corr]) \<and>
     reservations_all Finalized (cr_cart_id request) w \<and>
     w_payments w (tr_transaction_id res) = Some (tr_payment_state res)"

definition kept :: "orders \<Rightarrow> outbox \<Rightarrow> world \<Rightarrow> bool" where
  "kept os ob w \<longleftrightarrow> w_orders w = os \<and> w_outbox w = ob"

lemma kept_clear [simp]: "kept os ob (clear_fault w) = kept os ob w"
  by (simp add: kept_def)

lemma kept_stores [keeps]:
  "op_keeps (kept os ob) (store_reserve r c sku q t) (\<lambda>_. True)"
  "op_keeps (kept os ob) (store_release c) (\<lambda>_. True)"
  "op_keeps (kept os ob) (store_finalize c) (\<lambda>_. True)"
  "op_keeps (kept os ob) (idem_complete k v) (\<lambda>_. True)"
  "op_keeps (kept os ob) (idem_release k) (\<lambda>_. True)"
  "op_keeps (kept os ob) (store_commit r c ref) (\<lambda>_. True)"
  unfolding store_reserve_def store_release_def store_finalize_def idem_complete_def idem_release_def
    store_commit_def
  by (rule keeps_store_put_any keeps_store_call;
      simp add: kept_def lift_idem_def split: prod.splits)+

lemma kept_steps [keeps]:
  "op_keeps (kept os ob) (fresh_uuid r) (\<lambda>_. True)"
  "op_keeps (kept os ob) (fresh_id r p) (\<lambda>_. True)"
  "op_keeps (kept os ob) (utc_now r) (\<lambda>_. True)"
  "op_keeps (kept os ob) (store_payment_state t st) (\<lambda>_. True)"
  by (simp_all add: op_keeps_def wp kept_def store_payment_state_def)

lemma kept_call [keeps]: "op_keeps (kept os ob) (provider_call c err p) (\<lambda>_. True)"
  by (simp add: op_keeps_def wp kept_def split: sum.splits)

lemma finish_unpaid_outcome:
  assumes "kept os ob w" "st \<in> {Rejected, AuthFailed}"
  shows "op_wp (finish_unpaid r request st ref tr cart) (unpaid_outcome request cart os ob)
           (\<lambda>_ _. True) w"
  using assms
  by (auto simp: finish_unpaid_def Let_def wp store_release_def idem_complete_def lift_idem_def
      mem_complete_def store_payment_state_def unpaid_outcome_def unpaid_result_def kept_def
      payment_state_put_def release_cart_def split: fault.splits intro: reservations_all_set)

lemma complete_checkout_outcome:
  assumes "w_orders w = order_put (new_order request cart oid evt (cm_transaction_id cm) t1 t2) os"
    and "w_outbox w = ob"
  shows "op_wp (complete_checkout r request cart cm cap Committed oid)
           (paid_outcome request cart os ob) (\<lambda>_ _. True) w"
  using assms
  by (auto simp: complete_checkout_def Let_def wp store_finalize_def store_enqueue_def
      idem_complete_def lift_idem_def mem_complete_def store_payment_state_def paid_outcome_def
      paid_result_def payment_state_put_def finalize_cart_def outbox_enqueue_def
      split: fault.splits sum.splits intro: reservations_all_set)

lemma place_order_outcome:
  assumes "kept os ob w"
  shows "op_wp (op_bind (place_order r request cart cm) (complete_checkout r request cart cm cap Committed))
           (paid_outcome request cart os ob) (\<lambda>_ _. True) w"
  using assms
  by (auto simp: place_order_def wp store_order_def kept_def split: fault.splits
      intro!: complete_checkout_outcome)

lemma pay_and_complete_outcome:
  assumes "kept os ob w"
  shows "op_wp (pay_and_complete r request cart KGeoChecked)
           (\<lambda>res w'. paid_outcome request cart os ob res w' \<or> unpaid_outcome request cart os ob res w')
           (\<lambda>_ _. True) w"
proof -
  let ?Q = "\<lambda>res w'. paid_outcome request cart os ob res w' \<or> unpaid_outcome request cart os ob res w'"
  have unpaid: "op_wp (finish_unpaid r request AuthFailed ref tr cart) ?Q (\<lambda>_ _. True) t"
    if "kept os ob t" for t ref tr
    by (rule op_wp_mono [OF finish_unpaid_outcome [OF that]]) auto
  have tail: "op_wp (op_bind (place_order r request cart cm)
      (complete_checkout r request cart cm cap Committed)) ?Q (\<lambda>_ _. True) t"
    if "kept os ob t" for t cm cap
    by (rule op_wp_mono [OF place_order_outcome [OF that]]) auto
  have capture: "op_keeps (kept os ob) (commit_and_capture r request cart ref) (\<lambda>_. True)" for ref
    unfolding commit_and_capture_def Let_def by (intro keeps_bind_any keeps) simp_all
  show ?thesis
    unfolding pay_and_complete_def advance_paid op_bind_return
    by (rule wp_bind_keeps [OF kept_call assms])
      (auto intro!: unpaid wp_bind_keeps [OF capture] tail)
qed

lemma checkout_settled_outcome:
  assumes "kept os ob w"
  shows "op_wp (checkout_settled r request cart)
           (\<lambda>res w'. paid_outcome request cart os ob res w' \<or> unpaid_outcome request cart os ob res w')
           (\<lambda>_ _. True) w"
proof -
  have reserve: "op_keeps (kept os ob) (reserve_lines r request cart) (\<lambda>_. True)"
    unfolding reserve_lines_def by (intro keeps_for keeps)
  show ?thesis
    unfolding checkout_settled_def advance_to_geo_checked_eq op_bind_return
    by (rule wp_seq_keeps [OF reserve assms])
      (auto split: policy_check_result.splits intro!: pay_and_complete_outcome
        intro: op_wp_mono [OF finish_unpaid_outcome])
qed

text \<open>
  C4: the outcomes of a checkout. A request whose key is free and whose execution returns a result was
  settled at a cart that is stored, and then exactly one of two things happened. Either it is
  \<open>Completed\<close>: one order with the cart's lines and totals and the request's tenant was stored, exactly
  one \<open>order.created\<close> message for it, scoped to that tenant, was appended to the outbox, every
  reservation of the cart is finalized and the payment state is recorded. Or it is \<open>Rejected\<close> or
  \<open>AuthFailed\<close>: no order and no message, the reservations of the cart are released and the payment is
  recorded as failed.
\<close>

theorem checkout_outcome:
  assumes "snapshots_ok w" "w_idem w (request_key request) = None"
    and "execute_checkout r request w = (Inr res, w')"
  shows "\<exists>cart. settled request cart \<and>
           (paid_outcome request cart (w_orders w) (w_outbox w) res w' \<or>
            unpaid_outcome request cart (w_orders w) (w_outbox w) res w')"
proof -
  let ?Q = "\<lambda>res w'. \<exists>cart. settled request cart \<and>
           (paid_outcome request cart (w_orders w) (w_outbox w) res w' \<or>
            unpaid_outcome request cart (w_orders w) (w_outbox w) res w')"
  let ?w = "\<lambda>m. (clear_fault w)\<lparr>w_idem := m\<rparr>"
  have start: "settling (?w m) request (?w m)" for m
    using assms(1) by (simp add: settling_def cart_inv_start snapshots_ok_def)
  have kept: "kept (w_orders w) (w_outbox w) t" if "settling (?w m) request t" for m t
    using that by (auto simp: settling_def cart_inv_defs kept_def)
  have "op_wp (op_bind (settle_or_release r request) (checkout_settled r request)) ?Q
    (\<lambda>_ _. True) (?w m)" for m
    unfolding wp_bind [of "settle_or_release _ _"]
    by (rule op_wp_mono [OF settle_or_release_wp [OF start]])
      (auto intro!: op_wp_mono [OF checkout_settled_outcome [OF kept]])
  then have "op_wp (execute_checkout r request) ?Q (\<lambda>_ _. True) w"
    using assms(2)
    by (auto simp: execute_checkout_def Let_def wp_fail wp_bind [of "idem_claim _"] idem_claim_wp
        split: fault.splits)
  then show ?thesis using assms(3) by (rule op_wpD_Inr)
qed

theorem checkout_outcome_witness:
  "\<exists>cart res w'. settled sample_request cart \<and> tr_status res = Completed \<and>
     paid_outcome sample_request cart (w_orders sample_world) (w_outbox sample_world) res w'"
proof -
  obtain res w' where run: "execute_checkout sample_runner sample_request sample_world = (Inr res, w')"
    and st: "tr_status res = Completed"
    by (rule sample_checkout_result)
  from checkout_outcome [OF sample_snapshots_ok _ run] st show ?thesis
    by (auto simp: unpaid_outcome_def)
qed

section \<open>Failures\<close>

text \<open>
  A settlement that fails costs nothing. When the cart is missing, belongs to another tenant, is
  at another version, cannot be delivered, costs something else or cannot be priced, the error is
  returned, the idempotency table is exactly as before, so the caller may retry with the same key, no
  reservation, order, message, commit or payment state was written and no payment provider was called.
\<close>

theorem settlement_failure_releases_key:
  assumes "snapshots_ok w" "w_idem w (request_key request) = None" "w_faults w = []"
    and "vr_valid (validate_checkout_request request)"
    and "settle_cart_for_checkout r request (w\<lparr>w_idem := (w_idem w)(request_key request \<mapsto> InFlight)\<rparr>)
         = (Inl e, v)"
    and "w_faults v = []"
  shows "\<exists>w'. execute_checkout r request w = (Inl e, w') \<and> w_idem w' = w_idem w \<and>
     w_reservations w' = w_reservations w \<and> w_orders w' = w_orders w \<and> w_outbox w' = w_outbox w \<and>
     w_commits w' = w_commits w \<and> w_payments w' = w_payments w \<and> payment_log w' = payment_log w"
proof -
  let ?k = "request_key request" and ?w = "w\<lparr>w_idem := (w_idem w)(request_key request \<mapsto> InFlight)\<rparr>"
  have "settling ?w request ?w"
    using assms(1) by (simp add: settling_def cart_inv_start snapshots_ok_def)
  from op_wpD_Inl [OF settle_wp [OF this] assms(5)] have st: "settling ?w request v" .
  then have v: "w_idem v = (w_idem w)(?k \<mapsto> InFlight)" "w_reservations v = w_reservations w"
    "w_orders v = w_orders w" "w_outbox v = w_outbox w" "w_commits v = w_commits w"
    "w_payments v = w_payments w"
    by (simp_all add: settling_def cart_inv_defs)
  have "execute_checkout r request w = (Inl e, v\<lparr>w_idem := (w_idem v)(?k := None)\<rparr>)"
    using assms v(1)
    by (simp add: execute_checkout_def Let_def idem_claim_def store_call_ok lift_idem_def
        mem_claim_def settle_or_release_def idem_release_def mem_release_def op_defs)
  moreover have "(w_idem v)(?k := None) = w_idem w" using v(1) assms(2) by auto
  moreover have "payment_log v = payment_log w"
    using settling_payment_log [OF st] by (simp add: payment_log_def)
  ultimately show ?thesis using v by (simp add: payment_log_def)
qed

text \<open>A cart that does not exist, on a fresh world.\<close>

theorem settlement_failure_releases_key_witness:
  "\<exists>w'. execute_checkout sample_runner sample_request empty_world = (Inl CartNotFound, w') \<and>
        w_idem w' = w_idem empty_world"
proof -
  let ?v = "empty_world\<lparr>w_idem := (w_idem empty_world)(request_key sample_request \<mapsto> InFlight)\<rparr>"
  have "settle_cart_for_checkout sample_runner sample_request ?v = (Inl CartNotFound, ?v)"
    by (simp add: settle_cart_for_checkout_def require_cart_def get_cart_snapshot_def op_defs
        empty_world_def)
  from settlement_failure_releases_key [OF _ _ _ _ this] show ?thesis
    by (auto simp: snapshots_ok_def empty_world_def sample_request_valid)
qed

section \<open>Keys stranded by a late failure\<close>

definition late_error :: "runner_error \<Rightarrow> bool" where
  "late_error e \<longleftrightarrow> (\<exists>x. e = PaymentErr x) \<or> (\<exists>x. e = ReceiptErr x)"

lemma late_error_simps [simp]:
  "late_error (PaymentErr x)" "late_error (ReceiptErr y)" "\<not> late_error (StoreFailed z)"
  "\<not> late_error CartNotFound" "\<not> late_error CartTenantMismatch" "\<not> late_error (CartVersionConflict a b)"
  "\<not> late_error GeoBlocked" "\<not> late_error (AmountMismatch m n)" "\<not> late_error (PricingErr pe)"
  "\<not> late_error (TaxErr te)" "\<not> late_error (GeoErr ge)" "\<not> late_error AlreadyInFlight"
  "\<not> late_error (ValidationFailed es)"
  by (simp_all add: late_error_def)

definition in_flight :: "checkout_request \<Rightarrow> world \<Rightarrow> bool" where
  "in_flight request w \<longleftrightarrow> w_idem w (request_key request) = Some InFlight"

definition stranded :: "checkout_request \<Rightarrow> runner_error \<Rightarrow> world \<Rightarrow> bool" where
  "stranded request e w \<longleftrightarrow> (late_error e \<longrightarrow> in_flight request w)"

lemma stranded_in_flight: "in_flight request w \<Longrightarrow> stranded request e w"
  by (simp add: stranded_def)

lemma in_flight_steps [keeps]:
  "op_keeps (in_flight q) (store_reserve r c sku n t) (\<lambda>_. True)"
  "op_keeps (in_flight q) (store_order rec) (\<lambda>_. True)"
  "op_keeps (in_flight q) (store_commit r c ref) (\<lambda>_. True)"
  "op_keeps (in_flight q) (fresh_uuid r) (\<lambda>_. True)"
  "op_keeps (in_flight q) (fresh_id r p) (\<lambda>_. True)"
  "op_keeps (in_flight q) (utc_now r) (\<lambda>_. True)"
  by (simp_all add: op_keeps_def wp in_flight_def store_reserve_def store_order_def store_commit_def
      split: fault.splits prod.splits)

lemma in_flight_call [keeps]: "op_keeps (in_flight q) (provider_call c err p) (\<lambda>_. True)"
  by (simp add: op_keeps_def wp in_flight_def split: sum.splits)

lemma settle_no_late_error:
  "op_wp (settle_cart_for_checkout r request) (\<lambda>_ _. True) (\<lambda>e _. \<not> late_error e) w"
  by (auto simp: settle_cart_for_checkout_def require_cart_def get_cart_snapshot_def
      reprice_for_checkout_def resolve_prices_def resolve_tax_def apply_discounts_def check_geo_def
      put_cart_snapshot_def wp Let_def split: option.splits fault.splits sum.splits)

lemma finish_unpaid_stranded:
  "op_wp (finish_unpaid r request st ref tr cart) (\<lambda>_ _. True) (stranded request) w"
  by (simp add: finish_unpaid_def Let_def wp store_release_def idem_complete_def stranded_def
      store_payment_state_def split: fault.splits)

lemma complete_checkout_stranded:
  "in_flight request w \<Longrightarrow>
   op_wp (complete_checkout r request cart cm cap Committed oid) (\<lambda>_ _. True) (stranded request) w"
  by (simp add: complete_checkout_def Let_def wp store_finalize_def store_enqueue_def
      idem_complete_def store_payment_state_def stranded_def in_flight_def
      split: fault.splits sum.splits)

lemma pay_and_complete_stranded:
  assumes "in_flight request w"
  shows "op_wp (pay_and_complete r request cart KGeoChecked) (\<lambda>_ _. True) (stranded request) w"
proof -
  have capture: "op_keeps (in_flight request) (commit_and_capture r request cart ref) (\<lambda>_. True)" for ref
    unfolding commit_and_capture_def Let_def by (intro keeps_bind_any keeps) simp_all
  have order: "op_keeps (in_flight request) (place_order r request cart cm) (\<lambda>_. True)" for cm
    unfolding place_order_def by (intro keeps_bind_any keeps) simp_all
  show ?thesis
    unfolding pay_and_complete_def advance_paid op_bind_return
    by (rule wp_bind_inv [OF in_flight_call assms stranded_in_flight])
      (auto intro!: finish_unpaid_stranded wp_bind_inv [OF capture] wp_bind_inv [OF order]
        complete_checkout_stranded stranded_in_flight)
qed

lemma checkout_settled_stranded:
  assumes "in_flight request w"
  shows "op_wp (checkout_settled r request cart) (\<lambda>_ _. True) (stranded request) w"
proof -
  have reserve: "op_keeps (in_flight request) (reserve_lines r request cart) (\<lambda>_. True)"
    unfolding reserve_lines_def by (intro keeps_for keeps)
  show ?thesis
    unfolding checkout_settled_def advance_to_geo_checked_eq op_bind_return
    by (rule wp_seq_inv [OF reserve assms stranded_in_flight])
      (auto split: policy_check_result.splits intro: pay_and_complete_stranded finish_unpaid_stranded)
qed

text \<open>
  A late failure leaves the key in flight: the payment or the receipt provider answered with an error, after
  the key was claimed and the cart settled.
\<close>

lemma late_failure_in_flight:
  assumes "snapshots_ok w" "w_idem w (request_key request) = None"
    and "execute_checkout r request w = (Inl e, w')" "late_error e"
  shows "in_flight request w' \<and> vr_valid (validate_checkout_request request)"
proof -
  let ?w = "\<lambda>m. (clear_fault w)\<lparr>w_idem := m\<rparr>"
  have start: "settling (?w m) request (?w m)" for m
    using assms(1) by (simp add: settling_def cart_inv_start snapshots_ok_def)
  have fl: "in_flight request t" if "settling (?w ((w_idem w)(request_key request \<mapsto> InFlight))) request t" for t
    using that by (simp add: settling_def cart_inv_defs in_flight_def)
  have rel: "op_wp (settle_or_release r request) (\<lambda>_. in_flight request) (stranded request)
      (?w ((w_idem w)(request_key request \<mapsto> InFlight)))"
    unfolding settle_or_release_def wp_catch
    by (rule op_wp_mono [OF op_wp_conj [OF settle_wp [OF start] settle_no_late_error]])
      (auto simp: wp idem_release_def stranded_def intro: fl split: fault.splits)
  have "op_wp (op_bind (settle_or_release r request) (checkout_settled r request)) (\<lambda>_ _. True)
    (stranded request) (?w ((w_idem w)(request_key request \<mapsto> InFlight)))"
    unfolding wp_bind [of "settle_or_release _ _"]
    by (rule op_wp_mono [OF rel]) (auto intro: checkout_settled_stranded)
  then have "op_wp (execute_checkout r request) (\<lambda>_ _. True) (stranded request) w"
    using assms(2)
    by (auto simp: execute_checkout_def Let_def wp_fail wp_bind [of "idem_claim _"] idem_claim_wp
        stranded_def split: fault.splits)
  from op_wpD_Inl [OF this assms(3)] assms(4) have "in_flight request w'" by (simp add: stranded_def)
  moreover have "vr_valid (validate_checkout_request request)"
    using assms(3,4) by (auto simp: execute_checkout_def Let_def op_fail_def split: if_splits)
  ultimately show ?thesis by blast
qed

lemma in_flight_refused:
  assumes "in_flight request v" "vr_valid (validate_checkout_request request)" "w_faults v = []"
  shows "execute_checkout r request v = (Inl AlreadyInFlight, v)"
  using assms
  by (simp add: execute_checkout_def Let_def idem_claim_def store_call_ok lift_idem_def
      mem_claim_def in_flight_def op_bind_def op_fail_def)

definition failing_runner :: runner where
  "failing_runner = sample_runner\<lparr>ru_providers := sample_providers\<lparr>ps_authorize :=
     (\<lambda>_ _. Inl (PaymentAuthFailed ''gateway down''))\<rparr>\<rparr>"

lemma failing_checkout_runs:
  "op_wp (execute_checkout failing_runner sample_request) (\<lambda>_ _. False)
     (\<lambda>e w'. late_error e \<and> w_faults w' = [] \<and> w_snapshots w' (CartId 9) = None) sample_world"
  by (simp add: checkout_run_defs idem_claim_wp sample_request_valid sample_policy wp failing_runner_def
      sample_runner_def sample_providers_def Let_def i64_add_def wrap64_def sample_cart_def
      sample_line_def)

end
