(* ===== verification/Outbox_Processor.thy ===== *)
theory Outbox_Processor
  imports World Samples
begin

text \<open>
  Outbox processing on the runner's stores (\<open>Runner::process_outbox_once_reporting\<close>,
  \<open>replay_from_dead_letter\<close>) and the background processor
  (\<open>orchestrator-runtime/src/outbox_processor.rs\<close>): batches, backoff and draining. Sleeping has no effect on
  the state; the pauses a batch takes are the list it returns. Durations are in milliseconds.
\<close>

section \<open>The runner's backend\<close>

definition world_claim :: "outbox_message option run" where
  "world_claim = store_call (\<lambda>w. case outbox_claim (w_outbox w) of (m, q) \<Rightarrow> (m, w\<lparr>w_outbox := q\<rparr>))"

definition world_ack :: "string \<Rightarrow> unit run" where
  "world_ack i = store_put (\<lambda>w. w\<lparr>w_outbox := outbox_ack i (w_outbox w)\<rparr>)"

definition world_release :: "outbox_message \<Rightarrow> unit run" where
  "world_release m = store_put (\<lambda>w. w\<lparr>w_outbox := outbox_release m (w_outbox w)\<rparr>)"

definition world_dead_put :: "outbox_message \<Rightarrow> unit run" where
  "world_dead_put m = store_put (\<lambda>w. w\<lparr>w_dead := dead_letter_put m (w_dead w)\<rparr>)"

definition world_dead_take :: "string \<Rightarrow> outbox_message option run" where
  "world_dead_take i = store_call (\<lambda>w. case dead_letter_take i (w_dead w) of (m, d) \<Rightarrow> (m, w\<lparr>w_dead := d\<rparr>))"

definition world_deliverer :: "runner \<Rightarrow> world deliverer option" where
  "world_deliverer r =
     map_option (\<lambda>d msg w. case d (w_webhooks w) msg (w_posts w) of (failed, log) \<Rightarrow> (failed, w\<lparr>w_posts := log\<rparr>))
       (ru_deliverer r)"

text \<open>The deliverer the server installs: \<open>WebhookDeliverer\<close> over the runner's own registrations.\<close>

definition webhook_deliverer_for ::
  "webhook_env \<Rightarrow> webhooks \<Rightarrow> outbox_message \<Rightarrow> webhook_post list \<Rightarrow> bool \<times> webhook_post list" where
  "webhook_deliverer_for env records msg log =
     (case webhook_deliver env records msg log of (res, log') \<Rightarrow> (isl res, log'))"

definition run_outbox_once :: "runner \<Rightarrow> u32 \<Rightarrow> outbox_outcome run" where
  "run_outbox_once r max_attempts =
     process_outbox_once_reporting world_claim world_ack world_release world_dead_put
       (world_deliverer r) max_attempts"

definition process_outbox_once :: "runner \<Rightarrow> u32 \<Rightarrow> unit run" where
  "process_outbox_once r max_attempts = op_bind (run_outbox_once r max_attempts) (\<lambda>_. op_return ())"

definition replay_from_dead_letter :: "string \<Rightarrow> bool run" where
  "replay_from_dead_letter message_id =
     op_bind (world_dead_take message_id) (\<lambda>m.
       case m of
         Some msg \<Rightarrow> op_seq (store_enqueue (msg\<lparr>om_attempts := 0\<rparr>)) (op_return True)
       | None \<Rightarrow> op_return False)"

lemma store_call_Inr:
  "store_call f w = (Inr a, t) \<longleftrightarrow> next_fault w = NoFault \<and> f (clear_fault w) = (a, t)"
  by (auto simp: store_call_def Let_def split: fault.splits prod.splits)

lemma store_put_Inr:
  "store_put f w = (Inr a, t) \<longleftrightarrow> next_fault w = NoFault \<and> t = f (clear_fault w)"
  by (auto simp: store_put_def store_call_Inr)

interpretation world_outbox: outbox_backend "\<lambda>w. mset (w_outbox w)" "\<lambda>w. map_of (w_dead w)"
  "\<lambda>_. True" "\<lambda>_ _. True" "\<lambda>w _. mset (w_outbox w)" world_claim world_ack world_release world_dead_put
  "world_deliverer r" for r
  by unfold_locales
    (auto simp: world_claim_def world_ack_def world_release_def world_dead_put_def world_deliverer_def
      store_call_Inr store_put_Inr outbox_claim_def outbox_dequeue_def outbox_ack_def outbox_release_def
      outbox_enqueue_def dead_letter_put_def update_conv' split: list.splits prod.splits)

text \<open>
  C21: no event is lost and none is duplicated. One pass over the outbox that returns an outcome
  either found nothing and changed nothing; or delivered one pending message and removed exactly it; or
  put exactly that message back with one more attempt, within the limit; or moved exactly that message,
  with one more attempt and beyond the limit, to the dead letters under its id.
\<close>

theorem outbox_pass_conserves:
  assumes "run_outbox_once r mx w = (Inr out, w')"
  shows "case out of
      Idle \<Rightarrow> mset (w_outbox w') = mset (w_outbox w) \<and> map_of (w_dead w') = map_of (w_dead w)
    | Delivered \<Rightarrow> (\<exists>m. mset (w_outbox w) = add_mset m (mset (w_outbox w'))) \<and>
        map_of (w_dead w') = map_of (w_dead w)
    | Retrying n \<Rightarrow> n \<le> mx \<and> map_of (w_dead w') = map_of (w_dead w) \<and>
        (\<exists>m rest. mset (w_outbox w) = add_mset m rest \<and> n = om_attempts m + 1 \<and>
                  mset (w_outbox w') = add_mset (m\<lparr>om_attempts := n\<rparr>) rest)
    | DeadLettered \<Rightarrow> (\<exists>m. mset (w_outbox w) = add_mset m (mset (w_outbox w')) \<and> mx < om_attempts m + 1 \<and>
        map_of (w_dead w') = (map_of (w_dead w))(om_id m \<mapsto> m\<lparr>om_attempts := om_attempts m + 1\<rparr>))"
  using world_outbox.pass_conserves [OF _ assms [unfolded run_outbox_once_def]]
  by (simp add: world_outbox.pass_effect_def)

definition sample_message :: outbox_message where
  "sample_message = \<lparr>om_id = ''msg_1'', om_topic = ''order.created'', om_payload = ''ord_1'',
     om_correlation_id = ''c'', om_attempts = 5, om_tenant_id = Some ''t1''\<rparr>"

definition sample_queue :: world where
  "sample_queue = empty_world\<lparr>w_outbox := [sample_message]\<rparr>"

lemma sample_pass_runs:
  "run_outbox_once sample_runner 5 sample_queue =
     (Inr DeadLettered, sample_queue\<lparr>w_outbox := [],
        w_dead := [(''msg_1'', sample_message\<lparr>om_attempts := 6\<rparr>)]\<rparr>)"
  by (simp add: run_outbox_once_def process_outbox_once_reporting_def world_claim_def store_call_ok
      sample_queue_def empty_world_def outbox_claim_def outbox_dequeue_def attempt_delivery_def
      world_deliverer_def sample_runner_def settle_delivery_def world_dead_put_def world_ack_def
      dead_letter_put_def outbox_ack_def op_defs sample_message_def)

theorem outbox_pass_conserves_witness:
  "\<exists>m. mset (w_outbox sample_queue) = {#m#} \<and> (5 :: u32) < om_attempts m + 1"
  using outbox_pass_conserves [OF sample_pass_runs] by auto

section \<open>Dead letters can be replayed\<close>

text \<open>
  C16: replaying a dead letter. On stores that do not fail, a message id that is dead-lettered leaves
  the dead letters and is appended to the outbox with its attempts reset, everything else about the
  message and both stores being kept; an unknown id answers \<open>false\<close> and changes nothing.
\<close>

theorem replay_from_dead_letter_effect:
  assumes "w_faults w = []"
  shows "replay_from_dead_letter i w =
     (case map_of (w_dead w) i of
        Some m \<Rightarrow> (Inr True, w\<lparr>w_dead := AList.delete i (w_dead w),
                               w_outbox := w_outbox w @ [m\<lparr>om_attempts := 0\<rparr>]\<rparr>)
      | None \<Rightarrow> (Inr False, w))"
proof -
  have gone: "AList.delete i (w_dead w) = w_dead w" if "map_of (w_dead w) i = None"
    using that by (simp add: map_of_eq_None_iff delete_idem)
  show ?thesis
    using assms gone
    by (auto simp: replay_from_dead_letter_def world_dead_take_def store_call_ok dead_letter_take_def
        store_enqueue_def outbox_enqueue_def op_defs split: option.splits)
qed

theorem replay_from_dead_letter_effect_witness:
  "replay_from_dead_letter ''msg_1'' (empty_world\<lparr>w_dead := [(''msg_1'', sample_message)]\<rparr>) =
     (Inr True, empty_world\<lparr>w_dead := [], w_outbox := [sample_message\<lparr>om_attempts := 0\<rparr>]\<rparr>)"
  by (subst replay_from_dead_letter_effect) (simp_all add: empty_world_def)

section \<open>The background processor\<close>

record outbox_processor_config =
  oc_interval :: nat
  oc_batch_size :: nat
  oc_max_attempts :: u32
  oc_drain_timeout :: nat
  oc_retry_backoff :: nat
  oc_max_retry_backoff :: nat

definition default_outbox_processor_config :: outbox_processor_config where
  "default_outbox_processor_config =
     \<lparr>oc_interval = 500, oc_batch_size = 32, oc_max_attempts = 5, oc_drain_timeout = 10000,
      oc_retry_backoff = 500, oc_max_retry_backoff = 30000\<rparr>"

text \<open>
  The factor is \<open>1u32 << attempts.saturating_sub(1).min(16)\<close>. The product saturates at the largest
  \<open>Duration\<close>, which is beyond any ceiling the final \<open>min\<close> may name, so it is written unbounded.
\<close>

definition retry_factor :: "u32 \<Rightarrow> nat" where
  "retry_factor attempts = 2 ^ min (unat attempts - 1) 16"

definition retry_delay :: "outbox_processor_config \<Rightarrow> u32 \<Rightarrow> nat" where
  "retry_delay config attempts =
     min (oc_retry_backoff config * retry_factor attempts) (oc_max_retry_backoff config)"

text \<open>The batch loop: handled messages, pauses taken, and the state left.\<close>

fun batch_loop ::
  "runner \<Rightarrow> outbox_processor_config \<Rightarrow> nat \<Rightarrow> nat \<Rightarrow> nat list \<Rightarrow> world \<Rightarrow> (nat \<times> nat list) \<times> world" where
  "batch_loop r config 0 handled pauses w = ((handled, pauses), w)"
| "batch_loop r config (Suc n) handled pauses w =
     (if outbox_len (w_outbox w) = 0 then ((handled, pauses), w)
      else case run_outbox_once r (oc_max_attempts config) w of
             (Inl _, w') \<Rightarrow> ((handled, pauses), w')
           | (Inr Idle, w') \<Rightarrow> ((handled, pauses), w')
           | (Inr (Retrying attempts), w') \<Rightarrow>
               batch_loop r config n (Suc handled) (pauses @ [retry_delay config attempts]) w'
           | (Inr _, w') \<Rightarrow> batch_loop r config n (Suc handled) pauses w')"

definition process_batch ::
  "runner \<Rightarrow> outbox_processor_config \<Rightarrow> world \<Rightarrow> (nat \<times> nat list) \<times> world" where
  "process_batch r config w = batch_loop r config (oc_batch_size config) 0 [] w"

text \<open>
  \<open>drain\<close> loops while the clock, read before every batch, is before the deadline. The fuel bounds the
  number of batches; \<open>None\<close> means it ran out.
\<close>

fun drain_loop ::
  "nat \<Rightarrow> runner \<Rightarrow> outbox_processor_config \<Rightarrow> int \<Rightarrow> nat \<Rightarrow> world \<Rightarrow> (nat \<times> world) option" where
  "drain_loop 0 r config deadline handled w = None"
| "drain_loop (Suc fuel) r config deadline handled w =
     (let now = ru_instant r (w_ticks w); w = w\<lparr>w_ticks := Suc (w_ticks w)\<rparr> in
      if now < deadline then
        (case process_batch r config w of ((processed, _), w') \<Rightarrow>
           if processed = 0 then Some (handled, w')
           else drain_loop fuel r config deadline (handled + processed) w')
      else Some (handled, w))"

definition drain ::
  "nat \<Rightarrow> runner \<Rightarrow> outbox_processor_config \<Rightarrow> world \<Rightarrow> (nat \<times> world) option" where
  "drain fuel r config w =
     (let deadline = ru_instant r (w_ticks w) + int (oc_drain_timeout config)
      in drain_loop fuel r config deadline 0 (w\<lparr>w_ticks := Suc (w_ticks w)\<rparr>))"

text \<open>
  Backoff. The pause after a failed delivery never exceeds the configured ceiling, never shrinks
  as attempts go up, starts at the configured backoff and doubles up to the sixteenth doubling.
\<close>

theorem retry_delay_bounds:
  "retry_delay config a \<le> oc_max_retry_backoff config \<and>
   retry_delay config 1 = min (oc_retry_backoff config) (oc_max_retry_backoff config) \<and>
   (unat a \<le> unat b \<longrightarrow> retry_delay config a \<le> retry_delay config b) \<and>
   retry_delay config a \<le> oc_retry_backoff config * 65536"
proof -
  have "retry_factor a \<le> 2 ^ 16"
    unfolding retry_factor_def by (rule power_increasing) simp_all
  then have cap: "oc_retry_backoff config * retry_factor a \<le> oc_retry_backoff config * 65536" by simp
  have mono: "oc_retry_backoff config * retry_factor a \<le> oc_retry_backoff config * retry_factor b"
    if "unat a \<le> unat b"
    using that unfolding retry_factor_def by (intro mult_le_mono2 power_increasing) auto
  have first: "retry_factor 1 = 1" by (simp add: retry_factor_def)
  show ?thesis
    unfolding retry_delay_def first
    by (intro conjI impI min.cobounded2 min.mono mono min.coboundedI1 [OF cap]) simp_all
qed

theorem retry_delay_bounds_witness:
  "retry_delay default_outbox_processor_config 2 \<le> retry_delay default_outbox_processor_config 3"
  using retry_delay_bounds [of default_outbox_processor_config 2 3] by simp

section \<open>Draining terminates\<close>

text \<open>What one pass over a non-empty queue does, on stores that do not fail.\<close>

lemma run_outbox_once_cons:
  assumes "w_faults w = []" "w_outbox w = m # ms"
  shows "\<exists>posts. run_outbox_once r mx w \<in>
    {(Inr Delivered, w\<lparr>w_outbox := ms, w_posts := posts\<rparr>),
     (if mx < om_attempts m + 1
      then (Inr DeadLettered, w\<lparr>w_outbox := ms, w_posts := posts,
              w_dead := dead_letter_put (m\<lparr>om_attempts := om_attempts m + 1\<rparr>) (w_dead w)\<rparr>)
      else (Inr (Retrying (om_attempts m + 1)),
              w\<lparr>w_outbox := ms @ [m\<lparr>om_attempts := om_attempts m + 1\<rparr>], w_posts := posts\<rparr>))}"
proof -
  let ?w = "w\<lparr>w_outbox := ms\<rparr>"
  have claim: "world_claim w = (Inr (Some m), ?w)"
    using assms by (simp add: world_claim_def store_call_ok outbox_claim_def outbox_dequeue_def)
  obtain b posts where d: "attempt_delivery (world_deliverer r) m ?w = (Inr b :: runner_error + bool, ?w\<lparr>w_posts := posts\<rparr>)"
  proof (cases "ru_deliverer r")
    case None
    then show ?thesis using that [of True "w_posts w"] by (simp add: attempt_delivery_def world_deliverer_def)
  next
    case (Some d)
    obtain b posts where "d (w_webhooks w) m (w_posts w) = (b, posts)" by force
    with Some show ?thesis
      using that [of b posts] by (simp add: attempt_delivery_def world_deliverer_def)
  qed
  have "run_outbox_once r mx w =
      settle_delivery world_ack world_release world_dead_put mx m b (?w\<lparr>w_posts := posts\<rparr>)"
    using claim d by (simp add: run_outbox_once_def process_outbox_once_reporting_def)
  then show ?thesis
    using assms(1)
    by (intro exI [of _ posts])
      (simp add: settle_delivery_def Let_def world_ack_def world_release_def world_dead_put_def
        outbox_ack_def outbox_release_def outbox_enqueue_def op_seq_def op_return_def)
qed

definition attempts_ok :: "u32 \<Rightarrow> outbox \<Rightarrow> bool" where
  "attempts_ok mx q \<longleftrightarrow> (\<forall>m \<in> set q. om_attempts m \<le> mx)"

definition attempts_left :: "u32 \<Rightarrow> outbox \<Rightarrow> nat" where
  "attempts_left mx q = sum_list (map (\<lambda>m. Suc (unat mx) - unat (om_attempts m)) q)"

lemma unat_suc_attempts:
  fixes a :: u32
  assumes "a \<le> mx" "mx < - 1"
  shows "unat (a + 1) = Suc (unat a)"
proof -
  have "a \<noteq> - 1" using assms by auto
  then have "1 + a \<noteq> 0" using max_word_wrap [of a] by (auto simp: add.commute)
  then show ?thesis by (simp add: unatSuc add.commute)
qed

lemma pass_progress:
  assumes "w_faults w = []" "w_outbox w \<noteq> []" "attempts_ok mx (w_outbox w)" "mx < - 1"
  shows "\<exists>out w'. run_outbox_once r mx w = (Inr out, w') \<and> out \<noteq> Idle \<and> w_faults w' = [] \<and>
    w_ticks w' = w_ticks w \<and> attempts_ok mx (w_outbox w') \<and> attempts_left mx (w_outbox w') < attempts_left mx (w_outbox w)"
proof -
  obtain m ms where q: "w_outbox w = m # ms" using assms(2) by (cases "w_outbox w") auto
  have a: "om_attempts m \<le> mx" "\<forall>x \<in> set ms. om_attempts x \<le> mx"
    using assms(3) q by (auto simp: attempts_ok_def)
  have u: "unat (om_attempts m + 1) = Suc (unat (om_attempts m))" "unat (om_attempts m) \<le> unat mx"
    using unat_suc_attempts [OF a(1) assms(4)] a(1) by (simp_all add: word_le_nat_alt)
  from run_outbox_once_cons [OF assms(1) q, of r mx] show ?thesis
    using assms(1) q a u
    by (auto simp: attempts_ok_def attempts_left_def not_less split: if_splits)
qed

lemma batch_progress:
  assumes "w_faults w = []" "attempts_ok mx (w_outbox w)" "mx < - 1" "oc_max_attempts config = mx"
  shows "case batch_loop r config n h ps w of ((h', _), w') \<Rightarrow>
    h \<le> h' \<and> w_faults w' = [] \<and> w_ticks w' = w_ticks w \<and> attempts_ok mx (w_outbox w') \<and>
    (if h' = h then w_outbox w' = w_outbox w \<and> (n = 0 \<or> w_outbox w = [])
     else attempts_left mx (w_outbox w') < attempts_left mx (w_outbox w))"
  using assms
proof (induction n arbitrary: h ps w)
  case 0
  then show ?case by simp
next
  case (Suc n)
  show ?case
  proof (cases "w_outbox w = []")
    case True
    with Suc.prems show ?thesis by (simp add: outbox_len_def)
  next
    case False
    from pass_progress [OF Suc.prems(1) False Suc.prems(2,3), of r] obtain out w1 where
      run: "run_outbox_once r mx w = (Inr out, w1)" "out \<noteq> Idle" and
      w1: "w_faults w1 = []" "attempts_ok mx (w_outbox w1)"
        "attempts_left mx (w_outbox w1) < attempts_left mx (w_outbox w)" "w_ticks w1 = w_ticks w" by blast
    obtain ps' where "batch_loop r config (Suc n) h ps w = batch_loop r config n (Suc h) ps' w1"
      using run False Suc.prems(4) by (cases out) (auto simp: outbox_len_def)
    with Suc.IH [OF w1(1,2) Suc.prems(3,4), of "Suc h" ps'] w1(3,4) show ?thesis
      by (auto split: prod.splits if_splits)
  qed
qed

lemma drain_loop_terminates:
  assumes "w_faults w = []" "attempts_ok (oc_max_attempts config) (w_outbox w)"
    "oc_max_attempts config < - 1" "0 < oc_batch_size config"
    "attempts_left (oc_max_attempts config) (w_outbox w) < fuel"
  shows "\<exists>h' w'. drain_loop fuel r config deadline h w = Some (h', w') \<and>
           (w_outbox w' = [] \<or> (\<exists>t \<in> {w_ticks w..<w_ticks w'}. deadline \<le> ru_instant r t))"
  using assms
proof (induction fuel arbitrary: h w)
  case 0
  then show ?case by simp
next
  case (Suc fuel)
  let ?mx = "oc_max_attempts config" and ?w = "w\<lparr>w_ticks := Suc (w_ticks w)\<rparr>"
  show ?case
  proof (cases "ru_instant r (w_ticks w) < deadline")
    case False
    then show ?thesis by (auto simp: Let_def not_less)
  next
    case True
    obtain n ps w1 where b: "process_batch r config ?w = ((n, ps), w1)"
      by (metis prod.collapse)
    have p: "w_faults w1 = []" "attempts_ok ?mx (w_outbox w1)" "w_ticks w1 = Suc (w_ticks w)"
      "if n = 0 then w_outbox w1 = w_outbox w \<and> w_outbox w = []
       else attempts_left ?mx (w_outbox w1) < attempts_left ?mx (w_outbox w)"
      using batch_progress [where w = ?w and mx = ?mx and config = config and r = r
          and n = "oc_batch_size config" and h = 0 and ps = "[]"] Suc.prems b
      by (auto simp: process_batch_def split: if_splits)
    show ?thesis
    proof (cases "n = 0")
      case True
      with p b \<open>ru_instant r (w_ticks w) < deadline\<close> show ?thesis by (simp add: Let_def)
    next
      case False
      with p(4) Suc.prems(5) have "attempts_left ?mx (w_outbox w1) < fuel" by simp
      from Suc.IH [OF p(1,2) Suc.prems(3,4) this, of "h + n"] obtain h' w' where
        "drain_loop fuel r config deadline (h + n) w1 = Some (h', w')"
        "w_outbox w' = [] \<or> (\<exists>t \<in> {w_ticks w1..<w_ticks w'}. deadline \<le> ru_instant r t)" by blast
      with b False True p(3) show ?thesis by (auto simp: Let_def)
    qed
  qed
qed

text \<open>
  Shutdown drains. On stores that do not fail, with messages within the attempt limit (which every
  enqueue and every retry establishes), a positive batch size and a limit below the largest \<open>u32\<close>,
  draining terminates whatever the deliverer answers: after at most one batch per attempt left it has
  either emptied the outbox or read a clock past the deadline.
\<close>

theorem drain_terminates:
  assumes "w_faults w = []" "attempts_ok (oc_max_attempts config) (w_outbox w)"
    and "oc_max_attempts config < - 1" "0 < oc_batch_size config"
    and "attempts_left (oc_max_attempts config) (w_outbox w) < fuel"
  shows "\<exists>h w'. drain fuel r config w = Some (h, w') \<and>
           (w_outbox w' = [] \<or>
            (\<exists>t. w_ticks w < t \<and> t < w_ticks w' \<and>
               ru_instant r (w_ticks w) + int (oc_drain_timeout config) \<le> ru_instant r t))"
proof -
  from drain_loop_terminates [where w = "w\<lparr>w_ticks := Suc (w_ticks w)\<rparr>" and r = r and h = 0 and config = config and fuel = fuel
      and deadline = "ru_instant r (w_ticks w) + int (oc_drain_timeout config)"] assms
  show ?thesis by (fastforce simp: drain_def Let_def)
qed

theorem drain_terminates_witness:
  "\<exists>h w'. drain 7 sample_runner default_outbox_processor_config sample_queue = Some (h, w')"
proof -
  have "attempts_left 5 (w_outbox sample_queue) < 7"
    by (simp add: attempts_left_def sample_queue_def sample_message_def)
  then show ?thesis
    using drain_terminates [where w = sample_queue and config = default_outbox_processor_config
        and fuel = 7 and r = sample_runner]
    by (force simp: sample_queue_def empty_world_def sample_message_def attempts_ok_def
        default_outbox_processor_config_def)
qed

end
