(* ===== verification/Runner_Ops.thy ===== *)
theory Runner_Ops
  imports Checkout_Outcome Outbox_Processor
begin

text \<open>
  The remaining operations of the runner (\<open>runner.rs\<close>: payment lifecycle, reconciliation, inbox, mandates,
  orders, webhooks, catalog), the step relation of the whole runner, the invariants of its reachable
  states, and the statements about arbitrary sequences of operations.
\<close>

section \<open>Payment lifecycle\<close>

definition capture_payment ::
  "runner \<Rightarrow> payment_lifecycle_request \<Rightarrow> payment_operation_result run" where
  "capture_payment r request =
     op_bind (provider_call (CallCapture request) PaymentErr (\<lambda>h. ps_capture (ru_providers r) h request))
       (\<lambda>res. op_seq (if por_success res then store_payment_state (pl_transaction_id request) Captured
                      else op_return ()) (op_return res))"

definition void_payment ::
  "runner \<Rightarrow> payment_lifecycle_request \<Rightarrow> payment_operation_result run" where
  "void_payment r request =
     op_bind (provider_call (CallVoid request) PaymentErr (\<lambda>h. ps_void (ru_providers r) h request))
       (\<lambda>res. op_seq (if por_success res then store_payment_state (pl_transaction_id request) Voided
                      else op_return ()) (op_return res))"

definition refund_payment ::
  "runner \<Rightarrow> payment_lifecycle_request \<Rightarrow> payment_operation_result run" where
  "refund_payment r request =
     op_bind (provider_call (CallRefund request) PaymentErr (\<lambda>h. ps_refund (ru_providers r) h request))
       (\<lambda>res. op_seq (if por_success res then store_payment_state (pl_transaction_id request) Refunded
                      else op_return ()) (op_return res))"

definition get_payment_state :: "string \<Rightarrow> payment_state option run" where
  "get_payment_state transaction_id = op_gets (\<lambda>w. w_payments w transaction_id)"

text \<open>The loop of \<open>run_reconciliation\<close>; \<open>get_payment_state\<close> of the provider cannot fail.\<close>

fun run_reconciliation :: "runner \<Rightarrow> string list \<Rightarrow> world \<Rightarrow> payment_mismatch list \<times> world" where
  "run_reconciliation r [] w = ([], w)"
| "run_reconciliation r (txn_id # ids) w =
     (let our = w_payments w txn_id;
          provider = ps_payment_state (ru_providers r) (w_log w) txn_id;
          rest = run_reconciliation r ids (w\<lparr>w_log := w_log w @ [CallPaymentState txn_id]\<rparr>)
      in (reconcile_one our provider txn_id @ fst rest, snd rest))"

section \<open>Inbox, mandates, orders, webhooks, catalog\<close>

definition accept_incoming_event_once :: "string \<Rightarrow> bool run" where
  "accept_incoming_event_once message_id =
     store_call (\<lambda>w. case accept_once message_id (w_inbox w) of (x, s) \<Rightarrow> (projr x, w\<lparr>w_inbox := s\<rparr>))"

definition runner_record_mandate :: "runner \<Rightarrow> string \<Rightarrow> i64 \<Rightarrow> bool run" where
  "runner_record_mandate r mandate_id expires_at =
     store_call (\<lambda>w. case record_mandate (ru_utc r (w_ticks w)) mandate_id expires_at (w_mandates w) of
       (x, m) \<Rightarrow> (projr x, w\<lparr>w_mandates := m, w_ticks := Suc (w_ticks w)\<rparr>))"

definition get_order :: "string \<Rightarrow> order_record option run" where
  "get_order order_id = op_gets (\<lambda>w. order_get order_id (w_orders w))"

definition list_orders :: "string \<Rightarrow> order_record list run" where
  "list_orders tenant_id = op_gets (\<lambda>w. list_by_tenant tenant_id (w_orders w))"

definition register_webhook :: "webhook_registration \<Rightarrow> unit run" where
  "register_webhook registration =
     store_put (\<lambda>w. w\<lparr>w_webhooks := register registration (w_webhooks w)\<rparr>)"

definition unregister_webhook :: "string \<Rightarrow> bool run" where
  "unregister_webhook wid =
     store_call (\<lambda>w. case unregister wid (w_webhooks w) of (b, m) \<Rightarrow> (b, w\<lparr>w_webhooks := m\<rparr>))"

definition list_webhooks :: "string \<Rightarrow> webhook_registration list run" where
  "list_webhooks tenant_id = op_gets (\<lambda>w. webhooks_list_by_tenant tenant_id (w_webhooks w))"

definition lookup_catalog_item :: "runner \<Rightarrow> string \<Rightarrow> catalog_item run" where
  "lookup_catalog_item r item_id =
     provider_call (CallGetItem item_id) CatalogErr (\<lambda>h. ps_get_item (ru_providers r) h item_id)"

definition lookup_catalog_items :: "runner \<Rightarrow> string list \<Rightarrow> catalog_item list run" where
  "lookup_catalog_items r ids =
     provider_call (CallLookupItems ids) CatalogErr (\<lambda>h. ps_lookup_items (ru_providers r) h ids)"

definition search_catalog_items :: "runner \<Rightarrow> string option \<Rightarrow> catalog_item list run" where
  "search_catalog_items r query =
     provider_call (CallSearchItems query) CatalogErr (\<lambda>h. ps_search_items (ru_providers r) h query)"

section \<open>Reconciliation\<close>

lemma run_reconciliation_state:
  "snd (run_reconciliation r ids w) = w\<lparr>w_log := w_log w @ map CallPaymentState ids\<rparr>"
  by (induction ids arbitrary: w) (simp_all add: Let_def)

text \<open>
  Reconciliation reports exactly the disagreements. A mismatch is in the report if and only if it
  names a requested transaction for which both our store and the provider, asked at that point, have a
  state and the two differ; and the run changes nothing but the log of provider queries.
\<close>

theorem run_reconciliation_exact:
  "m \<in> set (fst (run_reconciliation r ids w)) \<longleftrightarrow>
     (\<exists>i < length ids. pm_transaction_id m = ids ! i \<and> w_payments w (ids ! i) = Some (pm_our_state m) \<and>
        pm_provider_state m = ps_payment_state (ru_providers r)
          (w_log w @ map CallPaymentState (take i ids)) (ids ! i) \<and>
        pm_provider_state m \<noteq> None \<and> pm_provider_state m \<noteq> Some (pm_our_state m))"
proof (induction ids arbitrary: w)
  case Nil
  show ?case by simp
next
  case (Cons t ids)
  show ?case
    unfolding run_reconciliation.simps Let_def fst_conv set_append Un_iff reconcile_one_iff Cons
    by (auto simp: Ex_less_Suc2)
qed

section \<open>Table invariants of the checkout\<close>

text \<open>Carts are priced, rows are filed under their own keys; and the entry of the key \<open>k\<close> is \<open>v\<close>.\<close>

definition world_ok :: "world \<Rightarrow> bool" where
  "world_ok w \<longleftrightarrow> snapshots_ok w \<and> reservations_ok (w_reservations w) \<and> orders_ok (w_orders w) \<and>
     keyed om_id (w_dead w) \<and> keyed wr_id (w_webhooks w)"

definition entry :: "idempotency_key \<Rightarrow> idempotency_state option \<Rightarrow> world \<Rightarrow> bool" where
  "entry k v w \<longleftrightarrow> world_ok w \<and> w_idem w k = v"

lemma entry_clear [simp]: "entry k v (clear_fault w) = entry k v w"
  by (simp add: entry_def world_ok_def snapshots_ok_def)

lemma entry_same_effects:
  "same_effects w w' \<Longrightarrow> snapshots_ok w' \<Longrightarrow> entry k v w \<Longrightarrow> entry k v w'"
  by (simp add: same_effects_def entry_def world_ok_def)

lemma entry_stores [keeps]:
  "op_keeps (entry k v) (store_reserve r c sku q t) (\<lambda>_. True)"
  "op_keeps (entry k v) (store_release c) (\<lambda>_. True)"
  "op_keeps (entry k v) (store_finalize c) (\<lambda>_. True)"
  "op_keeps (entry k v) (store_order rec) (\<lambda>_. True)"
  "op_keeps (entry k v) (store_enqueue m) (\<lambda>_. True)"
  "op_keeps (entry k v) (store_commit r c ref) (\<lambda>_. True)"
  unfolding store_reserve_def store_release_def store_finalize_def store_order_def store_enqueue_def
    store_commit_def
  by (rule keeps_store_put_any keeps_store_call;
      simp add: entry_def world_ok_def snapshots_ok_def reserve_ok release_cart_def finalize_cart_def
        set_cart_reservations_ok orders_ok_put split: prod.splits)+

lemma entry_idem:
  "k \<noteq> k' \<Longrightarrow> op_keeps (entry k v) (idem_complete k' res) (\<lambda>_. True)"
  "k \<noteq> k' \<Longrightarrow> op_keeps (entry k v) (idem_release k') (\<lambda>_. True)"
  unfolding idem_complete_def idem_release_def
  by (rule keeps_store_call;
      simp add: entry_def world_ok_def snapshots_ok_def lift_idem_def mem_complete_def mem_release_def)+

lemma entry_steps [keeps]:
  "op_keeps (entry k v) (fresh_uuid r) (\<lambda>_. True)"
  "op_keeps (entry k v) (fresh_id r p) (\<lambda>_. True)"
  "op_keeps (entry k v) (utc_now r) (\<lambda>_. True)"
  "op_keeps (entry k v) (store_payment_state t st) (\<lambda>_. True)"
  by (simp_all add: op_keeps_def wp entry_def world_ok_def snapshots_ok_def store_payment_state_def)

lemma entry_call [keeps]: "op_keeps (entry k v) (provider_call c err p) (\<lambda>_. True)"
  by (simp add: op_keeps_def wp entry_def world_ok_def snapshots_ok_def split: sum.splits)

lemma entry_finish_unpaid:
  "k \<noteq> request_key q \<Longrightarrow> op_keeps (entry k v) (finish_unpaid r q st ref tr cart) (\<lambda>_. True)"
  unfolding finish_unpaid_def Let_def by (intro keeps_bind_any keeps entry_idem) simp_all

lemma entry_complete_checkout:
  "k \<noteq> request_key q \<Longrightarrow>
   op_keeps (entry k v) (complete_checkout r q cart cm cap Committed oid) (\<lambda>_. True)"
  unfolding complete_checkout_def Let_def final_status_eq op_bind_return
  by (intro keeps_bind_any keeps entry_idem) simp_all

lemma entry_checkout_settled:
  assumes "k \<noteq> request_key q"
  shows "op_keeps (entry k v) (checkout_settled r q cart) (\<lambda>_. True)"
proof -
  have "op_keeps (entry k v) (commit_and_capture r q cart ref) (\<lambda>_. True)"
    and "op_keeps (entry k v) (place_order r q cart cm) (\<lambda>_. True)"
    and "op_keeps (entry k v) (reserve_lines r q cart) (\<lambda>_. True)" for ref cm
    unfolding commit_and_capture_def place_order_def reserve_lines_def Let_def
    by (intro keeps_bind_any keeps_for keeps; simp)+
  then show ?thesis
    unfolding checkout_settled_def pay_and_complete_def advance_to_geo_checked_eq advance_paid
      op_bind_return
    by (auto intro!: keeps_seq keeps_bind_any entry_call entry_finish_unpaid [OF assms]
        entry_complete_checkout [OF assms] split: policy_check_result.splits)
qed

text \<open>The tables after a checkout, whatever it answers: tables in order, other keys untouched.\<close>

lemma checkout_entry:
  assumes "k \<noteq> request_key request" "entry k v w" "execute_checkout r request w = (x, w')"
  shows "entry k v w'"
proof -
  let ?w = "\<lambda>m. (clear_fault w)\<lparr>w_idem := m\<rparr>"
  have start: "settling (?w m) request (?w m)" for m
    using assms(2) by (simp add: entry_def world_ok_def settling_def cart_inv_start snapshots_ok_def)
  have settle: "op_wp (settle_or_release r request) (\<lambda>_. entry k v) (\<lambda>_. entry k v) (?w m)"
    if "entry k v (?w m)" for m
    unfolding settle_or_release_def wp_catch
    by (rule op_wp_mono [OF settle_wp [OF start]])
      (use that entry_same_effects in \<open>auto simp: wp_seq wp_fail settling_def cart_inv_def cart_frame_def
        intro!: keeps_wp [OF entry_idem(2) [OF assms(1)]]\<close>)
  have "op_wp (op_bind (settle_or_release r request) (checkout_settled r request))
      (\<lambda>_. entry k v) (\<lambda>_. entry k v) (?w m)" if "entry k v (?w m)" for m
    unfolding wp_bind [of "settle_or_release _ _"]
    by (rule op_wp_mono [OF settle [OF that]])
      (auto intro: keeps_wp [OF entry_checkout_settled [OF assms(1)]])
  moreover have "entry k v (?w ((w_idem w)(request_key request \<mapsto> InFlight)))" "entry k v (?w (w_idem w))"
    "entry k v (clear_fault w)"
    using assms(1,2) by (simp_all add: entry_def world_ok_def snapshots_ok_def)
  ultimately have "op_wp (execute_checkout r request) (\<lambda>_. entry k v) (\<lambda>_. entry k v) w"
    using assms(2)
    by (auto simp: execute_checkout_def Let_def wp_fail wp_bind [of "idem_claim _"] idem_claim_wp
        wp_return split: fault.splits option.splits idempotency_state.splits)
  then show ?thesis using assms(3) by (simp add: op_wp_all)
qed

lemma checkout_world_ok:
  assumes "world_ok w" "execute_checkout r request w = (x, w')"
  shows "world_ok w'"
proof -
  let ?k = "(request_key request)\<lparr>ik_key := CHR ''x'' # ik_key (request_key request)\<rparr>"
  have "?k \<noteq> request_key request" by (metis idempotency_key.select_convs(3) idempotency_key.simps(4)
        idempotency_key.surjective idempotency_key.update_convs(3) not_Cons_self2)
  moreover have "entry ?k (w_idem w ?k) w" using assms(1) by (simp add: entry_def)
  ultimately show ?thesis using checkout_entry assms(2) by (fastforce simp: entry_def)
qed

text \<open>A key that is in the table, in flight or completed, is left as it is, also by a checkout that names it.\<close>

lemma checkout_taken_stays:
  assumes "world_ok w" "w_idem w k = Some v" "execute_checkout r request w = (x, w')"
  shows "w_idem w' k = Some v"
proof (cases "k = request_key request")
  case False
  with assms checkout_entry [of k request "w_idem w k" w] show ?thesis by (auto simp: entry_def)
next
  case True
  have "op_wp (execute_checkout r request) (\<lambda>_ w'. w_idem w' = w_idem w) (\<lambda>_ w'. w_idem w' = w_idem w) w"
    using assms(2) True
    by (auto simp: execute_checkout_def Let_def wp_fail wp_bind [of "idem_claim _"] idem_claim_wp
        wp_return split: fault.splits idempotency_state.splits)
  then show ?thesis using assms(2,3) by (simp add: op_wp_all)
qed

section \<open>The runner as a transition system\<close>

text \<open>
  One step is one complete operation of the runner, successful or not. Between steps the environment may
  change what the stores will answer (\<open>env_faults\<close>), and time may pass: the clocks are read through
  \<open>w_ticks\<close>, and every operation may be given by a runner with other providers and another policy, as
  after a restart.
\<close>

inductive runner_step :: "world \<Rightarrow> world \<Rightarrow> bool" where
  cart_command: "dispatch_cart_command r command cart_id w = (x, w') \<Longrightarrow> runner_step w w'"
| checkout: "execute_checkout r request w = (y, w') \<Longrightarrow> runner_step w w'"
| outbox: "run_outbox_once r mx w = (z, w') \<Longrightarrow> runner_step w w'"
| replay: "replay_from_dead_letter i w = (b, w') \<Longrightarrow> runner_step w w'"
| inbox: "accept_incoming_event_once i w = (b, w') \<Longrightarrow> runner_step w w'"
| mandate: "runner_record_mandate r i e w = (b, w') \<Longrightarrow> runner_step w w'"
| capture: "capture_payment r p w = (q, w') \<Longrightarrow> runner_step w w'"
| void: "void_payment r p w = (q, w') \<Longrightarrow> runner_step w w'"
| refund: "refund_payment r p w = (q, w') \<Longrightarrow> runner_step w w'"
| reconcile: "run_reconciliation r ids w = (ms, w') \<Longrightarrow> runner_step w w'"
| webhook_add: "register_webhook reg w = (u, w') \<Longrightarrow> runner_step w w'"
| webhook_remove: "unregister_webhook i w = (b, w') \<Longrightarrow> runner_step w w'"
| lookup: "lookup_catalog_item r i w = (it, w') \<Longrightarrow> runner_step w w'"
| lookups: "lookup_catalog_items r ids w = (its, w') \<Longrightarrow> runner_step w w'"
| search: "search_catalog_items r s w = (its, w') \<Longrightarrow> runner_step w w'"
| env_faults: "runner_step w (w\<lparr>w_faults := fs\<rparr>)"
| env_clock: "runner_step w (w\<lparr>w_ticks := n\<rparr>)"
| env_uuid: "runner_step w (w\<lparr>w_uuid := n\<rparr>)"

inductive runner_reach :: "world \<Rightarrow> world \<Rightarrow> bool" for w where
  reach_refl: "runner_reach w w"
| reach_step: "runner_reach w u \<Longrightarrow> runner_step u v \<Longrightarrow> runner_reach w v"

text \<open>Operations that leave carts, orders, reservations and keys alone.\<close>

lemma entry_queue_stores [keeps]:
  "op_keeps (entry k v) world_claim (\<lambda>_. True)"
  "op_keeps (entry k v) (world_ack i) (\<lambda>_. True)"
  "op_keeps (entry k v) (world_release m) (\<lambda>_. True)"
  "op_keeps (entry k v) (world_dead_put m) (\<lambda>_. True)"
  "op_keeps (entry k v) (world_dead_take i) (\<lambda>_. True)"
  unfolding world_claim_def world_ack_def world_release_def world_dead_put_def world_dead_take_def
  by (rule keeps_store_put_any keeps_store_call;
      simp add: entry_def world_ok_def snapshots_ok_def dead_letter_put_def dead_letter_take_def
        keyed_update keyed_delete split: prod.splits)+

lemma entry_attempt: "op_keeps (entry k v) (attempt_delivery (world_deliverer r) m) (\<lambda>_. True)"
  by (auto simp: op_keeps_def op_wp_def attempt_delivery_def world_deliverer_def entry_def world_ok_def
      snapshots_ok_def split: option.splits prod.splits)

lemma entry_run_outbox: "op_keeps (entry k v) (run_outbox_once r mx) (\<lambda>_. True)"
  unfolding run_outbox_once_def process_outbox_once_reporting_def settle_delivery_def Let_def
  by (auto intro!: keeps_bind_any keeps entry_attempt split: option.splits)

lemma entry_replay: "op_keeps (entry k v) (replay_from_dead_letter i) (\<lambda>_. True)"
  unfolding replay_from_dead_letter_def
  by (auto intro!: keeps_bind_any keeps split: option.splits)

lemma entry_misc:
  "op_keeps (entry k v) (accept_incoming_event_once i) (\<lambda>_. True)"
  "op_keeps (entry k v) (runner_record_mandate r i e) (\<lambda>_. True)"
  "op_keeps (entry k v) (register_webhook reg) (\<lambda>_. True)"
  "op_keeps (entry k v) (unregister_webhook i) (\<lambda>_. True)"
  unfolding accept_incoming_event_once_def runner_record_mandate_def register_webhook_def
    unregister_webhook_def
  by (rule keeps_store_put_any keeps_store_call;
      simp add: entry_def world_ok_def snapshots_ok_def register_def unregister_def keyed_update
        keyed_delete split: prod.splits)+

lemma entry_payments:
  "op_keeps (entry k v) (capture_payment r p) (\<lambda>_. True)"
  "op_keeps (entry k v) (void_payment r p) (\<lambda>_. True)"
  "op_keeps (entry k v) (refund_payment r p) (\<lambda>_. True)"
  unfolding capture_payment_def void_payment_def refund_payment_def
  by (auto intro!: keeps_bind_any keeps)

lemma entry_lookups:
  "op_keeps (entry k v) (lookup_catalog_item r i) (\<lambda>_. True)"
  "op_keeps (entry k v) (lookup_catalog_items r ids) (\<lambda>_. True)"
  "op_keeps (entry k v) (search_catalog_items r s) (\<lambda>_. True)"
  by (auto simp: lookup_catalog_item_def lookup_catalog_items_def search_catalog_items_def op_keeps_def op_wp_def
      provider_call_def entry_def world_ok_def snapshots_ok_def split: prod.splits sum.splits)

lemmas entry_ops =
  entry_run_outbox entry_replay entry_misc entry_payments entry_lookups

lemma entryD: "op_keeps (entry k v) m (\<lambda>_. True) \<Longrightarrow> entry k v w \<Longrightarrow> m w = (x, w') \<Longrightarrow> entry k v w'"
  by (drule (2) keepsD) simp

text \<open>A step that is not a checkout keeps the tables in order and every key as it is.\<close>

lemma step_entry:
  assumes "runner_step w w'" "entry k v w"
  shows "entry k v w' \<or> (\<exists>r request y. execute_checkout r request w = (y, w'))"
  using assms
proof (induction rule: runner_step.induct)
  case (cart_command r command cart_id w x w')
  then have "cart_inv (command_carts r w command cart_id) w w'"
    by (intro dispatch_cart_inv) (simp_all add: entry_def world_ok_def)
  with cart_command.prems show ?case
    by (auto simp: cart_inv_def cart_frame_def intro: entry_same_effects)
next
  case (checkout r request w y w')
  then show ?case by blast
next
  case (reconcile r ids w ms w')
  then show ?case
    using run_reconciliation_state [of r ids w] by (auto simp: entry_def world_ok_def snapshots_ok_def)
next
  case (env_faults w fs)
  then show ?case by (simp add: entry_def world_ok_def snapshots_ok_def)
next
  case (env_clock w n)
  then show ?case by (simp add: entry_def world_ok_def snapshots_ok_def)
next
  case (env_uuid w n)
  then show ?case by (simp add: entry_def world_ok_def snapshots_ok_def)
qed (rule disjI1, rule entry_ops [THEN entryD]; assumption)+

lemma step_world_ok:
  assumes "runner_step w w'" "world_ok w"
  shows "world_ok w'"
proof -
  have "entry k (w_idem w k) w" for k using assms(2) by (simp add: entry_def)
  with step_entry [OF assms(1)] checkout_world_ok [OF assms(2)] show ?thesis
    unfolding entry_def by blast
qed

lemma step_taken:
  assumes "runner_step w w'" "world_ok w" "w_idem w k = Some v"
  shows "w_idem w' k = Some v"
proof -
  have "entry k (Some v) w" using assms by (simp add: entry_def)
  with step_entry [OF assms(1)] checkout_taken_stays [OF assms(2,3)] show ?thesis
    unfolding entry_def by blast
qed

lemma reach_invariant:
  assumes "runner_reach w w'" "world_ok w"
  shows "world_ok w'"
  using assms by (induction rule: runner_reach.induct) (auto intro: step_world_ok)

lemma reach_taken:
  assumes "runner_reach w w'" "world_ok w" "w_idem w k = Some v"
  shows "w_idem w' k = Some v"
  using assms
  by (induction rule: runner_reach.induct) (auto intro: step_taken reach_invariant)

lemma empty_world_ok: "world_ok empty_world"
  by (simp add: world_ok_def snapshots_ok_def empty_world_def reservations_ok_def orders_ok_def)

text \<open>
  C3: price integrity is an invariant. In every state the runner can reach from empty stores, through
  any sequence of its operations with any answers of providers and any store failures, every stored cart
  is filed under its own id, its subtotal is the wrapped sum of its line totals, its discount is the
  clamped total of its resolved discounts and its total is subtotal, tax and fulfillment less that
  discount; and reservations, orders, dead letters and webhooks are each filed under their own keys.
\<close>

theorem runner_invariant:
  assumes "runner_reach empty_world w"
  shows "world_ok w"
  using assms empty_world_ok by (rule reach_invariant)

theorem runner_invariant_witness:
  "\<exists>w. runner_reach empty_world w \<and> world_ok w \<and> w_snapshots w \<noteq> Map.empty"
proof -
  let ?cmd = "CreateCart \<lparr>cc_merchant_id = ''m1'', cc_currency = ''USD'', cc_tenant_id = Some ''t1''\<rparr>"
  let ?w = "snd (dispatch_cart_command sample_runner ?cmd None empty_world)"
  have "runner_step empty_world ?w" by (rule runner_step.cart_command [OF prod.collapse [symmetric]])
  then have r: "runner_reach empty_world ?w" by (blast intro: reach_refl reach_step)
  moreover have "w_snapshots ?w \<noteq> Map.empty"
    by (simp add: dispatch_cart_command_def run_cart_command_def create_cart_def fresh_uuid_def
        append_cart_event_def put_cart_snapshot_def set_cart_state_def op_defs Let_def empty_world_def
        bad_currency_def)
  ultimately show ?thesis using runner_invariant [OF r] by blast
qed

lemma completed_forever:
  assumes "world_ok w" "execute_checkout r request w = (Inr res, w')" "runner_reach w' v"
    and "w_faults v = []"
  shows "execute_checkout r' request v = (Inr res, v)"
proof -
  have "w_idem w' (request_key request) = Some (IdemCompleted res)"
    using op_wpD_Inr [OF execute_completes assms(2)] by (simp add: completed_def)
  then have "completed request res v"
    using reach_taken [OF assms(3) checkout_world_ok [OF assms(1,2)]] by (simp add: completed_def)
  then show ?thesis using completed_replays assms(4) execute_valid [OF assms(2)] by blast
qed

text \<open>
  C2: at most one execution per key, for good. Once a checkout answered with a result, then after any
  further sequence of operations, checkouts with the same key by concurrent callers included, the same
  request is answered with that very result and nothing happens.
\<close>

theorem checkout_replay_forever:
  assumes "world_ok w" "execute_checkout r request w = (Inr res, w')" "runner_reach w' v"
    and "w_faults v = []"
  shows "execute_checkout r' request v = (Inr res, v)"
  using assms by (rule completed_forever)

lemma sample_world_ok: "world_ok sample_world"
  using sample_snapshots_ok
  by (simp add: world_ok_def sample_world_def empty_world_def reservations_ok_def orders_ok_def)

theorem checkout_replay_forever_witness:
  "\<exists>res v. tr_status res = Completed \<and> execute_checkout sample_runner sample_request v = (Inr res, v)"
proof -
  obtain res w' where run: "execute_checkout sample_runner sample_request sample_world = (Inr res, w')"
    and st: "tr_status res = Completed" and nf: "w_faults w' = []"
    by (rule sample_checkout_result)
  from checkout_replay_forever [OF sample_world_ok run reach_refl nf] st show ?thesis by blast
qed

section \<open>Keys stranded for good\<close>

text \<open>
  C32: a late failure strands the key. When the payment or the receipt provider answers with an error, after
  the key was claimed and the cart settled, the error is returned and the key stays in flight. No operation
  of the runner ever gives it back: after any further sequence of them, by any runner on these stores, whatever
  providers and stores answer, the same request is refused as in flight, without effect.
\<close>

theorem late_failure_strands_key:
  assumes "world_ok w" "w_idem w (request_key request) = None"
    and "execute_checkout r request w = (Inl e, w')" "late_error e" "runner_reach w' v" "w_faults v = []"
  shows "execute_checkout r' request v = (Inl AlreadyInFlight, v)"
proof -
  from late_failure_in_flight [OF _ assms(2-4)] assms(1)
  have "in_flight request w'" and valid: "vr_valid (validate_checkout_request request)" by (auto simp: world_ok_def)
  then have "in_flight request v"
    using reach_taken [OF assms(5) checkout_world_ok [OF assms(1,3)]] by (simp add: in_flight_def)
  then show ?thesis using valid assms(6) by (rule in_flight_refused)
qed

text \<open>The gateway is down; a shopper creates a cart in between; the retry is refused.\<close>

theorem late_failure_strands_key_witness:
  "\<exists>w' v. runner_reach w' v \<and> w_snapshots v \<noteq> w_snapshots w' \<and>
     execute_checkout sample_runner sample_request v = (Inl AlreadyInFlight, v)"
proof -
  let ?cmd = "CreateCart \<lparr>cc_merchant_id = ''m1'', cc_currency = ''USD'', cc_tenant_id = Some ''t1''\<rparr>"
  obtain e w' where run: "execute_checkout failing_runner sample_request sample_world = (Inl e, w')"
    and late: "late_error e" "w_faults w' = []" "w_snapshots w' (CartId 9) = None"
    using failing_checkout_runs by (auto simp: op_wp_def split: prod.splits sum.splits)
  let ?v = "snd (dispatch_cart_command (sample_runner\<lparr>ru_new_v4 := (\<lambda>_. 9)\<rparr>) ?cmd None w')"
  have "runner_step w' ?v" by (rule runner_step.cart_command [OF prod.collapse [symmetric]])
  then have reach: "runner_reach w' ?v" by (blast intro: reach_refl reach_step)
  have v: "w_faults ?v = []" "w_snapshots ?v (CartId 9) \<noteq> None"
    using late(2) by (simp_all add: dispatch_cart_command_def run_cart_command_def create_cart_def fresh_uuid_def
        append_cart_event_def put_cart_snapshot_def set_cart_state_def op_defs Let_def bad_currency_def new_cart_def)
  from late_failure_strands_key [OF sample_world_ok _ run late(1) reach v(1)] reach v(2) late(3)
  show ?thesis by (intro exI [of _ w'] exI [of _ ?v]) auto
qed

end
