(* ===== verification/Checkout_Frame.thy ===== *)
theory Checkout_Frame
  imports Runner_Ops
begin

text \<open>
  What a checkout never touches, stated once: a predicate that does not look at the stores a checkout
  writes, and that a longer log of provider calls keeps, is kept by it, whatever its outcome. The mandates, the inbox, the dead letters, the webhook
  registrations and the posts are instances; once the cart is settled, so are the cart snapshots. From it
  follows that a checkout leaves every cart but the one it names, and that one too if it belongs to
  another tenant than the request names.
\<close>

locale settled_frame =
  fixes I :: "world \<Rightarrow> bool"
  assumes frame_idem: "I (w\<lparr>w_idem := b\<rparr>) = I w"
    and frame_commits: "I (w\<lparr>w_commits := c\<rparr>) = I w"
    and frame_reservations: "I (w\<lparr>w_reservations := d\<rparr>) = I w"
    and frame_outbox: "I (w\<lparr>w_outbox := e\<rparr>) = I w"
    and frame_orders: "I (w\<lparr>w_orders := f\<rparr>) = I w"
    and frame_payments: "I (w\<lparr>w_payments := g\<rparr>) = I w"
    and frame_log: "I w \<Longrightarrow> I (w\<lparr>w_log := w_log w @ [h]\<rparr>)"
    and frame_uuid: "I (w\<lparr>w_uuid := i\<rparr>) = I w"
    and frame_ticks: "I (w\<lparr>w_ticks := j\<rparr>) = I w"
    and frame_faults: "I (w\<lparr>w_faults := k\<rparr>) = I w"
begin

lemmas frame_simps =
  frame_idem frame_commits frame_reservations frame_outbox frame_orders frame_payments
  frame_uuid frame_ticks frame_faults

lemma frame_clear: "I (clear_fault w) = I w"
  by (simp add: clear_fault_def frame_simps)

lemma frame_put: "(\<And>w. I (f w) = I w) \<Longrightarrow> op_keeps I (store_put f) (\<lambda>_. True)"
  by (rule keeps_store_put_any) (simp_all add: frame_clear)

lemma frame_call: "(\<And>w. I (snd (f w)) = I w) \<Longrightarrow> op_keeps I (store_call f) (\<lambda>_. True)"
  by (rule keeps_store_call) (simp_all add: frame_clear)

lemma frame_stores:
  "op_keeps I (store_reserve r c sku q t) (\<lambda>_. True)"
  "op_keeps I (store_release c) (\<lambda>_. True)"
  "op_keeps I (store_finalize c) (\<lambda>_. True)"
  "op_keeps I (store_order rec) (\<lambda>_. True)"
  "op_keeps I (store_enqueue m) (\<lambda>_. True)"
  "op_keeps I (store_commit r c ref) (\<lambda>_. True)"
  "op_keeps I (idem_complete k v) (\<lambda>_. True)"
  "op_keeps I (idem_release k) (\<lambda>_. True)"
  unfolding store_op_defs
  by (rule frame_put frame_call; simp add: frame_simps lift_idem_def split: prod.splits)+

lemma frame_claim: "op_keeps I (idem_claim k) (\<lambda>_. True)"
  unfolding store_op_defs by (rule frame_call) (simp add: frame_simps lift_idem_def split: prod.splits)

lemma frame_steps:
  "op_keeps I (fresh_uuid r) (\<lambda>_. True)"
  "op_keeps I (fresh_id r p) (\<lambda>_. True)"
  "op_keeps I (utc_now r) (\<lambda>_. True)"
  "op_keeps I (store_payment_state t st) (\<lambda>_. True)"
  by (simp_all add: op_keeps_def wp frame_simps store_payment_state_def)

lemma frame_provider: "op_keeps I (provider_call c err p) (\<lambda>_. True)"
  by (simp add: op_keeps_def wp frame_log split: sum.splits)

lemma frame_require: "op_keeps I (require_cart c) (\<lambda>_. True)"
  by (auto simp: op_keeps_def require_cart_def get_cart_snapshot_def wp split: option.splits)

lemmas frame_rules =
  keeps_return keeps_fail keeps_seq keeps_bind_any keeps_guard_any keeps_for keeps_catch frame_stores
  frame_claim frame_steps frame_provider frame_require

lemma frame_settled: "op_keeps I (checkout_settled r q cart) (\<lambda>_. True)"
  unfolding checkout_settled_def pay_and_complete_def finish_unpaid_def commit_and_capture_def
    place_order_def complete_checkout_def reserve_lines_def advance_to_geo_checked_eq advance_paid
    final_status_eq op_bind_return Let_def
  by (auto intro!: frame_rules split: policy_check_result.splits)

end

text \<open>Settlement writes the snapshot of the cart as well.\<close>

locale checkout_frame = settled_frame +
  assumes frame_snapshots: "I (w\<lparr>w_snapshots := a\<rparr>) = I w"
begin

lemma frame_put_snapshot: "op_keeps I (put_cart_snapshot p) (\<lambda>_. True)"
  unfolding store_op_defs by (rule frame_put) (simp add: frame_snapshots)

lemma frame_settle: "op_keeps I (settle_or_release r q) (\<lambda>_. True)"
  unfolding settle_or_release_def settle_cart_for_checkout_def reprice_for_checkout_def
    resolve_prices_def resolve_tax_def apply_discounts_def check_geo_def Let_def
  by (auto intro!: frame_rules frame_put_snapshot)

lemma frame_checkout: "op_keeps I (execute_checkout r q) (\<lambda>_. True)"
  unfolding execute_checkout_def Let_def
  by (auto intro!: frame_rules frame_settle frame_settled split: option.splits idempotency_state.splits)

end

interpretation snapshots_frame: settled_frame "\<lambda>w. w_snapshots w = s" for s
  by unfold_locales simp_all

interpretation mandates_frame: checkout_frame "\<lambda>w. w_mandates w = m" for m
  by unfold_locales simp_all

interpretation deliveries_frame: checkout_frame
  "\<lambda>w. w_inbox w = i \<and> w_dead w = d \<and> w_webhooks w = r \<and> w_posts w = p \<and> w_events w = e \<and> w_states w = s"
  for i d r p e s
  by unfold_locales simp_all

text \<open>The log of provider calls only grows.\<close>

interpretation log_frame: checkout_frame "\<lambda>w. \<exists>calls. w_log w = l @ calls" for l
  by unfold_locales auto

lemma checkout_log_grows: "execute_checkout r request w = (x, w') \<Longrightarrow> \<exists>calls. w_log w' = w_log w @ calls"
  using keepsD [OF log_frame.frame_checkout, of w "w_log w" r request x w'] by simp

lemma checkout_keeps_mandates:
  assumes "execute_checkout r request w = (x, w')"
  shows "w_mandates w' = w_mandates w"
  using keepsD [OF mandates_frame.frame_checkout _ assms, of "w_mandates w"] by simp

lemma checkout_keeps_streams:
  assumes "execute_checkout r request w = (x, w')"
  shows "w_states w' = w_states w" "w_events w' = w_events w"
  using keepsD [OF deliveries_frame.frame_checkout _ assms, of "w_inbox w" "w_dead w" "w_webhooks w"
      "w_posts w" "w_events w" "w_states w"] by simp_all

text \<open>
  A checkout delivers nothing itself. Whatever its outcome, it sends no webhook and changes neither
  the inbox nor the dead letters, registrations, recorded mandates, cart states or event streams: its
  only announcement is the message it leaves in the outbox.
\<close>

theorem checkout_touches_only_its_stores:
  assumes "execute_checkout r request w = (x, w')"
  shows "w_posts w' = w_posts w \<and> w_inbox w' = w_inbox w \<and> w_dead w' = w_dead w \<and>
         w_webhooks w' = w_webhooks w \<and> w_mandates w' = w_mandates w \<and> w_states w' = w_states w \<and>
         w_events w' = w_events w"
  using checkout_keeps_mandates [OF assms]
    keepsD [OF deliveries_frame.frame_checkout _ assms, of "w_inbox w" "w_dead w" "w_webhooks w"
      "w_posts w" "w_events w" "w_states w"]
  by simp

theorem checkout_touches_only_its_stores_witness:
  "\<exists>res w'. execute_checkout sample_runner sample_request sample_world = (Inr res, w') \<and>
            w_posts w' = w_posts sample_world"
proof -
  obtain res w' where run: "execute_checkout sample_runner sample_request sample_world = (Inr res, w')"
    by (rule sample_checkout_result)
  from run checkout_touches_only_its_stores [OF run] show ?thesis by blast
qed

section \<open>Carts\<close>

lemma release_snapshots: "op_keeps (\<lambda>w. w_snapshots w = s) (idem_release k) (\<lambda>_. True)"
  by (rule snapshots_frame.frame_stores)

lemma wp_keeps_fail: "op_keeps I m (\<lambda>_. True) \<Longrightarrow> I s \<Longrightarrow> op_wp (op_seq m (op_fail e)) Q (\<lambda>_. I) s"
  unfolding wp_seq by (rule keeps_wp) (simp_all add: wp_fail)

lemma foreign_settle:
  assumes "w_snapshots w (cr_cart_id request) = Some p" "\<not> tenant_matches p request"
  shows "op_wp (settle_or_release r request) (\<lambda>_ _. False) (\<lambda>_ t. w_snapshots t = w_snapshots w) w"
proof -
  have "op_wp (settle_cart_for_checkout r request) (\<lambda>_ _. False) (\<lambda>_ t. t = w) w"
    using assms by (simp add: settle_cart_for_checkout_def require_cart_def get_cart_snapshot_def wp)
  then show ?thesis
    unfolding settle_or_release_def wp_catch
    by (rule op_wp_mono) (auto intro: wp_keeps_fail [OF release_snapshots])
qed

text \<open>Every snapshot but that of the cart the request names is as it was, and the prices are right.\<close>

definition carts_kept :: "checkout_request \<Rightarrow> world \<Rightarrow> world \<Rightarrow> bool" where
  "carts_kept request w t \<longleftrightarrow>
     snapshots_ok t \<and> (\<forall>c. c \<noteq> cr_cart_id request \<longrightarrow> w_snapshots t c = w_snapshots w c)"

lemma carts_kept_cong: "w_snapshots t = w_snapshots u \<Longrightarrow> carts_kept q w t = carts_kept q w u"
  by (simp add: carts_kept_def snapshots_ok_def)

lemma settling_kept: "settling w request t \<Longrightarrow> carts_kept request w t"
  by (auto simp: settling_def cart_inv_def cart_frame_def same_carts_def carts_kept_def)

interpretation kept_frame: settled_frame "carts_kept q w" for q w
  by unfold_locales (simp_all add: carts_kept_def snapshots_ok_def)

lemma own_settle:
  assumes "snapshots_ok w"
  shows "op_wp (settle_or_release r request) (\<lambda>_. carts_kept request w) (\<lambda>_. carts_kept request w) w"
proof -
  have "settling w request w" using assms by (simp add: settling_def cart_inv_start)
  moreover have "op_wp (op_seq (idem_release k) (op_fail e)) (\<lambda>_. carts_kept request w) (\<lambda>_. carts_kept request w) t"
    if "settling w request t" for t e k
    by (rule wp_keeps_fail [OF kept_frame.frame_stores(8) settling_kept [OF that], THEN op_wp_mono]) simp_all
  ultimately show ?thesis
    unfolding settle_or_release_def wp_catch
    by (intro op_wp_mono [OF settle_wp]) (auto dest: settling_kept)
qed

lemma checkout_after_claim:
  assumes "\<And>t. w_snapshots t = w_snapshots w \<Longrightarrow>
      op_wp (op_bind (settle_or_release r request) (checkout_settled r request)) (\<lambda>_. Q) (\<lambda>_. Q) t"
    and "\<And>t. w_snapshots t = w_snapshots w \<Longrightarrow> Q t"
  shows "op_wp (execute_checkout r request) (\<lambda>_. Q) (\<lambda>_. Q) w"
proof -
  have claim: "op_keeps (\<lambda>t. w_snapshots t = w_snapshots w) (idem_claim (request_key request)) (\<lambda>_. True)"
    by (rule snapshots_frame.frame_claim)
  show ?thesis
    unfolding execute_checkout_def Let_def
    by (auto simp: wp_fail wp_return assms split: option.split idempotency_state.split intro!: wp_bind_inv [OF claim])
qed

lemma checkout_carts_kept:
  assumes "snapshots_ok w" "execute_checkout r request w = (x, w')"
  shows "carts_kept request w w'"
proof -
  have "op_wp (execute_checkout r request) (\<lambda>_. carts_kept request w) (\<lambda>_. carts_kept request w) w"
  proof (rule checkout_after_claim)
    fix t :: world assume t: "w_snapshots t = w_snapshots w"
    then have "snapshots_ok t" using assms(1) by (simp add: snapshots_ok_def)
    moreover have eq: "carts_kept request t = carts_kept request w" using t by (auto simp: carts_kept_def)
    ultimately have settle: "op_wp (settle_or_release r request) (\<lambda>_. carts_kept request w) (\<lambda>_. carts_kept request w) t"
      using own_settle [of t r request] by simp
    have settled: "op_wp (checkout_settled r request c) (\<lambda>_. carts_kept request w) (\<lambda>_. carts_kept request w) u"
      if "carts_kept request w u" for c u
      using kept_frame.frame_settled [of request w r request c] that by (simp add: op_keeps_def)
    show "op_wp (op_bind (settle_or_release r request) (checkout_settled r request))
        (\<lambda>_. carts_kept request w) (\<lambda>_. carts_kept request w) t"
      unfolding wp_bind by (rule op_wp_mono [OF settle]) (auto intro: settled)
  next
    fix t :: world assume "w_snapshots t = w_snapshots w"
    then show "carts_kept request w t" using assms(1) by (auto simp: carts_kept_def snapshots_ok_def)
  qed
  then show ?thesis using assms(2) by (simp add: op_wp_all)
qed

lemma checkout_foreign_kept:
  assumes "w_snapshots w (cr_cart_id request) = Some p" "\<not> tenant_matches p request"
    and "execute_checkout r request w = (x, w')"
  shows "w_snapshots w' = w_snapshots w"
proof -
  have "op_wp (execute_checkout r request) (\<lambda>_ t. w_snapshots t = w_snapshots w) (\<lambda>_ t. w_snapshots t = w_snapshots w) w"
  proof (rule checkout_after_claim)
    fix t :: world assume t: "w_snapshots t = w_snapshots w"
    show "op_wp (op_bind (settle_or_release r request) (checkout_settled r request))
        (\<lambda>_ t. w_snapshots t = w_snapshots w) (\<lambda>_ t. w_snapshots t = w_snapshots w) t"
      unfolding wp_bind by (rule op_wp_mono [OF foreign_settle]) (use assms t in auto)
  qed
  then show ?thesis using assms(3) by (simp add: op_wp_all)
qed

end
