(* ===== verification/Ap2_Verification.thy ===== *)
theory Ap2_Verification
  imports Contract
begin

text \<open>
  AP2 mandate verification (\<open>orchestrator-api/src/ap2_verification.rs\<close>). The JSON parser is a library:
  \<open>parse\<close> is a parameter that yields the consent proof or nothing. The clock is read once for the closed
  and once more for the open mandate; a reading is \<open>None\<close> when the system clock is before the epoch. A
  check answers with the message of the first violated condition, \<open>None\<close> meaning that it passed.
\<close>

record open_mandate =
  op_vct :: string
  op_issuer :: string
  op_subject :: string
  op_mandate_id :: string
  op_issued_at :: i64
  op_expires_at :: i64
  op_signature :: string
  op_cnf :: "string option"
  op_max_amount_minor :: "i64 option"
  op_currency :: "string option"

record consent_proof =
  pf_vct :: "string option"
  pf_issuer :: string
  pf_subject :: string
  pf_mandate_id :: string
  pf_payment_handler_id :: string
  pf_issued_at :: i64
  pf_expires_at :: i64
  pf_signature :: string
  pf_nonce :: "string option"
  pf_open_mandate :: "open_mandate option"
  pf_checkout_hash :: "string option"
  pf_max_amount_minor :: "i64 option"
  pf_currency :: "string option"

record ap2_mandate_record =
  mr_mandate_id :: string
  mr_expires_at :: i64

definition is_supported_closed_vct :: "string \<Rightarrow> bool" where
  "is_supported_closed_vct vct \<longleftrightarrow>
     vct \<in> {''mandate.payment.1'', ''mandate.checkout.1'', ''mandate.checkout.closed.1''}"

definition is_supported_open_vct :: "string \<Rightarrow> bool" where
  "is_supported_open_vct vct \<longleftrightarrow>
     vct \<in> {''mandate.checkout.open.1'', ''mandate.payment.open.1'', ''mandate.payment.open''}"

text \<open>\<open>if bad { return Err(message) }\<close>, one after the other.\<close>

fun first_failure :: "(bool \<times> string) list \<Rightarrow> string option" where
  "first_failure [] = None"
| "first_failure ((bad, message) # checks) = (if bad then Some message else first_failure checks)"

definition or_else_check :: "string option \<Rightarrow> string option \<Rightarrow> string option" where
  "or_else_check a b = (case a of Some e \<Rightarrow> Some e | None \<Rightarrow> b)"

definition issuer_trusted :: "string list \<Rightarrow> string \<Rightarrow> bool" where
  "issuer_trusted trusted issuer \<longleftrightarrow>
     trusted = [] \<or> list_ex (\<lambda>allowed. eq_ignore_ascii_case allowed (str_trim issuer)) trusted"

definition blank :: "string \<Rightarrow> bool" where
  "blank s \<longleftrightarrow> str_trim s = []"

definition validate_party_fields ::
  "string \<Rightarrow> string \<Rightarrow> string \<Rightarrow> string \<Rightarrow> string \<Rightarrow> i64 \<Rightarrow> i64 \<Rightarrow> string list \<Rightarrow> i64 option \<Rightarrow> string option" where
  "validate_party_fields issuer subject mandate_id signature payment_handler_id issued_at expires_at
       trusted now =
     or_else_check (first_failure
       [(blank issuer, ''AP2 strict mode: consent proof issuer is required''),
        (\<not> issuer_trusted trusted issuer,
         ''AP2 strict mode: consent proof issuer '' @ [CHR 0x27] @ issuer @ [CHR 0x27] @ '' is not trusted''),
        (blank subject, ''AP2 strict mode: consent proof subject is required''),
        (blank mandate_id, ''AP2 strict mode: consent proof mandate_id is required''),
        (blank signature, ''AP2 strict mode: consent proof signature is required''),
        (blank payment_handler_id, ''AP2 strict mode: consent proof payment_handler_id is required''),
        (issued_at \<le> 0, ''AP2 strict mode: consent proof issued_at must be a unix timestamp''),
        (expires_at \<le> issued_at,
         ''AP2 strict mode: consent proof expires_at must be after issued_at'')])
     (case now of
        None \<Rightarrow> Some ''AP2 strict mode: system clock is invalid''
      | Some t \<Rightarrow> if expires_at \<le> t then Some ''AP2 strict mode: consent proof has expired'' else None)"

definition validate_open_mandate ::
  "open_mandate \<Rightarrow> consent_proof \<Rightarrow> checkout_request \<Rightarrow> string list \<Rightarrow> i64 option \<Rightarrow> string option" where
  "validate_open_mandate om closed request trusted now =
     or_else_check (first_failure
       [(\<not> is_supported_open_vct (op_vct om),
         ''AP2 strict mode: unsupported open mandate vct '' @ [CHR 0x27] @ op_vct om @ [CHR 0x27]),
        (blank (case op_cnf om of Some c \<Rightarrow> c | None \<Rightarrow> []),
         ''AP2 strict mode: open mandate cnf (agent key binding) is required for HNP'')])
     (or_else_check (validate_party_fields (op_issuer om) (op_subject om) (op_mandate_id om)
         (op_signature om) (pf_payment_handler_id closed) (op_issued_at om) (op_expires_at om) trusted now)
     (first_failure
       [(pi_amount_minor (cr_payment_intent request) >
           (case op_max_amount_minor om of
              Some m \<Rightarrow> m
            | None \<Rightarrow> (case pf_max_amount_minor closed of Some m \<Rightarrow> m | None \<Rightarrow> i64_max)),
         ''AP2 strict mode: closed mandate amount exceeds open mandate max_amount_minor''),
        (case (case op_currency om of Some c \<Rightarrow> Some c | None \<Rightarrow> pf_currency closed) of
           Some currency \<Rightarrow> \<not> eq_ignore_ascii_case currency (cr_currency request)
         | None \<Rightarrow> False,
         ''AP2 strict mode: open mandate currency constraint not satisfied'')]))"

definition vct_failure :: "consent_proof \<Rightarrow> string option" where
  "vct_failure p =
     (case pf_vct p of
        None \<Rightarrow> None
      | Some vct \<Rightarrow> first_failure
          [(\<not> is_supported_closed_vct vct \<and> \<not> is_supported_open_vct vct,
            ''AP2 strict mode: unsupported mandate vct '' @ [CHR 0x27] @ vct @ [CHR 0x27]),
           (is_supported_open_vct vct \<and> pf_open_mandate p = None,
            ''AP2 strict mode: open mandate alone cannot authorize checkout; closed mandate required'')])"

definition handler_of :: "checkout_request \<Rightarrow> string" where
  "handler_of request =
     (case pi_payment_handler_id (cr_payment_intent request) of Some h \<Rightarrow> h | None \<Rightarrow> [])"

definition validate_proof ::
  "consent_proof \<Rightarrow> checkout_request \<Rightarrow> string list \<Rightarrow> i64 option \<Rightarrow> i64 option \<Rightarrow> string option" where
  "validate_proof p request trusted now now' =
     or_else_check (vct_failure p)
     (or_else_check (validate_party_fields (pf_issuer p) (pf_subject p) (pf_mandate_id p)
         (pf_signature p) (pf_payment_handler_id p) (pf_issued_at p) (pf_expires_at p) trusted now)
     (or_else_check (first_failure
       [(pf_payment_handler_id p \<noteq> handler_of request,
         ''AP2 strict mode: consent proof payment_handler_id must match request payment_handler_id'')])
     (or_else_check
       (case pf_open_mandate p of
          Some om \<Rightarrow> validate_open_mandate om p request trusted now'
        | None \<Rightarrow> (case pf_max_amount_minor p of
            Some m \<Rightarrow> first_failure [(pi_amount_minor (cr_payment_intent request) > m,
              ''AP2 strict mode: payment amount exceeds mandate max_amount_minor'')]
          | None \<Rightarrow> None))
     (case pf_currency p of
        Some currency \<Rightarrow> first_failure [(\<not> eq_ignore_ascii_case currency (cr_currency request),
          ''AP2 strict mode: mandate currency does not match checkout currency'')]
      | None \<Rightarrow> None))))"

text \<open>\<open>AP2_TRUSTED_ISSUERS\<close>, comma separated; \<open>None\<close> when the variable is not set.\<close>

definition trusted_issuers_from_env :: "string option \<Rightarrow> string list" where
  "trusted_issuers_from_env var =
     (case var of
        None \<Rightarrow> []
      | Some value \<Rightarrow> filter (\<lambda>s. s \<noteq> []) (map str_trim (str_split (CHR '','') value)))"

definition proof_text :: "checkout_request \<Rightarrow> string option" where
  "proof_text request =
     (case pi_ap2_consent_proof (cr_payment_intent request) of
        Some p \<Rightarrow> if blank p then None else Some p
      | None \<Rightarrow> None)"

definition malformed_proof :: string where
  "malformed_proof = ''AP2 strict mode: ap2_consent_proof must be JSON with issuer, subject, mandate_id, payment_handler_id, issued_at, expires_at, and signature''"

definition verify_ap2_strict ::
  "(string \<Rightarrow> consent_proof option) \<Rightarrow> string option \<Rightarrow> checkout_request \<Rightarrow> i64 option \<Rightarrow> i64 option \<Rightarrow>
   string option" where
  "verify_ap2_strict parse env request now now' =
     (case proof_text request of
        None \<Rightarrow> Some ''AP2 strict mode: ap2_consent_proof is required''
      | Some raw \<Rightarrow>
          if handler_of request = [] then Some ''AP2 strict mode: payment_handler_id is required''
          else case parse raw of
                 None \<Rightarrow> Some malformed_proof
               | Some p \<Rightarrow> validate_proof p request (trusted_issuers_from_env env) now now')"

definition extract_ap2_mandate_record ::
  "(string \<Rightarrow> consent_proof option) \<Rightarrow> checkout_request \<Rightarrow> string + ap2_mandate_record" where
  "extract_ap2_mandate_record parse request =
     (case proof_text request of
        None \<Rightarrow> Inl ''AP2 strict mode: ap2_consent_proof is required''
      | Some raw \<Rightarrow> (case parse raw of
            None \<Rightarrow> Inl malformed_proof
          | Some p \<Rightarrow> Inr \<lparr>mr_mandate_id = pf_mandate_id p, mr_expires_at = pf_expires_at p\<rparr>))"

section \<open>What a passed verification means\<close>

lemma first_failure_None: "first_failure cs = None \<longleftrightarrow> (\<forall>(bad, m) \<in> set cs. \<not> bad)"
  by (induction cs rule: first_failure.induct) auto

lemma or_else_None [simp]: "or_else_check a b = None \<longleftrightarrow> a = None \<and> b = None"
  by (auto simp: or_else_check_def split: option.splits)

text \<open>Identified, by a trusted issuer, signed, and valid now.\<close>

definition party_ok ::
  "string list \<Rightarrow> i64 option \<Rightarrow> string \<Rightarrow> string \<Rightarrow> string \<Rightarrow> string \<Rightarrow> i64 \<Rightarrow> i64 \<Rightarrow> bool" where
  "party_ok trusted now issuer subject mandate_id signature issued_at expires_at \<longleftrightarrow>
     \<not> blank issuer \<and> issuer_trusted trusted issuer \<and> \<not> blank subject \<and> \<not> blank mandate_id \<and>
     \<not> blank signature \<and> 0 < issued_at \<and> issued_at < expires_at \<and> (\<exists>t. now = Some t \<and> t < expires_at)"

lemma validate_party_fields_None:
  "validate_party_fields i s m sg h ia ea trusted now = None \<longleftrightarrow>
     \<not> blank h \<and> party_ok trusted now i s m sg ia ea"
  by (auto simp: validate_party_fields_def first_failure_None party_ok_def not_le split: option.splits
      if_splits)

definition within_limit :: "i64 option \<Rightarrow> checkout_request \<Rightarrow> bool" where
  "within_limit limit request \<longleftrightarrow>
     (case limit of Some m \<Rightarrow> pi_amount_minor (cr_payment_intent request) \<le> m | None \<Rightarrow> True)"

definition currency_ok :: "string option \<Rightarrow> checkout_request \<Rightarrow> bool" where
  "currency_ok c request \<longleftrightarrow>
     (case c of Some cur \<Rightarrow> eq_ignore_ascii_case cur (cr_currency request) | None \<Rightarrow> True)"

definition open_mandate_ok ::
  "string list \<Rightarrow> i64 option \<Rightarrow> checkout_request \<Rightarrow> consent_proof \<Rightarrow> open_mandate \<Rightarrow> bool" where
  "open_mandate_ok trusted now request p om \<longleftrightarrow>
     is_supported_open_vct (op_vct om) \<and> (\<exists>c. op_cnf om = Some c \<and> \<not> blank c) \<and>
     party_ok trusted now (op_issuer om) (op_subject om) (op_mandate_id om) (op_signature om)
       (op_issued_at om) (op_expires_at om) \<and>
     within_limit (if op_max_amount_minor om = None then pf_max_amount_minor p else op_max_amount_minor om)
       request \<and>
     currency_ok (if op_currency om = None then pf_currency p else op_currency om) request"

definition mandate_ok ::
  "string list \<Rightarrow> i64 option \<Rightarrow> i64 option \<Rightarrow> checkout_request \<Rightarrow> consent_proof \<Rightarrow> bool" where
  "mandate_ok trusted now now' request p \<longleftrightarrow>
     (case pf_vct p of None \<Rightarrow> True
      | Some v \<Rightarrow> is_supported_closed_vct v \<or> is_supported_open_vct v \<and> pf_open_mandate p \<noteq> None) \<and>
     party_ok trusted now (pf_issuer p) (pf_subject p) (pf_mandate_id p) (pf_signature p)
       (pf_issued_at p) (pf_expires_at p) \<and>
     \<not> blank (pf_payment_handler_id p) \<and> pf_payment_handler_id p = handler_of request \<and>
     (case pf_open_mandate p of
        None \<Rightarrow> within_limit (pf_max_amount_minor p) request
      | Some om \<Rightarrow> open_mandate_ok trusted now' request p om) \<and>
     currency_ok (pf_currency p) request"

lemma blank_Nil [simp]: "blank []"
  by (simp add: blank_def)

lemma closed_not_open: "is_supported_closed_vct v \<Longrightarrow> \<not> is_supported_open_vct v"
  by (auto simp: is_supported_closed_vct_def is_supported_open_vct_def)

lemma vct_failure_None:
  "vct_failure p = None \<longleftrightarrow>
     (case pf_vct p of None \<Rightarrow> True
      | Some v \<Rightarrow> is_supported_closed_vct v \<or> is_supported_open_vct v \<and> pf_open_mandate p \<noteq> None)"
  by (auto simp: vct_failure_def first_failure_None closed_not_open split: option.splits)

lemma validate_open_mandate_None:
  assumes "\<not> blank (pf_payment_handler_id p)" "pi_amount_minor (cr_payment_intent request) \<le> i64_max"
  shows "validate_open_mandate om p request trusted now = None \<longleftrightarrow>
         open_mandate_ok trusted now request p om"
  using assms
  by (auto simp: validate_open_mandate_def first_failure_None validate_party_fields_None
      open_mandate_ok_def within_limit_def currency_ok_def not_less split: option.splits)

lemma validate_proof_None:
  assumes "pi_amount_minor (cr_payment_intent request) \<le> i64_max"
  shows "validate_proof p request trusted now now' = None \<longleftrightarrow> mandate_ok trusted now now' request p"
  using assms
  by (cases "pf_open_mandate p")
    (auto simp: validate_proof_def vct_failure_None validate_party_fields_None first_failure_None
      mandate_ok_def validate_open_mandate_None within_limit_def currency_ok_def not_less
      split: option.splits)

lemma verify_exact:
  assumes "pi_amount_minor (cr_payment_intent request) \<le> i64_max"
  shows "verify_ap2_strict parse env request now now' = None \<longleftrightarrow>
     (\<exists>raw p. proof_text request = Some raw \<and> parse raw = Some p \<and>
        mandate_ok (trusted_issuers_from_env env) now now' request p)"
  using assms
  by (auto simp: verify_ap2_strict_def validate_proof_None mandate_ok_def split: option.splits if_splits)

definition sample_proof :: consent_proof where
  "sample_proof = \<lparr>pf_vct = Some ''mandate.payment.1'', pf_issuer = ''iss'', pf_subject = ''sub'',
     pf_mandate_id = ''man_1'', pf_payment_handler_id = ''h1'', pf_issued_at = 10, pf_expires_at = 100,
     pf_signature = ''sig'', pf_nonce = None, pf_open_mandate = None, pf_checkout_hash = None,
     pf_max_amount_minor = Some 5000, pf_currency = Some ''USD''\<rparr>"

definition ap2_request :: checkout_request where
  "ap2_request = sample_request\<lparr>cr_payment_intent := sample_intent\<lparr>pi_ap2_consent_proof := Some ''proof'',
     pi_payment_handler_id := Some ''h1''\<rparr>\<rparr>"

lemma sample_mandate_ok: "mandate_ok [] (Some 50) (Some 50) ap2_request sample_proof"
  by (simp add: mandate_ok_def sample_proof_def ap2_request_def sample_defs party_ok_def blank_def
      str_trim_def is_ascii_ws_def issuer_trusted_def is_supported_closed_vct_def handler_of_def
      within_limit_def currency_ok_def)

lemma sample_proof_text: "proof_text ap2_request = Some ''proof''"
  by (simp add: proof_text_def ap2_request_def sample_defs blank_def str_trim_def is_ascii_ws_def)

lemma sample_amount: "pi_amount_minor (cr_payment_intent ap2_request) \<le> i64_max"
  by (simp add: ap2_request_def sample_defs i64_max_def)

lemma no_trusted_issuers: "trusted_issuers_from_env None = []"
  by (simp add: trusted_issuers_from_env_def)

lemma sample_verified:
  "verify_ap2_strict (\<lambda>_. Some sample_proof) None ap2_request (Some 50) (Some 50) = None"
  using sample_mandate_ok
  by (simp add: verify_exact [OF sample_amount] sample_proof_text no_trusted_issuers)

text \<open>
  C25: strict AP2 verification is exact. It passes if and only if the request carries a proof that
  parses to a mandate of a supported type, by a trusted issuer, complete, signed, not expired at the time
  of the check, bound to the payment handler the request names, within its amount limit and in its
  currency; and, when it rests on an open mandate, that one is likewise valid, bound to an agent key and
  within its own limits. (An \<open>i64\<close> amount is at most \<open>i64::MAX\<close>.)
\<close>

theorem verify_ap2_strict_iff:
  assumes "pi_amount_minor (cr_payment_intent request) \<le> i64_max"
  shows "verify_ap2_strict parse env request now now' = None \<longleftrightarrow>
     (\<exists>raw p. proof_text request = Some raw \<and> parse raw = Some p \<and>
        mandate_ok (trusted_issuers_from_env env) now now' request p)"
  by (rule verify_exact [OF assms])

theorem verify_ap2_strict_iff_witness:
  "verify_ap2_strict (\<lambda>_. Some sample_proof) None ap2_request (Some 50) (Some 50) = None"
  unfolding verify_ap2_strict_iff [OF sample_amount]
  using sample_mandate_ok sample_proof_text by (simp add: no_trusted_issuers)

end
