(* ===== verification/Access.thy ===== *)
theory Access
  imports Contract
begin

text \<open>
  Caller identity at the API boundary: authorization (\<open>orchestrator-api/src/authz.rs\<close>), bearer token
  resolution (\<open>authn.rs\<close>; decoding and validating the JWT itself is the parameter \<open>decode\<close>), and the
  redaction of requests for logs (\<open>pii.rs\<close>).
\<close>

record auth_context =
  ac_caller_id :: string
  ac_tenant_id :: string
  ac_scopes :: "string list"

datatype authz_error = MissingScope string | TenantMismatch

definition authorize_checkout :: "auth_context \<Rightarrow> checkout_request \<Rightarrow> authz_error + unit" where
  "authorize_checkout context request =
     (if \<not> list_ex (\<lambda>scope. scope = ''checkout:execute'') (ac_scopes context)
      then Inl (MissingScope ''checkout:execute'')
      else if ac_tenant_id context \<noteq> cr_tenant_id request then Inl TenantMismatch
      else Inr ())"

record jwt_claims =
  jc_sub :: string
  jc_tenant_id :: string
  jc_scopes :: "string list"
  jc_iss :: "string option"

definition resolve_bearer ::
  "(string \<Rightarrow> jwt_claims option) \<Rightarrow> string list \<Rightarrow> string \<Rightarrow> auth_context option" where
  "resolve_bearer decode trusted_issuers token =
     (case decode token of
        None \<Rightarrow> None
      | Some claims \<Rightarrow>
          if trusted_issuers \<noteq> [] \<and>
             (case jc_iss claims of
                None \<Rightarrow> True
              | Some iss \<Rightarrow> \<not> list_ex (\<lambda>trusted. eq_ignore_ascii_case trusted iss) trusted_issuers)
          then None
          else Some \<lparr>ac_caller_id = jc_sub claims, ac_tenant_id = jc_tenant_id claims,
                     ac_scopes = (if jc_scopes claims = [] then [''checkout:execute''] else jc_scopes claims)\<rparr>)"

lemma authorize_checkout_ok:
  "authorize_checkout context request = Inr () \<longleftrightarrow>
     ''checkout:execute'' \<in> set (ac_scopes context) \<and> ac_tenant_id context = cr_tenant_id request"
  by (auto simp: authorize_checkout_def list_ex_iff)

lemma resolve_bearer_issuer:
  assumes "resolve_bearer decode trusted token = Some context" "trusted \<noteq> []"
  shows "\<exists>claims iss t. decode token = Some claims \<and> jc_iss claims = Some iss \<and> t \<in> set trusted \<and>
           eq_ignore_ascii_case t iss \<and> ac_tenant_id context = jc_tenant_id claims"
  using assms by (auto simp: resolve_bearer_def list_ex_iff split: option.splits if_splits)

section \<open>Redaction\<close>

definition REDACTED :: string where "REDACTED = ''[REDACTED]''"

record redacted_payment_intent =
  rp_amount_minor :: i64
  rp_token_or_reference :: string
  rp_ap2_consent_proof :: "string option"
  rp_payment_handler_id :: "string option"

definition redact_payment_intent :: "payment_intent \<Rightarrow> redacted_payment_intent" where
  "redact_payment_intent i =
     \<lparr>rp_amount_minor = pi_amount_minor i, rp_token_or_reference = REDACTED,
      rp_ap2_consent_proof = map_option (\<lambda>_. REDACTED) (pi_ap2_consent_proof i),
      rp_payment_handler_id = pi_payment_handler_id i\<rparr>"

record redacted_customer_hint =
  rc_email :: "string option"
  rc_full_name :: "string option"

definition redact_customer_hint :: "customer_hint \<Rightarrow> redacted_customer_hint" where
  "redact_customer_hint c =
     \<lparr>rc_email = map_option (\<lambda>_. REDACTED) (ch_email c),
      rc_full_name = map_option (\<lambda>_. REDACTED) (ch_full_name c)\<rparr>"

record redacted_checkout_request =
  rq_tenant_id :: string
  rq_merchant_id :: string
  rq_cart_id :: cart_id
  rq_cart_version :: u64
  rq_currency :: string
  rq_customer :: "redacted_customer_hint option"
  rq_location :: "location_hint option"
  rq_payment_intent :: redacted_payment_intent
  rq_idempotency_key :: string

definition redact_checkout_request :: "checkout_request \<Rightarrow> redacted_checkout_request" where
  "redact_checkout_request req =
     \<lparr>rq_tenant_id = cr_tenant_id req, rq_merchant_id = cr_merchant_id req,
      rq_cart_id = cr_cart_id req, rq_cart_version = cr_cart_version req,
      rq_currency = cr_currency req, rq_customer = map_option redact_customer_hint (cr_customer req),
      rq_location = cr_location req,
      rq_payment_intent = redact_payment_intent (cr_payment_intent req),
      rq_idempotency_key = cr_idempotency_key req\<rparr>"

text \<open>Replacing every secret of a request by others, keeping only which of them are present.\<close>

definition replace_secrets ::
  "string \<Rightarrow> (string \<Rightarrow> string) \<Rightarrow> (string \<Rightarrow> string) \<Rightarrow> (string \<Rightarrow> string) \<Rightarrow> checkout_request \<Rightarrow> checkout_request" where
  "replace_secrets token f g h req =
     req\<lparr>cr_customer := map_option (\<lambda>c. c\<lparr>ch_email := map_option f (ch_email c),
                                            ch_full_name := map_option g (ch_full_name c)\<rparr>) (cr_customer req),
         cr_payment_intent := (cr_payment_intent req)\<lparr>pi_token_or_reference := token,
           pi_ap2_consent_proof := map_option h (pi_ap2_consent_proof (cr_payment_intent req))\<rparr>\<rparr>"

text \<open>
  Redaction is non-interfering. What is logged of a request does not depend on the payment token,
  the consent proof, the email or the name it carries: replacing them by any others leaves the redacted
  request the same.
\<close>

theorem redaction_noninterference:
  "redact_checkout_request (replace_secrets token f g h req) = redact_checkout_request req"
  by (cases "cr_customer req"; cases "pi_ap2_consent_proof (cr_payment_intent req)")
    (simp_all add: redact_checkout_request_def replace_secrets_def redact_payment_intent_def
      redact_customer_hint_def option.map_comp comp_def)

end
