(* ===== verification/Facade.thy ===== *)
theory Facade
  imports Checkout_Frame Ap2_Verification Access
begin

text \<open>
  The library facade (\<open>orchestrator-api/src/facade.rs\<close>): tenant checks in front of the cart commands,
  AP2 strict mode and authorization in front of the checkout, identity linking and payment delegation.
  The delegating operations of the facade that only wrap a runner call with metrics are that runner
  operation with its error wrapped by \<open>RunnerFailed\<close>.
\<close>

datatype facade_error =
    RunnerFailed runner_error
  | AuthzFailed authz_error
  | Ap2VerificationFailed string
  | IdentityLinkFailed string
  | PaymentDelegationFailed string
  | NotConfigured string

type_synonym 'a fac = "(world, facade_error, 'a) op"

record identity_link_request =
  il_tenant_id :: string
  il_merchant_id :: string
  il_agent_id :: string
  il_link_token :: string
  il_user_reference :: "string option"

record provider_identity_link_request =
  pil_tenant_id :: string
  pil_merchant_id :: string
  pil_agent_id :: string
  pil_link_token :: string

record identity_link_record =
  ir_link_id :: string
  ir_status :: string
  ir_expires_at :: "string option"

datatype identity_link_provider_error = IdentityRejected string | IdentityProvider string

record payment_delegation_request =
  pd_tenant_id :: string
  pd_token :: string
  pd_method_type :: "string option"
  pd_max_amount_minor :: "i64 option"
  pd_idempotency_key :: string
  pd_metadata :: "(string \<times> string) list"

record delegated_payment =
  dp_id :: string
  dp_token :: string
  dp_status :: string
  dp_expires_at :: "string option"

datatype delegation_error = DelegationRejected string | DelegationProvider string

record identity_link_result =
  ilr_ucp_version :: string
  ilr_supported_versions :: "string list"
  ilr_link_id :: string
  ilr_status :: string

definition UCP_LATEST_VERSION :: string where "UCP_LATEST_VERSION = ''2026-08-25''"

definition UCP_SUPPORTED_VERSIONS :: "string list" where
  "UCP_SUPPORTED_VERSIONS = [UCP_LATEST_VERSION, ''2026-04-08'', ''2026-01-23'', ''2026-01-11'']"

text \<open>
  The facade, with the JSON parser of consent proofs and the \<open>AP2_TRUSTED_ISSUERS\<close> variable it reads.
\<close>

record facade =
  fa_runner :: runner
  fa_ap2_strict :: bool
  fa_payment_delegation ::
    "(payment_delegation_request \<Rightarrow> delegation_error + delegated_payment) option"
  fa_identity_link ::
    "(provider_identity_link_request \<Rightarrow> identity_link_provider_error + identity_link_record) option"
  fa_parse_proof :: "string \<Rightarrow> consent_proof option"
  fa_trusted_env :: "string option"

section \<open>Cart commands for a tenant\<close>

fun cart_id_from_command :: "cart_command \<Rightarrow> cart_id option" where
  "cart_id_from_command (GetCart p) = Some (gc_cart_id p)"
| "cart_id_from_command (StartCheckout p) = Some (sc_cart_id p)"
| "cart_id_from_command (CancelCart p) = Some (xc_cart_id p)"
| "cart_id_from_command _ = None"

definition facade_dispatch :: "facade \<Rightarrow> cart_command \<Rightarrow> cart_id option \<Rightarrow> cart_projection fac" where
  "facade_dispatch fa cmd cart_id =
     op_map_err RunnerFailed (dispatch_cart_command (fa_runner fa) cmd cart_id)"

definition assert_cart_belongs_to :: "string \<Rightarrow> cart_id \<Rightarrow> unit fac" where
  "assert_cart_belongs_to tenant_id cart_id =
     op_bind (op_gets (\<lambda>w. w_snapshots w cart_id)) (\<lambda>snapshot.
       case snapshot of
         None \<Rightarrow> op_return ()
       | Some cart \<Rightarrow>
           if cp_tenant_id cart = Some tenant_id then op_return ()
           else op_fail (AuthzFailed TenantMismatch))"

definition dispatch_cart_command_for_tenant ::
  "facade \<Rightarrow> string \<Rightarrow> cart_command \<Rightarrow> cart_id option \<Rightarrow> cart_projection fac" where
  "dispatch_cart_command_for_tenant fa tenant_id cmd cart_id =
     (let cmd = with_tenant cmd tenant_id;
          target = (case cart_id of Some c \<Rightarrow> Some c | None \<Rightarrow> cart_id_from_command cmd)
      in op_seq (case target of Some c \<Rightarrow> assert_cart_belongs_to tenant_id c | None \<Rightarrow> op_return ())
           (facade_dispatch fa cmd cart_id))"

section \<open>Checkout\<close>

text \<open>A reading of the system clock, in seconds; before the epoch there is none.\<close>

definition unix_seconds :: "int \<Rightarrow> i64 option" where
  "unix_seconds t = (if t < 0 then None else Some t)"

definition now_unix_timestamp :: "facade \<Rightarrow> i64 option fac" where
  "now_unix_timestamp fa w =
     (Inr (unix_seconds (ru_utc (fa_runner fa) (w_ticks w))), w\<lparr>w_ticks := Suc (w_ticks w)\<rparr>)"

definition replay_message :: string where
  "replay_message = ''AP2 strict mode: mandate replay detected''"

definition admit_mandate :: "facade \<Rightarrow> checkout_request \<Rightarrow> unit fac" where
  "admit_mandate fa request =
     op_bind (now_unix_timestamp fa) (\<lambda>now.
     op_bind (now_unix_timestamp fa) (\<lambda>now'.
       case verify_ap2_strict (fa_parse_proof fa) (fa_trusted_env fa) request now now' of
         Some e \<Rightarrow> op_fail (Ap2VerificationFailed e)
       | None \<Rightarrow>
           (case extract_ap2_mandate_record (fa_parse_proof fa) request of
              Inl e \<Rightarrow> op_fail (Ap2VerificationFailed e)
            | Inr rec \<Rightarrow>
                op_bind (op_map_err RunnerFailed
                          (runner_record_mandate (fa_runner fa) (mr_mandate_id rec) (mr_expires_at rec)))
                  (\<lambda>accepted. op_guard accepted (Ap2VerificationFailed replay_message)))))"

definition facade_execute_checkout :: "facade \<Rightarrow> checkout_request \<Rightarrow> transaction_result fac" where
  "facade_execute_checkout fa request =
     op_seq (if fa_ap2_strict fa then admit_mandate fa request else op_return ())
       (op_map_err RunnerFailed (execute_checkout (fa_runner fa) request))"

definition execute_checkout_authorized ::
  "facade \<Rightarrow> auth_context \<Rightarrow> checkout_request \<Rightarrow> transaction_result fac" where
  "execute_checkout_authorized fa context request =
     (case authorize_checkout context request of
        Inl e \<Rightarrow> op_fail (AuthzFailed e)
      | Inr _ \<Rightarrow> facade_execute_checkout fa request)"

section \<open>Identity linking and payment delegation\<close>

fun identity_error_display :: "identity_link_provider_error \<Rightarrow> string" where
  "identity_error_display (IdentityRejected m) = ''identity link rejected: '' @ m"
| "identity_error_display (IdentityProvider m) = ''identity link provider failed: '' @ m"

definition link_identity :: "facade \<Rightarrow> identity_link_request \<Rightarrow> facade_error + identity_link_result" where
  "link_identity fa request =
     (if blank (il_tenant_id request) \<or> blank (il_merchant_id request) \<or> blank (il_agent_id request) \<or>
         blank (il_link_token request)
      then Inl (IdentityLinkFailed ''tenant_id, merchant_id, agent_id, and link_token are required'')
      else case fa_identity_link fa of
        None \<Rightarrow> Inl (NotConfigured ''identity linking (set IDENTITY_LINK_BASE_URL)'')
      | Some link \<Rightarrow>
          (case link \<lparr>pil_tenant_id = il_tenant_id request, pil_merchant_id = il_merchant_id request,
                      pil_agent_id = il_agent_id request, pil_link_token = il_link_token request\<rparr> of
             Inl e \<Rightarrow> Inl (IdentityLinkFailed (identity_error_display e))
           | Inr rec \<Rightarrow> Inr \<lparr>ilr_ucp_version = UCP_LATEST_VERSION,
                ilr_supported_versions = UCP_SUPPORTED_VERSIONS, ilr_link_id = ir_link_id rec,
                ilr_status = ir_status rec\<rparr>))"

fun delegation_error_display :: "delegation_error \<Rightarrow> string" where
  "delegation_error_display (DelegationRejected m) = ''payment delegation rejected: '' @ m"
| "delegation_error_display (DelegationProvider m) = ''payment delegation provider failed: '' @ m"

definition delegate_payment :: "facade \<Rightarrow> payment_delegation_request \<Rightarrow> facade_error + delegated_payment" where
  "delegate_payment fa request =
     (case fa_payment_delegation fa of
        None \<Rightarrow> Inl (NotConfigured ''payment delegation (set PAYMENT_DELEGATION_BASE_URL)'')
      | Some delegate \<Rightarrow>
          (case delegate request of
             Inl e \<Rightarrow> Inl (PaymentDelegationFailed (delegation_error_display e))
           | Inr d \<Rightarrow> Inr d))"

section \<open>Tenant isolation\<close>

text \<open>The cart id argument and the one inside the command, when both are present, agree.\<close>

definition coherent :: "cart_command \<Rightarrow> cart_id option \<Rightarrow> bool" where
  "coherent cmd cart_id \<longleftrightarrow>
     cart_id = None \<or> cart_id_from_command cmd = None \<or> cart_id = cart_id_from_command cmd"

lemma with_tenant_cart_id [simp]: "cart_id_from_command (with_tenant cmd t) = cart_id_from_command cmd"
  by (cases cmd) simp_all

lemma command_carts_with_tenant [simp]:
  "command_carts r w (with_tenant cmd t) c = command_carts r w cmd c"
  by (cases cmd) (simp_all add: command_carts_def)

lemma command_carts_target:
  assumes "c \<in> command_carts r w cmd cart_id" "coherent cmd cart_id"
    and "\<forall>p. cmd = CreateCart p \<longrightarrow> c \<noteq> CartId (ru_new_v4 r (w_uuid w))"
  shows "(case cart_id of Some d \<Rightarrow> Some d | None \<Rightarrow> cart_id_from_command cmd) = Some c"
  using assms by (cases cmd) (auto simp: command_carts_def coherent_def split: option.splits)

lemma foreign_target_refused:
  assumes "w_snapshots w c = Some p" "cp_tenant_id p \<noteq> Some t"
    and "(case cart_id of Some d \<Rightarrow> Some d | None \<Rightarrow> cart_id_from_command cmd) = Some c"
  shows "dispatch_cart_command_for_tenant fa t cmd cart_id w = (Inl (AuthzFailed TenantMismatch), w)"
  using assms
  by (cases cart_id)
    (simp_all add: dispatch_cart_command_for_tenant_def assert_cart_belongs_to_def op_defs Let_def)

lemma facade_dispatch_frame:
  assumes "snapshots_ok w" "dispatch_cart_command_for_tenant fa t cmd cart_id w = (x, w')"
  shows "w' = w \<or> cart_frame (command_carts (fa_runner fa) w cmd cart_id) w w'"
proof -
  have "w' = w \<or> (\<exists>y. dispatch_cart_command (fa_runner fa) (with_tenant cmd t) cart_id w = (y, w'))"
    using assms(2)
    by (auto simp: dispatch_cart_command_for_tenant_def assert_cart_belongs_to_def facade_dispatch_def
        op_defs Let_def split: option.splits prod.splits sum.splits if_splits)
  then show ?thesis
    using dispatch_cart_inv [OF assms(1), of "fa_runner fa" "with_tenant cmd t" cart_id]
    by (auto simp: cart_inv_def)
qed

text \<open>
  C11: tenant isolation. A command dispatched for a tenant leaves every cart of another tenant exactly
  as it is, snapshot, state and event stream, whatever the command and whether or not it succeeds, provided
  that the cart id given beside the command and the one inside it do not contradict each other and that
  fresh identifiers do not collide with that cart.
\<close>

theorem tenant_isolation:
  assumes "snapshots_ok w" "w_snapshots w c = Some p" "cp_tenant_id p \<noteq> Some t"
    and "coherent cmd cart_id" "\<forall>q. cmd = CreateCart q \<longrightarrow> c \<noteq> CartId (ru_new_v4 (fa_runner fa) (w_uuid w))"
    and "dispatch_cart_command_for_tenant fa t cmd cart_id w = (x, w')"
  shows "w_snapshots w' c = Some p \<and> w_states w' c = w_states w c \<and> w_events w' c = w_events w c"
proof (cases "c \<in> command_carts (fa_runner fa) w cmd cart_id")
  case True
  from foreign_target_refused [OF assms(2,3) command_carts_target [OF True assms(4,5)], of fa] assms(6)
  show ?thesis using assms(2) by simp
next
  case False
  with facade_dispatch_frame [OF assms(1,6)] assms(2) show ?thesis
    by (auto simp: cart_frame_def same_carts_def)
qed

definition sample_facade :: facade where
  "sample_facade = \<lparr>fa_runner = sample_runner, fa_ap2_strict = False, fa_payment_delegation = None,
     fa_identity_link = None, fa_parse_proof = (\<lambda>_. Some sample_proof), fa_trusted_env = None\<rparr>"

theorem tenant_isolation_witness:
  "\<exists>x w'. dispatch_cart_command_for_tenant sample_facade ''t2'' sample_start None sample_world = (x, w') \<and>
          w_snapshots w' (CartId 7) = Some sample_cart"
proof -
  obtain x w' where run:
    "dispatch_cart_command_for_tenant sample_facade ''t2'' sample_start None sample_world = (x, w')"
    by force
  from tenant_isolation [OF sample_snapshots_ok, of "CartId 7" sample_cart "''t2''" sample_start None
      sample_facade x w'] run
  show ?thesis by (auto simp: sample_start_def coherent_def sample_cart_def)
qed

text \<open>
  The isolation needs that proviso. When the caller names a cart of its own beside a command whose
  payload names another cart, only the former is checked: whoever owns any cart can cancel the cart of
  any other tenant, and the command succeeds.
\<close>

theorem tenant_check_bypassed:
  assumes "w_faults w = []" "w_snapshots w own = Some p" "cp_tenant_id p = Some t"
    and "w_snapshots w victim = Some q" "cp_cart_id q = victim"
    and "w_states w victim = Some st" "st \<noteq> cart_state.Cancelled"
  shows "\<exists>q' w'. dispatch_cart_command_for_tenant fa t (CancelCart \<lparr>xc_cart_id = victim\<rparr>) (Some own) w =
           (Inr q', w') \<and> w_snapshots w' victim = Some q' \<and> cp_status q' = cart_status.Cancelled \<and>
           cp_tenant_id q' = cp_tenant_id q"
  using assms every_live_state_cancellable [of st]
  by (simp add: dispatch_cart_command_for_tenant_def assert_cart_belongs_to_def facade_dispatch_def
      cart_run_defs op_defs Let_def)

theorem tenant_check_bypassed_witness:
  "\<exists>w q' w'. cp_tenant_id sample_cart = Some ''t1'' \<and>
     dispatch_cart_command_for_tenant sample_facade ''t2'' (CancelCart \<lparr>xc_cart_id = CartId 7\<rparr>)
       (Some (CartId 8)) w = (Inr q', w') \<and> cp_status q' = cart_status.Cancelled"
proof -
  let ?own = "sample_cart\<lparr>cp_cart_id := CartId 8, cp_tenant_id := Some ''t2''\<rparr>"
  let ?w = "sample_world\<lparr>w_snapshots := [CartId 7 \<mapsto> sample_cart, CartId 8 \<mapsto> ?own]\<rparr>"
  have "w_states ?w (CartId 7) = Some GeoChecked" by (simp add: sample_world_def)
  from tenant_check_bypassed [of ?w "CartId 8" ?own "''t2''" "CartId 7" sample_cart, OF _ _ _ _ _ this]
  show ?thesis by (fastforce simp: sample_cart_def)
qed

section \<open>AP2 strict mode\<close>

lemma wp_now_unix [wp]:
  "op_wp (now_unix_timestamp fa) Q E w =
     Q (unix_seconds (ru_utc (fa_runner fa) (w_ticks w)))
       (w\<lparr>w_ticks := Suc (w_ticks w)\<rparr>)"
  by (simp add: op_wp_def now_unix_timestamp_def)

text \<open>The mandate of a request, once its proof parses.\<close>

definition request_proof :: "facade \<Rightarrow> checkout_request \<Rightarrow> consent_proof option" where
  "request_proof fa request = Option.bind (proof_text request) (fa_parse_proof fa)"

lemma extract_record:
  "extract_ap2_mandate_record (fa_parse_proof fa) request =
     (case request_proof fa request of
        Some p \<Rightarrow> Inr \<lparr>mr_mandate_id = pf_mandate_id p, mr_expires_at = pf_expires_at p\<rparr>
      | None \<Rightarrow> Inl (if proof_text request = None then ''AP2 strict mode: ap2_consent_proof is required''
                     else malformed_proof))"
  by (auto simp: extract_ap2_mandate_record_def request_proof_def split: option.splits)

text \<open>
  The verification at the two clock readings of an admission that starts in \<open>w\<close>: one for the mandate of the
  request and one for the open mandate it rests on.
\<close>

definition mandate_verified :: "facade \<Rightarrow> checkout_request \<Rightarrow> world \<Rightarrow> bool" where
  "mandate_verified fa request w \<longleftrightarrow>
     verify_ap2_strict (fa_parse_proof fa) (fa_trusted_env fa) request
       (unix_seconds (ru_utc (fa_runner fa) (w_ticks w))) (unix_seconds (ru_utc (fa_runner fa) (Suc (w_ticks w)))) = None"

text \<open>A mandate that was verified had not expired at the first reading.\<close>

lemma verified_live:
  assumes "mandate_verified fa request w" "request_proof fa request = Some p"
  shows "ru_utc (fa_runner fa) (w_ticks w) < pf_expires_at p"
  using assms
  by (auto simp: mandate_verified_def verify_ap2_strict_def request_proof_def validate_proof_def
      validate_party_fields_None party_ok_def unix_seconds_def split: option.splits if_splits)

lemma record_mandate_wp:
  "op_wp (runner_record_mandate r i e)
     (\<lambda>accepted w'. (accepted \<longrightarrow> w_mandates w' i = Some e) \<and>
                    payment_log w' = payment_log w \<and> w_idem w' = w_idem w)
     (\<lambda>_ w'. payment_log w' = payment_log w \<and> w_idem w' = w_idem w) w"
  by (simp add: runner_record_mandate_def record_mandate_def wp Let_def payment_log_def split: fault.split)

lemma admit_mandate_wp:
  "op_wp (admit_mandate fa request)
     (\<lambda>_ w'. mandate_verified fa request w \<and>
             (\<exists>p. request_proof fa request = Some p \<and>
                  w_mandates w' (pf_mandate_id p) = Some (pf_expires_at p)) \<and>
             payment_log w' = payment_log w \<and> w_idem w' = w_idem w)
     (\<lambda>_ w'. payment_log w' = payment_log w \<and> w_idem w' = w_idem w) w"
proof -
  let ?now = "\<lambda>n. unix_seconds (ru_utc (fa_runner fa) n)"
  let ?w = "w\<lparr>w_ticks := Suc (Suc (w_ticks w))\<rparr>"
  have log: "payment_log ?w = payment_log w" by (simp add: payment_log_def)
  show ?thesis
  proof (cases "verify_ap2_strict (fa_parse_proof fa) (fa_trusted_env fa) request (?now (w_ticks w))
      (?now (Suc (w_ticks w)))")
    case (Some e)
    then show ?thesis by (simp add: admit_mandate_def wp log)
  next
    case None
    then have ok: "mandate_verified fa request w" by (simp add: mandate_verified_def)
    show ?thesis
    proof (cases "request_proof fa request")
      case None
      with \<open>verify_ap2_strict _ _ _ _ _ = None\<close> show ?thesis
        by (simp add: admit_mandate_def wp log extract_record)
    next
      case (Some p)
      note rec = record_mandate_wp [of "fa_runner fa" "pf_mandate_id p" "pf_expires_at p" ?w]
      from Some \<open>verify_ap2_strict _ _ _ _ _ = None\<close> ok show ?thesis
        by (simp add: admit_mandate_def wp extract_record) (rule op_wp_mono [OF rec]; simp add: log wp)
    qed
  qed
qed

text \<open>
  C35: strict mode fails closed. In strict mode no payment provider is called and no idempotency key is
  claimed for a request unless its mandate passed verification at the clock readings of this very admission,
  had not expired by them, and was recorded as used.
\<close>

theorem ap2_strict_fails_closed:
  assumes "fa_ap2_strict fa" "facade_execute_checkout fa request w = (x, w')"
    and "payment_log w' \<noteq> payment_log w \<or> w_idem w' \<noteq> w_idem w"
  shows "mandate_verified fa request w \<and>
         (\<exists>p. request_proof fa request = Some p \<and> ru_utc (fa_runner fa) (w_ticks w) < pf_expires_at p \<and>
              w_mandates w' (pf_mandate_id p) = Some (pf_expires_at p))"
proof (cases "admit_mandate fa request w")
  case (Pair y u)
  show ?thesis
  proof (cases y)
    case (Inl e)
    with op_wpD_Inl [OF admit_mandate_wp, of fa request w e u] Pair assms show ?thesis
      by (simp add: facade_execute_checkout_def op_seq_def)
  next
    case (Inr a)
    from op_wpD_Inr [OF admit_mandate_wp, of fa request w a u] Inr Pair
    have v: "mandate_verified fa request w" and "\<exists>p. request_proof fa request = Some p \<and>
      w_mandates u (pf_mandate_id p) = Some (pf_expires_at p)" by simp_all
    moreover obtain z where "execute_checkout (fa_runner fa) request u = (z, w')"
      using assms(1,2) Inr Pair
      by (auto simp: facade_execute_checkout_def op_seq_def op_map_err_def split: prod.splits sum.splits)
    then have "w_mandates w' = w_mandates u"
      by (rule checkout_keeps_mandates)
    ultimately show ?thesis using verified_live [OF v] by auto
  qed
qed

lemma recorded_mandate_refused:
  assumes "request_proof fa request = Some p" "w_faults w = []"
    and "w_mandates w (pf_mandate_id p) = Some exp"
    and "\<forall>n. 0 \<le> ru_utc (fa_runner fa) n \<and> ru_utc (fa_runner fa) n < exp"
    and "\<forall>m n. verify_ap2_strict (fa_parse_proof fa) (fa_trusted_env fa) request
      (Some (ru_utc (fa_runner fa) m)) (Some (ru_utc (fa_runner fa) n)) = None"
  shows "op_wp (admit_mandate fa request) (\<lambda>_ _. False)
           (\<lambda>e _. e = Ap2VerificationFailed replay_message) w"
proof -
  let ?t = "ru_utc (fa_runner fa)"
  have pos: "unix_seconds (?t n) = Some (?t n)" for n
    using assms(4) by (simp add: unix_seconds_def not_less)
  have live: "mandate_retain (?t n) (w_mandates w) (pf_mandate_id p) = Some exp" for n
    using assms(3,4) by (simp add: mandate_retain_def)
  show ?thesis
    by (simp add: admit_mandate_def wp pos assms(1,2,5) extract_record runner_record_mandate_def
        record_mandate_def Let_def live)
qed

text \<open>
  One mandate, one attempt. In strict mode, once a request was executed its mandate stays recorded
  until it expires, and the same request sent again is refused as a mandate replay, whatever the first
  answer was: also after a failed settlement, which released the idempotency key for a retry, and also
  after a completed checkout, whose stored result is then not returned.
\<close>

theorem strict_retry_refused:
  assumes "fa_ap2_strict fa" "request_proof fa request = Some p" "w_faults w = []"
    and "facade_execute_checkout fa request w = (x, w')" "\<forall>m. x \<noteq> Inl (Ap2VerificationFailed m)"
    and "w_faults w' = []"
    and clock: "\<forall>n. 0 \<le> ru_utc (fa_runner fa) n \<and> ru_utc (fa_runner fa) n < pf_expires_at p"
    and valid: "\<forall>m n. verify_ap2_strict (fa_parse_proof fa) (fa_trusted_env fa) request
      (Some (ru_utc (fa_runner fa) m)) (Some (ru_utc (fa_runner fa) n)) = None"
  shows "fst (facade_execute_checkout fa request w') = Inl (Ap2VerificationFailed replay_message)"
proof -
  have "op_wp (admit_mandate fa request) (\<lambda>_ _. True) (\<lambda>e _. \<exists>m. e = Ap2VerificationFailed m) w"
    using assms(3)
    by (auto simp: admit_mandate_def wp extract_record runner_record_mandate_def split: option.splits)
  then obtain a u where u: "admit_mandate fa request w = (Inr a, u)"
    using assms(1,4,5)
    by (fastforce simp: op_wp_def facade_execute_checkout_def op_seq_def op_bind_def
        split: prod.splits sum.splits)
  from op_wpD_Inr [OF admit_mandate_wp u] assms(2)
  have "w_mandates u (pf_mandate_id p) = Some (pf_expires_at p)" by auto
  moreover obtain z where "execute_checkout (fa_runner fa) request u = (z, w')"
    using assms(1,4) u
    by (auto simp: facade_execute_checkout_def op_seq_def op_map_err_def split: prod.splits sum.splits)
  then have "w_mandates w' = w_mandates u" by (rule checkout_keeps_mandates)
  ultimately have rec: "w_mandates w' (pf_mandate_id p) = Some (pf_expires_at p)" by simp
  from recorded_mandate_refused [OF assms(2,6) rec clock valid] assms(1) show ?thesis
    by (auto simp: facade_execute_checkout_def op_seq_def op_bind_def op_wp_def
        split: prod.splits sum.splits)
qed

definition strict_facade :: facade where
  "strict_facade = sample_facade\<lparr>fa_ap2_strict := True, fa_runner := sample_runner\<lparr>ru_utc := \<lambda>_. 50\<rparr>\<rparr>"

lemma strict_proof: "request_proof strict_facade ap2_request = Some sample_proof"
  by (simp add: request_proof_def sample_proof_text strict_facade_def sample_facade_def)

lemma strict_verified:
  "verify_ap2_strict (fa_parse_proof strict_facade) (fa_trusted_env strict_facade) ap2_request
     (Some 50) (Some 50) = None"
  by (simp add: strict_facade_def sample_facade_def sample_verified)

lemma ap2_request_fields [simp]:
  "cr_cart_id ap2_request = CartId 7" "cr_cart_version ap2_request = 1" "cr_tenant_id ap2_request = ''t1''"
  "pi_amount_minor (cr_payment_intent ap2_request) = 2200"
  by (simp_all add: ap2_request_def sample_defs)

lemma ap2_request_valid: "checkout_request_errors ap2_request = []"
  by (simp add: checkout_request_errors_def validate_payment_intent_def ap2_request_def sample_defs
      bad_currency_def)

lemma ap2_policy: "check_checkout policy_default ap2_request t = Allowed"
  by (simp add: check_checkout_def policy_errors_def policy_default_def country_blocked_def
      ap2_request_def sample_defs)

lemma strict_admitted:
  "op_wp (admit_mandate strict_facade ap2_request)
     (\<lambda>_ w'. w' = sample_world\<lparr>w_ticks := 3, w_mandates := [''man_1'' \<mapsto> 100]\<rparr>) (\<lambda>_ _. False) sample_world"
proof -
  have t: "unix_seconds (ru_utc (fa_runner strict_facade) n) = Some 50" for n
    by (simp add: strict_facade_def unix_seconds_def)
  have "w_mandates sample_world = Map.empty" "w_ticks sample_world = 0"
    by (simp_all add: sample_run_defs)
  then show ?thesis
    by (simp add: admit_mandate_def wp t strict_verified extract_record strict_proof
        runner_record_mandate_def record_mandate_def mandate_retain_def Let_def sample_proof_def)
qed

lemma strict_checkout_runs:
  "op_wp (execute_checkout (fa_runner strict_facade) ap2_request)
     (\<lambda>res w'. tr_status res = Completed \<and> length (payment_log w') = 2 \<and> w_faults w' = [])
     (\<lambda>_ _. False) (sample_world\<lparr>w_ticks := 3, w_mandates := m\<rparr>)"
  by (simp add: checkout_run_defs idem_claim_wp ap2_request_valid ap2_policy wp strict_facade_def
      sample_runner_def sample_providers_def Let_def i64_add_def wrap64_def payment_log_def
      sample_cart_def sample_line_def paid_result_def)

lemma strict_run:
  obtains res w' where "facade_execute_checkout strict_facade ap2_request sample_world = (Inr res, w')"
    "tr_status res = Completed" "length (payment_log w') = 2" "w_faults w' = []"
proof -
  have "op_wp (facade_execute_checkout strict_facade ap2_request)
     (\<lambda>res w'. tr_status res = Completed \<and> length (payment_log w') = 2 \<and> w_faults w' = [])
     (\<lambda>_ _. False) sample_world"
    unfolding facade_execute_checkout_def wp
    using strict_admitted strict_checkout_runs
    by (auto simp: strict_facade_def op_wp_def [of "admit_mandate _ _"] split: prod.splits sum.splits)
  with that show thesis by (auto simp: op_wp_def split: prod.splits sum.splits)
qed

theorem ap2_strict_fails_closed_witness:
  "\<exists>w'. w_mandates w' (pf_mandate_id sample_proof) = Some (pf_expires_at sample_proof) \<and>
        length (payment_log w') = 2"
proof -
  obtain res w' where run: "facade_execute_checkout strict_facade ap2_request sample_world = (Inr res, w')"
    and two: "length (payment_log w') = 2"
    by (rule strict_run)
  have "payment_log w' \<noteq> payment_log sample_world" using two by (auto simp: payment_log_def)
  then show ?thesis
    using ap2_strict_fails_closed [OF _ run] two strict_proof by (auto simp: strict_facade_def)
qed

theorem strict_retry_refused_witness:
  "\<exists>res w'. facade_execute_checkout strict_facade ap2_request sample_world = (Inr res, w') \<and>
     tr_status res = Completed \<and>
     fst (facade_execute_checkout strict_facade ap2_request w') = Inl (Ap2VerificationFailed replay_message)"
proof -
  obtain res w' where run: "facade_execute_checkout strict_facade ap2_request sample_world = (Inr res, w')"
    and st: "tr_status res = Completed" and nf: "w_faults w' = []"
    by (rule strict_run)
  have clock: "ru_utc (fa_runner strict_facade) n = 50" for n by (simp add: strict_facade_def)
  have "fst (facade_execute_checkout strict_facade ap2_request w') = Inl (Ap2VerificationFailed replay_message)"
    by (rule strict_retry_refused [OF _ strict_proof _ run _ nf])
      (simp_all add: clock strict_verified, simp_all add: strict_facade_def sample_proof_def)
  with run st show ?thesis by blast
qed

end
