(* ===== verification/Facade_Ops.thy ===== *)
theory Facade_Ops
  imports Facade
begin

text \<open>
  The operations of the facade that pass a call on to its runner, its builder methods, and the facade as
  a transition system. Its steps refine the runner's: whatever a caller does through the facade is a path
  of runner operations, so the invariant of the runner and the idempotence of its checkout hold for the
  clients of the library.
\<close>

section \<open>Builders\<close>

definition with_ap2_strict :: "facade \<Rightarrow> bool \<Rightarrow> facade" where
  "with_ap2_strict fa strict = fa\<lparr>fa_ap2_strict := strict\<rparr>"

definition with_payment_delegation ::
  "facade \<Rightarrow> (payment_delegation_request \<Rightarrow> delegation_error + delegated_payment) \<Rightarrow> facade" where
  "with_payment_delegation fa provider = fa\<lparr>fa_payment_delegation := Some provider\<rparr>"

definition with_identity_link_provider ::
  "facade \<Rightarrow> (provider_identity_link_request \<Rightarrow> identity_link_provider_error + identity_link_record) \<Rightarrow>
   facade" where
  "with_identity_link_provider fa provider = fa\<lparr>fa_identity_link := Some provider\<rparr>"

definition supports_payment_delegation :: "facade \<Rightarrow> bool" where
  "supports_payment_delegation fa \<longleftrightarrow> fa_payment_delegation fa \<noteq> None"

definition supports_identity_linking :: "facade \<Rightarrow> bool" where
  "supports_identity_linking fa \<longleftrightarrow> fa_identity_link fa \<noteq> None"

section \<open>Calls passed on to the runner\<close>

definition facade_capture_payment ::
  "facade \<Rightarrow> payment_lifecycle_request \<Rightarrow> payment_operation_result fac" where
  "facade_capture_payment fa request = op_map_err RunnerFailed (capture_payment (fa_runner fa) request)"

definition facade_void_payment ::
  "facade \<Rightarrow> payment_lifecycle_request \<Rightarrow> payment_operation_result fac" where
  "facade_void_payment fa request = op_map_err RunnerFailed (void_payment (fa_runner fa) request)"

definition facade_refund_payment ::
  "facade \<Rightarrow> payment_lifecycle_request \<Rightarrow> payment_operation_result fac" where
  "facade_refund_payment fa request = op_map_err RunnerFailed (refund_payment (fa_runner fa) request)"

definition facade_run_reconciliation :: "facade \<Rightarrow> string list \<Rightarrow> payment_mismatch list fac" where
  "facade_run_reconciliation fa ids w =
     (case run_reconciliation (fa_runner fa) ids w of (report, w') \<Rightarrow> (Inr report, w'))"

definition facade_get_payment_state :: "string \<Rightarrow> payment_state option fac" where
  "facade_get_payment_state transaction_id =
     op_map_err RunnerFailed (get_payment_state transaction_id)"

definition facade_get_order :: "string \<Rightarrow> order_record option fac" where
  "facade_get_order order_id = op_map_err RunnerFailed (get_order order_id)"

definition facade_list_orders :: "string \<Rightarrow> order_record list fac" where
  "facade_list_orders tenant_id = op_map_err RunnerFailed (list_orders tenant_id)"

definition facade_process_outbox_once :: "facade \<Rightarrow> u32 \<Rightarrow> unit fac" where
  "facade_process_outbox_once fa max_attempts =
     op_map_err RunnerFailed (process_outbox_once (fa_runner fa) max_attempts)"

definition facade_list_dead_letter :: "outbox_message list fac" where
  "facade_list_dead_letter = op_gets (\<lambda>w. dead_letter_list (w_dead w))"

definition facade_replay_from_dead_letter :: "string \<Rightarrow> bool fac" where
  "facade_replay_from_dead_letter message_id = op_map_err RunnerFailed (replay_from_dead_letter message_id)"

definition facade_accept_incoming_event_once :: "string \<Rightarrow> bool fac" where
  "facade_accept_incoming_event_once message_id =
     op_map_err RunnerFailed (accept_incoming_event_once message_id)"

definition facade_register_webhook :: "webhook_registration \<Rightarrow> unit fac" where
  "facade_register_webhook registration = op_map_err RunnerFailed (register_webhook registration)"

definition facade_unregister_webhook :: "string \<Rightarrow> bool fac" where
  "facade_unregister_webhook webhook = op_map_err RunnerFailed (unregister_webhook webhook)"

definition facade_list_webhooks :: "string \<Rightarrow> webhook_registration list fac" where
  "facade_list_webhooks tenant_id = op_map_err RunnerFailed (list_webhooks tenant_id)"

definition facade_lookup_catalog_item :: "facade \<Rightarrow> string \<Rightarrow> catalog_item fac" where
  "facade_lookup_catalog_item fa item_id =
     op_map_err RunnerFailed (lookup_catalog_item (fa_runner fa) item_id)"

definition facade_lookup_catalog_items :: "facade \<Rightarrow> string list \<Rightarrow> catalog_item list fac" where
  "facade_lookup_catalog_items fa ids =
     op_map_err RunnerFailed (lookup_catalog_items (fa_runner fa) ids)"

definition facade_search_catalog_items :: "facade \<Rightarrow> string option \<Rightarrow> catalog_item list fac" where
  "facade_search_catalog_items fa query =
     op_map_err RunnerFailed (search_catalog_items (fa_runner fa) query)"

section \<open>The facade refines the runner\<close>

text \<open>A call of a library client that may change state, successful or not.\<close>

inductive facade_step :: "world \<Rightarrow> world \<Rightarrow> bool" where
  f_command: "facade_dispatch fa cmd c w = (a, w') \<Longrightarrow> facade_step w w'"
| f_tenant: "dispatch_cart_command_for_tenant fa t cmd c w = (a, w') \<Longrightarrow> facade_step w w'"
| f_checkout: "facade_execute_checkout fa request w = (b, w') \<Longrightarrow> facade_step w w'"
| f_authorized: "execute_checkout_authorized fa ctx request w = (b, w') \<Longrightarrow> facade_step w w'"
| f_capture: "facade_capture_payment fa p w = (d, w') \<Longrightarrow> facade_step w w'"
| f_void: "facade_void_payment fa p w = (d, w') \<Longrightarrow> facade_step w w'"
| f_refund: "facade_refund_payment fa p w = (d, w') \<Longrightarrow> facade_step w w'"
| f_reconcile: "facade_run_reconciliation fa ids w = (e, w') \<Longrightarrow> facade_step w w'"
| f_outbox: "facade_process_outbox_once fa mx w = (f, w') \<Longrightarrow> facade_step w w'"
| f_replay: "facade_replay_from_dead_letter i w = (g, w') \<Longrightarrow> facade_step w w'"
| f_inbox: "facade_accept_incoming_event_once i w = (g, w') \<Longrightarrow> facade_step w w'"
| f_register: "facade_register_webhook reg w = (f, w') \<Longrightarrow> facade_step w w'"
| f_unregister: "facade_unregister_webhook i w = (g, w') \<Longrightarrow> facade_step w w'"
| f_lookup: "facade_lookup_catalog_item fa i w = (h, w') \<Longrightarrow> facade_step w w'"
| f_lookups: "facade_lookup_catalog_items fa ids w = (hs, w') \<Longrightarrow> facade_step w w'"
| f_search: "facade_search_catalog_items fa s w = (hs, w') \<Longrightarrow> facade_step w w'"
| f_faults: "facade_step w (w\<lparr>w_faults := fs\<rparr>)"

inductive facade_reach :: "world \<Rightarrow> world \<Rightarrow> bool" for w where
  f_refl: "facade_reach w w"
| f_step: "facade_reach w u \<Longrightarrow> facade_step u v \<Longrightarrow> facade_reach w v"

lemma runner_reach_trans: "runner_reach t u \<Longrightarrow> runner_reach s t \<Longrightarrow> runner_reach s u"
  by (induction rule: runner_reach.induct) (auto intro: reach_step)

lemma runner_step_reach: "runner_step w w' \<Longrightarrow> runner_reach w w'"
  by (rule reach_step [OF reach_refl])

interpretation path: frame runner_reach
  by unfold_locales (auto intro: reach_refl runner_reach_trans)

lemma path_step: "(\<And>w x w'. m w = (x, w') \<Longrightarrow> runner_step w w') \<Longrightarrow> op_rel runner_reach m"
  by (rule op_relI) (metis runner_step_reach prod.collapse)

lemma path_ops:
  "op_rel runner_reach (dispatch_cart_command r cmd c)"
  "op_rel runner_reach (execute_checkout r request)"
  "op_rel runner_reach (capture_payment r p)"
  "op_rel runner_reach (void_payment r p)"
  "op_rel runner_reach (refund_payment r p)"
  "op_rel runner_reach (run_outbox_once r mx)"
  "op_rel runner_reach (replay_from_dead_letter i)"
  "op_rel runner_reach (accept_incoming_event_once i)"
  "op_rel runner_reach (runner_record_mandate r i e)"
  "op_rel runner_reach (register_webhook reg)"
  "op_rel runner_reach (unregister_webhook i)"
  "op_rel runner_reach (lookup_catalog_item r i)"
  "op_rel runner_reach (lookup_catalog_items r ids)"
  "op_rel runner_reach (search_catalog_items r s)"
  by (rule path_step, erule runner_step.intros)+

lemma path_clock: "op_rel runner_reach (now_unix_timestamp fa)"
  by (rule op_relI) (simp add: now_unix_timestamp_def runner_step.env_clock runner_step_reach)

lemma path_admit: "op_rel runner_reach (admit_mandate fa request)"
  unfolding admit_mandate_def
  by (auto intro!: path.rel_rules path_ops path_clock split: option.splits sum.splits)

lemma path_assert: "op_rel runner_reach (assert_cart_belongs_to t c)"
  unfolding assert_cart_belongs_to_def by (auto intro!: path.rel_rules split: option.splits)

lemma path_dispatch:
  "op_rel runner_reach (facade_dispatch fa cmd c)"
  "op_rel runner_reach (dispatch_cart_command_for_tenant fa t cmd c)"
  unfolding dispatch_cart_command_for_tenant_def facade_dispatch_def Let_def
  by (intro path.rel_rules path_assert path_ops)+

lemma path_checkout:
  "op_rel runner_reach (facade_execute_checkout fa request)"
  "op_rel runner_reach (execute_checkout_authorized fa ctx request)"
  unfolding execute_checkout_authorized_def facade_execute_checkout_def
  by (auto intro!: path.rel_rules path_admit path_ops split: sum.splits)

lemma path_passed_on:
  "op_rel runner_reach (facade_capture_payment fa p)"
  "op_rel runner_reach (facade_void_payment fa p)"
  "op_rel runner_reach (facade_refund_payment fa p)"
  "op_rel runner_reach (facade_process_outbox_once fa mx)"
  "op_rel runner_reach (facade_replay_from_dead_letter i)"
  "op_rel runner_reach (facade_accept_incoming_event_once i)"
  "op_rel runner_reach (facade_register_webhook reg)"
  "op_rel runner_reach (facade_unregister_webhook i)"
  "op_rel runner_reach (facade_lookup_catalog_item fa i)"
  "op_rel runner_reach (facade_lookup_catalog_items fa ids)"
  "op_rel runner_reach (facade_search_catalog_items fa s)"
  unfolding facade_capture_payment_def facade_void_payment_def facade_refund_payment_def
    facade_process_outbox_once_def process_outbox_once_def facade_replay_from_dead_letter_def
    facade_accept_incoming_event_once_def facade_register_webhook_def facade_unregister_webhook_def
    facade_lookup_catalog_item_def facade_lookup_catalog_items_def facade_search_catalog_items_def
  by (intro path.rel_rules path_ops)+

lemmas path_facade = path_dispatch path_checkout path_passed_on

lemma path_reconciliation: "op_rel runner_reach (facade_run_reconciliation fa ids)"
  by (rule path_step)
    (auto simp: facade_run_reconciliation_def split: prod.splits intro: runner_step.reconcile)

lemma facade_step_path: "facade_step w w' \<Longrightarrow> runner_reach w w'"
proof (induction rule: facade_step.induct)
  case (f_reconcile fa ids w e w')
  then show ?case by (rule op_relD [OF path_reconciliation])
next
  case (f_faults w fs)
  show ?case by (rule runner_step_reach [OF runner_step.env_faults])
qed (rule path_facade [THEN op_relD]; assumption)+

lemma facade_reach_path: "facade_reach w w' \<Longrightarrow> runner_reach w w'"
  by (induction rule: facade_reach.induct) (auto intro: reach_refl runner_reach_trans facade_step_path)

text \<open>
  The facade refines the runner. From empty stores, whatever sequence of calls clients make through
  the facade, strict or not, for a tenant or not, with whatever answers and failures of providers and
  stores, the state reached is one the runner reaches by its own operations, so it satisfies the runner's
  invariant; and a checkout that answered with a result is, when strict mode is off, answered with the
  same result and without effect by every facade from then on.
\<close>

theorem facade_refines_runner:
  assumes "facade_reach empty_world w"
  shows "runner_reach empty_world w \<and> world_ok w \<and>
    (\<forall>fa request res w' v fb. facade_execute_checkout fa request w = (Inr res, w') \<longrightarrow>
       \<not> fa_ap2_strict fa \<longrightarrow> facade_reach w' v \<longrightarrow> w_faults v = [] \<longrightarrow> \<not> fa_ap2_strict fb \<longrightarrow>
       facade_execute_checkout fb request v = (Inr res, v))"
proof (intro conjI allI impI)
  show reach: "runner_reach empty_world w" using assms by (rule facade_reach_path)
  show ok: "world_ok w" using reach empty_world_ok by (rule reach_invariant)
  fix fa fb :: facade and request res w' v
  assume run: "facade_execute_checkout fa request w = (Inr res, w')" and off: "\<not> fa_ap2_strict fa"
    and v: "facade_reach w' v" "w_faults v = []" and off': "\<not> fa_ap2_strict fb"
  from run off have "execute_checkout (fa_runner fa) request w = (Inr res, w')"
    by (auto simp: facade_execute_checkout_def op_defs op_map_err_def split: prod.splits sum.splits)
  from completed_forever [OF ok this facade_reach_path [OF v(1)] v(2)] off'
  show "facade_execute_checkout fb request v = (Inr res, v)"
    by (simp add: facade_execute_checkout_def op_defs op_map_err_def)
qed

theorem facade_refines_runner_witness:
  "\<exists>w. facade_reach empty_world w \<and> world_ok w \<and> runner_reach empty_world w \<and> w_snapshots w \<noteq> Map.empty"
proof -
  let ?cmd = "CreateCart \<lparr>cc_merchant_id = ''m1'', cc_currency = ''USD'', cc_tenant_id = None\<rparr>"
  let ?w = "snd (dispatch_cart_command_for_tenant sample_facade ''t1'' ?cmd None empty_world)"
  have "facade_step empty_world ?w" by (rule facade_step.f_tenant [OF prod.collapse [symmetric]])
  then have r: "facade_reach empty_world ?w" by (blast intro: f_refl f_step)
  moreover have "w_snapshots ?w \<noteq> Map.empty"
    by (simp add: dispatch_cart_command_for_tenant_def facade_dispatch_def sample_facade_def
        dispatch_cart_command_def run_cart_command_def create_cart_def fresh_uuid_def
        append_cart_event_def put_cart_snapshot_def set_cart_state_def op_defs op_map_err_def Let_def
        empty_world_def bad_currency_def)
  ultimately show ?thesis using facade_refines_runner [OF r] by blast
qed

end
