(* ===== verification/File_Store.thy ===== *)
theory File_Store
  imports Webhooks Inventory Orders State_Machine
begin

text \<open>
  The file-backed stores (\<open>orchestrator-runtime/src/persistence/file_backed.rs\<close>): every store keeps its
  table in memory and writes the whole of it to a JSON file after a change. JSON and the file system are
  libraries: a file holds contents of some type \<open>'f\<close>, a codec renders and parses them, and the plan
  \<open>fs_io\<close> says of each coming save whether it succeeds, is refused before the file is touched, leaves
  partial contents behind, or fails only when synchronizing. An operation that succeeds leaves the file
  equal to the memory, so a restart loses nothing; what a failed save and a restart can lose is stated too.
\<close>

section \<open>Files\<close>

record ('a, 'f) codec =
  cd_encode :: "'a \<Rightarrow> 'f"
  cd_decode :: "'f \<Rightarrow> 'a option"

datatype 'f disk = NoFile | File 'f

datatype 'f io = IoOk | IoRefused string | IoPartial 'f string | IoUnsynced string

record ('a, 'f) file_store =
  fs_mem :: 'a
  fs_disk :: "'f disk"
  fs_io :: "'f io list"

text \<open>\<open>None\<close> is an error: the file cannot be read (\<open>readable\<close> is false) or is not valid.\<close>

definition load_json :: "('a, 'f) codec \<Rightarrow> 'a \<Rightarrow> bool \<Rightarrow> 'f disk \<Rightarrow> 'a option" where
  "load_json cd dflt readable d =
     (case d of
        NoFile \<Rightarrow> Some dflt
      | File b \<Rightarrow> if readable then cd_decode cd b else None)"

definition save_json :: "('a, 'f) codec \<Rightarrow> (('a, 'f) file_store, store_error, unit) op" where
  "save_json cd s =
     (let written = s\<lparr>fs_disk := File (cd_encode cd (fs_mem s)), fs_io := tl (fs_io s)\<rparr>
      in case fs_io s of
           [] \<Rightarrow> (Inr (), written)
         | IoOk # _ \<Rightarrow> (Inr (), written)
         | IoRefused e # ios \<Rightarrow> (Inl (StoreError e), s\<lparr>fs_io := ios\<rparr>)
         | IoPartial b e # ios \<Rightarrow> (Inl (StoreError e), s\<lparr>fs_disk := File b, fs_io := ios\<rparr>)
         | IoUnsynced e # _ \<Rightarrow> (Inl (StoreError e), written))"

definition file_open ::
  "('a, 'f) codec \<Rightarrow> 'a \<Rightarrow> bool \<Rightarrow> 'f disk \<Rightarrow> 'f io list \<Rightarrow> ('a, 'f) file_store" where
  "file_open cd dflt readable d ios =
     \<lparr>fs_mem = (case load_json cd dflt readable d of Some v \<Rightarrow> v | None \<Rightarrow> dflt),
      fs_disk = d, fs_io = ios\<rparr>"

text \<open>A change of the table under its lock, followed by a save when the change asks for one.\<close>

definition file_run ::
  "('a, 'f) codec \<Rightarrow> ('a \<Rightarrow> 'b \<times> 'a) \<Rightarrow> ('b \<Rightarrow> bool) \<Rightarrow> (('a, 'f) file_store, store_error, 'b) op" where
  "file_run cd f dirty s =
     (case f (fs_mem s) of (b, m) \<Rightarrow>
        op_seq (if dirty b then save_json cd else op_return ()) (op_return b) (s\<lparr>fs_mem := m\<rparr>))"

definition file_put ::
  "('a, 'f) codec \<Rightarrow> ('a \<Rightarrow> 'a) \<Rightarrow> (('a, 'f) file_store, store_error, unit) op" where
  "file_put cd f = file_run cd (\<lambda>m. ((), f m)) (\<lambda>_. True)"

section \<open>Events, snapshots and cart states\<close>

definition cart_id_key :: "(uuid \<Rightarrow> string) \<Rightarrow> cart_id \<Rightarrow> string" where
  "cart_id_key show_uuid c = (case c of CartId u \<Rightarrow> show_uuid u)"

type_synonym 'f event_files = "(string \<rightharpoonup> cart_stream_event list, 'f) file_store"
type_synonym 'f snapshot_files = "(string \<rightharpoonup> cart_projection, 'f) file_store"
type_synonym 'f state_files = "(string \<rightharpoonup> cart_state, 'f) file_store"

definition file_append_cart_event ::
  "(uuid \<Rightarrow> string) \<Rightarrow> (string \<rightharpoonup> cart_stream_event list, 'f) codec \<Rightarrow> cart_id \<Rightarrow> cart_stream_event \<Rightarrow>
   ('f event_files, store_error, unit) op" where
  "file_append_cart_event sh cd cart_id event =
     file_put cd (\<lambda>m. m(cart_id_key sh cart_id \<mapsto>
       (case m (cart_id_key sh cart_id) of None \<Rightarrow> [] | Some es \<Rightarrow> es) @ [event]))"

definition file_put_cart_snapshot ::
  "(uuid \<Rightarrow> string) \<Rightarrow> (string \<rightharpoonup> cart_projection, 'f) codec \<Rightarrow> cart_projection \<Rightarrow>
   ('f snapshot_files, store_error, unit) op" where
  "file_put_cart_snapshot sh cd snapshot =
     file_put cd (\<lambda>m. m(cart_id_key sh (cp_cart_id snapshot) \<mapsto> snapshot))"

definition file_get_cart_snapshot ::
  "(uuid \<Rightarrow> string) \<Rightarrow> cart_id \<Rightarrow> 'f snapshot_files \<Rightarrow> cart_projection option" where
  "file_get_cart_snapshot sh cart_id s = fs_mem s (cart_id_key sh cart_id)"

definition file_get_cart_state ::
  "(uuid \<Rightarrow> string) \<Rightarrow> cart_id \<Rightarrow> 'f state_files \<Rightarrow> cart_state option" where
  "file_get_cart_state sh cart_id s = fs_mem s (cart_id_key sh cart_id)"

definition file_set_cart_state ::
  "(uuid \<Rightarrow> string) \<Rightarrow> (string \<rightharpoonup> cart_state, 'f) codec \<Rightarrow> cart_id \<Rightarrow> cart_state \<Rightarrow>
   ('f state_files, store_error, unit) op" where
  "file_set_cart_state sh cd cart_id st = file_put cd (\<lambda>m. m(cart_id_key sh cart_id \<mapsto> st))"

section \<open>Idempotency\<close>

definition idempotency_key_str :: "idempotency_key \<Rightarrow> string" where
  "idempotency_key_str k = ik_tenant_id k @ ''|'' @ ik_merchant_id k @ ''|'' @ ik_key k"

type_synonym 'f idem_file = "(string idempotency_map, 'f) file_store"

definition file_claim ::
  "(string idempotency_map, 'f) codec \<Rightarrow> idempotency_key \<Rightarrow>
   ('f idem_file, store_error, idempotency_state option) op" where
  "file_claim cd key =
     (let k = idempotency_key_str key in
      file_run cd (\<lambda>m. case m k of Some st \<Rightarrow> (Some st, m) | None \<Rightarrow> (None, m(k \<mapsto> InFlight)))
        (\<lambda>out. out = None))"

definition file_complete ::
  "(string idempotency_map, 'f) codec \<Rightarrow> idempotency_key \<Rightarrow> transaction_result \<Rightarrow>
   ('f idem_file, store_error, unit) op" where
  "file_complete cd key result =
     file_put cd (\<lambda>m. m(idempotency_key_str key \<mapsto> IdemCompleted result))"

definition file_release ::
  "(string idempotency_map, 'f) codec \<Rightarrow> idempotency_key \<Rightarrow> ('f idem_file, store_error, unit) op" where
  "file_release cd key =
     (let k = idempotency_key_str key in
      op_bind (file_run cd (\<lambda>m. if m k \<noteq> Some InFlight then (False, m) else (True, m(k := None))) (\<lambda>b. b))
        (\<lambda>_. op_return ()))"

section \<open>Commits and reservations\<close>

definition file_commit ::
  "(uuid \<Rightarrow> string) \<Rightarrow> (string \<rightharpoonup> commit_record, 'f) codec \<Rightarrow> string \<Rightarrow> cart_id \<Rightarrow> string option \<Rightarrow>
   ((string \<rightharpoonup> commit_record, 'f) file_store, store_error, commit_record) op" where
  "file_commit sh cd u cart_id payment_reference =
     (let r = \<lparr>cm_transaction_id = ''txn_'' @ u, cm_cart_id = cart_id,
               cm_payment_reference = payment_reference\<rparr>
      in file_run cd (\<lambda>m. (r, m(cart_id_key sh cart_id \<mapsto> r))) (\<lambda>_. True))"

record reservation_dto =
  rd_cart_id :: cart_id
  rd_sku :: string
  rd_quantity :: u32
  rd_state :: reservation_state
  rd_lease_until_secs :: i64

text \<open>\<open>now_secs\<close> is the wall clock in seconds, \<open>instant\<close> the monotonic clock in milliseconds.\<close>

definition dto_to_record :: "i64 \<Rightarrow> int \<Rightarrow> reservation_dto \<Rightarrow> reservation_record" where
  "dto_to_record now_secs instant d =
     \<lparr>rr_cart_id = rd_cart_id d, rr_sku = rd_sku d, rr_quantity = rd_quantity d,
      rr_state = rd_state d,
      rr_lease_until = instant + 1000 * max 0 (i64_sub (rd_lease_until_secs d) now_secs)\<rparr>"

type_synonym reservation_table = "(string \<times> reservation_dto) list"
type_synonym 'f reservation_file = "(reservation_table, 'f) file_store"

definition reservation_key :: "(uuid \<Rightarrow> string) \<Rightarrow> cart_id \<Rightarrow> string \<Rightarrow> string" where
  "reservation_key sh cart_id sku = cart_id_key sh cart_id @ ''|'' @ sku"

definition cart_prefixed :: "(uuid \<Rightarrow> string) \<Rightarrow> cart_id \<Rightarrow> string \<Rightarrow> bool" where
  "cart_prefixed sh cart_id k = starts_with k (cart_id_key sh cart_id @ ''|'')"

definition file_reserve ::
  "(uuid \<Rightarrow> string) \<Rightarrow> (reservation_table, 'f) codec \<Rightarrow> i64 \<Rightarrow> cart_id \<Rightarrow> string \<Rightarrow> u32 \<Rightarrow> i64 \<Rightarrow>
   ('f reservation_file, store_error, unit) op" where
  "file_reserve sh cd now_secs cart_id sku quantity ttl_secs =
     file_put cd (AList.update (reservation_key sh cart_id sku)
       \<lparr>rd_cart_id = cart_id, rd_sku = sku, rd_quantity = quantity, rd_state = Reserved,
        rd_lease_until_secs = i64_add now_secs ttl_secs\<rparr>)"

definition set_prefixed ::
  "(uuid \<Rightarrow> string) \<Rightarrow> reservation_state \<Rightarrow> cart_id \<Rightarrow> reservation_table \<Rightarrow> reservation_table" where
  "set_prefixed sh st cart_id =
     map (\<lambda>(k, v). (k, if cart_prefixed sh cart_id k then v\<lparr>rd_state := st\<rparr> else v))"

definition file_finalize_cart ::
  "(uuid \<Rightarrow> string) \<Rightarrow> (reservation_table, 'f) codec \<Rightarrow> cart_id \<Rightarrow> ('f reservation_file, store_error, unit) op" where
  "file_finalize_cart sh cd cart_id = file_put cd (set_prefixed sh Finalized cart_id)"

definition file_release_cart ::
  "(uuid \<Rightarrow> string) \<Rightarrow> (reservation_table, 'f) codec \<Rightarrow> cart_id \<Rightarrow> ('f reservation_file, store_error, unit) op" where
  "file_release_cart sh cd cart_id = file_put cd (set_prefixed sh Released cart_id)"

definition dto_expired :: "i64 \<Rightarrow> reservation_dto \<Rightarrow> bool" where
  "dto_expired now v \<longleftrightarrow> rd_state v = Reserved \<and> rd_lease_until_secs v \<le> now"

definition file_sweep_expired ::
  "(reservation_table, 'f) codec \<Rightarrow> i64 \<Rightarrow> ('f reservation_file, store_error, nat) op" where
  "file_sweep_expired cd now =
     file_run cd (\<lambda>m. (length (filter (\<lambda>(_, v). dto_expired now v) m),
                       map_vals (\<lambda>v. if dto_expired now v then v\<lparr>rd_state := Expired\<rparr> else v) m))
       (\<lambda>_. True)"

definition file_by_cart ::
  "(uuid \<Rightarrow> string) \<Rightarrow> i64 \<Rightarrow> int \<Rightarrow> cart_id \<Rightarrow> 'f reservation_file \<Rightarrow> reservation_record list" where
  "file_by_cart sh now_secs instant cart_id s =
     map (\<lambda>(_, d). dto_to_record now_secs instant d)
       (filter (\<lambda>(k, _). cart_prefixed sh cart_id k) (fs_mem s))"

section \<open>Outbox, inbox and dead letters\<close>

text \<open>The outbox keeps the default \<open>claim\<close>, \<open>ack\<close> and \<open>release\<close> of the trait.\<close>

definition file_enqueue ::
  "(outbox, 'f) codec \<Rightarrow> outbox_message \<Rightarrow> ((outbox, 'f) file_store, store_error, unit) op" where
  "file_enqueue cd msg = file_put cd (outbox_enqueue msg)"

definition file_dequeue ::
  "(outbox, 'f) codec \<Rightarrow> ((outbox, 'f) file_store, store_error, outbox_message option) op" where
  "file_dequeue cd = file_run cd outbox_dequeue (\<lambda>msg. msg \<noteq> None)"

definition file_outbox_len :: "(outbox, 'f) file_store \<Rightarrow> nat" where
  "file_outbox_len s = length (fs_mem s)"

definition file_accept_once ::
  "(string set, 'f) codec \<Rightarrow> string \<Rightarrow> ((string set, 'f) file_store, store_error, bool) op" where
  "file_accept_once cd message_id =
     file_run cd (\<lambda>seen. (message_id \<notin> seen, insert message_id seen)) (\<lambda>inserted. inserted)"

definition file_dead_put ::
  "(dead_letter, 'f) codec \<Rightarrow> outbox_message \<Rightarrow> ((dead_letter, 'f) file_store, store_error, unit) op" where
  "file_dead_put cd msg = file_put cd (dead_letter_put msg)"

definition file_dead_len :: "(dead_letter, 'f) file_store \<Rightarrow> nat" where
  "file_dead_len s = dead_letter_len (fs_mem s)"

definition file_dead_list :: "(dead_letter, 'f) file_store \<Rightarrow> outbox_message list" where
  "file_dead_list s = dead_letter_list (fs_mem s)"

definition file_dead_take ::
  "(dead_letter, 'f) codec \<Rightarrow> string \<Rightarrow>
   ((dead_letter, 'f) file_store, store_error, outbox_message option) op" where
  "file_dead_take cd message_id = file_run cd (dead_letter_take message_id) (\<lambda>msg. msg \<noteq> None)"

section \<open>Orders, payment states, mandates and webhooks\<close>

definition file_order_put ::
  "(orders, 'f) codec \<Rightarrow> order_record \<Rightarrow> ((orders, 'f) file_store, store_error, unit) op" where
  "file_order_put cd r = file_put cd (order_put r)"

definition file_order_get :: "string \<Rightarrow> (orders, 'f) file_store \<Rightarrow> order_record option" where
  "file_order_get order_id s = order_get order_id (fs_mem s)"

definition file_orders_list_by_tenant :: "string \<Rightarrow> (orders, 'f) file_store \<Rightarrow> order_record list" where
  "file_orders_list_by_tenant tenant_id s = list_by_tenant tenant_id (fs_mem s)"

definition file_append_event ::
  "(orders, 'f) codec \<Rightarrow> string \<Rightarrow> order_event \<Rightarrow>
   ((orders, 'f) file_store, store_error, order_record option) op" where
  "file_append_event cd order_id event = file_run cd (append_event order_id event) (\<lambda>r. r \<noteq> None)"

definition file_add_adjustment ::
  "(orders, 'f) codec \<Rightarrow> string \<Rightarrow> order_adjustment \<Rightarrow>
   ((orders, 'f) file_store, store_error, order_record option) op" where
  "file_add_adjustment cd order_id a = file_run cd (add_adjustment order_id a) (\<lambda>r. r \<noteq> None)"

definition file_update_status ::
  "(orders, 'f) codec \<Rightarrow> string \<Rightarrow> order_status \<Rightarrow>
   ((orders, 'f) file_store, store_error, order_record option) op" where
  "file_update_status cd order_id st = file_run cd (update_status order_id st) (\<lambda>r. r \<noteq> None)"

text \<open>The payment state store reports a failed save on the console only.\<close>

definition file_payment_put ::
  "(payment_states, 'f) codec \<Rightarrow> string \<Rightarrow> payment_state \<Rightarrow>
   ((payment_states, 'f) file_store, store_error, unit) op" where
  "file_payment_put cd transaction_id st =
     op_catch (file_put cd (payment_state_put transaction_id st)) (\<lambda>_. op_return ())"

definition file_payment_get :: "string \<Rightarrow> (payment_states, 'f) file_store \<Rightarrow> payment_state option" where
  "file_payment_get transaction_id s = fs_mem s transaction_id"

definition file_record_mandate ::
  "(string \<rightharpoonup> i64, 'f) codec \<Rightarrow> i64 \<Rightarrow> string \<Rightarrow> i64 \<Rightarrow>
   ((string \<rightharpoonup> i64, 'f) file_store, store_error, bool) op" where
  "file_record_mandate cd now mandate_id expires_at =
     file_run cd
       (\<lambda>m. let live = mandate_retain now m
            in if live mandate_id \<noteq> None then (False, live) else (True, live(mandate_id \<mapsto> expires_at)))
       (\<lambda>fresh. fresh)"

definition file_register ::
  "(webhooks, 'f) codec \<Rightarrow> webhook_registration \<Rightarrow> ((webhooks, 'f) file_store, store_error, unit) op" where
  "file_register cd registration = file_put cd (register registration)"

definition file_unregister ::
  "(webhooks, 'f) codec \<Rightarrow> string \<Rightarrow> ((webhooks, 'f) file_store, store_error, bool) op" where
  "file_unregister cd wid = file_run cd (unregister wid) (\<lambda>removed. removed)"

definition file_webhooks_by_tenant :: "string \<Rightarrow> (webhooks, 'f) file_store \<Rightarrow> webhook_registration list" where
  "file_webhooks_by_tenant tenant_id s = webhooks_list_by_tenant tenant_id (fs_mem s)"

definition file_webhook_get :: "string \<Rightarrow> (webhooks, 'f) file_store \<Rightarrow> webhook_registration option" where
  "file_webhook_get wid s = webhook_get wid (fs_mem s)"

definition file_active_for_topic ::
  "string \<Rightarrow> string \<Rightarrow> (webhooks, 'f) file_store \<Rightarrow> webhook_registration list" where
  "file_active_for_topic tenant_id topic s = list_active_for_topic tenant_id topic (fs_mem s)"

section \<open>Opening\<close>

definition open_idempotency ::
  "(string idempotency_map, 'f) codec \<Rightarrow> bool \<Rightarrow> 'f disk \<Rightarrow> 'f io list \<Rightarrow> 'f idem_file" where
  "open_idempotency cd = file_open cd Map.empty"

definition open_commits ::
  "(string \<rightharpoonup> commit_record, 'f) codec \<Rightarrow> bool \<Rightarrow> 'f disk \<Rightarrow> 'f io list \<Rightarrow>
   (string \<rightharpoonup> commit_record, 'f) file_store" where
  "open_commits cd = file_open cd Map.empty"

definition open_reservations ::
  "(reservation_table, 'f) codec \<Rightarrow> bool \<Rightarrow> 'f disk \<Rightarrow> 'f io list \<Rightarrow> 'f reservation_file" where
  "open_reservations cd = file_open cd []"

definition open_outbox ::
  "(outbox, 'f) codec \<Rightarrow> bool \<Rightarrow> 'f disk \<Rightarrow> 'f io list \<Rightarrow> (outbox, 'f) file_store" where
  "open_outbox cd = file_open cd []"

definition open_inbox ::
  "(string set, 'f) codec \<Rightarrow> bool \<Rightarrow> 'f disk \<Rightarrow> 'f io list \<Rightarrow> (string set, 'f) file_store" where
  "open_inbox cd = file_open cd {}"

definition open_dead_letter ::
  "(dead_letter, 'f) codec \<Rightarrow> bool \<Rightarrow> 'f disk \<Rightarrow> 'f io list \<Rightarrow> (dead_letter, 'f) file_store" where
  "open_dead_letter cd = file_open cd []"

definition open_orders ::
  "(orders, 'f) codec \<Rightarrow> bool \<Rightarrow> 'f disk \<Rightarrow> 'f io list \<Rightarrow> (orders, 'f) file_store" where
  "open_orders cd = file_open cd []"

definition open_payment_state ::
  "(payment_states, 'f) codec \<Rightarrow> bool \<Rightarrow> 'f disk \<Rightarrow> 'f io list \<Rightarrow> (payment_states, 'f) file_store" where
  "open_payment_state cd = file_open cd Map.empty"

definition open_mandates ::
  "(string \<rightharpoonup> i64, 'f) codec \<Rightarrow> bool \<Rightarrow> 'f disk \<Rightarrow> 'f io list \<Rightarrow> (string \<rightharpoonup> i64, 'f) file_store" where
  "open_mandates cd = file_open cd Map.empty"

definition open_webhooks ::
  "(webhooks, 'f) codec \<Rightarrow> bool \<Rightarrow> 'f disk \<Rightarrow> 'f io list \<Rightarrow> (webhooks, 'f) file_store" where
  "open_webhooks cd = file_open cd []"

text \<open>The three files of the event store are opened alike.\<close>

definition open_cart_table ::
  "(string \<rightharpoonup> 'v, 'f) codec \<Rightarrow> bool \<Rightarrow> 'f disk \<Rightarrow> 'f io list \<Rightarrow> (string \<rightharpoonup> 'v, 'f) file_store" where
  "open_cart_table cd = file_open cd Map.empty"

end
