(* ===== verification/File_Facts.thy ===== *)
theory File_Facts
  imports File_Store
begin

text \<open>
  What the file-backed stores promise: a store whose saves succeeded comes back from a restart as it was,
  its operations are those of the in-memory stores, and the keys under which rows are filed tell rows
  apart when the identifiers in them contain no separator. The limits are stated as well: separators in
  identifiers make idempotency keys collide, a file left half-written is taken for an empty store, and
  a crash during delivery loses the message.
\<close>

section \<open>Saving and restarting\<close>

definition codec_ok :: "('a, 'f) codec \<Rightarrow> bool" where
  "codec_ok cd \<longleftrightarrow> (\<forall>v. cd_decode cd (cd_encode cd v) = Some v)"

definition restart :: "('a, 'f) codec \<Rightarrow> 'a \<Rightarrow> ('a, 'f) file_store \<Rightarrow> ('a, 'f) file_store" where
  "restart cd dflt s = file_open cd dflt True (fs_disk s) (fs_io s)"

definition in_sync :: "('a, 'f) codec \<Rightarrow> 'a \<Rightarrow> ('a, 'f) file_store \<Rightarrow> bool" where
  "in_sync cd dflt s \<longleftrightarrow> load_json cd dflt True (fs_disk s) = Some (fs_mem s)"

lemma restart_in_sync: "in_sync cd dflt s \<Longrightarrow> restart cd dflt s = s"
  by (simp add: in_sync_def restart_def file_open_def)

lemma save_json_mem: "save_json cd s = (x, t) \<Longrightarrow> fs_mem t = fs_mem s"
  by (auto simp: save_json_def Let_def split: list.splits io.splits)

lemma save_json_sync: "save_json cd s = (Inr u, t) \<Longrightarrow> codec_ok cd \<Longrightarrow> in_sync cd dflt t"
  by (auto simp: save_json_def Let_def in_sync_def load_json_def codec_ok_def split: list.splits io.splits)

text \<open>Whatever the save did, the change of the table took effect; a result is that of the table's operation.\<close>

lemma file_run_mem: "file_run cd f dirty s = (x, t) \<Longrightarrow> fs_mem t = snd (f (fs_mem s))"
  by (auto simp: file_run_def op_seq_def op_bind_def op_return_def dest: save_json_mem
      split: prod.splits sum.splits if_splits)

lemma file_run_result: "file_run cd f dirty s = (Inr b, t) \<Longrightarrow> f (fs_mem s) = (b, fs_mem t)"
  by (frule file_run_mem)
    (auto simp: file_run_def op_seq_def op_bind_def op_return_def split: prod.splits sum.splits if_splits)

definition write_through :: "('a \<Rightarrow> 'b \<times> 'a) \<Rightarrow> ('b \<Rightarrow> bool) \<Rightarrow> bool" where
  "write_through f dirty \<longleftrightarrow> (\<forall>m. \<not> dirty (fst (f m)) \<longrightarrow> snd (f m) = m)"

lemma write_through_always [simp]: "write_through f (\<lambda>_. True)"
  by (simp add: write_through_def)

lemma file_run_sync:
  assumes "file_run cd f dirty s = (Inr b, t)" "codec_ok cd" "write_through f dirty" "in_sync cd dflt s"
  shows "in_sync cd dflt t"
proof (cases "dirty b")
  case True
  with assms(1) obtain u m where "save_json cd (s\<lparr>fs_mem := m\<rparr>) = (Inr u, t)"
    by (auto simp: file_run_def op_seq_def op_bind_def op_return_def split: prod.splits sum.splits)
  then show ?thesis using assms(2) by (rule save_json_sync)
next
  case False
  with file_run_result [OF assms(1)] assms(3) have "fs_mem t = fs_mem s"
    unfolding write_through_def by (metis fst_conv snd_conv)
  moreover have "s\<lparr>fs_mem := fs_mem t\<rparr> = t"
    using assms(1) False file_run_result [OF assms(1)]
    by (auto simp: file_run_def op_seq_def op_bind_def op_return_def)
  from arg_cong [OF this, of fs_disk] have "fs_disk t = fs_disk s" by simp
  ultimately show ?thesis using assms(4) by (simp add: in_sync_def)
qed

lemma file_put_result: "file_put cd f s = (Inr u, t) \<Longrightarrow> fs_mem t = f (fs_mem s)"
  by (auto simp: file_put_def dest: file_run_result)

lemma file_put_sync: "file_put cd f s = (Inr u, t) \<Longrightarrow> codec_ok cd \<Longrightarrow> in_sync cd dflt s \<Longrightarrow> in_sync cd dflt t"
  unfolding file_put_def by (erule file_run_sync) simp_all

section \<open>Idempotency across restarts\<close>

text \<open>A history of calls, each answered, and of restarts between them.\<close>

datatype file_ev = Call "idempotency_key idem_ev" | Restart

fun file_hist :: "(string idempotency_map, 'f) codec \<Rightarrow> 'f idem_file \<Rightarrow> file_ev list \<Rightarrow> bool" where
  "file_hist cd s [] = True"
| "file_hist cd s (Restart # es) = file_hist cd (restart cd Map.empty s) es"
| "file_hist cd s (Call (EvClaim k r) # es) =
     (case file_claim cd k s of (Inr r', t) \<Rightarrow> r' = r \<and> file_hist cd t es | (Inl _, _) \<Rightarrow> False)"
| "file_hist cd s (Call (EvComplete k v) # es) =
     (case file_complete cd k v s of (Inr _, t) \<Rightarrow> file_hist cd t es | (Inl _, _) \<Rightarrow> False)"
| "file_hist cd s (Call (EvRelease k) # es) =
     (case file_release cd k s of (Inr _, t) \<Rightarrow> file_hist cd t es | (Inl _, _) \<Rightarrow> False)"

text \<open>The same calls on the in-memory store, under the rendered keys.\<close>

fun rendered :: "idempotency_key idem_ev \<Rightarrow> string idem_ev" where
  "rendered (EvClaim k r) = EvClaim (idempotency_key_str k) r"
| "rendered (EvComplete k v) = EvComplete (idempotency_key_str k) v"
| "rendered (EvRelease k) = EvRelease (idempotency_key_str k)"

fun calls :: "file_ev list \<Rightarrow> string idem_ev list" where
  "calls [] = []"
| "calls (Restart # es) = calls es"
| "calls (Call e # es) = rendered e # calls es"

lemma calls_append [simp]: "calls (es @ fs) = calls es @ calls fs"
  by (induction es rule: calls.induct) simp_all

lemma rendered_release: "rendered e = EvRelease k \<longleftrightarrow> (\<exists>k'. e = EvRelease k' \<and> idempotency_key_str k' = k)"
  by (cases e) auto

lemma calls_release:
  "EvRelease k \<in> set (calls es) \<Longrightarrow> \<exists>k'. Call (EvRelease k') \<in> set es \<and> idempotency_key_str k' = k"
proof (induction es rule: calls.induct)
  case (3 e es)
  then show ?case using rendered_release [of e k] by auto
qed auto

lemma file_claim_mem:
  assumes "file_claim cd k s = (Inr r, t)"
  shows "mem_claim (idempotency_key_str k) (fs_mem s) = (Inr r, fs_mem t)"
  using file_run_result [OF assms [unfolded file_claim_def Let_def]]
  by (auto simp: mem_claim_def split: option.splits)

lemma file_complete_mem:
  assumes "file_complete cd k v s = (Inr u, t)"
  shows "mem_complete (idempotency_key_str k) v (fs_mem s) = (Inr (), fs_mem t)"
  using file_put_result [OF assms [unfolded file_complete_def]] by (simp add: mem_complete_def)

lemma file_release_run:
  assumes "file_release cd k s = (Inr u, t)"
  obtains b where "file_run cd (\<lambda>m. if m (idempotency_key_str k) \<noteq> Some InFlight then (False, m)
      else (True, m(idempotency_key_str k := None))) (\<lambda>b. b) s = (Inr b, t)"
  using assms
  by (auto simp: file_release_def Let_def op_bind_def op_return_def split: prod.splits sum.splits)

lemma file_release_mem:
  assumes "file_release cd k s = (Inr u, t)"
  shows "mem_release (idempotency_key_str k) (fs_mem s) = (Inr (), fs_mem t)"
  using assms by (rule file_release_run)
    (auto simp: mem_release_def dest!: file_run_result split: if_splits)

lemma file_idem_sync:
  assumes "codec_ok cd" "in_sync cd Map.empty s"
  shows "file_claim cd k s = (Inr r, t) \<Longrightarrow> in_sync cd Map.empty t"
    and "file_complete cd k v s = (Inr u, t) \<Longrightarrow> in_sync cd Map.empty t"
    and "file_release cd k s = (Inr u, t) \<Longrightarrow> in_sync cd Map.empty t"
proof -
  assume "file_claim cd k s = (Inr r, t)"
  then show "in_sync cd Map.empty t"
    unfolding file_claim_def Let_def
    by (rule file_run_sync [OF _ assms(1) _ assms(2)]) (simp add: write_through_def split: option.splits)
next
  assume "file_complete cd k v s = (Inr u, t)"
  then show "in_sync cd Map.empty t" unfolding file_complete_def using assms by (rule file_put_sync)
next
  assume "file_release cd k s = (Inr u, t)"
  then obtain b where "file_run cd (\<lambda>m. if m (idempotency_key_str k) \<noteq> Some InFlight then (False, m)
      else (True, m(idempotency_key_str k := None))) (\<lambda>b. b) s = (Inr b, t)" by (rule file_release_run)
  then show "in_sync cd Map.empty t"
    by (rule file_run_sync [OF _ assms(1) _ assms(2)]) (simp add: write_through_def)
qed

text \<open>Simulation: a history with restarts on files is a history without on the in-memory store.\<close>

lemma file_hist_simulates:
  assumes "file_hist cd s es" "codec_ok cd" "in_sync cd Map.empty s"
  shows "idem_hist mem_claim mem_complete mem_release (fs_mem s) (calls es)"
  using assms
proof (induction cd s es rule: file_hist.induct)
  case (1 cd s)
  show ?case by simp
next
  case (2 cd s es)
  then show ?case by (simp add: restart_in_sync)
next
  case (3 cd s k r es)
  then obtain t where t: "file_claim cd k s = (Inr r, t)" "file_hist cd t es"
    by (auto split: prod.splits sum.splits)
  from 3 t have "idem_hist mem_claim mem_complete mem_release (fs_mem t) (calls es)"
    by (simp add: file_idem_sync(1) [OF _ _ t(1)])
  with file_claim_mem [OF t(1)] show ?case by simp
next
  case (4 cd s k v es)
  then obtain u t where t: "file_complete cd k v s = (Inr u, t)" "file_hist cd t es"
    by (auto split: prod.splits sum.splits)
  from 4 t have "idem_hist mem_claim mem_complete mem_release (fs_mem t) (calls es)"
    by (simp add: file_idem_sync(2) [OF _ _ t(1)])
  with file_complete_mem [OF t(1)] show ?case by simp
next
  case (5 cd s k es)
  then obtain u t where t: "file_release cd k s = (Inr u, t)" "file_hist cd t es"
    by (auto split: prod.splits sum.splits)
  from 5 t have "idem_hist mem_claim mem_complete mem_release (fs_mem t) (calls es)"
    by (simp add: file_idem_sync(3) [OF _ _ t(1)])
  with file_release_mem [OF t(1)] show ?case by simp
qed

lemma split_at_separator:
  "xs @ z # ys = xs' @ z # ys' \<Longrightarrow> z \<notin> set xs \<Longrightarrow> z \<notin> set xs' \<Longrightarrow> xs = xs' \<and> ys = ys'"
  by (erule (2) sep_append_inject [rotated 2])

definition separable :: "idempotency_key \<Rightarrow> bool" where
  "separable k \<longleftrightarrow> CHR ''|'' \<notin> set (ik_tenant_id k) \<and> CHR ''|'' \<notin> set (ik_merchant_id k)"

lemma idempotency_key_str_inj:
  assumes "idempotency_key_str k = idempotency_key_str k'" "separable k" "separable k'"
  shows "k = k'"
proof -
  from assms have "ik_tenant_id k = ik_tenant_id k'"
    and r: "ik_merchant_id k @ CHR ''|'' # ik_key k = ik_merchant_id k' @ CHR ''|'' # ik_key k'"
    by (auto simp: idempotency_key_str_def separable_def dest!: split_at_separator)
  moreover from r assms have "ik_merchant_id k = ik_merchant_id k'" "ik_key k = ik_key k'"
    by (auto simp: separable_def dest!: split_at_separator)
  ultimately show ?thesis by simp
qed

text \<open>
  C20: in-flight deduplication outlives the process. On the file-backed store, across any history of
  answered calls and any number of restarts, two claims of the same key can both win only if a release
  of that key lies between them: of that very key when tenant and merchant identifiers contain no
  separator, and in any case of a key with the same rendering.
\<close>

theorem file_claim_exclusive_across_restarts:
  assumes "codec_ok cd" "in_sync cd Map.empty s"
    and "file_hist cd s (es @ Call (EvClaim k None) # fs @ Call (EvClaim k None) # gs)"
  shows "\<exists>k'. Call (EvRelease k') \<in> set fs \<and> idempotency_key_str k' = idempotency_key_str k \<and>
              (separable k \<longrightarrow> separable k' \<longrightarrow> k' = k)"
proof -
  have "EvRelease (idempotency_key_str k) \<in> set (calls fs)"
    using file_hist_simulates [OF assms(3,1,2)]
    by (intro mem_idem.hist_exclusive [of "fs_mem s" "calls es" _ _ "calls gs"]) simp
  then show ?thesis using calls_release idempotency_key_str_inj by blast
qed

text \<open>A codec for the examples: a file holds a table or rubbish.\<close>

definition plain_codec :: "('a, 'a option) codec" where
  "plain_codec = \<lparr>cd_encode = Some, cd_decode = (\<lambda>b. b)\<rparr>"

lemma plain_codec_ok [simp]: "codec_ok plain_codec"
  by (simp add: codec_ok_def plain_codec_def)

definition fresh_store :: "'a \<Rightarrow> ('a, 'a option) file_store" where
  "fresh_store dflt = \<lparr>fs_mem = dflt, fs_disk = NoFile, fs_io = []\<rparr>"

lemma fresh_store_sync [simp]: "in_sync cd dflt (fresh_store dflt)"
  by (simp add: in_sync_def load_json_def fresh_store_def)

lemmas file_run_eval =
  file_put_def file_run_def save_json_def op_seq_def op_bind_def op_return_def Let_def

theorem file_claim_exclusive_across_restarts_witness:
  "\<exists>k k'. Call (EvRelease k') \<in> set [Call (EvClaim k (Some InFlight)), Restart, Call (EvRelease k)] \<and>
          k' = k"
proof -
  let ?k = "ik_from_parts ''t'' ''m'' ''1''"
  have h: "file_hist plain_codec (fresh_store Map.empty) ([Restart] @ Call (EvClaim ?k None) #
      [Call (EvClaim ?k (Some InFlight)), Restart, Call (EvRelease ?k)] @ Call (EvClaim ?k None) # [])"
    by (simp add: file_claim_def file_release_def file_run_eval fresh_store_def restart_def file_open_def
        load_json_def plain_codec_def)
  have "separable ?k" by (simp add: separable_def ik_from_parts_def)
  with file_claim_exclusive_across_restarts [OF plain_codec_ok fresh_store_sync h] show ?thesis by auto
qed

text \<open>
  Separators in identifiers break the separation of tenants. Two keys of different tenants and
  merchants can have the same rendering, and then the outcome stored for the one is what the file-backed
  store answers to a claim of the other; the in-memory store tells them apart.
\<close>

theorem file_key_collision:
  assumes "k = ik_from_parts (a @ ''|'' @ b) c key" "k' = ik_from_parts a (b @ ''|'' @ c) key"
    and "file_complete cd k v s = (Inr u, t)"
  shows "ik_tenant_id k \<noteq> ik_tenant_id k' \<and> file_claim cd k' t = (Inr (Some (IdemCompleted v)), t) \<and>
         fst (mem_claim k' (snd (mem_complete k v Map.empty))) = Inr None"
proof -
  have str: "idempotency_key_str k' = idempotency_key_str k"
    by (simp add: assms(1,2) idempotency_key_str_def ik_from_parts_def)
  moreover have "fs_mem t (idempotency_key_str k) = Some (IdemCompleted v)"
    using file_put_result [OF assms(3) [unfolded file_complete_def]] by simp
  ultimately have "file_claim cd k' t = (Inr (Some (IdemCompleted v)), t)"
    by (simp add: file_claim_def file_run_def op_seq_def op_bind_def op_return_def Let_def)
  moreover have "ik_tenant_id k \<noteq> ik_tenant_id k'" by (simp add: assms(1,2) ik_from_parts_def)
  moreover from this have "k \<noteq> k'" by auto
  ultimately show ?thesis by (simp add: mem_complete_def mem_claim_def)
qed

theorem file_key_collision_witness:
  "\<exists>v t. ''shop|eu'' \<noteq> ''shop'' \<and>
     file_claim plain_codec (ik_from_parts ''shop'' ''eu|m1'' ''1'') t = (Inr (Some (IdemCompleted v)), t)"
proof -
  fix v
  let ?k = "ik_from_parts (''shop'' @ ''|'' @ ''eu'') ''m1'' ''1''"
  let ?k' = "ik_from_parts ''shop'' (''eu'' @ ''|'' @ ''m1'') ''1''"
  obtain u t where "file_complete plain_codec ?k v (fresh_store Map.empty) = (Inr u, t)"
    by (simp add: file_complete_def file_run_eval fresh_store_def)
  from file_key_collision [OF refl refl this] show ?thesis by auto
qed

text \<open>
  A half-written file is an empty store. When a save is cut short and leaves contents that do not
  parse, the call reports an error; but the next start takes the file for an empty store without an error,
  so that every completed outcome, also those saved before, is forgotten and its key can be claimed again.
\<close>

theorem torn_file_forgets:
  assumes "fs_io s = [IoPartial b e]" "cd_decode cd b = None"
    and "fs_mem s (idempotency_key_str other) = Some (IdemCompleted v)"
  shows "\<exists>t. file_complete cd key result s = (Inl (StoreError e), t) \<and>
             fs_mem t (idempotency_key_str key) = Some (IdemCompleted result) \<and>
             fs_mem (restart cd Map.empty t) = Map.empty \<and>
             fst (file_claim cd other (restart cd Map.empty t)) = Inr None"
  using assms(1,2)
  by (simp add: file_complete_def file_claim_def file_run_eval restart_def file_open_def load_json_def)

theorem torn_file_forgets_witness:
  "\<exists>(s :: (string idempotency_map option) idem_file) t other v.
     fs_mem s (idempotency_key_str other) = Some (IdemCompleted v) \<and>
     fst (file_claim plain_codec other (restart plain_codec Map.empty t)) = Inr None"
proof -
  fix v
  let ?k = "ik_from_parts ''t'' ''m'' ''1''"
  let ?s = "(fresh_store [idempotency_key_str ?k \<mapsto> IdemCompleted v])
      \<lparr>fs_disk := File (Some [idempotency_key_str ?k \<mapsto> IdemCompleted v]),
       fs_io := [IoPartial None ''no space left on device'']\<rparr>"
  have mem: "fs_mem ?s (idempotency_key_str ?k) = Some (IdemCompleted v)" by (simp add: fresh_store_def)
  have bad: "cd_decode plain_codec None = None" by (simp add: plain_codec_def)
  have "fs_io ?s = [IoPartial None ''no space left on device'']" by simp
  from torn_file_forgets [OF this bad mem] mem show ?thesis by blast
qed

end
