(* ===== verification/File_Refinement.thy ===== *)
theory File_Refinement
  imports File_Facts
begin

text \<open>
  The file-backed stores as implementations: reservations refine the in-memory reservations, the outbox
  and the dead letters satisfy the contract of an outbox backend, and the order timeline survives
  restarts.
\<close>

lemma file_run_snd: "fs_mem (snd (file_run cd f dirty s)) = snd (f (fs_mem s))"
  by (rule file_run_mem [OF prod.collapse [symmetric]])

lemma file_put_mem: "fs_mem (snd (file_put cd f s)) = f (fs_mem s)"
  by (simp add: file_put_def file_run_snd)

section \<open>Reservations\<close>

text \<open>
  The rendering of a UUID is injective and contains no separator (hyphenated hexadecimal); every row is
  filed under the key of its cart and SKU; and the stored leases are such that subtracting the clock from
  them does not overflow.
\<close>

definition rendering :: "(uuid \<Rightarrow> string) \<Rightarrow> bool" where
  "rendering sh \<longleftrightarrow> inj sh \<and> (\<forall>u. CHR ''|'' \<notin> set (sh u))"

definition reservation_rows :: "(uuid \<Rightarrow> string) \<Rightarrow> i64 \<Rightarrow> reservation_table \<Rightarrow> bool" where
  "reservation_rows sh now m \<longleftrightarrow>
     (\<forall>(k, d) \<in> set m. k = reservation_key sh (rd_cart_id d) (rd_sku d) \<and>
                       in_i64 (rd_lease_until_secs d - now))"

text \<open>The in-memory table a file stands for, at a given reading of both clocks.\<close>

definition abs_reservations :: "i64 \<Rightarrow> int \<Rightarrow> reservation_table \<Rightarrow> reservations" where
  "abs_reservations now instant =
     map (\<lambda>(k, d). ((rd_cart_id d, rd_sku d), dto_to_record now instant d))"

lemma cart_id_key_inj: "rendering sh \<Longrightarrow> cart_id_key sh c = cart_id_key sh c' \<longleftrightarrow> c = c'"
  by (cases c; cases c') (auto simp: cart_id_key_def rendering_def dest: injD)

lemma cart_id_key_free: "rendering sh \<Longrightarrow> CHR ''|'' \<notin> set (cart_id_key sh c)"
  by (cases c) (simp add: cart_id_key_def rendering_def)

lemma reservation_key_inj:
  assumes "rendering sh"
  shows "reservation_key sh c x = reservation_key sh c' x' \<longleftrightarrow> c = c' \<and> x = x'"
proof
  assume "reservation_key sh c x = reservation_key sh c' x'"
  then have "cart_id_key sh c = cart_id_key sh c' \<and> x = x'"
    using cart_id_key_free [OF assms] by (intro split_at_separator [where z = "CHR ''|''"]) (simp_all add: reservation_key_def)
  then show "c = c' \<and> x = x'" using cart_id_key_inj [OF assms] by blast
qed simp

lemma cart_prefixed_key:
  assumes "rendering sh"
  shows "cart_prefixed sh c (reservation_key sh c' x) \<longleftrightarrow> c = c'"
proof
  assume "cart_prefixed sh c (reservation_key sh c' x)"
  then obtain r where "cart_id_key sh c' @ CHR ''|'' # x = cart_id_key sh c @ CHR ''|'' # r"
    by (auto simp: cart_prefixed_def reservation_key_def starts_with_append)
  from split_at_separator [OF this cart_id_key_free [OF assms] cart_id_key_free [OF assms]]
  show "c = c'" using cart_id_key_inj [OF assms] by simp
qed (simp add: cart_prefixed_def reservation_key_def starts_with_append)

lemma row_prefixed:
  assumes "rendering sh" "reservation_rows sh now m" "(k, d) \<in> set m"
  shows "cart_prefixed sh c k \<longleftrightarrow> rd_cart_id d = c"
  using assms cart_prefixed_key [OF assms(1)] by (fastforce simp: reservation_rows_def)

lemma dto_to_record_sel [simp]:
  "rr_cart_id (dto_to_record now i d) = rd_cart_id d"
  "dto_to_record now i (d\<lparr>rd_state := st\<rparr>) = (dto_to_record now i d)\<lparr>rr_state := st\<rparr>"
  by (simp_all add: dto_to_record_def)

lemma abs_set_prefixed:
  assumes "rendering sh" "reservation_rows sh now m"
  shows "abs_reservations now i (set_prefixed sh st c m) =
         set_cart_reservations st c (abs_reservations now i m)"
  using row_prefixed [OF assms]
  by (auto simp: abs_reservations_def set_prefixed_def set_cart_reservations_def map_vals_def)

lemma abs_by_cart:
  assumes "rendering sh" "reservation_rows sh now (fs_mem s)"
  shows "file_by_cart sh now i c s = by_cart c (abs_reservations now i (fs_mem s))"
proof -
  have "filter (\<lambda>r. cart_prefixed sh c (fst r)) (fs_mem s) = filter (\<lambda>r. rd_cart_id (snd r) = c) (fs_mem s)"
    using row_prefixed [OF assms] by (auto intro!: filter_cong)
  then show ?thesis
    by (simp add: file_by_cart_def by_cart_def abs_reservations_def filter_map comp_def case_prod_unfold)
qed

lemma lease_expired_dto:
  "in_i64 (rd_lease_until_secs d - now) \<Longrightarrow>
   lease_expired i (dto_to_record now i d) \<longleftrightarrow> dto_expired now d"
  by (auto simp: lease_expired_def dto_to_record_def dto_expired_def i64_sub_def)

lemma abs_sweep:
  assumes "reservation_rows sh now m"
  shows "sweep_expired i (abs_reservations now i m) =
    (length (filter (\<lambda>(_, v). dto_expired now v) m),
     abs_reservations now i (map_vals (\<lambda>v. if dto_expired now v then v\<lparr>rd_state := Expired\<rparr> else v) m))"
proof -
  have exp: "lease_expired i (dto_to_record now i d) \<longleftrightarrow> dto_expired now d" if "(k, d) \<in> set m" for k d
    using assms that lease_expired_dto by (fastforce simp: reservation_rows_def)
  have "filter (\<lambda>r. lease_expired i (dto_to_record now i (snd r))) m = filter (\<lambda>r. dto_expired now (snd r)) m"
    using exp by (auto intro!: filter_cong)
  then show ?thesis
    using exp by (auto simp: sweep_expired_def abs_reservations_def map_vals_def filter_map comp_def
        case_prod_unfold)
qed

lemma abs_update:
  assumes "rendering sh" "reservation_rows sh now m" "d = dto_to_record now i v"
    and "rd_cart_id v = c" "rd_sku v = x"
  shows "abs_reservations now i (AList.update (reservation_key sh c x) v m) =
         AList.update (c, x) d (abs_reservations now i m)"
  using assms(2-)
proof (induction m)
  case Nil
  then show ?case by (simp add: abs_reservations_def)
next
  case (Cons r m)
  obtain k e where r: "r = (k, e)" by force
  with Cons.prems have k: "k = reservation_key sh (rd_cart_id e) (rd_sku e)"
    and m: "reservation_rows sh now m" by (auto simp: reservation_rows_def)
  have "k = reservation_key sh c x \<longleftrightarrow> (rd_cart_id e, rd_sku e) = (c, x)"
    using k reservation_key_inj [OF assms(1)] by auto
  with Cons.IH [OF m Cons.prems(2-)] Cons.prems(2-) r show ?case
    by (cases "k = reservation_key sh c x") (auto simp: abs_reservations_def)
qed

text \<open>
  C37: file-backed reservations refine the in-memory ones. Under the abstraction at the current clocks,
  reserving, finalizing, releasing and sweeping change the file's table as the in-memory store changes
  its own, also when the save fails and the caller is told so; the sweep counts the same leases and the
  reservations of a cart are the same: matching keys by prefix never touches another cart.
\<close>

theorem file_reservations_refine:
  assumes "rendering sh" "reservation_rows sh now (fs_mem s)"
    and "in_i64 (now + ttl)" "in_i64 ttl" "0 \<le> ttl"
  shows "abs_reservations now i (fs_mem (snd (file_reserve sh cd now c x q ttl s))) =
           reserve i c x q ttl (abs_reservations now i (fs_mem s)) \<and>
         abs_reservations now i (fs_mem (snd (file_finalize_cart sh cd c s))) =
           finalize_cart c (abs_reservations now i (fs_mem s)) \<and>
         abs_reservations now i (fs_mem (snd (file_release_cart sh cd c s))) =
           release_cart c (abs_reservations now i (fs_mem s)) \<and>
         abs_reservations now i (fs_mem (snd (file_sweep_expired cd now s))) =
           snd (sweep_expired i (abs_reservations now i (fs_mem s))) \<and>
         fst (file_sweep_expired cd now s) \<in>
           insert (Inr (fst (sweep_expired i (abs_reservations now i (fs_mem s))))) (range Inl) \<and>
         file_by_cart sh now i c s = by_cart c (abs_reservations now i (fs_mem s))"
  (is "?reserve \<and> ?finalize \<and> ?release \<and> ?sweep \<and> ?count \<and> ?by")
proof (intro conjI)
  note abs = abs_set_prefixed [OF assms(1,2)] abs_sweep [OF assms(2)]
  show ?reserve
    unfolding file_reserve_def reserve_def file_put_mem
    by (rule abs_update [OF assms(1,2)]) (use assms(3-) in \<open>simp_all add: dto_to_record_def i64_add_def i64_sub_def\<close>)
  show ?finalize ?release
    unfolding file_finalize_cart_def finalize_cart_def file_release_cart_def release_cart_def
    by (simp_all add: file_put_mem abs)
  show ?sweep
    unfolding file_sweep_expired_def by (simp add: file_run_snd abs)
  show ?count
  proof (cases "fst (file_sweep_expired cd now s)")
    case (Inr n)
    then have "file_sweep_expired cd now s = (Inr n, snd (file_sweep_expired cd now s))"
      by (simp add: prod_eq_iff)
    then have "fst (sweep_expired i (abs_reservations now i (fs_mem s))) = n"
      unfolding file_sweep_expired_def abs by (auto dest!: file_run_result)
    with Inr show ?thesis by simp
  qed simp
  show ?by using assms(1,2) by (rule abs_by_cart)
qed

text \<open>A rendering for the examples: a character per unit.\<close>

definition unary :: "uuid \<Rightarrow> string" where
  "unary u = replicate (unat u) CHR ''0''"

lemma unary_rendering: "rendering unary"
proof -
  have "inj unary"
  proof (rule injI)
    fix u v :: uuid
    assume "unary u = unary v"
    then have "length (unary u) = length (unary v)" by simp
    then show "u = v" by (simp add: unary_def word_unat_eq_iff)
  qed
  then show ?thesis by (simp add: rendering_def unary_def)
qed

theorem file_reservations_refine_witness:
  "abs_reservations 100 5 (fs_mem (snd (file_reserve unary plain_codec 100 (CartId 1) ''sku'' 2 900
     (fresh_store [])))) = [((CartId 1, ''sku''), \<lparr>rr_cart_id = CartId 1, rr_sku = ''sku'',
     rr_quantity = 2, rr_state = Reserved, rr_lease_until = 900005\<rparr>)]"
proof -
  have "reservation_rows unary 100 (fs_mem (fresh_store []))"
    by (simp add: reservation_rows_def fresh_store_def)
  from conjunct1 [OF file_reservations_refine [OF unary_rendering this, of 900 5 plain_codec "CartId 1"
      "''sku''" 2]]
  show ?thesis
    by (simp add: in_i64_def i64_min_def i64_max_def reserve_def abs_reservations_def fresh_store_def)
qed

section \<open>Outbox and dead letters\<close>

record 'f file_queues =
  fq_outbox :: "(outbox, 'f) file_store"
  fq_dead :: "(dead_letter, 'f) file_store"

definition on_outbox ::
  "((outbox, 'f) file_store, store_error, 'a) op \<Rightarrow> ('f file_queues, store_error, 'a) op" where
  "on_outbox m q = (case m (fq_outbox q) of (x, s) \<Rightarrow> (x, q\<lparr>fq_outbox := s\<rparr>))"

definition on_dead ::
  "((dead_letter, 'f) file_store, store_error, 'a) op \<Rightarrow> ('f file_queues, store_error, 'a) op" where
  "on_dead m q = (case m (fq_dead q) of (x, s) \<Rightarrow> (x, q\<lparr>fq_dead := s\<rparr>))"

lemma on_outbox_Inr:
  "on_outbox m q = (Inr a, q') \<longleftrightarrow> (\<exists>s. m (fq_outbox q) = (Inr a, s) \<and> q' = q\<lparr>fq_outbox := s\<rparr>)"
  by (auto simp: on_outbox_def split: prod.splits)

lemma on_dead_Inr:
  "on_dead m q = (Inr a, q') \<longleftrightarrow> (\<exists>s. m (fq_dead q) = (Inr a, s) \<and> q' = q\<lparr>fq_dead := s\<rparr>)"
  by (auto simp: on_dead_def split: prod.splits)

text \<open>The outbox of the runner on files, with a deliverer that does not touch the queue.\<close>

definition file_outbox_claim ::
  "(outbox, 'f) codec \<Rightarrow> ('f file_queues, store_error, outbox_message option) op" where
  "file_outbox_claim co = on_outbox (file_dequeue co)"

definition file_outbox_ack :: "string \<Rightarrow> ('f file_queues, store_error, unit) op" where
  "file_outbox_ack message_id = op_return ()"

definition file_outbox_release ::
  "(outbox, 'f) codec \<Rightarrow> outbox_message \<Rightarrow> ('f file_queues, store_error, unit) op" where
  "file_outbox_release co msg = on_outbox (file_enqueue co msg)"

definition file_outbox_pass ::
  "(outbox, 'f) codec \<Rightarrow> (dead_letter, 'f) codec \<Rightarrow> (outbox_message \<Rightarrow> bool) option \<Rightarrow> u32 \<Rightarrow>
   ('f file_queues, store_error, outbox_outcome) op" where
  "file_outbox_pass co cl deliver max_attempts =
     process_outbox_once_reporting (file_outbox_claim co) file_outbox_ack (file_outbox_release co)
       (\<lambda>m. on_dead (file_dead_put cl m)) (map_option (\<lambda>f m q. (f m, q)) deliver) max_attempts"

lemma file_dequeue_result:
  "file_dequeue cd s = (Inr c, t) \<Longrightarrow> outbox_dequeue (fs_mem s) = (c, fs_mem t)"
  unfolding file_dequeue_def by (rule file_run_result)

interpretation file_outbox: outbox_backend
  "\<lambda>q. mset (fs_mem (fq_outbox q))" "\<lambda>q. map_of (fs_mem (fq_dead q))" "\<lambda>_. True" "\<lambda>_ _. True"
  "\<lambda>q _. mset (fs_mem (fq_outbox q))" "file_outbox_claim co" file_outbox_ack "file_outbox_release co"
  "\<lambda>m. on_dead (file_dead_put cl m)" "map_option (\<lambda>f m q. (f m, q)) deliver" for co cl deliver
  by unfold_locales
    (auto simp: file_outbox_claim_def file_outbox_ack_def file_outbox_release_def on_outbox_Inr on_dead_Inr
      op_return_def file_enqueue_def file_dead_put_def outbox_enqueue_def outbox_dequeue_def
      dead_letter_put_def update_conv' dest!: file_dequeue_result file_put_result split: list.splits)

text \<open>
  A pass over the file-backed outbox conserves messages as well: one that returns an outcome found
  nothing, or removed exactly the message it delivered, or put it back with one more attempt within the
  limit, or filed it under the dead letters beyond the limit.
\<close>

theorem file_outbox_pass_conserves:
  assumes "file_outbox_pass co cl deliver mx q = (Inr out, q')"
  shows "case out of
      Idle \<Rightarrow> mset (fs_mem (fq_outbox q')) = mset (fs_mem (fq_outbox q)) \<and>
        map_of (fs_mem (fq_dead q')) = map_of (fs_mem (fq_dead q))
    | Delivered \<Rightarrow> (\<exists>m. mset (fs_mem (fq_outbox q)) = add_mset m (mset (fs_mem (fq_outbox q')))) \<and>
        map_of (fs_mem (fq_dead q')) = map_of (fs_mem (fq_dead q))
    | Retrying n \<Rightarrow> n \<le> mx \<and> map_of (fs_mem (fq_dead q')) = map_of (fs_mem (fq_dead q)) \<and>
        (\<exists>m rest. mset (fs_mem (fq_outbox q)) = add_mset m rest \<and> n = om_attempts m + 1 \<and>
                  mset (fs_mem (fq_outbox q')) = add_mset (m\<lparr>om_attempts := n\<rparr>) rest)
    | DeadLettered \<Rightarrow>
        (\<exists>m. mset (fs_mem (fq_outbox q)) = add_mset m (mset (fs_mem (fq_outbox q'))) \<and>
             mx < om_attempts m + 1 \<and> map_of (fs_mem (fq_dead q')) =
               (map_of (fs_mem (fq_dead q)))(om_id m \<mapsto> m\<lparr>om_attempts := om_attempts m + 1\<rparr>))"
  using file_outbox.pass_conserves [OF _ assms [unfolded file_outbox_pass_def]]
  by (simp add: file_outbox.pass_effect_def)

definition queued_message :: outbox_message where
  "queued_message = \<lparr>om_id = ''msg_1'', om_topic = ''order.created'', om_payload = ''ord_1'',
     om_correlation_id = ''c'', om_attempts = 0, om_tenant_id = Some ''t1''\<rparr>"

definition sample_queues :: "(outbox option + dead_letter option) file_queues" where
  "sample_queues =
     \<lparr>fq_outbox = \<lparr>fs_mem = [queued_message], fs_disk = File (Inl (Some [queued_message])), fs_io = []\<rparr>,
      fq_dead = \<lparr>fs_mem = [], fs_disk = NoFile, fs_io = []\<rparr>\<rparr>"

definition outbox_codec :: "(outbox, outbox option + dead_letter option) codec" where
  "outbox_codec = \<lparr>cd_encode = (\<lambda>v. Inl (Some v)), cd_decode = (\<lambda>b. case b of Inl x \<Rightarrow> x | Inr _ \<Rightarrow> None)\<rparr>"

definition dead_codec :: "(dead_letter, outbox option + dead_letter option) codec" where
  "dead_codec = \<lparr>cd_encode = (\<lambda>v. Inr (Some v)), cd_decode = (\<lambda>b. case b of Inr x \<Rightarrow> x | Inl _ \<Rightarrow> None)\<rparr>"

theorem file_outbox_pass_conserves_witness:
  "\<exists>m q'. file_outbox_pass outbox_codec dead_codec (Some (\<lambda>_. False)) 5 sample_queues = (Inr Delivered, q') \<and>
          {#queued_message#} = add_mset m (mset (fs_mem (fq_outbox q')))"
proof -
  obtain q' where run: "file_outbox_pass outbox_codec dead_codec (Some (\<lambda>_. False)) 5 sample_queues =
      (Inr Delivered, q')"
    by (simp add: file_outbox_pass_def process_outbox_once_reporting_def file_outbox_claim_def on_outbox_def
        file_dequeue_def file_run_eval sample_queues_def outbox_dequeue_def attempt_delivery_def
        settle_delivery_def file_outbox_ack_def)
  from file_outbox_pass_conserves [OF run] run show ?thesis by (auto simp: sample_queues_def)
qed

text \<open>
  C38: a crash during delivery loses the message. The file-backed outbox keeps the default \<open>claim\<close> of the
  trait, which removes the message and saves the shorter queue: a process that stops between the claim
  and the acknowledgement finds, on restart, a queue without the message, in the outbox and anywhere else.
\<close>

theorem file_claim_then_crash_loses:
  assumes "codec_ok co" "in_sync co [] (fq_outbox q)"
    and "file_outbox_claim co q = (Inr (Some m), q')"
  shows "mset (fs_mem (fq_outbox q)) = add_mset m (mset (fs_mem (restart co [] (fq_outbox q')))) \<and>
         fq_dead q' = fq_dead q"
proof -
  from assms(3) obtain t where t: "file_dequeue co (fq_outbox q) = (Inr (Some m), t)"
    and q': "q' = q\<lparr>fq_outbox := t\<rparr>"
    by (auto simp: file_outbox_claim_def on_outbox_Inr)
  have "in_sync co [] t"
    using t [unfolded file_dequeue_def] assms(1) _ assms(2)
    by (rule file_run_sync) (simp add: write_through_def outbox_dequeue_def split: list.split)
  with file_dequeue_result [OF t] q' show ?thesis
    by (auto simp: restart_in_sync outbox_dequeue_def split: list.splits)
qed

theorem file_claim_then_crash_loses_witness:
  "\<exists>q'. file_outbox_claim outbox_codec sample_queues = (Inr (Some queued_message), q') \<and>
        mset (fs_mem (restart outbox_codec [] (fq_outbox q'))) = {#}"
proof -
  obtain q' where run: "file_outbox_claim outbox_codec sample_queues = (Inr (Some queued_message), q')"
    by (simp add: file_outbox_claim_def on_outbox_def file_dequeue_def file_run_eval sample_queues_def
        outbox_dequeue_def)
  have "codec_ok outbox_codec" by (simp add: codec_ok_def outbox_codec_def)
  moreover have "in_sync outbox_codec [] (fq_outbox sample_queues)"
    by (simp add: in_sync_def load_json_def sample_queues_def outbox_codec_def)
  ultimately show ?thesis using file_claim_then_crash_loses [OF _ _ run] run by (auto simp: sample_queues_def)
qed

section \<open>The order timeline\<close>

text \<open>A write to the order file that was acknowledged.\<close>

inductive order_file_step ::
  "(orders, 'f) codec \<Rightarrow> (orders, 'f) file_store \<Rightarrow> (orders, 'f) file_store \<Rightarrow> bool" for cd where
  o_put: "file_order_put cd r s = (Inr u, t) \<Longrightarrow> order_file_step cd s t"
| o_event: "file_append_event cd i e s = (Inr x, t) \<Longrightarrow> order_file_step cd s t"
| o_adjust: "file_add_adjustment cd i a s = (Inr x, t) \<Longrightarrow> order_file_step cd s t"
| o_status: "file_update_status cd i st s = (Inr x, t) \<Longrightarrow> order_file_step cd s t"

lemma order_write_through: "write_through (order_update f i) (\<lambda>r. r \<noteq> None)"
  by (auto simp: write_through_def order_update_def split: option.splits)

lemma order_file_run:
  assumes "file_run cd (order_update f i) (\<lambda>r. r \<noteq> None) s = (Inr x, t)" "codec_ok cd"
    and "in_sync cd [] s" "orders_ok (fs_mem s)" "\<And>r. or_order_id (f r) = or_order_id r"
  shows "in_sync cd [] t \<and> orders_ok (fs_mem t)"
  using file_run_sync [OF assms(1,2) order_write_through assms(3)] file_run_mem [OF assms(1)]
    orders_ok_order_update [of "fs_mem s" f i] assms(4,5) by simp

lemma order_file_step_sync:
  assumes "order_file_step cd s t" "codec_ok cd" "in_sync cd [] s" "orders_ok (fs_mem s)"
  shows "in_sync cd [] t \<and> orders_ok (fs_mem t)"
  using assms
proof (induction rule: order_file_step.induct)
  case (o_put r s u t)
  then show ?case
    unfolding file_order_put_def
    by (auto dest: file_put_sync simp: file_put_result orders_ok_put)
qed (unfold file_append_event_def append_event_def file_add_adjustment_def add_adjustment_def
      file_update_status_def update_status_def, erule order_file_run; simp)+

text \<open>
  Acknowledged orders are durable. After any sequence of acknowledged writes to the order file, a
  restart finds exactly the orders that were in memory, each under its own id.
\<close>

theorem orders_survive_restart:
  assumes "codec_ok cd" "in_sync cd [] s" "orders_ok (fs_mem s)" "(order_file_step cd)\<^sup>*\<^sup>* s t"
  shows "restart cd [] t = t \<and> orders_ok (fs_mem t)"
proof -
  from assms(4) have "in_sync cd [] t \<and> orders_ok (fs_mem t)"
    by (induction rule: rtranclp_induct) (use assms(1-3) order_file_step_sync in blast)+
  then show ?thesis by (simp add: restart_in_sync)
qed

theorem orders_survive_restart_witness:
  "\<exists>t. (order_file_step plain_codec)\<^sup>*\<^sup>* (fresh_store []) t \<and> fs_mem t \<noteq> [] \<and> restart plain_codec [] t = t"
proof -
  fix r
  obtain t where t: "file_order_put plain_codec r (fresh_store []) = (Inr (), t)" "fs_mem t \<noteq> []"
    by (simp add: file_order_put_def file_run_eval fresh_store_def order_put_def)
  then have steps: "(order_file_step plain_codec)\<^sup>*\<^sup>* (fresh_store []) t" by (blast intro: o_put)
  have "orders_ok (fs_mem (fresh_store []))" by (simp add: fresh_store_def orders_ok_def)
  from orders_survive_restart [OF plain_codec_ok fresh_store_sync this steps] t(2) steps show ?thesis
    by blast
qed

end
