(* ===== verification/Pg_Store.thy ===== *)
theory Pg_Store
  imports World File_Store
begin

text \<open>
  The PostgreSQL stores (\<open>orchestrator-runtime/src/persistence/postgres_backed.rs\<close>), statement by
  statement: a table is a map or, where the order of rows matters, a list; a JSON column holds the value
  the program wrote there, since every row is written by the program and the rendering of its own types
  round-trips; one statement, or one transaction, is one atomic step. The plan \<open>pg_faults\<close> says of each
  coming statement whether it succeeds, is refused, or takes effect while its answer is lost. Operations
  of several statements are sequences of steps, so what other replicas do in between can be told.
  The keys are rendered as in the file-backed stores (the source has the same functions twice).
\<close>

record outbox_row =
  ob_message :: outbox_message
  ob_locked_until :: "int option"

record pg =
  pg_events :: "string \<rightharpoonup> cart_stream_event list"
  pg_snapshots :: "string \<rightharpoonup> cart_projection"
  pg_states :: "string \<rightharpoonup> cart_state"
  pg_idem :: "string idempotency_map"
  pg_commits :: "string \<rightharpoonup> commit_record"
  pg_reservations :: reservation_table
  pg_outbox :: "outbox_row list"
  pg_inbox :: "string set"
  pg_dead :: dead_letter
  pg_orders :: orders
  pg_payments :: payment_states
  pg_mandates :: "string \<rightharpoonup> i64"
  pg_webhooks :: webhooks
  pg_now :: int
  pg_faults :: "fault list"

type_synonym 'a sql = "(pg, store_error, 'a) op"

definition sql :: "(pg \<Rightarrow> 'a \<times> pg) \<Rightarrow> 'a sql" where
  "sql f s =
     (let s0 = s\<lparr>pg_faults := tl (pg_faults s)\<rparr> in
      case (case pg_faults s of [] \<Rightarrow> NoFault | x # _ \<Rightarrow> x) of
        NoFault \<Rightarrow> (case f s0 of (a, t) \<Rightarrow> (Inr a, t))
      | FailBefore m \<Rightarrow> (Inl (StoreError m), s0)
      | FailAfter m \<Rightarrow> (Inl (StoreError m), snd (f s0)))"

definition sql_exec :: "(pg \<Rightarrow> pg) \<Rightarrow> unit sql" where
  "sql_exec f = sql (\<lambda>s. ((), f s))"

definition sql_query :: "(pg \<Rightarrow> 'a) \<Rightarrow> 'a sql" where
  "sql_query f = sql (\<lambda>s. (f s, s))"

text \<open>\<open>.ok()?\<close> and \<open>unwrap_or_default()\<close> on the answer of a query: a failure reads as \<open>dflt\<close>.\<close>

definition sql_or :: "'a \<Rightarrow> 'a sql \<Rightarrow> 'a sql" where
  "sql_or dflt m = op_catch m (\<lambda>_. op_return dflt)"

text \<open>\<open>LIKE\<close> with the wildcards \<open>%\<close> and \<open>_\<close>; the patterns of the program contain no escape.\<close>

fun like :: "string \<Rightarrow> string \<Rightarrow> bool" where
  "like [] s \<longleftrightarrow> s = []"
| "like (p # ps) [] \<longleftrightarrow> p = CHR ''%'' \<and> like ps []"
| "like (p # ps) (c # cs) \<longleftrightarrow>
     (if p = CHR ''%'' then like ps (c # cs) \<or> like (p # ps) cs
      else (p = CHR ''_'' \<or> p = c) \<and> like ps cs)"

section \<open>Events, snapshots and cart states\<close>

definition pg_append_cart_event :: "(uuid \<Rightarrow> string) \<Rightarrow> cart_id \<Rightarrow> cart_stream_event \<Rightarrow> unit sql" where
  "pg_append_cart_event sh cart_id event =
     (let key = cart_id_key sh cart_id in
      op_bind (sql_query (\<lambda>s. pg_events s key)) (\<lambda>existing.
        let events = (case existing of Some es \<Rightarrow> es | None \<Rightarrow> []) @ [event]
        in sql_exec (\<lambda>s. s\<lparr>pg_events := (pg_events s)(key \<mapsto> events)\<rparr>)))"

definition pg_put_cart_snapshot :: "(uuid \<Rightarrow> string) \<Rightarrow> cart_projection \<Rightarrow> unit sql" where
  "pg_put_cart_snapshot sh snapshot =
     sql_exec (\<lambda>s. s\<lparr>pg_snapshots := (pg_snapshots s)(cart_id_key sh (cp_cart_id snapshot) \<mapsto> snapshot)\<rparr>)"

definition pg_get_cart_snapshot :: "(uuid \<Rightarrow> string) \<Rightarrow> cart_id \<Rightarrow> cart_projection option sql" where
  "pg_get_cart_snapshot sh cart_id = sql_or None (sql_query (\<lambda>s. pg_snapshots s (cart_id_key sh cart_id)))"

definition pg_get_cart_state :: "(uuid \<Rightarrow> string) \<Rightarrow> cart_id \<Rightarrow> cart_state option sql" where
  "pg_get_cart_state sh cart_id = sql_or None (sql_query (\<lambda>s. pg_states s (cart_id_key sh cart_id)))"

definition pg_set_cart_state :: "(uuid \<Rightarrow> string) \<Rightarrow> cart_id \<Rightarrow> cart_state \<Rightarrow> unit sql" where
  "pg_set_cart_state sh cart_id st =
     sql_exec (\<lambda>s. s\<lparr>pg_states := (pg_states s)(cart_id_key sh cart_id \<mapsto> st)\<rparr>)"

section \<open>Idempotency\<close>

text \<open>
  The transaction of \<open>claim\<close>: insert an in-flight row unless there is one, then read the row. A row in
  flight is answered as no row at all, also when it was there before.
\<close>

definition claim_row :: "string \<Rightarrow> idempotency_state option sql" where
  "claim_row k =
     op_bind
       (sql (\<lambda>s. let rows = (case pg_idem s k of None \<Rightarrow> (pg_idem s)(k \<mapsto> InFlight) | Some _ \<Rightarrow> pg_idem s)
                 in (rows k, s\<lparr>pg_idem := rows\<rparr>)))
       (\<lambda>row. op_return
          (case row of Some (IdemCompleted v) \<Rightarrow> Some (IdemCompleted v) | _ \<Rightarrow> None))"

definition complete_row :: "string \<Rightarrow> transaction_result \<Rightarrow> unit sql" where
  "complete_row k result = sql_exec (\<lambda>s. s\<lparr>pg_idem := (pg_idem s)(k \<mapsto> IdemCompleted result)\<rparr>)"

definition release_row :: "string \<Rightarrow> unit sql" where
  "release_row k =
     sql_exec (\<lambda>s. if pg_idem s k = Some InFlight then s\<lparr>pg_idem := (pg_idem s)(k := None)\<rparr> else s)"

definition pg_claim :: "idempotency_key \<Rightarrow> idempotency_state option sql" where
  "pg_claim key = claim_row (idempotency_key_str key)"

definition pg_complete :: "idempotency_key \<Rightarrow> transaction_result \<Rightarrow> unit sql" where
  "pg_complete key result = complete_row (idempotency_key_str key) result"

definition pg_release :: "idempotency_key \<Rightarrow> unit sql" where
  "pg_release key = release_row (idempotency_key_str key)"

section \<open>Commits and reservations\<close>

definition pg_commit :: "(uuid \<Rightarrow> string) \<Rightarrow> string \<Rightarrow> cart_id \<Rightarrow> string option \<Rightarrow> commit_record sql" where
  "pg_commit sh u cart_id payment_reference =
     (let r = \<lparr>cm_transaction_id = ''txn_'' @ u, cm_cart_id = cart_id,
               cm_payment_reference = payment_reference\<rparr>
      in op_seq (sql_exec (\<lambda>s. s\<lparr>pg_commits := (pg_commits s)(cart_id_key sh cart_id \<mapsto> r)\<rparr>)) (op_return r))"

definition pg_reserve ::
  "(uuid \<Rightarrow> string) \<Rightarrow> i64 \<Rightarrow> cart_id \<Rightarrow> string \<Rightarrow> u32 \<Rightarrow> i64 \<Rightarrow> unit sql" where
  "pg_reserve sh now_secs cart_id sku quantity ttl_secs =
     (let dto = \<lparr>rd_cart_id = cart_id, rd_sku = sku, rd_quantity = quantity, rd_state = Reserved,
                 rd_lease_until_secs = i64_add now_secs ttl_secs\<rparr>
      in sql_exec (\<lambda>s. s\<lparr>pg_reservations :=
           AList.update (reservation_key sh cart_id sku) dto (pg_reservations s)\<rparr>))"

text \<open>\<open>UPDATE reservations SET record = $2 WHERE reservation_key = $1\<close>\<close>

definition set_reservation :: "string \<Rightarrow> reservation_dto \<Rightarrow> unit sql" where
  "set_reservation key dto =
     sql_exec (\<lambda>s. s\<lparr>pg_reservations := map (\<lambda>(k, v). (k, if k = key then dto else v)) (pg_reservations s)\<rparr>)"

definition cart_pattern :: "(uuid \<Rightarrow> string) \<Rightarrow> cart_id \<Rightarrow> string" where
  "cart_pattern sh cart_id = cart_id_key sh cart_id @ ''|'' @ ''%''"

definition select_like :: "string \<Rightarrow> reservation_table sql" where
  "select_like pat = sql_query (\<lambda>s. filter (\<lambda>(k, _). like pat k) (pg_reservations s))"

definition update_reservations_for_cart ::
  "(uuid \<Rightarrow> string) \<Rightarrow> cart_id \<Rightarrow> reservation_state \<Rightarrow> unit sql" where
  "update_reservations_for_cart sh cart_id st =
     op_bind (select_like (cart_pattern sh cart_id)) (\<lambda>rows.
       op_for rows (\<lambda>(key, dto). set_reservation key (dto\<lparr>rd_state := st\<rparr>)))"

definition pg_finalize_cart :: "(uuid \<Rightarrow> string) \<Rightarrow> cart_id \<Rightarrow> unit sql" where
  "pg_finalize_cart sh cart_id = update_reservations_for_cart sh cart_id Finalized"

definition pg_release_cart :: "(uuid \<Rightarrow> string) \<Rightarrow> cart_id \<Rightarrow> unit sql" where
  "pg_release_cart sh cart_id = update_reservations_for_cart sh cart_id Released"

definition pg_sweep_expired :: "i64 \<Rightarrow> nat sql" where
  "pg_sweep_expired now =
     op_bind (sql_query pg_reservations) (\<lambda>rows.
       let due = filter (\<lambda>(_, v). dto_expired now v) rows in
       op_seq (op_for due (\<lambda>(key, dto). set_reservation key (dto\<lparr>rd_state := Expired\<rparr>)))
         (op_return (length due)))"

definition pg_by_cart ::
  "(uuid \<Rightarrow> string) \<Rightarrow> i64 \<Rightarrow> int \<Rightarrow> cart_id \<Rightarrow> reservation_record list sql" where
  "pg_by_cart sh now_secs instant cart_id =
     op_bind (sql_or [] (select_like (cart_pattern sh cart_id))) (\<lambda>rows.
       op_return (map (\<lambda>(_, dto). dto_to_record now_secs instant dto) rows))"

section \<open>Outbox\<close>

text \<open>Rows stand in the order of \<open>seq\<close>; times are in milliseconds.\<close>

definition OUTBOX_LEASE :: int where
  "OUTBOX_LEASE = 60000"

definition row_id :: "outbox_row \<Rightarrow> string" where
  "row_id r = om_id (ob_message r)"

definition set_row :: "string \<Rightarrow> (outbox_row \<Rightarrow> outbox_row) \<Rightarrow> outbox_row list \<Rightarrow> outbox_row list" where
  "set_row i f = map (\<lambda>r. if row_id r = i then f r else r)"

definition enqueue_row :: "outbox_message \<Rightarrow> outbox_row list \<Rightarrow> outbox_row list" where
  "enqueue_row msg rows =
     (let new = \<lparr>ob_message = msg, ob_locked_until = None\<rparr>
      in if om_id msg \<in> row_id ` set rows then set_row (om_id msg) (\<lambda>_. new) rows else rows @ [new])"

definition pg_enqueue :: "outbox_message \<Rightarrow> unit sql" where
  "pg_enqueue msg = sql_exec (\<lambda>s. s\<lparr>pg_outbox := enqueue_row msg (pg_outbox s)\<rparr>)"

definition pg_dequeue :: "outbox_message option sql" where
  "pg_dequeue = sql (\<lambda>s. case pg_outbox s of
      [] \<Rightarrow> (None, s)
    | r # rows \<Rightarrow> (Some (ob_message r), s\<lparr>pg_outbox := rows\<rparr>))"

definition deliverable :: "int \<Rightarrow> outbox_row \<Rightarrow> bool" where
  "deliverable now r \<longleftrightarrow> (case ob_locked_until r of None \<Rightarrow> True | Some t \<Rightarrow> t < now)"

definition lease_row :: "int \<Rightarrow> outbox_row \<Rightarrow> outbox_row" where
  "lease_row now r = r\<lparr>ob_locked_until := Some (now + OUTBOX_LEASE)\<rparr>"

fun lease_first :: "int \<Rightarrow> outbox_row list \<Rightarrow> outbox_message option \<times> outbox_row list" where
  "lease_first now [] = (None, [])"
| "lease_first now (r # rows) =
     (if deliverable now r then (Some (ob_message r), lease_row now r # rows)
      else case lease_first now rows of (m, rows') \<Rightarrow> (m, r # rows'))"

definition pg_outbox_claim :: "outbox_message option sql" where
  "pg_outbox_claim = sql (\<lambda>s. case lease_first (pg_now s) (pg_outbox s) of
      (m, rows) \<Rightarrow> (m, s\<lparr>pg_outbox := rows\<rparr>))"

definition pg_outbox_ack :: "string \<Rightarrow> unit sql" where
  "pg_outbox_ack message_id =
     sql_exec (\<lambda>s. s\<lparr>pg_outbox := filter (\<lambda>r. row_id r \<noteq> message_id) (pg_outbox s)\<rparr>)"

definition pg_outbox_release :: "outbox_message \<Rightarrow> unit sql" where
  "pg_outbox_release msg =
     op_bind
       (sql (\<lambda>s. (length (filter (\<lambda>r. row_id r = om_id msg) (pg_outbox s)),
         s\<lparr>pg_outbox := set_row (om_id msg) (\<lambda>_. \<lparr>ob_message = msg, ob_locked_until = None\<rparr>) (pg_outbox s)\<rparr>)))
       (\<lambda>rows_affected. if rows_affected = 0 then pg_enqueue msg else op_return ())"

definition pg_outbox_len :: "nat sql" where
  "pg_outbox_len = sql_or 0 (sql_query (\<lambda>s. length (pg_outbox s)))"

section \<open>Inbox, dead letters, orders\<close>

definition pg_accept_once :: "string \<Rightarrow> bool sql" where
  "pg_accept_once message_id =
     sql (\<lambda>s. (message_id \<notin> pg_inbox s, s\<lparr>pg_inbox := insert message_id (pg_inbox s)\<rparr>))"

definition pg_dead_put :: "outbox_message \<Rightarrow> unit sql" where
  "pg_dead_put msg = sql_exec (\<lambda>s. s\<lparr>pg_dead := AList.update (om_id msg) msg (pg_dead s)\<rparr>)"

definition pg_dead_len :: "nat sql" where
  "pg_dead_len = sql_or 0 (sql_query (\<lambda>s. length (pg_dead s)))"

definition pg_dead_list :: "outbox_message list sql" where
  "pg_dead_list = sql_or [] (sql_query (\<lambda>s. map snd (pg_dead s)))"

definition pg_dead_take :: "string \<Rightarrow> outbox_message option sql" where
  "pg_dead_take message_id =
     sql (\<lambda>s. (map_of (pg_dead s) message_id, s\<lparr>pg_dead := AList.delete message_id (pg_dead s)\<rparr>))"

definition pg_order_put :: "order_record \<Rightarrow> unit sql" where
  "pg_order_put r = sql_exec (\<lambda>s. s\<lparr>pg_orders := AList.update (or_order_id r) r (pg_orders s)\<rparr>)"

definition pg_order_get :: "string \<Rightarrow> order_record option sql" where
  "pg_order_get order_id = sql_or None (sql_query (\<lambda>s. map_of (pg_orders s) order_id))"

definition pg_orders_list_by_tenant :: "string \<Rightarrow> order_record list sql" where
  "pg_orders_list_by_tenant tenant_id =
     op_bind (sql_query (\<lambda>s. map snd (pg_orders s))) (\<lambda>rows.
       op_return (sort_key (\<lambda>r. - or_created_at r) (filter (\<lambda>r. or_tenant_id r = tenant_id) rows)))"

text \<open>The updates read the record, change it and write it back, in two statements.\<close>

definition write_back ::
  "(order_record \<Rightarrow> order_record) \<Rightarrow> order_record option \<Rightarrow> order_record option sql" where
  "write_back f found =
     (case found of
        None \<Rightarrow> op_return None
      | Some r \<Rightarrow> op_seq (pg_order_put (f r)) (op_return (Some (f r))))"

definition pg_append_event :: "string \<Rightarrow> order_event \<Rightarrow> order_record option sql" where
  "pg_append_event order_id e =
     op_bind (pg_order_get order_id) (write_back (\<lambda>r. r\<lparr>or_events := or_events r @ [e]\<rparr>))"

definition pg_add_adjustment :: "string \<Rightarrow> order_adjustment \<Rightarrow> order_record option sql" where
  "pg_add_adjustment order_id a =
     op_bind (pg_order_get order_id) (write_back (\<lambda>r. r\<lparr>or_adjustments := or_adjustments r @ [a]\<rparr>))"

definition pg_update_status :: "string \<Rightarrow> order_status \<Rightarrow> order_record option sql" where
  "pg_update_status order_id st =
     op_bind (pg_order_get order_id) (write_back (\<lambda>r. r\<lparr>or_status := st\<rparr>))"

section \<open>Payment states, mandates, webhooks\<close>

text \<open>The result of the write is dropped (\<open>let _ = ..\<close>).\<close>

definition pg_payment_put :: "string \<Rightarrow> payment_state \<Rightarrow> unit sql" where
  "pg_payment_put transaction_id st =
     sql_or () (sql_exec (\<lambda>s. s\<lparr>pg_payments := (pg_payments s)(transaction_id \<mapsto> st)\<rparr>))"

definition pg_payment_get :: "string \<Rightarrow> payment_state option sql" where
  "pg_payment_get transaction_id = sql_or None (sql_query (\<lambda>s. pg_payments s transaction_id))"

definition pg_record_mandate :: "i64 \<Rightarrow> string \<Rightarrow> i64 \<Rightarrow> bool sql" where
  "pg_record_mandate now mandate_id expires_at =
     op_seq
       (sql_exec (\<lambda>s. s\<lparr>pg_mandates :=
          (\<lambda>k. case pg_mandates s k of Some e \<Rightarrow> if e \<le> now then None else Some e | None \<Rightarrow> None)\<rparr>))
       (sql (\<lambda>s. case pg_mandates s mandate_id of
          Some _ \<Rightarrow> (False, s)
        | None \<Rightarrow> (True, s\<lparr>pg_mandates := (pg_mandates s)(mandate_id \<mapsto> expires_at)\<rparr>)))"

definition pg_register :: "webhook_registration \<Rightarrow> unit sql" where
  "pg_register registration =
     sql_exec (\<lambda>s. s\<lparr>pg_webhooks := AList.update (wr_id registration) registration (pg_webhooks s)\<rparr>)"

definition pg_unregister :: "string \<Rightarrow> bool sql" where
  "pg_unregister wid =
     sql (\<lambda>s. (map_of (pg_webhooks s) wid \<noteq> None, s\<lparr>pg_webhooks := AList.delete wid (pg_webhooks s)\<rparr>))"

definition pg_webhooks_by_tenant :: "string \<Rightarrow> webhook_registration list sql" where
  "pg_webhooks_by_tenant tenant_id =
     sql_query (\<lambda>s. filter (\<lambda>r. wr_tenant_id r = tenant_id) (map snd (pg_webhooks s)))"

definition pg_webhook_get :: "string \<Rightarrow> webhook_registration option sql" where
  "pg_webhook_get wid = sql_query (\<lambda>s. map_of (pg_webhooks s) wid)"

text \<open>\<open>event_filter IS NULL OR event_filter @> to_jsonb($1::text)\<close>: a list contains the topic.\<close>

definition pg_active_for_topic :: "string \<Rightarrow> string \<Rightarrow> webhook_registration list sql" where
  "pg_active_for_topic tenant_id topic =
     sql_query (\<lambda>s. filter (\<lambda>r. wr_active r \<and> wr_tenant_id r = tenant_id \<and>
         (case wr_event_filter r of None \<Rightarrow> True | Some f \<Rightarrow> topic \<in> set f)) (map snd (pg_webhooks s)))"

end
