(* ===== verification/Pg_Facts.thy ===== *)
theory Pg_Facts
  imports Pg_Store File_Refinement
begin

text \<open>
  What the PostgreSQL stores promise, and where they do not keep the contracts: completed outcomes are
  final, but claims are not exclusive; a claimed outbox message is leased, so that no crash loses it;
  the row-by-row updates of reservations amount to the in-memory ones; and the two-statement updates
  of orders can lose a concurrent update.
\<close>

section \<open>Statements\<close>

lemma sql_ok: "pg_faults s = [] \<Longrightarrow> sql f s = (case f s of (a, t) \<Rightarrow> (Inr a, t))"
  by (cases s) (simp add: sql_def)

lemma sql_exec_ok: "pg_faults s = [] \<Longrightarrow> sql_exec f s = (Inr (), f s)"
  by (simp add: sql_exec_def sql_ok)

lemma sql_query_ok: "pg_faults s = [] \<Longrightarrow> sql_query f s = (Inr (f s), s)"
  by (simp add: sql_query_def sql_ok)

lemma sql_Inr:
  assumes "sql f s = (Inr a, t)"
  shows "f (s\<lparr>pg_faults := tl (pg_faults s)\<rparr>) = (a, t)"
  using assms by (auto simp: sql_def Let_def split: list.splits fault.splits prod.splits)

lemma sql_exec_Inr: "sql_exec f s = (Inr u, t) \<Longrightarrow> t = f (s\<lparr>pg_faults := tl (pg_faults s)\<rparr>)"
  by (auto simp: sql_exec_def dest: sql_Inr)

lemmas sql_oks = sql_ok sql_exec_ok sql_query_ok

section \<open>Idempotency\<close>

lemma claim_row_Inr:
  assumes "claim_row k s = (Inr r, t)"
  shows "pg_idem t = (if pg_idem s k = None then (pg_idem s)(k \<mapsto> InFlight) else pg_idem s) \<and>
         r = (case pg_idem s k of Some (IdemCompleted v) \<Rightarrow> Some (IdemCompleted v) | _ \<Rightarrow> None)"
proof -
  let ?rows = "case pg_idem s k of None \<Rightarrow> (pg_idem s)(k \<mapsto> InFlight) | Some _ \<Rightarrow> pg_idem s"
  from assms obtain row where
    "sql (\<lambda>s. let rows = (case pg_idem s k of None \<Rightarrow> (pg_idem s)(k \<mapsto> InFlight) | Some _ \<Rightarrow> pg_idem s)
              in (rows k, s\<lparr>pg_idem := rows\<rparr>)) s = (Inr row, t)"
    and r: "r = (case row of Some (IdemCompleted v) \<Rightarrow> Some (IdemCompleted v) | _ \<Rightarrow> None)"
    by (auto simp: claim_row_def op_bind_Inr op_return_def)
  from sql_Inr [OF this(1)] have "row = ?rows k" "pg_idem t = ?rows"
    by (cases "pg_idem s k"; auto simp: Let_def)+
  with r show ?thesis by (auto split: option.splits)
qed

interpretation pg_outcomes: outcome_store "\<lambda>s k. pg_idem s k" claim_row complete_row release_row
  by unfold_locales
    (auto simp: complete_row_def release_row_def dest!: claim_row_Inr sql_exec_Inr split: if_splits)

text \<open>
  C18: on PostgreSQL in-flight deduplication does not work. A claim never answers that the key is in
  flight; when the key is in flight, claimed by another request that is still executing, the claim
  wins again, also though no release happened, and both requests go on to charge. (A completed outcome
  is answered to every later claim.)
\<close>

theorem pg_claim_not_exclusive:
  assumes "pg_faults s = []" "pg_idem s (idempotency_key_str k) = None"
  shows "idem_hist pg_claim pg_complete pg_release s [EvClaim k None, EvClaim k None] \<and>
         (\<forall>s r t. pg_claim k s = (Inr r, t) \<longrightarrow> r \<noteq> Some InFlight) \<and>
         (\<forall>s v r t. pg_claim k s = (Inr r, t) \<longrightarrow>
            pg_idem s (idempotency_key_str k) = Some (IdemCompleted v) \<longrightarrow> r = Some (IdemCompleted v))"
proof (intro conjI allI impI)
  show "idem_hist pg_claim pg_complete pg_release s [EvClaim k None, EvClaim k None]"
    using assms by (simp add: pg_claim_def claim_row_def sql_ok op_bind_def op_return_def)
next
  fix s r t
  assume "pg_claim k s = (Inr r, t)"
  then show "r \<noteq> Some InFlight"
    unfolding pg_claim_def by (auto dest!: claim_row_Inr split: option.splits idempotency_state.splits)
next
  fix s v r t
  assume "pg_claim k s = (Inr r, t)" "pg_idem s (idempotency_key_str k) = Some (IdemCompleted v)"
  then show "r = Some (IdemCompleted v)" unfolding pg_claim_def by (rule pg_outcomes.claim_outcome)
qed

definition empty_pg :: pg where
  "empty_pg = \<lparr>pg_events = Map.empty, pg_snapshots = Map.empty, pg_states = Map.empty,
     pg_idem = Map.empty, pg_commits = Map.empty, pg_reservations = [], pg_outbox = [], pg_inbox = {},
     pg_dead = [], pg_orders = [], pg_payments = Map.empty, pg_mandates = Map.empty,
     pg_webhooks = [], pg_now = 0, pg_faults = []\<rparr>"

theorem pg_claim_not_exclusive_witness:
  "\<exists>k. idem_hist pg_claim pg_complete pg_release empty_pg [EvClaim k None, EvClaim k None]"
  by (rule exI, rule conjunct1 [OF pg_claim_not_exclusive [of empty_pg "ik_from_parts ''t'' ''m'' ''1''"]])
    (simp_all add: empty_pg_def)

section \<open>The leased outbox\<close>

definition row_messages :: "pg \<Rightarrow> outbox_message list" where
  "row_messages s = map ob_message (pg_outbox s)"

definition ids_distinct :: "pg \<Rightarrow> bool" where
  "ids_distinct s \<longleftrightarrow> distinct (map om_id (row_messages s))"

lemma row_ids: "map row_id rows = map om_id (map ob_message rows)"
  by (simp add: row_id_def)

lemma lease_first_messages: "lease_first now rows = (m, rows') \<Longrightarrow> map ob_message rows' = map ob_message rows"
  by (induction rows arbitrary: rows') (auto simp: lease_row_def split: if_splits prod.splits)

lemma lease_first_mem: "lease_first now rows = (Some m, rows') \<Longrightarrow> m \<in> set (map ob_message rows)"
  by (induction rows arbitrary: rows') (auto split: if_splits prod.splits)

lemma image_apart: "f m \<notin> f ` A \<Longrightarrow> \<forall>y \<in> A. f y \<noteq> f m"
  by (metis image_eqI)

lemma filter_id_mset:
  assumes "distinct (map om_id ms)" "m \<in> set ms"
  shows "mset (filter (\<lambda>x. om_id x \<noteq> om_id m) ms) = mset ms - {#m#}"
  using assms
proof (induction ms)
  case (Cons x ms)
  show ?case
  proof (cases "x = m")
    case True
    with Cons.prems have "\<forall>y \<in> set ms. om_id y \<noteq> om_id m" using image_apart [of om_id m "set ms"] by simp
    then have "filter (\<lambda>y. om_id y \<noteq> om_id m) ms = ms" by (simp add: filter_id_conv)
    with True show ?thesis by simp
  next
    case False
    with Cons have "om_id x \<noteq> om_id m" "m \<in> set ms" by auto
    with Cons False show ?thesis by (simp add: diff_union_swap2)
  qed
qed simp

lemma replace_id_mset:
  assumes "distinct (map om_id ms)" "m \<in> set ms"
  shows "mset (map (\<lambda>x. if om_id x = om_id m then m' else x) ms) = add_mset m' (mset ms - {#m#})"
  using assms
proof (induction ms)
  case (Cons x ms)
  show ?case
  proof (cases "x = m")
    case True
    with Cons.prems have "\<forall>y \<in> set ms. om_id y \<noteq> om_id m" using image_apart [of om_id m "set ms"] by simp
    then have "map (\<lambda>y. if om_id y = om_id m then m' else y) ms = ms" by (simp add: map_idI)
    with True show ?thesis by simp
  next
    case False
    with Cons have "om_id x \<noteq> om_id m" "m \<in> set ms" by auto
    with Cons False show ?thesis by (simp add: diff_union_swap2)
  qed
qed simp

lemma set_row_messages:
  "map ob_message (set_row i (\<lambda>_. \<lparr>ob_message = m', ob_locked_until = l\<rparr>) rows) =
   map (\<lambda>x. if om_id x = i then m' else x) (map ob_message rows)"
  by (auto simp: set_row_def row_id_def)

lemma filter_row_messages:
  "map ob_message (filter (\<lambda>r. row_id r \<noteq> i) rows) = filter (\<lambda>x. om_id x \<noteq> i) (map ob_message rows)"
  by (induction rows) (auto simp: row_id_def)

lemma replace_id_distinct:
  "distinct (map om_id ms) \<Longrightarrow> om_id m' = i \<Longrightarrow>
   distinct (map om_id (map (\<lambda>x. if om_id x = i then m' else x) ms))"
  by (simp add: comp_def if_distrib cong: if_cong)

lemma claim_Inr:
  assumes "pg_outbox_claim s = (Inr c, t)"
  shows "row_messages t = row_messages s \<and> pg_dead t = pg_dead s \<and>
         (\<forall>m. c = Some m \<longrightarrow> m \<in> set (row_messages s))"
  using sql_Inr [OF assms [unfolded pg_outbox_claim_def]]
  by (auto simp: row_messages_def dest: lease_first_messages lease_first_mem split: prod.splits)

lemma ack_Inr:
  assumes "pg_outbox_ack i s = (Inr u, t)"
  shows "row_messages t = filter (\<lambda>x. om_id x \<noteq> i) (row_messages s) \<and> pg_dead t = pg_dead s"
  using sql_exec_Inr [OF assms [unfolded pg_outbox_ack_def]]
  by (simp add: row_messages_def filter_row_messages)

lemma release_Inr:
  assumes "pg_outbox_release m' s = (Inr u, t)" "om_id m' \<in> set (map om_id (row_messages s))"
  shows "row_messages t = map (\<lambda>x. if om_id x = om_id m' then m' else x) (row_messages s) \<and>
         pg_dead t = pg_dead s"
proof -
  from assms(2) have "filter (\<lambda>r. row_id r = om_id m') (pg_outbox s) \<noteq> []"
    by (auto simp: row_messages_def row_id_def filter_empty_conv)
  with assms(1) show ?thesis
    by (auto simp: pg_outbox_release_def op_bind_Inr op_return_def row_messages_def set_row_messages
        dest!: sql_Inr)
qed

lemma dead_put_Inr:
  assumes "pg_dead_put m s = (Inr u, t)"
  shows "pg_outbox t = pg_outbox s \<and> pg_dead t = AList.update (om_id m) m (pg_dead s)"
  using sql_exec_Inr [OF assms [unfolded pg_dead_put_def]] by simp

interpretation pg_outbox: outbox_backend
  "\<lambda>s. mset (row_messages s)" "\<lambda>s. map_of (pg_dead s)" ids_distinct
  "\<lambda>s m. ids_distinct s \<and> m \<in> set (row_messages s)" "\<lambda>s m. mset (row_messages s) - {#m#}"
  pg_outbox_claim pg_outbox_ack pg_outbox_release pg_dead_put "map_option (\<lambda>f m s. (f m, s)) deliver"
  for deliver
proof (unfold_locales, goal_cases)
  case (1 s t)
  then show ?case by (auto dest: claim_Inr simp: ids_distinct_def)
next
  case (2 s m t)
  then show ?case by (auto dest!: claim_Inr simp: ids_distinct_def)
next
  case (3 d s m b t)
  then show ?case by auto
next
  case (4 s m u t)
  then show ?case
    using filter_id_mset [of "row_messages s" m]
    by (auto dest!: ack_Inr simp: ids_distinct_def distinct_map_filter)
next
  case (5 s m m' u t)
  then have "om_id m' \<in> set (map om_id (row_messages s))" by auto
  with 5 release_Inr [OF 5(3)] show ?case
    using replace_id_mset [of "row_messages s" m m'] replace_id_distinct [of "row_messages s" m' "om_id m'"]
    by (simp add: ids_distinct_def)
next
  case (6 s m m' u t)
  then show ?case
    by (auto dest!: dead_put_Inr simp: ids_distinct_def row_messages_def update_conv')
qed

lemma pg_pass_conserves:
  assumes "ids_distinct s"
    and "process_outbox_once_reporting pg_outbox_claim pg_outbox_ack pg_outbox_release pg_dead_put
           (map_option (\<lambda>f m s. (f m, s)) deliver) mx s = (Inr out, t)"
  shows "ids_distinct t \<and> pg_outbox.pass_effect mx s out t"
  using assms by (rule pg_outbox.pass_conserves)

text \<open>A leased row is not deliverable until the lease is over; a deliverable row is reached by claiming.\<close>

lemma leased_not_deliverable: "now' \<le> now + OUTBOX_LEASE \<Longrightarrow> \<not> deliverable now' (lease_row now r)"
  by (simp add: deliverable_def lease_row_def)

lemma lease_first_locked:
  assumes "lease_first now rows = (Some m, rows')" "distinct (map om_id (map ob_message rows))"
  shows "\<exists>r \<in> set rows'. ob_message r = m \<and> ob_locked_until r = Some (now + OUTBOX_LEASE)"
  using assms
  by (induction rows arbitrary: rows') (auto simp: lease_row_def split: if_splits prod.splits)

lemma lease_first_deliverable:
  assumes "lease_first now rows = (Some m, rows')"
  shows "\<exists>r \<in> set rows. ob_message r = m \<and> deliverable now r"
  using assms by (induction rows arbitrary: rows') (auto split: if_splits prod.splits)

definition next_lease :: "int \<Rightarrow> outbox_row list \<Rightarrow> outbox_row list" where
  "next_lease now rows = snd (lease_first now rows)"

lemma next_lease_pow_locked:
  "\<not> deliverable now r \<Longrightarrow> (next_lease now ^^ n) (r # rows) = r # (next_lease now ^^ n) rows"
  by (induction n) (simp_all add: next_lease_def split: prod.splits)

lemma lease_first_skip: "\<not> deliverable now r \<Longrightarrow> fst (lease_first now (r # rows)) = fst (lease_first now rows)"
  by (simp split: prod.splits)

lemma deliverable_reached:
  assumes "r \<in> set rows" "deliverable now r"
  shows "\<exists>n < length rows. fst (lease_first now ((next_lease now ^^ n) rows)) = Some (ob_message r)"
  using assms
proof (induction rows)
  case (Cons x rows)
  show ?case
  proof (cases "deliverable now x")
    case False
    with Cons obtain n where "n < length rows"
      "fst (lease_first now ((next_lease now ^^ n) rows)) = Some (ob_message r)" by auto
    with False show ?thesis
      by (intro exI [of _ n]) (simp add: next_lease_pow_locked lease_first_skip del: lease_first.simps)
  next
    case True
    show ?thesis
    proof (cases "x = r")
      case True
      with \<open>deliverable now x\<close> show ?thesis by (intro exI [of _ 0]) simp
    next
      case False
      with Cons obtain n where n: "n < length rows"
        "fst (lease_first now ((next_lease now ^^ n) rows)) = Some (ob_message r)" by auto
      have locked: "\<not> deliverable now (lease_row now x)"
        by (rule leased_not_deliverable) (simp add: OUTBOX_LEASE_def)
      have "(next_lease now ^^ Suc n) (x # rows) = lease_row now x # (next_lease now ^^ n) rows"
        using True next_lease_pow_locked [OF locked]
        by (simp add: funpow_swap1 next_lease_def)
      with n locked show ?thesis by (intro exI [of _ "Suc n"]) (simp add: lease_first_skip del: funpow.simps lease_first.simps)
    qed
  qed
qed simp

lemma outbox_claim_ok:
  "pg_faults s = [] \<Longrightarrow>
   pg_outbox_claim s = (Inr (fst (lease_first (pg_now s) (pg_outbox s))),
                        s\<lparr>pg_outbox := next_lease (pg_now s) (pg_outbox s)\<rparr>)"
  by (simp add: pg_outbox_claim_def sql_ok next_lease_def split: prod.splits)

lemma outbox_claim_pow:
  "pg_faults s = [] \<Longrightarrow>
   ((\<lambda>s. snd (pg_outbox_claim s)) ^^ n) s = s\<lparr>pg_outbox := (next_lease (pg_now s) ^^ n) (pg_outbox s)\<rparr>"
  by (induction n) (simp_all add: outbox_claim_ok)

text \<open>
  C27: a crash costs a retry, never the event. After a claim the message is still in the table; until its
  lease of sixty seconds is over no other claim hands it out; and when the worker neither acknowledged nor
  released it by then, it is offered again: after at most as many further claims as there are rows, a
  claim returns it.
\<close>

theorem pg_lease_redelivers:
  assumes "pg_faults s = []" "ids_distinct s" "pg_outbox_claim s = (Inr (Some m), t)"
  shows "m \<in> set (row_messages t) \<and>
         (\<forall>now \<le> pg_now s + OUTBOX_LEASE. fst (pg_outbox_claim (t\<lparr>pg_now := now\<rparr>)) \<noteq> Inr (Some m)) \<and>
         (\<forall>now > pg_now s + OUTBOX_LEASE. \<exists>n < length (pg_outbox t).
            fst (pg_outbox_claim (((\<lambda>s. snd (pg_outbox_claim s)) ^^ n) (t\<lparr>pg_now := now\<rparr>))) = Inr (Some m))"
proof -
  from assms(1,3) have first: "lease_first (pg_now s) (pg_outbox s) = (Some m, pg_outbox t)"
    and faults: "pg_faults t = []"
    by (auto simp: outbox_claim_ok next_lease_def prod_eq_iff)
  from lease_first_locked [OF first] assms(2) obtain r where r: "r \<in> set (pg_outbox t)" "ob_message r = m"
    "ob_locked_until r = Some (pg_now s + OUTBOX_LEASE)"
    by (auto simp: ids_distinct_def row_messages_def)
  have dist: "distinct (map om_id (row_messages t))"
    using assms(2) claim_Inr [OF assms(3)] by (simp add: ids_distinct_def)
  have unique: "r' = r" if "r' \<in> set (pg_outbox t)" "ob_message r' = m" for r'
    using dist that r(1,2) inj_onD [of "\<lambda>x. om_id (ob_message x)" "set (pg_outbox t)" r' r]
    by (simp add: row_messages_def comp_def distinct_map)
  have "fst (pg_outbox_claim (t\<lparr>pg_now := now\<rparr>)) \<noteq> Inr (Some m)"
    if "now \<le> pg_now s + OUTBOX_LEASE" for now
  proof
    assume "fst (pg_outbox_claim (t\<lparr>pg_now := now\<rparr>)) = Inr (Some m)"
    with faults have "lease_first now (pg_outbox t) = (Some m, next_lease now (pg_outbox t))"
      by (simp add: outbox_claim_ok next_lease_def prod_eq_iff)
    from lease_first_deliverable [OF this] unique have "deliverable now r" by auto
    with r(3) that show False by (simp add: deliverable_def)
  qed
  moreover have "\<exists>n < length (pg_outbox t).
      fst (pg_outbox_claim (((\<lambda>s. snd (pg_outbox_claim s)) ^^ n) (t\<lparr>pg_now := now\<rparr>))) = Inr (Some m)"
    if "now > pg_now s + OUTBOX_LEASE" for now
    using deliverable_reached [OF r(1), of now] that r(2,3) faults
    by (simp add: deliverable_def outbox_claim_ok outbox_claim_pow)
  moreover have "m \<in> set (row_messages t)" using r by (auto simp: row_messages_def)
  ultimately show ?thesis by blast
qed

theorem pg_lease_redelivers_witness:
  "\<exists>t. pg_outbox_claim (empty_pg\<lparr>pg_outbox := [\<lparr>ob_message = queued_message, ob_locked_until = None\<rparr>]\<rparr>) =
         (Inr (Some queued_message), t) \<and> queued_message \<in> set (row_messages t)"
proof -
  let ?s = "empty_pg\<lparr>pg_outbox := [\<lparr>ob_message = queued_message, ob_locked_until = None\<rparr>]\<rparr>"
  have s: "pg_faults ?s = []" "ids_distinct ?s"
    by (simp_all add: empty_pg_def ids_distinct_def row_messages_def)
  obtain t where t: "pg_outbox_claim ?s = (Inr (Some queued_message), t)"
    using s(1) by (simp add: outbox_claim_ok deliverable_def)
  with pg_lease_redelivers [OF s t] show ?thesis by blast
qed

section \<open>Reservations\<close>

lemma like_percent: "like ''%'' s"
  by (induction s) simp_all

lemma like_prefix:
  assumes "CHR ''%'' \<notin> set p" "CHR ''_'' \<notin> set p"
  shows "like (p @ ''%'') s \<longleftrightarrow> starts_with s p"
  using assms
proof (induction p arbitrary: s)
  case Nil
  then show ?case by (simp add: like_percent starts_with_append)
next
  case (Cons c p)
  then show ?case by (cases s) (auto simp: starts_with_append)
qed

definition plain_rendering :: "(uuid \<Rightarrow> string) \<Rightarrow> bool" where
  "plain_rendering sh \<longleftrightarrow> rendering sh \<and> (\<forall>u. CHR ''%'' \<notin> set (sh u) \<and> CHR ''_'' \<notin> set (sh u))"

lemma like_cart_pattern:
  assumes "plain_rendering sh"
  shows "like (cart_pattern sh c) k \<longleftrightarrow> cart_prefixed sh c k"
proof -
  from assms have "CHR ''%'' \<notin> set (cart_id_key sh c @ ''|'')" "CHR ''_'' \<notin> set (cart_id_key sh c @ ''|'')"
    by (cases c; simp add: plain_rendering_def cart_id_key_def)+
  from like_prefix [OF this] show ?thesis by (simp add: cart_pattern_def cart_prefixed_def)
qed

text \<open>A loop of single-row updates over rows that were read before sets each of them.\<close>

definition set_rows ::
  "(reservation_dto \<Rightarrow> reservation_dto) \<Rightarrow> reservation_table \<Rightarrow> reservation_table \<Rightarrow> reservation_table" where
  "set_rows g rows = map (\<lambda>(k, v). (k, case map_of rows k of Some d \<Rightarrow> g d | None \<Rightarrow> v))"

lemma set_rows_Cons:
  assumes "k \<notin> fst ` set rows"
  shows "set_rows g rows (map (\<lambda>(k', v). (k', if k' = k then g d else v)) tb) = set_rows g ((k, d) # rows) tb"
proof -
  have "map_of rows k = None" using assms by (simp add: map_of_eq_None_iff)
  then show ?thesis by (auto simp: set_rows_def split: option.splits)
qed

lemma update_loop:
  assumes "pg_faults s = []" "distinct (map fst rows)"
  shows "op_for rows (\<lambda>(key, dto). set_reservation key (g dto)) s =
         (Inr (), s\<lparr>pg_reservations := set_rows g rows (pg_reservations s)\<rparr>)"
  using assms
proof (induction rows arbitrary: s)
  case Nil
  have "set_rows g [] tb = tb" for tb by (auto simp: set_rows_def intro: map_idI)
  then show ?case by (simp add: op_return_def)
next
  case (Cons r rows)
  obtain k d where r: "r = (k, d)" by force
  let ?t = "s\<lparr>pg_reservations := map (\<lambda>(k', v). (k', if k' = k then g d else v)) (pg_reservations s)\<rparr>"
  have "set_reservation k (g d) s = (Inr (), ?t)"
    using Cons.prems by (simp add: set_reservation_def sql_exec_ok)
  with Cons.IH [of ?t] Cons.prems r set_rows_Cons [of k rows g d] show ?case
    by (simp add: op_seq_def op_bind_def)
qed

lemma set_rows_filter:
  assumes "distinct (map fst tb)"
  shows "set_rows g (filter P tb) tb = map (\<lambda>(k, v). (k, if P (k, v) then g v else v)) tb"
proof -
  have "map_of (filter P tb) k = (if P (k, v) then Some v else None)" if "(k, v) \<in> set tb" for k v
    using assms that
    by (induction tb) (auto simp: map_of_eq_None_iff rev_image_eqI)
  then show ?thesis by (auto simp: set_rows_def)
qed

lemma distinct_keys_filter: "distinct (map fst tb) \<Longrightarrow> distinct (map fst (filter P tb))"
  by (induction tb) auto

text \<open>
  The row-by-row updates amount to one. When no statement fails, finalizing and releasing the
  reservations of a cart, which select rows by a pattern and write them back one by one, change exactly
  the rows of that cart; the sweep expires and counts exactly the leases that ran out; under the
  abstraction all of them do what the in-memory store does.
\<close>

lemma pg_update_cart:
  assumes "plain_rendering sh" "pg_faults s = []" "distinct (map fst (pg_reservations s))"
  shows "update_reservations_for_cart sh c st s =
         (Inr (), s\<lparr>pg_reservations := set_prefixed sh st c (pg_reservations s)\<rparr>)"
  using assms(2) update_loop [where g = "\<lambda>d. d\<lparr>rd_state := st\<rparr>", OF assms(2) distinct_keys_filter [OF assms(3)]]
    set_rows_filter [OF assms(3)]
  by (simp add: update_reservations_for_cart_def select_like_def sql_query_ok op_bind_def
      like_cart_pattern [OF assms(1)] set_prefixed_def)

lemma pg_sweep:
  assumes "pg_faults s = []" "distinct (map fst (pg_reservations s))"
  shows "pg_sweep_expired now s =
    (Inr (length (filter (\<lambda>(_, v). dto_expired now v) (pg_reservations s))),
     s\<lparr>pg_reservations := map_vals (\<lambda>v. if dto_expired now v then v\<lparr>rd_state := Expired\<rparr> else v)
         (pg_reservations s)\<rparr>)"
  using assms(1) update_loop [where g = "\<lambda>d. d\<lparr>rd_state := Expired\<rparr>", OF assms(1) distinct_keys_filter [OF assms(2)]]
    set_rows_filter [OF assms(2)]
  by (simp add: pg_sweep_expired_def sql_query_ok op_bind_def op_seq_def op_return_def map_vals_def Let_def)

theorem pg_reservations_refine:
  assumes "plain_rendering sh" "pg_faults s = []" "distinct (map fst (pg_reservations s))"
    and "reservation_rows sh now (pg_reservations s)"
  shows "\<exists>finalized released swept n.
    pg_finalize_cart sh c s = (Inr (), s\<lparr>pg_reservations := finalized\<rparr>) \<and>
    abs_reservations now i finalized = finalize_cart c (abs_reservations now i (pg_reservations s)) \<and>
    pg_release_cart sh c s = (Inr (), s\<lparr>pg_reservations := released\<rparr>) \<and>
    abs_reservations now i released = release_cart c (abs_reservations now i (pg_reservations s)) \<and>
    pg_sweep_expired now s = (Inr n, s\<lparr>pg_reservations := swept\<rparr>) \<and>
    (n, abs_reservations now i swept) = sweep_expired i (abs_reservations now i (pg_reservations s))"
proof -
  let ?m = "pg_reservations s"
  have sh: "rendering sh" using assms(1) by (simp add: plain_rendering_def)
  have run: "pg_finalize_cart sh c s = (Inr (), s\<lparr>pg_reservations := set_prefixed sh Finalized c ?m\<rparr>)"
    "pg_release_cart sh c s = (Inr (), s\<lparr>pg_reservations := set_prefixed sh Released c ?m\<rparr>)"
    unfolding pg_finalize_cart_def pg_release_cart_def by (simp_all only: pg_update_cart [OF assms(1-3)])
  have abs: "abs_reservations now i (set_prefixed sh Finalized c ?m) = finalize_cart c (abs_reservations now i ?m)"
    "abs_reservations now i (set_prefixed sh Released c ?m) = release_cart c (abs_reservations now i ?m)"
    unfolding finalize_cart_def release_cart_def by (rule abs_set_prefixed [OF sh assms(4)])+
  from run abs pg_sweep [OF assms(2,3)] abs_sweep [OF assms(4), of i, symmetric] show ?thesis by blast
qed

theorem pg_reservations_refine_witness:
  "\<exists>n swept. pg_sweep_expired 1000 (empty_pg\<lparr>pg_reservations := [(reservation_key unary (CartId 1) ''sku'',
       \<lparr>rd_cart_id = CartId 1, rd_sku = ''sku'', rd_quantity = 1, rd_state = Reserved,
        rd_lease_until_secs = 900\<rparr>)]\<rparr>) = (Inr n, swept) \<and> n = 1"
proof -
  let ?s = "empty_pg\<lparr>pg_reservations := [(reservation_key unary (CartId 1) ''sku'',
       \<lparr>rd_cart_id = CartId 1, rd_sku = ''sku'', rd_quantity = 1, rd_state = Reserved,
        rd_lease_until_secs = 900\<rparr>)]\<rparr>"
  have "plain_rendering unary" using unary_rendering by (simp add: plain_rendering_def unary_def)
  moreover have "pg_faults ?s = []" "distinct (map fst (pg_reservations ?s))"
    "reservation_rows unary 1000 (pg_reservations ?s)"
    by (simp_all add: empty_pg_def reservation_rows_def in_i64_def i64_min_def i64_max_def)
  ultimately obtain n swept where "pg_sweep_expired 1000 ?s = (Inr n, ?s\<lparr>pg_reservations := swept\<rparr>)"
    "(n, abs_reservations 1000 0 swept) = sweep_expired 0 (abs_reservations 1000 0 (pg_reservations ?s))"
    using pg_reservations_refine [of unary ?s 1000 "CartId 1" 0] by blast
  then show ?thesis
    by (auto simp: sweep_expired_def abs_reservations_def lease_expired_def dto_to_record_def i64_sub_def
        in_i64_def i64_min_def i64_max_def)
qed

section \<open>Orders and mandates\<close>

text \<open>
  An update of an order can be lost. The updates of the order table read the record in one
  statement and write it back in another, outside a transaction: when two requests append to the same
  order and the second runs between the two statements of the first, the event the second appended,
  acknowledged to its caller, is gone.
\<close>

theorem pg_order_update_lost:
  assumes "pg_faults s = []" "pg_order_get i s = (Inr (Some r), s1)" "or_order_id r = i"
    and "pg_append_event i e2 s1 = (Inr (Some r2), s2)"
    and "write_back (\<lambda>r. r\<lparr>or_events := or_events r @ [e1]\<rparr>) (Some r) s2 = (Inr (Some r1), s3)"
  shows "or_events r2 = or_events r @ [e2] \<and> or_events r1 = or_events r @ [e1] \<and>
         map_of (pg_orders s3) i = Some r1"
proof -
  from assms(1,2) have s1: "s1 = s" "map_of (pg_orders s) i = Some r"
    by (auto simp: pg_order_get_def sql_or_def op_catch_def sql_query_ok)
  with assms(1,3,4) have "r2 = r\<lparr>or_events := or_events r @ [e2]\<rparr>" and f: "pg_faults s2 = []"
    by (auto simp: pg_append_event_def pg_order_get_def sql_or_def op_catch_def sql_query_ok op_bind_def
        op_seq_def op_return_def write_back_def pg_order_put_def sql_exec_ok)
  moreover from assms(3,5) f have "r1 = r\<lparr>or_events := or_events r @ [e1]\<rparr>"
    "map_of (pg_orders s3) i = Some r1"
    by (auto simp: write_back_def op_seq_def op_bind_def op_return_def pg_order_put_def sql_exec_ok update_Some_unfold)
  ultimately show ?thesis by simp
qed

theorem pg_order_update_lost_witness:
  "\<exists>r e1 e2 s2 r2 r1 (s3 :: pg). pg_append_event (or_order_id r) e2 (empty_pg\<lparr>pg_orders := [(or_order_id r, r)]\<rparr>) =
       (Inr (Some r2), s2) \<and> or_events r2 = or_events r @ [e2] \<and>
     map_of (pg_orders s3) (or_order_id r) = Some r1 \<and> or_events r1 = or_events r @ [e1]"
proof -
  fix r :: order_record and e1 e2
  let ?s = "empty_pg\<lparr>pg_orders := [(or_order_id r, r)]\<rparr>"
  have f: "pg_faults ?s = []" by (simp add: empty_pg_def)
  have g: "pg_order_get (or_order_id r) ?s = (Inr (Some r), ?s)"
    using f by (simp add: pg_order_get_def sql_or_def op_catch_def sql_query_ok)
  obtain r2 s2 where a: "pg_append_event (or_order_id r) e2 ?s = (Inr (Some r2), s2)" and "pg_faults s2 = []"
    using f g by (simp add: pg_append_event_def op_bind_def write_back_def op_seq_def op_return_def
        pg_order_put_def sql_exec_ok)
  then obtain r1 s3 where "write_back (\<lambda>r. r\<lparr>or_events := or_events r @ [e1]\<rparr>) (Some r) s2 = (Inr (Some r1), s3)"
    by (simp add: op_bind_def write_back_def op_seq_def op_return_def pg_order_put_def sql_exec_ok)
  from pg_order_update_lost [OF f g refl a this] a show ?thesis by blast
qed

text \<open>With no failing statement, the mandate table answers and changes as the in-memory one.\<close>

lemma pg_record_mandate_eq:
  assumes "pg_faults s = []" "record_mandate now i e (pg_mandates s) = (x, m)"
  shows "pg_record_mandate now i e s = (x, s\<lparr>pg_mandates := m\<rparr>)"
proof -
  have "(\<lambda>k. case pg_mandates s k of Some e \<Rightarrow> if e \<le> now then None else Some e | None \<Rightarrow> None) =
        mandate_retain now (pg_mandates s)"
    by (auto simp: mandate_retain_def split: option.splits)
  with assms show ?thesis
    by (auto simp: pg_record_mandate_def record_mandate_def op_seq_def op_bind_def sql_oks Let_def
        split: option.splits if_splits)
qed

lemma pg_accept_once_eq:
  "pg_faults s = [] \<Longrightarrow> accept_once i (pg_inbox s) = (x, m) \<Longrightarrow> pg_accept_once i s = (x, s\<lparr>pg_inbox := m\<rparr>)"
  by (auto simp: pg_accept_once_def accept_once_def sql_ok)

interpretation pg_inbox: dedupe_store pg_inbox pg_accept_once
  by unfold_locales (auto simp: pg_accept_once_def dest!: sql_Inr)

end
