(* ===== verification/Text_Parsing.thy ===== *)
theory Text_Parsing
  imports Validation
begin

text \<open>
  The parts of Rust's \<open>str\<close> that the header parsers, the configuration and the retry logic use:
  \<open>split_once\<close>, \<open>strip_suffix\<close>, \<open>split_whitespace\<close>, \<open>find\<close> with a slice on each side, and decimal
  parsing (\<open>parse::<u64>\<close>, \<open>parse::<i64>\<close>), with the laws that relate them to \<open>format!\<close>.
\<close>

section \<open>Sequencing of fallible pure steps\<close>

definition res_bind :: "'e + 'a \<Rightarrow> ('a \<Rightarrow> 'e + 'b) \<Rightarrow> 'e + 'b" where
  "res_bind m f = (case m of Inl e \<Rightarrow> Inl e | Inr a \<Rightarrow> f a)"

definition ok_or :: "'e \<Rightarrow> 'a option \<Rightarrow> 'e + 'a" where
  "ok_or e x = (case x of None \<Rightarrow> Inl e | Some a \<Rightarrow> Inr a)"

fun res_map :: "('a \<Rightarrow> 'e + 'b) \<Rightarrow> 'a list \<Rightarrow> 'e + 'b list" where
  "res_map f [] = Inr []"
| "res_map f (x # xs) = res_bind (f x) (\<lambda>y. res_bind (res_map f xs) (\<lambda>ys. Inr (y # ys)))"

lemma res_bind_simps [simp]: "res_bind (Inl e) f = Inl e" "res_bind (Inr a) f = f a"
  by (simp_all add: res_bind_def)

lemma ok_or_simps [simp]: "ok_or e None = Inl e" "ok_or e (Some a) = Inr a"
  by (simp_all add: ok_or_def)

lemma res_bind_Inr: "res_bind m f = Inr b \<longleftrightarrow> (\<exists>a. m = Inr a \<and> f a = Inr b)"
  by (cases m) auto

lemma ok_or_Inr: "ok_or e x = Inr a \<longleftrightarrow> x = Some a"
  by (cases x) auto

lemma res_map_Inr: "(\<And>x. x \<in> set xs \<Longrightarrow> f x = Inr (g x)) \<Longrightarrow> res_map f xs = Inr (map g xs)"
  by (induction xs) auto

section \<open>Splitting and stripping\<close>

fun split_once :: "char \<Rightarrow> string \<Rightarrow> (string \<times> string) option" where
  "split_once d [] = None"
| "split_once d (c # cs) =
     (if c = d then Some ([], cs) else map_option (\<lambda>(a, b). (c # a, b)) (split_once d cs))"

definition strip_suffix :: "string \<Rightarrow> string \<Rightarrow> string option" where
  "strip_suffix p s = map_option rev (strip_prefix (rev p) (rev s))"

text \<open>\<open>s.split_whitespace()\<close>: the maximal runs of characters that are not white space.\<close>

fun split_ws :: "string \<Rightarrow> string \<Rightarrow> string list" where
  "split_ws w [] = (if w = [] then [] else [w])"
| "split_ws w (c # cs) =
     (if is_ascii_ws c then (if w = [] then split_ws [] cs else w # split_ws [] cs)
      else split_ws (w @ [c]) cs)"

definition split_whitespace :: "string \<Rightarrow> string list" where
  "split_whitespace s = split_ws [] s"

definition trim_end_matches :: "char \<Rightarrow> string \<Rightarrow> string" where
  "trim_end_matches d s = rev (dropWhile (\<lambda>c. c = d) (rev s))"

lemma split_once_append: "d \<notin> set a \<Longrightarrow> split_once d (a @ d # b) = Some (a, b)"
  by (induction a) auto

lemma split_once_None: "split_once d s = None \<longleftrightarrow> d \<notin> set s"
  by (induction s) auto

lemma split_once_Some: "split_once d s = Some (a, b) \<Longrightarrow> s = a @ d # b \<and> d \<notin> set a"
  by (induction s arbitrary: a) (auto split: if_splits)

lemma strip_suffix_append [simp]: "strip_suffix p (s @ p) = Some s"
  by (simp add: strip_suffix_def strip_prefix_Some)

lemma strip_quotes: "strip_suffix [q] (s @ [q]) = Some s"
  by simp

lemma str_split_no: "d \<notin> set s \<Longrightarrow> str_split d s = [s]"
  by (induction s) auto

lemma str_split_append: "d \<notin> set a \<Longrightarrow> str_split d (a @ d # b) = a # str_split d b"
  by (induction a) auto

lemma split_ws_word:
  assumes "\<forall>c \<in> set a. \<not> is_ascii_ws c"
  shows "split_ws w (a @ s) = split_ws (w @ a) s"
  using assms by (induction a arbitrary: w) auto

lemma split_whitespace_join:
  assumes "\<forall>x \<in> set xs. x \<noteq> [] \<and> (\<forall>c \<in> set x. \<not> is_ascii_ws c)"
  shows "split_whitespace (str_join '' '' xs) = xs"
  using assms
proof (induction xs rule: induct_list012)
  case 1
  show ?case by (simp add: split_whitespace_def)
next
  case (2 x)
  then show ?case using split_ws_word [of x "[]" "[]"] by (simp add: split_whitespace_def)
next
  case (3 x y zs)
  then show ?case
    using split_ws_word [of x "[]" "CHR '' '' # str_join '' '' (y # zs)"]
    by (simp add: split_whitespace_def is_ascii_ws_def)
qed

lemma str_trim_id:
  assumes "s \<noteq> []" "\<not> is_ascii_ws (hd s)" "\<not> is_ascii_ws (last s)"
  shows "str_trim s = s"
proof -
  have "dropWhile is_ascii_ws s = s" using assms by (cases s) auto
  moreover have "dropWhile is_ascii_ws (rev s) = rev s" using assms by (cases s rule: rev_cases) auto
  ultimately show ?thesis by (simp add: str_trim_def)
qed

lemma str_trim_no_ws: "\<forall>c \<in> set s. \<not> is_ascii_ws c \<Longrightarrow> str_trim s = s"
  by (cases "s = []") (auto intro!: str_trim_id)

lemma set_str_trim: "set (str_trim s) \<subseteq> set s"
  by (auto simp: str_trim_def dest!: set_dropWhileD)

lemma trim_end_matches_id: "s = [] \<or> last s \<noteq> d \<Longrightarrow> trim_end_matches d s = s"
  by (cases s rule: rev_cases) (auto simp: trim_end_matches_def)

section \<open>Decimal numbers\<close>

definition is_digit :: "char \<Rightarrow> bool" where
  "is_digit c \<longleftrightarrow> 48 \<le> (of_char c :: nat) \<and> (of_char c :: nat) \<le> 57"

definition digits_value :: "string \<Rightarrow> nat" where
  "digits_value ds = foldl (\<lambda>a c. 10 * a + (of_char c - 48)) 0 ds"

definition is_decimal :: "string \<Rightarrow> bool" where
  "is_decimal ds \<longleftrightarrow> ds \<noteq> [] \<and> list_all is_digit ds"

text \<open>\<open>str::parse::<u64>\<close>: an optional plus sign and decimal digits, within range.\<close>

definition parse_u64 :: "string \<Rightarrow> nat option" where
  "parse_u64 s =
     (let ds = (case s of c # cs \<Rightarrow> if c = CHR ''+'' then cs else s | [] \<Rightarrow> [])
      in if is_decimal ds \<and> digits_value ds < 2 ^ 64 then Some (digits_value ds) else None)"

text \<open>\<open>str::parse::<i64>\<close>: an optional sign and decimal digits, within range.\<close>

definition parse_i64 :: "string \<Rightarrow> i64 option" where
  "parse_i64 s =
     (let (neg, ds) = (case s of
             c # cs \<Rightarrow> if c = CHR ''-'' then (True, cs) else if c = CHR ''+'' then (False, cs) else (False, s)
           | [] \<Rightarrow> (False, []));
          n = (if neg then - int (digits_value ds) else int (digits_value ds))
      in if is_decimal ds \<and> in_i64 n then Some n else None)"

lemma digit_char:
  assumes "d < 10"
  shows "is_digit (char_of (48 + d :: nat))" "of_char (char_of (48 + d :: nat)) - 48 = d"
  using assms by (simp_all add: is_digit_def)

lemma show_nat_decimal: "is_decimal (show_nat n)"
proof (induction n rule: less_induct)
  case (less n)
  show ?case
  proof (cases "n < 10")
    case True
    then show ?thesis using digit_char [of n] by (subst show_nat.simps) (simp add: is_decimal_def)
  next
    case False
    then show ?thesis using less [of "n div 10"] digit_char [of "n mod 10"]
      by (subst show_nat.simps) (simp add: is_decimal_def)
  qed
qed

lemma digits_value_show: "digits_value (show_nat n) = n"
proof (induction n rule: less_induct)
  case (less n)
  show ?case
  proof (cases "n < 10")
    case True
    then show ?thesis using digit_char [of n] by (subst show_nat.simps) (simp add: digits_value_def)
  next
    case False
    then show ?thesis using less [of "n div 10"] digit_char [of "n mod 10"]
      by (subst show_nat.simps) (simp add: digits_value_def)
  qed
qed

lemma show_nat_hd: "is_digit (hd (show_nat n))" and show_nat_last: "is_digit (last (show_nat n))"
  and show_nat_ne [simp]: "show_nat n \<noteq> []" and show_nat_digits: "c \<in> set (show_nat n) \<Longrightarrow> is_digit c"
  using show_nat_decimal [of n] by (auto simp: is_decimal_def list_all_iff)

lemma digit_neq [simp]:
  "\<not> is_digit (CHR ''-'')" "\<not> is_digit (CHR ''+'')" "\<not> is_digit (CHR '','')" "\<not> is_digit (CHR '';'')"
  "\<not> is_digit (CHR '':'')" "\<not> is_digit (CHR ''('')" "\<not> is_digit (CHR '')'')" "\<not> is_digit (CHR 0x22)"
  "\<not> is_digit (CHR 0x5C)" "\<not> is_digit (CHR ''='')"
  by (simp_all add: is_digit_def)

lemma digit_not_ws: "is_digit c \<Longrightarrow> \<not> is_ascii_ws c"
  by (auto simp: is_digit_def is_ascii_ws_def)

text \<open>Printing and reading back a 64-bit integer.\<close>

lemma show_nat_sign: "show_nat n = c # cs \<Longrightarrow> c \<noteq> CHR ''-'' \<and> c \<noteq> CHR ''+''"
  using show_nat_hd [of n] by auto

lemma parse_show_i64: "in_i64 i \<Longrightarrow> parse_i64 (show_int i) = Some i"
proof (cases "i < 0")
  case True
  assume "in_i64 i"
  with True show ?thesis
    using show_nat_decimal [of "nat (- i)"] by (simp add: parse_i64_def show_int_def digits_value_show)
next
  case False
  assume "in_i64 i"
  obtain c cs where "show_nat (nat i) = c # cs" by (cases "show_nat (nat i)") auto
  with False \<open>in_i64 i\<close> show ?thesis
    using show_nat_decimal [of "nat i"] show_nat_sign [of "nat i"] digits_value_show [of "nat i"]
    by (simp add: parse_i64_def show_int_def)
qed

lemma show_int_chars: "c \<in> set (show_int i) \<Longrightarrow> is_digit c \<or> c = CHR ''-''"
  by (auto simp: show_int_def dest: show_nat_digits split: if_splits)

lemma show_int_ne [simp]: "show_int i \<noteq> []"
  by (simp add: show_int_def)

lemma show_int_no_ws: "\<forall>c \<in> set (show_int i). \<not> is_ascii_ws c"
proof
  fix c
  assume "c \<in> set (show_int i)"
  then have "is_digit c \<or> c = CHR ''-''" by (rule show_int_chars)
  then show "\<not> is_ascii_ws c" by (auto simp: is_digit_def is_ascii_ws_def)
qed

end
