(* ===== verification/Circuit.thy ===== *)
theory Circuit
  imports Commerce_Prelude
begin

text \<open>
  The circuit breaker in front of every provider (\<open>integration-adapters/src/circuit.rs\<close>): three states
  under a lock, driven by the calls \<open>acquire\<close>, \<open>on_success\<close> and \<open>on_failure\<close>. Readings of the
  monotonic clock and durations are in milliseconds; the clock reading an operation takes is its
  argument. Metrics and log lines are not modelled.
\<close>

datatype circuit_state = StClosed | StOpen | StHalfOpen

definition as_metric :: "circuit_state \<Rightarrow> i64" where
  "as_metric st = (case st of StClosed \<Rightarrow> 0 | StHalfOpen \<Rightarrow> 1 | StOpen \<Rightarrow> 2)"

record circuit_breaker_config =
  cb_enabled :: bool
  cb_failure_threshold :: u32
  cb_open_duration :: nat
  cb_probe_timeout :: nat

definition default_circuit_breaker_config :: circuit_breaker_config where
  "default_circuit_breaker_config =
     \<lparr>cb_enabled = True, cb_failure_threshold = 5, cb_open_duration = 30000, cb_probe_timeout = 60000\<rparr>"

datatype circuit_internal =
    Closed u32
  | Open int
  | HalfOpen int

definition new_circuit :: circuit_internal where
  "new_circuit = Closed 0"

definition circuit_state_at :: "int \<Rightarrow> circuit_internal \<Rightarrow> circuit_state" where
  "circuit_state_at now c =
     (case c of
        Closed _ \<Rightarrow> StClosed
      | HalfOpen _ \<Rightarrow> StHalfOpen
      | Open until \<Rightarrow> if until \<le> now then StHalfOpen else StOpen)"

text \<open>Whether the call is admitted, and the new state.\<close>

definition acquire :: "circuit_breaker_config \<Rightarrow> int \<Rightarrow> circuit_internal \<Rightarrow> bool \<times> circuit_internal" where
  "acquire cfg now c =
     (if \<not> cb_enabled cfg then (True, c)
      else case c of
        Closed _ \<Rightarrow> (True, c)
      | HalfOpen until \<Rightarrow>
          if until \<le> now then (True, HalfOpen (now + int (cb_probe_timeout cfg))) else (False, c)
      | Open until \<Rightarrow>
          if until \<le> now then (True, HalfOpen (now + int (cb_probe_timeout cfg))) else (False, c))"

definition on_success :: "circuit_breaker_config \<Rightarrow> circuit_internal \<Rightarrow> circuit_internal" where
  "on_success cfg c = (if \<not> cb_enabled cfg then c else Closed 0)"

definition u32_saturating_inc :: "u32 \<Rightarrow> u32" where
  "u32_saturating_inc n = (if n = - 1 then n else n + 1)"

definition on_failure :: "circuit_breaker_config \<Rightarrow> int \<Rightarrow> circuit_internal \<Rightarrow> circuit_internal" where
  "on_failure cfg now c =
     (if \<not> cb_enabled cfg then c
      else
        let opened = Open (now + int (cb_open_duration cfg)) in
        case c of
          Closed consecutive \<Rightarrow>
            (let failures = u32_saturating_inc consecutive
             in if failures \<ge> cb_failure_threshold cfg then opened else Closed failures)
        | _ \<Rightarrow> opened)"

definition status_counts_as_failure :: "u16 \<Rightarrow> bool" where
  "status_counts_as_failure status \<longleftrightarrow>
     status = 408 \<or> status = 429 \<or> (500 \<le> status \<and> status \<le> 599)"

section \<open>Behaviour over time\<close>

datatype breaker_call = Acquire int bool | Success | Failure int

text \<open>The state after a sequence of calls, where \<open>Acquire t b\<close> records the answer \<open>b\<close> at time \<open>t\<close>.\<close>

fun breaker_run :: "circuit_breaker_config \<Rightarrow> circuit_internal \<Rightarrow> breaker_call list \<Rightarrow> circuit_internal option" where
  "breaker_run cfg c [] = Some c"
| "breaker_run cfg c (Acquire t b # es) =
     (case acquire cfg t c of (b', c') \<Rightarrow> if b' = b then breaker_run cfg c' es else None)"
| "breaker_run cfg c (Success # es) = breaker_run cfg (on_success cfg c) es"
| "breaker_run cfg c (Failure t # es) = breaker_run cfg (on_failure cfg t c) es"

fun admitted :: "breaker_call list \<Rightarrow> int list" where
  "admitted [] = []"
| "admitted (Acquire t True # es) = t # admitted es"
| "admitted (_ # es) = admitted es"

fun unsettled :: "breaker_call list \<Rightarrow> bool" where
  "unsettled [] = True"
| "unsettled (Acquire t b # es) = unsettled es"
| "unsettled (_ # es) = False"

fun not_before :: "circuit_internal \<Rightarrow> int option" where
  "not_before (Closed n) = None"
| "not_before (Open t) = Some t"
| "not_before (HalfOpen t) = Some t"

text \<open>Invariant: below the threshold while closed.\<close>

definition circuit_ok :: "circuit_breaker_config \<Rightarrow> circuit_internal \<Rightarrow> bool" where
  "circuit_ok cfg c \<longleftrightarrow> (case c of Closed n \<Rightarrow> n = 0 \<or> n < cb_failure_threshold cfg | _ \<Rightarrow> True)"

lemma circuit_ok_ops:
  "circuit_ok cfg new_circuit"
  "circuit_ok cfg c \<Longrightarrow> circuit_ok cfg (snd (acquire cfg t c))"
  "circuit_ok cfg c \<Longrightarrow> circuit_ok cfg (on_success cfg c)"
  "circuit_ok cfg c \<Longrightarrow> circuit_ok cfg (on_failure cfg t c)"
  by (auto simp: circuit_ok_def new_circuit_def acquire_def on_success_def on_failure_def Let_def not_le
      split: circuit_internal.splits if_splits)

text \<open>While nothing settles, a breaker that is not closed admits calls at least a probe timeout apart.\<close>

lemma probes_apart:
  assumes "cb_enabled cfg" "not_before c = Some u" "unsettled es" "breaker_run cfg c es = Some c'"
  shows "sorted_wrt (\<lambda>a b. a + int (cb_probe_timeout cfg) \<le> b) (admitted es) \<and> (\<forall>t \<in> set (admitted es). u \<le> t)"
  using assms
proof (induction es arbitrary: c u)
  case (Cons e es)
  from Cons.prems(3) obtain t b where e: "e = Acquire t b" and un: "unsettled es" by (cases e) auto
  show ?case
  proof (cases "u \<le> t")
    case True
    with Cons.prems e have "b" "breaker_run cfg (HalfOpen (t + int (cb_probe_timeout cfg))) es = Some c'"
      by (cases c; simp add: acquire_def split: if_splits)+
    with Cons.IH [OF Cons.prems(1) _ un, of "HalfOpen (t + int (cb_probe_timeout cfg))"] e True
    show ?thesis by fastforce
  next
    case False
    with Cons.prems e have "\<not> b" "breaker_run cfg c es = Some c'"
      by (cases c; simp add: acquire_def split: if_splits)+
    with Cons.IH [OF Cons.prems(1,2) un] e show ?thesis by (cases b) simp_all
  qed
qed simp

lemma probes_state:
  assumes "cb_enabled cfg" "not_before c = Some u" "unsettled es" "breaker_run cfg c es = Some c'"
  shows "\<exists>v. not_before c' = Some v \<and>
             (v = u \<or> (\<exists>t \<in> set (admitted es). v = t + int (cb_probe_timeout cfg)))"
  using assms
proof (induction es arbitrary: c u)
  case (Cons e es)
  from Cons.prems(3) obtain t b where e: "e = Acquire t b" and un: "unsettled es" by (cases e) auto
  show ?case
  proof (cases "u \<le> t")
    case True
    with Cons.prems e have "b" "breaker_run cfg (HalfOpen (t + int (cb_probe_timeout cfg))) es = Some c'"
      by (cases c; simp add: acquire_def split: if_splits)+
    with Cons.IH [OF Cons.prems(1) _ un, of "HalfOpen (t + int (cb_probe_timeout cfg))"] e
    show ?thesis by fastforce
  next
    case False
    with Cons.prems e have "\<not> b" "breaker_run cfg c es = Some c'"
      by (cases c; simp add: acquire_def split: if_splits)+
    with Cons.IH [OF Cons.prems(1,2) un] e show ?thesis by (cases b) simp_all
  qed
qed simp

lemma acquire_due: "not_before c = Some v \<Longrightarrow> v \<le> t \<Longrightarrow> fst (acquire cfg t c)"
  by (cases c) (auto simp: acquire_def)

lemma u32_of_nat: "n < 2 ^ 32 \<Longrightarrow> unat (of_nat n :: u32) = n"
  by (simp add: unsigned_of_nat take_bit_nat_eq_self)

lemma u32_inc:
  assumes "Suc n < 2 ^ 32"
  shows "u32_saturating_inc (of_nat n) = of_nat (Suc n)"
proof -
  have "of_nat n \<noteq> (- 1 :: u32)"
  proof
    assume "of_nat n = (- 1 :: u32)"
    then have "of_nat (Suc n) = (0 :: u32)" by simp
    with u32_of_nat [OF assms] show False by simp
  qed
  then show ?thesis by (simp add: u32_saturating_inc_def add.commute)
qed

lemma u32_small: "n \<le> unat (k :: u32) \<Longrightarrow> n < 2 ^ 32"
  using unsigned_less [where 'a = nat, of k] by simp

lemma failures_below:
  assumes "cb_enabled cfg" "length ts < unat (cb_failure_threshold cfg)"
  shows "fold (on_failure cfg) ts new_circuit = Closed (of_nat (length ts))"
  using assms(2)
proof (induction ts rule: rev_induct)
  case Nil
  show ?case by (simp add: new_circuit_def)
next
  case (snoc t ts)
  then have small: "Suc (length ts) < 2 ^ 32" using u32_small [of "Suc (length ts)" "cb_failure_threshold cfg"] by simp
  have "\<not> cb_failure_threshold cfg \<le> of_nat (Suc (length ts))"
    using snoc.prems u32_of_nat [OF small] by (simp add: word_le_nat_alt)
  with snoc assms(1) u32_inc [OF small] show ?case by (simp add: on_failure_def Let_def)
qed

lemma failures_open:
  assumes "cb_enabled cfg" "length ts = unat (cb_failure_threshold cfg)" "ts \<noteq> []"
  shows "fold (on_failure cfg) ts new_circuit = Open (last ts + int (cb_open_duration cfg))"
proof -
  obtain us t where ts: "ts = us @ [t]" using assms(3) by (cases ts rule: rev_exhaust) auto
  with assms(2) have len: "Suc (length us) = unat (cb_failure_threshold cfg)" by simp
  then have below: "fold (on_failure cfg) us new_circuit = Closed (of_nat (length us))"
    using failures_below [OF assms(1), of us] by simp
  have small: "Suc (length us) < 2 ^ 32" using len u32_small [of "Suc (length us)" "cb_failure_threshold cfg"] by simp
  have "cb_failure_threshold cfg \<le> of_nat (Suc (length us))"
    using u32_of_nat [OF small] len by (simp add: word_le_nat_alt)
  with u32_inc [OF small] ts below assms(1) show ?thesis by (simp add: on_failure_def Let_def)
qed

text \<open>
  C28: the life of a breaker. It stays closed, counting, up to the last failure before the threshold and
  opens at the threshold; from then on, until a call settles, no call is admitted before the open
  window has passed and admitted probes are at least a probe timeout apart; and it is never wedged:
  as soon as the window and the timeouts of all probes admitted so far have passed, a call is admitted.
\<close>

theorem circuit_breaker_cycle:
  assumes "cb_enabled cfg" "length ts = unat (cb_failure_threshold cfg)" "ts \<noteq> []"
  shows "(\<forall>k < length ts. fold (on_failure cfg) (take k ts) new_circuit = Closed (of_nat k)) \<and>
    (\<forall>es c'. unsettled es \<longrightarrow> breaker_run cfg (fold (on_failure cfg) ts new_circuit) es = Some c' \<longrightarrow>
       (\<forall>t \<in> set (admitted es). last ts + int (cb_open_duration cfg) \<le> t) \<and>
       sorted_wrt (\<lambda>a b. a + int (cb_probe_timeout cfg) \<le> b) (admitted es) \<and>
       (\<forall>now. last ts + int (cb_open_duration cfg) \<le> now \<longrightarrow>
          (\<forall>t \<in> set (admitted es). t + int (cb_probe_timeout cfg) \<le> now) \<longrightarrow> fst (acquire cfg now c')))"
proof (intro conjI allI impI)
  fix k
  assume "k < length ts"
  then show "fold (on_failure cfg) (take k ts) new_circuit = Closed (of_nat k)"
    using failures_below [OF assms(1), of "take k ts"] assms(2) by simp
next
  fix es c'
  assume un: "unsettled es" and run: "breaker_run cfg (fold (on_failure cfg) ts new_circuit) es = Some c'"
  note open_state = failures_open [OF assms]
  have nb: "not_before (fold (on_failure cfg) ts new_circuit) = Some (last ts + int (cb_open_duration cfg))"
    by (simp add: open_state)
  note apart = probes_apart [OF assms(1) nb un run] and state = probes_state [OF assms(1) nb un run]
  from apart show "\<forall>t \<in> set (admitted es). last ts + int (cb_open_duration cfg) \<le> t"
    and "sorted_wrt (\<lambda>a b. a + int (cb_probe_timeout cfg) \<le> b) (admitted es)" by blast+
  fix now
  assume "last ts + int (cb_open_duration cfg) \<le> now" "\<forall>t \<in> set (admitted es). t + int (cb_probe_timeout cfg) \<le> now"
  with state show "fst (acquire cfg now c')" using acquire_due by blast
qed

theorem circuit_breaker_cycle_witness:
  "fold (on_failure default_circuit_breaker_config) (take 4 [1, 2, 3, 4, 5]) new_circuit = Closed 4"
proof -
  let ?ts = "[1, 2, 3, 4, 5] :: int list"
  have "cb_enabled default_circuit_breaker_config"
    "length ?ts = unat (cb_failure_threshold default_circuit_breaker_config)" "?ts \<noteq> []"
    by (simp_all add: default_circuit_breaker_config_def)
  from conjunct1 [OF circuit_breaker_cycle [OF this], rule_format, of 4] show ?thesis
    by (simp only: length_Cons list.size of_nat_numeral)
qed

end
