(* ===== verification/Http_Client.thy ===== *)
theory Http_Client
  imports Text_Parsing Circuit
begin

text \<open>
  The client for outbound calls to provider APIs (\<open>integration-adapters/src/client.rs\<close>, \<open>auth.rs\<close>,
  \<open>error.rs\<close>): retries with backoff, the circuit breaker around them, credentials with a token cache,
  and the mapping of errors. The network, the clocks and the token endpoint are the fields of
  \<open>http_env\<close>; the answer to a request may depend on every call made before. Building the TLS client
  and recording metrics are not modelled. Times are in milliseconds.
\<close>

section \<open>Errors\<close>

text \<open>What \<open>reqwest\<close> says of a failed send.\<close>

record transport_error =
  tp_connect :: bool
  tp_timeout :: bool
  tp_request :: bool
  tp_text :: string

datatype adapter_error =
    Http transport_error
  | Timeout nat
  | Status u16 string
  | Json string
  | CircuitOpen string
  | Config string

text \<open>The rendering of durations and statuses is an argument.\<close>

definition adapter_error_display :: "(nat \<Rightarrow> string) \<Rightarrow> (u16 \<Rightarrow> string) \<Rightarrow> adapter_error \<Rightarrow> string" where
  "adapter_error_display show_duration show_status e =
     (case e of
        Http t \<Rightarrow> ''HTTP request failed: '' @ tp_text t
      | Timeout d \<Rightarrow> ''timeout after '' @ show_duration d
      | Status st body \<Rightarrow> ''unexpected response status '' @ show_status st @ '': '' @ body
      | Json m \<Rightarrow> ''invalid JSON: '' @ m
      | CircuitOpen p \<Rightarrow> ''circuit open for provider '' @ p @ '': not attempting call''
      | Config m \<Rightarrow> ''configuration error: '' @ m)"

definition to_catalog_error :: "(adapter_error \<Rightarrow> string) \<Rightarrow> adapter_error \<Rightarrow> catalog_error" where
  "to_catalog_error display e = CatalogNotFound (display e)"

definition to_pricing_error :: "(adapter_error \<Rightarrow> string) \<Rightarrow> adapter_error \<Rightarrow> pricing_error" where
  "to_pricing_error display e = PricingFailed (display e)"

definition to_tax_error :: "(adapter_error \<Rightarrow> string) \<Rightarrow> adapter_error \<Rightarrow> tax_error" where
  "to_tax_error display e = TaxFailed (display e)"

definition to_geo_error :: "(adapter_error \<Rightarrow> string) \<Rightarrow> adapter_error \<Rightarrow> geo_error" where
  "to_geo_error display e = GeoFailed (display e)"

definition to_payment_error :: "(adapter_error \<Rightarrow> string) \<Rightarrow> adapter_error \<Rightarrow> payment_error" where
  "to_payment_error display e = PaymentAuthFailed (display e)"

definition to_receipt_error :: "(adapter_error \<Rightarrow> string) \<Rightarrow> adapter_error \<Rightarrow> receipt_error" where
  "to_receipt_error display e = ReceiptFailed (display e)"

definition to_fulfillment_error :: "(adapter_error \<Rightarrow> string) \<Rightarrow> adapter_error \<Rightarrow> fulfillment_error" where
  "to_fulfillment_error display e = FulfillmentFailed (display e)"

section \<open>Requests, configuration, environment\<close>

record http_request =
  rq_method :: string
  rq_url :: string
  rq_headers :: "(string \<times> string) list"
  rq_body :: string

datatype send_result = Response u16 "string option" string | SendError transport_error

type_synonym call = "http_request \<times> send_result"

datatype token_reply =
    TokenSendError string
  | TokenStatus u16
  | TokenBadJson string
  | TokenBody string "nat option"

record oauth2_client_credentials =
  oc_token_url :: string
  oc_client_id :: string
  oc_client_secret :: string
  oc_scope :: "string option"
  oc_basic :: bool

datatype outbound_auth =
    NoAuth
  | Bearer string
  | ApiKey string string
  | OAuth2 oauth2_client_credentials

record tls_config =
  tc_client_identity_pem :: "string option"
  tc_ca_bundle_pem :: "string option"

definition default_tls_config :: tls_config where
  "default_tls_config = \<lparr>tc_client_identity_pem = None, tc_ca_bundle_pem = None\<rparr>"

record client_config =
  hc_connect_timeout :: nat
  hc_timeout :: nat
  hc_max_retries :: u32
  hc_retry_backoff_ms :: u64
  hc_auth :: outbound_auth
  hc_tls :: tls_config
  hc_circuit_breaker :: "(string \<times> circuit_breaker_config) option"

definition default_client_config :: client_config where
  "default_client_config = \<lparr>hc_connect_timeout = 5000, hc_timeout = 30000, hc_max_retries = 3, hc_retry_backoff_ms = 100,
     hc_auth = NoAuth, hc_tls = default_tls_config, hc_circuit_breaker = None\<rparr>"

record request_options =
  ro_correlation_id :: "string option"
  ro_idempotency_key :: "string option"
  ro_extra_headers :: "(string \<times> string) list"

definition no_options :: request_options where
  "no_options = \<lparr>ro_correlation_id = None, ro_idempotency_key = None, ro_extra_headers = []\<rparr>"

definition with_correlation_id :: "string option \<Rightarrow> request_options \<Rightarrow> request_options" where
  "with_correlation_id c opts = opts\<lparr>ro_correlation_id := c\<rparr>"

definition with_idempotency_key :: "string \<Rightarrow> request_options \<Rightarrow> request_options" where
  "with_idempotency_key k opts = opts\<lparr>ro_idempotency_key := Some k\<rparr>"

definition with_headers :: "(string \<times> string) list \<Rightarrow> request_options \<Rightarrow> request_options" where
  "with_headers hs opts = opts\<lparr>ro_extra_headers := hs\<rparr>"

text \<open>
  The environment, and the state of a client: breaker, token cache, the calls sent so far with their
  results, the pauses taken, and a counter behind every reading of a clock.
\<close>

record http_env =
  he_correlation_id :: "string option"
  he_send :: "call list \<Rightarrow> http_request \<Rightarrow> send_result"
  he_token :: "nat \<Rightarrow> oauth2_client_credentials \<Rightarrow> token_reply"
  he_instant :: "nat \<Rightarrow> int"
  he_subsec_nanos :: "nat \<Rightarrow> nat"
  he_show_status :: "u16 \<Rightarrow> string"

record client_state =
  cs_breaker :: circuit_internal
  cs_token :: "(string \<times> int option) option"
  cs_calls :: "call list"
  cs_slept :: "nat list"
  cs_ticks :: nat

type_synonym 'a client = "(client_state, adapter_error, 'a) op"

definition instant_now :: "http_env \<Rightarrow> int client" where
  "instant_now env s = (Inr (he_instant env (cs_ticks s)), s\<lparr>cs_ticks := Suc (cs_ticks s)\<rparr>)"

section \<open>Credentials\<close>

definition TOKEN_EXPIRY_SKEW :: int where
  "TOKEN_EXPIRY_SKEW = 60000"

definition is_usable :: "int \<Rightarrow> string \<times> int option \<Rightarrow> bool" where
  "is_usable now token = (case snd token of None \<Rightarrow> True | Some at \<Rightarrow> now + TOKEN_EXPIRY_SKEW < at)"

definition is_success :: "u16 \<Rightarrow> bool" where
  "is_success status \<longleftrightarrow> 200 \<le> status \<and> status \<le> 299"

definition mint :: "http_env \<Rightarrow> oauth2_client_credentials \<Rightarrow> (string \<times> int option) client" where
  "mint env c =
     op_bind (op_gets (\<lambda>s. he_token env (cs_ticks s) c)) (\<lambda>reply.
     op_bind (instant_now env) (\<lambda>now.
       case reply of
         TokenSendError e \<Rightarrow> op_fail (Config (''oauth token request to '' @ oc_token_url c @ '' failed: '' @ e))
       | TokenStatus st \<Rightarrow> op_fail (Config (''oauth token endpoint '' @ oc_token_url c @ '' returned status '' @
           he_show_status env st))
       | TokenBadJson e \<Rightarrow> op_fail (Config (''oauth token response was not valid JSON: '' @ e))
       | TokenBody token expires_in \<Rightarrow>
           if token = [] then op_fail (Config ''oauth token response contained an empty access_token'')
           else op_return (token, map_option (\<lambda>secs. now + 1000 * int secs) expires_in)))"

text \<open>The second look at the cache, under the write lock, matters only between tasks.\<close>

definition access_token :: "http_env \<Rightarrow> oauth2_client_credentials \<Rightarrow> string client" where
  "access_token env c =
     op_bind (instant_now env) (\<lambda>now.
     op_bind (op_gets cs_token) (\<lambda>cache.
       case cache of
         Some token \<Rightarrow>
           if is_usable now token then op_return (fst token)
           else op_bind (mint env c) (\<lambda>minted.
             op_seq (op_modify (\<lambda>s. s\<lparr>cs_token := Some minted\<rparr>)) (op_return (fst minted)))
       | None \<Rightarrow> op_bind (mint env c) (\<lambda>minted.
             op_seq (op_modify (\<lambda>s. s\<lparr>cs_token := Some minted\<rparr>)) (op_return (fst minted)))))"

definition add_header :: "string \<Rightarrow> string \<Rightarrow> http_request \<Rightarrow> http_request" where
  "add_header name v rq = rq\<lparr>rq_headers := rq_headers rq @ [(name, v)]\<rparr>"

definition apply_auth :: "http_env \<Rightarrow> outbound_auth \<Rightarrow> http_request \<Rightarrow> http_request client" where
  "apply_auth env auth rq =
     (case auth of
        NoAuth \<Rightarrow> op_return rq
      | Bearer token \<Rightarrow> op_return (add_header ''Authorization'' (''Bearer '' @ token) rq)
      | ApiKey header v \<Rightarrow> op_return (add_header header v rq)
      | OAuth2 c \<Rightarrow> op_bind (access_token env c) (\<lambda>token.
          op_return (add_header ''Authorization'' (''Bearer '' @ token) rq)))"

section \<open>Retries\<close>

definition status_is_retryable :: "u16 \<Rightarrow> bool" where
  "status_is_retryable status \<longleftrightarrow> status \<in> {408, 425, 429, 500, 502, 503, 504}"

definition MAX_RETRY_AFTER :: nat where
  "MAX_RETRY_AFTER = 30000"

definition retry_after_delay :: "string option \<Rightarrow> nat option" where
  "retry_after_delay header =
     (case header of
        None \<Rightarrow> None
      | Some raw \<Rightarrow> map_option (\<lambda>seconds. min (1000 * seconds) MAX_RETRY_AFTER) (parse_u64 (str_trim raw)))"

definition u64_saturate :: "nat \<Rightarrow> nat" where
  "u64_saturate n = min n (2 ^ 64 - 1)"

definition backoff_base :: "client_config \<Rightarrow> nat \<Rightarrow> nat" where
  "backoff_base cfg attempt = u64_saturate (unat (hc_retry_backoff_ms cfg) * u64_saturate (2 ^ attempt))"

definition backoff_delay :: "client_config \<Rightarrow> nat \<Rightarrow> nat \<Rightarrow> nat" where
  "backoff_delay cfg attempt nanos =
     (let half = backoff_base cfg attempt div 2;
          jitter = (if half = 0 then 0 else nanos mod (half + 1))
      in half + jitter)"

datatype retry_policy = Idempotent | NonIdempotent

definition allows_status_retry :: "retry_policy \<Rightarrow> u16 \<Rightarrow> bool" where
  "allows_status_retry policy status \<longleftrightarrow> policy = Idempotent \<and> status_is_retryable status"

definition allows_transport_retry :: "retry_policy \<Rightarrow> transport_error \<Rightarrow> bool" where
  "allows_transport_retry policy e = (case policy of Idempotent \<Rightarrow> True | NonIdempotent \<Rightarrow> tp_connect e)"

definition transport_failure_counts :: "transport_error \<Rightarrow> bool" where
  "transport_failure_counts e \<longleftrightarrow> tp_connect e \<or> tp_timeout e \<or> tp_request e"

section \<open>The loop\<close>

definition breaker_admit :: "http_env \<Rightarrow> client_config \<Rightarrow> unit client" where
  "breaker_admit env cfg =
     (case hc_circuit_breaker cfg of
        None \<Rightarrow> op_return ()
      | Some (provider, cb) \<Rightarrow>
          op_bind (instant_now env) (\<lambda>now s.
            case acquire cb now (cs_breaker s) of
              (ok, c) \<Rightarrow> (if ok then Inr () else Inl (CircuitOpen provider), s\<lparr>cs_breaker := c\<rparr>)))"

definition breaker_settle :: "http_env \<Rightarrow> client_config \<Rightarrow> bool \<Rightarrow> unit client" where
  "breaker_settle env cfg healthy =
     (case hc_circuit_breaker cfg of
        None \<Rightarrow> op_return ()
      | Some (_, cb) \<Rightarrow>
          if healthy then op_modify (\<lambda>s. s\<lparr>cs_breaker := on_success cb (cs_breaker s)\<rparr>)
          else op_bind (instant_now env) (\<lambda>now.
                 op_modify (\<lambda>s. s\<lparr>cs_breaker := on_failure cb now (cs_breaker s)\<rparr>)))"

definition build_request ::
  "http_env \<Rightarrow> string \<Rightarrow> string \<Rightarrow> string \<Rightarrow> request_options \<Rightarrow> http_request" where
  "build_request env meth url body opts =
     \<lparr>rq_method = meth, rq_url = url,
      rq_headers =
        (case (case ro_correlation_id opts of Some c \<Rightarrow> Some c | None \<Rightarrow> he_correlation_id env) of
           Some cid \<Rightarrow> [(''X-Correlation-ID'', cid)] | None \<Rightarrow> []) @
        (case ro_idempotency_key opts of Some key \<Rightarrow> [(''Idempotency-Key'', key)] | None \<Rightarrow> []) @
        ro_extra_headers opts,
      rq_body = body\<rparr>"

definition send :: "http_env \<Rightarrow> http_request \<Rightarrow> send_result client" where
  "send env rq s =
     (let r = he_send env (cs_calls s) rq in (Inr r, s\<lparr>cs_calls := cs_calls s @ [(rq, r)]\<rparr>))"

definition pause :: "http_env \<Rightarrow> client_config \<Rightarrow> nat \<Rightarrow> nat option \<Rightarrow> unit client" where
  "pause env cfg attempt retry_after s =
     (let d = (case retry_after of Some d \<Rightarrow> d | None \<Rightarrow>
                 backoff_delay cfg attempt (he_subsec_nanos env (cs_ticks s)))
      in (Inr (), s\<lparr>cs_slept := cs_slept s @ [d], cs_ticks := Suc (cs_ticks s)\<rparr>))"

text \<open>
  One attempt: \<open>Inl\<close> stops with an error of its own; otherwise the response of a success, or the error
  to remember with whether the request may be repeated and the pause the provider asked for.
\<close>

datatype verdict = Done send_result | Unsuccessful adapter_error bool "nat option"

definition judge :: "http_env \<Rightarrow> client_config \<Rightarrow> retry_policy \<Rightarrow> send_result \<Rightarrow> verdict client" where
  "judge env cfg policy r =
     (case r of
        Response status retry_after body \<Rightarrow>
          op_seq (breaker_settle env cfg (is_success status \<or> \<not> status_counts_as_failure status))
            (op_return
              (if is_success status then Done r
               else let retryable = allows_status_retry policy status
                    in Unsuccessful (Status status body) retryable
                         (if retryable then retry_after_delay retry_after else None)))
      | SendError e \<Rightarrow>
          op_seq (if transport_failure_counts e then breaker_settle env cfg False else op_return ())
            (op_return (Unsuccessful (if tp_timeout e then Timeout (hc_timeout cfg) else Http e)
               (allows_transport_retry policy e) None)))"

definition attempt_once ::
  "http_env \<Rightarrow> client_config \<Rightarrow> retry_policy \<Rightarrow> http_request \<Rightarrow> verdict client" where
  "attempt_once env cfg policy rq =
     op_seq (breaker_admit env cfg)
       (op_bind
         (op_catch (apply_auth env (hc_auth cfg) rq)
            (\<lambda>e. op_seq (breaker_settle env cfg False) (op_fail e)))
         (\<lambda>rq. op_bind (send env rq) (judge env cfg policy)))"

fun attempt_loop ::
  "http_env \<Rightarrow> client_config \<Rightarrow> retry_policy \<Rightarrow> http_request \<Rightarrow> nat list \<Rightarrow> adapter_error option \<Rightarrow>
   send_result client" where
  "attempt_loop env cfg policy rq [] last_err =
     op_fail (case last_err of Some e \<Rightarrow> e | None \<Rightarrow> Config ''no response'')"
| "attempt_loop env cfg policy rq (attempt # attempts) last_err =
     op_bind (attempt_once env cfg policy rq) (\<lambda>v.
       case v of
         Done r \<Rightarrow> op_return r
       | Unsuccessful e retryable retry_after \<Rightarrow>
           if \<not> retryable \<or> unat (hc_max_retries cfg) \<le> attempt then op_fail e
           else op_seq (pause env cfg attempt retry_after)
                  (attempt_loop env cfg policy rq attempts (Some e)))"

definition execute_with_retry ::
  "http_env \<Rightarrow> client_config \<Rightarrow> string \<Rightarrow> string \<Rightarrow> string \<Rightarrow> retry_policy \<Rightarrow> request_options \<Rightarrow>
   send_result client" where
  "execute_with_retry env cfg meth url body policy opts =
     attempt_loop env cfg policy (build_request env meth url body opts)
       [0..<Suc (unat (hc_max_retries cfg))] None"

definition get_with_retry :: "http_env \<Rightarrow> client_config \<Rightarrow> string \<Rightarrow> string option \<Rightarrow> send_result client" where
  "get_with_retry env cfg url correlation_id =
     execute_with_retry env cfg ''GET'' url [] Idempotent (with_correlation_id correlation_id no_options)"

definition post_json ::
  "http_env \<Rightarrow> client_config \<Rightarrow> string \<Rightarrow> string \<Rightarrow> request_options \<Rightarrow> send_result client" where
  "post_json env cfg url body opts =
     execute_with_retry env cfg ''POST'' url body
       (if ro_idempotency_key opts \<noteq> None then Idempotent else NonIdempotent) opts"

definition post_json_with_retry ::
  "http_env \<Rightarrow> client_config \<Rightarrow> string \<Rightarrow> string \<Rightarrow> string option \<Rightarrow> send_result client" where
  "post_json_with_retry env cfg url body correlation_id =
     post_json env cfg url body (with_correlation_id correlation_id no_options)"

definition post_json_with_retry_with_headers ::
  "http_env \<Rightarrow> client_config \<Rightarrow> string \<Rightarrow> string \<Rightarrow> string option \<Rightarrow> (string \<times> string) list \<Rightarrow>
   send_result client" where
  "post_json_with_retry_with_headers env cfg url body correlation_id hs =
     post_json env cfg url body (with_headers hs (with_correlation_id correlation_id no_options))"

end
