(* ===== verification/Client_Facts.thy ===== *)
theory Client_Facts
  imports Http_Client
begin

text \<open>
  Retry safety of the provider client: how many requests one call sends, which requests it repeats and
  what they carry, and how long it pauses.
\<close>

section \<open>What leaves the calls alone\<close>

interpretation calls: frame "\<lambda>s t. cs_calls t = cs_calls s"
  by unfold_locales simp_all

abbreviation quiet :: "'a client \<Rightarrow> bool" where
  "quiet m \<equiv> op_rel (\<lambda>s t. cs_calls t = cs_calls s) m"

lemma quiet_instant: "quiet (instant_now env)"
  by (simp add: op_rel_def instant_now_def)

lemma quiet_mint: "quiet (mint env c)"
  unfolding mint_def by (auto intro!: calls.rel_rules quiet_instant split: token_reply.splits)

lemma quiet_access_token: "quiet (access_token env c)"
  unfolding access_token_def
  by (auto intro!: calls.rel_rules calls.rel_modify quiet_instant quiet_mint split: option.splits)

lemma quiet_auth: "quiet (apply_auth env auth rq)"
  unfolding apply_auth_def by (auto intro!: calls.rel_rules quiet_access_token split: outbound_auth.splits)

lemma quiet_admit: "quiet (breaker_admit env cfg)"
  unfolding breaker_admit_def
  by (auto simp: op_rel_def op_bind_def op_return_def instant_now_def split: option.splits prod.splits)

lemma quiet_settle: "quiet (breaker_settle env cfg b)"
  unfolding breaker_settle_def
  by (auto intro!: calls.rel_rules calls.rel_modify quiet_instant split: option.splits)

lemma quiet_pause: "quiet (pause env cfg n d)"
  by (simp add: op_rel_def pause_def Let_def)

lemma quiet_judge: "quiet (judge env cfg policy r)"
  unfolding judge_def by (auto intro!: calls.rel_rules quiet_settle split: send_result.splits)

section \<open>One attempt\<close>

text \<open>Credentials only add headers.\<close>

definition extends :: "http_request \<Rightarrow> http_request \<Rightarrow> bool" where
  "extends rq rq' \<longleftrightarrow> rq_method rq' = rq_method rq \<and> rq_url rq' = rq_url rq \<and> rq_body rq' = rq_body rq \<and>
     (\<exists>hs. rq_headers rq' = rq_headers rq @ hs)"

definition repeatable :: "retry_policy \<Rightarrow> send_result \<Rightarrow> bool" where
  "repeatable policy r \<longleftrightarrow>
     (case r of
        Response status _ _ \<Rightarrow> \<not> is_success status \<and> allows_status_retry policy status
      | SendError e \<Rightarrow> allows_transport_retry policy e)"

definition answered :: "send_result \<Rightarrow> bool" where
  "answered r \<longleftrightarrow> (case r of Response status _ _ \<Rightarrow> is_success status | SendError _ \<Rightarrow> False)"

lemma extends_refl [simp]: "extends rq rq"
  by (simp add: extends_def)

lemma extends_header [simp]: "extends rq (add_header h v rq)"
  by (simp add: extends_def add_header_def)

lemma apply_auth_extends: "apply_auth env auth rq s = (Inr rq', t) \<Longrightarrow> extends rq rq'"
  by (auto simp: apply_auth_def op_bind_Inr op_return_def split: outbound_auth.splits)

lemma judge_verdict:
  assumes "judge env cfg policy r s = (x, t)"
  shows "\<exists>v. x = Inr v \<and>
    (case v of Done r' \<Rightarrow> r' = r \<and> answered r | Unsuccessful e b d \<Rightarrow> \<not> answered r \<and> b = repeatable policy r)"
proof -
  have ok: "\<exists>u t. breaker_settle env cfg b s = (Inr u, t)" for b s
    by (auto simp: breaker_settle_def op_return_def op_modify_def op_bind_def instant_now_def
        split: option.splits)
  show ?thesis
  proof (cases r)
    case (Response status ra body)
    obtain u t' where "breaker_settle env cfg (is_success status \<or> \<not> status_counts_as_failure status) s = (Inr u, t')"
      using ok by blast
    with assms Response show ?thesis
      by (auto simp: judge_def op_seq_def op_bind_def op_return_def answered_def repeatable_def Let_def)
  next
    case (SendError e)
    obtain u t' where "breaker_settle env cfg False s = (Inr u, t')" using ok by blast
    with assms SendError show ?thesis
      by (auto simp: judge_def op_seq_def op_bind_def op_return_def answered_def repeatable_def
          split: if_splits)
  qed
qed

lemma attempt_calls:
  assumes "attempt_once env cfg policy rq s = (x, t)"
  shows "(\<exists>e. x = Inl e) \<and> cs_calls t = cs_calls s \<or>
    (\<exists>rq' r v. x = Inr v \<and> cs_calls t = cs_calls s @ [(rq', r)] \<and> extends rq rq' \<and>
      (case v of Done r' \<Rightarrow> r' = r \<and> answered r | Unsuccessful e b d \<Rightarrow> \<not> answered r \<and> b = repeatable policy r))"
proof -
  obtain a s1 where a: "breaker_admit env cfg s = (a, s1)" by force
  have c1: "cs_calls s1 = cs_calls s" using op_relD [OF quiet_admit a] .
  let ?auth = "op_catch (apply_auth env (hc_auth cfg) rq) (\<lambda>e. op_seq (breaker_settle env cfg False) (op_fail e))"
  obtain b s2 where b: "?auth s1 = (b, s2)" by force
  have "quiet ?auth" by (intro calls.rel_rules quiet_auth quiet_settle)
  from op_relD [OF this b] c1 have c2: "cs_calls s2 = cs_calls s" by simp
  show ?thesis
  proof (cases a)
    case (Inl e)
    with assms a c1 show ?thesis by (auto simp: attempt_once_def op_seq_def op_bind_def)
  next
    case (Inr u)
    show ?thesis
    proof (cases b)
      case (Inl e)
      with assms a b c2 \<open>a = Inr u\<close> show ?thesis by (auto simp: attempt_once_def op_seq_def op_bind_def)
    next
      case (Inr rq')
      have ext: "extends rq rq'"
        using b Inr apply_auth_extends [of env "hc_auth cfg" rq s1 rq' s2]
        by (auto simp: op_catch_def op_seq_def op_bind_def op_fail_def split: prod.splits sum.splits)
      let ?r = "he_send env (cs_calls s) rq'"
      let ?s3 = "s2\<lparr>cs_calls := cs_calls s @ [(rq', ?r)]\<rparr>"
      from assms a b c2 Inr \<open>a = Inr u\<close> have j: "judge env cfg policy ?r ?s3 = (x, t)"
        by (simp add: attempt_once_def op_seq_def op_bind_def send_def Let_def)
      from judge_verdict [OF j] op_relD [OF quiet_judge j] ext show ?thesis by auto
    qed
  qed
qed

section \<open>The loop\<close>

lemma loop_calls:
  assumes "attempt_loop env cfg policy rq attempts last_err s = (x, t)"
  shows "\<exists>new. cs_calls t = cs_calls s @ new \<and> length new \<le> length attempts \<and>
    (\<forall>c \<in> set new. extends rq (fst c)) \<and> (\<forall>c \<in> set (butlast new). repeatable policy (snd c)) \<and>
    (\<forall>r. x = Inr r \<longrightarrow> new \<noteq> [] \<and> snd (last new) = r \<and> answered r)"
  using assms
proof (induction attempts arbitrary: last_err s)
  case Nil
  then show ?case by (auto simp: op_fail_def)
next
  case (Cons n attempts)
  obtain y u where y: "attempt_once env cfg policy rq s = (y, u)" by force
  from attempt_calls [OF y] show ?case
  proof (elim disjE conjE exE)
    fix e
    assume "y = Inl e" "cs_calls u = cs_calls s"
    with Cons.prems y show ?case by (intro exI [of _ "[]"]) (auto simp: op_bind_def)
  next
    fix rq' r v
    assume v: "y = Inr v" and c: "cs_calls u = cs_calls s @ [(rq', r)]" and ext: "extends rq rq'"
      and judged: "case v of Done r' \<Rightarrow> r' = r \<and> answered r
                   | Unsuccessful e b d \<Rightarrow> \<not> answered r \<and> b = repeatable policy r"
    show ?case
    proof (cases v)
      case (Done r')
      with Cons.prems y v c ext judged show ?thesis
        by (intro exI [of _ "[(rq', r)]"]) (auto simp: op_bind_def op_return_def)
    next
      case (Unsuccessful e b d)
      show ?thesis
      proof (cases "\<not> b \<or> unat (hc_max_retries cfg) \<le> n")
        case True
        with Unsuccessful Cons.prems y v c ext show ?thesis
          by (intro exI [of _ "[(rq', r)]"]) (auto simp: op_bind_def op_fail_def)
      next
        case False
        obtain w where w: "pause env cfg n d u = (Inr (), w)" by (simp add: pause_def Let_def)
        from False Unsuccessful Cons.prems y v w
        have "attempt_loop env cfg policy rq attempts (Some e) w = (x, t)"
          by (simp add: op_bind_def op_seq_def)
        from Cons.IH [OF this] obtain new where new: "cs_calls t = cs_calls w @ new"
          "length new \<le> length attempts" "\<forall>c \<in> set new. extends rq (fst c)"
          "\<forall>c \<in> set (butlast new). repeatable policy (snd c)"
          "\<forall>r. x = Inr r \<longrightarrow> new \<noteq> [] \<and> snd (last new) = r \<and> answered r" by blast
        have "cs_calls w = cs_calls u" using op_relD [OF quiet_pause w] .
        moreover have "repeatable policy r" using judged Unsuccessful False by simp
        ultimately show ?thesis using new c ext by (intro exI [of _ "(rq', r) # new"]) auto
      qed
    qed
  qed
qed

text \<open>
  C25: a keyless POST is never repeated once it may have arrived. One call sends at most one request more
  than the configured retries; without an idempotency key every request but the last failed to connect,
  so that the provider saw at most one of them; with a key, every request carries it; and the call
  answers with a response only if the last request got it, with a success status.
\<close>

theorem post_retry_safety:
  assumes "post_json env cfg url body opts s = (x, t)"
  shows "\<exists>new. cs_calls t = cs_calls s @ new \<and> length new \<le> unat (hc_max_retries cfg) + 1 \<and>
    (ro_idempotency_key opts = None \<longrightarrow>
       (\<forall>(rq, r) \<in> set (butlast new). \<exists>e. r = SendError e \<and> tp_connect e)) \<and>
    (\<forall>key. ro_idempotency_key opts = Some key \<longrightarrow>
       (\<forall>(rq, r) \<in> set new. (''Idempotency-Key'', key) \<in> set (rq_headers rq))) \<and>
    (\<forall>(rq, r) \<in> set new. rq_method rq = ''POST'' \<and> rq_url rq = url \<and> rq_body rq = body) \<and>
    (\<forall>r. x = Inr r \<longrightarrow> new \<noteq> [] \<and> snd (last new) = r \<and> answered r)"
proof -
  from loop_calls [OF assms [unfolded post_json_def execute_with_retry_def]]
  obtain new where new: "cs_calls t = cs_calls s @ new" "length new \<le> unat (hc_max_retries cfg) + 1"
    and ext: "\<forall>c \<in> set new. extends (build_request env ''POST'' url body opts) (fst c)"
    and rep: "\<forall>c \<in> set (butlast new).
      repeatable (if ro_idempotency_key opts \<noteq> None then Idempotent else NonIdempotent) (snd c)"
    and ans: "\<forall>r. x = Inr r \<longrightarrow> new \<noteq> [] \<and> snd (last new) = r \<and> answered r"
    by auto
  have "\<exists>e. r = SendError e \<and> tp_connect e"
    if "ro_idempotency_key opts = None" "(rq, r) \<in> set (butlast new)" for rq r
    using rep that by (cases r) (fastforce simp: repeatable_def allows_status_retry_def allows_transport_retry_def)+
  moreover have "(''Idempotency-Key'', key) \<in> set (rq_headers rq)"
    if "ro_idempotency_key opts = Some key" "(rq, r) \<in> set new" for key rq r
    using ext that by (fastforce simp: extends_def build_request_def)
  moreover have "rq_method rq = ''POST'' \<and> rq_url rq = url \<and> rq_body rq = body" if "(rq, r) \<in> set new" for rq r
    using ext that by (fastforce simp: extends_def build_request_def)
  ultimately show ?thesis using new ans by (intro exI [of _ new]) auto
qed

text \<open>
  Backoff stays in bounds. The pause before a retry lies between half of the exponential base and
  the base itself, whatever the jitter, also when the base saturates; a pause the provider asks for is
  at most thirty seconds.
\<close>

theorem pause_bounds:
  "backoff_base cfg attempt div 2 \<le> backoff_delay cfg attempt nanos \<and>
   backoff_delay cfg attempt nanos \<le> backoff_base cfg attempt \<and> backoff_base cfg attempt < 2 ^ 64 \<and>
   (case retry_after_delay h of None \<Rightarrow> True | Some d \<Rightarrow> d \<le> 30000)"
proof -
  let ?half = "backoff_base cfg attempt div 2"
  have "nanos mod (?half + 1) \<le> ?half" using mod_less_divisor [of "?half + 1" nanos] by simp
  then have "?half \<le> backoff_delay cfg attempt nanos" "backoff_delay cfg attempt nanos \<le> ?half + ?half"
    by (simp_all add: backoff_delay_def Let_def)
  moreover have "?half + ?half \<le> backoff_base cfg attempt" by simp
  moreover have "backoff_base cfg attempt < 2 ^ 64" by (simp add: backoff_base_def u64_saturate_def)
  moreover have "case retry_after_delay h of None \<Rightarrow> True | Some d \<Rightarrow> d \<le> 30000"
    by (auto simp: retry_after_delay_def MAX_RETRY_AFTER_def split: option.splits)
  ultimately show ?thesis by linarith
qed

theorem post_retry_safety_witness:
  "\<exists>env new t. post_json env default_client_config ''https://psp'' ''{}'' no_options
       \<lparr>cs_breaker = new_circuit, cs_token = None, cs_calls = [], cs_slept = [], cs_ticks = 0\<rparr> =
       (Inl (Status 503 ''busy''), t) \<and> cs_calls t = new \<and> length new = 1"
proof -
  let ?s = "\<lparr>cs_breaker = new_circuit, cs_token = None, cs_calls = [], cs_slept = [], cs_ticks = 0\<rparr>"
  let ?env = "\<lparr>he_correlation_id = None, he_send = (\<lambda>_ _. Response 503 None ''busy''),
    he_token = (\<lambda>_ _. TokenStatus 500), he_instant = int, he_subsec_nanos = (\<lambda>_. 0),
    he_show_status = (\<lambda>_. [])\<rparr>"
  let ?r = "post_json ?env default_client_config ''https://psp'' ''{}'' no_options ?s"
  have run: "fst ?r = Inl (Status 503 ''busy'')" "length (cs_calls (snd ?r)) = 1"
    by (simp_all add: post_json_def execute_with_retry_def default_client_config_def no_options_def
        attempt_once_def breaker_admit_def apply_auth_def op_seq_def op_bind_def op_return_def op_catch_def
        op_fail_def send_def judge_def breaker_settle_def is_success_def allows_status_retry_def Let_def
        upt_rec)
  from post_retry_safety [OF prod.collapse [symmetric], of ?env default_client_config "''https://psp''"
      "''{}''" no_options ?s]
  obtain new where "cs_calls (snd ?r) = new" by auto
  with run show ?thesis by (metis prod.collapse)
qed

end
