(* ===== verification/Json.thy ===== *)
theory Json
  imports Text_Parsing
begin

text \<open>
  JSON values as the code handles them (\<open>serde_json::Value\<close>): the constructors, the accessors it calls and
  the substring tests of the standard library. A number the library holds as an unsigned or negative
  integer is a \<open>JInt\<close>, any other number a \<open>JFloat\<close> with its text. An object is the list of its entries with
  distinct names.
\<close>

datatype json =
    JNull
  | JBool bool
  | JInt int
  | JFloat string
  | JStr string
  | JArr "json list"
  | JObj "(string \<times> json) list"

fun json_get :: "string \<Rightarrow> json \<Rightarrow> json option" where
  "json_get k (JObj entries) = map_of entries k"
| "json_get k _ = None"

text \<open>\<open>value["key"]\<close> is null where the key is absent.\<close>

definition json_index :: "json \<Rightarrow> string \<Rightarrow> json" where
  "json_index v k = (case json_get k v of None \<Rightarrow> JNull | Some x \<Rightarrow> x)"

fun as_str :: "json \<Rightarrow> string option" where
  "as_str (JStr s) = Some s"
| "as_str _ = None"

fun as_array :: "json \<Rightarrow> json list option" where
  "as_array (JArr xs) = Some xs"
| "as_array _ = None"

fun as_u64 :: "json \<Rightarrow> u64 option" where
  "as_u64 (JInt n) = (if 0 \<le> n \<and> n < 2 ^ 64 then Some (word_of_int n) else None)"
| "as_u64 _ = None"

fun as_i64 :: "json \<Rightarrow> i64 option" where
  "as_i64 (JInt n) = (if in_i64 n then Some n else None)"
| "as_i64 _ = None"

fun is_object :: "json \<Rightarrow> bool" where
  "is_object (JObj _) = True"
| "is_object _ = False"

text \<open>\<open>map.insert(key, value)\<close> on the entries of an object.\<close>

definition json_insert :: "string \<Rightarrow> json \<Rightarrow> (string \<times> json) list \<Rightarrow> (string \<times> json) list" where
  "json_insert k v entries = AList.update k v entries"

definition json_str_at :: "string \<Rightarrow> json \<Rightarrow> string option" where
  "json_str_at k v = Option.bind (json_get k v) as_str"

definition json_u64_at :: "string \<Rightarrow> json \<Rightarrow> u64 option" where
  "json_u64_at k v = Option.bind (json_get k v) as_u64"

definition json_i64_at :: "string \<Rightarrow> json \<Rightarrow> i64 option" where
  "json_i64_at k v = Option.bind (json_get k v) as_i64"

lemma json_get_Some: "json_get k v = Some x \<Longrightarrow> \<exists>entries. v = JObj entries \<and> map_of entries k = Some x"
  by (cases v) auto

lemma as_str_Some: "as_str v = Some s \<longleftrightarrow> v = JStr s"
  by (cases v) auto

lemma is_object_iff: "is_object v \<longleftrightarrow> (\<exists>entries. v = JObj entries)"
  by (cases v) auto

lemma json_at_None [simp]:
  "json_get k v = None \<Longrightarrow> json_str_at k v = None"
  "json_get k v = None \<Longrightarrow> json_u64_at k v = None"
  "json_get k v = None \<Longrightarrow> json_i64_at k v = None"
  by (simp_all add: json_str_at_def json_u64_at_def json_i64_at_def)

section \<open>Substrings\<close>

definition ends_with :: "string \<Rightarrow> string \<Rightarrow> bool" where
  "ends_with s p = starts_with (rev s) (rev p)"

fun str_contains :: "string \<Rightarrow> string \<Rightarrow> bool" where
  "str_contains [] p = (p = [])"
| "str_contains (c # s) p = (starts_with (c # s) p \<or> str_contains s p)"

lemma str_contains_iff: "str_contains s p \<longleftrightarrow> (\<exists>a b. s = a @ p @ b)"
proof (induction s)
  case (Cons c s)
  have "(\<exists>a b. c # s = a @ p @ b) \<longleftrightarrow> (\<exists>b. c # s = p @ b) \<or> (\<exists>a b. s = a @ p @ b)"
    by (metis append_Cons append_Nil list.inject neq_Nil_conv)
  then show ?case using Cons by (simp add: starts_with_append)
qed simp

text \<open>\<open>rsplit_once\<close>\<close>

definition rsplit_once :: "char \<Rightarrow> string \<Rightarrow> (string \<times> string) option" where
  "rsplit_once d s = map_option (\<lambda>(b, a). (rev a, rev b)) (split_once d (rev s))"

lemma rsplit_once_append: "d \<notin> set b \<Longrightarrow> rsplit_once d (a @ d # b) = Some (a, b)"
  using split_once_append [of d "rev b" "rev a"] by (simp add: rsplit_once_def)

end
