(* ===== verification/Provider_Config.thy ===== *)
theory Provider_Config
  imports Http_Client Text_Parsing
begin

text \<open>
  The configuration of the calls to the providers (\<open>orchestrator-http/src/config.rs\<close>): the client policy, the
  circuit breaker section, the credentials of each provider with their overrides from the environment, and
  the base URLs. The environment is a function from names to values; a file read is a function from paths to
  its bytes or the text of the error. Durations are milliseconds.
\<close>

type_synonym env = "string \<Rightarrow> string option"

text \<open>\<open>if let Ok(v) = env::var(k) { let t = v.trim(); if !t.is_empty() { .. } }\<close>\<close>

definition env_text :: "env \<Rightarrow> string \<Rightarrow> string option" where
  "env_text E k =
     (case E k of None \<Rightarrow> None | Some v \<Rightarrow> if str_trim v = [] then None else Some (str_trim v))"

definition env_set :: "env \<Rightarrow> string \<Rightarrow> string option \<Rightarrow> string option" where
  "env_set E k old = (case env_text E k of None \<Rightarrow> old | Some t \<Rightarrow> Some t)"

text \<open>A number of the environment that parses replaces the configured one.\<close>

definition parse_u32 :: "string \<Rightarrow> nat option" where
  "parse_u32 s = (case parse_u64 s of None \<Rightarrow> None | Some n \<Rightarrow> if n < 2 ^ 32 then Some n else None)"

definition env_num :: "(string \<Rightarrow> nat option) \<Rightarrow> env \<Rightarrow> string \<Rightarrow> 'w::len word \<Rightarrow> 'w word" where
  "env_num parse E k old =
     (case Option.bind (E k) (\<lambda>v. parse (str_trim v)) of None \<Rightarrow> old | Some n \<Rightarrow> word_of_nat n)"

definition truthy :: "string \<Rightarrow> bool" where
  "truthy v \<longleftrightarrow> str_trim v \<in> {''1'', ''true'', ''yes''}"

text \<open>\<open>.as_deref().filter(|s| !s.is_empty())\<close>\<close>

definition nonempty :: "string option \<Rightarrow> string option" where
  "nonempty x = (case x of None \<Rightarrow> None | Some s \<Rightarrow> if s = [] then None else Some s)"

lemma nonempty_Some: "nonempty x = Some s \<longleftrightarrow> x = Some s \<and> s \<noteq> []"
  by (auto simp: nonempty_def split: option.splits)

section \<open>Client policy\<close>

record circuit_breaker_section =
  cs_enabled :: bool
  cs_failure_threshold :: u32
  cs_open_secs :: u64
  cs_probe_timeout_secs :: u64

definition default_circuit_breaker_section :: circuit_breaker_section where
  "default_circuit_breaker_section =
     \<lparr>cs_enabled = True, cs_failure_threshold = 5, cs_open_secs = 30, cs_probe_timeout_secs = 60\<rparr>"

definition from_secs :: "u64 \<Rightarrow> nat" where "from_secs n = 1000 * unat n"

definition breaker_to_config :: "circuit_breaker_section \<Rightarrow> circuit_breaker_config" where
  "breaker_to_config s =
     \<lparr>cb_enabled = cs_enabled s, cb_failure_threshold = max (cs_failure_threshold s) 1,
      cb_open_duration = from_secs (cs_open_secs s),
      cb_probe_timeout = from_secs (max (cs_probe_timeout_secs s) 1)\<rparr>"

definition breaker_env_overrides :: "env \<Rightarrow> circuit_breaker_section \<Rightarrow> circuit_breaker_section" where
  "breaker_env_overrides E s =
     \<lparr>cs_enabled = (case E ''PROVIDER_CIRCUIT_ENABLED'' of None \<Rightarrow> cs_enabled s | Some v \<Rightarrow> truthy v),
      cs_failure_threshold = env_num parse_u32 E ''PROVIDER_CIRCUIT_FAILURE_THRESHOLD'' (cs_failure_threshold s),
      cs_open_secs = env_num parse_u64 E ''PROVIDER_CIRCUIT_OPEN_SECS'' (cs_open_secs s),
      cs_probe_timeout_secs = env_num parse_u64 E ''PROVIDER_CIRCUIT_PROBE_TIMEOUT_SECS'' (cs_probe_timeout_secs s)\<rparr>"

record http_client_config =
  hs_connect_timeout_secs :: u64
  hs_timeout_secs :: u64
  hs_max_retries :: u32
  hs_retry_backoff_ms :: u64
  hs_circuit_breaker :: circuit_breaker_section

definition default_http_client_config :: http_client_config where
  "default_http_client_config =
     \<lparr>hs_connect_timeout_secs = 5, hs_timeout_secs = 30, hs_max_retries = 3, hs_retry_backoff_ms = 100,
      hs_circuit_breaker = default_circuit_breaker_section\<rparr>"

section \<open>Credentials\<close>

record provider_auth_config =
  pc_mode :: "string option"
  pc_token :: "string option"
  pc_header :: "string option"
  pc_value :: "string option"
  pc_oauth_token_url :: "string option"
  pc_oauth_client_id :: "string option"
  pc_oauth_client_secret :: "string option"
  pc_oauth_scope :: "string option"
  pc_oauth_client_auth :: "string option"
  pc_tls_client_cert_path :: "string option"
  pc_tls_ca_path :: "string option"

definition no_provider_auth :: provider_auth_config where
  "no_provider_auth =
     \<lparr>pc_mode = None, pc_token = None, pc_header = None, pc_value = None, pc_oauth_token_url = None,
      pc_oauth_client_id = None, pc_oauth_client_secret = None, pc_oauth_scope = None, pc_oauth_client_auth = None,
      pc_tls_client_cert_path = None, pc_tls_ca_path = None\<rparr>"

definition DEFAULT_API_KEY_HEADER :: string where "DEFAULT_API_KEY_HEADER = ''X-API-Key''"

definition auth_is_empty :: "provider_auth_config \<Rightarrow> bool" where
  "auth_is_empty a \<longleftrightarrow>
     pc_mode a = None \<and> pc_token a = None \<and> pc_header a = None \<and> pc_value a = None \<and> pc_oauth_token_url a = None \<and>
     pc_oauth_client_id a = None \<and> pc_oauth_client_secret a = None \<and> pc_oauth_scope a = None \<and>
     pc_oauth_client_auth a = None \<and> pc_tls_client_cert_path a = None \<and> pc_tls_ca_path a = None"

definition mode_str :: "provider_auth_config \<Rightarrow> string" where
  "mode_str a = map ascii_lower (str_trim (case pc_mode a of None \<Rightarrow> ''none'' | Some m \<Rightarrow> m))"

definition required :: "provider_auth_config \<Rightarrow> string option \<Rightarrow> string \<Rightarrow> string + string" where
  "required a field name =
     ok_or (name @ '' required for provider auth mode '' @ CHR 0x27 # mode_str a @ [CHR 0x27]) (nonempty field)"

text \<open>\<open>OAuth2ClientAuth::parse\<close>: true for HTTP Basic.\<close>

definition oauth2_client_auth_parse :: "string \<Rightarrow> string + bool" where
  "oauth2_client_auth_parse value =
     (let v = map ascii_lower (str_trim value)
      in if v = ''basic'' then Inr True
         else if v = ''body'' \<or> v = ''request_body'' \<or> v = ''post'' then Inr False
         else Inl (''unsupported oauth client auth '' @ CHR 0x27 # v @ CHR 0x27 # '' (expected basic or body)''))"

definition to_outbound_auth :: "provider_auth_config \<Rightarrow> string + outbound_auth" where
  "to_outbound_auth a =
     (let mode = mode_str a
      in if mode = ''none'' \<or> mode = [] then Inr NoAuth
         else if mode = ''bearer'' then res_bind (required a (pc_token a) ''token'') (\<lambda>t. Inr (Bearer t))
         else if mode = ''api_key'' \<or> mode = ''apikey''
         then (let header = (case nonempty (pc_header a) of None \<Rightarrow> DEFAULT_API_KEY_HEADER | Some h \<Rightarrow> h)
               in res_bind (required a (pc_value a) ''value'') (\<lambda>v. Inr (ApiKey header v)))
         else if mode = ''oauth2'' \<or> mode = ''oauth''
         then res_bind (required a (pc_oauth_token_url a) ''oauth_token_url'') (\<lambda>url.
              res_bind (required a (pc_oauth_client_id a) ''oauth_client_id'') (\<lambda>i.
              res_bind (required a (pc_oauth_client_secret a) ''oauth_client_secret'') (\<lambda>secret.
              res_bind (case nonempty (pc_oauth_client_auth a) of None \<Rightarrow> Inr True | Some v \<Rightarrow> oauth2_client_auth_parse v)
                (\<lambda>basic. Inr (OAuth2 \<lparr>oc_token_url = url, oc_client_id = i, oc_client_secret = secret,
                            oc_scope = nonempty (pc_oauth_scope a), oc_basic = basic\<rparr>)))))
         else Inl (''unsupported provider auth mode '' @ CHR 0x27 # mode @ CHR 0x27 #
                   '' (expected none, bearer, api_key, or oauth2)''))"

type_synonym files = "string \<Rightarrow> string + string"

definition read_tls :: "files \<Rightarrow> string option \<Rightarrow> string \<Rightarrow> string + string option" where
  "read_tls F path label =
     (case nonempty path of
        None \<Rightarrow> Inr None
      | Some p \<Rightarrow>
          (case F p of
             Inl e \<Rightarrow> Inl (''read '' @ label @ '' from '' @ p @ '': '' @ e)
           | Inr bytes \<Rightarrow> Inr (Some bytes)))"

definition to_tls_config :: "files \<Rightarrow> provider_auth_config \<Rightarrow> string + tls_config" where
  "to_tls_config F a =
     res_bind (read_tls F (pc_tls_client_cert_path a) ''TLS client certificate'') (\<lambda>identity.
     res_bind (read_tls F (pc_tls_ca_path a) ''TLS CA bundle'') (\<lambda>ca.
     Inr \<lparr>tc_client_identity_pem = identity, tc_ca_bundle_pem = ca\<rparr>))"

definition auth_env_overrides :: "env \<Rightarrow> string \<Rightarrow> provider_auth_config \<Rightarrow> provider_auth_config" where
  "auth_env_overrides E prefix a =
     (let set = (\<lambda>suffix. env_set E (prefix @ ''_'' @ suffix))
      in \<lparr>pc_mode = set ''AUTH_MODE'' (pc_mode a), pc_token = set ''AUTH_TOKEN'' (pc_token a),
          pc_header = set ''AUTH_HEADER'' (pc_header a), pc_value = set ''AUTH_VALUE'' (pc_value a),
          pc_oauth_token_url = set ''OAUTH_TOKEN_URL'' (pc_oauth_token_url a),
          pc_oauth_client_id = set ''OAUTH_CLIENT_ID'' (pc_oauth_client_id a),
          pc_oauth_client_secret = set ''OAUTH_CLIENT_SECRET'' (pc_oauth_client_secret a),
          pc_oauth_scope = set ''OAUTH_SCOPE'' (pc_oauth_scope a),
          pc_oauth_client_auth = set ''OAUTH_CLIENT_AUTH'' (pc_oauth_client_auth a),
          pc_tls_client_cert_path = set ''TLS_CLIENT_CERT_PATH'' (pc_tls_client_cert_path a),
          pc_tls_ca_path = set ''TLS_CA_PATH'' (pc_tls_ca_path a)\<rparr>)"

section \<open>Providers\<close>

datatype provider =
  Catalog | Pricing | Tax | Geo | Payment | Receipt | Fulfillment | PaymentDelegation | IdentityLink

definition ALL_PROVIDERS :: "provider list" where
  "ALL_PROVIDERS = [Catalog, Pricing, Tax, Geo, Payment, Receipt, Fulfillment, PaymentDelegation, IdentityLink]"

fun env_prefix :: "provider \<Rightarrow> string" where
  "env_prefix Catalog = ''CATALOG''"
| "env_prefix Pricing = ''PRICING''"
| "env_prefix Tax = ''TAX''"
| "env_prefix Geo = ''GEO''"
| "env_prefix Payment = ''PAYMENT''"
| "env_prefix Receipt = ''RECEIPT''"
| "env_prefix Fulfillment = ''FULFILLMENT''"
| "env_prefix PaymentDelegation = ''PAYMENT_DELEGATION''"
| "env_prefix IdentityLink = ''IDENTITY_LINK''"

fun provider_label :: "provider \<Rightarrow> string" where
  "provider_label Catalog = ''catalog''"
| "provider_label Pricing = ''pricing''"
| "provider_label Tax = ''tax''"
| "provider_label Geo = ''geo''"
| "provider_label Payment = ''payment''"
| "provider_label Receipt = ''receipt''"
| "provider_label Fulfillment = ''fulfillment''"
| "provider_label PaymentDelegation = ''payment_delegation''"
| "provider_label IdentityLink = ''identity_link''"

text \<open>The sections of the nine providers are a function of the provider.\<close>

record provider_auth_section =
  pa_default :: provider_auth_config
  pa_section :: "provider \<Rightarrow> provider_auth_config"

definition for_provider :: "provider_auth_section \<Rightarrow> provider \<Rightarrow> provider_auth_config" where
  "for_provider s p = (let specific = pa_section s p in if auth_is_empty specific then pa_default s else specific)"

definition section_env_overrides :: "env \<Rightarrow> provider_auth_section \<Rightarrow> provider_auth_section" where
  "section_env_overrides E s =
     fold (\<lambda>p s. s\<lparr>pa_section := (pa_section s)(p := auth_env_overrides E (env_prefix p) (pa_section s p))\<rparr>)
       ALL_PROVIDERS (s\<lparr>pa_default := auth_env_overrides E ''PROVIDER'' (pa_default s)\<rparr>)"

definition to_client_config :: "http_client_config \<Rightarrow> client_config" where
  "to_client_config h =
     default_client_config\<lparr>hc_connect_timeout := from_secs (hs_connect_timeout_secs h), hc_timeout := from_secs (hs_timeout_secs h),
       hc_max_retries := hs_max_retries h, hc_retry_backoff_ms := hs_retry_backoff_ms h\<rparr>"

definition to_client_config_with_auth ::
  "files \<Rightarrow> http_client_config \<Rightarrow> provider \<Rightarrow> provider_auth_config \<Rightarrow> string + client_config" where
  "to_client_config_with_auth F h p a =
     res_bind (to_outbound_auth a) (\<lambda>auth.
     res_bind (to_tls_config F a) (\<lambda>tls.
     Inr \<lparr>hc_connect_timeout = from_secs (hs_connect_timeout_secs h), hc_timeout = from_secs (hs_timeout_secs h),
          hc_max_retries = hs_max_retries h, hc_retry_backoff_ms = hs_retry_backoff_ms h, hc_auth = auth, hc_tls = tls,
          hc_circuit_breaker = Some (provider_label p, breaker_to_config (hs_circuit_breaker h))\<rparr>))"

section \<open>Base URLs\<close>

record components_config =
  cg_catalog_base_url :: "string option"
  cg_pricing_base_url :: "string option"
  cg_tax_base_url :: "string option"
  cg_geo_base_url :: "string option"
  cg_payment_base_url :: "string option"
  cg_receipt_base_url :: "string option"
  cg_fulfillment_base_url :: "string option"
  cg_payment_delegation_base_url :: "string option"
  cg_identity_link_base_url :: "string option"

definition trim_opt :: "string option \<Rightarrow> string option" where
  "trim_opt x = (case x of None \<Rightarrow> None | Some s \<Rightarrow> if str_trim s = [] then None else Some (str_trim s))"

text \<open>A variable that is set replaces the value, also by nothing when it is blank.\<close>

definition env_replace :: "env \<Rightarrow> string \<Rightarrow> string option \<Rightarrow> string option" where
  "env_replace E k old = (case E k of None \<Rightarrow> old | Some v \<Rightarrow> trim_opt (Some v))"

definition components_env_overrides :: "env \<Rightarrow> components_config \<Rightarrow> components_config" where
  "components_env_overrides E c =
     \<lparr>cg_catalog_base_url = env_replace E ''CATALOG_BASE_URL'' (cg_catalog_base_url c),
      cg_pricing_base_url = env_replace E ''PRICING_BASE_URL'' (cg_pricing_base_url c),
      cg_tax_base_url = env_replace E ''TAX_BASE_URL'' (cg_tax_base_url c),
      cg_geo_base_url = env_replace E ''GEO_BASE_URL'' (cg_geo_base_url c),
      cg_payment_base_url = env_replace E ''PAYMENT_BASE_URL'' (cg_payment_base_url c),
      cg_receipt_base_url = env_replace E ''RECEIPT_BASE_URL'' (cg_receipt_base_url c),
      cg_fulfillment_base_url = env_replace E ''FULFILLMENT_BASE_URL'' (cg_fulfillment_base_url c),
      cg_payment_delegation_base_url = env_replace E ''PAYMENT_DELEGATION_BASE_URL'' (cg_payment_delegation_base_url c),
      cg_identity_link_base_url = env_replace E ''IDENTITY_LINK_BASE_URL'' (cg_identity_link_base_url c)\<rparr>"

record resolved_components =
  rc_catalog_base_url :: string
  rc_pricing_base_url :: string
  rc_tax_base_url :: string
  rc_geo_base_url :: string
  rc_payment_base_url :: string
  rc_receipt_base_url :: string
  rc_fulfillment_base_url :: "string option"
  rc_payment_delegation_base_url :: "string option"
  rc_identity_link_base_url :: "string option"

definition url_required :: "string \<Rightarrow> string \<Rightarrow> string option \<Rightarrow> string + string" where
  "url_required var field x = ok_or (var @ '' (or components.'' @ field @ '') required'') (nonempty x)"

definition require_all :: "components_config \<Rightarrow> string + resolved_components" where
  "require_all c =
     res_bind (url_required ''CATALOG_BASE_URL'' ''catalog_base_url'' (cg_catalog_base_url c)) (\<lambda>catalog.
     res_bind (url_required ''PRICING_BASE_URL'' ''pricing_base_url'' (cg_pricing_base_url c)) (\<lambda>pricing.
     res_bind (url_required ''TAX_BASE_URL'' ''tax_base_url'' (cg_tax_base_url c)) (\<lambda>tax.
     res_bind (url_required ''GEO_BASE_URL'' ''geo_base_url'' (cg_geo_base_url c)) (\<lambda>geo.
     res_bind (url_required ''PAYMENT_BASE_URL'' ''payment_base_url'' (cg_payment_base_url c)) (\<lambda>payment.
     res_bind (url_required ''RECEIPT_BASE_URL'' ''receipt_base_url'' (cg_receipt_base_url c)) (\<lambda>receipt.
     Inr \<lparr>rc_catalog_base_url = catalog, rc_pricing_base_url = pricing, rc_tax_base_url = tax, rc_geo_base_url = geo,
          rc_payment_base_url = payment, rc_receipt_base_url = receipt,
          rc_fulfillment_base_url = nonempty (cg_fulfillment_base_url c),
          rc_payment_delegation_base_url = nonempty (cg_payment_delegation_base_url c),
          rc_identity_link_base_url = nonempty (cg_identity_link_base_url c)\<rparr>))))))"

end
