(* ===== verification/Provider_Adapters.thy ===== *)
theory Provider_Adapters
  imports Http_Client Facade Json Provider_Config
begin

text \<open>
  The HTTP adapters of the provider traits (\<open>integration-adapters/src/catalog.rs\<close>, \<open>pricing.rs\<close>, \<open>tax.rs\<close>, \<open>geo.rs\<close>,
  \<open>payment.rs\<close>, \<open>receipt.rs\<close>, \<open>fulfillment.rs\<close>, \<open>delegation.rs\<close>): the URL, body and headers of each request, the
  reading of each answer and the error of each failure, on the client of \<open>Http_Client\<close>; and the set of
  providers a production server wires of them. What \<open>serde\<close> derives for reading, the JSON printer and the
  rendering of identifiers are the record \<open>wire\<close>; a field with a default is optional in what a reader gives.
\<close>

section \<open>Request bodies\<close>

definition json_opt :: "('a \<Rightarrow> json) \<Rightarrow> 'a option \<Rightarrow> json" where
  "json_opt f x = (case x of None \<Rightarrow> JNull | Some a \<Rightarrow> f a)"

definition json_list :: "('a \<Rightarrow> json) \<Rightarrow> 'a list \<Rightarrow> json" where
  "json_list f xs = JArr (map f xs)"

text \<open>\<open>skip_serializing_if = "Option::is_none"\<close>\<close>

definition json_present :: "string \<Rightarrow> ('a \<Rightarrow> json) \<Rightarrow> 'a option \<Rightarrow> (string \<times> json) list" where
  "json_present k f x = (case x of None \<Rightarrow> [] | Some a \<Rightarrow> [(k, f a)])"

fun json_of_method_type :: "fulfillment_method_type \<Rightarrow> json" where
  "json_of_method_type Shipping = JStr ''shipping''"
| "json_of_method_type Pickup = JStr ''pickup''"

definition json_of_address :: "postal_address \<Rightarrow> json" where
  "json_of_address a = JObj
     [(''extended_address'', json_opt JStr (pa_extended_address a)), (''street_address'', json_opt JStr (pa_street_address a)),
      (''address_locality'', json_opt JStr (pa_address_locality a)), (''address_region'', json_opt JStr (pa_address_region a)),
      (''address_country'', json_opt JStr (pa_address_country a)), (''postal_code'', json_opt JStr (pa_postal_code a)),
      (''first_name'', json_opt JStr (pa_first_name a)), (''last_name'', json_opt JStr (pa_last_name a)),
      (''phone_number'', json_opt JStr (pa_phone_number a))]"

fun json_of_destination :: "fulfillment_destination \<Rightarrow> json" where
  "json_of_destination (ShippingDest i a) =
     JObj [(''Shipping'', JObj [(''id'', JStr i), (''address'', json_of_address a)])]"
| "json_of_destination (RetailDest i n a) =
     JObj [(''Retail'', JObj [(''id'', JStr i), (''name'', JStr n), (''address'', json_opt json_of_address a)])]"

definition json_of_option :: "fulfillment_option \<Rightarrow> json" where
  "json_of_option f = JObj
     [(''id'', JStr (fo_id f)), (''title'', JStr (fo_title f)), (''description'', json_opt JStr (fo_description f)),
      (''carrier'', json_opt JStr (fo_carrier f)),
      (''earliest_fulfillment_time'', json_opt JStr (fo_earliest_fulfillment_time f)),
      (''latest_fulfillment_time'', json_opt JStr (fo_latest_fulfillment_time f)), (''amount_minor'', JInt (fo_amount_minor f))]"

definition json_of_group :: "fulfillment_group \<Rightarrow> json" where
  "json_of_group g = JObj
     [(''id'', JStr (fg_id g)), (''line_item_ids'', json_list JStr (fg_line_item_ids g)),
      (''options'', json_list json_of_option (fg_options g)),
      (''selected_option_id'', json_opt JStr (fg_selected_option_id g))]"

definition json_of_method :: "fulfillment_method \<Rightarrow> json" where
  "json_of_method m = JObj
     [(''id'', JStr (fm_id m)), (''method_type'', json_of_method_type (fm_method_type m)),
      (''line_item_ids'', json_list JStr (fm_line_item_ids m)),
      (''destinations'', json_list json_of_destination (fm_destinations m)),
      (''selected_destination_id'', json_opt JStr (fm_selected_destination_id m)),
      (''groups'', json_list json_of_group (fm_groups m))]"

definition json_of_fulfillment :: "fulfillment_state \<Rightarrow> json" where
  "json_of_fulfillment f = JObj [(''methods'', json_list json_of_method (fs_methods f))]"

definition json_of_discount :: "applied_discount \<Rightarrow> json" where
  "json_of_discount d = JObj
     [(''code'', JStr (ad_code d)), (''description'', json_opt JStr (ad_description d)),
      (''amount_minor'', JInt (ad_amount_minor d)), (''line_id'', json_opt JStr (ad_line_id d))]"

definition json_of_line :: "cart_line_projection \<Rightarrow> json" where
  "json_of_line l = JObj
     [(''line_id'', JStr (li_line_id l)), (''item_id'', JStr (li_item_id l)), (''title'', JStr (li_title l)),
      (''quantity'', JInt (uint (li_quantity l))), (''unit_price_minor'', JInt (li_unit_price_minor l)),
      (''total_minor'', JInt (li_total_minor l))]"

fun json_of_status :: "cart_status \<Rightarrow> json" where
  "json_of_status cart_status.Draft = JStr ''Draft''"
| "json_of_status cart_status.CheckoutReady = JStr ''CheckoutReady''"
| "json_of_status cart_status.Cancelled = JStr ''Cancelled''"

fun json_of_cart_id :: "(uuid \<Rightarrow> string) \<Rightarrow> cart_id \<Rightarrow> json" where
  "json_of_cart_id render (CartId u) = JStr (render u)"

definition json_of_cart :: "(uuid \<Rightarrow> string) \<Rightarrow> cart_projection \<Rightarrow> json" where
  "json_of_cart render c = JObj
     [(''cart_id'', json_of_cart_id render (cp_cart_id c)), (''version'', JInt (uint (cp_version c))),
      (''currency'', JStr (cp_currency c)), (''merchant_id'', JStr (cp_merchant_id c)),
      (''tenant_id'', json_opt JStr (cp_tenant_id c)), (''lines'', json_list json_of_line (cp_lines c)),
      (''subtotal_minor'', JInt (cp_subtotal_minor c)), (''tax_minor'', JInt (cp_tax_minor c)),
      (''total_minor'', JInt (cp_total_minor c)), (''geo_ok'', JBool (cp_geo_ok c)),
      (''status'', json_of_status (cp_status c)), (''fulfillment'', json_opt json_of_fulfillment (cp_fulfillment c)),
      (''fulfillment_minor'', JInt (cp_fulfillment_minor c)),
      (''adjustment_codes'', json_list JStr (cp_adjustment_codes c)),
      (''discounts'', json_list json_of_discount (cp_discounts c)), (''discount_minor'', JInt (cp_discount_minor c))]"

definition json_of_customer :: "customer_hint \<Rightarrow> json" where
  "json_of_customer c = JObj [(''email'', json_opt JStr (ch_email c)), (''full_name'', json_opt JStr (ch_full_name c))]"

definition json_of_location :: "location_hint \<Rightarrow> json" where
  "json_of_location l = JObj
     [(''country_code'', json_opt JStr (lh_country_code l)), (''region'', json_opt JStr (lh_region l)),
      (''postal_code'', json_opt JStr (lh_postal_code l)), (''intent'', json_opt JStr (lh_intent l))]"

fun json_of_payment_method :: "payment_method_type \<Rightarrow> json" where
  "json_of_payment_method Ap2 = JStr ''ap2''"
| "json_of_payment_method Mpp = JStr ''mpp''"

definition json_of_intent :: "payment_intent \<Rightarrow> json" where
  "json_of_intent p = JObj
     [(''amount_minor'', JInt (pi_amount_minor p)), (''token_or_reference'', JStr (pi_token_or_reference p)),
      (''ap2_consent_proof'', json_opt JStr (pi_ap2_consent_proof p)),
      (''payment_handler_id'', json_opt JStr (pi_payment_handler_id p)),
      (''payment_method_type'', json_opt json_of_payment_method (pi_payment_method_type p)),
      (''mpp_method'', json_opt JStr (pi_mpp_method p)), (''mpp_intent'', json_opt JStr (pi_mpp_intent p))]"

definition json_of_checkout :: "(uuid \<Rightarrow> string) \<Rightarrow> checkout_request \<Rightarrow> json" where
  "json_of_checkout render q = JObj
     [(''tenant_id'', JStr (cr_tenant_id q)), (''merchant_id'', JStr (cr_merchant_id q)),
      (''cart_id'', json_of_cart_id render (cr_cart_id q)), (''cart_version'', JInt (uint (cr_cart_version q))),
      (''currency'', JStr (cr_currency q)), (''customer'', json_opt json_of_customer (cr_customer q)),
      (''location'', json_opt json_of_location (cr_location q)),
      (''payment_intent'', json_of_intent (cr_payment_intent q)), (''idempotency_key'', JStr (cr_idempotency_key q))]"

definition json_of_lifecycle :: "payment_lifecycle_request \<Rightarrow> json" where
  "json_of_lifecycle p = JObj
     [(''tenant_id'', JStr (pl_tenant_id p)), (''merchant_id'', JStr (pl_merchant_id p)),
      (''transaction_id'', JStr (pl_transaction_id p)), (''amount_minor'', JInt (pl_amount_minor p)),
      (''idempotency_key'', JStr (pl_idempotency_key p))]"

definition json_of_totals :: "totals_breakdown \<Rightarrow> json" where
  "json_of_totals t = JObj
     [(''subtotal_minor'', JInt (tb_subtotal_minor t)), (''tax_minor'', JInt (tb_tax_minor t)),
      (''discount_minor'', JInt (tb_discount_minor t)), (''fulfillment_minor'', JInt (tb_fulfillment_minor t)),
      (''total_minor'', JInt (tb_total_minor t))]"

fun json_of_transaction_status :: "transaction_status \<Rightarrow> json" where
  "json_of_transaction_status Completed = JStr ''Completed''"
| "json_of_transaction_status Rejected = JStr ''Rejected''"
| "json_of_transaction_status AuthFailed = JStr ''AuthFailed''"
| "json_of_transaction_status CommitFailed = JStr ''CommitFailed''"
| "json_of_transaction_status TimedOut = JStr ''TimedOut''"

fun json_of_payment_state :: "payment_state \<Rightarrow> json" where
  "json_of_payment_state Authorized = JStr ''Authorized''"
| "json_of_payment_state Captured = JStr ''Captured''"
| "json_of_payment_state Voided = JStr ''Voided''"
| "json_of_payment_state RefundPending = JStr ''RefundPending''"
| "json_of_payment_state Refunded = JStr ''Refunded''"
| "json_of_payment_state Reconciled = JStr ''Reconciled''"
| "json_of_payment_state Failed = JStr ''Failed''"

definition json_of_transaction :: "(uuid \<Rightarrow> string) \<Rightarrow> transaction_result \<Rightarrow> json" where
  "json_of_transaction render t = JObj
     [(''transaction_id'', JStr (tr_transaction_id t)), (''status'', json_of_transaction_status (tr_status t)),
      (''totals_breakdown'', json_of_totals (tr_totals_breakdown t)),
      (''payment_reference'', json_opt JStr (tr_payment_reference t)),
      (''receipt_payload'', json_opt JStr (tr_receipt_payload t)), (''correlation_id'', JStr (render (tr_correlation_id t))),
      (''audit_trail_id'', json_opt JStr (tr_audit_trail_id t)),
      (''payment_state'', json_of_payment_state (tr_payment_state t)), (''order_id'', json_opt JStr (tr_order_id t))]"

section \<open>Answers\<close>

record auth_response = xa_authorized :: bool xa_reference :: string

record operation_response = xo_success :: bool xo_reference :: string

record payment_state_dto = xs_state :: string

record line_price_dto = xl_line_id :: string xl_unit_price_minor :: i64 xl_total_minor :: i64

record resolve_prices_response = xp_prices :: "line_price_dto list"

record applied_discount_dto =
  xd_code :: string
  xd_description :: "string option"
  xd_amount_minor :: i64
  xd_line_id :: "string option"

record resolve_discounts_response = xd_discounts :: "applied_discount_dto list option"

record catalog_item_dto = xc_id :: string xc_title :: string xc_price_minor :: i64

record catalog_items_response = xc_products :: "catalog_item_dto list"

record resolve_tax_response = xt_total_tax_minor :: i64

record geo_check_response = xg_allowed :: bool

record generate_receipt_response = xr_content :: string

record quote_response = xq_options :: "fulfillment_option list"

record delegate_response_body =
  xe_id :: string
  xe_token :: string
  xe_status :: "string option"
  xe_expires_at :: "string option"

record identity_link_response_body =
  xi_link_id :: string
  xi_status :: "string option"
  xi_expires_at :: "string option"

definition auth_result_of :: "auth_response \<Rightarrow> auth_result" where
  "auth_result_of r = \<lparr>ar_authorized = xa_authorized r, ar_reference = xa_reference r\<rparr>"

definition operation_result_of :: "operation_response \<Rightarrow> payment_operation_result" where
  "operation_result_of r = \<lparr>por_success = xo_success r, por_reference = xo_reference r\<rparr>"

definition to_payment_state :: "payment_state_dto \<Rightarrow> payment_state option" where
  "to_payment_state d =
     (if xs_state d = ''authorized'' then Some Authorized
      else if xs_state d = ''captured'' then Some Captured
      else if xs_state d = ''voided'' then Some Voided
      else if xs_state d = ''refund_pending'' \<or> xs_state d = ''refundpending'' then Some RefundPending
      else if xs_state d = ''refunded'' then Some Refunded
      else if xs_state d = ''reconciled'' then Some Reconciled
      else if xs_state d = ''failed'' then Some Failed
      else None)"

definition line_price_of :: "line_price_dto \<Rightarrow> line_price" where
  "line_price_of d = \<lparr>lp_line_id = xl_line_id d, lp_unit_price_minor = xl_unit_price_minor d, lp_total_minor = xl_total_minor d\<rparr>"

definition discount_of :: "applied_discount_dto \<Rightarrow> applied_discount" where
  "discount_of d = \<lparr>ad_code = xd_code d, ad_description = xd_description d, ad_amount_minor = xd_amount_minor d,
     ad_line_id = xd_line_id d\<rparr>"

definition catalog_item_of :: "catalog_item_dto \<Rightarrow> catalog_item" where
  "catalog_item_of d = \<lparr>ci_id = xc_id d, ci_title = xc_title d, ci_price_minor = xc_price_minor d\<rparr>"

definition delegated_status :: string where "delegated_status = ''delegated''"

definition linked_status :: string where "linked_status = ''linked''"

section \<open>Adapters\<close>

record wire =
  wi_uuid :: "uuid \<Rightarrow> string"
  wi_print :: "json \<Rightarrow> string"
  wi_duration :: "nat \<Rightarrow> string"
  wi_status :: "u16 \<Rightarrow> string"
  wi_auth :: "string \<Rightarrow> string + auth_response"
  wi_operation :: "string \<Rightarrow> string + operation_response"
  wi_state :: "string \<Rightarrow> string + payment_state_dto"
  wi_prices :: "string \<Rightarrow> string + resolve_prices_response"
  wi_discounts :: "string \<Rightarrow> string + resolve_discounts_response"
  wi_item :: "string \<Rightarrow> string + catalog_item_dto"
  wi_items :: "string \<Rightarrow> string + catalog_items_response"
  wi_tax :: "string \<Rightarrow> string + resolve_tax_response"
  wi_geo :: "string \<Rightarrow> string + geo_check_response"
  wi_receipt :: "string \<Rightarrow> string + generate_receipt_response"
  wi_options :: "string \<Rightarrow> string + quote_response"
  wi_delegate :: "string \<Rightarrow> string + delegate_response_body"
  wi_link :: "string \<Rightarrow> string + identity_link_response_body"

definition wi_display :: "wire \<Rightarrow> adapter_error \<Rightarrow> string" where
  "wi_display W = adapter_error_display (wi_duration W) (wi_status W)"

text \<open>Every adapter has a base URL and the configuration its client was built with.\<close>

record http_adapter =
  ha_env :: http_env
  ha_base_url :: string
  ha_config :: client_config

type_synonym ('e, 'a) adapter_op = "(client_state, 'e, 'a) op"

definition ha_base :: "http_adapter \<Rightarrow> string" where
  "ha_base A = trim_end_matches (CHR ''/'') (ha_base_url A)"

text \<open>
  \<open>call.await.map_err(from)?\<close> and then \<open>resp.json().await.map_err(bad)?\<close>. The client answers with a
  response or an error of its own, never with a failed send.
\<close>

definition read_json ::
  "(adapter_error \<Rightarrow> 'e) \<Rightarrow> (string \<Rightarrow> 'e) \<Rightarrow> (string \<Rightarrow> string + 'b) \<Rightarrow> send_result client \<Rightarrow> ('e, 'b) adapter_op" where
  "read_json err bad parse call =
     op_bind (op_map_err err call) (\<lambda>resp.
       case resp of
         Response status retry_after body \<Rightarrow> (case parse body of Inl e \<Rightarrow> op_fail (bad e) | Inr b \<Rightarrow> op_return b)
       | SendError t \<Rightarrow> op_fail (err (Http t)))"

definition post_to ::
  "http_adapter \<Rightarrow> string \<Rightarrow> string \<Rightarrow> send_result client" where
  "post_to A path body = post_json_with_retry (ha_env A) (ha_config A) (ha_base A @ path) body None"

section \<open>Catalog\<close>

definition item_url :: "http_adapter \<Rightarrow> string \<Rightarrow> string" where
  "item_url A item_id = ha_base A @ ''/items/'' @ item_id"

definition catalog_path :: "string \<Rightarrow> string" where
  "catalog_path path = ''/catalog/'' @ dropWhile (\<lambda>c. c = CHR ''/'') path"

definition bad_catalog :: "string \<Rightarrow> catalog_error" where
  "bad_catalog e = CatalogNotFound (''invalid catalog response: '' @ e)"

definition catalog_get_item :: "wire \<Rightarrow> http_adapter \<Rightarrow> string \<Rightarrow> (catalog_error, catalog_item) adapter_op" where
  "catalog_get_item W A item_id =
     op_bind (read_json (to_catalog_error (wi_display W)) bad_catalog (wi_item W)
                (get_with_retry (ha_env A) (ha_config A) (item_url A item_id) None)) (\<lambda>dto.
     op_return (catalog_item_of dto))"

definition catalog_lookup_items :: "wire \<Rightarrow> http_adapter \<Rightarrow> string list \<Rightarrow> (catalog_error, catalog_item list) adapter_op" where
  "catalog_lookup_items W A item_ids =
     op_bind (read_json (to_catalog_error (wi_display W)) bad_catalog (wi_items W)
                (post_to A (catalog_path ''lookup'') (wi_print W (JObj [(''ids'', json_list JStr item_ids)])))) (\<lambda>dto.
     op_return (map catalog_item_of (xc_products dto)))"

definition catalog_search_items :: "wire \<Rightarrow> http_adapter \<Rightarrow> string option \<Rightarrow> (catalog_error, catalog_item list) adapter_op" where
  "catalog_search_items W A query =
     op_bind (read_json (to_catalog_error (wi_display W)) bad_catalog (wi_items W)
                (post_to A (catalog_path ''search'') (wi_print W (JObj (json_present ''query'' JStr query))))) (\<lambda>dto.
     op_return (map catalog_item_of (xc_products dto)))"

section \<open>Pricing, tax, geo\<close>

definition pricing_resolve_prices :: "wire \<Rightarrow> http_adapter \<Rightarrow> cart_projection \<Rightarrow> (pricing_error, line_price list) adapter_op" where
  "pricing_resolve_prices W A cart =
     op_bind (read_json (to_pricing_error (wi_display W)) (\<lambda>e. PricingFailed (''invalid pricing response: '' @ e)) (wi_prices W)
                (post_to A ''/prices/resolve'' (wi_print W (json_of_cart (wi_uuid W) cart)))) (\<lambda>body.
     op_return (map line_price_of (xp_prices body)))"

definition pricing_resolve_discounts ::
  "wire \<Rightarrow> http_adapter \<Rightarrow> cart_projection \<Rightarrow> string list \<Rightarrow> (pricing_error, applied_discount list) adapter_op" where
  "pricing_resolve_discounts W A cart codes =
     (if codes = [] then op_return []
      else op_bind (read_json (to_pricing_error (wi_display W)) (\<lambda>e. PricingFailed (''invalid discount response: '' @ e))
                      (wi_discounts W)
                      (post_to A ''/discounts/resolve''
                        (wi_print W (JObj [(''cart'', json_of_cart (wi_uuid W) cart), (''codes'', json_list JStr codes)])))) (\<lambda>body.
           op_return (map discount_of (case xd_discounts body of None \<Rightarrow> [] | Some ds \<Rightarrow> ds))))"

definition tax_resolve :: "wire \<Rightarrow> http_adapter \<Rightarrow> cart_projection \<Rightarrow> (tax_error, i64) adapter_op" where
  "tax_resolve W A cart =
     op_bind (read_json (to_tax_error (wi_display W)) (\<lambda>e. TaxFailed (''invalid tax response: '' @ e)) (wi_tax W)
                (post_to A ''/tax/resolve'' (wi_print W (json_of_cart (wi_uuid W) cart)))) (\<lambda>body.
     op_return (xt_total_tax_minor body))"

definition geo_check :: "wire \<Rightarrow> http_adapter \<Rightarrow> cart_projection \<Rightarrow> checkout_request \<Rightarrow> (geo_error, bool) adapter_op" where
  "geo_check W A cart request =
     op_bind (read_json (to_geo_error (wi_display W)) (\<lambda>e. GeoFailed (''invalid geo response: '' @ e)) (wi_geo W)
                (post_to A ''/geo/check''
                  (wi_print W (JObj [(''cart'', json_of_cart (wi_uuid W) cart), (''request'', json_of_checkout (wi_uuid W) request)])))) (\<lambda>body.
     op_return (xg_allowed body))"

section \<open>Payment\<close>

definition mpp_headers :: "checkout_request \<Rightarrow> (string \<times> string) list" where
  "mpp_headers request =
     (let intent = cr_payment_intent request in
      if pi_payment_method_type intent \<noteq> Some Mpp then []
      else (''X-Payment-Method'', ''mpp'') #
           (case pi_mpp_method intent of None \<Rightarrow> [] | Some m \<Rightarrow> [(''X-Mpp-Method'', m)]) @
           (case pi_mpp_intent intent of None \<Rightarrow> [] | Some i \<Rightarrow> [(''X-Mpp-Intent'', i)]))"

definition payment_authorize :: "wire \<Rightarrow> http_adapter \<Rightarrow> checkout_request \<Rightarrow> (payment_error, auth_result) adapter_op" where
  "payment_authorize W A request =
     op_bind (read_json (to_payment_error (wi_display W)) (\<lambda>e. PaymentAuthFailed (''invalid authorize response: '' @ e)) (wi_auth W)
                (post_json (ha_env A) (ha_config A) (ha_base A @ ''/authorize'') (wi_print W (json_of_checkout (wi_uuid W) request))
                  (with_headers (mpp_headers request) (with_idempotency_key (cr_idempotency_key request) no_options)))) (\<lambda>body.
     op_return (auth_result_of body))"

text \<open>\<open>capture\<close>, \<open>void\<close> and \<open>refund\<close> differ in the last part of the URL and the text of an unreadable answer.\<close>

definition payment_lifecycle_call ::
  "wire \<Rightarrow> http_adapter \<Rightarrow> string \<Rightarrow> payment_lifecycle_request \<Rightarrow> (payment_error, payment_operation_result) adapter_op" where
  "payment_lifecycle_call W A what request =
     op_bind (read_json (to_payment_error (wi_display W))
                (\<lambda>e. PaymentUnsupported (''invalid '' @ what @ '' response: '' @ e)) (wi_operation W)
                (post_json (ha_env A) (ha_config A) (ha_base A @ ''/'' @ what) (wi_print W (json_of_lifecycle request))
                  (with_idempotency_key (pl_idempotency_key request) no_options))) (\<lambda>body.
     op_return (operation_result_of body))"

definition payment_capture ::
  "wire \<Rightarrow> http_adapter \<Rightarrow> payment_lifecycle_request \<Rightarrow> (payment_error, payment_operation_result) adapter_op" where
  "payment_capture W A = payment_lifecycle_call W A ''capture''"

definition payment_void ::
  "wire \<Rightarrow> http_adapter \<Rightarrow> payment_lifecycle_request \<Rightarrow> (payment_error, payment_operation_result) adapter_op" where
  "payment_void W A = payment_lifecycle_call W A ''void''"

definition payment_refund ::
  "wire \<Rightarrow> http_adapter \<Rightarrow> payment_lifecycle_request \<Rightarrow> (payment_error, payment_operation_result) adapter_op" where
  "payment_refund W A = payment_lifecycle_call W A ''refund''"

text \<open>The lookup has no error: every failure is an unknown state.\<close>

definition state_url :: "http_adapter \<Rightarrow> string \<Rightarrow> string" where
  "state_url A transaction_id = ha_base A @ ''/state/'' @ transaction_id"

definition payment_get_state :: "wire \<Rightarrow> http_adapter \<Rightarrow> string \<Rightarrow> client_state \<Rightarrow> payment_state option \<times> client_state" where
  "payment_get_state W A transaction_id s =
     (case get_with_retry (ha_env A) (ha_config A) (state_url A transaction_id) None s of
        (Inr (Response status _ body), t) \<Rightarrow>
          (if status = 404 then None
           else if \<not> is_success status then None
           else case wi_state W body of Inl _ \<Rightarrow> None | Inr dto \<Rightarrow> to_payment_state dto, t)
      | (_, t) \<Rightarrow> (None, t))"

section \<open>Receipts, fulfillment, delegation, identity links\<close>

definition receipt_generate ::
  "wire \<Rightarrow> http_adapter \<Rightarrow> cart_projection \<Rightarrow> transaction_result \<Rightarrow> (receipt_error, string) adapter_op" where
  "receipt_generate W A cart result =
     op_bind (read_json (to_receipt_error (wi_display W)) (\<lambda>e. ReceiptFailed (''invalid receipt response: '' @ e)) (wi_receipt W)
                (post_to A ''/receipts/generate''
                  (wi_print W (JObj [(''cart'', json_of_cart (wi_uuid W) cart), (''result'', json_of_transaction (wi_uuid W) result)])))) (\<lambda>payload.
     op_return (xr_content payload))"

definition fulfillment_quote_options ::
  "wire \<Rightarrow> http_adapter \<Rightarrow> cart_projection \<Rightarrow> fulfillment_quote_request \<Rightarrow> (fulfillment_error, fulfillment_option list) adapter_op" where
  "fulfillment_quote_options W A cart request =
     op_bind (read_json (to_fulfillment_error (wi_display W)) (\<lambda>e. FulfillmentFailed (''invalid fulfillment response: '' @ e))
                (wi_options W)
                (post_to A ''/fulfillment/quote''
                  (wi_print W (JObj [(''cart'', json_of_cart (wi_uuid W) cart),
                     (''method_type'', json_of_method_type (fq_method_type request)),
                     (''destination'', json_of_destination (fq_destination request)),
                     (''line_item_ids'', json_list JStr (fq_line_item_ids request))])))) (\<lambda>parsed.
     op_return (xq_options parsed))"

definition payment_delegate ::
  "wire \<Rightarrow> http_adapter \<Rightarrow> payment_delegation_request \<Rightarrow> (delegation_error, delegated_payment) adapter_op" where
  "payment_delegate W A request =
     op_bind (read_json (\<lambda>e. DelegationProvider (wi_display W e))
                (\<lambda>e. DelegationProvider (''invalid delegation response: '' @ e)) (wi_delegate W)
                (post_json (ha_env A) (ha_config A) (ha_base A @ ''/delegate_payment'')
                  (wi_print W (JObj
                    ([(''tenant_id'', JStr (pd_tenant_id request)), (''token'', JStr (pd_token request))] @
                     json_present ''method_type'' JStr (pd_method_type request) @
                     json_present ''max_amount_minor'' JInt (pd_max_amount_minor request) @
                     [(''metadata'', JObj (map (\<lambda>(k, v). (k, JStr v)) (pd_metadata request)))])))
                  (with_idempotency_key (pd_idempotency_key request) no_options))) (\<lambda>parsed.
     op_return \<lparr>dp_id = xe_id parsed, dp_token = xe_token parsed,
       dp_status = (case xe_status parsed of None \<Rightarrow> delegated_status | Some st \<Rightarrow> st),
       dp_expires_at = xe_expires_at parsed\<rparr>)"

definition identity_link ::
  "wire \<Rightarrow> http_adapter \<Rightarrow> provider_identity_link_request \<Rightarrow> (identity_link_provider_error, identity_link_record) adapter_op" where
  "identity_link W A request =
     op_bind (read_json (\<lambda>e. IdentityProvider (wi_display W e))
                (\<lambda>e. IdentityProvider (''invalid identity link response: '' @ e)) (wi_link W)
                (post_json (ha_env A) (ha_config A) (ha_base A @ ''/identity/link'')
                  (wi_print W (JObj
                    [(''tenant_id'', JStr (pil_tenant_id request)), (''merchant_id'', JStr (pil_merchant_id request)),
                     (''agent_id'', JStr (pil_agent_id request)), (''link_token'', JStr (pil_link_token request))]))
                  no_options)) (\<lambda>parsed.
     op_return \<lparr>ir_link_id = xi_link_id parsed,
       ir_status = (case xi_status parsed of None \<Rightarrow> linked_status | Some st \<Rightarrow> st),
       ir_expires_at = xi_expires_at parsed\<rparr>)"

section \<open>The providers of a production server\<close>

text \<open>
  Each adapter keeps a client of its own. As a provider is a function of the calls made before, the state
  of a client is what those calls made of it; \<open>call_effect\<close> names the adapter a call goes to.
\<close>

definition new_client :: client_state where
  "new_client = \<lparr>cs_breaker = new_circuit, cs_token = None, cs_calls = [], cs_slept = [], cs_ticks = 0\<rparr>"

type_synonym fleet = "provider \<Rightarrow> http_adapter"

fun call_effect :: "wire \<Rightarrow> fleet \<Rightarrow> ext_call \<Rightarrow> provider \<times> (client_state \<Rightarrow> client_state)" where
  "call_effect W F (CallGetItem i) = (Catalog, \<lambda>s. snd (catalog_get_item W (F Catalog) i s))"
| "call_effect W F (CallLookupItems ids) = (Catalog, \<lambda>s. snd (catalog_lookup_items W (F Catalog) ids s))"
| "call_effect W F (CallSearchItems q) = (Catalog, \<lambda>s. snd (catalog_search_items W (F Catalog) q s))"
| "call_effect W F (CallPrices c) = (Pricing, \<lambda>s. snd (pricing_resolve_prices W (F Pricing) c s))"
| "call_effect W F (CallDiscounts c codes) = (Pricing, \<lambda>s. snd (pricing_resolve_discounts W (F Pricing) c codes s))"
| "call_effect W F (CallTax c) = (Tax, \<lambda>s. snd (tax_resolve W (F Tax) c s))"
| "call_effect W F (CallGeo c q) = (Geo, \<lambda>s. snd (geo_check W (F Geo) c q s))"
| "call_effect W F (CallQuote c q) = (Fulfillment, \<lambda>s. snd (fulfillment_quote_options W (F Fulfillment) c q s))"
| "call_effect W F (CallAuthorize q) = (Payment, \<lambda>s. snd (payment_authorize W (F Payment) q s))"
| "call_effect W F (CallCapture q) = (Payment, \<lambda>s. snd (payment_capture W (F Payment) q s))"
| "call_effect W F (CallVoid q) = (Payment, \<lambda>s. snd (payment_void W (F Payment) q s))"
| "call_effect W F (CallRefund q) = (Payment, \<lambda>s. snd (payment_refund W (F Payment) q s))"
| "call_effect W F (CallPaymentState t) = (Payment, \<lambda>s. snd (payment_get_state W (F Payment) t s))"
| "call_effect W F (CallReceipt c t) = (Receipt, \<lambda>s. snd (receipt_generate W (F Receipt) c t s))"

definition client_after :: "wire \<Rightarrow> fleet \<Rightarrow> provider \<Rightarrow> history \<Rightarrow> client_state" where
  "client_after W F p h =
     fold (\<lambda>c s. case call_effect W F c of (q, step) \<Rightarrow> if q = p then step s else s) h new_client"

definition http_providers :: "wire \<Rightarrow> fleet \<Rightarrow> bool \<Rightarrow> provider_set" where
  "http_providers W F rated =
     \<lparr>ps_get_item = (\<lambda>h i. fst (catalog_get_item W (F Catalog) i (client_after W F Catalog h))),
      ps_lookup_items = (\<lambda>h ids. fst (catalog_lookup_items W (F Catalog) ids (client_after W F Catalog h))),
      ps_search_items = (\<lambda>h q. fst (catalog_search_items W (F Catalog) q (client_after W F Catalog h))),
      ps_resolve_prices = (\<lambda>h c. fst (pricing_resolve_prices W (F Pricing) c (client_after W F Pricing h))),
      ps_resolve_discounts = (\<lambda>h c codes. fst (pricing_resolve_discounts W (F Pricing) c codes (client_after W F Pricing h))),
      ps_resolve_tax = (\<lambda>h c. fst (tax_resolve W (F Tax) c (client_after W F Tax h))),
      ps_geo_check = (\<lambda>h c q. fst (geo_check W (F Geo) c q (client_after W F Geo h))),
      ps_authorize = (\<lambda>h q. fst (payment_authorize W (F Payment) q (client_after W F Payment h))),
      ps_capture = (\<lambda>h q. fst (payment_capture W (F Payment) q (client_after W F Payment h))),
      ps_void = (\<lambda>h q. fst (payment_void W (F Payment) q (client_after W F Payment h))),
      ps_refund = (\<lambda>h q. fst (payment_refund W (F Payment) q (client_after W F Payment h))),
      ps_payment_state = (\<lambda>h t. fst (payment_get_state W (F Payment) t (client_after W F Payment h))),
      ps_receipt = (\<lambda>h c t. fst (receipt_generate W (F Receipt) c t (client_after W F Receipt h))),
      ps_fulfillment = (if rated
        then Some (\<lambda>h c q. fst (fulfillment_quote_options W (F Fulfillment) c q (client_after W F Fulfillment h)))
        else None)\<rparr>"

end
