(* ===== verification/Adapter_Facts.thy ===== *)
theory Adapter_Facts
  imports Provider_Adapters Client_Facts
begin

text \<open>
  What the payment provider sees of the payment calls of the runner: the requests each call sends, the
  requests one checkout sends, and what a provider that honours idempotency keys makes of them.
\<close>

section \<open>What the recorded calls are\<close>

text \<open>Every recorded answer is the answer of the network to that request after the calls before it.\<close>

fun network_answers :: "http_env \<Rightarrow> call list \<Rightarrow> call list \<Rightarrow> bool" where
  "network_answers env past [] = True"
| "network_answers env past (c # cs) \<longleftrightarrow> snd c = he_send env past (fst c) \<and> network_answers env (past @ [c]) cs"

lemma network_answers_append [simp]: "network_answers env past (a @ b) \<longleftrightarrow> network_answers env past a \<and> network_answers env (past @ a) b"
  by (induction a arbitrary: past) auto

definition recorded :: "http_env \<Rightarrow> client_state \<Rightarrow> client_state \<Rightarrow> bool" where
  "recorded env s t \<longleftrightarrow> (\<exists>new. cs_calls t = cs_calls s @ new \<and> network_answers env (cs_calls s) new)"

interpretation recorded: frame "recorded env" for env
proof unfold_locales
  show "recorded env s s" for s by (simp add: recorded_def)
  show "recorded env s u" if "recorded env s t" "recorded env t u" for s t u
    using that by (auto simp: recorded_def)
qed

lemma quiet_recorded: "quiet m \<Longrightarrow> op_rel (recorded env) m"
  by (simp add: op_rel_def recorded_def)

lemma send_recorded: "op_rel (recorded env) (send env rq)"
  by (auto simp: op_rel_def recorded_def send_def Let_def)

lemma attempt_recorded: "op_rel (recorded env) (attempt_once env cfg policy rq)"
  unfolding attempt_once_def
  by (intro recorded.rel_rules send_recorded quiet_recorded [OF quiet_admit] quiet_recorded [OF quiet_auth]
      quiet_recorded [OF quiet_settle] quiet_recorded [OF quiet_judge])

lemma loop_recorded: "op_rel (recorded env) (attempt_loop env cfg policy rq attempts e)"
proof (induction attempts arbitrary: e)
  case Nil
  show ?case by (simp add: recorded.rel_fail)
next
  case (Cons n ns)
  then show ?case
    by (auto intro!: recorded.rel_rules attempt_recorded quiet_recorded [OF quiet_pause] split: verdict.splits)
qed

lemma client_recorded:
  "op_rel (recorded env) (get_with_retry env cfg url c)"
  "op_rel (recorded env) (post_json env cfg url body opts)"
  by (simp_all add: get_with_retry_def post_json_def execute_with_retry_def loop_recorded)

lemma read_recorded: "op_rel (recorded env) m \<Longrightarrow> op_rel (recorded env) (read_json err bad parse m)"
  unfolding read_json_def by (intro recorded.rel_rules) (auto intro: recorded.rel_rules split: send_result.splits sum.splits)

lemma adapter_recorded:
  "op_rel (recorded (ha_env A)) (catalog_get_item W A i)"
  "op_rel (recorded (ha_env A)) (catalog_lookup_items W A ids)"
  "op_rel (recorded (ha_env A)) (catalog_search_items W A q)"
  "op_rel (recorded (ha_env A)) (pricing_resolve_prices W A cart)"
  "op_rel (recorded (ha_env A)) (pricing_resolve_discounts W A cart codes)"
  "op_rel (recorded (ha_env A)) (tax_resolve W A cart)"
  "op_rel (recorded (ha_env A)) (geo_check W A cart request)"
  "op_rel (recorded (ha_env A)) (payment_authorize W A request)"
  "op_rel (recorded (ha_env A)) (payment_capture W A lr)"
  "op_rel (recorded (ha_env A)) (payment_void W A lr)"
  "op_rel (recorded (ha_env A)) (payment_refund W A lr)"
  "op_rel (recorded (ha_env A)) (receipt_generate W A cart txn)"
  "op_rel (recorded (ha_env A)) (fulfillment_quote_options W A cart quote)"
  unfolding catalog_get_item_def catalog_lookup_items_def catalog_search_items_def pricing_resolve_prices_def
    pricing_resolve_discounts_def tax_resolve_def geo_check_def payment_authorize_def payment_capture_def
    payment_void_def payment_refund_def payment_lifecycle_call_def receipt_generate_def fulfillment_quote_options_def
    post_to_def post_json_with_retry_def
  by (intro recorded.rel_rules read_recorded client_recorded)+

lemma state_recorded: "recorded (ha_env A) s (snd (payment_get_state W A txn s))"
proof -
  obtain x t where x: "get_with_retry (ha_env A) (ha_config A) (state_url A txn) None s = (x, t)" by force
  have "snd (payment_get_state W A txn s) = t"
    by (simp add: payment_get_state_def x split: sum.split send_result.split)
  then show ?thesis using op_relD [OF client_recorded(1) x] by simp
qed

section \<open>Clients over a history\<close>

lemma client_after_Nil [simp]: "cs_calls (client_after W F p []) = []"
  by (simp add: client_after_def new_client_def)

lemma client_after_snoc:
  "client_after W F p (h @ [c]) =
     (case call_effect W F c of (q, step) \<Rightarrow> if q = p then step (client_after W F p h) else client_after W F p h)"
  by (simp add: client_after_def split: prod.split)

lemma step_recorded:
  assumes "call_effect W F c = (p, step)"
  shows "recorded (ha_env (F p)) s (step s)"
  using assms adapter_recorded [unfolded op_rel_def] state_recorded by (cases c) auto

lemma client_after_grows: "recorded (ha_env (F p)) (client_after W F p h) (client_after W F p (h @ h'))"
proof (induction h' rule: rev_induct)
  case Nil
  show ?case by (simp add: recorded.refl)
next
  case (snoc c h')
  obtain q step where c: "call_effect W F c = (q, step)" by force
  have "recorded (ha_env (F p)) (client_after W F p (h @ h')) (client_after W F p ((h @ h') @ [c]))"
    using step_recorded [OF c] by (cases "q = p") (simp_all add: client_after_snoc c recorded.refl del: append_assoc)
  with snoc show ?case by (auto intro: recorded.trans)
qed

section \<open>Keyed requests\<close>

text \<open>The URL, the idempotency key and the body of the request of a payment call.\<close>

type_synonym keyed_call = "string \<times> string \<times> string"

fun payment_request :: "wire \<Rightarrow> http_adapter \<Rightarrow> ext_call \<Rightarrow> keyed_call option" where
  "payment_request W A (CallAuthorize q) =
     Some (ha_base A @ ''/authorize'', cr_idempotency_key q, wi_print W (json_of_checkout (wi_uuid W) q))"
| "payment_request W A (CallCapture p) =
     Some (ha_base A @ ''/capture'', pl_idempotency_key p, wi_print W (json_of_lifecycle p))"
| "payment_request W A (CallVoid p) =
     Some (ha_base A @ ''/void'', pl_idempotency_key p, wi_print W (json_of_lifecycle p))"
| "payment_request W A (CallRefund p) =
     Some (ha_base A @ ''/refund'', pl_idempotency_key p, wi_print W (json_of_lifecycle p))"
| "payment_request W A _ = None"

definition idem_key :: "http_request \<Rightarrow> string option" where
  "idem_key rq = map_of (rq_headers rq) ''Idempotency-Key''"

definition carries :: "keyed_call \<Rightarrow> http_request \<Rightarrow> bool" where
  "carries k rq \<longleftrightarrow> (case k of (url, key, body) \<Rightarrow>
     rq_method rq = ''POST'' \<and> rq_url rq = url \<and> idem_key rq = Some key \<and> rq_body rq = body)"

definition posts :: "client_state \<Rightarrow> call list" where
  "posts s = filter (\<lambda>c. rq_method (fst c) = ''POST'') (cs_calls s)"

text \<open>
  The requests of one keyed call: as many as its attempts, all alike, and none after one that was answered
  with success.
\<close>

definition sends_keyed :: "http_adapter \<Rightarrow> keyed_call \<Rightarrow> call list \<Rightarrow> bool" where
  "sends_keyed A k new \<longleftrightarrow>
     length new \<le> unat (hc_max_retries (ha_config A)) + 1 \<and> (\<forall>c \<in> set new. carries k (fst c)) \<and>
     (\<forall>c \<in> set (butlast new). \<not> answered (snd c))"

definition accepted :: "call list \<Rightarrow> call list" where
  "accepted cs = filter (\<lambda>c. answered (snd c)) cs"

lemma sends_keyed_accepted: "sends_keyed A k new \<Longrightarrow> length (accepted new) \<le> 1"
  by (cases new rule: rev_cases) (auto simp: sends_keyed_def accepted_def filter_empty_conv)

lemma repeatable_unanswered: "repeatable policy r \<Longrightarrow> \<not> answered r"
  by (cases r) (simp_all add: repeatable_def answered_def)

lemma keyed_post:
  assumes "post_json (ha_env A) (ha_config A) url body opts s = (x, t)" "ro_idempotency_key opts = Some key"
  shows "\<exists>new. cs_calls t = cs_calls s @ new \<and> sends_keyed A (url, key, body) new \<and>
    (\<forall>c \<in> set (butlast new). \<not> answered (snd c)) \<and>
    (\<forall>r. x = Inr r \<longrightarrow> new \<noteq> [] \<and> snd (last new) = r \<and> answered r)"
proof -
  have carried: "carries (url, key, body) (fst c)"
    if "extends (build_request (ha_env A) ''POST'' url body opts) (fst c)" for c :: call
    using that assms(2)
    by (auto simp: extends_def build_request_def carries_def idem_key_def split: option.splits)
  from loop_calls [OF assms(1) [unfolded post_json_def execute_with_retry_def]]
  obtain new where new: "cs_calls t = cs_calls s @ new" "length new \<le> unat (hc_max_retries (ha_config A)) + 1"
      "\<forall>c \<in> set new. extends (build_request (ha_env A) ''POST'' url body opts) (fst c)"
    and rep: "\<forall>c \<in> set (butlast new).
      repeatable (if ro_idempotency_key opts \<noteq> None then Idempotent else NonIdempotent) (snd c)"
    and ans: "\<forall>r. x = Inr r \<longrightarrow> new \<noteq> [] \<and> snd (last new) = r \<and> answered r"
    by auto
  have "\<forall>c \<in> set (butlast new). \<not> answered (snd c)" using rep repeatable_unanswered by blast
  with new carried ans show ?thesis by (intro exI [of _ new]) (simp add: sends_keyed_def)
qed

lemma read_json_run:
  assumes "read_json err bad parse m s = (x, t)"
  shows "\<exists>y. m s = (y, t) \<and> (\<forall>b. x = Inr b \<longrightarrow> (\<exists>st ra body. y = Inr (Response st ra body) \<and> parse body = Inr b))"
  using assms
  by (auto simp: read_json_def op_bind_def op_map_err_def op_fail_def op_return_def
      split: prod.splits sum.splits send_result.splits)

text \<open>One payment operation of an adapter.\<close>

lemma keyed_operation:
  assumes "op_bind (read_json err bad parse
      (post_json (ha_env A) (ha_config A) url body opts)) (\<lambda>b. op_return (f b)) s = (x, t)"
    and "ro_idempotency_key opts = Some key"
  shows "\<exists>new. cs_calls t = cs_calls s @ new \<and> sends_keyed A (url, key, body) new \<and>
    (\<forall>c \<in> set (butlast new). \<not> answered (snd c)) \<and>
    (\<forall>a. x = Inr a \<longrightarrow> new \<noteq> [] \<and> answered (snd (last new)) \<and>
       (\<exists>st ra text b. snd (last new) = Response st ra text \<and> parse text = Inr b \<and> a = f b))"
proof -
  obtain y u where y: "read_json err bad parse (post_json (ha_env A) (ha_config A) url body opts) s = (y, u)" by force
  have x: "x = map_sum id f y" "t = u"
    using assms(1) y by (auto simp: op_bind_def op_return_def split: sum.splits)
  from read_json_run [OF y] obtain z where z: "post_json (ha_env A) (ha_config A) url body opts s = (z, u)"
    and parsed: "\<forall>b. y = Inr b \<longrightarrow> (\<exists>st ra text. z = Inr (Response st ra text) \<and> parse text = Inr b)"
    by (elim exE conjE) (rule that)
  from keyed_post [OF z assms(2)] obtain new where new: "cs_calls u = cs_calls s @ new"
    "sends_keyed A (url, key, body) new" "\<forall>c \<in> set (butlast new). \<not> answered (snd c)"
    "\<forall>r. z = Inr r \<longrightarrow> new \<noteq> [] \<and> snd (last new) = r \<and> answered r" by blast
  have "new \<noteq> [] \<and> answered (snd (last new)) \<and>
      (\<exists>st ra text b. snd (last new) = Response st ra text \<and> parse text = Inr b \<and> a = f b)" if "x = Inr a" for a
    using that x parsed new(4) by (cases y) auto
  with new x(2) show ?thesis by blast
qed

lemma with_key [simp]:
  "ro_idempotency_key (with_idempotency_key k opts) = Some k"
  "ro_idempotency_key (with_headers hs opts) = ro_idempotency_key opts"
  by (simp_all add: with_idempotency_key_def with_headers_def)

lemma authorize_run:
  assumes "payment_authorize W A q s = (x, t)" "payment_request W A (CallAuthorize q) = Some k"
  shows "\<exists>new. cs_calls t = cs_calls s @ new \<and> sends_keyed A k new \<and>
    (\<forall>c \<in> set (butlast new). \<not> answered (snd c)) \<and>
    (\<forall>a. x = Inr a \<longrightarrow> new \<noteq> [] \<and> answered (snd (last new)) \<and>
       (\<exists>st ra text b. snd (last new) = Response st ra text \<and> wi_auth W text = Inr b \<and> a = auth_result_of b))"
  using keyed_operation [OF assms(1) [unfolded payment_authorize_def], of "cr_idempotency_key q"] assms(2)
  by simp

lemma lifecycle_run:
  assumes "payment_lifecycle_call W A what p s = (x, t)"
  shows "\<exists>new. cs_calls t = cs_calls s @ new \<and>
    sends_keyed A (ha_base A @ ''/'' @ what, pl_idempotency_key p, wi_print W (json_of_lifecycle p)) new"
  using keyed_operation [OF assms [unfolded payment_lifecycle_call_def], of "pl_idempotency_key p"]
  by auto

lemma payment_step_keyed:
  assumes "call_effect W F c = (Payment, step)" "payment_request W (F Payment) c = Some k"
  shows "\<exists>new. cs_calls (step s) = cs_calls s @ new \<and> sends_keyed (F Payment) k new"
  using assms authorize_run [OF prod.collapse [symmetric]] lifecycle_run [OF prod.collapse [symmetric]]
  by (cases c) (fastforce simp: payment_capture_def payment_void_def payment_refund_def)+

lemma sends_keyed_posts: "sends_keyed A k new \<Longrightarrow> filter (\<lambda>c. rq_method (fst c) = ''POST'') new = new"
  by (auto simp: sends_keyed_def carries_def filter_id_conv split: prod.splits)

lemma get_calls:
  assumes "get_with_retry env cfg url c s = (x, t)"
  shows "posts t = posts s"
proof -
  from loop_calls [OF assms [unfolded get_with_retry_def execute_with_retry_def]]
  obtain new where new: "cs_calls t = cs_calls s @ new"
    "\<forall>c' \<in> set new. extends (build_request env ''GET'' url [] (with_correlation_id c no_options)) (fst c')" by blast
  then have "\<forall>c' \<in> set new. rq_method (fst c') = ''GET''" by (auto simp: extends_def build_request_def)
  then show ?thesis by (simp add: posts_def new(1) filter_empty_conv)
qed

lemma payment_step_posts:
  assumes "call_effect W F c = (q, step)"
  shows "\<exists>new. posts (if q = Payment then step s else s) = posts s @ new \<and>
    (if is_payment_call c then sends_keyed (F Payment) (the (payment_request W (F Payment) c)) new else new = [])"
proof (cases "payment_request W (F Payment) c")
  case (Some k)
  with assms have q: "call_effect W F c = (Payment, step)" "is_payment_call c" by (cases c; simp)+
  from payment_step_keyed [OF q(1) Some, of s] obtain new
    where "cs_calls (step s) = cs_calls s @ new" "sends_keyed (F Payment) k new" by blast
  with assms q Some show ?thesis by (simp add: posts_def sends_keyed_posts)
next
  case None
  have lookup: "posts (snd (payment_get_state W (F Payment) i s)) = posts s" for i
    using get_calls by (fastforce simp: payment_get_state_def split: prod.split sum.split send_result.split)
  from None assms lookup show ?thesis by (cases c) auto
qed

text \<open>The POST requests of a stretch of history, call by call.\<close>

definition sent_for :: "wire \<Rightarrow> http_adapter \<Rightarrow> ext_call \<Rightarrow> call list \<Rightarrow> bool" where
  "sent_for W A c part \<longleftrightarrow> sends_keyed A (the (payment_request W A c)) part"

lemma history_posts:
  "\<exists>parts. posts (client_after W F Payment (h @ h')) = posts (client_after W F Payment h) @ concat parts \<and>
     list_all2 (sent_for W (F Payment)) (filter is_payment_call h') parts"
proof (induction h' rule: rev_induct)
  case Nil
  show ?case by simp
next
  case (snoc c h')
  then obtain parts where parts: "posts (client_after W F Payment (h @ h')) = posts (client_after W F Payment h) @ concat parts"
    "list_all2 (sent_for W (F Payment)) (filter is_payment_call h') parts" by blast
  obtain q step where c: "call_effect W F c = (q, step)" by force
  let ?s = "client_after W F Payment (h @ h')"
  from payment_step_posts [OF c, of ?s] obtain new where new: "posts (if q = Payment then step ?s else ?s) = posts ?s @ new"
    "if is_payment_call c then sent_for W (F Payment) c new else new = []"
    unfolding sent_for_def by blast
  have "client_after W F Payment (h @ h' @ [c]) = (if q = Payment then step ?s else ?s)"
    using client_after_snoc [of W F Payment "h @ h'" c] by (simp add: c)
  then have "posts (client_after W F Payment (h @ h' @ [c])) = posts (client_after W F Payment h) @ concat parts @ new"
    using new(1) parts(1) by simp
  with parts(2) show ?case
    using new(2) by (intro exI [of _ "if is_payment_call c then parts @ [new] else parts"]) (auto intro: list_all2_appendI)
qed

text \<open>
  C24: the payment provider sees the runner's payment calls and nothing else that can change anything. After
  any history the POST requests it received are, call by call and in order, at most one more than the
  configured retries for each authorization, capture, void or refund, all alike, to the URL of that
  operation, with its request as the body and its idempotency key in the header, and none of them follows
  one of the same call that was answered with success.
\<close>

theorem payment_requests_keyed:
  "\<exists>parts. posts (client_after W F Payment h) = concat parts \<and>
     list_all2 (\<lambda>call part. sends_keyed (F Payment) (the (payment_request W (F Payment) call)) part)
       (filter is_payment_call h) parts"
  using history_posts [of W F "[]" h] by (simp add: posts_def sent_for_def [abs_def])

section \<open>A checkout on the wire\<close>

definition wired :: "wire \<Rightarrow> fleet \<Rightarrow> bool \<Rightarrow> runner \<Rightarrow> runner" where
  "wired W F rated r = r\<lparr>ru_providers := http_providers W F rated\<rparr>"

lemma sent_key:
  "sent_for W A (CallAuthorize q) part \<Longrightarrow> c \<in> set part \<Longrightarrow> idem_key (fst c) = Some (cr_idempotency_key q)"
  "sent_for W A (CallCapture p) part \<Longrightarrow> c \<in> set part \<Longrightarrow> idem_key (fst c) = Some (pl_idempotency_key p)"
  by (auto simp: sent_for_def sends_keyed_def carries_def)

text \<open>
  C10: one checkout charges once, also on the wire. Whatever the network does and however often the client
  repeats a request, one execution of a checkout on the HTTP adapters adds to the POST requests of the
  payment provider only copies of one authorization of the request itself and then of one capture, for a
  chargeable cart, whose total is the amount captured. At most one of these authorizations and at most one of
  these captures is answered with success: the client stops at it. Every one of them carries the idempotency
  key of the checkout, so that a provider that honours keys applies each at most once, also when an answer is
  lost.
\<close>

theorem checkout_on_the_wire:
  assumes "snapshots_ok w" "execute_checkout (wired W F rated r) request w = (x, w')"
  shows "\<exists>auth cap. posts (client_after W F Payment (w_log w')) = posts (client_after W F Payment (w_log w)) @ auth @ cap \<and>
    sent_for W (F Payment) (CallAuthorize request) auth \<and> length (accepted auth) \<le> 1 \<and> length (accepted cap) \<le> 1 \<and>
    (auth @ cap \<noteq> [] \<longrightarrow> (\<exists>cart. w_snapshots w' (cr_cart_id request) = Some cart \<and>
       chargeable (wired W F rated r) request cart \<and>
       (cap \<noteq> [] \<longrightarrow> (\<exists>txn. sent_for W (F Payment) (CallCapture (lifecycle_request request cart txn)) cap)))) \<and>
    (\<forall>c \<in> set (auth @ cap). idem_key (fst c) = Some (cr_idempotency_key request))"
proof -
  obtain calls where log: "w_log w' = w_log w @ calls" using checkout_log_grows [OF assms(2)] by blast
  from history_posts [of W F "w_log w" calls] obtain parts
    where parts: "posts (client_after W F Payment (w_log w')) = posts (client_after W F Payment (w_log w)) @ concat parts"
      "list_all2 (sent_for W (F Payment)) (filter is_payment_call calls) parts" by (auto simp: log)
  have none: "sent_for W (F Payment) c []" for c by (simp add: sent_for_def sends_keyed_def)
  have once: "length (accepted part) \<le> 1" if "sent_for W (F Payment) c part" for c part
    using that unfolding sent_for_def by (rule sends_keyed_accepted)
  have nil: "length (accepted []) \<le> 1" by (simp add: accepted_def)
  have key: "pl_idempotency_key (lifecycle_request request cart txn) = cr_idempotency_key request" for cart txn
    by (simp add: lifecycle_request_def)
  have "charged_at_most (wired W F rated r) request (payment_log w) w'"
    using checkout_charged [OF assms(1), of "wired W F rated r" request] assms(2) by (simp add: op_wp_all)
  then consider "filter is_payment_call calls = []"
    | cart where "w_snapshots w' (cr_cart_id request) = Some cart" "chargeable (wired W F rated r) request cart"
        "filter is_payment_call calls = [CallAuthorize request]"
    | cart txn where "w_snapshots w' (cr_cart_id request) = Some cart" "chargeable (wired W F rated r) request cart"
        "filter is_payment_call calls = [CallAuthorize request, CallCapture (lifecycle_request request cart txn)]"
    by (auto simp: charged_at_most_def payment_log_def log)
  then show ?thesis
  proof cases
    case 1
    with parts none show ?thesis by (intro exI [of _ "[]"]) (auto simp: accepted_def)
  next
    case 2
    with parts(2) obtain auth where auth: "parts = [auth]" "sent_for W (F Payment) (CallAuthorize request) auth"
      by (auto simp: list_all2_Cons1)
    have "\<forall>c \<in> set auth. idem_key (fst c) = Some (cr_idempotency_key request)" using sent_key(1) [OF auth(2)] by blast
    with auth 2(1,2) parts(1) once [OF auth(2)] nil show ?thesis by (intro exI [of _ auth] exI [of _ "[]"]) simp
  next
    case 3
    with parts(2) obtain auth cap where ac: "parts = [auth, cap]" "sent_for W (F Payment) (CallAuthorize request) auth"
        "sent_for W (F Payment) (CallCapture (lifecycle_request request cart txn)) cap"
      by (auto simp: list_all2_Cons1)
    have "\<forall>c \<in> set (auth @ cap). idem_key (fst c) = Some (cr_idempotency_key request)"
      using sent_key(1) [OF ac(2)] sent_key(2) [OF ac(3)] key by auto
    moreover have "posts (client_after W F Payment (w_log w')) = posts (client_after W F Payment (w_log w)) @ auth @ cap"
      using parts(1) ac(1) by simp
    ultimately show ?thesis using ac(2,3) 3(1,2) once [OF ac(2)] once [OF ac(3)] by blast
  qed
qed

section \<open>A provider that honours idempotency keys\<close>

text \<open>
  What the client is told of such a provider: a POST under a key it has answered before, at the same URL,
  gets the first answer again.
\<close>

definition same_operation :: "http_request \<Rightarrow> http_request \<Rightarrow> bool" where
  "same_operation rq rq' \<longleftrightarrow> rq_method rq' = rq_method rq \<and> rq_url rq' = rq_url rq \<and>
     idem_key rq \<noteq> None \<and> idem_key rq' = idem_key rq"

definition first_answer :: "http_request \<Rightarrow> call list \<Rightarrow> call option" where
  "first_answer rq past = List.find (\<lambda>c. same_operation rq (fst c) \<and> answered (snd c)) past"

definition honours_keys :: "http_env \<Rightarrow> bool" where
  "honours_keys env \<longleftrightarrow> (\<forall>past rq c. first_answer rq past = Some c \<longrightarrow> he_send env past rq = snd c)"

lemma find_append: "List.find P (xs @ ys) = (case List.find P xs of None \<Rightarrow> List.find P ys | Some x \<Rightarrow> Some x)"
  by (induction xs) auto

lemma first_answer_append:
  "first_answer rq (xs @ ys) = (case first_answer rq xs of None \<Rightarrow> first_answer rq ys | Some x \<Rightarrow> Some x)"
  unfolding first_answer_def by (rule find_append)

lemma carries_same: "carries (url, key, body) rq \<Longrightarrow> carries (url, key, body') rq' \<Longrightarrow> same_operation rq rq'"
  by (simp add: carries_def same_operation_def)

lemma first_answer_cong:
  assumes "carries (url, key, body) rq" "carries (url, key, body') rq'"
  shows "first_answer rq = first_answer rq'"
  using assms by (intro ext) (simp add: first_answer_def same_operation_def carries_def)

text \<open>The answer a keyed call ends with is the first answer under its key.\<close>

lemma keyed_first_answer:
  assumes "honours_keys env" "network_answers env past new" "sends_keyed A (url, key, body) new" "new \<noteq> []"
    and "answered (snd (last new))" "\<forall>c \<in> set (butlast new). \<not> answered (snd c)"
    and rq: "carries (url, key, body') rq"
  shows "\<exists>c. first_answer rq (past @ new) = Some c \<and> snd c = snd (last new) \<and>
    (\<forall>c'. first_answer rq past = Some c' \<longrightarrow> c = c')"
proof -
  have last: "carries (url, key, body) (fst (last new))" using assms(3,4) by (simp add: sends_keyed_def)
  note same = first_answer_cong [OF last rq]
  have quiet: "first_answer rq (butlast new) = None" using assms(6) by (auto simp: first_answer_def find_None_iff)
  have answer: "snd (last new) = he_send env (past @ butlast new) (fst (last new))"
    using assms(2) network_answers_append [of env past "butlast new" "[last new]"] assms(4) by simp
  show ?thesis
  proof (cases "first_answer rq past")
    case None
    have "first_answer rq [last new] = Some (last new)"
      using carries_same [OF rq last] assms(5) by (simp add: first_answer_def)
    with None quiet have "first_answer rq (past @ butlast new @ [last new]) = Some (last new)"
      by (simp only: first_answer_append option.case)
    with None assms(4) show ?thesis by simp
  next
    case (Some c)
    then have "first_answer (fst (last new)) (past @ butlast new) = Some c" by (simp add: same first_answer_append)
    with assms(1) have "he_send env (past @ butlast new) (fst (last new)) = snd c"
      unfolding honours_keys_def by blast
    with answer have "snd (last new) = snd c" by simp
    with Some show ?thesis by (simp add: first_answer_append)
  qed
qed

lemma authorize_answer:
  assumes "honours_keys (ha_env A)" "payment_authorize W A q s = (Inr a, t)"
    and rq: "carries (ha_base A @ ''/authorize'', cr_idempotency_key q, body) rq"
  shows "\<exists>c. first_answer rq (cs_calls t) = Some c \<and>
    (\<exists>st ra text b. snd c = Response st ra text \<and> wi_auth W text = Inr b \<and> a = auth_result_of b) \<and>
    (\<forall>c'. first_answer rq (cs_calls s) = Some c' \<longrightarrow> c = c')"
proof -
  obtain k where k: "payment_request W A (CallAuthorize q) = Some k" by simp
  from authorize_run [OF assms(2) k] obtain new where new: "cs_calls t = cs_calls s @ new" "sends_keyed A k new"
      "\<forall>c \<in> set (butlast new). \<not> answered (snd c)" "new \<noteq> []" "answered (snd (last new))"
    and parsed: "\<exists>st ra text b. snd (last new) = Response st ra text \<and> wi_auth W text = Inr b \<and> a = auth_result_of b"
    by blast
  have "network_answers (ha_env A) (cs_calls s) new"
    using op_relD [OF adapter_recorded(8) assms(2)] new(1) by (simp add: recorded_def)
  moreover have "sends_keyed A (ha_base A @ ''/authorize'', cr_idempotency_key q, wi_print W (json_of_checkout (wi_uuid W) q)) new"
    using new(2) k by simp
  ultimately have "\<exists>c. first_answer rq (cs_calls s @ new) = Some c \<and> snd c = snd (last new) \<and>
      (\<forall>c'. first_answer rq (cs_calls s) = Some c' \<longrightarrow> c = c')"
    by (rule keyed_first_answer [OF assms(1) _ _ new(4,5,3) rq])
  then obtain c where "first_answer rq (cs_calls s @ new) = Some c" "snd c = snd (last new)"
    "\<forall>c'. first_answer rq (cs_calls s) = Some c' \<longrightarrow> c = c'" by blast
  with new(1) parsed show ?thesis by auto
qed

lemma later_answer:
  assumes "recorded env t u" "first_answer rq (cs_calls t) = Some c"
  shows "first_answer rq (cs_calls u) = Some c"
  using assms by (auto simp: recorded_def first_answer_append)

text \<open>
  C26: at the payment provider the idempotency key alone decides. When the provider honours keys and has
  authorized a request, every later authorization that goes through under the same key gets the same
  result, whatever else happened in between: so the retry of a checkout is not charged again; but so it is
  for a request of another tenant, merchant or amount that happens to use the key, because the adapter
  sends the caller's key as it is, while the runtime keeps keys apart by tenant and merchant.
\<close>

theorem authorization_follows_key:
  assumes "honours_keys (ha_env (F Payment))"
    and "ps_authorize (http_providers W F rated) h q = Inr a"
    and "ps_authorize (http_providers W F rated) (h @ CallAuthorize q # h') q' = Inr a'"
    and "cr_idempotency_key q' = cr_idempotency_key q"
  shows "a' = a"
proof -
  let ?s = "client_after W F Payment h" and ?u = "client_after W F Payment (h @ CallAuthorize q # h')"
  let ?rq = "\<lparr>rq_method = ''POST'', rq_url = ha_base (F Payment) @ ''/authorize'',
    rq_headers = [(''Idempotency-Key'', cr_idempotency_key q)], rq_body = []\<rparr>"
  have rq: "carries (ha_base (F Payment) @ ''/authorize'', cr_idempotency_key q, []) ?rq"
    by (simp add: carries_def idem_key_def)
  obtain t where t: "payment_authorize W (F Payment) q ?s = (Inr a, t)"
    using assms(2) by (cases "payment_authorize W (F Payment) q ?s") (simp add: http_providers_def)
  obtain v where v: "payment_authorize W (F Payment) q' ?u = (Inr a', v)"
    using assms(3) by (cases "payment_authorize W (F Payment) q' ?u") (simp add: http_providers_def)
  from authorize_answer [OF assms(1) t rq] obtain c where c: "first_answer ?rq (cs_calls t) = Some c"
    "\<exists>st ra text b. snd c = Response st ra text \<and> wi_auth W text = Inr b \<and> a = auth_result_of b" by blast
  have "client_after W F Payment (h @ [CallAuthorize q]) = t" by (simp add: client_after_snoc t)
  with client_after_grows [where p = Payment and h = "h @ [CallAuthorize q]" and h' = h'] later_answer c(1)
  have "first_answer ?rq (cs_calls ?u) = Some c" by fastforce
  with authorize_answer [OF assms(1) v] rq assms(4)
  have "\<exists>st ra text b. snd c = Response st ra text \<and> wi_auth W text = Inr b \<and> a' = auth_result_of b" by fastforce
  with c(2) show ?thesis by auto
qed

section \<open>Instances\<close>

text \<open>A wire that prints the first text of an object, and a provider that echoes it and honours keys.\<close>

definition echo_wire :: wire where
  "echo_wire = \<lparr>wi_uuid = (\<lambda>_. []),
     wi_print = (\<lambda>j. case j of JObj ((_, JStr t) # _) \<Rightarrow> t | _ \<Rightarrow> []), wi_duration = (\<lambda>_. []), wi_status = (\<lambda>_. []),
     wi_auth = (\<lambda>t. Inr \<lparr>xa_authorized = True, xa_reference = t\<rparr>),
     wi_operation = (\<lambda>t. Inr \<lparr>xo_success = True, xo_reference = t\<rparr>), wi_state = (\<lambda>t. Inr \<lparr>xs_state = t\<rparr>),
     wi_prices = (\<lambda>_. Inr \<lparr>xp_prices = []\<rparr>), wi_discounts = (\<lambda>_. Inr \<lparr>xd_discounts = None\<rparr>),
     wi_item = Inl, wi_items = (\<lambda>_. Inr \<lparr>xc_products = []\<rparr>), wi_tax = (\<lambda>_. Inr \<lparr>xt_total_tax_minor = 200\<rparr>),
     wi_geo = (\<lambda>_. Inr \<lparr>xg_allowed = True\<rparr>), wi_receipt = (\<lambda>t. Inr \<lparr>xr_content = t\<rparr>),
     wi_options = Inl, wi_delegate = Inl, wi_link = Inl\<rparr>"

definition network :: "(call list \<Rightarrow> http_request \<Rightarrow> send_result) \<Rightarrow> fleet" where
  "network f = (\<lambda>_. \<lparr>ha_env = \<lparr>he_correlation_id = None, he_send = f, he_token = (\<lambda>_ _. TokenStatus 500),
     he_instant = int, he_subsec_nanos = (\<lambda>_. 0), he_show_status = (\<lambda>_. [])\<rparr>,
     ha_base_url = ''https://psp/'', ha_config = default_client_config\<rparr>)"

definition keyed_network :: fleet where
  "keyed_network = network (\<lambda>past rq. case first_answer rq past of Some c \<Rightarrow> snd c | None \<Rightarrow> Response 200 None (rq_body rq))"

definition plain_network :: fleet where
  "plain_network = network (\<lambda>_ _. Response 200 None ''ok'')"

lemma first_try:
  assumes "he_send env (cs_calls s) (build_request env ''POST'' url body opts) = Response 200 ra text"
  shows "post_json env default_client_config url body opts s =
    (Inr (Response 200 ra text),
     s\<lparr>cs_calls := cs_calls s @ [(build_request env ''POST'' url body opts, Response 200 ra text)]\<rparr>)"
  using assms
  by (simp add: post_json_def execute_with_retry_def default_client_config_def upt_rec attempt_once_def
      breaker_admit_def apply_auth_def op_seq_def op_bind_def op_return_def op_catch_def send_def judge_def
      breaker_settle_def is_success_def Let_def)

lemma network_fields [simp]:
  "he_send (ha_env (network f p)) = f" "ha_config (network f p) = default_client_config"
  by (simp_all add: network_def)

lemma plain_post:
  "post_json (ha_env (plain_network p)) (ha_config (plain_network p)) url body opts s =
    (Inr (Response 200 None ''ok''),
     s\<lparr>cs_calls := cs_calls s @ [(build_request (ha_env (plain_network p)) ''POST'' url body opts, Response 200 None ''ok'')]\<rparr>)"
  unfolding plain_network_def network_fields by (rule first_try) simp

lemmas adapter_run_defs =
  op_bind_def op_return_def op_map_err_def read_json_def post_to_def post_json_with_retry_def

lemma plain_providers [simp]:
  "ps_resolve_prices (http_providers echo_wire plain_network False) h c = Inr []"
  "ps_resolve_discounts (http_providers echo_wire plain_network False) h c codes = Inr []"
  "ps_resolve_tax (http_providers echo_wire plain_network False) h c = Inr 200"
  "ps_geo_check (http_providers echo_wire plain_network False) h c q = Inr True"
  "ps_authorize (http_providers echo_wire plain_network False) h q = Inr \<lparr>ar_authorized = True, ar_reference = ''ok''\<rparr>"
  "ps_capture (http_providers echo_wire plain_network False) h p = Inr \<lparr>por_success = True, por_reference = ''ok''\<rparr>"
  "ps_receipt (http_providers echo_wire plain_network False) h c t = Inr ''ok''"
  by (simp_all add: http_providers_def pricing_resolve_prices_def pricing_resolve_discounts_def tax_resolve_def
      geo_check_def payment_authorize_def payment_capture_def payment_lifecycle_call_def receipt_generate_def adapter_run_defs
      plain_post echo_wire_def auth_result_of_def operation_result_of_def)

lemma plain_checkout_runs:
  "op_wp (execute_checkout (wired echo_wire plain_network False sample_runner) sample_request)
     (\<lambda>res w'. tr_status res = Completed \<and> length (payment_log w') = 2) (\<lambda>_ _. False) sample_world"
  by (simp add: checkout_run_defs idem_claim_wp sample_request_valid sample_policy wp
      wired_def sample_runner_def Let_def i64_add_def wrap64_def payment_log_def
      sample_cart_def sample_line_def paid_result_def)

theorem checkout_on_the_wire_witness:
  "\<exists>res w' auth cap. execute_checkout (wired echo_wire plain_network False sample_runner) sample_request sample_world = (Inr res, w') \<and>
     tr_status res = Completed \<and>
     posts (client_after echo_wire plain_network Payment (w_log w')) = auth @ cap \<and>
     sent_for echo_wire (plain_network Payment) (CallAuthorize sample_request) auth"
proof -
  obtain res w' where run: "execute_checkout (wired echo_wire plain_network False sample_runner) sample_request sample_world = (Inr res, w')"
    and "tr_status res = Completed"
    using plain_checkout_runs by (auto simp: op_wp_def split: prod.splits sum.splits)
  with checkout_on_the_wire [OF sample_snapshots_ok run] show ?thesis by (auto simp: posts_def)
qed

definition other_request :: checkout_request where
  "other_request = sample_request\<lparr>cr_tenant_id := ''t2'', cr_payment_intent :=
     (cr_payment_intent sample_request)\<lparr>pi_amount_minor := 999900\<rparr>\<rparr>"

lemma keyed_network_honours: "honours_keys (ha_env (keyed_network p))"
  by (simp add: honours_keys_def keyed_network_def)

definition keyed_rq :: "checkout_request \<Rightarrow> http_request" where
  "keyed_rq q = build_request (ha_env (keyed_network Payment)) ''POST'' ''https://psp/authorize'' (cr_tenant_id q)
     (with_headers (mpp_headers q) (with_idempotency_key (cr_idempotency_key q) no_options))"

lemma keyed_authorize:
  assumes "he_send (ha_env (keyed_network Payment)) (cs_calls s) (keyed_rq q) = Response 200 None ref"
  shows "payment_authorize echo_wire (keyed_network Payment) q s =
    (Inr \<lparr>ar_authorized = True, ar_reference = ref\<rparr>, s\<lparr>cs_calls := cs_calls s @ [(keyed_rq q, Response 200 None ref)]\<rparr>)"
proof -
  have base: "ha_base (keyed_network Payment) = ''https://psp''"
    by (simp add: keyed_network_def network_def ha_base_def trim_end_matches_def)
  have print: "wi_print echo_wire (json_of_checkout (wi_uuid echo_wire) q) = cr_tenant_id q"
    by (simp add: echo_wire_def json_of_checkout_def)
  have auth: "wi_auth echo_wire ref = Inr \<lparr>xa_authorized = True, xa_reference = ref\<rparr>" by (simp add: echo_wire_def)
  have cfg: "ha_config (keyed_network Payment) = default_client_config" by (simp add: keyed_network_def)
  from first_try [OF assms [unfolded keyed_rq_def]] show ?thesis
    by (simp add: payment_authorize_def base print cfg auth adapter_run_defs keyed_rq_def auth_result_of_def)
qed

lemma keyed_rq_fields:
  "rq_method (keyed_rq q) = ''POST''" "rq_url (keyed_rq q) = ''https://psp/authorize''" "rq_body (keyed_rq q) = cr_tenant_id q"
  "idem_key (keyed_rq q) = Some (cr_idempotency_key q)"
  by (simp_all add: keyed_rq_def build_request_def idem_key_def no_options_def with_headers_def with_idempotency_key_def
      keyed_network_def network_def)

lemma keyed_send:
  "he_send (ha_env (keyed_network Payment)) past rq =
     (case first_answer rq past of Some c \<Rightarrow> snd c | None \<Rightarrow> Response 200 None (rq_body rq))"
  by (simp add: keyed_network_def)

lemma fresh_authorize:
  "payment_authorize echo_wire (keyed_network Payment) q new_client =
    (Inr \<lparr>ar_authorized = True, ar_reference = cr_tenant_id q\<rparr>,
     new_client\<lparr>cs_calls := [(keyed_rq q, Response 200 None (cr_tenant_id q))]\<rparr>)"
  by (subst keyed_authorize) (simp_all add: keyed_send first_answer_def new_client_def keyed_rq_fields)

lemma other_authorize:
  assumes "cr_idempotency_key q' = cr_idempotency_key q"
  shows "fst (payment_authorize echo_wire (keyed_network Payment) q'
      (new_client\<lparr>cs_calls := [(keyed_rq q, Response 200 None (cr_tenant_id q))]\<rparr>)) =
    Inr \<lparr>ar_authorized = True, ar_reference = cr_tenant_id q\<rparr>"
  using assms
  by (subst keyed_authorize [where ref = "cr_tenant_id q"])
    (simp_all add: keyed_send first_answer_def keyed_rq_fields same_operation_def answered_def is_success_def)

theorem authorization_follows_key_witness:
  "cr_tenant_id other_request \<noteq> cr_tenant_id sample_request \<and>
   ps_authorize (http_providers echo_wire keyed_network False) [] other_request =
     Inr \<lparr>ar_authorized = True, ar_reference = ''t2''\<rparr> \<and>
   ps_authorize (http_providers echo_wire keyed_network False) [CallAuthorize sample_request] other_request =
     Inr \<lparr>ar_authorized = True, ar_reference = ''t1''\<rparr>"
proof -
  have key: "cr_idempotency_key other_request = cr_idempotency_key sample_request" by (simp add: other_request_def)
  have first: "ps_authorize (http_providers echo_wire keyed_network False) [] q =
      Inr \<lparr>ar_authorized = True, ar_reference = cr_tenant_id q\<rparr>" for q
    by (simp add: http_providers_def client_after_def fresh_authorize)
  have "\<exists>a. ps_authorize (http_providers echo_wire keyed_network False) [CallAuthorize sample_request] other_request = Inr a"
    using other_authorize [OF key] by (simp add: http_providers_def client_after_def fresh_authorize)
  then obtain a where a: "ps_authorize (http_providers echo_wire keyed_network False) [CallAuthorize sample_request] other_request = Inr a" ..
  with authorization_follows_key [OF keyed_network_honours first [of sample_request], of "[]" other_request a] key
  have "a = \<lparr>ar_authorized = True, ar_reference = cr_tenant_id sample_request\<rparr>" by simp
  with a first [of other_request] show ?thesis by (simp add: other_request_def sample_request_def)
qed

end
