(* ===== verification/Http_Dto.thy ===== *)
theory Http_Dto
  imports Facade_Ops Text_Parsing
begin

text \<open>
  The boundary of the HTTP server: the transfer objects with their conversions from and to the domain
  (\<open>orchestrator-http/src/dto.rs\<close>), and the errors with their status codes (\<open>error.rs\<close>). Reading and
  printing UUIDs, printing timestamps and the \<open>Debug\<close> form of string lists belong to libraries and are
  the fields of \<open>text_env\<close>; the JSON of a body is read and written by \<open>serde\<close>, a handler gets and
  returns the object.
\<close>

record text_env =
  te_parse_uuid :: "string \<Rightarrow> string + uuid"
  te_show_uuid :: "uuid \<Rightarrow> string"
  te_rfc3339 :: "int \<Rightarrow> string"
  te_debug_strings :: "string list \<Rightarrow> string"

section \<open>Errors\<close>

definition show_u64 :: "u64 \<Rightarrow> string" where
  "show_u64 n = show_nat (unat n)"

fun store_error_display :: "store_error \<Rightarrow> string" where
  "store_error_display (StoreError m) = ''store persistence failed: '' @ m"

fun payment_error_display :: "payment_error \<Rightarrow> string" where
  "payment_error_display (PaymentAuthFailed m) = ''authorization failed: '' @ m"
| "payment_error_display (PaymentUnsupported m) = ''payment operation unsupported: '' @ m"

fun runner_error_display :: "text_env \<Rightarrow> runner_error \<Rightarrow> string" where
  "runner_error_display T MissingCartId = ''cart id is required for this operation''"
| "runner_error_display T CartNotFound = ''cart was not found''"
| "runner_error_display T LineNotFound = ''cart line was not found''"
| "runner_error_display T FulfillmentOptionNotFound = ''fulfillment option was not found''"
| "runner_error_display T (FulfillmentQuote m) = ''fulfillment rating failed: '' @ m"
| "runner_error_display T (ValidationFailed es) = ''request validation failed: '' @ te_debug_strings T es"
| "runner_error_display T AlreadyInFlight = ''idempotent request is currently in-flight''"
| "runner_error_display T InvalidStateTransition = ''invalid deterministic state transition''"
| "runner_error_display T (CartVersionConflict expected current) =
     ''cart version conflict: request expected version '' @ show_u64 expected @ '', current cart version is '' @ show_u64 current"
| "runner_error_display T CartTenantMismatch = ''cart belongs to another tenant''"
| "runner_error_display T GeoBlocked = ''geo policy blocked this cart'' @ CHR 0x27 # ''s destination''"
| "runner_error_display T (AmountMismatch expected provided) =
     ''payment intent amount '' @ show_int provided @ '' does not match the cart total '' @ show_int expected"
| "runner_error_display T UnsupportedCommand = ''unsupported non-exhaustive command variant''"
| "runner_error_display T (StoreFailed e) = ''store persistence error: '' @ store_error_display e"
| "runner_error_display T (CatalogErr (CatalogNotFound m)) = ''catalog provider error: item not found: '' @ m"
| "runner_error_display T (PricingErr (PricingFailed m)) = ''pricing provider error: pricing failed: '' @ m"
| "runner_error_display T (TaxErr (TaxFailed m)) = ''tax provider error: tax resolution failed: '' @ m"
| "runner_error_display T (GeoErr (GeoFailed m)) = ''geo provider error: geo check failed: '' @ m"
| "runner_error_display T (PaymentErr e) = ''payment provider error: '' @ payment_error_display e"
| "runner_error_display T (ReceiptErr (ReceiptFailed m)) = ''receipt provider error: receipt generation failed: '' @ m"

fun authz_error_display :: "authz_error \<Rightarrow> string" where
  "authz_error_display (MissingScope s) = ''missing required scope: '' @ s"
| "authz_error_display TenantMismatch = ''tenant mismatch between caller and request''"

text \<open>\<open>Ap2VerificationError\<close> is carried as its text.\<close>

fun facade_error_display :: "text_env \<Rightarrow> facade_error \<Rightarrow> string" where
  "facade_error_display T (RunnerFailed e) = ''orchestrator runner failed: '' @ runner_error_display T e"
| "facade_error_display T (AuthzFailed e) = ''authorization failed: '' @ authz_error_display e"
| "facade_error_display T (Ap2VerificationFailed m) = ''AP2 verification failed: '' @ m"
| "facade_error_display T (IdentityLinkFailed m) = ''identity linking failed: '' @ m"
| "facade_error_display T (PaymentDelegationFailed m) = ''payment delegation failed: '' @ m"
| "facade_error_display T (NotConfigured m) = ''this deployment does not offer '' @ m"

datatype api_error =
    BadRequest string
  | BadRequestWithCode string string
  | Unauthorized
  | Forbidden string
  | NotFound string
  | Orchestrator facade_error
  | Internal

definition orchestrator_error_to_http :: "facade_error \<Rightarrow> u16 \<times> string" where
  "orchestrator_error_to_http e =
     (case e of
        AuthzFailed _ \<Rightarrow> (403, ''AUTHZ_ERROR'')
      | Ap2VerificationFailed _ \<Rightarrow> (400, ''AP2_VERIFICATION_ERROR'')
      | IdentityLinkFailed _ \<Rightarrow> (400, ''IDENTITY_LINK_ERROR'')
      | PaymentDelegationFailed _ \<Rightarrow> (502, ''PAYMENT_DELEGATION_ERROR'')
      | NotConfigured _ \<Rightarrow> (501, ''NOT_CONFIGURED'')
      | RunnerFailed r \<Rightarrow>
          (case r of
             StoreFailed _ \<Rightarrow> (500, ''STORE_ERROR'')
           | PaymentErr _ \<Rightarrow> (422, ''PAYMENT_ERROR'')
           | ValidationFailed _ \<Rightarrow> (400, ''VALIDATION_ERROR'')
           | AlreadyInFlight \<Rightarrow> (409, ''IDEMPOTENCY_CONFLICT'')
           | CartNotFound \<Rightarrow> (404, ''NOT_FOUND'')
           | LineNotFound \<Rightarrow> (404, ''NOT_FOUND'')
           | CartVersionConflict _ _ \<Rightarrow> (409, ''CART_VERSION_CONFLICT'')
           | AmountMismatch _ _ \<Rightarrow> (422, ''AMOUNT_MISMATCH'')
           | CartTenantMismatch \<Rightarrow> (403, ''TENANT_MISMATCH'')
           | GeoBlocked \<Rightarrow> (403, ''GEO_BLOCKED'')
           | MissingCartId \<Rightarrow> (400, ''MISSING_CART_ID'')
           | _ \<Rightarrow> (500, ''RUNNER_ERROR'')))"

definition api_error_parts :: "text_env \<Rightarrow> api_error \<Rightarrow> u16 \<times> string \<times> string" where
  "api_error_parts T e =
     (case e of
        BadRequest msg \<Rightarrow> (400, ''BAD_REQUEST'', msg)
      | BadRequestWithCode msg code \<Rightarrow> (400, code, msg)
      | Unauthorized \<Rightarrow> (401, ''UNAUTHORIZED'', ''Unauthorized'')
      | Forbidden msg \<Rightarrow> (403, ''FORBIDDEN'', msg)
      | NotFound msg \<Rightarrow> (404, ''NOT_FOUND'', msg)
      | Orchestrator f \<Rightarrow> (case orchestrator_error_to_http f of (s, c) \<Rightarrow> (s, c, facade_error_display T f))
      | Internal \<Rightarrow> (500, ''INTERNAL_ERROR'', ''Internal server error''))"

section \<open>Cart commands\<close>

datatype cart_command_dto =
    CreateCartDto string string
  | AddItemDto string u32
  | UpdateItemQtyDto string u32
  | RemoveItemDto string
  | ApplyAdjustmentDto string
  | GetCartDto string
  | StartCheckoutDto string u64
  | CancelCartDto string

record cart_command_request =
  cq_command :: cart_command_dto
  cq_cart_id :: "string option"

definition parse_cart_id :: "text_env \<Rightarrow> string \<Rightarrow> string + cart_id" where
  "parse_cart_id T s = res_bind (te_parse_uuid T s) (\<lambda>u. Inr (CartId u))"

fun cart_command_from_dto :: "text_env \<Rightarrow> cart_command_dto \<Rightarrow> string + cart_command" where
  "cart_command_from_dto T (CreateCartDto merchant_id currency) =
     Inr (CreateCart \<lparr>cc_merchant_id = merchant_id, cc_currency = currency, cc_tenant_id = None\<rparr>)"
| "cart_command_from_dto T (AddItemDto item_id quantity) =
     Inr (AddItem \<lparr>ai_item_id = item_id, ai_quantity = quantity\<rparr>)"
| "cart_command_from_dto T (UpdateItemQtyDto line_id quantity) =
     Inr (UpdateItemQty \<lparr>uq_line_id = line_id, uq_quantity = quantity\<rparr>)"
| "cart_command_from_dto T (RemoveItemDto line_id) = Inr (RemoveItem \<lparr>ri_line_id = line_id\<rparr>)"
| "cart_command_from_dto T (ApplyAdjustmentDto code) = Inr (ApplyAdjustment \<lparr>aa_code = code\<rparr>)"
| "cart_command_from_dto T (GetCartDto cart_id) =
     res_bind (parse_cart_id T cart_id) (\<lambda>c. Inr (GetCart \<lparr>gc_cart_id = c\<rparr>))"
| "cart_command_from_dto T (StartCheckoutDto cart_id cart_version) =
     res_bind (parse_cart_id T cart_id) (\<lambda>c. Inr (StartCheckout \<lparr>sc_cart_id = c, sc_cart_version = cart_version\<rparr>))"
| "cart_command_from_dto T (CancelCartDto cart_id) =
     res_bind (parse_cart_id T cart_id) (\<lambda>c. Inr (CancelCart \<lparr>xc_cart_id = c\<rparr>))"

section \<open>Cart projections\<close>

record cart_line_projection_dto =
  ld_line_id :: string
  ld_item_id :: string
  ld_title :: string
  ld_quantity :: u32
  ld_unit_price_minor :: i64
  ld_total_minor :: i64

datatype cart_status_dto = DraftDto | CheckoutReadyDto | CancelledDto

record cart_projection_dto =
  cd_cart_id :: string
  cd_version :: u64
  cd_currency :: string
  cd_lines :: "cart_line_projection_dto list"
  cd_subtotal_minor :: i64
  cd_tax_minor :: i64
  cd_total_minor :: i64
  cd_geo_ok :: bool
  cd_status :: cart_status_dto

definition line_to_dto :: "cart_line_projection \<Rightarrow> cart_line_projection_dto" where
  "line_to_dto l =
     \<lparr>ld_line_id = li_line_id l, ld_item_id = li_item_id l, ld_title = li_title l, ld_quantity = li_quantity l,
      ld_unit_price_minor = li_unit_price_minor l, ld_total_minor = li_total_minor l\<rparr>"

fun cart_uuid :: "cart_id \<Rightarrow> uuid" where
  "cart_uuid (CartId u) = u"

definition cart_to_dto :: "text_env \<Rightarrow> cart_projection \<Rightarrow> cart_projection_dto" where
  "cart_to_dto T p =
     \<lparr>cd_cart_id = te_show_uuid T (cart_uuid (cp_cart_id p)), cd_version = cp_version p, cd_currency = cp_currency p,
      cd_lines = map line_to_dto (cp_lines p), cd_subtotal_minor = cp_subtotal_minor p, cd_tax_minor = cp_tax_minor p,
      cd_total_minor = cp_total_minor p, cd_geo_ok = cp_geo_ok p,
      cd_status = (case cp_status p of Draft \<Rightarrow> DraftDto | cart_status.CheckoutReady \<Rightarrow> CheckoutReadyDto
                   | cart_status.Cancelled \<Rightarrow> CancelledDto)\<rparr>"

section \<open>Checkouts\<close>

record payment_intent_dto =
  pq_amount_minor :: i64
  pq_token_or_reference :: string
  pq_ap2_consent_proof :: "string option"
  pq_payment_handler_id :: "string option"
  pq_payment_method_type :: "string option"
  pq_mpp_method :: "string option"
  pq_mpp_intent :: "string option"

text \<open>\<open>CustomerHintDto\<close> and \<open>LocationHintDto\<close> have the fields of the hints they become.\<close>

record checkout_request_dto =
  xq_tenant_id :: string
  xq_merchant_id :: string
  xq_cart_id :: string
  xq_cart_version :: u64
  xq_currency :: string
  xq_customer :: "customer_hint option"
  xq_location :: "location_hint option"
  xq_payment_intent :: payment_intent_dto
  xq_idempotency_key :: string

definition method_type_from_dto :: "string option \<Rightarrow> string + payment_method_type option" where
  "method_type_from_dto m =
     (case m of
        None \<Rightarrow> Inr None
      | Some other \<Rightarrow> if other = ''ap2'' then Inr (Some Ap2) else if other = ''mpp'' then Inr (Some Mpp)
                      else Inl (''unsupported payment_method_type: '' @ other))"

definition checkout_request_from_dto :: "text_env \<Rightarrow> checkout_request_dto \<Rightarrow> string + checkout_request" where
  "checkout_request_from_dto T dto =
     res_bind (parse_cart_id T (xq_cart_id dto)) (\<lambda>cart_id.
     res_bind (method_type_from_dto (pq_payment_method_type (xq_payment_intent dto))) (\<lambda>method.
       let i = xq_payment_intent dto in
       Inr \<lparr>cr_tenant_id = xq_tenant_id dto, cr_merchant_id = xq_merchant_id dto, cr_cart_id = cart_id,
            cr_cart_version = xq_cart_version dto, cr_currency = xq_currency dto, cr_customer = xq_customer dto,
            cr_location = xq_location dto,
            cr_payment_intent = \<lparr>pi_amount_minor = pq_amount_minor i, pi_token_or_reference = pq_token_or_reference i,
              pi_ap2_consent_proof = pq_ap2_consent_proof i, pi_payment_handler_id = pq_payment_handler_id i,
              pi_payment_method_type = method, pi_mpp_method = pq_mpp_method i, pi_mpp_intent = pq_mpp_intent i\<rparr>,
            cr_idempotency_key = xq_idempotency_key dto\<rparr>))"

record totals_breakdown_dto =
  td_subtotal_minor :: i64
  td_tax_minor :: i64
  td_discount_minor :: i64
  td_total_minor :: i64

definition totals_to_dto :: "totals_breakdown \<Rightarrow> totals_breakdown_dto" where
  "totals_to_dto t =
     \<lparr>td_subtotal_minor = tb_subtotal_minor t, td_tax_minor = tb_tax_minor t,
      td_discount_minor = tb_discount_minor t, td_total_minor = tb_total_minor t\<rparr>"

text \<open>\<open>TransactionStatusDto\<close> and \<open>PaymentStateDto\<close> have the constructors of the enums they stand for.\<close>

record transaction_result_dto =
  rt_transaction_id :: string
  rt_status :: transaction_status
  rt_totals_breakdown :: totals_breakdown_dto
  rt_payment_reference :: "string option"
  rt_receipt_payload :: "string option"
  rt_correlation_id :: string
  rt_audit_trail_id :: "string option"
  rt_payment_state :: payment_state
  rt_order_id :: "string option"

definition transaction_to_dto :: "text_env \<Rightarrow> transaction_result \<Rightarrow> transaction_result_dto" where
  "transaction_to_dto T r =
     \<lparr>rt_transaction_id = tr_transaction_id r, rt_status = tr_status r,
      rt_totals_breakdown = totals_to_dto (tr_totals_breakdown r), rt_payment_reference = tr_payment_reference r,
      rt_receipt_payload = tr_receipt_payload r, rt_correlation_id = te_show_uuid T (tr_correlation_id r),
      rt_audit_trail_id = tr_audit_trail_id r, rt_payment_state = tr_payment_state r, rt_order_id = tr_order_id r\<rparr>"

section \<open>Orders\<close>

record order_event_dto =
  ed_id :: string
  ed_event_type :: string
  ed_description :: string
  ed_occurred_at :: string

definition order_event_to_dto :: "text_env \<Rightarrow> order_event \<Rightarrow> order_event_dto" where
  "order_event_to_dto T e =
     \<lparr>ed_id = oe_id e, ed_event_type = oe_event_type e, ed_description = oe_description e,
      ed_occurred_at = te_rfc3339 T (oe_occurred_at e)\<rparr>"

text \<open>\<open>OrderAdjustmentDto\<close> and \<open>OrderStatusDto\<close> have the fields and constructors of the domain types.\<close>

record order_dto =
  od_order_id :: string
  od_tenant_id :: string
  od_transaction_id :: string
  od_checkout_id :: string
  od_status :: order_status
  od_currency :: string
  od_permalink_url :: string
  od_line_items :: "cart_line_projection_dto list"
  od_totals :: totals_breakdown_dto
  od_events :: "order_event_dto list"
  od_adjustments :: "order_adjustment list"
  od_created_at :: string

definition order_to_dto :: "text_env \<Rightarrow> order_record \<Rightarrow> order_dto" where
  "order_to_dto T r =
     \<lparr>od_order_id = or_order_id r, od_tenant_id = or_tenant_id r, od_transaction_id = or_transaction_id r,
      od_checkout_id = te_show_uuid T (cart_uuid (or_checkout_id r)), od_status = or_status r,
      od_currency = or_currency r, od_permalink_url = or_permalink_url r,
      od_line_items = map line_to_dto (or_line_items r), od_totals = totals_to_dto (or_totals r),
      od_events = map (order_event_to_dto T) (or_events r), od_adjustments = or_adjustments r,
      od_created_at = te_rfc3339 T (or_created_at r)\<rparr>"

end
