(* ===== verification/Ucp_Dto.thy ===== *)
theory Ucp_Dto
  imports Http_Dto
begin

text \<open>
  The UCP envelopes of the HTTP server (\<open>orchestrator-http/src/dto.rs\<close>) and what they say of the amounts
  of a cart. JSON objects the server passes through are lists of names and texts.
\<close>

type_synonym json_object = "(string \<times> string) list"

section \<open>Envelope and totals\<close>

text \<open>\<open>UcpCapabilityDto\<close> is its version.\<close>

record ucp_envelope =
  ue_version :: string
  ue_supported_versions :: "string list"
  ue_capabilities :: "string \<rightharpoonup> string list"
  ue_payment_handlers :: "json_object option"

definition for_capabilities :: "string list \<Rightarrow> ucp_envelope" where
  "for_capabilities capabilities =
     \<lparr>ue_version = UCP_LATEST_VERSION, ue_supported_versions = UCP_SUPPORTED_VERSIONS,
      ue_capabilities = map_of (map (\<lambda>c. (c, [UCP_LATEST_VERSION])) capabilities), ue_payment_handlers = None\<rparr>"

record ucp_total =
  ut_type :: string
  ut_amount :: i64

definition new_total :: "string \<Rightarrow> i64 \<Rightarrow> ucp_total" where
  "new_total t amount = \<lparr>ut_type = t, ut_amount = amount\<rparr>"

definition line_totals :: "i64 \<Rightarrow> ucp_total list" where
  "line_totals amount = [new_total ''subtotal'' amount, new_total ''total'' amount]"

definition ucp_totals :: "totals_breakdown \<Rightarrow> ucp_total list" where
  "ucp_totals t =
     [new_total ''subtotal'' (tb_subtotal_minor t)]
     @ (if tb_discount_minor t \<noteq> 0 then [new_total ''discount'' (wrap64 (- wrap64 \<bar>tb_discount_minor t\<bar>))] else [])
     @ (if tb_fulfillment_minor t > 0 then [new_total ''fulfillment'' (tb_fulfillment_minor t)] else [])
     @ [new_total ''tax'' (tb_tax_minor t), new_total ''total'' (tb_total_minor t)]"

section \<open>Carts\<close>

record ucp_line_item =
  ui_id :: string
  ui_title :: string
  ui_price :: i64

record ucp_cart_line =
  ul_id :: string
  ul_item :: ucp_line_item
  ul_quantity :: u32
  ul_totals :: "ucp_total list"
  ul_title :: string
  ul_unit_price_minor :: i64
  ul_total_minor :: i64

definition line_to_ucp :: "cart_line_projection \<Rightarrow> ucp_cart_line" where
  "line_to_ucp l =
     \<lparr>ul_id = li_line_id l, ul_item = \<lparr>ui_id = li_item_id l, ui_title = li_title l, ui_price = li_unit_price_minor l\<rparr>,
      ul_quantity = li_quantity l, ul_totals = line_totals (li_total_minor l), ul_title = li_title l,
      ul_unit_price_minor = li_unit_price_minor l, ul_total_minor = li_total_minor l\<rparr>"

record ucp_discount =
  ux_code :: string
  ux_description :: "string option"
  ux_amount_minor :: i64
  ux_line_item_id :: "string option"

definition discount_to_ucp :: "applied_discount \<Rightarrow> ucp_discount" where
  "discount_to_ucp d =
     \<lparr>ux_code = ad_code d, ux_description = ad_description d, ux_amount_minor = ad_amount_minor d,
      ux_line_item_id = ad_line_id d\<rparr>"

record ucp_fulfillment_option =
  uo_id :: string
  uo_title :: string
  uo_description :: "string option"
  uo_carrier :: "string option"
  uo_totals :: "ucp_total list"
  uo_amount_minor :: i64

definition option_to_ucp :: "fulfillment_option \<Rightarrow> ucp_fulfillment_option" where
  "option_to_ucp f =
     \<lparr>uo_id = fo_id f, uo_title = fo_title f, uo_description = fo_description f, uo_carrier = fo_carrier f,
      uo_totals = [new_total ''total'' (fo_amount_minor f)], uo_amount_minor = fo_amount_minor f\<rparr>"

text \<open>\<open>UcpPostalAddressDto\<close> has the fields of the address it shows.\<close>

datatype ucp_fulfillment_destination =
    ShippingAddress string postal_address
  | BusinessLocation string string "postal_address option"

fun destination_to_ucp :: "fulfillment_destination \<Rightarrow> ucp_fulfillment_destination" where
  "destination_to_ucp (ShippingDest i address) = ShippingAddress i address"
| "destination_to_ucp (RetailDest i name address) = BusinessLocation i name address"

record ucp_fulfillment_group =
  ug_id :: string
  ug_line_item_ids :: "string list"
  ug_options :: "ucp_fulfillment_option list"
  ug_selected_option_id :: "string option"

definition group_to_ucp :: "fulfillment_group \<Rightarrow> ucp_fulfillment_group" where
  "group_to_ucp g =
     \<lparr>ug_id = fg_id g, ug_line_item_ids = fg_line_item_ids g, ug_options = map option_to_ucp (fg_options g),
      ug_selected_option_id = fg_selected_option_id g\<rparr>"

text \<open>\<open>UcpFulfillmentMethodTypeDto\<close> has the constructors of \<open>FulfillmentMethodType\<close>.\<close>

record ucp_fulfillment_method =
  um_id :: string
  um_method_type :: fulfillment_method_type
  um_line_item_ids :: "string list"
  um_destinations :: "ucp_fulfillment_destination list"
  um_selected_destination_id :: "string option"
  um_groups :: "ucp_fulfillment_group list"

definition method_to_ucp :: "fulfillment_method \<Rightarrow> ucp_fulfillment_method" where
  "method_to_ucp m =
     \<lparr>um_id = fm_id m, um_method_type = fm_method_type m, um_line_item_ids = fm_line_item_ids m,
      um_destinations = map destination_to_ucp (fm_destinations m),
      um_selected_destination_id = fm_selected_destination_id m, um_groups = map group_to_ucp (fm_groups m)\<rparr>"

record ucp_link =
  uk_type :: string
  uk_url :: string

record ucp_cart_response =
  uc_ucp :: ucp_envelope
  uc_id :: string
  uc_version :: u64
  uc_currency :: string
  uc_line_items :: "ucp_cart_line list"
  uc_subtotal_minor :: i64
  uc_tax_minor :: i64
  uc_fulfillment_minor :: i64
  uc_discount_minor :: i64
  uc_discounts :: "ucp_discount list"
  uc_total_minor :: i64
  uc_totals :: "ucp_total list"
  uc_status :: string
  uc_links :: "ucp_link list option"
  uc_fulfillment :: "ucp_fulfillment_method list option"

definition ucp_status :: "cart_status \<Rightarrow> string" where
  "ucp_status s = (case s of Draft \<Rightarrow> ''draft'' | cart_status.CheckoutReady \<Rightarrow> ''checkout_ready''
                   | cart_status.Cancelled \<Rightarrow> ''canceled'')"

definition cart_to_ucp :: "text_env \<Rightarrow> cart_projection \<Rightarrow> ucp_cart_response" where
  "cart_to_ucp T cart =
     \<lparr>uc_ucp = for_capabilities ([''dev.ucp.shopping.cart'', ''dev.ucp.shopping.fulfillment'']
                @ (if cp_discounts cart = [] then [] else [''dev.ucp.shopping.discount''])),
      uc_id = te_show_uuid T (cart_uuid (cp_cart_id cart)), uc_version = cp_version cart, uc_currency = cp_currency cart,
      uc_line_items = map line_to_ucp (cp_lines cart), uc_subtotal_minor = cp_subtotal_minor cart,
      uc_tax_minor = cp_tax_minor cart, uc_fulfillment_minor = cp_fulfillment_minor cart,
      uc_discount_minor = cp_discount_minor cart, uc_discounts = map discount_to_ucp (cp_discounts cart),
      uc_total_minor = cp_total_minor cart,
      uc_totals = ucp_totals \<lparr>tb_subtotal_minor = cp_subtotal_minor cart, tb_tax_minor = cp_tax_minor cart,
        tb_discount_minor = cp_discount_minor cart, tb_fulfillment_minor = cp_fulfillment_minor cart,
        tb_total_minor = cp_total_minor cart\<rparr>,
      uc_status = ucp_status (cp_status cart), uc_links = None,
      uc_fulfillment = map_option (\<lambda>s. map method_to_ucp (fs_methods s)) (cp_fulfillment cart)\<rparr>"

definition into_checkout :: "json_object \<Rightarrow> ucp_cart_response \<Rightarrow> ucp_cart_response" where
  "into_checkout payment_handlers response =
     (let caps = ue_capabilities (uc_ucp response);
          caps = (case caps ''dev.ucp.shopping.cart'' of
                    None \<Rightarrow> caps
                  | Some versions \<Rightarrow> (caps(''dev.ucp.shopping.cart'' := None))(''dev.ucp.shopping.checkout'' \<mapsto> versions))
      in response\<lparr>uc_ucp := (uc_ucp response)\<lparr>ue_capabilities := caps, ue_payment_handlers := Some payment_handlers\<rparr>,
           uc_status := (if uc_status response = ''canceled'' then ''canceled''
                         else if uc_status response = ''checkout_ready'' \<and> uc_line_items response \<noteq> []
                         then ''ready_for_complete'' else ''incomplete''),
           uc_links := Some []\<rparr>)"

section \<open>Requests\<close>

record ucp_cart_line_request =
  lr_id :: "string option"
  lr_item_id :: string
  lr_quantity :: u32

record ucp_cart_request =
  ucr_merchant_id :: "string option"
  ucr_currency :: string
  ucr_line_items :: "ucp_cart_line_request list"

record ucp_destination_request =
  dr_id :: string
  dr_name :: "string option"
  dr_street_address :: "string option"
  dr_extended_address :: "string option"
  dr_address_locality :: "string option"
  dr_address_region :: "string option"
  dr_address_country :: "string option"
  dr_postal_code :: "string option"
  dr_first_name :: "string option"
  dr_last_name :: "string option"
  dr_phone_number :: "string option"

definition request_address :: "ucp_destination_request \<Rightarrow> postal_address" where
  "request_address d =
     \<lparr>pa_extended_address = dr_extended_address d, pa_street_address = dr_street_address d,
      pa_address_locality = dr_address_locality d, pa_address_region = dr_address_region d,
      pa_address_country = dr_address_country d, pa_postal_code = dr_postal_code d,
      pa_first_name = dr_first_name d, pa_last_name = dr_last_name d, pa_phone_number = dr_phone_number d\<rparr>"

record ucp_fulfillment_selection_request =
  sr_method_type :: fulfillment_method_type
  sr_line_item_ids :: "string list"
  sr_destination :: ucp_destination_request
  sr_selected_option_id :: "string option"

definition selection_from_dto ::
  "ucp_fulfillment_selection_request \<Rightarrow> string + set_fulfillment_selection_payload" where
  "selection_from_dto dto =
     res_bind (case sr_method_type dto of
         Pickup \<Rightarrow> res_bind (ok_or ''destination.name is required for pickup'' (dr_name (sr_destination dto))) (\<lambda>name.
                     Inr (RetailDest (dr_id (sr_destination dto)) name (Some (request_address (sr_destination dto)))))
       | Shipping \<Rightarrow> Inr (ShippingDest (dr_id (sr_destination dto)) (request_address (sr_destination dto))))
       (\<lambda>destination. Inr \<lparr>sf_method_type = sr_method_type dto, sf_line_item_ids = sr_line_item_ids dto,
          sf_destination = destination, sf_selected_option_id = sr_selected_option_id dto\<rparr>)"

section \<open>Orders\<close>

record ucp_order_quantity =
  oq_original :: u32
  oq_total :: u32
  oq_fulfilled :: u32

record ucp_order_line =
  ol_id :: string
  ol_item :: ucp_line_item
  ol_quantity :: ucp_order_quantity
  ol_totals :: "ucp_total list"
  ol_status :: string

text \<open>The two lists of \<open>UcpOrderFulfillmentDto\<close> are always empty and left out.\<close>

record ucp_order_response =
  uor_ucp :: ucp_envelope
  uor_id :: string
  uor_checkout_id :: string
  uor_status :: order_status
  uor_currency :: string
  uor_permalink_url :: string
  uor_line_items :: "ucp_order_line list"
  uor_totals :: "ucp_total list"
  uor_events :: "order_event_dto list"
  uor_created_at :: string

definition order_line_to_ucp :: "order_status \<Rightarrow> cart_line_projection \<Rightarrow> ucp_order_line" where
  "order_line_to_ucp st l =
     (let (line_status, fulfilled) = (case st of Fulfilled \<Rightarrow> (''fulfilled'', True) | OrderCancelled \<Rightarrow> (''removed'', False)
                                      | _ \<Rightarrow> (''processing'', False))
      in \<lparr>ol_id = li_line_id l, ol_item = \<lparr>ui_id = li_item_id l, ui_title = li_title l, ui_price = li_unit_price_minor l\<rparr>,
          ol_quantity = \<lparr>oq_original = li_quantity l, oq_total = li_quantity l,
                         oq_fulfilled = (if fulfilled then li_quantity l else 0)\<rparr>,
          ol_totals = line_totals (li_total_minor l), ol_status = line_status\<rparr>)"

definition order_to_ucp :: "text_env \<Rightarrow> order_record \<Rightarrow> ucp_order_response" where
  "order_to_ucp T r =
     \<lparr>uor_ucp = for_capabilities [''dev.ucp.shopping.order''], uor_id = or_order_id r,
      uor_checkout_id = te_show_uuid T (cart_uuid (or_checkout_id r)), uor_status = or_status r,
      uor_currency = or_currency r, uor_permalink_url = or_permalink_url r,
      uor_line_items = map (order_line_to_ucp (or_status r)) (or_line_items r), uor_totals = ucp_totals (or_totals r),
      uor_events = map (order_event_to_dto T) (or_events r), uor_created_at = te_rfc3339 T (or_created_at r)\<rparr>"

section \<open>Other transfer objects\<close>

record webhook_registration_dto =
  wd_id :: string
  wd_tenant_id :: string
  wd_url :: string
  wd_event_filter :: "string list option"
  wd_active :: bool

text \<open>The secret of a registration is not shown.\<close>

definition webhook_to_dto :: "webhook_registration \<Rightarrow> webhook_registration_dto" where
  "webhook_to_dto r =
     \<lparr>wd_id = wr_id r, wd_tenant_id = wr_tenant_id r, wd_url = wr_url r, wd_event_filter = wr_event_filter r,
      wd_active = wr_active r\<rparr>"

record webhook_registration_request =
  wq_url :: string
  wq_secret :: string
  wq_event_filter :: "string list option"

text \<open>\<open>CatalogItemDto\<close> has the fields of the item, \<open>UcpMessageDto\<close> a code and a content.\<close>

record ucp_catalog_response =
  ur_ucp :: ucp_envelope
  ur_products :: "catalog_item list"
  ur_messages :: "(string \<times> string) list"

record identity_link_result_dto =
  ird_version :: string
  ird_supported_versions :: "string list"
  ird_link_id :: string
  ird_status :: string

definition identity_to_dto :: "identity_link_result \<Rightarrow> identity_link_result_dto" where
  "identity_to_dto r =
     \<lparr>ird_version = (if ilr_ucp_version r = [] then UCP_LATEST_VERSION else ilr_ucp_version r),
      ird_supported_versions = (if ilr_supported_versions r = [] then UCP_SUPPORTED_VERSIONS else ilr_supported_versions r),
      ird_link_id = ilr_link_id r, ird_status = ilr_status r\<rparr>"

end
