(* ===== verification/Acp_Mapping.thy ===== *)
theory Acp_Mapping
  imports Ucp_Dto
begin

text \<open>
  The ACP checkout sessions and carts (\<open>orchestrator-api/src/acp_mapping.rs\<close>): version negotiation, ids,
  the commands a request stands for and the shapes returned.
\<close>

definition ACP_API_VERSION :: string where "ACP_API_VERSION = ''2026-04-17''"
definition ACP_SUPPORTED_VERSIONS :: "string list" where "ACP_SUPPORTED_VERSIONS = [ACP_API_VERSION]"

datatype acp_version_error = AcpMissing | AcpUnsupported string

definition negotiate_acp_version :: "string option \<Rightarrow> acp_version_error + string" where
  "negotiate_acp_version requested =
     (case requested of
        None \<Rightarrow> Inl AcpMissing
      | Some raw \<Rightarrow>
          let v = str_trim raw
          in if v = [] then Inl AcpMissing
             else if v \<in> set ACP_SUPPORTED_VERSIONS then Inr ACP_API_VERSION
             else Inl (AcpUnsupported v))"

fun acp_version_message :: "acp_version_error \<Rightarrow> string" where
  "acp_version_message AcpMissing = ''API-Version header is required''"
| "acp_version_message (AcpUnsupported v) = ''API version '' @ CHR 0x27 # v @ CHR 0x27 # '' is not supported''"

section \<open>Requests\<close>

record acp_line_item =
  al_id :: "string option"
  al_item_id :: string
  al_quantity :: u32

text \<open>\<open>AcpBuyer\<close> has the fields of \<open>CustomerHint\<close>. A session and a cart are created by the same fields.\<close>

record acp_create_request =
  acr_merchant_id :: string
  acr_currency :: string
  acr_line_items :: "acp_line_item list"
  acr_buyer :: "customer_hint option"

record acp_update_request =
  aur_line_items :: "acp_line_item list"
  aur_buyer :: "customer_hint option"

record acp_payment_data =
  apd_token :: string
  apd_amount_minor :: i64
  apd_payment_handler_id :: "string option"
  apd_ap2_consent_proof :: "string option"
  apd_payment_method_type :: "string option"
  apd_mpp_method :: "string option"
  apd_mpp_intent :: "string option"

record acp_complete_request =
  acm_tenant_id :: string
  acm_merchant_id :: string
  acm_idempotency_key :: string
  acm_payment_data :: acp_payment_data
  acm_buyer :: "customer_hint option"

text \<open>The values of the metadata object are given as the texts the request becomes.\<close>

record acp_delegate_request =
  adr_tenant_id :: string
  adr_method_type :: "string option"
  adr_token :: string
  adr_amount_minor :: "i64 option"
  adr_metadata :: "(string \<times> string) list"

section \<open>Ids\<close>

definition ACP_CART_ID_PREFIX :: string where "ACP_CART_ID_PREFIX = ''cart_''"

definition cart_id_to_acp_session_id :: "text_env \<Rightarrow> cart_id \<Rightarrow> string" where
  "cart_id_to_acp_session_id T c = ''cs_'' @ te_show_uuid T (cart_uuid c)"

definition cart_id_to_acp_cart_id :: "text_env \<Rightarrow> cart_id \<Rightarrow> string" where
  "cart_id_to_acp_cart_id T c = ACP_CART_ID_PREFIX @ te_show_uuid T (cart_uuid c)"

definition parse_prefixed :: "text_env \<Rightarrow> string \<Rightarrow> string \<Rightarrow> string \<Rightarrow> string + cart_id" where
  "parse_prefixed T prefix kind i =
     (case te_parse_uuid T (case strip_prefix prefix i of None \<Rightarrow> i | Some raw \<Rightarrow> raw) of
        Inl e \<Rightarrow> Inl (''invalid '' @ kind @ '' id: '' @ e)
      | Inr u \<Rightarrow> Inr (CartId u))"

definition parse_acp_session_id :: "text_env \<Rightarrow> string \<Rightarrow> string + cart_id" where
  "parse_acp_session_id T i = parse_prefixed T ''cs_'' ''checkout session'' i"

definition parse_acp_cart_id :: "text_env \<Rightarrow> string \<Rightarrow> string + cart_id" where
  "parse_acp_cart_id T i = parse_prefixed T ACP_CART_ID_PREFIX ''cart'' i"

text \<open>Ids read back when the library's UUID texts do, and no UUID starts with a prefix.\<close>

lemma acp_ids_roundtrip:
  assumes "\<And>u. te_parse_uuid T (te_show_uuid T u) = Inr u"
  shows "parse_acp_session_id T (cart_id_to_acp_session_id T c) = Inr c"
    and "parse_acp_cart_id T (cart_id_to_acp_cart_id T c) = Inr c"
  using assms
  by (cases c; simp add: parse_acp_session_id_def parse_acp_cart_id_def parse_prefixed_def ACP_CART_ID_PREFIX_def
      cart_id_to_acp_session_id_def cart_id_to_acp_cart_id_def)+

section \<open>Commands\<close>

definition acp_create_command :: "acp_create_request \<Rightarrow> cart_command" where
  "acp_create_command req =
     CreateCart \<lparr>cc_merchant_id = acr_merchant_id req, cc_currency = acr_currency req, cc_tenant_id = None\<rparr>"

definition acp_add_commands :: "acp_create_request \<Rightarrow> cart_command list" where
  "acp_add_commands req =
     map (\<lambda>l. AddItem \<lparr>ai_item_id = al_item_id l, ai_quantity = al_quantity l\<rparr>) (acr_line_items req)"

definition get_cart_command :: "cart_id \<Rightarrow> cart_command" where
  "get_cart_command c = GetCart \<lparr>gc_cart_id = c\<rparr>"

definition cancel_cart_command :: "cart_id \<Rightarrow> cart_command" where
  "cancel_cart_command c = CancelCart \<lparr>xc_cart_id = c\<rparr>"

definition start_checkout_command :: "cart_id \<Rightarrow> u64 \<Rightarrow> cart_command" where
  "start_checkout_command c v = StartCheckout \<lparr>sc_cart_id = c, sc_cart_version = v\<rparr>"

definition acp_method_type :: "string option \<Rightarrow> payment_method_type option" where
  "acp_method_type m =
     (case m of
        None \<Rightarrow> None
      | Some text \<Rightarrow>
          let l = map ascii_lower text
          in if l = ''ap2'' then Some Ap2 else if l = ''mpp'' then Some Mpp else None)"

definition complete_to_checkout_request ::
  "cart_id \<Rightarrow> u64 \<Rightarrow> string \<Rightarrow> acp_complete_request \<Rightarrow> checkout_request" where
  "complete_to_checkout_request c version currency req =
     (let p = acm_payment_data req in
      \<lparr>cr_tenant_id = acm_tenant_id req, cr_merchant_id = acm_merchant_id req, cr_cart_id = c, cr_cart_version = version,
       cr_currency = currency, cr_customer = acm_buyer req, cr_location = None,
       cr_payment_intent = \<lparr>pi_amount_minor = apd_amount_minor p, pi_token_or_reference = apd_token p,
         pi_ap2_consent_proof = apd_ap2_consent_proof p, pi_payment_handler_id = apd_payment_handler_id p,
         pi_payment_method_type = acp_method_type (apd_payment_method_type p), pi_mpp_method = apd_mpp_method p,
         pi_mpp_intent = apd_mpp_intent p\<rparr>,
       cr_idempotency_key = acm_idempotency_key req\<rparr>)"

section \<open>Responses\<close>

record acp_session_line =
  asl_id :: string
  asl_item_id :: string
  asl_quantity :: u32
  asl_unit_amount :: i64

record acp_totals =
  ato_subtotal_minor :: i64
  ato_tax_minor :: i64
  ato_discount_minor :: i64
  ato_total_minor :: i64

text \<open>Sessions and carts are returned with the same fields.\<close>

record acp_cart_response =
  acs_id :: string
  acs_status :: string
  acs_currency :: string
  acs_line_items :: "acp_session_line list"
  acs_totals :: acp_totals
  acs_api_version :: string

definition acp_line :: "cart_line_projection \<Rightarrow> acp_session_line" where
  "acp_line l = \<lparr>asl_id = li_line_id l, asl_item_id = li_item_id l, asl_quantity = li_quantity l,
                 asl_unit_amount = li_unit_price_minor l\<rparr>"

definition acp_totals_of :: "cart_projection \<Rightarrow> acp_totals" where
  "acp_totals_of p = \<lparr>ato_subtotal_minor = cp_subtotal_minor p, ato_tax_minor = cp_tax_minor p,
                      ato_discount_minor = cp_discount_minor p, ato_total_minor = cp_total_minor p\<rparr>"

definition projection_to_acp_cart :: "text_env \<Rightarrow> cart_projection \<Rightarrow> acp_cart_response" where
  "projection_to_acp_cart T p =
     \<lparr>acs_id = cart_id_to_acp_cart_id T (cp_cart_id p),
      acs_status = (case cp_status p of cart_status.Cancelled \<Rightarrow> ''canceled'' | _ \<Rightarrow> ''active''),
      acs_currency = cp_currency p, acs_line_items = map acp_line (cp_lines p), acs_totals = acp_totals_of p,
      acs_api_version = ACP_API_VERSION\<rparr>"

definition projection_to_acp_session :: "text_env \<Rightarrow> cart_projection \<Rightarrow> acp_cart_response" where
  "projection_to_acp_session T p =
     \<lparr>acs_id = cart_id_to_acp_session_id T (cp_cart_id p),
      acs_status = (case cp_status p of cart_status.CheckoutReady \<Rightarrow> ''ready_for_payment''
                    | cart_status.Cancelled \<Rightarrow> ''canceled'' | _ \<Rightarrow> ''open''),
      acs_currency = cp_currency p, acs_line_items = map acp_line (cp_lines p), acs_totals = acp_totals_of p,
      acs_api_version = ACP_API_VERSION\<rparr>"

record acp_delegate_response =
  ads_id :: string
  ads_status :: string
  ads_token :: string
  ads_expires_at :: "string option"
  ads_api_version :: string

definition delegate_payment_response :: "delegated_payment \<Rightarrow> acp_delegate_response" where
  "delegate_payment_response d =
     \<lparr>ads_id = dp_id d, ads_status = dp_status d, ads_token = dp_token d, ads_expires_at = dp_expires_at d,
      ads_api_version = ACP_API_VERSION\<rparr>"

record acp_discovery_document =
  acd_version :: string
  acd_supported_versions :: "string list"
  acd_api_base_url :: string
  acd_transports :: "string list"
  acd_services :: "string list"

definition build_acp_discovery_document :: "string \<Rightarrow> bool \<Rightarrow> acp_discovery_document" where
  "build_acp_discovery_document base_url payment_delegation =
     (let base = trim_end_matches (CHR ''/'') base_url in
      \<lparr>acd_version = ACP_API_VERSION, acd_supported_versions = ACP_SUPPORTED_VERSIONS,
       acd_api_base_url = base @ ''/api/v1/acp'', acd_transports = [''rest''],
       acd_services = [''checkout'', ''carts''] @ (if payment_delegation then [''delegate_payment''] else [])\<rparr>)"

end
