(* ===== verification/Signing.thy ===== *)
theory Signing
  imports Text_Parsing
begin

text \<open>
  UCP message signatures (\<open>orchestrator-api/src/signing.rs\<close>): RFC 9421 HTTP message signatures over an
  RFC 9530 \<open>Content-Digest\<close>. The keyrings, the signature base, signing, the structured-field parsers and
  the verification of inbound messages are modelled; the primitives come from the \<open>ed25519_dalek\<close>,
  \<open>p256\<close>, \<open>sha2\<close> and \<open>base64\<close> crates and are the fields of the parameter \<open>crypto\<close>. A library key is
  represented by its byte encoding.
\<close>

type_synonym bytes = string

record crypto =
  cy_ed_verifying_key :: "bytes \<Rightarrow> bytes"
  cy_ed_sign :: "bytes \<Rightarrow> bytes \<Rightarrow> bytes"
  cy_ed_verify :: "bytes \<Rightarrow> bytes \<Rightarrow> bytes \<Rightarrow> bool"
  cy_ed_from_bytes :: "bytes \<Rightarrow> string + bytes"
  cy_p_from_slice :: "bytes \<Rightarrow> string + bytes"
  cy_p_verifying_key :: "bytes \<Rightarrow> bytes"
  cy_p_sign :: "bytes \<Rightarrow> bytes \<Rightarrow> bytes"
  cy_p_signature :: "bytes \<Rightarrow> bytes option"
  cy_p_verify :: "bytes \<Rightarrow> bytes \<Rightarrow> bytes \<Rightarrow> bool"
  cy_p_x :: "bytes \<Rightarrow> bytes option"
  cy_p_y :: "bytes \<Rightarrow> bytes option"
  cy_p_from_sec1 :: "bytes \<Rightarrow> string + bytes"
  cy_sha256 :: "bytes \<Rightarrow> bytes"
  cy_b64 :: "bytes \<Rightarrow> string"
  cy_b64_decode :: "string \<Rightarrow> bytes option"
  cy_b64url :: "bytes \<Rightarrow> string"
  cy_b64url_decode :: "string \<Rightarrow> bytes option"

definition SIGNATURE_INPUT_HEADER :: string where "SIGNATURE_INPUT_HEADER = ''signature-input''"
definition SIGNATURE_HEADER :: string where "SIGNATURE_HEADER = ''signature''"
definition CONTENT_DIGEST_HEADER :: string where "CONTENT_DIGEST_HEADER = ''content-digest''"
definition SIGNATURE_LABEL :: string where "SIGNATURE_LABEL = ''sig1''"
definition MAX_SIGNATURE_SKEW_SECONDS :: i64 where "MAX_SIGNATURE_SKEW_SECONDS = 300"

abbreviation quote :: char where "quote \<equiv> CHR 0x22"
abbreviation backslash :: char where "backslash \<equiv> CHR 0x5C"
abbreviation newline :: char where "newline \<equiv> CHR 0x0A"

section \<open>Algorithms and keys\<close>

datatype key_algorithm = EdDsa | Es256

datatype signing_key_error =
    MissingKid
  | InvalidKeyMaterial string string
  | DuplicateKid string
  | UnknownKid string
  | UnsupportedAlgorithm string
  | InvalidJwks string
  | MalformedSignature
  | KeyVerificationFailed

definition key_algorithm_parse :: "string \<Rightarrow> signing_key_error + key_algorithm" where
  "key_algorithm_parse value =
     (let name = map ascii_lower (str_trim value)
      in if name = ''eddsa'' \<or> name = ''ed25519'' then Inr EdDsa
         else if name = ''es256'' \<or> name = ''ecdsa-p256-sha256'' then Inr Es256
         else Inl (UnsupportedAlgorithm (str_trim value)))"

fun jose_name :: "key_algorithm \<Rightarrow> string" where
  "jose_name EdDsa = ''EdDSA''"
| "jose_name Es256 = ''ES256''"

fun http_signature_name :: "key_algorithm \<Rightarrow> string" where
  "http_signature_name EdDsa = ''ed25519''"
| "http_signature_name Es256 = ''ecdsa-p256-sha256''"

record signing_key_descriptor =
  sk_kid :: string
  sk_kty :: string
  sk_crv :: "string option"
  sk_alg :: string
  sk_x :: "string option"
  sk_y :: "string option"
  sk_use :: "string option"

record ucp_signature =
  us_kid :: string
  us_signature :: string

record signed_message =
  sm_signature_input :: string
  sm_signature :: string

record key_spec =
  ks_kid :: string
  ks_algorithm :: key_algorithm
  ks_secret :: string

datatype private_key = Ed25519_private bytes | P256_private bytes

datatype public_key = Ed25519_public bytes | P256_public bytes

fun private_sign :: "crypto \<Rightarrow> private_key \<Rightarrow> bytes \<Rightarrow> bytes" where
  "private_sign C (Ed25519_private key) payload = cy_ed_sign C key payload"
| "private_sign C (P256_private key) payload = cy_p_sign C key payload"

fun private_public :: "crypto \<Rightarrow> private_key \<Rightarrow> public_key" where
  "private_public C (Ed25519_private key) = Ed25519_public (cy_ed_verifying_key C key)"
| "private_public C (P256_private key) = P256_public (cy_p_verifying_key C key)"

fun public_algorithm :: "public_key \<Rightarrow> key_algorithm" where
  "public_algorithm (Ed25519_public _) = EdDsa"
| "public_algorithm (P256_public _) = Es256"

fun public_verify :: "crypto \<Rightarrow> public_key \<Rightarrow> bytes \<Rightarrow> bytes \<Rightarrow> bool" where
  "public_verify C (Ed25519_public key) payload signature =
     (if length signature \<noteq> 64 then False else cy_ed_verify C key payload signature)"
| "public_verify C (P256_public key) payload signature =
     (case cy_p_signature C signature of
        None \<Rightarrow> False
      | Some sig \<Rightarrow> cy_p_verify C key payload sig)"

fun public_jwk :: "crypto \<Rightarrow> public_key \<Rightarrow> string \<Rightarrow> signing_key_descriptor" where
  "public_jwk C (Ed25519_public key) kid =
     \<lparr>sk_kid = kid, sk_kty = ''OKP'', sk_crv = Some ''Ed25519'', sk_alg = jose_name EdDsa,
      sk_x = Some (cy_b64url C key), sk_y = None, sk_use = Some ''sig''\<rparr>"
| "public_jwk C (P256_public key) kid =
     \<lparr>sk_kid = kid, sk_kty = ''EC'', sk_crv = Some ''P-256'', sk_alg = jose_name Es256,
      sk_x = map_option (cy_b64url C) (cy_p_x C key), sk_y = map_option (cy_b64url C) (cy_p_y C key),
      sk_use = Some ''sig''\<rparr>"

definition decode_base64 :: "crypto \<Rightarrow> string \<Rightarrow> bytes option" where
  "decode_base64 C value =
     (let trimmed = str_trim value
      in if trimmed = [] then None
         else (case cy_b64url_decode C (trim_end_matches (CHR ''='') trimmed) of
                 Some raw \<Rightarrow> Some raw
               | None \<Rightarrow> cy_b64_decode C trimmed))"

definition ed25519_public_key :: "crypto \<Rightarrow> string \<Rightarrow> bytes \<Rightarrow> signing_key_error + public_key" where
  "ed25519_public_key C kid raw =
     (if length raw \<noteq> 32 then Inl (InvalidKeyMaterial kid ''expected 32 bytes of Ed25519 public key'')
      else (case cy_ed_from_bytes C raw of
              Inl e \<Rightarrow> Inl (InvalidKeyMaterial kid e)
            | Inr key \<Rightarrow> Inr (Ed25519_public key)))"

definition jwk_coordinate ::
  "crypto \<Rightarrow> string \<Rightarrow> string option \<Rightarrow> string \<Rightarrow> signing_key_error + bytes" where
  "jwk_coordinate C kid value name =
     ok_or (InvalidKeyMaterial kid (''missing or non-base64 '' @ CHR 0x27 # name @ [CHR 0x27]))
       (Option.bind value (decode_base64 C))"

definition public_from_jwk :: "crypto \<Rightarrow> signing_key_descriptor \<Rightarrow> signing_key_error + public_key" where
  "public_from_jwk C jwk =
     (if sk_kty jwk = ''OKP'' \<and> sk_crv jwk = Some ''Ed25519'' then
        res_bind (jwk_coordinate C (sk_kid jwk) (sk_x jwk) ''x'') (ed25519_public_key C (sk_kid jwk))
      else if sk_kty jwk = ''EC'' \<and> sk_crv jwk = Some ''P-256'' then
        res_bind (jwk_coordinate C (sk_kid jwk) (sk_x jwk) ''x'') (\<lambda>x.
        res_bind (jwk_coordinate C (sk_kid jwk) (sk_y jwk) ''y'') (\<lambda>y.
          case cy_p_from_sec1 C (CHR 0x04 # x @ y) of
            Inl e \<Rightarrow> Inl (InvalidKeyMaterial (sk_kid jwk) e)
          | Inr key \<Rightarrow> Inr (P256_public key)))
      else Inl (UnsupportedAlgorithm (''kty='' @ sk_kty jwk @ '' crv='' @
             (case sk_crv jwk of None \<Rightarrow> ''none'' | Some crv \<Rightarrow> crv))))"

section \<open>The signing keyring\<close>

record key =
  k_kid :: string
  k_private :: private_key

type_synonym signing_keyring = "key list"

definition build_key :: "crypto \<Rightarrow> key_spec \<Rightarrow> signing_key_error + key" where
  "build_key C spec =
     (if str_trim (ks_kid spec) = [] then Inl MissingKid
      else case decode_base64 C (ks_secret spec) of
        None \<Rightarrow> Inl (InvalidKeyMaterial (ks_kid spec) ''expected base64-encoded key material'')
      | Some raw \<Rightarrow>
          if length raw \<noteq> 32
          then Inl (InvalidKeyMaterial (ks_kid spec) ''expected 32 bytes of private key material'')
          else (case ks_algorithm spec of
                  EdDsa \<Rightarrow> Inr \<lparr>k_kid = ks_kid spec, k_private = Ed25519_private raw\<rparr>
                | Es256 \<Rightarrow>
                    (case cy_p_from_slice C raw of
                       Inl e \<Rightarrow> Inl (InvalidKeyMaterial (ks_kid spec) (''not a valid P-256 private scalar: '' @ e))
                     | Inr scalar \<Rightarrow> Inr \<lparr>k_kid = ks_kid spec, k_private = P256_private scalar\<rparr>)))"

fun from_specs_loop ::
  "crypto \<Rightarrow> signing_keyring \<Rightarrow> key_spec list \<Rightarrow> signing_key_error + signing_keyring" where
  "from_specs_loop C keys [] = Inr keys"
| "from_specs_loop C keys (spec # specs) =
     res_bind (build_key C spec) (\<lambda>key.
       if list_ex (\<lambda>existing. k_kid existing = k_kid key) keys then Inl (DuplicateKid (k_kid key))
       else from_specs_loop C (keys @ [key]) specs)"

definition from_specs :: "crypto \<Rightarrow> key_spec \<Rightarrow> key_spec list \<Rightarrow> signing_key_error + signing_keyring" where
  "from_specs C active previous =
     res_bind (build_key C active) (\<lambda>key. from_specs_loop C [key] previous)"

definition from_seeds ::
  "crypto \<Rightarrow> string \<Rightarrow> string \<Rightarrow> (string \<times> string) list \<Rightarrow> signing_key_error + signing_keyring" where
  "from_seeds C active_kid active_seed previous =
     (let ed25519 = (\<lambda>kid secret. \<lparr>ks_kid = kid, ks_algorithm = EdDsa, ks_secret = secret\<rparr>)
      in from_specs C (ed25519 active_kid active_seed) (map (\<lambda>(kid, seed). ed25519 kid seed) previous))"

definition active_kid :: "signing_keyring \<Rightarrow> string" where
  "active_kid keys = k_kid (hd keys)"

definition ring_sign :: "crypto \<Rightarrow> signing_keyring \<Rightarrow> bytes \<Rightarrow> ucp_signature" where
  "ring_sign C keys payload =
     \<lparr>us_kid = k_kid (hd keys), us_signature = cy_b64url C (private_sign C (k_private (hd keys)) payload)\<rparr>"

definition ring_verify ::
  "crypto \<Rightarrow> signing_keyring \<Rightarrow> string \<Rightarrow> bytes \<Rightarrow> string \<Rightarrow> signing_key_error + unit" where
  "ring_verify C keys kid payload signature =
     res_bind (ok_or (UnknownKid kid) (find (\<lambda>k. k_kid k = kid) keys)) (\<lambda>key.
     res_bind (ok_or MalformedSignature (decode_base64 C signature)) (\<lambda>raw.
       if public_verify C (private_public C (k_private key)) payload raw then Inr ()
       else Inl KeyVerificationFailed))"

definition public_jwks :: "crypto \<Rightarrow> signing_keyring \<Rightarrow> signing_key_descriptor list" where
  "public_jwks C keys = map (\<lambda>key. public_jwk C (private_public C (k_private key)) (k_kid key)) keys"

section \<open>Signature errors\<close>

datatype signature_error =
    SigMissing
  | SigMalformed string
  | CoverageInsufficient string
  | SigStale i64
  | SigExpired
  | KeyNotFound string
  | AlgorithmUnsupported string
  | DigestMismatch
  | SigVerificationFailed

fun sig_code :: "signature_error \<Rightarrow> string" where
  "sig_code SigMissing = ''signature_missing''"
| "sig_code (KeyNotFound _) = ''key_not_found''"
| "sig_code (AlgorithmUnsupported _) = ''algorithm_unsupported''"
| "sig_code DigestMismatch = ''digest_mismatch''"
| "sig_code (SigMalformed _) = ''signature_invalid''"
| "sig_code (CoverageInsufficient _) = ''signature_invalid''"
| "sig_code (SigStale _) = ''signature_invalid''"
| "sig_code SigExpired = ''signature_invalid''"
| "sig_code SigVerificationFailed = ''signature_invalid''"

definition sig_http_status :: "signature_error \<Rightarrow> u16" where
  "sig_http_status e = (case e of DigestMismatch \<Rightarrow> 400 | AlgorithmUnsupported _ \<Rightarrow> 400 | _ \<Rightarrow> 401)"

fun metric_suffix :: "signature_error \<Rightarrow> string" where
  "metric_suffix SigMissing = ''missing''"
| "metric_suffix (SigMalformed _) = ''malformed''"
| "metric_suffix (CoverageInsufficient _) = ''coverage''"
| "metric_suffix (SigStale _) = ''stale''"
| "metric_suffix SigExpired = ''stale''"
| "metric_suffix (KeyNotFound _) = ''unknown_kid''"
| "metric_suffix (AlgorithmUnsupported _) = ''algorithm''"
| "metric_suffix DigestMismatch = ''digest''"
| "metric_suffix SigVerificationFailed = ''invalid''"

section \<open>Message components and the signature base\<close>

type_synonym message_components = "string \<rightharpoonup> string"

definition components_insert :: "string \<Rightarrow> string \<Rightarrow> message_components \<Rightarrow> message_components" where
  "components_insert name value m = m(map ascii_lower name \<mapsto> str_trim value)"

definition components_contains :: "message_components \<Rightarrow> string \<Rightarrow> bool" where
  "components_contains m name \<longleftrightarrow> m name \<noteq> None"

fun base_lines :: "message_components \<Rightarrow> string list \<Rightarrow> signature_error + string" where
  "base_lines m [] = Inr []"
| "base_lines m (name # names) =
     (case m name of
        None \<Rightarrow> Inl (SigMalformed (''covered component '' @ CHR 0x27 # name @ CHR 0x27 # '' is absent from the message''))
      | Some value \<Rightarrow> res_bind (base_lines m names) (\<lambda>rest.
          Inr (quote # name @ quote # '': '' @ value @ newline # rest)))"

definition signature_base :: "message_components \<Rightarrow> string list \<Rightarrow> string \<Rightarrow> signature_error + string" where
  "signature_base m covered params =
     res_bind (base_lines m covered) (\<lambda>lines.
       Inr (lines @ quote # ''@signature-params'' @ quote # '': '' @ params))"

definition signature_params_text :: "string list \<Rightarrow> i64 \<Rightarrow> string \<Rightarrow> i64 option \<Rightarrow> string" where
  "signature_params_text covered created kid expires =
     ''('' @ str_join '' '' (map (\<lambda>c. quote # c @ [quote]) covered) @ '');created='' @ show_int created
     @ '';keyid='' @ quote # kid @ [quote]
     @ (case expires of None \<Rightarrow> [] | Some e \<Rightarrow> '';expires='' @ show_int e)"

definition sign_message_with_params ::
  "crypto \<Rightarrow> signing_keyring \<Rightarrow> message_components \<Rightarrow> string list \<Rightarrow> i64 \<Rightarrow> i64 option
     \<Rightarrow> signature_error + signed_message" where
  "sign_message_with_params C keys m covered created expires =
     (let params = signature_params_text covered created (k_kid (hd keys)) expires
      in res_bind (signature_base m covered params) (\<lambda>base.
           Inr \<lparr>sm_signature_input = SIGNATURE_LABEL @ CHR ''='' # params,
                sm_signature = SIGNATURE_LABEL @ ''=:'' @ cy_b64 C (private_sign C (k_private (hd keys)) base) @ '':''\<rparr>))"

definition sign_message ::
  "crypto \<Rightarrow> signing_keyring \<Rightarrow> message_components \<Rightarrow> string list \<Rightarrow> i64 \<Rightarrow> signature_error + signed_message" where
  "sign_message C keys m covered created = sign_message_with_params C keys m covered created None"

section \<open>Structured fields\<close>

record dict_scan =
  ds_members :: "string list"
  ds_current :: string
  ds_in_string :: bool
  ds_in_bytes :: bool
  ds_depth :: u32
  ds_escaped :: bool

definition dict_start :: dict_scan where
  "dict_start = \<lparr>ds_members = [], ds_current = [], ds_in_string = False, ds_in_bytes = False,
     ds_depth = 0, ds_escaped = False\<rparr>"

definition dict_push :: "char \<Rightarrow> dict_scan \<Rightarrow> dict_scan" where
  "dict_push ch s = s\<lparr>ds_current := ds_current s @ [ch]\<rparr>"

definition dict_step :: "dict_scan \<Rightarrow> char \<Rightarrow> dict_scan" where
  "dict_step s ch =
     (if ds_escaped s then dict_push ch (s\<lparr>ds_escaped := False\<rparr>)
      else if ch = backslash \<and> ds_in_string s then dict_push ch (s\<lparr>ds_escaped := True\<rparr>)
      else if ch = quote \<and> \<not> ds_in_bytes s then dict_push ch (s\<lparr>ds_in_string := \<not> ds_in_string s\<rparr>)
      else if ch = CHR '':'' \<and> \<not> ds_in_string s then dict_push ch (s\<lparr>ds_in_bytes := \<not> ds_in_bytes s\<rparr>)
      else if ch = CHR ''('' \<and> \<not> ds_in_string s \<and> \<not> ds_in_bytes s
      then dict_push ch (s\<lparr>ds_depth := ds_depth s + 1\<rparr>)
      else if ch = CHR '')'' \<and> \<not> ds_in_string s \<and> \<not> ds_in_bytes s
      then dict_push ch (s\<lparr>ds_depth := (if ds_depth s = 0 then 0 else ds_depth s - 1)\<rparr>)
      else if ch = CHR '','' \<and> \<not> ds_in_string s \<and> \<not> ds_in_bytes s \<and> ds_depth s = 0
      then s\<lparr>ds_members := ds_members s @ [ds_current s], ds_current := []\<rparr>
      else dict_push ch s)"

definition dict_member :: "string \<Rightarrow> signature_error + string \<times> string" where
  "dict_member member =
     res_bind (ok_or (SigMalformed (CHR 0x27 # member @ CHR 0x27 # '' is not key=value'')) (split_once (CHR ''='') member))
       (\<lambda>(key, value). Inr (str_trim key, str_trim value))"

definition parse_dictionary :: "string \<Rightarrow> signature_error + (string \<times> string) list" where
  "parse_dictionary header =
     (let s = foldl dict_step dict_start header
      in if ds_in_string s \<or> ds_in_bytes s \<or> ds_depth s \<noteq> 0
         then Inl (SigMalformed ''unbalanced structured field'')
         else res_map dict_member (filter (\<lambda>m. m \<noteq> []) (map str_trim (ds_members s @ [ds_current s]))))"

definition parse_byte_sequence :: "crypto \<Rightarrow> string \<Rightarrow> bytes option" where
  "parse_byte_sequence C value =
     Option.bind (strip_prefix '':'' (str_trim value)) (\<lambda>inner.
     Option.bind (split_once (CHR '':'') inner) (\<lambda>(text, _). cy_b64_decode C text))"

record signature_params =
  sp_covered :: "string list"
  sp_created :: "i64 option"
  sp_expires :: "i64 option"
  sp_keyid :: string
  sp_alg :: "string option"

definition quoted :: "string \<Rightarrow> string option" where
  "quoted s = Option.bind (strip_prefix [quote] s) (strip_suffix [quote])"

definition parse_covered :: "string \<Rightarrow> signature_error + string list" where
  "parse_covered inner_list =
     res_map (\<lambda>item. ok_or (SigMalformed ''covered components must be quoted strings without parameters'') (quoted item))
       (split_whitespace inner_list)"

definition parse_param :: "signature_params \<Rightarrow> string \<Rightarrow> signature_error + signature_params" where
  "parse_param parsed param =
     (let (name, value) = (case split_once (CHR ''='') param of None \<Rightarrow> (param, ''?1'') | Some nv \<Rightarrow> nv);
          str = ok_or (SigMalformed (CHR 0x27 # name @ CHR 0x27 # '' must be a string'')) (quoted value);
          integer = ok_or (SigMalformed (CHR 0x27 # name @ CHR 0x27 # '' must be an integer'')) (parse_i64 value)
      in if name = ''created'' then res_bind integer (\<lambda>i. Inr (parsed\<lparr>sp_created := Some i\<rparr>))
         else if name = ''expires'' then res_bind integer (\<lambda>i. Inr (parsed\<lparr>sp_expires := Some i\<rparr>))
         else if name = ''keyid'' then res_bind str (\<lambda>v. Inr (parsed\<lparr>sp_keyid := v\<rparr>))
         else if name = ''alg'' then res_bind str (\<lambda>v. Inr (parsed\<lparr>sp_alg := Some v\<rparr>))
         else Inr parsed)"

fun parse_params :: "signature_params \<Rightarrow> string list \<Rightarrow> signature_error + signature_params" where
  "parse_params parsed [] = Inr parsed"
| "parse_params parsed (p # ps) = res_bind (parse_param parsed p) (\<lambda>parsed. parse_params parsed ps)"

definition parse_signature_params :: "string \<Rightarrow> signature_error + signature_params" where
  "parse_signature_params raw =
     res_bind (ok_or (SigMalformed ''Signature-Input member must be an inner list'')
                 (strip_prefix ''('' (str_trim raw))) (\<lambda>rest.
     res_bind (ok_or (SigMalformed ''unterminated inner list'') (split_once (CHR '')'') rest)) (\<lambda>(inner_list, params).
     res_bind (parse_covered inner_list) (\<lambda>covered.
     res_bind (parse_params \<lparr>sp_covered = covered, sp_created = None, sp_expires = None, sp_keyid = [], sp_alg = None\<rparr>
                 (filter (\<lambda>p. p \<noteq> []) (map str_trim (str_split (CHR '';'') params)))) (\<lambda>parsed.
       if sp_keyid parsed = [] then Inl (SigMalformed ''keyid parameter is required'') else Inr parsed))))"

section \<open>Content digests\<close>

definition content_digest :: "crypto \<Rightarrow> bytes \<Rightarrow> string" where
  "content_digest C body = ''sha-256=:'' @ cy_b64 C (cy_sha256 C body) @ '':''"

definition verify_content_digest :: "crypto \<Rightarrow> string \<Rightarrow> bytes \<Rightarrow> signature_error + unit" where
  "verify_content_digest C header body =
     res_bind (parse_dictionary header) (\<lambda>members.
       if Option.bind (find (\<lambda>(name, _). name = ''sha-256'') members) (\<lambda>(_, value). parse_byte_sequence C value)
          = Some (cy_sha256 C body)
       then Inr () else Inl DigestMismatch)"

section \<open>The verifying keyring\<close>

type_synonym verifying_keyring = "(string \<times> public_key) list"

fun entries_loop :: "string list \<Rightarrow> verifying_keyring \<Rightarrow> signing_key_error + unit" where
  "entries_loop seen [] = Inr ()"
| "entries_loop seen ((kid, _) # entries) =
     (if str_trim kid = [] then Inl MissingKid
      else if kid \<in> set seen then Inl (DuplicateKid kid)
      else entries_loop (seen @ [kid]) entries)"

definition from_entries :: "verifying_keyring \<Rightarrow> signing_key_error + verifying_keyring" where
  "from_entries entries = res_bind (entries_loop [] entries) (\<lambda>_. Inr entries)"

definition from_public_keys ::
  "crypto \<Rightarrow> (string \<times> string) list \<Rightarrow> signing_key_error + verifying_keyring" where
  "from_public_keys C keys =
     res_bind (res_map (\<lambda>(kid, encoded).
         res_bind (ok_or (InvalidKeyMaterial kid ''expected base64-encoded public key'') (decode_base64 C encoded)) (\<lambda>raw.
         res_bind (ed25519_public_key C kid raw) (\<lambda>key. Inr (kid, key)))) keys)
       from_entries"

fun jwks_loop :: "crypto \<Rightarrow> signing_key_descriptor list \<Rightarrow> signing_key_error + verifying_keyring" where
  "jwks_loop C [] = Inr []"
| "jwks_loop C (jwk # jwks) =
     (case public_from_jwk C jwk of
        Inr key \<Rightarrow> res_bind (jwks_loop C jwks) (\<lambda>parsed. Inr ((sk_kid jwk, key) # parsed))
      | Inl (UnsupportedAlgorithm _) \<Rightarrow> jwks_loop C jwks
      | Inl e \<Rightarrow> Inl e)"

text \<open>The parameter \<open>decode\<close> reads the JSON text of a JWK set (\<open>serde_json\<close>).\<close>

definition from_jwks ::
  "crypto \<Rightarrow> (string \<Rightarrow> string + signing_key_descriptor list) \<Rightarrow> string \<Rightarrow> signing_key_error + verifying_keyring" where
  "from_jwks C decode json =
     (case decode json of
        Inl e \<Rightarrow> Inl (InvalidJwks e)
      | Inr jwks \<Rightarrow> res_bind (jwks_loop C jwks) from_entries)"

definition ring_merge :: "verifying_keyring \<Rightarrow> verifying_keyring \<Rightarrow> signing_key_error + verifying_keyring" where
  "ring_merge self other = from_entries (self @ other)"

definition kids :: "verifying_keyring \<Rightarrow> string list" where
  "kids keys = map fst keys"

definition i64_abs :: "i64 \<Rightarrow> i64" where
  "i64_abs x = wrap64 (abs x)"

definition verify_one ::
  "crypto \<Rightarrow> verifying_keyring \<Rightarrow> message_components \<Rightarrow> string \<Rightarrow> string option \<Rightarrow> string list \<Rightarrow> i64
     \<Rightarrow> signature_error + string" where
  "verify_one C keys m raw_params signature required now =
     res_bind (parse_signature_params raw_params) (\<lambda>params.
     case find (\<lambda>r. r \<notin> set (sp_covered params)) required of
       Some missing \<Rightarrow> Inl (CoverageInsufficient missing)
     | None \<Rightarrow>
       res_bind (case sp_created params of
                   None \<Rightarrow> Inr ()
                 | Some created \<Rightarrow>
                     let skew = i64_sub now created
                     in if i64_abs skew > MAX_SIGNATURE_SKEW_SECONDS then Inl (SigStale skew) else Inr ()) (\<lambda>_.
       if (case sp_expires params of None \<Rightarrow> False | Some expires \<Rightarrow> now > expires) then Inl SigExpired
       else
         res_bind (ok_or (KeyNotFound (sp_keyid params)) (map_option snd (find (\<lambda>(kid, _). kid = sp_keyid params) keys))) (\<lambda>key.
         case (case sp_alg params of
                 None \<Rightarrow> None
               | Some alg \<Rightarrow> if alg \<noteq> http_signature_name (public_algorithm key) then Some alg else None) of
           Some alg \<Rightarrow> Inl (AlgorithmUnsupported alg)
         | None \<Rightarrow>
           res_bind (ok_or SigMissing (Option.bind signature (parse_byte_sequence C))) (\<lambda>sig.
           res_bind (signature_base m (sp_covered params) raw_params) (\<lambda>base.
             if public_verify C key base sig then Inr (sp_keyid params) else Inl SigVerificationFailed)))))"

fun verify_loop ::
  "crypto \<Rightarrow> verifying_keyring \<Rightarrow> message_components \<Rightarrow> (string \<times> string) list \<Rightarrow> string list \<Rightarrow> i64
     \<Rightarrow> signature_error option \<Rightarrow> (string \<times> string) list \<Rightarrow> signature_error + string" where
  "verify_loop C keys m signatures required now first_error [] =
     Inl (case first_error of None \<Rightarrow> SigMissing | Some e \<Rightarrow> e)"
| "verify_loop C keys m signatures required now first_error ((label, raw_params) # inputs) =
     (case verify_one C keys m raw_params
             (map_option snd (find (\<lambda>(name, _). name = label) signatures)) required now of
        Inr kid \<Rightarrow> Inr kid
      | Inl e \<Rightarrow> verify_loop C keys m signatures required now
                   (Some (case first_error of None \<Rightarrow> e | Some e0 \<Rightarrow> e0)) inputs)"

definition verify_message ::
  "crypto \<Rightarrow> verifying_keyring \<Rightarrow> message_components \<Rightarrow> string \<Rightarrow> string \<Rightarrow> string list \<Rightarrow> i64
     \<Rightarrow> signature_error + string" where
  "verify_message C keys m signature_input signature required now =
     res_bind (parse_dictionary signature_input) (\<lambda>inputs.
     res_bind (parse_dictionary signature) (\<lambda>signatures.
       if inputs = [] \<or> signatures = [] then Inl SigMissing
       else verify_loop C keys m signatures required now None inputs))"

end
