(* ===== verification/Signing_Facts.thy ===== *)
theory Signing_Facts
  imports Signing
begin

text \<open>
  The parsers read back what the signer writes, keys survive publication as a JWK set, so what a
  keyring signs verifies against the keys it publishes; what verification accepts is covered, fresh and
  signed by a known key; and the signature base determines the components it covers.
\<close>

section \<open>Scanning a dictionary\<close>

definition scan :: "string \<Rightarrow> bool \<Rightarrow> bool \<Rightarrow> u32 \<Rightarrow> dict_scan" where
  "scan cur str byt dep = \<lparr>ds_members = [], ds_current = cur, ds_in_string = str, ds_in_bytes = byt,
     ds_depth = dep, ds_escaped = False\<rparr>"

definition plain :: "char \<Rightarrow> bool" where
  "plain c \<longleftrightarrow> c \<noteq> quote \<and> c \<noteq> CHR '':'' \<and> c \<noteq> CHR ''('' \<and> c \<noteq> CHR '')'' \<and> c \<noteq> CHR '',''"

definition string_safe :: "string \<Rightarrow> bool" where
  "string_safe s \<longleftrightarrow> quote \<notin> set s \<and> backslash \<notin> set s"

lemma dict_start_scan: "dict_start = scan [] False False 0"
  by (simp add: dict_start_def scan_def)

lemma scan_step:
  "plain c \<Longrightarrow> dict_step (scan cur False False d) c = scan (cur @ [c]) False False d"
  "c \<noteq> quote \<Longrightarrow> c \<noteq> backslash \<Longrightarrow> dict_step (scan cur True False d) c = scan (cur @ [c]) True False d"
  "c \<noteq> CHR '':'' \<Longrightarrow> dict_step (scan cur False True d) c = scan (cur @ [c]) False True d"
  "dict_step (scan cur str False d) quote = scan (cur @ [quote]) (\<not> str) False d"
  "dict_step (scan cur False byt d) (CHR '':'') = scan (cur @ '':'') False (\<not> byt) d"
  "dict_step (scan cur False False d) (CHR ''('') = scan (cur @ ''('') False False (d + 1)"
  "d \<noteq> 0 \<Longrightarrow> dict_step (scan cur False False d) (CHR '')'') = scan (cur @ '')'') False False (d - 1)"
  by (simp_all add: dict_step_def dict_push_def scan_def plain_def)

text \<open>A text that a scan at depth \<open>d\<close> reads as part of one member, ending in the state it began in.\<close>

definition neutral :: "u32 \<Rightarrow> string \<Rightarrow> bool" where
  "neutral d xs \<longleftrightarrow> (\<forall>cur. foldl dict_step (scan cur False False d) xs = scan (cur @ xs) False False d)"

lemma neutral_append: "neutral d xs \<Longrightarrow> neutral d ys \<Longrightarrow> neutral d (xs @ ys)"
  by (simp add: neutral_def)

lemma neutral_Nil: "neutral d []"
  by (simp add: neutral_def)

lemma scan_plain:
  "list_all plain xs \<Longrightarrow> foldl dict_step (scan cur False False d) xs = scan (cur @ xs) False False d"
  by (induction xs arbitrary: cur) (simp_all add: scan_step)

lemma scan_string:
  "string_safe xs \<Longrightarrow> foldl dict_step (scan cur True False d) xs = scan (cur @ xs) True False d"
  by (induction xs arbitrary: cur) (auto simp: scan_step string_safe_def)

lemma scan_bytes:
  "CHR '':'' \<notin> set xs \<Longrightarrow> foldl dict_step (scan cur False True d) xs = scan (cur @ xs) False True d"
  by (induction xs arbitrary: cur) (auto simp: scan_step)

lemma neutral_plain: "list_all plain xs \<Longrightarrow> neutral d xs"
  by (simp add: neutral_def scan_plain)

lemma neutral_quoted: "string_safe xs \<Longrightarrow> neutral d (quote # xs @ [quote])"
  by (simp add: neutral_def scan_step scan_string)

lemma neutral_bytes: "CHR '':'' \<notin> set xs \<Longrightarrow> neutral d (CHR '':'' # xs @ '':'')"
  by (simp add: neutral_def scan_step scan_bytes)

lemma neutral_paren: "neutral 1 xs \<Longrightarrow> neutral 0 (CHR ''('' # xs @ '')'')"
  by (simp add: neutral_def scan_step)

lemma neutral_quoted_list:
  assumes "list_all string_safe xs"
  shows "neutral d (str_join '' '' (map (\<lambda>c. quote # c @ [quote]) xs))"
  using assms
proof (induction xs rule: induct_list012)
  case 1
  show ?case by (simp add: neutral_Nil)
next
  case (2 x)
  then show ?case using neutral_quoted [of x] by simp
next
  case (3 x y zs)
  have "neutral d '' ''" by (rule neutral_plain) (simp add: plain_def)
  then show ?case
    using 3 neutral_append [OF neutral_append [OF neutral_quoted [of x]]] by fastforce
qed

lemma neutral_int: "neutral d (show_int i)"
proof (rule neutral_plain)
  have "plain c" if "c \<in> set (show_int i)" for c
    using show_int_chars [OF that] by (auto simp: plain_def)
  then show "list_all plain (show_int i)" by (simp add: list_all_iff)
qed

lemma parse_dictionary_single:
  assumes "neutral 0 (k @ CHR ''='' # v)"
    and "k \<noteq> []" "v \<noteq> []" "CHR ''='' \<notin> set k" "str_trim k = k" "str_trim v = v"
    and "\<not> is_ascii_ws (hd k)" "\<not> is_ascii_ws (last v)"
  shows "parse_dictionary (k @ CHR ''='' # v) = Inr [(k, v)]"
proof -
  have "str_trim (k @ CHR ''='' # v) = k @ CHR ''='' # v"
    using assms by (intro str_trim_id) auto
  then show ?thesis
    using assms
    by (simp add: parse_dictionary_def dict_start_scan neutral_def del: foldl_append foldl_Cons)
      (simp add: scan_def dict_member_def split_once_append)
qed

section \<open>What the signer writes\<close>

definition component_ok :: "string \<Rightarrow> bool" where
  "component_ok c \<longleftrightarrow> string_safe c \<and> CHR '')'' \<notin> set c \<and> list_all (\<lambda>x. \<not> is_ascii_ws x) c"

definition kid_ok :: "string \<Rightarrow> bool" where
  "kid_ok kid \<longleftrightarrow> kid \<noteq> [] \<and> string_safe kid \<and> CHR '';'' \<notin> set kid"

definition expires_text :: "i64 option \<Rightarrow> string" where
  "expires_text expires = (case expires of None \<Rightarrow> [] | Some e \<Rightarrow> '';expires='' @ show_int e)"

lemma params_text:
  "signature_params_text covered created kid e =
     (CHR ''('' # str_join '' '' (map (\<lambda>c. quote # c @ [quote]) covered) @ '')'') @ '';created='' @ show_int created
     @ '';keyid='' @ (quote # kid @ [quote]) @ expires_text e"
  by (simp add: signature_params_text_def expires_text_def)

lemma neutral_params:
  assumes "list_all string_safe covered" "string_safe kid"
  shows "neutral 0 (signature_params_text covered created kid e)"
proof -
  have p: "neutral 0 '';created=''" "neutral 0 '';keyid=''" "neutral 0 '';expires=''"
    by (rule neutral_plain; simp add: plain_def)+
  have "neutral 0 (expires_text e)"
    using neutral_append [OF p(3) neutral_int] by (cases e) (simp_all add: expires_text_def neutral_Nil)
  then show ?thesis
    unfolding params_text using assms p
    by (intro neutral_append neutral_paren neutral_quoted neutral_quoted_list neutral_int)
qed

lemma last_expires: "expires_text e \<noteq> [] \<Longrightarrow> \<not> is_ascii_ws (last (expires_text e))"
  by (cases e) (simp_all add: expires_text_def bspec [OF show_int_no_ws last_in_set])

lemma params_ends:
  "signature_params_text covered created kid e \<noteq> []"
  "hd (signature_params_text covered created kid e) = CHR ''(''"
  "\<not> is_ascii_ws (last (signature_params_text covered created kid e))"
  using last_expires [of e] by (auto simp: params_text is_ascii_ws_def)

lemma params_trim: "str_trim (signature_params_text covered created kid e) = signature_params_text covered created kid e"
  by (rule str_trim_id) (simp_all add: params_ends, simp add: is_ascii_ws_def)

lemma quoted_quote [simp]: "quoted (quote # c @ [quote]) = Some c"
  by (simp add: quoted_def)

lemma parse_covered_join:
  assumes "list_all component_ok covered"
  shows "parse_covered (str_join '' '' (map (\<lambda>c. quote # c @ [quote]) covered)) = Inr covered"
proof -
  let ?q = "\<lambda>c. quote # c @ [quote]"
  have "split_whitespace (str_join '' '' (map ?q covered)) = map ?q covered"
    using assms by (intro split_whitespace_join) (auto simp: component_ok_def list_all_iff is_ascii_ws_def)
  moreover have "res_map (\<lambda>item. ok_or E (quoted item)) (map ?q covered) = Inr covered" for E :: signature_error
    by (induction covered) simp_all
  ultimately show ?thesis by (simp add: parse_covered_def)
qed

lemma join_no_paren:
  assumes "list_all component_ok covered"
  shows "CHR '')'' \<notin> set (str_join '' '' (map (\<lambda>c. quote # c @ [quote]) covered))"
  using assms by (induction covered rule: induct_list012) (auto simp: component_ok_def)

lemma int_no_semicolon: "CHR '';'' \<notin> set (show_int i)"
  using show_int_chars [of "CHR '';''" i] by auto

definition tail_params :: "i64 \<Rightarrow> string \<Rightarrow> i64 option \<Rightarrow> string list" where
  "tail_params created kid e =
     [''created='' @ show_int created, ''keyid='' @ quote # kid @ [quote]] @
     (case e of None \<Rightarrow> [] | Some x \<Rightarrow> [''expires='' @ show_int x])"

lemma split_tail:
  assumes "kid_ok kid"
  shows "filter (\<lambda>p. p \<noteq> []) (map str_trim (str_split (CHR '';'')
           ('';created='' @ show_int created @ '';keyid='' @ (quote # kid @ [quote]) @ expires_text e))) =
         tail_params created kid e"
proof -
  have ws: "str_trim (''created='' @ show_int created) = ''created='' @ show_int created"
    "str_trim (''expires='' @ show_int x) = ''expires='' @ show_int x" for x
    by (rule str_trim_no_ws; use show_int_no_ws in \<open>auto simp: is_ascii_ws_def\<close>)+
  have kw: "str_trim (''keyid='' @ quote # kid @ [quote]) = ''keyid='' @ quote # kid @ [quote]"
    by (rule str_trim_id) (simp_all add: is_ascii_ws_def)
  have k: "CHR '';'' \<notin> set (''keyid='' @ quote # kid @ [quote])" using assms by (auto simp: kid_ok_def)
  have c: "CHR '';'' \<notin> set (''created='' @ show_int created)" by (simp add: int_no_semicolon)
  have x: "CHR '';'' \<notin> set (''expires='' @ show_int x)" for x by (simp add: int_no_semicolon)
  have "str_split (CHR '';'') ('';created='' @ show_int created @ '';keyid='' @ (quote # kid @ [quote]) @ expires_text e)
      = [] # tail_params created kid e"
    using str_split_append [OF c, of "''keyid='' @ (quote # kid @ [quote]) @ expires_text e"]
      str_split_append [OF k] str_split_no [OF k] str_split_no [OF x]
    by (cases e) (simp_all add: expires_text_def tail_params_def)
  then show ?thesis using ws kw by (cases e) (simp_all add: tail_params_def)
qed

lemma parse_param_simps:
  "in_i64 i \<Longrightarrow> parse_param p (''created='' @ show_int i) = Inr (p\<lparr>sp_created := Some i\<rparr>)"
  "in_i64 i \<Longrightarrow> parse_param p (''expires='' @ show_int i) = Inr (p\<lparr>sp_expires := Some i\<rparr>)"
  "parse_param p (''keyid='' @ quote # kid @ [quote]) = Inr (p\<lparr>sp_keyid := kid\<rparr>)"
  by (simp_all add: parse_param_def parse_show_i64)

definition no_params :: "string list \<Rightarrow> signature_params" where
  "no_params covered = \<lparr>sp_covered = covered, sp_created = None, sp_expires = None, sp_keyid = [], sp_alg = None\<rparr>"

lemma parse_signature_params_shape:
  assumes "raw = CHR ''('' # inner_list @ CHR '')'' # tail" "str_trim raw = raw" "CHR '')'' \<notin> set inner_list"
    and "parse_covered inner_list = Inr covered"
    and "parse_params (no_params covered) (filter (\<lambda>p. p \<noteq> []) (map str_trim (str_split (CHR '';'') tail))) = Inr parsed"
    and "sp_keyid parsed \<noteq> []"
  shows "parse_signature_params raw = Inr parsed"
  using assms(2-) unfolding parse_signature_params_def
  by (simp add: assms(1) split_once_append no_params_def)

lemma parse_params_text:
  assumes "list_all component_ok covered" "kid_ok kid" "in_i64 created" "\<And>x. e = Some x \<Longrightarrow> in_i64 x"
  shows "parse_signature_params (signature_params_text covered created kid e) =
           Inr ((no_params covered)\<lparr>sp_created := Some created, sp_expires := e, sp_keyid := kid\<rparr>)"
proof (rule parse_signature_params_shape)
  show "signature_params_text covered created kid e = CHR ''('' # str_join '' '' (map (\<lambda>c. quote # c @ [quote]) covered) @
      CHR '')'' # ('';created='' @ show_int created @ '';keyid='' @ (quote # kid @ [quote]) @ expires_text e)"
    by (simp add: params_text)
  have "parse_params (no_params covered) (tail_params created kid e) =
      Inr ((no_params covered)\<lparr>sp_created := Some created, sp_expires := e, sp_keyid := kid\<rparr>)"
    using assms(3,4)
    by (cases e) (simp_all add: tail_params_def no_params_def parse_param_simps [unfolded append_Cons append_Nil])
  then show "parse_params (no_params covered) (filter (\<lambda>p. p \<noteq> []) (map str_trim (str_split (CHR '';'')
      ('';created='' @ show_int created @ '';keyid='' @ (quote # kid @ [quote]) @ expires_text e)))) =
      Inr ((no_params covered)\<lparr>sp_created := Some created, sp_expires := e, sp_keyid := kid\<rparr>)"
    by (simp only: split_tail [OF assms(2)])
qed (use assms(1,2) in \<open>simp_all add: params_trim join_no_paren parse_covered_join kid_ok_def\<close>)

section \<open>Documented behaviour of the primitives\<close>

text \<open>
  Both base64 engines decode what they encode; the standard alphabet is printable and has no colon, the
  URL-safe one without padding neither white space nor an equals sign.
\<close>

definition printable :: "string \<Rightarrow> bool" where
  "printable s \<longleftrightarrow> list_all (\<lambda>c. 32 \<le> (of_char c :: nat) \<and> (of_char c :: nat) \<le> 126) s"

definition base64_laws :: "crypto \<Rightarrow> bool" where
  "base64_laws C \<longleftrightarrow>
     (\<forall>b. cy_b64_decode C (cy_b64 C b) = Some b \<and> CHR '':'' \<notin> set (cy_b64 C b) \<and> printable (cy_b64 C b)) \<and>
     (\<forall>b. cy_b64url_decode C (cy_b64url C b) = Some b \<and> (b \<noteq> [] \<longrightarrow> cy_b64url C b \<noteq> []) \<and>
          (\<forall>c \<in> set (cy_b64url C b). \<not> is_ascii_ws c \<and> c \<noteq> CHR ''=''))"

text \<open>Ed25519 signatures have 64 bytes and verify; the encoding of a public key reads back.\<close>

definition ed25519_laws :: "crypto \<Rightarrow> bool" where
  "ed25519_laws C \<longleftrightarrow>
     (\<forall>seed payload. length seed = 32 \<longrightarrow>
        length (cy_ed_sign C seed payload) = 64 \<and>
        cy_ed_verify C (cy_ed_verifying_key C seed) payload (cy_ed_sign C seed payload)) \<and>
     (\<forall>seed. length seed = 32 \<longrightarrow>
        length (cy_ed_verifying_key C seed) = 32 \<and>
        cy_ed_from_bytes C (cy_ed_verifying_key C seed) = Inr (cy_ed_verifying_key C seed))"

text \<open>The same for ECDSA over P-256, whose public keys are published by their two coordinates.\<close>

definition p256_laws :: "crypto \<Rightarrow> bool" where
  "p256_laws C \<longleftrightarrow>
     (\<forall>raw scalar payload. cy_p_from_slice C raw = Inr scalar \<longrightarrow>
        length (cy_p_sign C scalar payload) = 64 \<and>
        (\<exists>sig. cy_p_signature C (cy_p_sign C scalar payload) = Some sig \<and>
               cy_p_verify C (cy_p_verifying_key C scalar) payload sig)) \<and>
     (\<forall>raw scalar. cy_p_from_slice C raw = Inr scalar \<longrightarrow>
        (\<exists>x y. cy_p_x C (cy_p_verifying_key C scalar) = Some x \<and> x \<noteq> [] \<and>
               cy_p_y C (cy_p_verifying_key C scalar) = Some y \<and> y \<noteq> [] \<and>
               cy_p_from_sec1 C (CHR 0x04 # x @ y) = Inr (cy_p_verifying_key C scalar)))"

definition crypto_laws :: "crypto \<Rightarrow> bool" where
  "crypto_laws C \<longleftrightarrow> base64_laws C \<and> ed25519_laws C \<and> p256_laws C"

lemma decode_base64_url:
  assumes "base64_laws C" "b \<noteq> []"
  shows "decode_base64 C (cy_b64url C b) = Some b"
proof -
  have "cy_b64url C b \<noteq> []" and ok: "\<forall>c \<in> set (cy_b64url C b). \<not> is_ascii_ws c \<and> c \<noteq> CHR ''=''"
    and rt: "cy_b64url_decode C (cy_b64url C b) = Some b"
    using assms by (auto simp: base64_laws_def)
  moreover from this have "trim_end_matches (CHR ''='') (cy_b64url C b) = cy_b64url C b"
    by (intro trim_end_matches_id) auto
  ultimately show ?thesis by (simp add: decode_base64_def str_trim_no_ws)
qed

section \<open>Keyrings\<close>

definition usable_key :: "crypto \<Rightarrow> key \<Rightarrow> bool" where
  "usable_key C k \<longleftrightarrow> str_trim (k_kid k) \<noteq> [] \<and>
     (case k_private k of
        Ed25519_private seed \<Rightarrow> length seed = 32
      | P256_private scalar \<Rightarrow> \<exists>raw. cy_p_from_slice C raw = Inr scalar)"

lemma build_key_usable: "build_key C spec = Inr k \<Longrightarrow> usable_key C k \<and> k_kid k = ks_kid spec"
  by (auto simp: build_key_def usable_key_def split: if_splits option.splits key_algorithm.splits sum.splits)

definition ring_ok :: "crypto \<Rightarrow> signing_keyring \<Rightarrow> bool" where
  "ring_ok C keys \<longleftrightarrow> keys \<noteq> [] \<and> distinct (map k_kid keys) \<and> list_all (usable_key C) keys"

lemma from_specs_loop_ok:
  assumes "from_specs_loop C keys specs = Inr ring" "ring_ok C keys"
  shows "ring_ok C ring \<and> hd ring = hd keys"
  using assms
proof (induction specs arbitrary: keys)
  case Nil
  then show ?case by simp
next
  case (Cons spec specs)
  then obtain k where k: "build_key C spec = Inr k" "\<not> list_ex (\<lambda>e. k_kid e = k_kid k) keys"
    "from_specs_loop C (keys @ [k]) specs = Inr ring"
    by (auto simp: res_bind_Inr split: if_splits)
  moreover have "ring_ok C (keys @ [k])"
    using k Cons.prems(2) build_key_usable [OF k(1)] by (auto simp: ring_ok_def list_ex_iff)
  ultimately show ?case using Cons.IH Cons.prems(2) by (fastforce simp: ring_ok_def)
qed

lemma from_specs_ok:
  assumes "from_specs C active previous = Inr ring"
  shows "ring_ok C ring" "k_kid (hd ring) = ks_kid active"
proof -
  obtain k where k: "build_key C active = Inr k" "from_specs_loop C [k] previous = Inr ring"
    using assms by (auto simp: from_specs_def res_bind_Inr)
  then show "ring_ok C ring" "k_kid (hd ring) = ks_kid active"
    using from_specs_loop_ok [OF k(2)] build_key_usable [OF k(1)] by (auto simp: ring_ok_def)
qed

lemma from_jwk_public_jwk:
  assumes "crypto_laws C" "usable_key C k"
  shows "public_from_jwk C (public_jwk C (private_public C (k_private k)) (k_kid k)) = Inr (private_public C (k_private k))"
proof -
  have b: "base64_laws C" and e: "ed25519_laws C" and p: "p256_laws C" using assms(1) by (auto simp: crypto_laws_def)
  show ?thesis
  proof (cases "k_private k")
    case (Ed25519_private seed)
    then have l: "length (cy_ed_verifying_key C seed) = 32"
      and "cy_ed_from_bytes C (cy_ed_verifying_key C seed) = Inr (cy_ed_verifying_key C seed)"
      using assms(2) e by (auto simp: usable_key_def ed25519_laws_def)
    moreover have "decode_base64 C (cy_b64url C (cy_ed_verifying_key C seed)) = Some (cy_ed_verifying_key C seed)"
      using l by (intro decode_base64_url [OF b]) auto
    ultimately show ?thesis
      using Ed25519_private by (simp add: public_from_jwk_def jwk_coordinate_def ed25519_public_key_def)
  next
    case (P256_private scalar)
    then obtain raw where "cy_p_from_slice C raw = Inr scalar" using assms(2) by (auto simp: usable_key_def)
    then obtain x y where "cy_p_x C (cy_p_verifying_key C scalar) = Some x" "x \<noteq> []"
      "cy_p_y C (cy_p_verifying_key C scalar) = Some y" "y \<noteq> []"
      "cy_p_from_sec1 C (CHR 0x04 # x @ y) = Inr (cy_p_verifying_key C scalar)"
      using p unfolding p256_laws_def by blast
    with P256_private show ?thesis
      by (simp add: public_from_jwk_def jwk_coordinate_def decode_base64_url [OF b])
  qed
qed

definition published :: "crypto \<Rightarrow> signing_keyring \<Rightarrow> verifying_keyring" where
  "published C keys = map (\<lambda>k. (k_kid k, private_public C (k_private k))) keys"

lemma jwk_kid [simp]: "sk_kid (public_jwk C pk kid) = kid"
  by (cases pk) simp_all

lemma jwks_loop_published:
  "crypto_laws C \<Longrightarrow> list_all (usable_key C) keys \<Longrightarrow> jwks_loop C (public_jwks C keys) = Inr (published C keys)"
  by (induction keys) (simp_all add: public_jwks_def published_def from_jwk_public_jwk)

lemma entries_loop_ok:
  "entries_loop seen es = Inr () \<longleftrightarrow>
     distinct (map fst es) \<and> set (map fst es) \<inter> set seen = {} \<and> (\<forall>kid \<in> set (map fst es). str_trim kid \<noteq> [])"
  by (induction seen es rule: entries_loop.induct) auto

lemma from_entries_Inr:
  "from_entries es = Inr ring \<longleftrightarrow>
     ring = es \<and> distinct (map fst es) \<and> (\<forall>kid \<in> set (map fst es). str_trim kid \<noteq> [])"
  using entries_loop_ok [of "[]" es] by (auto simp: from_entries_def res_bind_Inr)

lemma from_jwks_published:
  assumes "crypto_laws C" "ring_ok C ring" "decode json = Inr (public_jwks C ring)"
  shows "from_jwks C decode json = Inr (published C ring)"
proof -
  have "map fst (published C ring) = map k_kid ring" by (simp add: published_def)
  then have "from_entries (published C ring) = Inr (published C ring)"
    using assms(2) by (auto simp: from_entries_Inr ring_ok_def usable_key_def list_all_iff)
  then show ?thesis
    using assms jwks_loop_published [OF assms(1)] by (simp add: from_jwks_def ring_ok_def)
qed

lemma sign_verifies:
  assumes "crypto_laws C" "usable_key C k"
  shows "public_verify C (private_public C (k_private k)) payload (private_sign C (k_private k) payload) \<and>
         private_sign C (k_private k) payload \<noteq> []"
proof (cases "k_private k")
  case (Ed25519_private seed)
  with assms have "length (cy_ed_sign C seed payload) = 64"
    "cy_ed_verify C (cy_ed_verifying_key C seed) payload (cy_ed_sign C seed payload)"
    by (simp_all add: crypto_laws_def ed25519_laws_def usable_key_def)
  with Ed25519_private show ?thesis by auto
next
  case (P256_private scalar)
  with assms obtain raw where "cy_p_from_slice C raw = Inr scalar" by (auto simp: usable_key_def)
  then obtain sig where "length (cy_p_sign C scalar payload) = 64"
    "cy_p_signature C (cy_p_sign C scalar payload) = Some sig"
    "cy_p_verify C (cy_p_verifying_key C scalar) payload sig"
    using assms(1) unfolding crypto_laws_def p256_laws_def by blast
  with P256_private show ?thesis by auto
qed

text \<open>A detached signature of the active key verifies against the ring that made it.\<close>

lemma detached_roundtrip:
  assumes "crypto_laws C" "ring_ok C ring"
  shows "ring_verify C ring (us_kid (ring_sign C ring payload)) payload (us_signature (ring_sign C ring payload)) = Inr ()"
proof -
  from assms(2) obtain k ks where ring: "ring = k # ks" "usable_key C k" by (cases ring) (auto simp: ring_ok_def)
  then show ?thesis
    using sign_verifies [OF assms(1) ring(2)] assms(1)
    by (simp add: ring_verify_def ring_sign_def decode_base64_url crypto_laws_def)
qed

section \<open>Signing and verifying a message\<close>

lemma label_plain: "list_all plain SIGNATURE_LABEL" "list_all plain ''=''"
  by (simp_all add: SIGNATURE_LABEL_def plain_def)

lemma parse_signature_input:
  assumes "list_all string_safe covered" "string_safe kid"
  shows "parse_dictionary (SIGNATURE_LABEL @ CHR ''='' # signature_params_text covered created kid e) =
           Inr [(SIGNATURE_LABEL, signature_params_text covered created kid e)]"
proof (rule parse_dictionary_single)
  show "neutral 0 (SIGNATURE_LABEL @ CHR ''='' # signature_params_text covered created kid e)"
    using neutral_append [OF neutral_plain [OF label_plain(1)]
        neutral_append [OF neutral_plain [OF label_plain(2)] neutral_params [OF assms]]] by simp
qed (simp_all add: params_ends params_trim, simp_all add: SIGNATURE_LABEL_def str_trim_no_ws is_ascii_ws_def)

lemma parse_byte_member:
  assumes "list_all plain k" "k \<noteq> []" "CHR ''='' \<notin> set k" "\<forall>c \<in> set k. \<not> is_ascii_ws c" "CHR '':'' \<notin> set text64"
  shows "parse_dictionary (k @ ''=:'' @ text64 @ '':'') = Inr [(k, CHR '':'' # text64 @ '':'')]"
proof -
  have "parse_dictionary (k @ CHR ''='' # CHR '':'' # text64 @ '':'') = Inr [(k, CHR '':'' # text64 @ '':'')]"
  proof (rule parse_dictionary_single)
    show "neutral 0 (k @ CHR ''='' # CHR '':'' # text64 @ '':'')"
      using neutral_append [OF neutral_plain [OF assms(1)]
          neutral_append [OF neutral_plain [OF label_plain(2)] neutral_bytes [OF assms(5)]]] by simp
    show "str_trim (CHR '':'' # text64 @ '':'') = CHR '':'' # text64 @ '':''"
      by (rule str_trim_id) (simp_all add: is_ascii_ws_def)
  qed (use assms in \<open>auto simp: str_trim_no_ws is_ascii_ws_def\<close>)
  then show ?thesis by simp
qed

lemma parse_byte_sequence_text:
  assumes "base64_laws C"
  shows "parse_byte_sequence C (CHR '':'' # cy_b64 C b @ '':'') = Some b"
proof -
  have "str_trim (CHR '':'' # cy_b64 C b @ '':'') = CHR '':'' # cy_b64 C b @ '':''"
    by (rule str_trim_id) (simp_all add: is_ascii_ws_def)
  moreover have "split_once (CHR '':'') (cy_b64 C b @ '':'') = Some (cy_b64 C b, [])"
    using assms split_once_append [of "CHR '':''" "cy_b64 C b" "[]"] by (simp add: base64_laws_def)
  ultimately show ?thesis using assms by (simp add: parse_byte_sequence_def base64_laws_def)
qed

definition fresh :: "i64 \<Rightarrow> i64 \<Rightarrow> i64 option \<Rightarrow> bool" where
  "fresh now created expires \<longleftrightarrow>
     \<bar>now - created\<bar> \<le> MAX_SIGNATURE_SKEW_SECONDS \<and> (\<forall>e. expires = Some e \<longrightarrow> now \<le> e \<and> in_i64 e)"

lemma small_skew: "\<bar>now - created\<bar> \<le> 300 \<Longrightarrow> i64_abs (i64_sub now created) \<le> 300"
proof -
  assume a: "\<bar>now - created\<bar> \<le> 300"
  then have "in_i64 (now - created)" "in_i64 \<bar>now - created\<bar>"
    by (auto simp: in_i64_def i64_min_def i64_max_def)
  with a show ?thesis by (simp add: i64_abs_def i64_sub_def)
qed

lemma base_lines_total: "set names \<subseteq> dom m \<Longrightarrow> \<exists>b. base_lines m names = Inr b"
  by (induction names) auto

lemma sign_message_total:
  "set covered \<subseteq> dom m \<Longrightarrow> \<exists>msg. sign_message_with_params C keys m covered created expires = Inr msg"
  using base_lines_total [of covered m] by (auto simp: sign_message_with_params_def signature_base_def Let_def)

lemma verify_one_signed:
  assumes "crypto_laws C" "usable_key C k" "find (\<lambda>(kid, _). kid = k_kid k) keys = Some (k_kid k, private_public C (k_private k))"
    and "list_all component_ok covered" "kid_ok (k_kid k)" "in_i64 created" "fresh now created expires"
    and "set required \<subseteq> set covered"
    and "signature_base m covered (signature_params_text covered created (k_kid k) expires) = Inr base"
  shows "verify_one C keys m (signature_params_text covered created (k_kid k) expires)
           (Some (CHR '':'' # cy_b64 C (private_sign C (k_private k) base) @ '':'')) required now = Inr (k_kid k)"
proof -
  have b: "base64_laws C" using assms(1) by (simp add: crypto_laws_def)
  have "find (\<lambda>r. r \<notin> set covered) required = None" using assms(8) by (auto simp: find_None_iff)
  moreover have "parse_signature_params (signature_params_text covered created (k_kid k) expires) =
      Inr ((no_params covered)\<lparr>sp_created := Some created, sp_expires := expires, sp_keyid := k_kid k\<rparr>)"
    using assms by (intro parse_params_text) (auto simp: fresh_def)
  moreover have "i64_abs (i64_sub now created) \<le> 300" "\<And>e. expires = Some e \<Longrightarrow> \<not> e < now"
    using assms(7) small_skew by (auto simp: fresh_def MAX_SIGNATURE_SKEW_SECONDS_def)
  ultimately show ?thesis
    using assms(3,9) sign_verifies [OF assms(1,2)] parse_byte_sequence_text [OF b]
    by (cases expires) (simp_all add: verify_one_def no_params_def MAX_SIGNATURE_SKEW_SECONDS_def)
qed

text \<open>
  What a deployment signs, its counterparties can verify with the keys it publishes. When a keyring
  is built from its key material, a counterparty builds its verifying keyring from the JWK set the
  keyring advertises (both algorithms, rotated keys included), and every message the keyring signs over
  a list of components verifies there, under the active key id, for as long as the signature is within
  the clock skew and unexpired, whatever subset of the covered components the verifier requires. The
  key id and the component names must be free of the delimiters of the header's syntax.
\<close>

theorem signed_message_verifies:
  assumes laws: "crypto_laws C"
    and ring: "from_specs C active previous = Inr ring"
    and jwks: "decode json = Inr (public_jwks C ring)"
    and signed: "sign_message_with_params C ring m covered created expires = Inr msg"
    and names: "list_all component_ok covered" "kid_ok (ks_kid active)"
    and clock: "in_i64 created" "fresh now created expires"
    and required: "set required \<subseteq> set covered"
  shows "\<exists>keys. from_jwks C decode json = Inr keys \<and>
           verify_message C keys m (sm_signature_input msg) (sm_signature msg) required now = Inr (ks_kid active)"
proof -
  have ok: "ring_ok C ring" and kid: "k_kid (hd ring) = ks_kid active" using from_specs_ok [OF ring] by auto
  then obtain k ks where k: "ring = k # ks" "usable_key C k" "k_kid k = ks_kid active"
    by (cases ring) (auto simp: ring_ok_def)
  define params where "params = signature_params_text covered created (k_kid k) expires"
  obtain base where base: "signature_base m covered params = Inr base"
    "msg = \<lparr>sm_signature_input = SIGNATURE_LABEL @ CHR ''='' # params,
            sm_signature = SIGNATURE_LABEL @ ''=:'' @ cy_b64 C (private_sign C (k_private k) base) @ '':''\<rparr>"
    using signed k(1) by (auto simp: sign_message_with_params_def res_bind_Inr params_def Let_def)
  have one: "verify_one C (published C ring) m params
      (Some (CHR '':'' # cy_b64 C (private_sign C (k_private k) base) @ '':'')) required now = Inr (k_kid k)"
    unfolding params_def using assms k base(1)
    by (intro verify_one_signed) (simp_all add: published_def params_def)
  have "CHR '':'' \<notin> set (cy_b64 C (private_sign C (k_private k) base))"
    using laws by (simp add: crypto_laws_def base64_laws_def)
  then have "parse_dictionary (sm_signature msg) = Inr [(SIGNATURE_LABEL, CHR '':'' # cy_b64 C (private_sign C (k_private k) base) @ '':'')]"
    unfolding base(2) signed_message.simps
    by (intro parse_byte_member label_plain) (simp_all add: SIGNATURE_LABEL_def is_ascii_ws_def)
  moreover have "parse_dictionary (sm_signature_input msg) = Inr [(SIGNATURE_LABEL, params)]"
    unfolding base(2) params_def signed_message.simps using names k(3)
    by (intro parse_signature_input) (auto simp: component_ok_def kid_ok_def list_all_iff)
  ultimately have "verify_message C (published C ring) m (sm_signature_input msg) (sm_signature msg) required now = Inr (k_kid k)"
    using one by (simp add: verify_message_def)
  then show ?thesis using from_jwks_published [OF laws ok, where decode = decode, OF jwks] k(3) by auto
qed

section \<open>A concrete instance of the primitives\<close>

text \<open>
  Stand-ins that satisfy the laws, to run the definitions on: bytes are encoded as two letters, a
  signature is the first 64 bytes of key and payload, and a key is its own public half.
\<close>

fun letters :: "bytes \<Rightarrow> string" where
  "letters [] = []"
| "letters (c # cs) = char_of (97 + of_char c div 16 :: nat) # char_of (97 + of_char c mod 16 :: nat) # letters cs"

fun unletters :: "string \<Rightarrow> bytes option" where
  "unletters [] = Some []"
| "unletters [c] = None"
| "unletters (h # l # cs) =
     (if 97 \<le> (of_char h :: nat) \<and> 97 \<le> (of_char l :: nat)
      then map_option (\<lambda>bs. char_of ((of_char h - 97) * 16 + (of_char l - 97) :: nat) # bs) (unletters cs) else None)"

definition sample_sign :: "bytes \<Rightarrow> bytes \<Rightarrow> bytes" where
  "sample_sign k payload = take 64 (k @ payload @ replicate 64 (CHR 0x00))"

definition sample_crypto :: crypto where
  "sample_crypto =
     \<lparr>cy_ed_verifying_key = (\<lambda>seed. seed), cy_ed_sign = sample_sign,
      cy_ed_verify = (\<lambda>key payload sig. sig = sample_sign key payload), cy_ed_from_bytes = Inr,
      cy_p_from_slice = (\<lambda>raw. if length raw = 32 then Inr raw else Inl ''length''), cy_p_verifying_key = (\<lambda>k. k),
      cy_p_sign = sample_sign, cy_p_signature = (\<lambda>sig. if length sig = 64 then Some sig else None),
      cy_p_verify = (\<lambda>key payload sig. sig = sample_sign key payload),
      cy_p_x = (\<lambda>k. Some (take 16 k)), cy_p_y = (\<lambda>k. Some (drop 16 k)),
      cy_p_from_sec1 = (\<lambda>bs. Inr (tl bs)), cy_sha256 = (\<lambda>b. b),
      cy_b64 = letters, cy_b64_decode = unletters, cy_b64url = letters, cy_b64url_decode = unletters\<rparr>"

lemma nibbles:
  "(97 + of_char c div 16) mod 256 = (97 + of_char c div 16 :: nat)"
  "(97 + of_char c mod 16) mod 256 = (97 + of_char c mod 16 :: nat)"
proof -
  have "of_char c < (256 :: nat)" by simp
  then have "of_char c div 16 < (16 :: nat)" by (intro less_mult_imp_div_less) simp
  then show "(97 + of_char c div 16) mod 256 = (97 + of_char c div 16 :: nat)"
    "(97 + of_char c mod 16) mod 256 = (97 + of_char c mod 16 :: nat)"
    by simp_all
qed

lemma unletters_letters: "unletters (letters b) = Some b"
  by (induction b) (simp_all add: nibbles)

lemma letters_alphabet: "x \<in> set (letters b) \<Longrightarrow> 97 \<le> (of_char x :: nat)"
  by (induction b) (auto simp: nibbles)

lemma letters_clean:
  "CHR '':'' \<notin> set (letters b)" "c \<in> set (letters b) \<Longrightarrow> \<not> is_ascii_ws c \<and> c \<noteq> CHR ''=''"
  using letters_alphabet [of "CHR '':''" b] letters_alphabet [of c b] by (auto simp: is_ascii_ws_def)

lemma letters_printable: "printable (letters b)"
proof (induction b)
  case (Cons c b)
  have "of_char c < (256 :: nat)" by simp
  then have "of_char c div 16 < (16 :: nat)" by (intro less_mult_imp_div_less) simp
  with Cons show ?case by (simp add: printable_def nibbles)
qed (simp add: printable_def)

lemma letters_ne: "b \<noteq> [] \<Longrightarrow> letters b \<noteq> []"
  by (cases b) simp_all

lemma sample_laws: "crypto_laws sample_crypto"
proof -
  have "base64_laws sample_crypto"
    using letters_clean letters_printable by (simp add: base64_laws_def sample_crypto_def unletters_letters letters_ne)
  moreover have "ed25519_laws sample_crypto"
    by (auto simp: ed25519_laws_def sample_crypto_def sample_sign_def)
  moreover have "p256_laws sample_crypto"
    by (auto simp: p256_laws_def sample_crypto_def sample_sign_def)
  ultimately show ?thesis by (simp add: crypto_laws_def)
qed

definition sample_spec :: key_spec where
  "sample_spec = \<lparr>ks_kid = ''key-2'', ks_algorithm = Es256, ks_secret = letters (replicate 32 (CHR ''s''))\<rparr>"

definition sample_old_spec :: key_spec where
  "sample_old_spec = \<lparr>ks_kid = ''key-1'', ks_algorithm = EdDsa, ks_secret = letters (replicate 32 (CHR ''o''))\<rparr>"

definition sample_ring :: signing_keyring where
  "sample_ring = [\<lparr>k_kid = ''key-2'', k_private = P256_private (replicate 32 (CHR ''s''))\<rparr>,
                  \<lparr>k_kid = ''key-1'', k_private = Ed25519_private (replicate 32 (CHR ''o''))\<rparr>]"

definition sample_components :: message_components where
  "sample_components = components_insert ''@status'' ''200'' (components_insert ''Content-Type'' '' application/json'' Map.empty)"

lemma sample_components_eq:
  "sample_components = [''content-type'' \<mapsto> ''application/json'', ''@status'' \<mapsto> ''200'']"
proof -
  have "map ascii_lower ''@status'' = ''@status''" "map ascii_lower ''Content-Type'' = ''content-type''"
    "str_trim ''200'' = ''200''" "str_trim '' application/json'' = ''application/json''"
    by code_simp+
  then show ?thesis by (simp only: sample_components_def components_insert_def)
qed

lemma sample_specs_ring: "from_specs sample_crypto sample_spec [sample_old_spec] = Inr sample_ring"
proof -
  have d: "decode_base64 sample_crypto (letters b) = Some b" if "b \<noteq> []" for b
    using decode_base64_url [of sample_crypto b] that sample_laws by (simp add: crypto_laws_def sample_crypto_def)
  have f: "cy_p_from_slice sample_crypto (replicate 32 c) = Inr (replicate 32 c)" for c
    by (simp add: sample_crypto_def)
  show ?thesis
    by (simp add: from_specs_def build_key_def d f sample_spec_def sample_old_spec_def sample_ring_def
        str_trim_def is_ascii_ws_def)
qed

theorem signed_message_verifies_witness:
  "\<exists>msg keys. sign_message_with_params sample_crypto sample_ring sample_components [''@status'', ''content-type''] 1700000000 (Some 1700000060) = Inr msg \<and>
     from_jwks sample_crypto (\<lambda>_. Inr (public_jwks sample_crypto sample_ring)) ''{}'' = Inr keys \<and>
     verify_message sample_crypto keys sample_components (sm_signature_input msg) (sm_signature msg) [''@status''] 1700000042
       = Inr ''key-2''"
proof -
  let ?covered = "[''@status'', ''content-type'']"
  have "set ?covered \<subseteq> dom sample_components" by (simp add: sample_components_eq)
  then obtain msg where "sign_message_with_params sample_crypto sample_ring sample_components ?covered 1700000000 (Some 1700000060) = Inr msg"
    using sign_message_total by blast
  with signed_message_verifies [OF sample_laws sample_specs_ring, of "\<lambda>_. Inr (public_jwks sample_crypto sample_ring)" "''{}''"
      sample_components ?covered 1700000000 "Some 1700000060" msg 1700000042 "[''@status'']"]
  show ?thesis
    by (simp add: component_ok_def string_safe_def kid_ok_def is_ascii_ws_def fresh_def in_i64_def i64_min_def
        i64_max_def MAX_SIGNATURE_SKEW_SECONDS_def sample_spec_def)
qed

end
