(* ===== verification/Signing_Safety.thy ===== *)
theory Signing_Safety
  imports Signing_Facts
begin

text \<open>
  What the acceptance of an inbound signature guarantees, and the exact reach of the freshness check.
\<close>

section \<open>Acceptance\<close>

definition sound_signature ::
  "crypto \<Rightarrow> verifying_keyring \<Rightarrow> message_components \<Rightarrow> string list \<Rightarrow> i64 \<Rightarrow> string \<Rightarrow> string option \<Rightarrow> string \<Rightarrow> bool" where
  "sound_signature C keys m required now raw signature kid \<longleftrightarrow>
     (\<exists>params key sig base.
        parse_signature_params raw = Inr params \<and> sp_keyid params = kid \<and>
        set required \<subseteq> set (sp_covered params) \<and>
        (\<forall>created. sp_created params = Some created \<longrightarrow> i64_abs (i64_sub now created) \<le> MAX_SIGNATURE_SKEW_SECONDS) \<and>
        (\<forall>expires. sp_expires params = Some expires \<longrightarrow> now \<le> expires) \<and>
        find (\<lambda>(k, _). k = kid) keys = Some (kid, key) \<and>
        (\<forall>alg. sp_alg params = Some alg \<longrightarrow> alg = http_signature_name (public_algorithm key)) \<and>
        Option.bind signature (parse_byte_sequence C) = Some sig \<and>
        signature_base m (sp_covered params) raw = Inr base \<and>
        public_verify C key base sig)"

lemma guard_coverage:
  "(case find (\<lambda>r. r \<notin> S) required of Some x \<Rightarrow> Inl (g x) | None \<Rightarrow> r) = Inr k \<longleftrightarrow> set required \<subseteq> S \<and> r = Inr k"
  by (induction required) auto

lemma guard_created:
  "(case c of None \<Rightarrow> Inr () | Some created \<Rightarrow>
      let skew = i64_sub now created in if i64_abs skew > b then Inl (SigStale skew) else Inr ()) = Inr u \<longleftrightarrow>
     (\<forall>created. c = Some created \<longrightarrow> i64_abs (i64_sub now created) \<le> b)"
  by (cases c) (auto simp: Let_def)

lemma guard_expires:
  "(if (case e of None \<Rightarrow> False | Some x \<Rightarrow> x < (now :: i64)) then Inl err else r) = Inr k \<longleftrightarrow>
     (\<forall>x. e = Some x \<longrightarrow> now \<le> x) \<and> r = Inr k"
  by (cases e) auto

lemma guard_alg:
  "(case (case a of None \<Rightarrow> None | Some alg \<Rightarrow> if alg \<noteq> n then Some alg else None) of
      Some x \<Rightarrow> Inl (g x) | None \<Rightarrow> r) = Inr k \<longleftrightarrow> (\<forall>alg. a = Some alg \<longrightarrow> alg = n) \<and> r = Inr k"
  by (cases a) auto

lemma guard_key:
  "map_option snd (find (\<lambda>(k, _). k = kid) keys) = Some key \<longleftrightarrow> find (\<lambda>(k, _). k = kid) keys = Some (kid, key)"
  by (induction keys) auto

lemma verify_one_Inr:
  "verify_one C keys m raw signature required now = Inr kid \<longleftrightarrow>
     sound_signature C keys m required now raw signature kid"
proof -
  have verdict: "(if b then Inr x else Inl e) = Inr y \<longleftrightarrow> b \<and> x = y" for b and x y :: string and e :: signature_error
    by auto
  show ?thesis
    unfolding verify_one_def sound_signature_def res_bind_Inr ok_or_Inr guard_coverage guard_created guard_expires
      guard_alg guard_key verdict
    by blast
qed

lemma find_key_mem: "find (\<lambda>(k, _). k = kid) keys = Some (kid, key) \<Longrightarrow> (kid, key) \<in> set keys"
  by (induction keys) (auto split: if_splits)

lemma sound_signature_kid:
  assumes "sound_signature C keys m required now raw signature kid"
  shows "kid \<in> set (kids keys)"
proof -
  obtain key where "find (\<lambda>(k, _). k = kid) keys = Some (kid, key)" using assms unfolding sound_signature_def by blast
  from find_key_mem [OF this] show ?thesis by (force simp: kids_def)
qed

definition labelled :: "(string \<times> string) list \<Rightarrow> string \<Rightarrow> string option" where
  "labelled signatures label = map_option snd (find (\<lambda>(name, _). name = label) signatures)"

lemma verify_loop_sound:
  assumes "verify_loop C keys m signatures required now err inputs = Inr kid"
  shows "\<exists>label raw. (label, raw) \<in> set inputs \<and> sound_signature C keys m required now raw (labelled signatures label) kid"
  using assms
proof (induction inputs arbitrary: err)
  case (Cons i inputs)
  obtain label raw where i: "i = (label, raw)" by fastforce
  show ?case
  proof (cases "verify_one C keys m raw (labelled signatures label) required now")
    case (Inl e)
    with Cons.prems i obtain err' where "verify_loop C keys m signatures required now err' inputs = Inr kid"
      by (auto simp: labelled_def)
    from Cons.IH [OF this] show ?thesis by auto
  next
    case (Inr k)
    with Cons.prems i show ?thesis by (auto simp: verify_one_Inr [symmetric] labelled_def)
  qed
qed simp

lemma verify_loop_complete:
  assumes "(label, raw) \<in> set inputs" "sound_signature C keys m required now raw (labelled signatures label) kid"
  shows "\<exists>kid'. verify_loop C keys m signatures required now err inputs = Inr kid'"
  using assms
proof (induction inputs arbitrary: err)
  case (Cons i inputs)
  obtain l r where i: "i = (l, r)" by fastforce
  show ?case
  proof (cases "verify_one C keys m r (labelled signatures l) required now")
    case (Inl e)
    with Cons.prems i have "(label, raw) \<in> set inputs" by (auto simp: verify_one_Inr [symmetric])
    from Cons.IH [OF this Cons.prems(2)] Inl i show ?thesis by (simp add: labelled_def)
  next
    case (Inr k)
    with i show ?thesis by (simp add: labelled_def)
  qed
qed simp

text \<open>Once an error is remembered, it is the one returned when nothing later verifies.\<close>

lemma verify_loop_first_error:
  "verify_loop C keys m signatures required now (Some e) inputs = Inl e' \<Longrightarrow> e' = e"
  by (induction inputs) (auto split: sum.splits)

lemma verify_message_sound:
  assumes "verify_message C keys m input signature required now = Inr kid"
  shows "\<exists>inputs signatures label raw. parse_dictionary input = Inr inputs \<and> parse_dictionary signature = Inr signatures \<and>
           (label, raw) \<in> set inputs \<and> sound_signature C keys m required now raw (labelled signatures label) kid"
  using assms verify_loop_sound by (fastforce simp: verify_message_def res_bind_Inr split: if_splits)

lemma verify_message_complete:
  assumes "parse_dictionary input = Inr inputs" "parse_dictionary signature = Inr signatures" "(label, raw) \<in> set inputs"
    and "sound_signature C keys m required now raw (labelled signatures label) kid"
  shows "\<exists>kid'. verify_message C keys m input signature required now = Inr kid'"
proof -
  have "inputs \<noteq> []" "signatures \<noteq> []" using assms(3,4) by (auto simp: sound_signature_def labelled_def)
  then show ?thesis using assms(1,2) verify_loop_complete [OF assms(3,4)] by (simp add: verify_message_def)
qed

lemma sound_signature_mono:
  assumes "sound_signature C keys m required now raw sig kid" "set required' \<subseteq> set required"
  shows "sound_signature C keys m required' now raw sig kid"
  using assms unfolding sound_signature_def by (elim exE conjE, intro exI conjI) auto

lemma verify_message_mono:
  assumes "verify_message C keys m input signature required now = Inr kid" "set required' \<subseteq> set required"
  shows "\<exists>kid'. verify_message C keys m input signature required' now = Inr kid'"
  using verify_message_sound [OF assms(1)] verify_message_complete sound_signature_mono [OF _ assms(2)] by metis

section \<open>The signature base determines what it covers\<close>

text \<open>
  Components as HTTP delivers them: no name contains a quote or is that of the parameter line, and no
  value contains a line break.
\<close>

definition plain_message :: "message_components \<Rightarrow> bool" where
  "plain_message m \<longleftrightarrow>
     (\<forall>name value. m name = Some value \<longrightarrow> quote \<notin> set name \<and> newline \<notin> set value \<and> name \<noteq> ''@signature-params'')"

lemma base_lines_Cons:
  assumes "base_lines m (n # ns) = Inr ls"
  obtains v l where "m n = Some v" "ls = quote # n @ quote # '': '' @ v @ newline # l" "base_lines m ns = Inr l"
  using assms by (auto simp: res_bind_Inr split: option.splits)

lemma base_lines_inject:
  assumes "base_lines m names = Inr ls" "base_lines m' names' = Inr ls'" "plain_message m" "plain_message m'"
    and "p = ''@signature-params''" "ls @ quote # p @ quote # rest = ls' @ quote # p @ quote # rest'"
  shows "names = names' \<and> (\<forall>c \<in> set names. m c = m' c) \<and> rest = rest'"
proof -
  have p: "quote \<notin> set p" using assms(5) by simp
  have ok: "quote \<notin> set n \<and> newline \<notin> set v \<and> n \<noteq> p" if "m n = Some v \<or> m' n = Some v" for n v
    using that assms(3-5) unfolding plain_message_def by blast
  show ?thesis
    using assms(1,2,6)
  proof (induction names arbitrary: ls names' ls')
    case Nil
    show ?case
    proof (cases names')
      case Nil2: Nil
      with Nil show ?thesis by simp
    next
      case (Cons n ns)
      then obtain v l where v: "m' n = Some v" "ls' = quote # n @ quote # '': '' @ v @ newline # l"
        using Nil.prems(2) base_lines_Cons by metis
      with Nil.prems have "p @ quote # rest = n @ quote # ('': '' @ v @ newline # l @ quote # p @ quote # rest')" by simp
      with sep_append_inject [OF p] ok [of n v] v(1) show ?thesis by blast
    qed
  next
    case (Cons n ns)
    obtain v l where v: "m n = Some v" "ls = quote # n @ quote # '': '' @ v @ newline # l" "base_lines m ns = Inr l"
      using Cons.prems(1) base_lines_Cons by metis
    show ?case
    proof (cases names')
      case Nil
      with Cons.prems v have "n @ quote # ('': '' @ v @ newline # l @ quote # p @ quote # rest) = p @ quote # rest'" by simp
      with sep_append_inject [OF _ p] ok [of n v] v(1) show ?thesis by blast
    next
      case (Cons n' ns')
      then obtain v' l' where v': "m' n' = Some v'" "ls' = quote # n' @ quote # '': '' @ v' @ newline # l'"
        "base_lines m' ns' = Inr l'"
        using Cons.prems(2) base_lines_Cons by metis
      have q: "quote \<notin> set n" "quote \<notin> set n'" and nl: "newline \<notin> set v" "newline \<notin> set v'"
        using ok [of n v] ok [of n' v'] v(1) v'(1) by simp_all
      have eq: "n @ quote # ('': '' @ v @ newline # l @ quote # p @ quote # rest) =
          n' @ quote # ('': '' @ v' @ newline # l' @ quote # p @ quote # rest')"
        using Cons.prems(3) v(2) v'(2) by simp
      have n: "n = n'" using sep_append_inject [OF q eq] by (rule conjunct1)
      have "v @ newline # (l @ quote # p @ quote # rest) = v' @ newline # (l' @ quote # p @ quote # rest')"
        using conjunct2 [OF sep_append_inject [OF q eq]] by simp
      from sep_append_inject [OF nl this] have "v = v'" "l @ quote # p @ quote # rest = l' @ quote # p @ quote # rest'"
        by (rule conjunct1, rule conjunct2)
      with n v v' Cons Cons.IH [OF v(3) v'(3)] show ?thesis by simp
    qed
  qed
qed

lemma base_lines_dom: "base_lines m names = Inr ls \<Longrightarrow> c \<in> set names \<Longrightarrow> m c \<noteq> None"
  by (induction names arbitrary: ls) (auto simp: res_bind_Inr split: option.splits)

lemma signature_base_inject:
  assumes "signature_base m covered params = Inr base" "signature_base m' covered' params' = Inr base"
    and "plain_message m" "plain_message m'"
  shows "covered = covered' \<and> params = params' \<and> (\<forall>c \<in> set covered. m c = m' c)"
proof -
  obtain l l' where "base_lines m covered = Inr l" "base_lines m' covered' = Inr l'"
    "l @ quote # ''@signature-params'' @ quote # ('': '' @ params) =
     l' @ quote # ''@signature-params'' @ quote # ('': '' @ params')"
    using assms(1,2) by (auto simp: signature_base_def res_bind_Inr)
  from base_lines_inject [OF this(1,2) assms(3,4) refl this(3)] show ?thesis by simp
qed

section \<open>Authenticity\<close>

text \<open>
  What unforgeability gives: whatever verifies under the key published as \<open>kid\<close> is the signature base of a
  message its holder signed.
\<close>

definition unforgeable :: "crypto \<Rightarrow> verifying_keyring \<Rightarrow> string \<Rightarrow> message_components set \<Rightarrow> bool" where
  "unforgeable C keys kid honest \<longleftrightarrow>
     (\<forall>key base sig. (kid, key) \<in> set keys \<longrightarrow> public_verify C key base sig \<longrightarrow>
        (\<exists>m covered params. m \<in> honest \<and> plain_message m \<and> signature_base m covered params = Inr base))"

lemma verified_agrees:
  assumes "verify_message C keys m input signature required now = Inr kid"
    and "unforgeable C keys kid honest" "plain_message m"
  shows "\<exists>m' \<in> honest. \<forall>c \<in> set required. m c = m' c \<and> m c \<noteq> None"
proof -
  obtain raw sigs label where "sound_signature C keys m required now raw (labelled sigs label) kid"
    using verify_message_sound [OF assms(1)] by blast
  then obtain params :: signature_params and key sig base where
    req: "set required \<subseteq> set (sp_covered params)" and k: "find (\<lambda>(k, _). k = kid) keys = Some (kid, key)"
    and base: "signature_base m (sp_covered params) raw = Inr base" and v: "public_verify C key base sig"
    unfolding sound_signature_def by auto
  have "(kid, key) \<in> set keys" by (rule find_key_mem [OF k])
  with assms(2) v obtain m' covered' params' where
    m': "m' \<in> honest" "plain_message m'" "signature_base m' covered' params' = Inr base"
    unfolding unforgeable_def by blast
  have "\<forall>c \<in> set (sp_covered params). m c \<noteq> None"
    using base base_lines_dom by (auto simp: signature_base_def res_bind_Inr)
  with signature_base_inject [OF base m'(3) assms(3) m'(2)] req m'(1) show ?thesis by blast
qed

section \<open>The freshness check\<close>

lemma wrap64_minus: "wrap64 (x - 18446744073709551616) = wrap64 x"
proof -
  have "(x - 18446744073709551616 + 9223372036854775808) mod 18446744073709551616
      = (x + 9223372036854775808 - 18446744073709551616) mod 18446744073709551616"
    by (simp add: algebra_simps)
  also have "\<dots> = (x + 9223372036854775808) mod 18446744073709551616" by (rule minus_mod_self2)
  finally show ?thesis by (simp add: wrap64_def)
qed

text \<open>
  The difference of the clock and the timestamp is computed in wrapping 64-bit arithmetic, and so is its absolute
  value; the least 64-bit integer is its own absolute value.
\<close>

definition fresh_timestamp :: "i64 \<Rightarrow> i64 \<Rightarrow> bool" where
  "fresh_timestamp now created \<longleftrightarrow> \<bar>now - created\<bar> \<le> 300 \<or> created = now - 2 ^ 63"

lemma skew_wraps:
  assumes "0 \<le> now" "now < 2 ^ 62" "in_i64 created"
  shows "i64_abs (i64_sub now created) \<le> MAX_SIGNATURE_SKEW_SECONDS \<longleftrightarrow>
           \<bar>now - created\<bar> \<le> 300 \<or> created = now - 2 ^ 63"
proof -
  have c: "- 9223372036854775808 \<le> created" "created \<le> 9223372036854775807"
    using assms(3) by (auto simp: in_i64_def i64_min_def i64_max_def)
  have n: "now < 4611686018427387904" using assms(2) by simp
  have w: "wrap64 x = (if x > 9223372036854775807 then x - 18446744073709551616 else x)"
    if "- 9223372036854775808 \<le> x" "x < 18446744073709551616" for x
    using that wrap64_id [of x] wrap64_id [of "x - 18446744073709551616"] wrap64_minus [of x]
    by (auto simp: in_i64_def i64_min_def i64_max_def)
  let ?d = "now - created"
  consider "?d < 9223372036854775808" | "?d = 9223372036854775808" | "9223372036854775808 < ?d" by linarith
  then show ?thesis
  proof cases
    case 1
    then have "i64_sub now created = ?d" "i64_abs ?d = \<bar>?d\<bar>"
      using assms(1) c n by (simp_all add: i64_sub_def i64_abs_def w)
    with 1 show ?thesis by (simp add: MAX_SIGNATURE_SKEW_SECONDS_def)
  next
    case 2
    then have "i64_sub now created = - 9223372036854775808" by (simp add: i64_sub_def w)
    moreover have "i64_abs (- 9223372036854775808) = - 9223372036854775808" by (simp add: i64_abs_def w)
    ultimately show ?thesis using 2 by (simp add: MAX_SIGNATURE_SKEW_SECONDS_def)
  next
    case 3
    then have "i64_sub now created = ?d - 18446744073709551616" using c n by (simp add: i64_sub_def w)
    moreover have "i64_abs (?d - 18446744073709551616) = 18446744073709551616 - ?d"
      using 3 c n by (simp add: i64_abs_def w)
    ultimately show ?thesis using 3 c n by (simp add: MAX_SIGNATURE_SKEW_SECONDS_def)
  qed
qed

text \<open>A timestamp that was read is a 64-bit integer.\<close>

definition created_in_i64 :: "signature_params \<Rightarrow> bool" where
  "created_in_i64 p \<longleftrightarrow> (\<forall>created. sp_created p = Some created \<longrightarrow> in_i64 created)"

lemma parse_i64_in: "parse_i64 s = Some n \<Longrightarrow> in_i64 n"
  by (auto simp: parse_i64_def Let_def split: list.splits if_splits)

lemma parse_param_created:
  "parse_param p s = Inr q \<Longrightarrow> created_in_i64 p \<Longrightarrow> created_in_i64 q"
  by (auto simp: parse_param_def Let_def res_bind_Inr ok_or_Inr created_in_i64_def parse_i64_in
      split: option.splits prod.splits if_splits)

lemma parse_params_created:
  "parse_params p ss = Inr q \<Longrightarrow> created_in_i64 p \<Longrightarrow> created_in_i64 q"
  by (induction ss arbitrary: p) (auto simp: res_bind_Inr intro: parse_param_created)

lemma parsed_created:
  assumes "parse_signature_params raw = Inr params" "sp_created params = Some created"
  shows "in_i64 created"
proof -
  obtain covered ps where "parse_params \<lparr>sp_covered = covered, sp_created = None, sp_expires = None, sp_keyid = [], sp_alg = None\<rparr>
      ps = Inr params"
    using assms(1) by (auto simp: parse_signature_params_def res_bind_Inr split: if_splits)
  then have "created_in_i64 params" by (rule parse_params_created) (simp add: created_in_i64_def)
  with assms(2) show ?thesis by (simp add: created_in_i64_def)
qed

lemma base_lines_not_stale: "base_lines m names \<noteq> Inl (SigStale skew)"
  by (induction names) (auto simp: res_bind_def split: option.splits sum.splits)

lemma signature_base_not_stale: "signature_base m covered params \<noteq> Inl (SigStale skew)"
  using base_lines_not_stale by (auto simp: signature_base_def res_bind_def split: sum.splits)

lemma covered_all: "set required \<subseteq> S \<Longrightarrow> find (\<lambda>r. r \<notin> S) required = None"
  by (auto simp: find_None_iff)

text \<open>
  C40: the exact reach of the freshness check. A signature that covers what is required and carries a timestamp
  is refused as stale if and only if its timestamp is neither within 300 seconds of the clock nor \<open>now - 2^63\<close>:
  the check subtracts in wrapping 64-bit arithmetic, and the difference to that one timestamp is the
  least integer, which is its own absolute value. It holds for every clock between 0 and \<open>2^62\<close>, any
  keys, message and signature, and no other check is reported as staleness; so whatever is accepted has a
  timestamp the check lets through.
\<close>

theorem skew_check_exact:
  assumes "0 \<le> now" "now < 2 ^ 62"
    and "parse_signature_params raw = Inr params" "set required \<subseteq> set (sp_covered params)" "sp_created params = Some created"
  shows "((\<exists>skew. verify_one C keys m raw signature required now = Inl (SigStale skew)) \<longleftrightarrow>
            \<not> (\<bar>now - created\<bar> \<le> 300 \<or> created = now - 2 ^ 63)) \<and>
         (verify_one C keys m raw signature required now = Inr kid \<longrightarrow>
            \<bar>now - created\<bar> \<le> 300 \<or> created = now - 2 ^ 63)"
proof (cases "fresh_timestamp now created")
  case True
  then have "i64_abs (i64_sub now created) \<le> MAX_SIGNATURE_SKEW_SECONDS"
    using skew_wraps [OF assms(1,2) parsed_created [OF assms(3,5)]] by (simp add: fresh_timestamp_def)
  then have "verify_one C keys m raw signature required now \<noteq> Inl (SigStale skew)" for skew
    using signature_base_not_stale [of m "sp_covered params" raw skew]
    by (auto simp: verify_one_def assms(3,5) covered_all [OF assms(4)] Let_def res_bind_def ok_or_def
        split: option.splits sum.splits)
  with True show ?thesis by (simp add: fresh_timestamp_def)
next
  case False
  then have "\<not> i64_abs (i64_sub now created) \<le> MAX_SIGNATURE_SKEW_SECONDS"
    using skew_wraps [OF assms(1,2) parsed_created [OF assms(3,5)]] by (simp add: fresh_timestamp_def)
  then have "verify_one C keys m raw signature required now = Inl (SigStale (i64_sub now created))"
    by (simp add: verify_one_def assms(3,5) covered_all [OF assms(4)] Let_def)
  with False show ?thesis by (simp add: fresh_timestamp_def)
qed

text \<open>A timestamp of twenty minutes ago is stale; one of 292 billion years ago is not, whatever else is wrong with the signature.\<close>

theorem skew_check_exact_witness:
  "(\<exists>skew. verify_one sample_crypto [] Map.empty (signature_params_text [''@method''] (1700000000 - 1200) ''k'' None) None
      [''@method''] 1700000000 = Inl (SigStale skew)) \<and>
   \<not> (\<exists>skew. verify_one sample_crypto [] Map.empty (signature_params_text [''@method''] (1700000000 - 2 ^ 63) ''k'' None) None
      [''@method''] 1700000000 = Inl (SigStale skew))"
proof -
  have ok: "list_all component_ok [''@method'']" "kid_ok ''k''" by code_simp+
  have parsed: "parse_signature_params (signature_params_text [''@method''] c ''k'' None) =
      Inr ((no_params [''@method''])\<lparr>sp_created := Some c, sp_expires := None, sp_keyid := ''k''\<rparr>)" if "in_i64 c" for c
    by (rule parse_params_text [OF ok that]) simp
  have "in_i64 (1700000000 - 1200)" "in_i64 (1700000000 - 2 ^ 63)" by (simp_all add: in_i64_def i64_min_def i64_max_def)
  note stale = skew_check_exact [OF _ _ parsed [OF this(1)], of 1700000000 "[''@method'']"]
    and fresh = skew_check_exact [OF _ _ parsed [OF this(2)], of 1700000000 "[''@method'']"]
  from stale fresh show ?thesis by (simp add: no_params_def)
qed

section \<open>Content digests\<close>

lemma content_digest_roundtrip:
  assumes "base64_laws C"
  shows "verify_content_digest C (content_digest C body) body = Inr ()"
proof -
  have "CHR '':'' \<notin> set (cy_b64 C (cy_sha256 C body))" using assms by (simp add: base64_laws_def)
  then have "parse_dictionary (''sha-256'' @ ''=:'' @ cy_b64 C (cy_sha256 C body) @ '':'') =
      Inr [(''sha-256'', CHR '':'' # cy_b64 C (cy_sha256 C body) @ '':'')]"
    by (intro parse_byte_member) (simp_all add: plain_def is_ascii_ws_def)
  then show ?thesis
    using parse_byte_sequence_text [OF assms] by (simp add: verify_content_digest_def content_digest_def)
qed

end
