(* ===== verification/Http_Signing.thy ===== *)
theory Http_Signing
  imports Signing_Safety
begin

text \<open>
  The signing middleware of the HTTP server (\<open>orchestrator-http/src/signing.rs\<close>): inbound requests under
  \<open>/api/v1\<close> must carry a signature of a known agent key, responses are signed with the active key. The
  functions return the metrics they record with their verdict. Which texts are header values is decided
  by the \<open>http\<close> crate: \<open>hv_from_str\<close> and \<open>hv_to_str\<close> are parameters; header names are in lower case.
\<close>

record header_values =
  hv_from_str :: "string \<Rightarrow> bool"
  hv_to_str :: "string \<Rightarrow> bool"

type_synonym header_map = "(string \<times> string) list"

text \<open>A body is \<open>None\<close> when its stream fails before the end.\<close>

record http_request =
  hq_method :: string
  hq_path :: string
  hq_query :: "string option"
  hq_authority :: "string option"
  hq_headers :: header_map
  hq_body :: "bytes option"

record http_response =
  hp_status :: u16
  hp_headers :: header_map
  hp_body :: "bytes option"

record error_body =
  eb_error :: string
  eb_code :: "string option"

datatype metric = Incr string | Observe string string

datatype verdict = Rejected u16 error_body | Forwarded http_request

definition MAX_SIGNED_BODY_BYTES :: nat where "MAX_SIGNED_BODY_BYTES = 2 * 1024 * 1024"
definition SIGNED_PATH_PREFIX :: string where "SIGNED_PATH_PREFIX = ''/api/v1''"
definition COVER_WHEN_PRESENT :: "string list" where
  "COVER_WHEN_PRESENT = [''ucp-agent'', ''signature-agent'', ''idempotency-key'']"

definition to_bytes :: "bytes option \<Rightarrow> nat \<Rightarrow> bytes option" where
  "to_bytes body limit = (case body of None \<Rightarrow> None | Some b \<Rightarrow> if length b > limit then None else Some b)"

definition header :: "header_values \<Rightarrow> header_map \<Rightarrow> string \<Rightarrow> string option" where
  "header V headers name =
     (let values = map str_trim (filter (hv_to_str V) (map snd (filter (\<lambda>(n, _). n = name) headers)))
      in if values = [] then None else Some (str_join '', '' values))"

definition add_header_components :: "header_values \<Rightarrow> header_map \<Rightarrow> message_components \<Rightarrow> message_components" where
  "add_header_components V headers m =
     fold (\<lambda>name m. case header V headers name of None \<Rightarrow> m | Some value \<Rightarrow> components_insert name value m)
       (remdups (map fst headers)) m"

fun signature_error_display :: "signature_error \<Rightarrow> string" where
  "signature_error_display SigMissing = ''request is missing the Signature-Input or Signature header''"
| "signature_error_display (SigMalformed s) = ''signature header is malformed: '' @ s"
| "signature_error_display (CoverageInsufficient c) =
     ''signature does not cover required component '' @ CHR 0x27 # c @ [CHR 0x27]"
| "signature_error_display (SigStale skew) =
     ''signature created '' @ show_int skew @ ''s away from now, outside the '' @ show_int MAX_SIGNATURE_SKEW_SECONDS @ ''s window''"
| "signature_error_display SigExpired = ''signature has expired''"
| "signature_error_display (KeyNotFound k) = ''no key with keyid '' @ CHR 0x27 # k @ [CHR 0x27]"
| "signature_error_display (AlgorithmUnsupported a) = ''unsupported signature algorithm '' @ CHR 0x27 # a @ [CHR 0x27]"
| "signature_error_display DigestMismatch = ''body does not match the sha-256 Content-Digest''"
| "signature_error_display SigVerificationFailed = ''signature verification failed''"

section \<open>Inbound requests\<close>

definition request_components :: "header_values \<Rightarrow> http_request \<Rightarrow> message_components" where
  "request_components V req =
     (let m = components_insert ''@path'' (hq_path req) (components_insert ''@method'' (hq_method req) Map.empty);
          authority = (case header V (hq_headers req) ''host'' of Some h \<Rightarrow> Some h | None \<Rightarrow> hq_authority req);
          m = (case authority of None \<Rightarrow> m | Some a \<Rightarrow> components_insert ''@authority'' (map ascii_lower a) m);
          m = (case hq_query req of None \<Rightarrow> m | Some query \<Rightarrow> components_insert ''@query'' (CHR ''?'' # query) m)
      in add_header_components V (hq_headers req) m)"

definition required_components :: "message_components \<Rightarrow> http_request \<Rightarrow> bytes \<Rightarrow> string list" where
  "required_components m req body =
     [''@method'', ''@authority'', ''@path'']
     @ (if hq_query req = None then [] else [''@query''])
     @ (if body = [] then [] else [''content-digest'', ''content-type''])
     @ filter (components_contains m) COVER_WHEN_PRESENT"

definition request_verified ::
  "crypto \<Rightarrow> header_values \<Rightarrow> verifying_keyring \<Rightarrow> i64 \<Rightarrow> http_request \<Rightarrow> bytes \<Rightarrow> signature_error + string" where
  "request_verified C V keyring now req body =
     (let m = request_components V req
      in res_bind (ok_or SigMissing (header V (hq_headers req) SIGNATURE_INPUT_HEADER)) (\<lambda>input.
         res_bind (ok_or SigMissing (header V (hq_headers req) SIGNATURE_HEADER)) (\<lambda>signature.
         res_bind (if body = [] then Inr ()
                   else res_bind (ok_or DigestMismatch (header V (hq_headers req) CONTENT_DIGEST_HEADER)) (\<lambda>digest.
                        verify_content_digest C digest body)) (\<lambda>_.
           verify_message C keyring m input signature (required_components m req body) now))))"

definition verify_request_signature ::
  "crypto \<Rightarrow> header_values \<Rightarrow> verifying_keyring option \<Rightarrow> i64 \<Rightarrow> http_request \<Rightarrow> metric list \<times> verdict" where
  "verify_request_signature C V inbound_keys now req =
     (case inbound_keys of
        None \<Rightarrow> ([], Forwarded req)
      | Some keyring \<Rightarrow>
          if \<not> starts_with (hq_path req) SIGNED_PATH_PREFIX then ([], Forwarded req)
          else (case to_bytes (hq_body req) MAX_SIGNED_BODY_BYTES of
            None \<Rightarrow> ([Incr ''ucp_signature_rejected_body_total''],
                Rejected 413 \<lparr>eb_error = ''request body is too large to verify'', eb_code = Some ''SIGNATURE_BODY_TOO_LARGE''\<rparr>)
          | Some body \<Rightarrow>
              (case request_verified C V keyring now req body of
                 Inr kid \<Rightarrow> ([Observe ''ucp_signature_verify'' ''success'', Incr ''ucp_signature_verified_total''],
                     Forwarded (req\<lparr>hq_body := Some body\<rparr>))
               | Inl e \<Rightarrow> ([Observe ''ucp_signature_verify'' ''error'', Incr ''ucp_signature_rejected_total'',
                       Incr (''ucp_signature_rejected_'' @ metric_suffix e @ ''_total'')],
                     Rejected (sig_http_status e) \<lparr>eb_error = signature_error_display e, eb_code = Some (sig_code e)\<rparr>))))"

section \<open>Outbound responses\<close>

text \<open>\<open>HeaderMap::insert\<close> replaces every value of the name.\<close>

definition header_insert :: "string \<Rightarrow> string \<Rightarrow> header_map \<Rightarrow> header_map" where
  "header_insert name value headers = filter (\<lambda>(n, _). n \<noteq> name) headers @ [(name, value)]"

definition response_parts ::
  "crypto \<Rightarrow> header_values \<Rightarrow> http_response \<Rightarrow> bytes \<Rightarrow> header_map \<times> message_components \<times> string list" where
  "response_parts C V response body =
     (let m = components_insert ''@status'' (show_nat (unat (hp_status response))) Map.empty
      in if body = [] then (hp_headers response, m, [''@status''])
         else let digest = content_digest C body;
                  headers = (if hv_from_str V digest then header_insert CONTENT_DIGEST_HEADER digest (hp_headers response)
                             else hp_headers response);
                  m = components_insert CONTENT_DIGEST_HEADER digest m
              in (case header V headers ''content-type'' of
                    None \<Rightarrow> (headers, m, [''@status'', CONTENT_DIGEST_HEADER])
                  | Some content_type \<Rightarrow> (headers, components_insert ''content-type'' content_type m,
                      [''@status'', CONTENT_DIGEST_HEADER, ''content-type''])))"

definition sign_response ::
  "crypto \<Rightarrow> header_values \<Rightarrow> signing_keyring option \<Rightarrow> i64 \<Rightarrow> http_response
     \<Rightarrow> metric list \<times> (u16 \<times> error_body + http_response)" where
  "sign_response C V signing now response =
     (case signing of
        None \<Rightarrow> ([], Inr response)
      | Some keyring \<Rightarrow>
          (case to_bytes (hp_body response) MAX_SIGNED_BODY_BYTES of
             None \<Rightarrow> ([Incr ''ucp_response_sign_error_total''],
                 Inl (500, \<lparr>eb_error = ''Internal server error'', eb_code = Some ''INTERNAL_ERROR''\<rparr>))
           | Some body \<Rightarrow>
               (case response_parts C V response body of (headers, m, covered) \<Rightarrow>
                 (case sign_message C keyring m covered now of
                    Inr signed_msg \<Rightarrow>
                      if hv_from_str V (sm_signature_input signed_msg) \<and> hv_from_str V (sm_signature signed_msg)
                      then ([Incr ''ucp_response_signed_total''],
                            Inr (response\<lparr>hp_headers := header_insert SIGNATURE_HEADER (sm_signature signed_msg)
                                   (header_insert SIGNATURE_INPUT_HEADER (sm_signature_input signed_msg) headers),
                                 hp_body := Some body\<rparr>))
                      else ([Incr ''ucp_response_sign_error_total''], Inr (response\<lparr>hp_headers := headers, hp_body := Some body\<rparr>))
                  | Inl _ \<Rightarrow>
                      ([Incr ''ucp_response_sign_error_total''], Inr (response\<lparr>hp_headers := headers, hp_body := Some body\<rparr>))))))"

section \<open>Acceptance of a request\<close>

lemma verified_request:
  assumes "verify_request_signature C V (Some keyring) now req = (ms, Forwarded req')"
    and "starts_with (hq_path req) SIGNED_PATH_PREFIX"
  shows "\<exists>body kid. hq_body req = Some body \<and> length body \<le> MAX_SIGNED_BODY_BYTES \<and> req' = req \<and>
           request_verified C V keyring now req body = Inr kid"
  using assms by (auto simp: verify_request_signature_def to_bytes_def split: option.splits sum.splits if_splits)

lemma request_verified_Inr:
  "request_verified C V keyring now req body = Inr kid \<longleftrightarrow>
     (\<exists>input signature.
        header V (hq_headers req) SIGNATURE_INPUT_HEADER = Some input \<and>
        header V (hq_headers req) SIGNATURE_HEADER = Some signature \<and>
        (body \<noteq> [] \<longrightarrow> (\<exists>digest. header V (hq_headers req) CONTENT_DIGEST_HEADER = Some digest \<and>
                                  verify_content_digest C digest body = Inr ())) \<and>
        verify_message C keyring (request_components V req) input signature
          (required_components (request_components V req) req body) now = Inr kid)"
  by (auto simp: request_verified_def Let_def res_bind_Inr ok_or_Inr split: if_splits)

definition lower_case_names :: "header_map \<Rightarrow> bool" where
  "lower_case_names headers \<longleftrightarrow> (\<forall>(n, _) \<in> set headers. map ascii_lower n = n)"

lemma header_key: "header V headers name = Some v \<Longrightarrow> name \<in> fst ` set headers"
  by (force simp: header_def Let_def filter_empty_conv split: if_splits)

lemma fold_components:
  assumes "distinct ns" "\<forall>n \<in> set ns. map ascii_lower n = n"
  shows "fold (\<lambda>name m. case h name of None \<Rightarrow> m | Some value \<Rightarrow> components_insert name value m) ns m c =
           (if c \<in> set ns \<and> h c \<noteq> None then map_option str_trim (h c) else m c)"
  using assms
  by (induction ns arbitrary: m) (auto simp: components_insert_def split: option.split)

lemma header_component:
  assumes "lower_case_names headers" "header V headers name = Some v"
  shows "add_header_components V headers m name = Some (str_trim v)"
  using assms header_key [OF assms(2)]
  by (auto simp: add_header_components_def fold_components lower_case_names_def split_beta)

lemma no_header_component:
  assumes "lower_case_names headers" "header V headers name = None"
  shows "add_header_components V headers m name = m name"
  using assms by (auto simp: add_header_components_def fold_components lower_case_names_def split_beta)

text \<open>
  C22: a request the middleware lets through to a handler under \<open>/api/v1\<close> is authentic. It reaches the
  handler unchanged, and some agent key whose holder's signatures cannot be forged signed a message that
  agrees with it on the method, the authority, the path, the query if there is one, on the agent and
  idempotency headers it carries, and, when it has a body, on its content type and digest, and the body
  matches that digest.
\<close>

theorem accepted_request_authentic:
  assumes "verify_request_signature C V (Some keyring) now req = (ms, Forwarded req')"
    and "starts_with (hq_path req) SIGNED_PATH_PREFIX"
    and "\<And>kid. kid \<in> set (kids keyring) \<Longrightarrow> unforgeable C keyring kid (honest kid)"
    and "plain_message (request_components V req)" "lower_case_names (hq_headers req)"
  shows "req' = req \<and> (\<exists>body kid. hq_body req = Some body \<and> kid \<in> set (kids keyring) \<and>
           (\<exists>m \<in> honest kid.
              (\<forall>c \<in> set (required_components (request_components V req) req body).
                 request_components V req c = m c \<and> m c \<noteq> None) \<and>
              (body \<noteq> [] \<longrightarrow> (\<exists>digest. m ''content-digest'' = Some (str_trim digest) \<and>
                                        verify_content_digest C digest body = Inr ()))))"
proof -
  obtain body kid where b: "hq_body req = Some body" "req' = req" "request_verified C V keyring now req body = Inr kid"
    using verified_request [OF assms(1,2)] by blast
  obtain input signature where v: "verify_message C keyring (request_components V req) input signature
      (required_components (request_components V req) req body) now = Inr kid"
    and d: "body \<noteq> [] \<Longrightarrow> \<exists>digest. header V (hq_headers req) CONTENT_DIGEST_HEADER = Some digest \<and>
        verify_content_digest C digest body = Inr ()"
    using b(3) unfolding request_verified_Inr by blast
  have kid: "kid \<in> set (kids keyring)"
    using verify_message_sound [OF v] sound_signature_kid by blast
  obtain m where m: "m \<in> honest kid" "\<forall>c \<in> set (required_components (request_components V req) req body).
      request_components V req c = m c \<and> request_components V req c \<noteq> None"
    using verified_agrees [OF v assms(3) [OF kid] assms(4)] by blast
  have "\<exists>digest. m ''content-digest'' = Some (str_trim digest) \<and> verify_content_digest C digest body = Inr ()"
    if ne: "body \<noteq> []"
  proof -
    obtain digest where digest: "header V (hq_headers req) ''content-digest'' = Some digest"
      "verify_content_digest C digest body = Inr ()"
      using d [OF ne] by (auto simp: CONTENT_DIGEST_HEADER_def)
    have "request_components V req ''content-digest'' = Some (str_trim digest)"
      unfolding request_components_def Let_def by (rule header_component [OF assms(5) digest(1)])
    moreover have "''content-digest'' \<in> set (required_components (request_components V req) req body)"
      using ne by (simp add: required_components_def)
    ultimately have "m ''content-digest'' = Some (str_trim digest)" using m(2) by metis
    with digest(2) show ?thesis by blast
  qed
  moreover have "\<forall>c \<in> set (required_components (request_components V req) req body).
      request_components V req c = m c \<and> m c \<noteq> None"
    using m(2) by metis
  ultimately show ?thesis using b(1,2) kid m(1) by blast
qed

text \<open>
  The digest of an empty body is not checked. Whenever a request with a body is accepted, the same
  request with its body removed in transit is accepted too: the digest its signature covers is compared
  with the body only when there is one.
\<close>

theorem stripped_body_accepted:
  assumes "verify_request_signature C V (Some keyring) now req = (ms, Forwarded req')"
  shows "\<exists>ms'. verify_request_signature C V (Some keyring) now (req\<lparr>hq_body := Some []\<rparr>) =
           (ms', Forwarded (req\<lparr>hq_body := Some []\<rparr>))"
proof (cases "starts_with (hq_path req) SIGNED_PATH_PREFIX")
  case False
  then show ?thesis by (simp add: verify_request_signature_def)
next
  case True
  let ?req = "req\<lparr>hq_body := Some []\<rparr>"
  obtain body kid where "request_verified C V keyring now req body = Inr kid"
    using verified_request [OF assms True] by blast
  then obtain input signature where h: "header V (hq_headers req) SIGNATURE_INPUT_HEADER = Some input"
    "header V (hq_headers req) SIGNATURE_HEADER = Some signature"
    and v: "verify_message C keyring (request_components V req) input signature
      (required_components (request_components V req) req body) now = Inr kid"
    unfolding request_verified_Inr by blast
  have same: "request_components V ?req = request_components V req" by (simp add: request_components_def cong: option.case_cong)
  have "set (required_components (request_components V req) ?req []) \<subseteq> set (required_components (request_components V req) req body)"
    by (auto simp: required_components_def)
  from verify_message_mono [OF v this] obtain kid' where
    "request_verified C V keyring now ?req [] = Inr kid'"
    using h by (auto simp: request_verified_Inr same)
  then show ?thesis using True by (simp add: verify_request_signature_def to_bytes_def)
qed

section \<open>A concrete signed request\<close>

definition gate_covered :: "string list" where
  "gate_covered = [''@method'', ''@authority'', ''@path'', ''content-digest'', ''content-type'']"

definition gate_params :: string where
  "gate_params = (CHR ''('' # str_join '' '' (map (\<lambda>c. quote # c @ [quote]) gate_covered) @ '')'') @ '';keyid='' @ (quote # ''agent'' @ [quote])"

definition gate_headers :: header_map where
  "gate_headers = [(''host'', ''Shop.example''), (''content-digest'', ''sha-256=:aa:''), (''content-type'', ''application/json''),
     (''signature-input'', ''sig1='' @ gate_params), (''signature'', ''sig1=:aa:'')]"

definition gate_request :: http_request where
  "gate_request = \<lparr>hq_method = ''POST'', hq_path = ''/api/v1/carts'', hq_query = None, hq_authority = None,
     hq_headers = gate_headers, hq_body = Some ''{}''\<rparr>"

definition gate_values :: header_values where
  "gate_values = \<lparr>hv_from_str = (\<lambda>_. True), hv_to_str = (\<lambda>_. True)\<rparr>"

definition gate_signed :: message_components where
  "gate_signed = [''@method'' \<mapsto> ''POST'', ''@path'' \<mapsto> ''/api/v1/carts'', ''@authority'' \<mapsto> ''shop.example'',
     ''host'' \<mapsto> ''Shop.example'', ''content-digest'' \<mapsto> ''sha-256=:aa:'', ''content-type'' \<mapsto> ''application/json'',
     ''signature-input'' \<mapsto> ''sig1='' @ gate_params, ''signature'' \<mapsto> ''sig1=:aa:'']"

text \<open>Primitives under which one base verifies, that of the message above.\<close>

definition gate_crypto :: crypto where
  "gate_crypto = sample_crypto\<lparr>
     cy_b64_decode := (\<lambda>_. Some (replicate 64 (CHR ''s''))), cy_sha256 := (\<lambda>_. replicate 64 (CHR ''s'')),
     cy_ed_verify := (\<lambda>_ payload _. signature_base gate_signed gate_covered gate_params = Inr payload)\<rparr>"

definition gate_keys :: verifying_keyring where
  "gate_keys = [(''agent'', Ed25519_public (replicate 32 (CHR ''k'')))]"

lemma gate_input: "parse_dictionary (''sig1'' @ CHR ''='' # gate_params) = Inr [(''sig1'', gate_params)]"
proof (rule parse_dictionary_single)
  have "list_all string_safe gate_covered" "string_safe ''agent''" "list_all plain ''sig1=''" "list_all plain '';keyid=''"
    by code_simp+
  then have "neutral 0 (''sig1='' @ gate_params)"
    unfolding gate_params_def
    by (intro neutral_append neutral_paren neutral_quoted neutral_quoted_list) (simp_all only: neutral_plain)
  then show "neutral 0 (''sig1'' @ CHR ''='' # gate_params)" by simp
  show "str_trim gate_params = gate_params" "\<not> is_ascii_ws (last gate_params)" "gate_params \<noteq> []" by code_simp+
qed (simp_all add: str_trim_def is_ascii_ws_def)

lemma gate_parsed:
  "parse_signature_params gate_params = Inr ((no_params gate_covered)\<lparr>sp_keyid := ''agent''\<rparr>)"
  "parse_dictionary ''sig1=:aa:'' = Inr [(''sig1'', '':aa:'')]"
  "parse_byte_sequence gate_crypto '':aa:'' = Some (replicate 64 (CHR ''s''))"
  "verify_content_digest gate_crypto ''sha-256=:aa:'' ''{}'' = Inr ()"
  "starts_with ''/api/v1/carts'' SIGNED_PATH_PREFIX"
  by code_simp+

lemma gate_sound:
  assumes "set required \<subseteq> set gate_covered"
  shows "sound_signature gate_crypto gate_keys gate_signed required 1700000000 gate_params (Some '':aa:'') ''agent''"
proof -
  have "set gate_covered \<subseteq> dom gate_signed" by (simp add: gate_covered_def gate_signed_def)
  then obtain base where base: "signature_base gate_signed gate_covered gate_params = Inr base"
    using base_lines_total [of gate_covered gate_signed] by (auto simp: signature_base_def)
  then have "public_verify gate_crypto (Ed25519_public (replicate 32 (CHR ''k''))) base (replicate 64 (CHR ''s''))"
    by (simp add: gate_crypto_def)
  with base assms gate_parsed show ?thesis
    unfolding sound_signature_def gate_keys_def
    by (intro exI [of _ "(no_params gate_covered)\<lparr>sp_keyid := ''agent''\<rparr>"] exI [of _ "Ed25519_public (replicate 32 (CHR ''k''))"]
        exI [of _ "replicate 64 (CHR ''s'')"] exI [of _ base]) (simp add: no_params_def)
qed

lemma gate_header:
  "header gate_values gate_headers ''host'' = Some ''Shop.example''"
  "header gate_values gate_headers ''content-digest'' = Some ''sha-256=:aa:''"
  "header gate_values gate_headers ''content-type'' = Some ''application/json''"
  "header gate_values gate_headers ''signature-input'' = Some (''sig1='' @ gate_params)"
  "header gate_values gate_headers ''signature'' = Some ''sig1=:aa:''"
  "remdups (map fst gate_headers) = [''host'', ''content-digest'', ''content-type'', ''signature-input'', ''signature'']"
  by code_simp+

lemma gate_components: "request_components gate_values gate_request = gate_signed"
proof -
  have l: "map ascii_lower s = s" if "s \<in> {''@method'', ''@path'', ''@authority'', ''host'', ''content-digest'', ''content-type'',
      ''signature-input'', ''signature''}" for s
    using that by (elim insertE emptyE; simp only:; code_simp)
  have t: "str_trim s = s" if "s \<in> {''POST'', ''/api/v1/carts'', ''shop.example'', ''Shop.example'', ''sha-256=:aa:'',
      ''application/json'', ''sig1=:aa:'', ''sig1='' @ gate_params}" for s
    using that by (elim insertE emptyE; simp only:; code_simp)
  have a: "map ascii_lower ''Shop.example'' = ''shop.example''" by code_simp
  show ?thesis
    by (simp only: request_components_def add_header_components_def gate_request_def http_request.simps gate_header a l t
        components_insert_def Let_def option.case fold.simps comp_def id_def gate_signed_def insert_iff simp_thms)
qed

lemma gate_request_headers: "hq_headers gate_request = gate_headers"
  by (simp add: gate_request_def)

lemma gate_accepts:
  "\<exists>ms. verify_request_signature gate_crypto gate_values (Some gate_keys) 1700000000 gate_request = (ms, Forwarded gate_request)"
proof -
  have req: "set (required_components gate_signed gate_request ''{}'') \<subseteq> set gate_covered" by code_simp
  have "\<exists>kid. verify_message gate_crypto gate_keys gate_signed (''sig1'' @ CHR ''='' # gate_params) ''sig1=:aa:''
      (required_components gate_signed gate_request ''{}'') 1700000000 = Inr kid"
    using gate_sound [OF req] by (intro verify_message_complete [OF gate_input gate_parsed(2)]) (auto simp: labelled_def)
  then obtain kid where "request_verified gate_crypto gate_values gate_keys 1700000000 gate_request ''{}'' = Inr kid"
    using gate_header gate_parsed(4)
    by (auto simp: request_verified_Inr gate_components SIGNATURE_INPUT_HEADER_def SIGNATURE_HEADER_def
        CONTENT_DIGEST_HEADER_def gate_request_headers)
  then show ?thesis
    using gate_parsed(5)
    by (simp add: verify_request_signature_def to_bytes_def MAX_SIGNED_BODY_BYTES_def gate_request_def)
qed

lemma gate_plain: "plain_message gate_signed"
  by (auto simp: plain_message_def gate_signed_def gate_params_def gate_covered_def split: if_splits)

theorem stripped_body_accepted_witness:
  "\<exists>ms. verify_request_signature gate_crypto gate_values (Some gate_keys) 1700000000 (gate_request\<lparr>hq_body := Some []\<rparr>) =
     (ms, Forwarded (gate_request\<lparr>hq_body := Some []\<rparr>))"
  using gate_accepts stripped_body_accepted by blast

theorem accepted_request_authentic_witness:
  "\<exists>kid m. kid \<in> set (kids gate_keys) \<and> m ''@path'' = request_components gate_values gate_request ''@path'' \<and> m ''@path'' \<noteq> None"
proof -
  obtain ms where acc: "verify_request_signature gate_crypto gate_values (Some gate_keys) 1700000000 gate_request =
      (ms, Forwarded gate_request)"
    using gate_accepts by blast
  have u: "unforgeable gate_crypto gate_keys kid {gate_signed}" for kid
    using gate_plain by (auto simp: unforgeable_def gate_keys_def gate_crypto_def split: if_splits)
  have s: "starts_with (hq_path gate_request) SIGNED_PATH_PREFIX" using gate_parsed(5) by (simp add: gate_request_def)
  have l: "lower_case_names (hq_headers gate_request)" by code_simp
  show ?thesis
    using accepted_request_authentic [OF acc s, of "\<lambda>_. {gate_signed}", OF u, unfolded gate_components, OF gate_plain l]
    by (auto simp: gate_components required_components_def)
qed

end
