(* ===== verification/Http_Routes.thy ===== *)
theory Http_Routes
  imports Acp_Mapping Http_Signing
begin

text \<open>
  The handlers of the HTTP server (\<open>orchestrator-http/src/routes/v1.rs\<close>) behind the bearer
  authentication (\<open>auth.rs\<close>): the UCP and ACP bindings, checkout, payments, orders, webhooks and
  operations. A handler is an operation on the state of the facade that answers with a transfer object
  or an \<open>api_error\<close>; the metrics it counts are left out, as in the facade. The handlers that navigate raw
  JSON are in \<open>A2a_Routes\<close> and \<open>Mcp_Tools\<close>, the registry of payment handlers in \<open>Discovery\<close>.
\<close>

type_synonym 'a hnd = "(world, api_error, 'a) op"

text \<open>
  The parts of \<open>AppState\<close> the handlers read. Building the URL of an embedded checkout belongs to the \<open>url\<close>
  crate: \<open>as_url_with_pairs\<close> parses a base and appends query pairs.
\<close>

record app_state =
  as_facade :: facade
  as_text :: text_env
  as_values :: header_values
  as_authn :: "(string \<Rightarrow> auth_context option) option"
  as_allow_dev_auth :: bool
  as_crypto :: crypto
  as_signing :: "signing_keyring option"
  as_embedded_checkout_url :: "string option"
  as_payment_handlers :: json_object
  as_url_with_pairs :: "string \<Rightarrow> (string \<times> string) list \<Rightarrow> string option"

definition lift_facade :: "'a fac \<Rightarrow> 'a hnd" where
  "lift_facade m = op_map_err Orchestrator m"

definition or_bad_request :: "string + 'a \<Rightarrow> 'a hnd" where
  "or_bad_request x = (case x of Inl m \<Rightarrow> op_fail (BadRequest m) | Inr a \<Rightarrow> op_return a)"

definition header_get :: "header_values \<Rightarrow> header_map \<Rightarrow> string \<Rightarrow> string option" where
  "header_get V headers name =
     (case find (\<lambda>(n, _). n = name) headers of
        None \<Rightarrow> None
      | Some (_, v) \<Rightarrow> if hv_to_str V v then Some v else None)"

section \<open>Authentication\<close>

definition dev_auth_context :: auth_context where
  "dev_auth_context = \<lparr>ac_caller_id = ''dev'', ac_tenant_id = ''dev'', ac_scopes = [''checkout:execute'']\<rparr>"

definition bearer_token :: "header_values \<Rightarrow> header_map \<Rightarrow> string option" where
  "bearer_token V headers =
     Option.bind (header_get V headers ''authorization'') (\<lambda>s.
       map_option str_trim (strip_prefix ''Bearer '' (str_trim s)))"

definition authenticate :: "app_state \<Rightarrow> header_map \<Rightarrow> api_error + auth_context" where
  "authenticate st headers =
     (case as_authn st of
        None \<Rightarrow> if as_allow_dev_auth st then Inr dev_auth_context else Inl Unauthorized
      | Some resolve \<Rightarrow>
          res_bind (ok_or Unauthorized (bearer_token (as_values st) headers)) (\<lambda>token.
          ok_or Unauthorized (resolve token)))"

text \<open>\<open>StaticTokenAuthnResolver\<close>\<close>

definition static_token_resolver :: "string \<Rightarrow> string \<Rightarrow> string \<Rightarrow> string \<Rightarrow> auth_context option" where
  "static_token_resolver token tenant_id caller_id given =
     (if given = token
      then Some \<lparr>ac_caller_id = caller_id, ac_tenant_id = tenant_id, ac_scopes = [''checkout:execute'']\<rparr>
      else None)"

section \<open>Carts\<close>

definition cart_call :: "app_state \<Rightarrow> auth_context \<Rightarrow> cart_command \<Rightarrow> cart_id option \<Rightarrow> cart_projection hnd" where
  "cart_call st auth cmd cart_id =
     lift_facade (dispatch_cart_command_for_tenant (as_facade st) (ac_tenant_id auth) cmd cart_id)"

definition h_dispatch_cart_command :: "app_state \<Rightarrow> auth_context \<Rightarrow> cart_command_request \<Rightarrow> cart_projection_dto hnd" where
  "h_dispatch_cart_command st auth req =
     op_bind (or_bad_request (cart_command_from_dto (as_text st) (cq_command req))) (\<lambda>cmd.
     op_bind (case cq_cart_id req of
                None \<Rightarrow> op_return None
              | Some s \<Rightarrow> op_bind (or_bad_request (parse_cart_id (as_text st) s)) (\<lambda>c. op_return (Some c))) (\<lambda>cart_id.
     op_bind (cart_call st auth cmd cart_id) (\<lambda>projection.
     op_return (cart_to_dto (as_text st) projection))))"

text \<open>\<open>for line in lines { projection = call(line).await?; }\<close>\<close>

fun fold_calls :: "('x \<Rightarrow> 'a hnd) \<Rightarrow> 'x list \<Rightarrow> 'a \<Rightarrow> 'a hnd" where
  "fold_calls f [] p = op_return p"
| "fold_calls f (x # xs) p = op_bind (f x) (\<lambda>q. fold_calls f xs q)"

definition add_line :: "app_state \<Rightarrow> auth_context \<Rightarrow> cart_id \<Rightarrow> string \<Rightarrow> u32 \<Rightarrow> cart_projection hnd" where
  "add_line st auth c item quantity =
     cart_call st auth (AddItem \<lparr>ai_item_id = item, ai_quantity = quantity\<rparr>) (Some c)"

definition update_line :: "app_state \<Rightarrow> auth_context \<Rightarrow> cart_id \<Rightarrow> string \<Rightarrow> u32 \<Rightarrow> cart_projection hnd" where
  "update_line st auth c line quantity =
     cart_call st auth (UpdateItemQty \<lparr>uq_line_id = line, uq_quantity = quantity\<rparr>) (Some c)"

definition remove_line :: "app_state \<Rightarrow> auth_context \<Rightarrow> cart_id \<Rightarrow> string \<Rightarrow> cart_projection hnd" where
  "remove_line st auth c line = cart_call st auth (RemoveItem \<lparr>ri_line_id = line\<rparr>) (Some c)"

definition created_with_lines :: "app_state \<Rightarrow> auth_context \<Rightarrow> ucp_cart_request \<Rightarrow> cart_projection hnd" where
  "created_with_lines st auth req =
     op_bind (op_ok_or (BadRequest ''merchant_id is required'') (ucr_merchant_id req)) (\<lambda>merchant_id.
     op_bind (cart_call st auth (CreateCart \<lparr>cc_merchant_id = merchant_id, cc_currency = ucr_currency req,
                cc_tenant_id = Some (ac_tenant_id auth)\<rparr>) None) (\<lambda>projection.
     fold_calls (\<lambda>line. add_line st auth (cp_cart_id projection) (lr_item_id line) (lr_quantity line))
       (ucr_line_items req) projection))"

definition h_ucp_create_cart :: "app_state \<Rightarrow> auth_context \<Rightarrow> ucp_cart_request \<Rightarrow> ucp_cart_response hnd" where
  "h_ucp_create_cart st auth req =
     op_bind (created_with_lines st auth req) (\<lambda>projection. op_return (cart_to_ucp (as_text st) projection))"

definition ucp_cart_id :: "app_state \<Rightarrow> string \<Rightarrow> cart_id hnd" where
  "ucp_cart_id st i = or_bad_request (parse_cart_id (as_text st) i)"

definition h_ucp_get_cart :: "app_state \<Rightarrow> auth_context \<Rightarrow> string \<Rightarrow> ucp_cart_response hnd" where
  "h_ucp_get_cart st auth i =
     op_bind (ucp_cart_id st i) (\<lambda>c.
     op_bind (cart_call st auth (get_cart_command c) None) (\<lambda>projection.
     op_return (cart_to_ucp (as_text st) projection)))"

text \<open>
  The update shared by the UCP and ACP bindings: lines of the cart the request does not name are removed,
  lines it names get its quantity, lines without an id are added. \<open>HashSet\<close> membership is list membership.
\<close>

definition replace_lines ::
  "app_state \<Rightarrow> auth_context \<Rightarrow> cart_id \<Rightarrow> (string option \<times> string \<times> u32) list \<Rightarrow> cart_projection hnd" where
  "replace_lines st auth c items =
     op_bind (cart_call st auth (get_cart_command c) None) (\<lambda>projection.
     let desired = List.map_filter (\<lambda>(i, _, _). i) items;
         gone = filter (\<lambda>l. l \<notin> set desired) (map li_line_id (cp_lines projection))
     in op_bind (fold_calls (remove_line st auth c) gone projection) (\<lambda>projection.
        fold_calls (\<lambda>(i, item, quantity).
            case i of Some line \<Rightarrow> update_line st auth c line quantity | None \<Rightarrow> add_line st auth c item quantity)
          items projection))"

definition h_ucp_update_cart ::
  "app_state \<Rightarrow> auth_context \<Rightarrow> string \<Rightarrow> ucp_cart_request \<Rightarrow> ucp_cart_response hnd" where
  "h_ucp_update_cart st auth i req =
     op_bind (ucp_cart_id st i) (\<lambda>c.
     op_bind (replace_lines st auth c (map (\<lambda>l. (lr_id l, lr_item_id l, lr_quantity l)) (ucr_line_items req))) (\<lambda>projection.
     op_return (cart_to_ucp (as_text st) projection)))"

definition h_ucp_cancel_cart :: "app_state \<Rightarrow> auth_context \<Rightarrow> string \<Rightarrow> ucp_cart_response hnd" where
  "h_ucp_cancel_cart st auth i =
     op_bind (ucp_cart_id st i) (\<lambda>c.
     op_bind (cart_call st auth (cancel_cart_command c) None) (\<lambda>projection.
     op_return (cart_to_ucp (as_text st) projection)))"

definition h_ucp_set_fulfillment ::
  "app_state \<Rightarrow> auth_context \<Rightarrow> string \<Rightarrow> ucp_fulfillment_selection_request \<Rightarrow> ucp_cart_response hnd" where
  "h_ucp_set_fulfillment st auth i req =
     op_bind (ucp_cart_id st i) (\<lambda>c.
     op_bind (or_bad_request (selection_from_dto req)) (\<lambda>payload.
     op_bind (cart_call st auth (SetFulfillmentSelection payload) (Some c)) (\<lambda>projection.
     op_return (cart_to_ucp (as_text st) projection))))"

definition as_checkout :: "app_state \<Rightarrow> ucp_cart_response hnd \<Rightarrow> ucp_cart_response hnd" where
  "as_checkout st h = op_bind h (\<lambda>response. op_return (into_checkout (as_payment_handlers st) response))"

text \<open>The checkout views of the cart endpoints.\<close>

definition h_ucp_get_checkout :: "app_state \<Rightarrow> auth_context \<Rightarrow> string \<Rightarrow> ucp_cart_response hnd" where
  "h_ucp_get_checkout st auth i = as_checkout st (h_ucp_get_cart st auth i)"

definition h_ucp_update_checkout ::
  "app_state \<Rightarrow> auth_context \<Rightarrow> string \<Rightarrow> ucp_cart_request \<Rightarrow> ucp_cart_response hnd" where
  "h_ucp_update_checkout st auth i req = as_checkout st (h_ucp_update_cart st auth i req)"

definition h_ucp_cancel_checkout :: "app_state \<Rightarrow> auth_context \<Rightarrow> string \<Rightarrow> ucp_cart_response hnd" where
  "h_ucp_cancel_checkout st auth i = as_checkout st (h_ucp_cancel_cart st auth i)"

definition h_ucp_set_checkout_fulfillment ::
  "app_state \<Rightarrow> auth_context \<Rightarrow> string \<Rightarrow> ucp_fulfillment_selection_request \<Rightarrow> ucp_cart_response hnd" where
  "h_ucp_set_checkout_fulfillment st auth i req = as_checkout st (h_ucp_set_fulfillment st auth i req)"

section \<open>Checkouts\<close>

definition h_ucp_create_checkout :: "app_state \<Rightarrow> auth_context \<Rightarrow> ucp_cart_request \<Rightarrow> ucp_cart_response hnd" where
  "h_ucp_create_checkout st auth req =
     op_bind (created_with_lines st auth req) (\<lambda>projection.
     op_bind (cart_call st auth (start_checkout_command (cp_cart_id projection) (cp_version projection))
                (Some (cp_cart_id projection))) (\<lambda>projection.
     op_return (into_checkout (as_payment_handlers st) (cart_to_ucp (as_text st) projection))))"

definition checkout_call :: "app_state \<Rightarrow> auth_context \<Rightarrow> checkout_request \<Rightarrow> transaction_result_dto hnd" where
  "checkout_call st auth request =
     op_bind (lift_facade (execute_checkout_authorized (as_facade st) auth request)) (\<lambda>result.
     op_return (transaction_to_dto (as_text st) result))"

definition h_execute_checkout :: "app_state \<Rightarrow> auth_context \<Rightarrow> checkout_request_dto \<Rightarrow> transaction_result_dto hnd" where
  "h_execute_checkout st auth req =
     op_bind (or_bad_request (checkout_request_from_dto (as_text st) req)) (checkout_call st auth)"

definition h_ucp_complete_checkout ::
  "app_state \<Rightarrow> auth_context \<Rightarrow> string \<Rightarrow> checkout_request_dto \<Rightarrow> transaction_result_dto hnd" where
  "h_ucp_complete_checkout st auth i req =
     op_bind (ucp_cart_id st i) (\<lambda>c.
     op_bind (or_bad_request (checkout_request_from_dto (as_text st) req)) (\<lambda>request.
     checkout_call st auth (request\<lparr>cr_cart_id := c\<rparr>)))"

definition EMBEDDED_CHECKOUT_LINK_TTL_SECONDS :: i64 where "EMBEDDED_CHECKOUT_LINK_TTL_SECONDS = 900"

record embedded_checkout_link =
  ek_checkout_session_id :: string
  ek_embedded_url :: string
  ek_expires_at :: i64

definition cart_id_to_session_id :: "text_env \<Rightarrow> cart_id \<Rightarrow> string" where
  "cart_id_to_session_id T c = ''chk_'' @ te_show_uuid T (cart_uuid c)"

definition embedded_link_signing_base :: "string \<Rightarrow> i64 \<Rightarrow> string" where
  "embedded_link_signing_base session_id expires_at =
     ''ucp-embedded-checkout:'' @ session_id @ '':'' @ show_int expires_at"

definition build_embedded_checkout_link ::
  "app_state \<Rightarrow> string \<Rightarrow> cart_id \<Rightarrow> signing_keyring \<Rightarrow> i64 \<Rightarrow> embedded_checkout_link option" where
  "build_embedded_checkout_link st hosted_url c keyring now =
     (let session_id = cart_id_to_session_id (as_text st) c;
          expires_at = i64_add now EMBEDDED_CHECKOUT_LINK_TTL_SECONDS;
          signature = ring_sign (as_crypto st) keyring (embedded_link_signing_base session_id expires_at)
      in map_option (\<lambda>url. \<lparr>ek_checkout_session_id = session_id, ek_embedded_url = url, ek_expires_at = expires_at\<rparr>)
           (as_url_with_pairs st hosted_url
              [(''session'', session_id), (''expires'', show_int expires_at), (''kid'', us_kid signature),
               (''token'', us_signature signature)]))"

definition h_ucp_embedded_link :: "app_state \<Rightarrow> auth_context \<Rightarrow> i64 \<Rightarrow> string \<Rightarrow> embedded_checkout_link hnd" where
  "h_ucp_embedded_link st auth now i =
     op_bind (ucp_cart_id st i) (\<lambda>c.
       case (as_embedded_checkout_url st, as_signing st) of
         (Some hosted_url, Some keyring) \<Rightarrow>
           op_bind (cart_call st auth (get_cart_command c) None) (\<lambda>_.
           op_ok_or Internal (build_embedded_checkout_link st hosted_url c keyring now))
       | _ \<Rightarrow> op_fail (Orchestrator (NotConfigured ''embedded checkout requires EMBEDDED_CHECKOUT_URL and UCP signing keys'')))"

section \<open>ACP\<close>

definition acp_version :: "app_state \<Rightarrow> header_map \<Rightarrow> string hnd" where
  "acp_version st headers =
     (case negotiate_acp_version (header_get (as_values st) headers ''api-version'') of
        Inl e \<Rightarrow> op_fail (BadRequest (acp_version_message e))
      | Inr v \<Rightarrow> op_return v)"

definition require_acp_idempotency_key :: "app_state \<Rightarrow> header_map \<Rightarrow> string hnd" where
  "require_acp_idempotency_key st headers =
     (case header_get (as_values st) headers ''idempotency-key'' of
        None \<Rightarrow> op_fail (BadRequestWithCode ''Idempotency-Key header is required'' ''idempotency_key_required'')
      | Some v \<Rightarrow> if str_trim v = [] then op_fail (BadRequestWithCode ''Idempotency-Key header is required'' ''idempotency_key_required'')
                  else op_return (str_trim v))"

definition acp_created :: "app_state \<Rightarrow> auth_context \<Rightarrow> header_map \<Rightarrow> acp_create_request \<Rightarrow> cart_projection hnd" where
  "acp_created st auth headers req =
     op_bind (acp_version st headers) (\<lambda>_.
     op_bind (require_acp_idempotency_key st headers) (\<lambda>_.
     op_bind (cart_call st auth (acp_create_command req) None) (\<lambda>projection.
     fold_calls (\<lambda>cmd. cart_call st auth cmd (Some (cp_cart_id projection))) (acp_add_commands req) projection)))"

definition h_acp_create_session :: "app_state \<Rightarrow> auth_context \<Rightarrow> header_map \<Rightarrow> acp_create_request \<Rightarrow> acp_cart_response hnd" where
  "h_acp_create_session st auth headers req =
     op_bind (acp_created st auth headers req) (\<lambda>p. op_return (projection_to_acp_session (as_text st) p))"

definition h_acp_create_cart :: "app_state \<Rightarrow> auth_context \<Rightarrow> header_map \<Rightarrow> acp_create_request \<Rightarrow> acp_cart_response hnd" where
  "h_acp_create_cart st auth headers req =
     op_bind (acp_created st auth headers req) (\<lambda>p. op_return (projection_to_acp_cart (as_text st) p))"

definition h_acp_get_session :: "app_state \<Rightarrow> auth_context \<Rightarrow> header_map \<Rightarrow> string \<Rightarrow> acp_cart_response hnd" where
  "h_acp_get_session st auth headers i =
     op_bind (acp_version st headers) (\<lambda>_.
     op_bind (or_bad_request (parse_acp_session_id (as_text st) i)) (\<lambda>c.
     op_bind (cart_call st auth (get_cart_command c) None) (\<lambda>p.
     op_return (projection_to_acp_session (as_text st) p))))"

definition h_acp_get_cart :: "app_state \<Rightarrow> auth_context \<Rightarrow> header_map \<Rightarrow> string \<Rightarrow> acp_cart_response hnd" where
  "h_acp_get_cart st auth headers i =
     op_bind (acp_version st headers) (\<lambda>_.
     op_bind (or_bad_request (parse_acp_cart_id (as_text st) i)) (\<lambda>c.
     op_bind (cart_call st auth (get_cart_command c) None) (\<lambda>p.
     op_return (projection_to_acp_cart (as_text st) p))))"

definition acp_items :: "acp_update_request \<Rightarrow> (string option \<times> string \<times> u32) list" where
  "acp_items req = map (\<lambda>l. (al_id l, al_item_id l, al_quantity l)) (aur_line_items req)"

definition h_acp_update_session ::
  "app_state \<Rightarrow> auth_context \<Rightarrow> header_map \<Rightarrow> string \<Rightarrow> acp_update_request \<Rightarrow> acp_cart_response hnd" where
  "h_acp_update_session st auth headers i req =
     op_bind (acp_version st headers) (\<lambda>_.
     op_bind (or_bad_request (parse_acp_session_id (as_text st) i)) (\<lambda>c.
     op_bind (replace_lines st auth c (acp_items req)) (\<lambda>p.
     op_return (projection_to_acp_session (as_text st) p))))"

definition h_acp_update_cart ::
  "app_state \<Rightarrow> auth_context \<Rightarrow> header_map \<Rightarrow> string \<Rightarrow> acp_update_request \<Rightarrow> acp_cart_response hnd" where
  "h_acp_update_cart st auth headers i req =
     op_bind (acp_version st headers) (\<lambda>_.
     op_bind (or_bad_request (parse_acp_cart_id (as_text st) i)) (\<lambda>c.
     op_bind (replace_lines st auth c (acp_items req)) (\<lambda>p.
     op_return (projection_to_acp_cart (as_text st) p))))"

definition h_acp_complete_session ::
  "app_state \<Rightarrow> auth_context \<Rightarrow> header_map \<Rightarrow> string \<Rightarrow> acp_complete_request \<Rightarrow> transaction_result_dto hnd" where
  "h_acp_complete_session st auth headers i req =
     op_bind (acp_version st headers) (\<lambda>_.
     op_bind (require_acp_idempotency_key st headers) (\<lambda>_.
     op_bind (or_bad_request (parse_acp_session_id (as_text st) i)) (\<lambda>c.
     op_bind (cart_call st auth (get_cart_command c) None) (\<lambda>projection.
     op_bind (cart_call st auth (start_checkout_command c (cp_version projection)) (Some c)) (\<lambda>_.
     checkout_call st auth (complete_to_checkout_request c (cp_version projection) (cp_currency projection) req))))))"

definition h_acp_cancel_session :: "app_state \<Rightarrow> auth_context \<Rightarrow> header_map \<Rightarrow> string \<Rightarrow> acp_cart_response hnd" where
  "h_acp_cancel_session st auth headers i =
     op_bind (acp_version st headers) (\<lambda>_.
     op_bind (require_acp_idempotency_key st headers) (\<lambda>_.
     op_bind (or_bad_request (parse_acp_session_id (as_text st) i)) (\<lambda>c.
     op_bind (cart_call st auth (cancel_cart_command c) None) (\<lambda>p.
     op_return (projection_to_acp_session (as_text st) p)))))"

definition h_acp_cancel_cart :: "app_state \<Rightarrow> auth_context \<Rightarrow> header_map \<Rightarrow> string \<Rightarrow> acp_cart_response hnd" where
  "h_acp_cancel_cart st auth headers i =
     op_bind (acp_version st headers) (\<lambda>_.
     op_bind (require_acp_idempotency_key st headers) (\<lambda>_.
     op_bind (or_bad_request (parse_acp_cart_id (as_text st) i)) (\<lambda>c.
     op_bind (cart_call st auth (cancel_cart_command c) None) (\<lambda>p.
     op_return (projection_to_acp_cart (as_text st) p)))))"

definition delegation_request :: "acp_delegate_request \<Rightarrow> string \<Rightarrow> string \<Rightarrow> payment_delegation_request" where
  "delegation_request req tenant_id idempotency_key =
     \<lparr>pd_tenant_id = tenant_id, pd_token = adr_token req, pd_method_type = adr_method_type req,
      pd_max_amount_minor = adr_amount_minor req, pd_idempotency_key = idempotency_key,
      pd_metadata = adr_metadata req\<rparr>"

definition pure_call :: "facade_error + 'a \<Rightarrow> 'a hnd" where
  "pure_call x = (case x of Inl e \<Rightarrow> op_fail (Orchestrator e) | Inr a \<Rightarrow> op_return a)"

definition h_acp_delegate_payment ::
  "app_state \<Rightarrow> auth_context \<Rightarrow> header_map \<Rightarrow> acp_delegate_request \<Rightarrow> acp_delegate_response hnd" where
  "h_acp_delegate_payment st auth headers req =
     op_bind (acp_version st headers) (\<lambda>_.
     op_bind (require_acp_idempotency_key st headers) (\<lambda>key.
     op_seq (op_guard (\<not> blank (adr_token req)) (BadRequest ''payment_method.token is required''))
     (op_seq (op_guard (blank (adr_tenant_id req) \<or> adr_tenant_id req = ac_tenant_id auth) (Forbidden ''tenant mismatch''))
     (op_bind (pure_call (delegate_payment (as_facade st) (delegation_request req (ac_tenant_id auth) key))) (\<lambda>d.
     op_return (delegate_payment_response d))))))"

section \<open>Orders, catalog, identity\<close>

definition tenant_order :: "auth_context \<Rightarrow> string \<Rightarrow> order_record hnd" where
  "tenant_order auth i =
     op_bind (lift_facade (facade_get_order i)) (\<lambda>found.
     op_bind (op_ok_or (NotFound ''order not found'') found) (\<lambda>order.
     op_seq (op_guard (ac_tenant_id auth = or_tenant_id order) (Forbidden ''tenant mismatch''))
     (op_return order)))"

definition h_get_order :: "app_state \<Rightarrow> auth_context \<Rightarrow> string \<Rightarrow> order_dto hnd" where
  "h_get_order st auth i = op_bind (tenant_order auth i) (\<lambda>order. op_return (order_to_dto (as_text st) order))"

definition h_ucp_get_order :: "app_state \<Rightarrow> auth_context \<Rightarrow> string \<Rightarrow> ucp_order_response hnd" where
  "h_ucp_get_order st auth i = op_bind (tenant_order auth i) (\<lambda>order. op_return (order_to_ucp (as_text st) order))"

definition h_list_orders :: "app_state \<Rightarrow> auth_context \<Rightarrow> order_dto list hnd" where
  "h_list_orders st auth =
     op_bind (lift_facade (facade_list_orders (ac_tenant_id auth))) (\<lambda>orders.
     op_return (map (order_to_dto (as_text st)) orders))"

definition h_catalog_search :: "app_state \<Rightarrow> string option \<Rightarrow> ucp_catalog_response hnd" where
  "h_catalog_search st query =
     op_bind (lift_facade (facade_search_catalog_items (as_facade st) query)) (\<lambda>items.
     op_return \<lparr>ur_ucp = for_capabilities [''dev.ucp.shopping.catalog.search''], ur_products = items, ur_messages = []\<rparr>)"

definition h_catalog_lookup :: "app_state \<Rightarrow> string list \<Rightarrow> ucp_catalog_response hnd" where
  "h_catalog_lookup st ids =
     op_bind (lift_facade (facade_lookup_catalog_items (as_facade st) ids)) (\<lambda>found.
     op_return \<lparr>ur_ucp = for_capabilities [''dev.ucp.shopping.catalog.lookup''], ur_products = found,
       ur_messages = map (\<lambda>i. (''not_found'', i)) (filter (\<lambda>i. i \<notin> set (map ci_id found)) ids)\<rparr>)"

definition h_catalog_product :: "app_state \<Rightarrow> string \<Rightarrow> ucp_catalog_response hnd" where
  "h_catalog_product st i =
     op_bind (lift_facade (facade_lookup_catalog_item (as_facade st) i)) (\<lambda>item.
     op_return \<lparr>ur_ucp = for_capabilities [''dev.ucp.shopping.catalog.lookup''], ur_products = [item], ur_messages = []\<rparr>)"

definition h_lookup_catalog_item :: "app_state \<Rightarrow> string \<Rightarrow> catalog_item hnd" where
  "h_lookup_catalog_item st i = lift_facade (facade_lookup_catalog_item (as_facade st) i)"

definition link_identity_for :: "app_state \<Rightarrow> auth_context \<Rightarrow> identity_link_request \<Rightarrow> identity_link_result_dto hnd" where
  "link_identity_for st auth request =
     op_seq (op_guard (blank (il_tenant_id request) \<or> il_tenant_id request = ac_tenant_id auth) (Forbidden ''tenant mismatch''))
     (op_bind (pure_call (link_identity (as_facade st) (request\<lparr>il_tenant_id := ac_tenant_id auth\<rparr>))) (\<lambda>r.
      op_return (identity_to_dto r)))"

section \<open>Webhooks\<close>

text \<open>\<open>wh\<close> is the random UUID of the new registration.\<close>

definition h_register_webhook ::
  "app_state \<Rightarrow> auth_context \<Rightarrow> uuid \<Rightarrow> webhook_registration_request \<Rightarrow> webhook_registration_dto hnd" where
  "h_register_webhook st auth wh req =
     (let registration = \<lparr>wr_id = ''wh_'' @ te_show_uuid (as_text st) wh, wr_tenant_id = ac_tenant_id auth,
        wr_url = wq_url req, wr_secret = wq_secret req, wr_event_filter = wq_event_filter req, wr_active = True\<rparr>
      in op_seq (lift_facade (facade_register_webhook registration)) (op_return (webhook_to_dto registration)))"

definition h_list_webhooks :: "app_state \<Rightarrow> auth_context \<Rightarrow> webhook_registration_dto list hnd" where
  "h_list_webhooks st auth =
     op_bind (lift_facade (facade_list_webhooks (ac_tenant_id auth))) (\<lambda>hooks. op_return (map webhook_to_dto hooks))"

definition h_unregister_webhook :: "app_state \<Rightarrow> auth_context \<Rightarrow> string \<Rightarrow> bool hnd" where
  "h_unregister_webhook st auth i = lift_facade (facade_unregister_webhook i)"

section \<open>Payments and operations\<close>

definition lifecycle_call ::
  "(facade \<Rightarrow> payment_lifecycle_request \<Rightarrow> payment_operation_result fac) \<Rightarrow> app_state \<Rightarrow> auth_context
     \<Rightarrow> payment_lifecycle_request \<Rightarrow> payment_operation_result hnd" where
  "lifecycle_call call st auth req =
     op_seq (op_guard (ac_tenant_id auth = pl_tenant_id req) (Forbidden ''tenant mismatch''))
       (lift_facade (call (as_facade st) req))"

definition h_capture_payment :: "app_state \<Rightarrow> auth_context \<Rightarrow> payment_lifecycle_request \<Rightarrow> payment_operation_result hnd" where
  "h_capture_payment = lifecycle_call facade_capture_payment"

definition h_void_payment :: "app_state \<Rightarrow> auth_context \<Rightarrow> payment_lifecycle_request \<Rightarrow> payment_operation_result hnd" where
  "h_void_payment = lifecycle_call facade_void_payment"

definition h_refund_payment :: "app_state \<Rightarrow> auth_context \<Rightarrow> payment_lifecycle_request \<Rightarrow> payment_operation_result hnd" where
  "h_refund_payment = lifecycle_call facade_refund_payment"

definition h_accept_incoming_event :: "app_state \<Rightarrow> auth_context \<Rightarrow> string \<Rightarrow> bool hnd" where
  "h_accept_incoming_event st auth message_id = lift_facade (facade_accept_incoming_event_once message_id)"

definition h_process_outbox :: "app_state \<Rightarrow> auth_context \<Rightarrow> u32 \<Rightarrow> unit hnd" where
  "h_process_outbox st auth max_attempts = lift_facade (facade_process_outbox_once (as_facade st) max_attempts)"

record dead_letter_entry =
  de_id :: string
  de_topic :: string
  de_correlation_id :: string
  de_attempts :: u32

definition h_list_dead_letter :: "app_state \<Rightarrow> auth_context \<Rightarrow> dead_letter_entry list hnd" where
  "h_list_dead_letter st auth =
     op_bind (lift_facade facade_list_dead_letter) (\<lambda>entries.
     op_return (map (\<lambda>m. \<lparr>de_id = om_id m, de_topic = om_topic m, de_correlation_id = om_correlation_id m,
                          de_attempts = om_attempts m\<rparr>) entries))"

definition h_replay_dead_letter :: "app_state \<Rightarrow> auth_context \<Rightarrow> string \<Rightarrow> bool hnd" where
  "h_replay_dead_letter st auth message_id = lift_facade (facade_replay_from_dead_letter message_id)"

fun payment_state_debug :: "payment_state \<Rightarrow> string" where
  "payment_state_debug Authorized = ''Authorized''"
| "payment_state_debug Captured = ''Captured''"
| "payment_state_debug Voided = ''Voided''"
| "payment_state_debug RefundPending = ''RefundPending''"
| "payment_state_debug Refunded = ''Refunded''"
| "payment_state_debug Reconciled = ''Reconciled''"
| "payment_state_debug Failed = ''Failed''"

record payment_mismatch_dto =
  md_transaction_id :: string
  md_our_state :: string
  md_provider_state :: "string option"

definition h_run_reconciliation :: "app_state \<Rightarrow> auth_context \<Rightarrow> string list \<Rightarrow> payment_mismatch_dto list hnd" where
  "h_run_reconciliation st auth ids =
     op_bind (lift_facade (facade_run_reconciliation (as_facade st) ids)) (\<lambda>report.
     op_return (map (\<lambda>m. \<lparr>md_transaction_id = pm_transaction_id m, md_our_state = payment_state_debug (pm_our_state m),
                          md_provider_state = map_option payment_state_debug (pm_provider_state m)\<rparr>) report))"

end
