(* ===== verification/Server_Config.thy ===== *)
theory Server_Config
  imports Provider_Config Http_Routes Json Outbox_Processor
begin

text \<open>
  The server configuration (\<open>orchestrator-http/src/config.rs\<close>) and what the binary makes of it
  (\<open>main.rs\<close>): the sections with their defaults and overrides from the environment, loading, the checks of
  production, and the part of the start-up that decides who is authenticated, who signs and whose
  signatures are required. The readers of YAML, JSON, URLs and addresses, the file system and the
  construction of clients and of the database pool are the fields of \<open>boot\<close>.
\<close>

section \<open>Profiles\<close>

datatype env_profile = Development | Production

definition profile_from_env :: "env \<Rightarrow> env_profile" where
  "profile_from_env E = (if E ''ENV'' = Some ''production'' \<or> E ''ENV'' = Some ''prod'' then Production else Development)"

definition is_production :: "env_profile \<Rightarrow> bool" where "is_production p \<longleftrightarrow> p = Production"

datatype run_mode = Serve | MigrateOnly

definition run_mode_resolve :: "string list \<Rightarrow> string option \<Rightarrow> run_mode" where
  "run_mode_resolve args migrate_only_env =
     (let flagged = list_ex (\<lambda>a. a = ''--migrate'') args;
          env_set = (case migrate_only_env of None \<Rightarrow> False | Some v \<Rightarrow> truthy v)
      in if flagged \<or> env_set then MigrateOnly else Serve)"

definition run_mode_from_env :: "string list \<Rightarrow> env \<Rightarrow> run_mode" where
  "run_mode_from_env args E = run_mode_resolve (drop 1 args) (E ''MIGRATE_ONLY'')"

section \<open>Signing\<close>

record signing_section =
  ss_key_id :: "string option"
  ss_key :: "string option"
  ss_key_algorithm :: "string option"
  ss_previous_keys :: "string list"
  ss_agent_keys :: "string list"
  ss_agent_jwks :: "string option"

definition no_signing :: signing_section where
  "no_signing = \<lparr>ss_key_id = None, ss_key = None, ss_key_algorithm = None, ss_previous_keys = [], ss_agent_keys = [],
     ss_agent_jwks = None\<rparr>"

definition split_pairs :: "string \<Rightarrow> string list" where
  "split_pairs value = filter (\<lambda>p. p \<noteq> []) (map str_trim (str_split (CHR '','') value))"

definition env_pairs :: "env \<Rightarrow> string \<Rightarrow> string list \<Rightarrow> string list" where
  "env_pairs E k old = (case env_text E k of None \<Rightarrow> old | Some t \<Rightarrow> split_pairs t)"

definition signing_env_overrides :: "env \<Rightarrow> signing_section \<Rightarrow> signing_section" where
  "signing_env_overrides E s =
     \<lparr>ss_key_id = env_set E ''UCP_SIGNING_KEY_ID'' (ss_key_id s), ss_key = env_set E ''UCP_SIGNING_KEY'' (ss_key s),
      ss_key_algorithm = env_set E ''UCP_SIGNING_KEY_ALG'' (ss_key_algorithm s),
      ss_previous_keys = env_pairs E ''UCP_SIGNING_PREVIOUS_KEYS'' (ss_previous_keys s),
      ss_agent_keys = env_pairs E ''UCP_AGENT_KEYS'' (ss_agent_keys s),
      ss_agent_jwks = env_set E ''UCP_AGENT_JWKS'' (ss_agent_jwks s)\<rparr>"

fun signing_key_error_display :: "signing_key_error \<Rightarrow> string" where
  "signing_key_error_display MissingKid = ''signing key id must not be empty''"
| "signing_key_error_display (InvalidKeyMaterial kid reason) =
     ''signing key '' @ CHR 0x27 # kid @ CHR 0x27 # '' is not usable: '' @ reason"
| "signing_key_error_display (DuplicateKid kid) =
     ''signing key id '' @ CHR 0x27 # kid @ CHR 0x27 # '' is used more than once''"
| "signing_key_error_display (UnknownKid kid) = ''unknown signing key id '' @ CHR 0x27 # kid @ [CHR 0x27]"
| "signing_key_error_display (UnsupportedAlgorithm a) =
     ''unsupported signing algorithm '' @ CHR 0x27 # a @ CHR 0x27 # ''; expected EdDSA or ES256''"
| "signing_key_error_display (InvalidJwks m) = ''JWK Set is not valid: '' @ m"
| "signing_key_error_display MalformedSignature = ''signature is not valid base64''"
| "signing_key_error_display KeyVerificationFailed = ''signature verification failed''"

definition key_text :: "signing_key_error + 'a \<Rightarrow> string + 'a" where
  "key_text x = (case x of Inl e \<Rightarrow> Inl (signing_key_error_display e) | Inr a \<Rightarrow> Inr a)"

definition parse_previous_key :: "string \<Rightarrow> string + key_spec" where
  "parse_previous_key given =
     (let malformed = ''previous signing key '' @ CHR 0x27 # given @ CHR 0x27 # '' must be '' @ CHR 0x27 # ''kid:seed''
                      @ CHR 0x27 # '' or '' @ CHR 0x27 # ''kid:ALG:secret'' @ [CHR 0x27]
      in res_bind (ok_or malformed (split_once (CHR '':'') given)) (\<lambda>(kid, rest).
         res_bind (case split_once (CHR '':'') rest of
                     Some (alg, secret) \<Rightarrow> res_bind (key_text (key_algorithm_parse alg)) (\<lambda>a. Inr (a, secret))
                   | None \<Rightarrow> Inr (EdDsa, rest)) (\<lambda>(algorithm, secret).
         Inr \<lparr>ks_kid = str_trim kid, ks_algorithm = algorithm, ks_secret = str_trim secret\<rparr>)))"

definition to_keyring :: "crypto \<Rightarrow> signing_section \<Rightarrow> string + signing_keyring option" where
  "to_keyring C s =
     (case (nonempty (ss_key_id s), nonempty (ss_key s)) of
        (None, None) \<Rightarrow> Inr None
      | (Some _, None) \<Rightarrow> Inl ''UCP_SIGNING_KEY is required when UCP_SIGNING_KEY_ID is set''
      | (None, Some _) \<Rightarrow> Inl ''UCP_SIGNING_KEY_ID is required when UCP_SIGNING_KEY is set''
      | (Some key_id, Some secret) \<Rightarrow>
          res_bind (case nonempty (ss_key_algorithm s) of
                      Some name \<Rightarrow> key_text (key_algorithm_parse name)
                    | None \<Rightarrow> Inr EdDsa) (\<lambda>algorithm.
          res_bind (res_map parse_previous_key (ss_previous_keys s)) (\<lambda>previous.
          res_bind (key_text (from_specs C \<lparr>ks_kid = key_id, ks_algorithm = algorithm, ks_secret = secret\<rparr> previous))
            (\<lambda>ring. Inr (Some ring)))))"

definition parse_agent_key :: "string \<Rightarrow> string + string \<times> string" where
  "parse_agent_key pair =
     res_bind (ok_or (''agent signing key '' @ CHR 0x27 # pair @ CHR 0x27 # '' must be in '' @ CHR 0x27 # ''kid:public_key''
                      @ CHR 0x27 # '' form'') (split_once (CHR '':'') pair))
       (\<lambda>(kid, key). Inr (str_trim kid, str_trim key))"

definition to_verifying_keyring ::
  "crypto \<Rightarrow> (string \<Rightarrow> string + signing_key_descriptor list) \<Rightarrow> signing_section \<Rightarrow> string + verifying_keyring option" where
  "to_verifying_keyring C decode s =
     (let jwks = (case ss_agent_jwks s of None \<Rightarrow> None | Some j \<Rightarrow> if str_trim j = [] then None else Some j)
      in if ss_agent_keys s = [] \<and> jwks = None then Inr None
         else res_bind (res_map parse_agent_key (ss_agent_keys s)) (\<lambda>parsed.
              res_bind (key_text (from_public_keys C parsed)) (\<lambda>pairs.
              res_bind (case jwks of
                          None \<Rightarrow> Inr pairs
                        | Some json \<Rightarrow>
                            res_bind (case from_jwks C decode json of
                                        Inl e \<Rightarrow> Inl (''UCP_AGENT_JWKS: '' @ signing_key_error_display e)
                                      | Inr k \<Rightarrow> Inr k) (\<lambda>k.
                            key_text (ring_merge pairs k))) (\<lambda>keyring. Inr (Some keyring)))))"

section \<open>Outbox\<close>

record outbox_section =
  os_interval_ms :: u64
  os_batch_size :: u64
  os_max_attempts :: u32
  os_drain_timeout_secs :: u64
  os_retry_backoff_ms :: u64
  os_max_retry_backoff_secs :: u64

definition default_outbox_section :: outbox_section where
  "default_outbox_section =
     \<lparr>os_interval_ms = 500, os_batch_size = 32, os_max_attempts = 5, os_drain_timeout_secs = 10,
      os_retry_backoff_ms = 500, os_max_retry_backoff_secs = 30\<rparr>"

definition drain_timeout_of :: "outbox_section \<Rightarrow> nat" where
  "drain_timeout_of s = from_secs (os_drain_timeout_secs s)"

definition to_processor_config :: "outbox_section \<Rightarrow> outbox_processor_config" where
  "to_processor_config s =
     \<lparr>oc_interval = unat (os_interval_ms s), oc_batch_size = unat (max (os_batch_size s) 1),
      oc_max_attempts = max (os_max_attempts s) 1, oc_drain_timeout = drain_timeout_of s,
      oc_retry_backoff = unat (max (os_retry_backoff_ms s) 1),
      oc_max_retry_backoff = from_secs (max (os_max_retry_backoff_secs s) 1)\<rparr>"

definition outbox_env_overrides :: "env \<Rightarrow> outbox_section \<Rightarrow> outbox_section" where
  "outbox_env_overrides E s =
     \<lparr>os_interval_ms = env_num parse_u64 E ''OUTBOX_INTERVAL_MS'' (os_interval_ms s),
      os_batch_size = env_num parse_u64 E ''OUTBOX_BATCH_SIZE'' (os_batch_size s),
      os_max_attempts = env_num parse_u32 E ''OUTBOX_MAX_ATTEMPTS'' (os_max_attempts s),
      os_drain_timeout_secs = env_num parse_u64 E ''OUTBOX_DRAIN_TIMEOUT_SECS'' (os_drain_timeout_secs s),
      os_retry_backoff_ms = env_num parse_u64 E ''OUTBOX_RETRY_BACKOFF_MS'' (os_retry_backoff_ms s),
      os_max_retry_backoff_secs = env_num parse_u64 E ''OUTBOX_MAX_RETRY_BACKOFF_SECS'' (os_max_retry_backoff_secs s)\<rparr>"

section \<open>Server section\<close>

record server_section =
  sv_bind_addr :: string
  sv_log_level :: string
  sv_public_base_url :: "string option"
  sv_embedded_checkout_url :: "string option"
  sv_ucp_payment_handlers :: "string option"

text \<open>
  The derived \<open>Default\<close> leaves the texts empty. The defaults of \<open>default_bind_addr\<close> and \<open>default_log_level\<close>
  belong to the reading of a section that is present without the field.
\<close>

definition default_server_section :: server_section where
  "default_server_section =
     \<lparr>sv_bind_addr = [], sv_log_level = [], sv_public_base_url = None, sv_embedded_checkout_url = None,
      sv_ucp_payment_handlers = None\<rparr>"

definition default_bind_addr :: string where "default_bind_addr = ''0.0.0.0:8080''"
definition default_log_level :: string where "default_log_level = ''info''"

definition is_lower :: "char \<Rightarrow> bool" where
  "is_lower c \<longleftrightarrow> 97 \<le> (of_char c :: nat) \<and> (of_char c :: nat) \<le> 122"

text \<open>One segment of a reverse-domain name, by its position.\<close>

definition segment_ok :: "nat \<Rightarrow> string \<Rightarrow> bool" where
  "segment_ok i segment \<longleftrightarrow>
     (case segment of [] \<Rightarrow> False | c # _ \<Rightarrow> is_lower c \<or> 0 < i \<and> is_digit c) \<and>
     \<not> ends_with segment ''-'' \<and>
     list_all (\<lambda>c. is_lower c \<or> is_digit c \<or> c = CHR ''-'' \<or> 0 < i \<and> c = CHR ''_'') segment"

definition is_reverse_domain_name :: "string \<Rightarrow> bool" where
  "is_reverse_domain_name name =
     (let segments = str_split (CHR ''.'') name
      in 2 \<le> length segments \<and> list_all (\<lambda>(i, segment). segment_ok i segment) (enumerate 0 segments))"

definition is_dated_version :: "string \<Rightarrow> bool" where
  "is_dated_version version \<longleftrightarrow>
     length version = 10 \<and>
     list_all (\<lambda>(i, b). if i = 4 \<or> i = 7 then b = CHR ''-'' else is_digit b) (enumerate 0 version)"

definition handlers_invalid :: "string \<Rightarrow> string" where
  "handlers_invalid reason = ''UCP_PAYMENT_HANDLERS: '' @ reason"

definition check_entry :: "string \<Rightarrow> json \<Rightarrow> string + unit" where
  "check_entry name e =
     (if json_str_at ''id'' e = None
      then Inl (handlers_invalid (''every '' @ CHR 0x27 # name @ CHR 0x27 # '' entry needs an id''))
      else if \<not> (case json_str_at ''version'' e of None \<Rightarrow> False | Some v \<Rightarrow> is_dated_version v)
      then Inl (handlers_invalid (''every '' @ CHR 0x27 # name @ CHR 0x27 # '' entry needs a YYYY-MM-DD version''))
      else Inr ())"

definition check_handler :: "string \<times> json \<Rightarrow> string + unit" where
  "check_handler h =
     (case h of (name, entries) \<Rightarrow>
        if \<not> is_reverse_domain_name name
        then Inl (handlers_invalid (''handler name '' @ CHR 0x27 # name @ CHR 0x27 #
                    '' must be reverse-DNS, e.g. com.example.tokenizer''))
        else res_bind (ok_or (handlers_invalid (CHR 0x27 # name @ CHR 0x27 # '' must map to an array of entries''))
                         (as_array entries)) (\<lambda>es.
             res_bind (res_map (check_entry name) es) (\<lambda>_. Inr ())))"

definition payment_handlers_of :: "(string \<Rightarrow> string + json) \<Rightarrow> server_section \<Rightarrow> string + (string \<times> json) list" where
  "payment_handlers_of parse s =
     (case (case sv_ucp_payment_handlers s of None \<Rightarrow> None | Some raw \<Rightarrow> if str_trim raw = [] then None else Some raw) of
        None \<Rightarrow> Inr []
      | Some raw \<Rightarrow>
          (case parse raw of
             Inl e \<Rightarrow> Inl (handlers_invalid e)
           | Inr value \<Rightarrow>
               (case value of
                  JObj registry \<Rightarrow> res_bind (res_map check_handler registry) (\<lambda>_. Inr registry)
                | _ \<Rightarrow> Inl (handlers_invalid ''must be an object keyed by handler name''))))"

section \<open>The whole configuration\<close>

record auth_section =
  au_mode :: "string option"
  au_bearer_token :: "string option"
  au_jwt_hs256_secret :: "string option"
  au_trusted_issuers :: "string option"
  au_tenant_id :: "string option"
  au_caller_id :: "string option"

record server_config =
  sc_server :: server_section
  sc_auth :: auth_section
  sc_persistence_path :: "string option"
  sc_database_url :: "string option"
  sc_components :: components_config
  sc_http_client :: http_client_config
  sc_provider_auth :: provider_auth_section
  sc_outbox :: outbox_section
  sc_signing :: signing_section

definition default_server_config :: server_config where
  "default_server_config =
     \<lparr>sc_server = default_server_section,
      sc_auth = \<lparr>au_mode = None, au_bearer_token = None, au_jwt_hs256_secret = None, au_trusted_issuers = None,
                 au_tenant_id = None, au_caller_id = None\<rparr>,
      sc_persistence_path = None, sc_database_url = None,
      sc_components = \<lparr>cg_catalog_base_url = None, cg_pricing_base_url = None, cg_tax_base_url = None,
        cg_geo_base_url = None, cg_payment_base_url = None, cg_receipt_base_url = None, cg_fulfillment_base_url = None,
        cg_payment_delegation_base_url = None, cg_identity_link_base_url = None\<rparr>,
      sc_http_client = default_http_client_config,
      sc_provider_auth = \<lparr>pa_default = no_provider_auth, pa_section = (\<lambda>_. no_provider_auth)\<rparr>,
      sc_outbox = default_outbox_section, sc_signing = no_signing\<rparr>"

definition env_string :: "env \<Rightarrow> string \<Rightarrow> string \<Rightarrow> string" where
  "env_string E k old = (case env_text E k of None \<Rightarrow> old | Some t \<Rightarrow> t)"

definition server_env_overrides :: "env \<Rightarrow> server_section \<Rightarrow> server_section" where
  "server_env_overrides E s =
     \<lparr>sv_bind_addr = env_string E ''BIND_ADDR'' (sv_bind_addr s), sv_log_level = env_string E ''RUST_LOG'' (sv_log_level s),
      sv_public_base_url = env_set E ''PUBLIC_BASE_URL'' (sv_public_base_url s),
      sv_embedded_checkout_url = env_replace E ''EMBEDDED_CHECKOUT_URL'' (sv_embedded_checkout_url s),
      sv_ucp_payment_handlers = env_replace E ''UCP_PAYMENT_HANDLERS'' (sv_ucp_payment_handlers s)\<rparr>"

definition auth_section_env_overrides :: "env \<Rightarrow> auth_section \<Rightarrow> auth_section" where
  "auth_section_env_overrides E a =
     \<lparr>au_mode = env_set E ''AUTH_MODE'' (au_mode a), au_bearer_token = env_set E ''AUTH_BEARER_TOKEN'' (au_bearer_token a),
      au_jwt_hs256_secret = env_set E ''AUTH_JWT_HS256_SECRET'' (au_jwt_hs256_secret a),
      au_trusted_issuers = env_set E ''AP2_TRUSTED_ISSUERS'' (au_trusted_issuers a),
      au_tenant_id = env_set E ''AUTH_TENANT_ID'' (au_tenant_id a), au_caller_id = env_set E ''AUTH_CALLER_ID'' (au_caller_id a)\<rparr>"

text \<open>\<open>env::var("PERSISTENCE_PATH").or_else(|_| env::var("DATA_DIR"))\<close>\<close>

definition persistence_path_override :: "env \<Rightarrow> string option \<Rightarrow> string option" where
  "persistence_path_override E old =
     (case E ''PERSISTENCE_PATH'' of Some _ \<Rightarrow> env_set E ''PERSISTENCE_PATH'' old | None \<Rightarrow> env_set E ''DATA_DIR'' old)"

definition config_env_overrides :: "env \<Rightarrow> server_config \<Rightarrow> server_config" where
  "config_env_overrides E c =
     \<lparr>sc_server = server_env_overrides E (sc_server c), sc_auth = auth_section_env_overrides E (sc_auth c),
      sc_persistence_path = persistence_path_override E (sc_persistence_path c),
      sc_database_url = env_set E ''DATABASE_URL'' (sc_database_url c),
      sc_components = components_env_overrides E (sc_components c),
      sc_http_client = (sc_http_client c)\<lparr>hs_circuit_breaker := breaker_env_overrides E (hs_circuit_breaker (sc_http_client c))\<rparr>,
      sc_provider_auth = section_env_overrides E (sc_provider_auth c),
      sc_outbox = outbox_env_overrides E (sc_outbox c), sc_signing = signing_env_overrides E (sc_signing c)\<rparr>"

text \<open>What the start-up takes from outside: see the head of this theory.\<close>

record boot =
  bo_env :: env
  bo_args :: "string list"
  bo_exists :: "string \<Rightarrow> bool"
  bo_read :: files
  bo_cwd :: "string option"
  bo_join :: "string \<Rightarrow> string \<Rightarrow> string"
  bo_yaml :: "string \<Rightarrow> string + server_config"
  bo_json :: "string \<Rightarrow> string + json"
  bo_jwks :: "string \<Rightarrow> string + signing_key_descriptor list"
  bo_url :: "string \<Rightarrow> string option"
  bo_addr :: "string \<Rightarrow> string option"
  bo_build_client :: "string \<Rightarrow> client_config \<Rightarrow> string option"
  bo_database :: "string \<Rightarrow> string option"
  bo_migrate :: "string \<Rightarrow> string option"
  bo_decode_jwt :: "string \<Rightarrow> string \<Rightarrow> jwt_claims option"
  bo_crypto :: crypto

definition load_config :: "boot \<Rightarrow> string option \<Rightarrow> string + server_config" where
  "load_config B config_path =
     res_bind (case config_path of
                 None \<Rightarrow> Inr default_server_config
               | Some p \<Rightarrow>
                   if \<not> bo_exists B p then Inr default_server_config
                   else (case bo_read B p of
                           Inl e \<Rightarrow> Inl (''read config file: '' @ e)
                         | Inr s \<Rightarrow> (case bo_yaml B s of Inl e \<Rightarrow> Inl (''parse config: '' @ e) | Inr c \<Rightarrow> Inr c)))
       (\<lambda>c. Inr (config_env_overrides (bo_env B) c))"

definition default_config_path :: "boot \<Rightarrow> string option" where
  "default_config_path B =
     (case bo_env B ''CONFIG_FILE'' of
        Some p \<Rightarrow> Some p
      | None \<Rightarrow> map_option (\<lambda>cwd. bo_join B cwd ''config.yaml'') (bo_cwd B))"

record production_config =
  pd_public_base_url :: string
  pd_database_url :: string
  pd_signing :: signing_keyring
  pd_auth_mode :: string
  pd_auth_token :: string
  pd_trusted_issuers :: string
  pd_auth_tenant_id :: string
  pd_auth_caller_id :: string
  pd_components :: resolved_components
  pd_http_client :: http_client_config
  pd_provider_auth :: provider_auth_section

definition or_else :: "'a \<Rightarrow> 'a option \<Rightarrow> 'a" where
  "or_else d x = (case x of None \<Rightarrow> d | Some a \<Rightarrow> a)"

definition provider_text :: "provider \<Rightarrow> string + 'a \<Rightarrow> string + 'a" where
  "provider_text p x = (case x of Inl e \<Rightarrow> Inl (env_prefix p @ '' provider auth: '' @ e) | Inr a \<Rightarrow> Inr a)"

definition check_provider :: "files \<Rightarrow> provider_auth_section \<Rightarrow> provider \<Rightarrow> string + unit" where
  "check_provider F s p =
     (let auth = for_provider s p
      in provider_text p (res_bind (to_outbound_auth auth) (\<lambda>_. res_bind (to_tls_config F auth) (\<lambda>_. Inr ()))))"

text \<open>\<open>to_lowercase\<close> on the texts that can become \<open>jwt\<close> is the ASCII mapping.\<close>

definition auth_mode_of :: "auth_section \<Rightarrow> string" where
  "auth_mode_of a = map ascii_lower (or_else ''static'' (au_mode a))"

definition auth_token_of :: "auth_section \<Rightarrow> string + string" where
  "auth_token_of a =
     (if auth_mode_of a = ''jwt''
      then ok_or ''AUTH_JWT_HS256_SECRET (or auth.jwt_hs256_secret) required in production when AUTH_MODE=jwt''
             (nonempty (au_jwt_hs256_secret a))
      else ok_or ''AUTH_BEARER_TOKEN (or auth.bearer_token) required in production'' (nonempty (au_bearer_token a)))"

definition require_production :: "crypto \<Rightarrow> files \<Rightarrow> server_config \<Rightarrow> string + production_config" where
  "require_production C F c =
     res_bind (ok_or ''PUBLIC_BASE_URL (or server.public_base_url) required in production''
                 (nonempty (sv_public_base_url (sc_server c)))) (\<lambda>public_base_url.
     res_bind (ok_or ''DATABASE_URL (or persistence.database_url) required in production''
                 (nonempty (sc_database_url c))) (\<lambda>database_url.
     res_bind (auth_token_of (sc_auth c)) (\<lambda>auth_token.
     res_bind (require_all (sc_components c)) (\<lambda>components.
     res_bind (res_map (check_provider F (sc_provider_auth c)) ALL_PROVIDERS) (\<lambda>_.
     res_bind (res_bind (to_keyring C (sc_signing c)) (ok_or
         ''UCP_SIGNING_KEY_ID and UCP_SIGNING_KEY (or signing.key_id/signing.key) required in production'')) (\<lambda>signing.
     Inr \<lparr>pd_public_base_url = public_base_url, pd_database_url = database_url, pd_signing = signing,
          pd_auth_mode = auth_mode_of (sc_auth c), pd_auth_token = auth_token,
          pd_trusted_issuers = or_else [] (au_trusted_issuers (sc_auth c)),
          pd_auth_tenant_id = or_else ''prod'' (au_tenant_id (sc_auth c)),
          pd_auth_caller_id = or_else ''prod'' (au_caller_id (sc_auth c)), pd_components = components,
          pd_http_client = sc_http_client c, pd_provider_auth = sc_provider_auth c\<rparr>))))))"

definition client_config_for :: "files \<Rightarrow> production_config \<Rightarrow> provider \<Rightarrow> string + client_config" where
  "client_config_for F d p =
     provider_text p (to_client_config_with_auth F (pd_http_client d) p (for_provider (pd_provider_auth d) p))"

section \<open>Start-up (\<open>main.rs\<close>)\<close>

text \<open>
  The choices of \<open>main\<close> that decide whom the server believes: the resolver of bearer tokens, whether
  unauthenticated development requests are let in, the signing and the agents' keys, AP2 strict mode, and
  the settings the router and the outbox processor get. \<open>su_client\<close> is the client of each configured provider.
\<close>

record startup_state =
  su_authn :: "(string \<Rightarrow> auth_context option) option"
  su_allow_dev_auth :: bool
  su_discovery_base_url :: string
  su_signing :: "signing_keyring option"
  su_inbound :: "verifying_keyring option"
  su_embedded_checkout_url :: "string option"
  su_payment_handlers :: "(string \<times> json) list"
  su_ap2_strict :: bool
  su_outbox :: outbox_processor_config
  su_addr :: string
  su_clients :: "(provider \<times> string \<times> client_config) list"

fun adapter_name :: "provider \<Rightarrow> string" where
  "adapter_name PaymentDelegation = ''payment delegation''"
| "adapter_name IdentityLink = ''identity link''"
| "adapter_name p = provider_label p"

text \<open>An adapter: its client configuration, and the building of its client.\<close>

definition adapter_of :: "boot \<Rightarrow> production_config \<Rightarrow> provider \<times> string \<Rightarrow> string + provider \<times> string \<times> client_config" where
  "adapter_of B d pu =
     (case pu of (p, base_url) \<Rightarrow>
        res_bind (client_config_for (bo_read B) d p) (\<lambda>cfg.
          case bo_build_client B base_url cfg of
            Some e \<Rightarrow> Inl (adapter_name p @ '' adapter: '' @ e)
          | None \<Rightarrow> Inr (p, base_url, cfg)))"

definition required_adapters :: "resolved_components \<Rightarrow> (provider \<times> string) list" where
  "required_adapters r =
     [(Catalog, rc_catalog_base_url r), (Pricing, rc_pricing_base_url r), (Tax, rc_tax_base_url r), (Geo, rc_geo_base_url r),
      (Payment, rc_payment_base_url r), (Receipt, rc_receipt_base_url r)]"

definition optional_adapters :: "resolved_components \<Rightarrow> (provider \<times> string) list" where
  "optional_adapters r =
     List.map_filter (\<lambda>(p, u). map_option (\<lambda>url. (p, url)) u)
       [(Fulfillment, rc_fulfillment_base_url r), (PaymentDelegation, rc_payment_delegation_base_url r),
        (IdentityLink, rc_identity_link_base_url r)]"

definition trusted_issuers_of :: "string \<Rightarrow> string list" where
  "trusted_issuers_of s = filter (\<lambda>i. i \<noteq> []) (map str_trim (str_split (CHR '','') s))"

definition production_authn :: "boot \<Rightarrow> production_config \<Rightarrow> string \<Rightarrow> auth_context option" where
  "production_authn B d =
     (if pd_auth_mode d = ''jwt''
      then resolve_bearer (bo_decode_jwt B (pd_auth_token d)) (trusted_issuers_of (pd_trusted_issuers d))
      else static_token_resolver (pd_auth_token d) (pd_auth_tenant_id d) (pd_auth_caller_id d))"

definition strict_flag :: "env \<Rightarrow> bool" where
  "strict_flag E \<longleftrightarrow> (case E ''AP2_STRICT'' of None \<Rightarrow> False | Some v \<Rightarrow> v \<in> {''1'', ''true'', ''yes''})"

definition dev_base_url :: "server_section \<Rightarrow> string" where
  "dev_base_url s =
     (case nonempty (sv_public_base_url s) of
        Some u \<Rightarrow> u
      | None \<Rightarrow> ''http://127.0.0.1:'' @ last (str_split (CHR '':'') (sv_bind_addr s)))"

text \<open>The part of \<open>main\<close> by profile: resolver, base URL, signing keys and clients.\<close>

definition startup_profile ::
  "boot \<Rightarrow> server_config \<Rightarrow>
   string + (string \<Rightarrow> auth_context option) option \<times> bool \<times> string \<times> signing_keyring option \<times>
     (provider \<times> string \<times> client_config) list" where
  "startup_profile B c =
     (if is_production (profile_from_env (bo_env B))
      then res_bind (case require_production (bo_crypto B) (bo_read B) c of
                       Inl e \<Rightarrow> Inl (''production config: '' @ e) | Inr d \<Rightarrow> Inr d) (\<lambda>d.
           res_bind (res_map (adapter_of B d) (required_adapters (pd_components d))) (\<lambda>adapters.
           res_bind (case bo_database B (pd_database_url d) of
                       Some e \<Rightarrow> Inl (''postgres facade: '' @ e) | None \<Rightarrow> Inr ()) (\<lambda>_.
           res_bind (res_map (adapter_of B d) (optional_adapters (pd_components d))) (\<lambda>more.
           Inr (Some (production_authn B d), False, pd_public_base_url d, Some (pd_signing d), adapters @ more)))))
      else res_bind (case to_keyring (bo_crypto B) (sc_signing c) of
                       Inl e \<Rightarrow> Inl (''signing config: '' @ e) | Inr k \<Rightarrow> Inr k) (\<lambda>signing.
           Inr (None, True, dev_base_url (sc_server c), signing, [])))"

definition startup :: "boot \<Rightarrow> server_config \<Rightarrow> string + startup_state" where
  "startup B c =
     res_bind (startup_profile B c) (\<lambda>(authn, dev, base_url, signing, clients).
     res_bind (payment_handlers_of (bo_json B) (sc_server c)) (\<lambda>handlers.
     res_bind (case sv_embedded_checkout_url (sc_server c) of
                 None \<Rightarrow> Inr ()
               | Some url \<Rightarrow> (case bo_url B url of Some e \<Rightarrow> Inl (''EMBEDDED_CHECKOUT_URL: '' @ e) | None \<Rightarrow> Inr ())) (\<lambda>_.
     res_bind (case to_verifying_keyring (bo_crypto B) (bo_jwks B) (sc_signing c) of
                 Inl e \<Rightarrow> Inl (''agent signing keys: '' @ e) | Inr k \<Rightarrow> Inr k) (\<lambda>inbound.
     res_bind (case bo_addr B (sv_bind_addr (sc_server c)) of Some e \<Rightarrow> Inl e | None \<Rightarrow> Inr ()) (\<lambda>_.
     Inr \<lparr>su_authn = authn, su_allow_dev_auth = dev, su_discovery_base_url = base_url, su_signing = signing,
          su_inbound = inbound, su_embedded_checkout_url = sv_embedded_checkout_url (sc_server c),
          su_payment_handlers = handlers, su_ap2_strict = strict_flag (bo_env B),
          su_outbox = to_processor_config (sc_outbox c), su_addr = sv_bind_addr (sc_server c), su_clients = clients\<rparr>)))))"

text \<open>The whole of \<open>main\<close> before it serves: migrations only, or the state to serve with.\<close>

definition main_start :: "boot \<Rightarrow> string + startup_state option" where
  "main_start B =
     res_bind (case load_config B (default_config_path B) of Inl e \<Rightarrow> Inl (''config: '' @ e) | Inr c \<Rightarrow> Inr c) (\<lambda>c.
       if run_mode_from_env (bo_args B) (bo_env B) = MigrateOnly
       then res_bind (ok_or ''DATABASE_URL (or persistence.database_url) required to run migrations''
                        (nonempty (sc_database_url c))) (\<lambda>url.
            case bo_migrate B url of Some e \<Rightarrow> Inl (''migrations: '' @ e) | None \<Rightarrow> Inr None)
       else res_bind (startup B c) (\<lambda>su. Inr (Some su)))"

end
