(* ===== verification/A2a_Mapping.thy ===== *)
theory A2a_Mapping
  imports Json Http_Dto
begin

text \<open>
  The A2A envelopes (\<open>orchestrator-api/src/adapters.rs\<close>): version negotiation and the reading of a JSON
  envelope as a checkout request, a cart command or an identity link. The readers \<open>serde\<close> derives for
  whole objects are arguments (\<open>from_checkout\<close>, \<open>from_identity\<close>); the cart commands are read by hand in the
  code and here.
\<close>

section \<open>Versions\<close>

definition A2A_PROFILE_VERSION :: string where "A2A_PROFILE_VERSION = ''1.0''"

definition A2A_SUPPORTED_PROFILE_VERSIONS :: "string list" where
  "A2A_SUPPORTED_PROFILE_VERSIONS = [A2A_PROFILE_VERSION, ''0.3'', ''0.3.0'']"

definition normalize_a2a_version :: "string \<Rightarrow> string" where
  "normalize_a2a_version version =
     (let trimmed = str_trim version
      in case str_split (CHR ''.'') trimmed of
           major # minor # _ \<Rightarrow> major @ ''.'' @ minor
         | [major] \<Rightarrow> major
         | _ \<Rightarrow> trimmed)"

definition is_supported_a2a_profile_version :: "string \<Rightarrow> bool" where
  "is_supported_a2a_profile_version version =
     (let normalized = normalize_a2a_version version
      in list_ex (\<lambda>supported. normalize_a2a_version supported = normalized) A2A_SUPPORTED_PROFILE_VERSIONS)"

definition negotiate_a2a_version :: "string option \<Rightarrow> string + string" where
  "negotiate_a2a_version requested =
     (let version = (case requested of
                       None \<Rightarrow> ''0.3''
                     | Some v \<Rightarrow> if str_trim v = [] then ''0.3'' else str_trim v)
      in if is_supported_a2a_profile_version version then Inr (normalize_a2a_version version)
         else Inl (''unsupported A2A-Version '' @ CHR 0x27 # version @ CHR 0x27 # ''; supported: ''
                   @ str_join '', '' A2A_SUPPORTED_PROFILE_VERSIONS))"

record a2a_handoff_profile =
  hp_protocol :: string
  hp_version :: string
  hp_delegated_capability :: string
  hp_supported_versions :: "string list"

definition default_a2a_handoff_profile :: "string \<Rightarrow> a2a_handoff_profile" where
  "default_a2a_handoff_profile delegated_capability =
     \<lparr>hp_protocol = ''a2a'', hp_version = A2A_PROFILE_VERSION, hp_delegated_capability = delegated_capability,
      hp_supported_versions = A2A_SUPPORTED_PROFILE_VERSIONS\<rparr>"

record ap2_payment_metadata =
  am_handler_id :: "string option"
  am_consent_proof :: "string option"

definition extract_ap2_metadata :: "checkout_request \<Rightarrow> ap2_payment_metadata" where
  "extract_ap2_metadata request =
     \<lparr>am_handler_id = pi_payment_handler_id (cr_payment_intent request),
      am_consent_proof = pi_ap2_consent_proof (cr_payment_intent request)\<rparr>"

record mpp_payment_metadata =
  mm_method :: "string option"
  mm_intent :: "string option"

definition extract_mpp_metadata :: "checkout_request \<Rightarrow> mpp_payment_metadata" where
  "extract_mpp_metadata request =
     \<lparr>mm_method = pi_mpp_method (cr_payment_intent request), mm_intent = pi_mpp_intent (cr_payment_intent request)\<rparr>"

section \<open>Envelopes\<close>

definition CHECKOUT_CAPABILITIES :: "string list" where
  "CHECKOUT_CAPABILITIES = [''dev.ucp.shopping.checkout'', ''checkout'', ''ucp.shopping.checkout'']"

definition CART_CAPABILITIES :: "string list" where
  "CART_CAPABILITIES = [''dev.ucp.shopping.checkout'', ''dev.ucp.shopping.discount'', ''ucp.shopping.cart'', ''cart'']"

definition IDENTITY_LINKING_CAPABILITIES :: "string list" where
  "IDENTITY_LINKING_CAPABILITIES =
     [''dev.ucp.common.identity_linking'', ''dev.ucp.identity.linking'', ''dev.ucp.identity.link'', ''identity.linking'',
      ''identity_linking'']"

text \<open>The capability and the payload of an envelope, as every reader starts.\<close>

definition envelope_capability :: "json \<Rightarrow> string + string" where
  "envelope_capability v =
     (if is_object v then ok_or ''missing or invalid capability'' (json_str_at ''capability'' v)
      else Inl ''A2A envelope must be a JSON object'')"

definition envelope_payload :: "json \<Rightarrow> string + json" where
  "envelope_payload v = ok_or ''missing payload'' (json_get ''payload'' v)"

definition prefix_err :: "string \<Rightarrow> string + 'a \<Rightarrow> string + 'a" where
  "prefix_err p x = (case x of Inl e \<Rightarrow> Inl (p @ e) | Inr a \<Rightarrow> Inr a)"

definition normalize_a2a_checkout_envelope ::
  "(json \<Rightarrow> string + checkout_request) \<Rightarrow> json \<Rightarrow> string + checkout_request" where
  "normalize_a2a_checkout_envelope from_checkout v =
     res_bind (envelope_capability v) (\<lambda>capability.
       if list_ex (\<lambda>c. c = capability \<or> ends_with capability ''.checkout'') CHECKOUT_CAPABILITIES
       then res_bind (envelope_payload v) (\<lambda>payload.
              prefix_err ''invalid checkout payload: '' (from_checkout payload))
       else Inl (''unsupported checkout capability: '' @ capability))"

text \<open>An absent or mistyped text field reads as the empty text, an absent quantity as zero.\<close>

definition str_or_empty :: "string \<Rightarrow> json \<Rightarrow> string" where
  "str_or_empty k v = (case json_str_at k v of None \<Rightarrow> [] | Some s \<Rightarrow> s)"

text \<open>\<open>as_u64().unwrap_or(0) as u32\<close>\<close>

definition quantity_at :: "json \<Rightarrow> u32" where
  "quantity_at v = (case json_u64_at ''quantity'' v of None \<Rightarrow> 0 | Some n \<Rightarrow> ucast n)"

definition cart_id_at :: "text_env \<Rightarrow> json \<Rightarrow> string + cart_id" where
  "cart_id_at T v = res_bind (ok_or ''missing cart_id'' (json_str_at ''cart_id'' v)) (parse_cart_id T)"

definition cart_value_to_command :: "text_env \<Rightarrow> json \<Rightarrow> string + cart_command" where
  "cart_value_to_command T v =
     res_bind (ok_or ''command must have kind'' (json_str_at ''kind'' v)) (\<lambda>kind.
       if kind = ''create_cart'' then
         Inr (CreateCart \<lparr>cc_merchant_id = str_or_empty ''merchant_id'' v, cc_currency = str_or_empty ''currency'' v,
                          cc_tenant_id = None\<rparr>)
       else if kind = ''add_item'' then
         Inr (AddItem \<lparr>ai_item_id = str_or_empty ''item_id'' v, ai_quantity = quantity_at v\<rparr>)
       else if kind = ''update_item_qty'' then
         Inr (UpdateItemQty \<lparr>uq_line_id = str_or_empty ''line_id'' v, uq_quantity = quantity_at v\<rparr>)
       else if kind = ''remove_item'' then Inr (RemoveItem \<lparr>ri_line_id = str_or_empty ''line_id'' v\<rparr>)
       else if kind = ''apply_adjustment'' then Inr (ApplyAdjustment \<lparr>aa_code = str_or_empty ''code'' v\<rparr>)
       else if kind = ''get_cart'' then
         res_bind (cart_id_at T v) (\<lambda>c. Inr (GetCart \<lparr>gc_cart_id = c\<rparr>))
       else if kind = ''start_checkout'' then
         (case json_str_at ''cart_id'' v of
            None \<Rightarrow> Inl ''missing cart_id''
          | Some s \<Rightarrow>
              let cart_version = (case json_u64_at ''cart_version'' v of None \<Rightarrow> 1 | Some n \<Rightarrow> n)
              in res_bind (parse_cart_id T s) (\<lambda>c. Inr (StartCheckout \<lparr>sc_cart_id = c, sc_cart_version = cart_version\<rparr>)))
       else Inl (''unknown command kind: '' @ kind))"

definition normalize_a2a_cart_envelope :: "text_env \<Rightarrow> json \<Rightarrow> string + cart_command \<times> cart_id option" where
  "normalize_a2a_cart_envelope T v =
     res_bind (envelope_capability v) (\<lambda>capability.
       if capability \<in> set CART_CAPABILITIES \<or> str_contains capability ''cart'' \<or> str_contains capability ''checkout'' \<or>
          str_contains capability ''discount''
       then res_bind (envelope_payload v) (\<lambda>payload.
              res_bind (case json_str_at ''cart_id'' payload of
                          None \<Rightarrow> Inr None
                        | Some s \<Rightarrow> if s = [] then Inr None
                                    else prefix_err ''invalid cart_id: '' (res_bind (parse_cart_id T s) (\<lambda>c. Inr (Some c))))
                (\<lambda>cart_id.
              res_bind (ok_or ''missing command'' (json_get ''command'' payload)) (\<lambda>cmd_value.
              res_bind (cart_value_to_command T cmd_value) (\<lambda>cmd. Inr (cmd, cart_id)))))
       else Inl (''unsupported cart capability: '' @ capability))"

definition normalize_a2a_identity_link_envelope ::
  "(json \<Rightarrow> string + identity_link_request) \<Rightarrow> json \<Rightarrow> string + identity_link_request" where
  "normalize_a2a_identity_link_envelope from_identity v =
     res_bind (envelope_capability v) (\<lambda>capability.
       if capability \<in> set IDENTITY_LINKING_CAPABILITIES \<or> str_contains capability ''identity'' \<or>
          str_contains capability ''link''
       then res_bind (envelope_payload v) (\<lambda>payload.
              prefix_err ''invalid identity payload: '' (from_identity payload))
       else Inl (''unsupported identity linking capability: '' @ capability))"

end
