(* ===== verification/A2a_Routes.thy ===== *)
theory A2a_Routes
  imports A2a_Mapping Http_Routes
begin

text \<open>
  The A2A bindings of the HTTP server: the capability routes of \<open>routes/v1.rs\<close> and the
  message binding of \<open>routes/a2a.rs\<close>. What \<open>serde\<close> derives for whole objects is the record \<open>json_codec\<close>: the
  readers of checkout requests, identity links and payment intents, the JSON values of the objects a handler
  answers with, and the reader of a request body. A reply is its status and its JSON body, printed by the
  library.
\<close>

record json_codec =
  jc_checkout :: "json \<Rightarrow> string + checkout_request"
  jc_identity :: "json \<Rightarrow> string + identity_link_request"
  jc_intent :: "json \<Rightarrow> string + payment_intent"
  jc_of_cart_dto :: "cart_projection_dto \<Rightarrow> json"
  jc_of_transaction_dto :: "transaction_result_dto \<Rightarrow> json"
  jc_of_identity_dto :: "identity_link_result_dto \<Rightarrow> json"
  jc_of_order_dto :: "order_dto \<Rightarrow> json"
  jc_of_cart :: "cart_projection \<Rightarrow> json"
  jc_of_transaction :: "transaction_result \<Rightarrow> json"
  jc_of_order :: "order_record \<Rightarrow> json"
  jc_of_item :: "catalog_item \<Rightarrow> json"
  jc_print_cart :: "cart_projection \<Rightarrow> string"
  jc_print_order :: "order_record \<Rightarrow> string"
  jc_parse :: "string \<Rightarrow> string + json"

section \<open>Capability routes\<close>

definition a2a_version :: "app_state \<Rightarrow> header_map \<Rightarrow> string hnd" where
  "a2a_version st headers =
     or_bad_request (negotiate_a2a_version (header_get (as_values st) headers ''a2a-version''))"

definition run_a2a_checkout :: "app_state \<Rightarrow> json_codec \<Rightarrow> auth_context \<Rightarrow> json \<Rightarrow> transaction_result_dto hnd" where
  "run_a2a_checkout st C auth body =
     op_bind (or_bad_request (normalize_a2a_checkout_envelope (jc_checkout C) body)) (checkout_call st auth)"

definition run_a2a_cart :: "app_state \<Rightarrow> auth_context \<Rightarrow> json \<Rightarrow> cart_projection_dto hnd" where
  "run_a2a_cart st auth body =
     op_bind (or_bad_request (normalize_a2a_cart_envelope (as_text st) body)) (\<lambda>(cmd, cart_id).
     op_bind (cart_call st auth cmd cart_id) (\<lambda>projection.
     op_return (cart_to_dto (as_text st) projection)))"

definition run_a2a_identity_link :: "app_state \<Rightarrow> json_codec \<Rightarrow> auth_context \<Rightarrow> json \<Rightarrow> identity_link_result_dto hnd" where
  "run_a2a_identity_link st C auth body =
     op_bind (or_bad_request (normalize_a2a_identity_link_envelope (jc_identity C) body)) (link_identity_for st auth)"

definition run_a2a_order_query :: "app_state \<Rightarrow> json_codec \<Rightarrow> auth_context \<Rightarrow> json \<Rightarrow> json hnd" where
  "run_a2a_order_query st C auth body =
     op_bind (op_ok_or (BadRequest ''payload.order_id is required'')
                (Option.bind (json_get ''payload'' body) (json_str_at ''order_id''))) (\<lambda>order_id.
     op_bind (tenant_order auth order_id) (\<lambda>order.
     op_return (JObj [(''capability'', JStr ''dev.ucp.order.query''),
                      (''result'', jc_of_order_dto C (order_to_dto (as_text st) order))])))"

definition h_a2a_execute_checkout ::
  "app_state \<Rightarrow> json_codec \<Rightarrow> auth_context \<Rightarrow> header_map \<Rightarrow> json \<Rightarrow> transaction_result_dto hnd" where
  "h_a2a_execute_checkout st C auth headers body =
     op_bind (a2a_version st headers) (\<lambda>_. run_a2a_checkout st C auth body)"

definition h_a2a_dispatch_cart_command ::
  "app_state \<Rightarrow> auth_context \<Rightarrow> header_map \<Rightarrow> json \<Rightarrow> cart_projection_dto hnd" where
  "h_a2a_dispatch_cart_command st auth headers body =
     op_bind (a2a_version st headers) (\<lambda>_. run_a2a_cart st auth body)"

definition h_a2a_link_identity ::
  "app_state \<Rightarrow> json_codec \<Rightarrow> auth_context \<Rightarrow> header_map \<Rightarrow> json \<Rightarrow> identity_link_result_dto hnd" where
  "h_a2a_link_identity st C auth headers body =
     op_bind (a2a_version st headers) (\<lambda>_. run_a2a_identity_link st C auth body)"

definition h_a2a_get_order :: "app_state \<Rightarrow> json_codec \<Rightarrow> auth_context \<Rightarrow> header_map \<Rightarrow> json \<Rightarrow> json hnd" where
  "h_a2a_get_order st C auth headers body =
     op_bind (a2a_version st headers) (\<lambda>_. run_a2a_order_query st C auth body)"

section \<open>Replies of the message binding\<close>

type_synonym a2a_reply = "u16 \<times> json"

definition A2A_BINDING_VERSION :: string where "A2A_BINDING_VERSION = ''1.0''"
definition A2A_ERROR_DOMAIN :: string where "A2A_ERROR_DOMAIN = ''a2a-protocol.org''"

definition IDENTITY_CAPABILITIES :: "string list" where
  "IDENTITY_CAPABILITIES = [''dev.ucp.identity.linking'', ''dev.ucp.common.identity_linking'']"

definition rpc_status :: "u16 \<Rightarrow> string" where
  "rpc_status status =
     (if status = 400 then ''INVALID_ARGUMENT'' else if status = 401 then ''UNAUTHENTICATED''
      else if status = 403 then ''PERMISSION_DENIED'' else if status = 404 then ''NOT_FOUND''
      else if status = 409 then ''ABORTED'' else if status = 422 then ''FAILED_PRECONDITION''
      else if status = 501 then ''UNIMPLEMENTED'' else if 502 \<le> status \<and> status \<le> 504 then ''UNAVAILABLE''
      else ''INTERNAL'')"

definition a2a_error_body :: "u16 \<Rightarrow> string \<Rightarrow> string \<Rightarrow> string \<Rightarrow> a2a_reply" where
  "a2a_error_body status reason domain message =
     (status, JObj [(''error'', JObj
        [(''code'', JInt (uint status)), (''status'', JStr (rpc_status status)), (''message'', JStr message),
         (''details'', JArr [JObj [(''@type'', JStr ''type.googleapis.com/google.rpc.ErrorInfo''),
                                   (''reason'', JStr reason), (''domain'', JStr domain)]])])])"

definition a2a_error :: "u16 \<Rightarrow> string \<Rightarrow> string \<Rightarrow> a2a_reply" where
  "a2a_error status reason message = a2a_error_body status reason A2A_ERROR_DOMAIN message"

definition invalid_params :: "string \<Rightarrow> a2a_reply" where
  "invalid_params message = a2a_error 400 ''INVALID_PARAMS'' message"

definition task_not_found :: "string \<Rightarrow> a2a_reply" where
  "task_not_found task_id =
     a2a_error 404 ''TASK_NOT_FOUND''
       (''task '' @ CHR 0x27 # task_id @ CHR 0x27 # '' not found; this agent replies with messages, not tasks'')"

definition version_error :: "app_state \<Rightarrow> header_map \<Rightarrow> a2a_reply option" where
  "version_error st headers =
     (let version = (case header_get (as_values st) headers ''a2a-version'' of
                       None \<Rightarrow> ''0.3''
                     | Some v \<Rightarrow> if str_trim v = [] then ''0.3'' else str_trim v)
      in if version = A2A_BINDING_VERSION then None
         else Some (a2a_error 400 ''VERSION_NOT_SUPPORTED''
                (''A2A-Version '' @ CHR 0x27 # version @ CHR 0x27 # '' is not supported; this interface speaks ''
                 @ A2A_BINDING_VERSION)))"

section \<open>Messages\<close>

definition skill_for :: "json \<Rightarrow> string" where
  "skill_for envelope =
     (let capability = (case as_str (json_index envelope ''capability'') of None \<Rightarrow> [] | Some s \<Rightarrow> s);
          payload = json_index envelope ''payload''
      in if capability \<in> set IDENTITY_CAPABILITIES then ''identity-linking''
         else if json_get ''order_id'' payload \<noteq> None then ''order-lookup''
         else if json_get ''command'' payload \<noteq> None then ''cart''
         else ''checkout'')"

text \<open>The first part of the message that carries an object under \<open>data\<close>.\<close>

definition data_part :: "json \<Rightarrow> json option" where
  "data_part message =
     (case as_array (json_index message ''parts'') of
        None \<Rightarrow> None
      | Some parts \<Rightarrow>
          Option.bind (find (\<lambda>part. case json_get ''data'' part of None \<Rightarrow> False | Some d \<Rightarrow> is_object d) parts)
            (json_get ''data''))"

definition run_skill :: "app_state \<Rightarrow> json_codec \<Rightarrow> auth_context \<Rightarrow> json \<Rightarrow> json hnd" where
  "run_skill st C auth envelope =
     (let skill = skill_for envelope
      in if skill = ''identity-linking''
         then op_bind (run_a2a_identity_link st C auth envelope) (\<lambda>d. op_return (jc_of_identity_dto C d))
         else if skill = ''order-lookup'' then run_a2a_order_query st C auth envelope
         else if skill = ''cart'' then op_bind (run_a2a_cart st auth envelope) (\<lambda>d. op_return (jc_of_cart_dto C d))
         else op_bind (run_a2a_checkout st C auth envelope) (\<lambda>d. op_return (jc_of_transaction_dto C d)))"

definition new_uuid :: "app_state \<Rightarrow> world \<Rightarrow> string \<times> world" where
  "new_uuid st w =
     (te_show_uuid (as_text st) (ru_new_v4 (fa_runner (as_facade st)) (w_uuid w)), w\<lparr>w_uuid := Suc (w_uuid w)\<rparr>)"

definition agent_message :: "app_state \<Rightarrow> json \<Rightarrow> json \<Rightarrow> world \<Rightarrow> a2a_reply \<times> world" where
  "agent_message st message data w =
     (case (case as_str (json_index message ''contextId'') of Some c \<Rightarrow> (c, w) | None \<Rightarrow> new_uuid st w) of
        (context_id, w) \<Rightarrow>
          (case new_uuid st w of
             (message_id, w) \<Rightarrow>
               ((200, JObj [(''message'', JObj
                   [(''messageId'', JStr message_id), (''contextId'', JStr context_id), (''role'', JStr ''ROLE_AGENT''),
                    (''parts'', JArr [JObj [(''data'', data), (''mediaType'', JStr ''application/json'')]])])]), w)))"

definition answer_envelope ::
  "app_state \<Rightarrow> json_codec \<Rightarrow> auth_context \<Rightarrow> json \<Rightarrow> json \<Rightarrow> world \<Rightarrow> a2a_reply \<times> world" where
  "answer_envelope st C auth message envelope w =
     (case run_skill st C auth envelope w of
        (Inr data, w') \<Rightarrow> agent_message st message data w'
      | (Inl e, w') \<Rightarrow>
          (case api_error_parts (as_text st) e of
             (status, code, text') \<Rightarrow> (a2a_error_body status code ''commerce-orchestrator'' text', w')))"

definition send_message ::
  "app_state \<Rightarrow> json_codec \<Rightarrow> auth_context \<Rightarrow> header_map \<Rightarrow> string \<Rightarrow> world \<Rightarrow> a2a_reply \<times> world" where
  "send_message st C auth headers body w =
     (case version_error st headers of
        Some reply \<Rightarrow> (reply, w)
      | None \<Rightarrow>
          (case jc_parse C body of
             Inl e \<Rightarrow> (invalid_params (''body is not JSON: '' @ e), w)
           | Inr request \<Rightarrow>
               let message = json_index request ''message'' in
               if as_str (json_index message ''messageId'') \<in> {None, Some []}
               then (invalid_params ''message.messageId is required'', w)
               else if json_index message ''role'' \<noteq> JStr ''ROLE_USER''
               then (invalid_params ''message.role must be ROLE_USER'', w)
               else case as_str (json_index message ''taskId'') of
                 Some task_id \<Rightarrow> (task_not_found task_id, w)
               | None \<Rightarrow>
                   (case data_part message of
                      None \<Rightarrow> (invalid_params ''message.parts must include a DataPart carrying {capability, payload}'', w)
                    | Some envelope \<Rightarrow> answer_envelope st C auth message envelope w)))"

definition post_operation ::
  "app_state \<Rightarrow> json_codec \<Rightarrow> auth_context \<Rightarrow> string \<Rightarrow> header_map \<Rightarrow> string \<Rightarrow> world \<Rightarrow> a2a_reply \<times> world" where
  "post_operation st C auth operation headers body w =
     (if operation \<noteq> ''message:send''
      then (a2a_error 400 ''UNSUPPORTED_OPERATION'' (CHR 0x27 # operation @ CHR 0x27 # '' is not supported by this agent''), w)
      else send_message st C auth headers body w)"

definition get_task :: "app_state \<Rightarrow> string \<Rightarrow> header_map \<Rightarrow> a2a_reply" where
  "get_task st task headers =
     (case version_error st headers of Some reply \<Rightarrow> reply | None \<Rightarrow> task_not_found task)"

definition post_task :: "app_state \<Rightarrow> string \<Rightarrow> header_map \<Rightarrow> a2a_reply" where
  "post_task st task headers =
     (case version_error st headers of
        Some reply \<Rightarrow> reply
      | None \<Rightarrow>
          (case rsplit_once (CHR '':'') task of
             Some (i, op') \<Rightarrow> if op' = ''cancel'' \<or> op' = ''subscribe'' then task_not_found i
                            else a2a_error 400 ''UNSUPPORTED_OPERATION'' ''unknown task operation''
           | None \<Rightarrow> a2a_error 400 ''UNSUPPORTED_OPERATION'' ''unknown task operation''))"

end
