(* ===== verification/Mcp_Tools.thy ===== *)
theory Mcp_Tools
  imports A2a_Routes
begin

text \<open>
  The MCP tool server (\<open>orchestrator-mcp\<close>): the JSON-RPC messages, the negotiation of the protocol version,
  the tool catalogue with its schemas, the reading of tool arguments, the dispatch of every tool to the
  facade and the resources. The JSON values \<open>serde\<close> derives for results come from \<open>json_codec\<close>. The metrics are
  left out.
\<close>

section \<open>JSON-RPC messages (\<open>jsonrpc.rs\<close>)\<close>

record json_rpc_request =
  rq_jsonrpc :: string
  rq_id :: json
  rq_method :: string
  rq_params :: "json option"

record json_rpc_error =
  re_code :: i64
  re_message :: string
  re_data :: "json option"

record json_rpc_response =
  rs_jsonrpc :: string
  rs_id :: json
  rs_result :: "json option"
  rs_error :: "json_rpc_error option"

definition rpc_success :: "json \<Rightarrow> json \<Rightarrow> json_rpc_response" where
  "rpc_success i result = \<lparr>rs_jsonrpc = ''2.0'', rs_id = i, rs_result = Some result, rs_error = None\<rparr>"

definition rpc_error :: "json \<Rightarrow> i64 \<Rightarrow> string \<Rightarrow> json_rpc_response" where
  "rpc_error i code message =
     \<lparr>rs_jsonrpc = ''2.0'', rs_id = i, rs_result = None,
      rs_error = Some \<lparr>re_code = code, re_message = message, re_data = None\<rparr>\<rparr>"

definition rpc_error_with_data :: "json \<Rightarrow> i64 \<Rightarrow> string \<Rightarrow> json \<Rightarrow> json_rpc_response" where
  "rpc_error_with_data i code message data =
     \<lparr>rs_jsonrpc = ''2.0'', rs_id = i, rs_result = None,
      rs_error = Some \<lparr>re_code = code, re_message = message, re_data = Some data\<rparr>\<rparr>"

definition METHOD_NOT_FOUND :: i64 where "METHOD_NOT_FOUND = - 32601"
definition INTERNAL_ERROR :: i64 where "INTERNAL_ERROR = - 32603"
definition UNSUPPORTED_PROTOCOL_VERSION :: i64 where "UNSUPPORTED_PROTOCOL_VERSION = - 32022"

section \<open>Versions\<close>

definition MCP_MODERN_VERSION :: string where "MCP_MODERN_VERSION = ''2026-07-28''"
definition MCP_LEGACY_VERSION :: string where "MCP_LEGACY_VERSION = ''2024-11-05''"
definition MCP_LEGACY_2025_VERSION :: string where "MCP_LEGACY_2025_VERSION = ''2025-11-25''"

definition MCP_SUPPORTED_VERSIONS :: "string list" where
  "MCP_SUPPORTED_VERSIONS = [MCP_MODERN_VERSION, MCP_LEGACY_2025_VERSION, MCP_LEGACY_VERSION]"

text \<open>\<open>env!("CARGO_PKG_VERSION")\<close>: the version of the workspace.\<close>

definition CARGO_PKG_VERSION :: string where "CARGO_PKG_VERSION = ''0.10.0''"

definition extract_meta_protocol_version :: "json_rpc_request \<Rightarrow> string option" where
  "extract_meta_protocol_version request =
     Option.bind (rq_params request) (\<lambda>params.
     Option.bind (json_get ''_meta'' params) (\<lambda>meta.
       Option.bind (case json_get ''io.modelcontextprotocol/protocolVersion'' meta of
                      Some v \<Rightarrow> Some v
                    | None \<Rightarrow> json_get ''protocolVersion'' meta) as_str))"

definition match_supported :: "string \<Rightarrow> string option" where
  "match_supported version = find (\<lambda>v. v = version) MCP_SUPPORTED_VERSIONS"

definition nonempty_trimmed :: "string option \<Rightarrow> string option" where
  "nonempty_trimmed x =
     (case x of None \<Rightarrow> None | Some v \<Rightarrow> if str_trim v = [] then None else Some (str_trim v))"

definition negotiate_mcp_version ::
  "string option \<Rightarrow> string option \<Rightarrow> json_rpc_request \<Rightarrow> string + string" where
  "negotiate_mcp_version header_version meta_version request =
     (case (case nonempty_trimmed header_version of Some v \<Rightarrow> Some v | None \<Rightarrow> nonempty_trimmed meta_version) of
        Some v \<Rightarrow> ok_or v (match_supported v)
      | None \<Rightarrow>
          if rq_method request = ''initialize'' \<or> rq_method request = ''notifications/initialized''
          then Inr MCP_LEGACY_VERSION
          else if rq_method request = ''server/discover'' then Inr MCP_MODERN_VERSION
          else Inr MCP_LEGACY_VERSION)"

section \<open>The tool catalogue\<close>

record tool_definition =
  td_name :: string
  td_description :: string
  td_input_schema :: json

definition typed :: "string \<Rightarrow> json" where
  "typed t = JObj [(''type'', JStr t)]"

definition described :: "string \<Rightarrow> string \<Rightarrow> json" where
  "described t d = JObj [(''type'', JStr t), (''description'', JStr d)]"

text \<open>A schema of an object with its properties and the names of the required ones.\<close>

definition object_schema :: "(string \<times> json) list \<Rightarrow> string list \<Rightarrow> json" where
  "object_schema properties required =
     JObj [(''type'', JStr ''object''), (''properties'', JObj properties), (''required'', JArr (map JStr required))]"

definition tool :: "string \<Rightarrow> string \<Rightarrow> (string \<times> string) list \<Rightarrow> tool_definition" where
  "tool name description args =
     \<lparr>td_name = name, td_description = description,
      td_input_schema = object_schema (map (\<lambda>(k, t). (k, typed t)) args) (map fst args)\<rparr>"

definition destination_schema :: json where
  "destination_schema =
     JObj [(''type'', JStr ''object''),
           (''description'', JStr ''Shipping address, or the retail location for pickup (name is then required).''),
           (''properties'', JObj (map (\<lambda>k. (k, typed ''string''))
              [''id'', ''name'', ''street_address'', ''extended_address'', ''address_locality'', ''address_region'',
               ''address_country'', ''postal_code'', ''first_name'', ''last_name'', ''phone_number''])),
           (''required'', JArr [JStr ''id''])]"

definition fulfillment_tool :: tool_definition where
  "fulfillment_tool =
     \<lparr>td_name = ''set_fulfillment_selection'',
      td_description = ''Quote shipping or pickup options for a cart, and optionally select one. Omit selected_option_id to see the quotes before committing.'',
      td_input_schema = object_schema
        [(''cart_id'', typed ''string''),
         (''method_type'', JObj [(''type'', JStr ''string''), (''enum'', JArr [JStr ''shipping'', JStr ''pickup''])]),
         (''destination'', destination_schema),
         (''line_item_ids'', JObj [(''type'', JStr ''array''), (''items'', typed ''string''),
            (''description'', JStr ''Lines this selection covers; omit to cover the whole cart.'')]),
         (''selected_option_id'', described ''string'' ''Must be an option id the merchant quoted for this cart.'')]
        [''cart_id'', ''method_type'', ''destination'']\<rparr>"

definition payment_fields :: "(string \<times> string) list" where
  "payment_fields =
     [(''tenant_id'', ''string''), (''merchant_id'', ''string''), (''transaction_id'', ''string''),
      (''amount_minor'', ''integer''), (''idempotency_key'', ''string'')]"

definition lookup_items_tool :: tool_definition where
  "lookup_items_tool =
     \<lparr>td_name = ''lookup_catalog_items'', td_description = ''Look up multiple catalog items by ID'',
      td_input_schema = object_schema
        [(''item_ids'', JObj [(''type'', JStr ''array''), (''items'', typed ''string'')])] [''item_ids'']\<rparr>"

definition search_items_tool :: tool_definition where
  "search_items_tool =
     \<lparr>td_name = ''search_catalog_items'', td_description = ''Search catalog items by query'',
      td_input_schema = JObj [(''type'', JStr ''object''), (''properties'', JObj [(''query'', typed ''string'')])]\<rparr>"

definition list_tools :: "tool_definition list" where
  "list_tools =
     [tool ''create_cart'' ''Create a new shopping cart'' [(''merchant_id'', ''string''), (''currency'', ''string'')],
      tool ''add_item'' ''Add an item to a cart''
        [(''cart_id'', ''string''), (''item_id'', ''string''), (''quantity'', ''integer'')],
      tool ''update_item_qty'' ''Update item quantity in a cart''
        [(''cart_id'', ''string''), (''line_id'', ''string''), (''quantity'', ''integer'')],
      tool ''remove_item'' ''Remove an item from a cart'' [(''cart_id'', ''string''), (''line_id'', ''string'')],
      tool ''apply_adjustment'' ''Apply a discount or promo code'' [(''cart_id'', ''string''), (''code'', ''string'')],
      fulfillment_tool,
      tool ''get_cart'' ''Get current cart state'' [(''cart_id'', ''string'')],
      tool ''start_checkout'' ''Mark cart as checkout-ready'' [(''cart_id'', ''string''), (''cart_version'', ''integer'')],
      tool ''execute_checkout'' ''Execute checkout for a cart''
        [(''tenant_id'', ''string''), (''merchant_id'', ''string''), (''cart_id'', ''string''), (''cart_version'', ''integer''),
         (''currency'', ''string''), (''payment_intent'', ''object''), (''idempotency_key'', ''string'')],
      tool ''get_order'' ''Retrieve an order by ID'' [(''order_id'', ''string'')],
      tool ''list_orders'' ''List orders for a tenant'' [(''tenant_id'', ''string'')],
      tool ''capture_payment'' ''Capture an authorized payment'' payment_fields,
      tool ''void_payment'' ''Void an authorized payment'' payment_fields,
      tool ''refund_payment'' ''Refund a captured payment'' payment_fields,
      tool ''lookup_catalog_item'' ''Look up a catalog item by ID'' [(''item_id'', ''string'')],
      lookup_items_tool,
      search_items_tool]"

text \<open>The JSON value \<open>serde\<close> derives for a \<open>ToolDefinition\<close>.\<close>

definition tool_json :: "tool_definition \<Rightarrow> json" where
  "tool_json t =
     JObj [(''name'', JStr (td_name t)), (''description'', JStr (td_description t)), (''input_schema'', td_input_schema t)]"

section \<open>Arguments\<close>

definition missing_field :: "string \<Rightarrow> string" where
  "missing_field k = ''missing required field: '' @ k"

definition get_str :: "json \<Rightarrow> string \<Rightarrow> string + string" where
  "get_str params k = ok_or (missing_field k) (json_str_at k params)"

definition get_u64 :: "json \<Rightarrow> string \<Rightarrow> string + u64" where
  "get_u64 params k = ok_or (missing_field k) (json_u64_at k params)"

definition get_i64 :: "json \<Rightarrow> string \<Rightarrow> string + i64" where
  "get_i64 params k = ok_or (missing_field k) (json_i64_at k params)"

definition optional_str :: "json \<Rightarrow> string \<Rightarrow> string option" where
  "optional_str params k = json_str_at k params"

definition strings_of :: "string \<Rightarrow> json list \<Rightarrow> string + string list" where
  "strings_of e values = res_map (\<lambda>v. ok_or e (as_str v)) values"

definition address_of :: "json \<Rightarrow> postal_address" where
  "address_of destination =
     \<lparr>pa_extended_address = optional_str destination ''extended_address'',
      pa_street_address = optional_str destination ''street_address'',
      pa_address_locality = optional_str destination ''address_locality'',
      pa_address_region = optional_str destination ''address_region'',
      pa_address_country = optional_str destination ''address_country'',
      pa_postal_code = optional_str destination ''postal_code'',
      pa_first_name = optional_str destination ''first_name'',
      pa_last_name = optional_str destination ''last_name'',
      pa_phone_number = optional_str destination ''phone_number''\<rparr>"

definition fulfillment_selection_payload :: "json \<Rightarrow> string + set_fulfillment_selection_payload" where
  "fulfillment_selection_payload args =
     res_bind (get_str args ''method_type'') (\<lambda>m.
     res_bind (if m = ''shipping'' then Inr Shipping else if m = ''pickup'' then Inr Pickup
               else Inl (''unsupported method_type: '' @ m)) (\<lambda>method_type.
     res_bind (ok_or (missing_field ''destination'') (json_get ''destination'' args)) (\<lambda>destination.
     res_bind (get_str destination ''id'') (\<lambda>i.
     res_bind (case method_type of
                 Pickup \<Rightarrow> res_bind (ok_or ''destination.name is required for pickup'' (optional_str destination ''name''))
                             (\<lambda>name. Inr (RetailDest i name (Some (address_of destination))))
               | Shipping \<Rightarrow> Inr (ShippingDest i (address_of destination))) (\<lambda>dest.
     res_bind (case Option.bind (json_get ''line_item_ids'' args) as_array of
                 None \<Rightarrow> Inr []
               | Some values \<Rightarrow> strings_of ''line_item_ids must contain only strings'' values) (\<lambda>line_item_ids.
     Inr \<lparr>sf_method_type = method_type, sf_line_item_ids = line_item_ids, sf_destination = dest,
          sf_selected_option_id = optional_str args ''selected_option_id''\<rparr>))))))"

section \<open>Tools\<close>

text \<open>A tool answers with a JSON value or the text of its error.\<close>

type_synonym mcp = "(world, string, json) op"

definition arg :: "string + 'a \<Rightarrow> (world, string, 'a) op" where
  "arg x = (case x of Inl e \<Rightarrow> op_fail e | Inr a \<Rightarrow> op_return a)"

text \<open>\<open>.await.map_err(|e| e.to_string())?\<close>\<close>

definition facade_call :: "app_state \<Rightarrow> 'a fac \<Rightarrow> (world, string, 'a) op" where
  "facade_call st m = op_map_err (facade_error_display (as_text st)) m"

definition cart_tool :: "app_state \<Rightarrow> json_codec \<Rightarrow> auth_context \<Rightarrow> cart_command \<Rightarrow> cart_id option \<Rightarrow> mcp" where
  "cart_tool st C auth cmd cart_id =
     op_bind (facade_call st (dispatch_cart_command_for_tenant (as_facade st) (ac_tenant_id auth) cmd cart_id)) (\<lambda>proj.
     op_return (jc_of_cart C proj))"

text \<open>The cart tools that name a cart: the id is read first, then the command.\<close>

definition on_cart ::
  "app_state \<Rightarrow> json_codec \<Rightarrow> auth_context \<Rightarrow> json \<Rightarrow> (cart_id \<Rightarrow> string + cart_command) \<Rightarrow> mcp" where
  "on_cart st C auth args command =
     op_bind (arg (res_bind (get_str args ''cart_id'') (parse_cart_id (as_text st)))) (\<lambda>c.
     op_bind (arg (command c)) (\<lambda>cmd. cart_tool st C auth cmd (Some c)))"

definition tool_create_cart :: "app_state \<Rightarrow> json_codec \<Rightarrow> auth_context \<Rightarrow> json \<Rightarrow> mcp" where
  "tool_create_cart st C auth args =
     op_bind (arg (get_str args ''merchant_id'')) (\<lambda>merchant_id.
     op_bind (arg (get_str args ''currency'')) (\<lambda>currency.
     cart_tool st C auth
       (CreateCart \<lparr>cc_merchant_id = merchant_id, cc_currency = currency, cc_tenant_id = Some (ac_tenant_id auth)\<rparr>) None))"

text \<open>\<open>get_u64(args, "quantity")? as u32\<close>\<close>

definition add_item_command :: "json \<Rightarrow> cart_id \<Rightarrow> string + cart_command" where
  "add_item_command args c =
     res_bind (get_str args ''item_id'') (\<lambda>item_id. res_bind (get_u64 args ''quantity'') (\<lambda>quantity.
     Inr (AddItem \<lparr>ai_item_id = item_id, ai_quantity = ucast quantity\<rparr>)))"

definition update_item_command :: "json \<Rightarrow> cart_id \<Rightarrow> string + cart_command" where
  "update_item_command args c =
     res_bind (get_str args ''line_id'') (\<lambda>line_id. res_bind (get_u64 args ''quantity'') (\<lambda>quantity.
     Inr (UpdateItemQty \<lparr>uq_line_id = line_id, uq_quantity = ucast quantity\<rparr>)))"

definition remove_item_command :: "json \<Rightarrow> cart_id \<Rightarrow> string + cart_command" where
  "remove_item_command args c =
     res_bind (get_str args ''line_id'') (\<lambda>line_id. Inr (RemoveItem \<lparr>ri_line_id = line_id\<rparr>))"

definition apply_adjustment_command :: "json \<Rightarrow> cart_id \<Rightarrow> string + cart_command" where
  "apply_adjustment_command args c =
     res_bind (get_str args ''code'') (\<lambda>code. Inr (ApplyAdjustment \<lparr>aa_code = code\<rparr>))"

definition set_fulfillment_command :: "json \<Rightarrow> cart_id \<Rightarrow> string + cart_command" where
  "set_fulfillment_command args c =
     res_bind (fulfillment_selection_payload args) (\<lambda>payload. Inr (SetFulfillmentSelection payload))"

definition get_cart_tool_command :: "cart_id \<Rightarrow> string + cart_command" where
  "get_cart_tool_command c = Inr (GetCart \<lparr>gc_cart_id = c\<rparr>)"

definition start_checkout_tool_command :: "json \<Rightarrow> cart_id \<Rightarrow> string + cart_command" where
  "start_checkout_tool_command args c =
     res_bind (get_u64 args ''cart_version'') (\<lambda>v. Inr (StartCheckout \<lparr>sc_cart_id = c, sc_cart_version = v\<rparr>))"

definition checkout_arguments :: "app_state \<Rightarrow> json_codec \<Rightarrow> json \<Rightarrow> string + checkout_request" where
  "checkout_arguments st C args =
     res_bind (get_str args ''tenant_id'') (\<lambda>tenant_id.
     res_bind (get_str args ''merchant_id'') (\<lambda>merchant_id.
     res_bind (res_bind (get_str args ''cart_id'') (parse_cart_id (as_text st))) (\<lambda>cart_id.
     res_bind (get_u64 args ''cart_version'') (\<lambda>cart_version.
     res_bind (get_str args ''currency'') (\<lambda>currency.
     res_bind (res_bind (ok_or ''missing payment_intent'' (json_get ''payment_intent'' args)) (jc_intent C)) (\<lambda>intent.
     res_bind (get_str args ''idempotency_key'') (\<lambda>idempotency_key.
     Inr \<lparr>cr_tenant_id = tenant_id, cr_merchant_id = merchant_id, cr_cart_id = cart_id, cr_cart_version = cart_version,
          cr_currency = currency, cr_customer = None, cr_location = None, cr_payment_intent = intent,
          cr_idempotency_key = idempotency_key\<rparr>)))))))"

definition tool_execute_checkout :: "app_state \<Rightarrow> json_codec \<Rightarrow> auth_context \<Rightarrow> json \<Rightarrow> mcp" where
  "tool_execute_checkout st C auth args =
     op_bind (arg (checkout_arguments st C args)) (\<lambda>request.
     op_bind (facade_call st (execute_checkout_authorized (as_facade st) auth request)) (\<lambda>result.
     op_return (jc_of_transaction C result)))"

definition order_by_id :: "app_state \<Rightarrow> string \<Rightarrow> (world, string, order_record) op" where
  "order_by_id st order_id =
     op_bind (facade_call st (facade_get_order order_id)) (op_ok_or ''order not found'')"

definition tool_get_order :: "app_state \<Rightarrow> json_codec \<Rightarrow> json \<Rightarrow> mcp" where
  "tool_get_order st C args =
     op_bind (arg (get_str args ''order_id'')) (\<lambda>order_id.
     op_bind (order_by_id st order_id) (\<lambda>order. op_return (jc_of_order C order)))"

definition tool_list_orders :: "app_state \<Rightarrow> json_codec \<Rightarrow> json \<Rightarrow> mcp" where
  "tool_list_orders st C args =
     op_bind (arg (get_str args ''tenant_id'')) (\<lambda>tenant_id.
     op_bind (facade_call st (facade_list_orders tenant_id)) (\<lambda>orders.
     op_return (JArr (map (jc_of_order C) orders))))"

definition payment_arguments :: "json \<Rightarrow> string + payment_lifecycle_request" where
  "payment_arguments args =
     res_bind (get_str args ''tenant_id'') (\<lambda>tenant_id.
     res_bind (get_str args ''merchant_id'') (\<lambda>merchant_id.
     res_bind (get_str args ''transaction_id'') (\<lambda>transaction_id.
     res_bind (get_i64 args ''amount_minor'') (\<lambda>amount_minor.
     res_bind (get_str args ''idempotency_key'') (\<lambda>idempotency_key.
     Inr \<lparr>pl_tenant_id = tenant_id, pl_merchant_id = merchant_id, pl_transaction_id = transaction_id,
          pl_amount_minor = amount_minor, pl_idempotency_key = idempotency_key\<rparr>)))))"

definition payment_tool ::
  "app_state \<Rightarrow> (payment_lifecycle_request \<Rightarrow> payment_operation_result fac) \<Rightarrow> json \<Rightarrow> mcp" where
  "payment_tool st call args =
     op_bind (arg (payment_arguments args)) (\<lambda>request.
     op_bind (facade_call st (call request)) (\<lambda>r.
     op_return (JObj [(''success'', JBool (por_success r)), (''reference'', JStr (por_reference r))])))"

definition tool_lookup_item :: "app_state \<Rightarrow> json \<Rightarrow> mcp" where
  "tool_lookup_item st args =
     op_bind (arg (get_str args ''item_id'')) (\<lambda>item_id.
     op_bind (facade_call st (facade_lookup_catalog_item (as_facade st) item_id)) (\<lambda>item.
     op_return (JObj [(''id'', JStr (ci_id item)), (''title'', JStr (ci_title item)), (''price_minor'', JInt (ci_price_minor item))])))"

definition tool_lookup_items :: "app_state \<Rightarrow> json_codec \<Rightarrow> json \<Rightarrow> mcp" where
  "tool_lookup_items st C args =
     op_bind (arg (res_bind (ok_or (missing_field ''item_ids'') (Option.bind (json_get ''item_ids'' args) as_array))
                     (strings_of ''item_ids must contain only strings''))) (\<lambda>item_ids.
     op_bind (facade_call st (facade_lookup_catalog_items (as_facade st) item_ids)) (\<lambda>items.
     op_return (JArr (map (jc_of_item C) items))))"

definition tool_search_items :: "app_state \<Rightarrow> json_codec \<Rightarrow> json \<Rightarrow> mcp" where
  "tool_search_items st C args =
     op_bind (facade_call st (facade_search_catalog_items (as_facade st) (json_str_at ''query'' args))) (\<lambda>items.
     op_return (JArr (map (jc_of_item C) items)))"

definition dispatch_tool :: "app_state \<Rightarrow> json_codec \<Rightarrow> auth_context \<Rightarrow> string \<Rightarrow> json \<Rightarrow> mcp" where
  "dispatch_tool st C auth name args =
     (if name = ''create_cart'' then tool_create_cart st C auth args
      else if name = ''add_item'' then on_cart st C auth args (add_item_command args)
      else if name = ''update_item_qty'' then on_cart st C auth args (update_item_command args)
      else if name = ''remove_item'' then on_cart st C auth args (remove_item_command args)
      else if name = ''apply_adjustment'' then on_cart st C auth args (apply_adjustment_command args)
      else if name = ''set_fulfillment_selection'' then on_cart st C auth args (set_fulfillment_command args)
      else if name = ''get_cart'' then on_cart st C auth args get_cart_tool_command
      else if name = ''start_checkout'' then on_cart st C auth args (start_checkout_tool_command args)
      else if name = ''execute_checkout'' then tool_execute_checkout st C auth args
      else if name = ''get_order'' then tool_get_order st C args
      else if name = ''list_orders'' then tool_list_orders st C args
      else if name = ''capture_payment'' then payment_tool st (facade_capture_payment (as_facade st)) args
      else if name = ''void_payment'' then payment_tool st (facade_void_payment (as_facade st)) args
      else if name = ''refund_payment'' then payment_tool st (facade_refund_payment (as_facade st)) args
      else if name = ''lookup_catalog_item'' then tool_lookup_item st args
      else if name = ''lookup_catalog_items'' then tool_lookup_items st C args
      else if name = ''search_catalog_items'' then tool_search_items st C args
      else op_fail (''unknown tool: '' @ name))"

definition resource_contents :: "string \<Rightarrow> string \<Rightarrow> json" where
  "resource_contents uri content =
     JObj [(''contents'', JArr [JObj [(''uri'', JStr uri), (''mimeType'', JStr ''application/json''), (''text'', JStr content)]])]"

definition read_resource :: "app_state \<Rightarrow> json_codec \<Rightarrow> auth_context \<Rightarrow> string \<Rightarrow> mcp" where
  "read_resource st C auth uri =
     (case strip_prefix ''order://'' uri of
        Some order_id \<Rightarrow>
          op_bind (order_by_id st order_id) (\<lambda>order. op_return (resource_contents uri (jc_print_order C order)))
      | None \<Rightarrow>
          (case strip_prefix ''cart://'' uri of
             Some s \<Rightarrow>
               op_bind (arg (parse_cart_id (as_text st) s)) (\<lambda>c.
               op_bind (facade_call st (dispatch_cart_command_for_tenant (as_facade st) (ac_tenant_id auth)
                          (GetCart \<lparr>gc_cart_id = c\<rparr>) (Some c))) (\<lambda>proj.
               op_return (resource_contents uri (jc_print_cart C proj))))
           | None \<Rightarrow> op_fail (''unsupported resource URI: '' @ uri)))"

section \<open>Requests\<close>

definition server_info :: json where
  "server_info = JObj [(''name'', JStr ''commerce-orchestrator''), (''version'', JStr CARGO_PKG_VERSION)]"

definition server_capabilities :: json where
  "server_capabilities =
     JObj [(''tools'', JObj [(''listChanged'', JBool False)]),
           (''resources'', JObj [(''subscribe'', JBool False), (''listChanged'', JBool False)])]"

definition server_discover_payload :: json where
  "server_discover_payload =
     JObj [(''protocolVersions'', JArr (map JStr MCP_SUPPORTED_VERSIONS)), (''capabilities'', server_capabilities),
           (''serverInfo'', server_info)]"

definition initialize_payload :: "string \<Rightarrow> json" where
  "initialize_payload negotiated =
     JObj [(''protocolVersion'', JStr negotiated), (''capabilities'', server_capabilities), (''serverInfo'', server_info)]"

definition resource_entry :: "string \<Rightarrow> string \<Rightarrow> string \<Rightarrow> json" where
  "resource_entry uri name description =
     JObj [(''uri'', JStr uri), (''name'', JStr name), (''description'', JStr description),
           (''mimeType'', JStr ''application/json'')]"

definition resources_payload :: json where
  "resources_payload =
     JObj [(''resources'', JArr [resource_entry ''order://{id}'' ''Order'' ''Retrieve an order by ID'',
                                 resource_entry ''cart://{id}'' ''Cart'' ''Retrieve a cart by ID''])]"

text \<open>\<open>request.params.unwrap_or_default()\<close>; the text of a field, empty where it has none.\<close>

definition params_of :: "json_rpc_request \<Rightarrow> json" where
  "params_of request = (case rq_params request of None \<Rightarrow> JNull | Some p \<Rightarrow> p)"

text \<open>
  The method of a request: an immediate response (an unknown method, or \<open>initialize\<close> in the modern era), or
  the operation that computes the result.
\<close>

definition mcp_method ::
  "app_state \<Rightarrow> json_codec \<Rightarrow> auth_context \<Rightarrow> string \<Rightarrow> json_rpc_request \<Rightarrow> json_rpc_response + mcp" where
  "mcp_method st C auth negotiated request =
     (let m = rq_method request; params = params_of request
      in if m = ''server/discover'' then Inr (op_return server_discover_payload)
         else if m = ''tools/list'' then Inr (op_return (JObj [(''tools'', JArr (map tool_json list_tools))]))
         else if m = ''tools/call''
         then Inr (dispatch_tool st C auth (str_or_empty ''name'' params) (json_index params ''arguments''))
         else if m = ''resources/list'' then Inr (op_return resources_payload)
         else if m = ''resources/read'' then Inr (read_resource st C auth (str_or_empty ''uri'' params))
         else if m = ''initialize''
         then (if negotiated = MCP_MODERN_VERSION
               then Inl (rpc_error (rq_id request) METHOD_NOT_FOUND
                      ''initialize is not used in MCP 2026-07-28; call server/discover instead'')
               else Inr (op_return (initialize_payload negotiated)))
         else if m = ''notifications/initialized'' then Inr (op_return (JObj []))
         else Inl (rpc_error (rq_id request) METHOD_NOT_FOUND (''method not found: '' @ m)))"

text \<open>
  In the modern era a result that is an object carries the server's metadata under \<open>_meta\<close>: an existing
  object is extended, an existing value that is none is left as it is.
\<close>

definition with_server_meta :: "json \<Rightarrow> json" where
  "with_server_meta value =
     (case value of
        JObj entries \<Rightarrow>
          JObj (json_insert ''_meta''
            (case map_of entries ''_meta'' of
               None \<Rightarrow> JObj [(''io.modelcontextprotocol/serverInfo'', server_info),
                            (''io.modelcontextprotocol/protocolVersion'', JStr MCP_MODERN_VERSION)]
             | Some (JObj m) \<Rightarrow> JObj (json_insert ''io.modelcontextprotocol/protocolVersion'' (JStr MCP_MODERN_VERSION)
                                  (json_insert ''io.modelcontextprotocol/serverInfo'' server_info m))
             | Some v \<Rightarrow> v) entries)
      | v \<Rightarrow> v)"

definition unsupported_version :: "json \<Rightarrow> string \<Rightarrow> json_rpc_response" where
  "unsupported_version i requested =
     rpc_error_with_data i UNSUPPORTED_PROTOCOL_VERSION ''Unsupported protocol version''
       (JObj [(''supported'', JArr (map JStr MCP_SUPPORTED_VERSIONS)), (''requested'', JStr requested)])"

definition handle_mcp_request_with_version ::
  "app_state \<Rightarrow> json_codec \<Rightarrow> auth_context \<Rightarrow> json_rpc_request \<Rightarrow> string option \<Rightarrow> world \<Rightarrow>
   json_rpc_response \<times> world" where
  "handle_mcp_request_with_version st C auth request header_version w =
     (let meta_version = extract_meta_protocol_version request
      in case negotiate_mcp_version header_version meta_version request of
           Inl requested \<Rightarrow> (unsupported_version (rq_id request) requested, w)
         | Inr negotiated \<Rightarrow>
             if header_version \<noteq> None \<and> meta_version \<noteq> None \<and>
                map_option str_trim header_version \<noteq> map_option str_trim meta_version
             then (rpc_error (rq_id request) (- 32600)
                     ''MCP-Protocol-Version header does not match params._meta protocolVersion'', w)
             else case mcp_method st C auth negotiated request of
               Inl response \<Rightarrow> (response, w)
             | Inr run \<Rightarrow>
                 (case run w of
                    (Inr value, w') \<Rightarrow>
                      (rpc_success (rq_id request)
                         (if negotiated = MCP_MODERN_VERSION then with_server_meta value else value), w')
                  | (Inl e, w') \<Rightarrow> (rpc_error (rq_id request) INTERNAL_ERROR e, w')))"

definition handle_mcp_request ::
  "app_state \<Rightarrow> json_codec \<Rightarrow> auth_context \<Rightarrow> json_rpc_request \<Rightarrow> world \<Rightarrow> json_rpc_response \<times> world" where
  "handle_mcp_request st C auth request = handle_mcp_request_with_version st C auth request None"

text \<open>The endpoint; header names compare without case, so both lookups of the code are one.\<close>

definition mcp_message ::
  "app_state \<Rightarrow> json_codec \<Rightarrow> auth_context \<Rightarrow> header_map \<Rightarrow> json_rpc_request \<Rightarrow> world \<Rightarrow> json_rpc_response \<times> world" where
  "mcp_message st C auth headers request =
     handle_mcp_request_with_version st C auth request (header_get (as_values st) headers ''mcp-protocol-version'')"

end
