(* ===== verification/Discovery.thy ===== *)
theory Discovery
  imports Server_Config Mcp_Tools
begin

text \<open>
  What a running server says of itself: the state the binary serves with (\<open>state.rs\<close>, the end of \<open>main\<close>), the
  UCP profile in each of its versions (\<open>orchestrator-core/src/capability.rs\<close>, \<open>orchestrator-api/src/ucp_mapping.rs\<close>),
  the ACP document, the A2A agent card and the health probes (\<open>routes/discovery.rs\<close>, \<open>routes/a2a.rs\<close>,
  \<open>routes/health.rs\<close>). The ordered and hashed maps of the documents are maps from names.
\<close>

section \<open>The state served with\<close>

text \<open>The handlers' part of \<open>AppState\<close> is \<open>sd_app\<close>; its payment handlers are the texts of \<open>sd_payment_handlers\<close>.\<close>

record served =
  sd_app :: app_state
  sd_shutdown_flag :: bool
  sd_discovery_base_url :: string
  sd_inbound_keys :: "verifying_keyring option"
  sd_payment_handlers :: "(string \<times> json) list"

text \<open>What the handlers take from outside, see \<open>app_state\<close>.\<close>

record outside =
  ou_text :: text_env
  ou_values :: header_values
  ou_crypto :: crypto
  ou_url_with_pairs :: "string \<Rightarrow> (string \<times> string) list \<Rightarrow> string option"
  ou_render :: "json \<Rightarrow> string"

definition new_served :: "outside \<Rightarrow> facade \<Rightarrow> served" where
  "new_served X fa =
     \<lparr>sd_app = \<lparr>as_facade = fa, as_text = ou_text X, as_values = ou_values X, as_authn = None, as_allow_dev_auth = True,
        as_crypto = ou_crypto X, as_signing = None, as_embedded_checkout_url = None, as_payment_handlers = [],
        as_url_with_pairs = ou_url_with_pairs X\<rparr>,
      sd_shutdown_flag = False, sd_discovery_base_url = ''http://127.0.0.1:8080'', sd_inbound_keys = None,
      sd_payment_handlers = []\<rparr>"

definition with_signing :: "signing_keyring \<Rightarrow> served \<Rightarrow> served" where
  "with_signing ring sd = sd\<lparr>sd_app := (sd_app sd)\<lparr>as_signing := Some ring\<rparr>\<rparr>"

definition with_inbound_verification :: "verifying_keyring \<Rightarrow> served \<Rightarrow> served" where
  "with_inbound_verification keys sd = sd\<lparr>sd_inbound_keys := Some keys\<rparr>"

definition with_embedded_checkout_url :: "string \<Rightarrow> served \<Rightarrow> served" where
  "with_embedded_checkout_url url sd = sd\<lparr>sd_app := (sd_app sd)\<lparr>as_embedded_checkout_url := Some url\<rparr>\<rparr>"

definition with_payment_handlers :: "outside \<Rightarrow> json \<Rightarrow> served \<Rightarrow> served" where
  "with_payment_handlers X handlers sd =
     (let entries = (case handlers of JObj m \<Rightarrow> m | _ \<Rightarrow> [])
      in sd\<lparr>sd_app := (sd_app sd)\<lparr>as_payment_handlers := map (map_prod id (ou_render X)) entries\<rparr>,
            sd_payment_handlers := entries\<rparr>)"

definition with_discovery_base_url :: "string \<Rightarrow> served \<Rightarrow> served" where
  "with_discovery_base_url url sd = sd\<lparr>sd_discovery_base_url := url\<rparr>"

definition with_authn :: "(string \<Rightarrow> auth_context option) \<Rightarrow> served \<Rightarrow> served" where
  "with_authn a sd = sd\<lparr>sd_app := (sd_app sd)\<lparr>as_authn := Some a\<rparr>\<rparr>"

definition production_mode :: "bool \<Rightarrow> served \<Rightarrow> served" where
  "production_mode production sd = sd\<lparr>sd_app := (sd_app sd)\<lparr>as_allow_dev_auth := \<not> production\<rparr>\<rparr>"

definition embedded_checkout :: "app_state \<Rightarrow> (string \<times> signing_keyring) option" where
  "embedded_checkout st =
     Option.bind (as_embedded_checkout_url st) (\<lambda>url. map_option (Pair url) (as_signing st))"

definition is_shutting_down :: "served \<Rightarrow> bool" where
  "is_shutting_down sd = sd_shutdown_flag sd"

text \<open>
  The facade of \<open>main\<close> and the state it serves with. The facade on its store and the providers an adapter
  makes of its base URL and client are given, and \<open>env\<close> is what the webhook deliverer takes from outside.
\<close>

type_synonym delegation_provider = "payment_delegation_request \<Rightarrow> delegation_error + delegated_payment"
type_synonym link_provider = "provider_identity_link_request \<Rightarrow> identity_link_provider_error + identity_link_record"
type_synonym rating_provider =
  "history \<Rightarrow> cart_projection \<Rightarrow> fulfillment_quote_request \<Rightarrow> fulfillment_error + fulfillment_option list"

record adapters =
  ad_rating :: "string \<times> client_config \<Rightarrow> rating_provider"
  ad_delegation :: "string \<times> client_config \<Rightarrow> delegation_provider"
  ad_link :: "string \<times> client_config \<Rightarrow> link_provider"

definition client_of :: "startup_state \<Rightarrow> provider \<Rightarrow> (string \<times> client_config) option" where
  "client_of su p = map_of (su_clients su) p"

definition with_webhook_delivery :: "webhook_env \<Rightarrow> facade \<Rightarrow> facade" where
  "with_webhook_delivery env fa =
     fa\<lparr>fa_runner := (fa_runner fa)\<lparr>ru_deliverer := Some (webhook_deliverer_for env)\<rparr>\<rparr>"

definition with_fulfillment_provider :: "rating_provider \<Rightarrow> facade \<Rightarrow> facade" where
  "with_fulfillment_provider rate fa =
     (let r = fa_runner fa in fa\<lparr>fa_runner := r\<lparr>ru_providers := (ru_providers r)\<lparr>ps_fulfillment := Some rate\<rparr>\<rparr>\<rparr>)"

definition with_payment_delegation :: "delegation_provider \<Rightarrow> facade \<Rightarrow> facade" where
  "with_payment_delegation d fa = fa\<lparr>fa_payment_delegation := Some d\<rparr>"

definition with_identity_link_provider :: "link_provider \<Rightarrow> facade \<Rightarrow> facade" where
  "with_identity_link_provider l fa = fa\<lparr>fa_identity_link := Some l\<rparr>"

definition started_facade :: "adapters \<Rightarrow> webhook_env \<Rightarrow> startup_state \<Rightarrow> facade \<Rightarrow> facade" where
  "started_facade A env su fa =
     (let fa = with_webhook_delivery env (with_ap2_strict fa (su_ap2_strict su));
          fa = (case client_of su Fulfillment of None \<Rightarrow> fa | Some c \<Rightarrow> with_fulfillment_provider (ad_rating A c) fa);
          fa = (case client_of su PaymentDelegation of None \<Rightarrow> fa | Some c \<Rightarrow> with_payment_delegation (ad_delegation A c) fa)
      in case client_of su IdentityLink of None \<Rightarrow> fa | Some c \<Rightarrow> with_identity_link_provider (ad_link A c) fa)"

definition opt_apply :: "('a \<Rightarrow> 'b \<Rightarrow> 'b) \<Rightarrow> 'a option \<Rightarrow> 'b \<Rightarrow> 'b" where
  "opt_apply f x b = (case x of None \<Rightarrow> b | Some a \<Rightarrow> f a b)"

definition served_state :: "outside \<Rightarrow> env_profile \<Rightarrow> startup_state \<Rightarrow> facade \<Rightarrow> served" where
  "served_state X profile su fa =
     (let state = with_discovery_base_url (su_discovery_base_url su) (production_mode (is_production profile) (new_served X fa));
          state = opt_apply with_authn (su_authn su) state;
          state = with_payment_handlers X (JObj (su_payment_handlers su)) state;
          state = opt_apply with_embedded_checkout_url (su_embedded_checkout_url su) state;
          state = opt_apply with_signing (su_signing su) state
      in opt_apply with_inbound_verification (su_inbound su) state)"

section \<open>Capabilities\<close>

record capability_descriptor =
  cd_id :: string
  cd_version :: string
  cd_extends :: "string option"

record service_descriptor =
  sy_version :: string
  sy_spec_url :: "string option"

record capability_manifest =
  cm_version :: string
  cm_services :: "string \<rightharpoonup> service_descriptor"
  cm_capabilities :: "capability_descriptor list"

record ucp_service_binding =
  usb_version :: string
  usb_spec :: string
  usb_transport :: string
  usb_schema :: "string option"
  usb_endpoint :: "string option"

record ucp_capability_binding =
  ucb_version :: string
  ucb_spec :: string
  ucb_schema :: string
  ucb_extends :: "string list option"

definition manifest_for_version :: "string \<Rightarrow> capability_manifest" where
  "manifest_for_version version =
     \<lparr>cm_version = version,
      cm_services =
        [''shopping'' \<mapsto> \<lparr>sy_version = version, sy_spec_url = Some ''https://ucp.dev/specs/shopping''\<rparr>,
         ''identity'' \<mapsto> \<lparr>sy_version = version, sy_spec_url = Some ''https://ucp.dev/specs/identity-linking''\<rparr>],
      cm_capabilities =
        [\<lparr>cd_id = ''dev.ucp.shopping.checkout'', cd_version = version, cd_extends = None\<rparr>,
         \<lparr>cd_id = ''dev.ucp.shopping.discount'', cd_version = version, cd_extends = Some ''dev.ucp.shopping.checkout''\<rparr>,
         \<lparr>cd_id = ''dev.ucp.shopping.fulfillment'', cd_version = version, cd_extends = Some ''dev.ucp.shopping.checkout''\<rparr>,
         \<lparr>cd_id = ''dev.ucp.identity.linking'', cd_version = version, cd_extends = None\<rparr>]\<rparr>"

section \<open>The UCP profile\<close>

record advertised_capabilities =
  av_signing_keys :: "signing_key_descriptor list"
  av_identity_linking :: bool
  av_embedded_checkout :: bool
  av_payment_handlers :: "(string \<times> json) list"

record orchestrator_extensions =
  ox_mcp_endpoint :: string
  ox_mcp_supported_versions :: "string list"
  ox_a2a_profile_version :: string
  ox_ap2_protocol_version :: string
  ox_acp_api_version :: string
  ox_acp_discovery :: string
  ox_a2a_agent_card :: string
  ox_capability_flags :: "string \<rightharpoonup> bool"

record ucp_section =
  us_version :: string
  us_supported_versions :: "json option"
  us_services :: "(string \<rightharpoonup> ucp_service_binding list) option"
  us_capabilities :: "(string \<rightharpoonup> ucp_capability_binding list) option"
  us_manifest :: "capability_manifest option"
  us_rest_endpoint :: "string option"
  us_mcp_endpoint :: "string option"
  us_capability_flags :: "(string \<rightharpoonup> bool) option"
  us_signing_keys :: "signing_key_descriptor list option"
  us_payment_handlers :: "json option"
  us_mcp_supported_versions :: "string list option"
  us_a2a_profile_version :: "string option"
  us_ap2_protocol_version :: "string option"
  us_acp_api_version :: "string option"

record well_known_ucp =
  wk_ucp :: ucp_section
  wk_keys :: "signing_key_descriptor list option"
  wk_orchestrator :: "orchestrator_extensions option"

definition new_ucp_section :: "string \<Rightarrow> ucp_section" where
  "new_ucp_section version =
     \<lparr>us_version = version, us_supported_versions = None, us_services = None, us_capabilities = None, us_manifest = None,
      us_rest_endpoint = None, us_mcp_endpoint = None, us_capability_flags = None, us_signing_keys = None,
      us_payment_handlers = None, us_mcp_supported_versions = None, us_a2a_profile_version = None,
      us_ap2_protocol_version = None, us_acp_api_version = None\<rparr>"

definition UCP_PREVIOUS_VERSION :: string where "UCP_PREVIOUS_VERSION = ''2026-04-08''"

text \<open>\<open>MCP_SUPPORTED_VERSIONS\<close> of \<open>ucp_mapping.rs\<close>, a constant of its own beside the one of the MCP server.\<close>

definition DISCOVERY_MCP_VERSIONS :: "string list" where
  "DISCOVERY_MCP_VERSIONS = [''2026-07-28'', ''2025-11-25'', ''2024-11-05'']"

definition spec_url :: "string \<Rightarrow> string \<Rightarrow> string" where
  "spec_url version slug = ''https://ucp.dev/'' @ version @ ''/specification/'' @ slug"

definition capability_binding :: "string \<Rightarrow> string \<Rightarrow> string \<Rightarrow> string list option \<Rightarrow> ucp_capability_binding" where
  "capability_binding version spec_slug schema_path extends =
     \<lparr>ucb_version = version, ucb_spec = spec_url version spec_slug,
      ucb_schema = ''https://ucp.dev/'' @ version @ ''/schemas/'' @ schema_path, ucb_extends = extends\<rparr>"

record spec_slugs =
  sl_checkout :: string
  sl_cart :: string
  sl_catalog_lookup :: string
  sl_catalog_search :: string
  sl_order :: string
  sl_discount :: string
  sl_fulfillment :: string
  sl_identity_linking :: string

definition LATEST_SLUGS :: spec_slugs where
  "LATEST_SLUGS =
     \<lparr>sl_checkout = ''shopping/checkout'', sl_cart = ''shopping/cart'', sl_catalog_lookup = ''shopping/catalog/lookup'',
      sl_catalog_search = ''shopping/catalog/search'', sl_order = ''shopping/order'',
      sl_discount = ''shopping/extensions/discount'', sl_fulfillment = ''shopping/extensions/fulfillment'',
      sl_identity_linking = ''common/identity-linking''\<rparr>"

definition PREVIOUS_SLUGS :: spec_slugs where
  "PREVIOUS_SLUGS =
     \<lparr>sl_checkout = ''checkout'', sl_cart = ''cart'', sl_catalog_lookup = ''catalog/lookup'',
      sl_catalog_search = ''catalog/search'', sl_order = ''order'', sl_discount = ''checkout/discounts'',
      sl_fulfillment = ''fulfillment'', sl_identity_linking = ''identity-linking''\<rparr>"

definition core_capabilities ::
  "string \<Rightarrow> advertised_capabilities \<Rightarrow> spec_slugs \<Rightarrow> string \<rightharpoonup> ucp_capability_binding list" where
  "core_capabilities version advertised slugs =
     (let checkout_and_cart = Some [''dev.ucp.shopping.checkout'', ''dev.ucp.shopping.cart''];
          capabilities =
            [''dev.ucp.shopping.checkout'' \<mapsto>
               [capability_binding version (sl_checkout slugs) ''shopping/checkout.json'' None],
             ''dev.ucp.shopping.cart'' \<mapsto> [capability_binding version (sl_cart slugs) ''shopping/cart.json'' None],
             ''dev.ucp.shopping.catalog.lookup'' \<mapsto>
               [capability_binding version (sl_catalog_lookup slugs) ''shopping/catalog_lookup.json'' None],
             ''dev.ucp.shopping.catalog.search'' \<mapsto>
               [capability_binding version (sl_catalog_search slugs) ''shopping/catalog_search.json'' None],
             ''dev.ucp.shopping.order'' \<mapsto> [capability_binding version (sl_order slugs) ''shopping/order.json'' None],
             ''dev.ucp.shopping.discount'' \<mapsto>
               [capability_binding version (sl_discount slugs) ''shopping/discount.json'' checkout_and_cart],
             ''dev.ucp.shopping.fulfillment'' \<mapsto>
               [capability_binding version (sl_fulfillment slugs) ''shopping/fulfillment.json'' checkout_and_cart]]
      in if av_identity_linking advertised
         then capabilities(''dev.ucp.common.identity_linking'' \<mapsto>
                [capability_binding version (sl_identity_linking slugs) ''common/identity_linking.json'' None])
         else capabilities)"

definition capability_flags :: "advertised_capabilities \<Rightarrow> string \<rightharpoonup> bool" where
  "capability_flags advertised =
     [''dev.ucp.payments.mpp'' \<mapsto> True,
      ''dev.ucp.security.signatures'' \<mapsto> av_signing_keys advertised \<noteq> [],
      ''dev.ucp.shopping.checkout.embedded'' \<mapsto> av_embedded_checkout advertised,
      ''dev.ucp.shopping.fulfillment'' \<mapsto> True,
      ''dev.ucp.common.identity_linking'' \<mapsto> av_identity_linking advertised]"

text \<open>\<open>(!keys.is_empty()).then(|| keys.clone())\<close>\<close>

definition some_keys :: "signing_key_descriptor list \<Rightarrow> signing_key_descriptor list option" where
  "some_keys ks = (if ks = [] then None else Some ks)"

definition shopping_schema :: "string \<Rightarrow> string \<Rightarrow> string" where
  "shopping_schema version file = ''https://ucp.dev/'' @ version @ ''/services/shopping/'' @ file"

definition latest_profile :: "string \<Rightarrow> advertised_capabilities \<Rightarrow> well_known_ucp" where
  "latest_profile base advertised =
     (let version = UCP_LATEST_VERSION;
          supported = map (\<lambda>v. (v, JStr (base @ ''/.well-known/ucp?ucp_version='' @ v)))
                        (filter (\<lambda>v. v \<noteq> version) UCP_SUPPORTED_VERSIONS);
          shopping =
            [\<lparr>usb_version = version, usb_spec = spec_url version ''overview'', usb_transport = ''rest'',
              usb_schema = Some (shopping_schema version ''rest.openapi.json''),
              usb_endpoint = Some (base @ ''/api/v1/ucp'')\<rparr>] @
            (if av_embedded_checkout advertised
             then [\<lparr>usb_version = version, usb_spec = spec_url version ''shopping/checkout/embedded'',
                    usb_transport = ''embedded'', usb_schema = Some (shopping_schema version ''embedded.openrpc.json''),
                    usb_endpoint = Some (base @ ''/api/v1/ucp/checkout-sessions'')\<rparr>]
             else [])
      in \<lparr>wk_ucp = (new_ucp_section version)
            \<lparr>us_supported_versions := Some (JObj supported),
             us_services := Some [''dev.ucp.shopping'' \<mapsto> shopping],
             us_capabilities := Some (core_capabilities version advertised LATEST_SLUGS),
             us_payment_handlers := Some (JObj (av_payment_handlers advertised))\<rparr>,
          wk_keys = some_keys (av_signing_keys advertised),
          wk_orchestrator = Some
            \<lparr>ox_mcp_endpoint = base @ ''/api/v1/mcp/message'', ox_mcp_supported_versions = DISCOVERY_MCP_VERSIONS,
             ox_a2a_profile_version = ''1.0'', ox_ap2_protocol_version = ''0.2'', ox_acp_api_version = ACP_API_VERSION,
             ox_acp_discovery = base @ ''/.well-known/acp.json'',
             ox_a2a_agent_card = base @ ''/.well-known/agent-card.json'',
             ox_capability_flags = capability_flags advertised\<rparr>\<rparr>)"

text \<open>\<open>serde_json::to_value(default_payment_handlers())\<close>\<close>

record payment_handler_descriptor =
  phd_id :: string
  phd_name :: string
  phd_handler_type :: string
  phd_instruments :: "string list"

definition default_payment_handlers :: "payment_handler_descriptor list" where
  "default_payment_handlers =
     [\<lparr>phd_id = ''card'', phd_name = ''Card'', phd_handler_type = ''card'', phd_instruments = [''card'']\<rparr>,
      \<lparr>phd_id = ''mpp'', phd_name = ''Machine Payments'', phd_handler_type = ''mpp'', phd_instruments = [''mpp'']\<rparr>]"

definition payment_handler_json :: "payment_handler_descriptor \<Rightarrow> json" where
  "payment_handler_json h =
     JObj [(''id'', JStr (phd_id h)), (''name'', JStr (phd_name h)), (''type'', JStr (phd_handler_type h)),
           (''instruments'', JArr (map JStr (phd_instruments h)))]"

definition acp_spec_url :: string where
  "acp_spec_url =
     ''https://raw.githubusercontent.com/agentic-commerce-protocol/agentic-commerce-protocol/main/spec/'' @
     ACP_API_VERSION @ ''/openapi/openapi.agentic_checkout.yaml''"

definition profile_2026_04_08 :: "string \<Rightarrow> advertised_capabilities \<Rightarrow> well_known_ucp" where
  "profile_2026_04_08 base advertised =
     (let version = UCP_PREVIOUS_VERSION;
          shopping =
            [\<lparr>usb_version = version, usb_spec = spec_url version ''overview'', usb_transport = ''rest'',
              usb_schema = Some (shopping_schema version ''rest.openapi.json''),
              usb_endpoint = Some (base @ ''/api/v1/ucp'')\<rparr>,
             \<lparr>usb_version = version, usb_spec = spec_url version ''overview'', usb_transport = ''mcp'',
              usb_schema = Some (shopping_schema version ''mcp.openrpc.json''),
              usb_endpoint = Some (base @ ''/api/v1/mcp/message'')\<rparr>,
             \<lparr>usb_version = version, usb_spec = ''https://agenticcommerce.dev/specs/checkout'', usb_transport = ''acp'',
              usb_schema = Some acp_spec_url, usb_endpoint = Some (base @ ''/api/v1/acp'')\<rparr>] @
            (if av_embedded_checkout advertised
             then [\<lparr>usb_version = version, usb_spec = spec_url version ''embedded-link-delegation'',
                    usb_transport = ''embedded'', usb_schema = Some (shopping_schema version ''embedded.openapi.json''),
                    usb_endpoint = Some (base @ ''/api/v1/ucp/checkout'')\<rparr>]
             else []);
          capabilities = (core_capabilities version advertised PREVIOUS_SLUGS)
            (''dev.ucp.shopping.payment_handlers'' \<mapsto>
               [capability_binding version ''payment-handlers'' ''shopping/payment_handlers.json'' None]);
          flags = (capability_flags advertised)(''dev.ucp.shopping.payment_handlers'' \<mapsto> True)
      in \<lparr>wk_ucp = (new_ucp_section version)
            \<lparr>us_services := Some [''dev.ucp.shopping'' \<mapsto> shopping], us_capabilities := Some capabilities,
             us_mcp_endpoint := Some (base @ ''/api/v1/mcp/message''), us_capability_flags := Some flags,
             us_signing_keys := some_keys (av_signing_keys advertised),
             us_payment_handlers := Some (JArr (map payment_handler_json default_payment_handlers)),
             us_mcp_supported_versions := Some DISCOVERY_MCP_VERSIONS, us_a2a_profile_version := Some ''1.0'',
             us_ap2_protocol_version := Some ''0.2'', us_acp_api_version := Some ACP_API_VERSION\<rparr>,
          wk_keys = some_keys (av_signing_keys advertised), wk_orchestrator = None\<rparr>)"

definition legacy_well_known_manifest :: "string \<Rightarrow> string \<Rightarrow> well_known_ucp" where
  "legacy_well_known_manifest base selected_version =
     \<lparr>wk_ucp = (new_ucp_section selected_version)
        \<lparr>us_manifest := Some (manifest_for_version selected_version), us_rest_endpoint := Some (base @ ''/''),
         us_mcp_endpoint := Some (base @ ''/api/v1/mcp/message''),
         us_capability_flags := Some
           [''dev.ucp.shopping.cart.multi_item'' \<mapsto> False, ''dev.ucp.shopping.catalog.lookup'' \<mapsto> True,
            ''dev.ucp.identity.linking'' \<mapsto> True, ''dev.ucp.payments.mpp'' \<mapsto> True]\<rparr>,
      wk_keys = None, wk_orchestrator = None\<rparr>"

definition build_well_known_manifest_with_version ::
  "string \<Rightarrow> string option \<Rightarrow> advertised_capabilities \<Rightarrow> well_known_ucp" where
  "build_well_known_manifest_with_version base_url requested_version advertised =
     (let selected_version = (case requested_version of
                                None \<Rightarrow> UCP_LATEST_VERSION
                              | Some v \<Rightarrow> if v \<in> set UCP_SUPPORTED_VERSIONS then v else UCP_LATEST_VERSION);
          base = trim_end_matches (CHR ''/'') base_url
      in if selected_version = UCP_LATEST_VERSION then latest_profile base advertised
         else if selected_version = UCP_PREVIOUS_VERSION then profile_2026_04_08 base advertised
         else legacy_well_known_manifest base selected_version)"

section \<open>Discovery handlers\<close>

definition advertised_of :: "served \<Rightarrow> advertised_capabilities" where
  "advertised_of sd =
     \<lparr>av_signing_keys = (case as_signing (sd_app sd) of
                           None \<Rightarrow> [] | Some keyring \<Rightarrow> public_jwks (as_crypto (sd_app sd)) keyring),
      av_identity_linking = supports_identity_linking (as_facade (sd_app sd)),
      av_embedded_checkout = embedded_checkout (sd_app sd) \<noteq> None,
      av_payment_handlers = sd_payment_handlers sd\<rparr>"

definition h_well_known_ucp :: "served \<Rightarrow> string option \<Rightarrow> well_known_ucp" where
  "h_well_known_ucp sd ucp_version =
     build_well_known_manifest_with_version (sd_discovery_base_url sd) ucp_version (advertised_of sd)"

definition h_well_known_acp :: "served \<Rightarrow> acp_discovery_document" where
  "h_well_known_acp sd =
     build_acp_discovery_document (sd_discovery_base_url sd) (supports_payment_delegation (as_facade (sd_app sd)))"

definition skill_json :: "string \<Rightarrow> string \<Rightarrow> string \<Rightarrow> string list \<Rightarrow> json" where
  "skill_json i name description tags =
     JObj [(''id'', JStr i), (''name'', JStr name), (''description'', JStr description), (''tags'', JArr (map JStr tags)),
           (''inputModes'', JArr [JStr ''application/json'']), (''outputModes'', JArr [JStr ''application/json''])]"

definition card_skills :: "bool \<Rightarrow> json list" where
  "card_skills identity =
     [skill_json ''cart'' ''Cart''
        ''Create and change a cart. DataPart: {\"capability\": \"dev.ucp.shopping.checkout\", \"payload\": {\"command\": {\"kind\": \"create_cart\" | \"add_item\" | ...}, \"cart_id\"?}}.''
        [''commerce'', ''cart'', ''ucp''],
      skill_json ''checkout'' ''Checkout''
        ''Execute checkout for a cart with a payment intent. DataPart: {\"capability\": \"dev.ucp.shopping.checkout\", \"payload\": <checkout request>}.''
        [''commerce'', ''checkout'', ''payments'', ''ap2'', ''mpp''],
      skill_json ''order-lookup'' ''Order lookup''
        ''Read an order. DataPart: {\"capability\": \"dev.ucp.order.query\", \"payload\": {\"order_id\": \"...\"}}.''
        [''commerce'', ''orders'']] @
     (if identity
      then [skill_json ''identity-linking'' ''Identity linking''
              ''Link an agent identity to a shopper account. DataPart: {\"capability\": \"dev.ucp.common.identity_linking\", \"payload\": <identity link request>}.''
              [''identity'', ''account-linking'']]
      else [])"

definition h_agent_card :: "served \<Rightarrow> json" where
  "h_agent_card sd =
     (let base = trim_end_matches (CHR ''/'') (sd_discovery_base_url sd);
          card =
            [(''name'', JStr ''Commerce Orchestrator''),
             (''description'', JStr ''Cart, checkout, order and identity operations over a merchant's commerce providers, with UCP, ACP, AP2 and MPP support.''),
             (''supportedInterfaces'', JArr [JObj
                [(''url'', JStr (base @ ''/api/v1/a2a'')), (''protocolBinding'', JStr ''HTTP+JSON''),
                 (''protocolVersion'', JStr A2A_BINDING_VERSION)]]),
             (''version'', JStr CARGO_PKG_VERSION),
             (''documentationUrl'',
              JStr ''https://github.com/AncientiCe/commerce-orchestrator-api/blob/main/docs/consumption-guide.md''),
             (''capabilities'', JObj
                [(''streaming'', JBool False), (''pushNotifications'', JBool False), (''extendedAgentCard'', JBool False)]),
             (''defaultInputModes'', JArr [JStr ''application/json'']),
             (''defaultOutputModes'', JArr [JStr ''application/json'']),
             (''skills'', JArr (card_skills (supports_identity_linking (as_facade (sd_app sd)))))]
      in JObj (case as_authn (sd_app sd) of
                 None \<Rightarrow> card
               | Some _ \<Rightarrow>
                   json_insert ''securityRequirements''
                     (JArr [JObj [(''schemes'', JObj [(''bearer'', JObj [(''list'', JArr [])])])]])
                     (json_insert ''securitySchemes''
                        (JObj [(''bearer'', JObj [(''httpAuthSecurityScheme'', JObj [(''scheme'', JStr ''Bearer'')])])]) card)))"

section \<open>Payment handlers\<close>

definition h_list_payment_handlers :: "payment_handler_descriptor list hnd" where
  "h_list_payment_handlers = op_return default_payment_handlers"

definition h_get_payment_handler :: "string \<Rightarrow> payment_handler_descriptor hnd" where
  "h_get_payment_handler i =
     op_ok_or (NotFound (''payment handler '' @ CHR 0x27 # i @ CHR 0x27 # '' not found''))
       (find (\<lambda>h. phd_id h = i) default_payment_handlers)"

section \<open>Health\<close>

definition h_live :: "u16 \<times> string" where
  "h_live = (200, ''ok'')"

definition h_ready :: "served \<Rightarrow> u16 \<times> string" where
  "h_ready sd = (if is_shutting_down sd then (503, ''shutting_down'') else (200, ''ok''))"

end
