(* ===== verification/Response_Signing.thy ===== *)
theory Response_Signing
  imports Http_Signing
begin

text \<open>
  The two halves of message signing composed: a response the middleware signs is verified by whoever
  reads the published keys, from the headers and the body it receives.
\<close>

section \<open>Headers\<close>

lemma header_insert_same: "hv_to_str V v \<Longrightarrow> header V (header_insert n v headers) n = Some (str_trim v)"
proof -
  have "filter (\<lambda>(k, _). k = n) (header_insert n v headers) = [(n, v)]"
    by (auto simp: header_insert_def filter_empty_conv)
  then show "hv_to_str V v \<Longrightarrow> header V (header_insert n v headers) n = Some (str_trim v)" by (simp add: header_def)
qed

lemma header_insert_other: "n \<noteq> n' \<Longrightarrow> header V (header_insert n v headers) n' = header V headers n'"
proof -
  assume "n \<noteq> n'"
  then have "filter (\<lambda>(k, _). k = n') (header_insert n v headers) = filter (\<lambda>(k, _). k = n') headers"
    by (induction headers) (auto simp: header_insert_def)
  then show ?thesis by (simp add: header_def)
qed

lemma header_insert_names:
  "lower_case_names headers \<Longrightarrow> map ascii_lower n = n \<Longrightarrow> lower_case_names (header_insert n v headers)"
  by (auto simp: lower_case_names_def header_insert_def)

lemma header_names_lower:
  "map ascii_lower CONTENT_DIGEST_HEADER = CONTENT_DIGEST_HEADER"
  "map ascii_lower SIGNATURE_HEADER = SIGNATURE_HEADER"
  "map ascii_lower SIGNATURE_INPUT_HEADER = SIGNATURE_INPUT_HEADER"
  "map ascii_lower ''content-type'' = ''content-type''" "map ascii_lower ''@status'' = ''@status''"
  by code_simp+

lemma header_names_distinct [simp]:
  "CONTENT_DIGEST_HEADER \<noteq> SIGNATURE_HEADER" "CONTENT_DIGEST_HEADER \<noteq> SIGNATURE_INPUT_HEADER"
  "SIGNATURE_HEADER \<noteq> SIGNATURE_INPUT_HEADER" "SIGNATURE_INPUT_HEADER \<noteq> SIGNATURE_HEADER"
  "CONTENT_DIGEST_HEADER \<noteq> ''content-type''" "SIGNATURE_HEADER \<noteq> ''content-type''"
  "SIGNATURE_INPUT_HEADER \<noteq> ''content-type''" "SIGNATURE_HEADER \<noteq> CONTENT_DIGEST_HEADER"
  "SIGNATURE_INPUT_HEADER \<noteq> CONTENT_DIGEST_HEADER" "CONTENT_DIGEST_HEADER \<noteq> ''@status''"
  "SIGNATURE_HEADER \<noteq> ''@status''" "SIGNATURE_INPUT_HEADER \<noteq> ''@status''"
  by (simp_all add: CONTENT_DIGEST_HEADER_def SIGNATURE_HEADER_def SIGNATURE_INPUT_HEADER_def)

section \<open>What the middleware writes\<close>

lemma printable_append [simp]: "printable (s @ t) \<longleftrightarrow> printable s \<and> printable t"
  by (simp add: printable_def)

lemma printable_int: "printable (show_int i)"
proof -
  have "32 \<le> (of_char c :: nat) \<and> (of_char c :: nat) \<le> 126" if "c \<in> set (show_int i)" for c
    using show_int_chars [OF that] by (auto simp: is_digit_def)
  then show ?thesis by (simp add: printable_def list_all_iff)
qed

lemma printable_params:
  assumes "printable kid" "list_all printable covered"
  shows "printable (signature_params_text covered created kid e)"
proof -
  have lit: "printable ''(''" "printable '')''" "printable '';created=''" "printable '';keyid=''" "printable [quote]"
    "printable '';expires=''" "printable '' ''" "printable []"
    by (simp_all add: printable_def)
  have "printable (str_join '' '' (map (\<lambda>c. quote # c @ [quote]) covered))"
    using assms(2) by (induction covered rule: induct_list012) (auto simp: printable_def)
  then show ?thesis
    using assms(1) lit printable_int by (cases e) (simp_all add: params_text expires_text_def printable_def)
qed

definition ascii_values :: "header_values \<Rightarrow> bool" where
  "ascii_values V \<longleftrightarrow> (\<forall>s. printable s \<longrightarrow> hv_from_str V s \<and> hv_to_str V s)"

lemma digest_text:
  assumes "base64_laws C"
  shows "printable (content_digest C body)" "str_trim (content_digest C body) = content_digest C body"
proof -
  show "printable (content_digest C body)"
    using assms by (simp add: base64_laws_def content_digest_def printable_def)
  show "str_trim (content_digest C body) = content_digest C body"
    by (rule str_trim_id) (simp_all add: content_digest_def is_ascii_ws_def)
qed

lemma signed_text:
  assumes "base64_laws C" "printable (k_kid (hd ring))" "list_all printable covered"
    and "sign_message C ring m covered created = Inr msg"
  shows "printable (sm_signature_input msg)" "str_trim (sm_signature_input msg) = sm_signature_input msg"
    and "printable (sm_signature msg)" "str_trim (sm_signature msg) = sm_signature msg"
proof -
  obtain base where msg: "sm_signature_input msg = SIGNATURE_LABEL @ CHR ''='' # signature_params_text covered created (k_kid (hd ring)) None"
    "sm_signature msg = SIGNATURE_LABEL @ ''=:'' @ cy_b64 C (private_sign C (k_private (hd ring)) base) @ '':''"
    using assms(4) by (auto simp: sign_message_def sign_message_with_params_def Let_def res_bind_Inr)
  show "printable (sm_signature_input msg)"
    using printable_params [OF assms(2,3)] by (simp add: msg(1) SIGNATURE_LABEL_def printable_def)
  show "str_trim (sm_signature_input msg) = sm_signature_input msg"
    by (rule str_trim_id) (simp_all add: msg(1) SIGNATURE_LABEL_def params_ends, simp add: is_ascii_ws_def)
  show "printable (sm_signature msg)"
    using assms(1) by (simp add: msg(2) SIGNATURE_LABEL_def base64_laws_def printable_def)
  show "str_trim (sm_signature msg) = sm_signature msg"
    by (rule str_trim_id) (simp_all add: msg(2) SIGNATURE_LABEL_def is_ascii_ws_def)
qed

lemma base_lines_cong: "(\<And>c. c \<in> set names \<Longrightarrow> m c = m' c) \<Longrightarrow> base_lines m names = base_lines m' names"
  by (induction names) (auto cong: option.case_cong)

lemma sign_message_cong:
  "(\<And>c. c \<in> set covered \<Longrightarrow> m c = m' c) \<Longrightarrow> sign_message C ring m covered created = sign_message C ring m' covered created"
  by (simp add: sign_message_def sign_message_with_params_def signature_base_def base_lines_cong [of covered m m'])

section \<open>The receiver\<close>

text \<open>The components a receiver reads off a response.\<close>

definition received_components :: "header_values \<Rightarrow> http_response \<Rightarrow> message_components" where
  "received_components V response =
     add_header_components V (hp_headers response) [''@status'' \<mapsto> show_nat (unat (hp_status response))]"

definition signed_headers :: "signed_message \<Rightarrow> header_map \<Rightarrow> header_map" where
  "signed_headers msg headers =
     header_insert SIGNATURE_HEADER (sm_signature msg) (header_insert SIGNATURE_INPUT_HEADER (sm_signature_input msg) headers)"

lemma component_names:
  "component_ok ''@status''" "component_ok ''content-digest''" "component_ok ''content-type''"
  "printable ''@status''" "printable ''content-digest''" "printable ''content-type''"
  by code_simp+

lemma status_trim: "str_trim (show_nat n) = show_nat n"
  by (rule str_trim_no_ws) (auto dest: show_nat_digits digit_not_ws)

lemma response_parts_covered:
  assumes "response_parts C V response body = (headers, m, covered)" "ascii_values V" "base64_laws C"
    and "lower_case_names (hp_headers response)" "header V (hp_headers response) ''@status'' = None"
  shows "\<And>c. c \<in> set covered \<Longrightarrow> m c = received_components V (response\<lparr>hp_headers := signed_headers msg headers, hp_body := b\<rparr>) c"
    and "set covered \<subseteq> dom m"
    and "set covered \<subseteq> {''@status'', ''content-digest'', ''content-type''}"
    and "body \<noteq> [] \<Longrightarrow> header V (signed_headers msg headers) CONTENT_DIGEST_HEADER = Some (content_digest C body)"
    and "set (''@status'' # (if body = [] then [] else [''content-digest''])) \<subseteq> set covered"
proof -
  have d: "hv_from_str V (content_digest C body)" "hv_to_str V (content_digest C body)"
    using assms(2) digest_text [OF assms(3)] by (simp_all add: ascii_values_def)
  let ?d = "content_digest C body"
  have lower: "lower_case_names (signed_headers msg hs)" if "lower_case_names hs" for hs
    using that by (simp add: signed_headers_def header_insert_names header_names_lower)
  have other: "header V (signed_headers msg hs) n = header V hs n"
    if "n \<noteq> SIGNATURE_HEADER" "n \<noteq> SIGNATURE_INPUT_HEADER" for hs n
    using that by (simp add: signed_headers_def header_insert_other)
  have "(headers = hp_headers response \<and> body = [] \<or>
         headers = header_insert CONTENT_DIGEST_HEADER ?d (hp_headers response) \<and> body \<noteq> [])"
    using assms(1) d by (auto simp: response_parts_def Let_def split: if_splits option.splits)
  then have lc: "lower_case_names headers" and st: "header V headers ''@status'' = None"
    and ct: "header V headers ''content-type'' = header V (hp_headers response) ''content-type''"
    and cd: "body \<noteq> [] \<Longrightarrow> header V headers CONTENT_DIGEST_HEADER = Some ?d"
    using assms(4,5) d digest_text [OF assms(3)]
    by (auto simp: header_insert_names header_names_lower header_insert_other header_insert_same)
  note names = SIGNATURE_HEADER_def SIGNATURE_INPUT_HEADER_def
  have r: "received_components V (response\<lparr>hp_headers := signed_headers msg headers, hp_body := b\<rparr>) n =
      (case header V headers n of Some v \<Rightarrow> Some (str_trim v) | None \<Rightarrow> [''@status'' \<mapsto> show_nat (unat (hp_status response))] n)"
    if "n \<noteq> SIGNATURE_HEADER" "n \<noteq> SIGNATURE_INPUT_HEADER" for n
    using header_component [OF lower [OF lc]] no_header_component [OF lower [OF lc]] other [OF that]
    by (simp add: received_components_def split: option.split)
  have parts: "m = (components_insert ''@status'' (show_nat (unat (hp_status response))) Map.empty) \<and> covered = [''@status''] \<and> body = [] \<or>
      body \<noteq> [] \<and> (\<exists>m1. m1 = components_insert CONTENT_DIGEST_HEADER ?d (components_insert ''@status'' (show_nat (unat (hp_status response))) Map.empty) \<and>
        (header V headers ''content-type'' = None \<and> m = m1 \<and> covered = [''@status'', CONTENT_DIGEST_HEADER] \<or>
         (\<exists>t. header V headers ''content-type'' = Some t \<and> m = components_insert ''content-type'' t m1 \<and>
              covered = [''@status'', CONTENT_DIGEST_HEADER, ''content-type''])))"
    using assms(1) by (auto simp: response_parts_def Let_def split: if_splits option.splits)
  have ne: "''@status'' \<noteq> SIGNATURE_HEADER" "''@status'' \<noteq> SIGNATURE_INPUT_HEADER" "''@status'' \<noteq> CONTENT_DIGEST_HEADER"
    "''content-type'' \<noteq> SIGNATURE_HEADER" "''content-type'' \<noteq> SIGNATURE_INPUT_HEADER" "''content-type'' \<noteq> CONTENT_DIGEST_HEADER"
    by (metis header_names_distinct)+
  let ?r = "received_components V (response\<lparr>hp_headers := signed_headers msg headers, hp_body := b\<rparr>)"
  let ?status = "show_nat (unat (hp_status response))"
  have rs: "?r ''@status'' = Some ?status" by (simp only: r [OF ne(1,2)] st option.case) simp
  have rd: "?r CONTENT_DIGEST_HEADER = Some ?d" if "body \<noteq> []"
    by (simp only: r [OF header_names_distinct(1,2)] cd [OF that] option.case digest_text [OF assms(3)])
  have rt: "header V headers ''content-type'' = Some t \<Longrightarrow> ?r ''content-type'' = Some (str_trim t)" for t
    by (simp only: r [OF ne(4,5)] option.case)
  have ms: "components_insert ''@status'' ?status Map.empty = [''@status'' \<mapsto> ?status]"
    "components_insert CONTENT_DIGEST_HEADER ?d m' = m'(CONTENT_DIGEST_HEADER \<mapsto> ?d)"
    "components_insert ''content-type'' t m' = m'(''content-type'' \<mapsto> str_trim t)" for m' t
    by (simp_all only: components_insert_def header_names_lower status_trim digest_text [OF assms(3)])
  have ne2: "''@status'' \<noteq> ''content-type''" by simp
  show "m c = ?r c" if "c \<in> set covered" for c
    using parts
  proof (elim disjE exE conjE)
    fix m1 t
    assume "body \<noteq> []" "header V headers ''content-type'' = Some t" "m = components_insert ''content-type'' t m1"
      "covered = [''@status'', CONTENT_DIGEST_HEADER, ''content-type'']"
      "m1 = components_insert CONTENT_DIGEST_HEADER ?d (components_insert ''@status'' ?status Map.empty)"
    with that show ?thesis unfolding ms using rs rd rt ne ne2 by (simp only: list.set insert_iff empty_iff fun_upd_apply) metis
  next
    fix m1
    assume "body \<noteq> []" "m = m1" "covered = [''@status'', CONTENT_DIGEST_HEADER]"
      "m1 = components_insert CONTENT_DIGEST_HEADER ?d (components_insert ''@status'' ?status Map.empty)"
    with that show ?thesis unfolding ms using rs rd ne by (simp only: list.set insert_iff empty_iff fun_upd_apply) metis
  next
    assume "m = components_insert ''@status'' ?status Map.empty" "covered = [''@status'']"
    with that show ?thesis unfolding ms using rs by (simp only: list.set insert_iff empty_iff fun_upd_apply) metis
  qed
  show "set covered \<subseteq> dom m"
    using parts unfolding ms by (elim disjE exE conjE) (simp_all add: insert_iff)
  show "set covered \<subseteq> {''@status'', ''content-digest'', ''content-type''}"
    using parts by (elim disjE exE conjE) (auto simp: CONTENT_DIGEST_HEADER_def)
  show "body \<noteq> [] \<Longrightarrow> header V (signed_headers msg headers) CONTENT_DIGEST_HEADER = Some ?d"
    using cd by (simp add: other)
  show "set (''@status'' # (if body = [] then [] else [''content-digest''])) \<subseteq> set covered"
    using parts by (elim disjE exE conjE) (auto simp: CONTENT_DIGEST_HEADER_def)
qed

text \<open>
  C23: a response that can be signed leaves signed and verifies at the other end. That is a response with an
  intact body of at most 2 MiB, lower-case header names and no header named \<open>@status\<close>, signed by a ring
  whose active key id is printable and well formed (no quote, no line break). A counterparty that built
  its keyring from the published JWK set accepts the signature over the status and, when there is a
  body, the content digest, at any time within the clock skew of the signing, and the body matches the
  digest.
\<close>

theorem signed_response_verifies:
  assumes laws: "crypto_laws C" "ascii_values V"
    and ring: "from_specs C active previous = Inr ring" "kid_ok (ks_kid active)" "printable (ks_kid active)"
    and jwks: "decode json = Inr (public_jwks C ring)"
    and resp: "hp_body response = Some body" "length body \<le> MAX_SIGNED_BODY_BYTES"
      "lower_case_names (hp_headers response)" "header V (hp_headers response) ''@status'' = None"
    and clock: "in_i64 now" "fresh later now None"
  shows "\<exists>sent keys input signature.
           sign_response C V (Some ring) now response = ([Incr ''ucp_response_signed_total''], Inr sent) \<and>
           hp_status sent = hp_status response \<and> hp_body sent = Some body \<and>
           header V (hp_headers sent) SIGNATURE_INPUT_HEADER = Some input \<and>
           header V (hp_headers sent) SIGNATURE_HEADER = Some signature \<and>
           from_jwks C decode json = Inr keys \<and>
           verify_message C keys (received_components V sent) input signature
             (''@status'' # (if body = [] then [] else [''content-digest''])) later = Inr (ks_kid active) \<and>
           (body \<noteq> [] \<longrightarrow> (\<exists>digest. header V (hp_headers sent) CONTENT_DIGEST_HEADER = Some digest \<and>
                                       verify_content_digest C digest body = Inr ()))"
proof -
  have b64: "base64_laws C" using laws(1) by (simp add: crypto_laws_def)
  have kid: "k_kid (hd ring) = ks_kid active" by (rule from_specs_ok(2) [OF ring(1)])
  obtain headers m covered where parts: "response_parts C V response body = (headers, m, covered)"
    by (metis prod_cases3)
  note P = response_parts_covered [OF parts laws(2) b64 resp(3,4)]
  obtain msg where msg: "sign_message C ring m covered now = Inr msg"
    using sign_message_total [OF P(2)] unfolding sign_message_def by blast
  have pc: "list_all component_ok covered" "list_all printable covered"
    using P(3) component_names by (auto simp: list_all_iff)
  note T = signed_text [OF b64 _ pc(2) msg, unfolded kid, OF ring(3)]
  let ?sent = "response\<lparr>hp_headers := signed_headers msg headers, hp_body := Some body\<rparr>"
  have "sign_message C ring (received_components V ?sent) covered now = Inr msg"
    using sign_message_cong [of covered m "received_components V ?sent"] P(1) msg by simp
  then obtain keys where keys: "from_jwks C decode json = Inr keys"
    "verify_message C keys (received_components V ?sent) (sm_signature_input msg) (sm_signature msg)
       (''@status'' # (if body = [] then [] else [''content-digest''])) later = Inr (ks_kid active)"
    using signed_message_verifies [OF laws(1) ring(1), where decode = decode and json = json, OF jwks _ pc(1) ring(2) clock P(5)]
    unfolding sign_message_def by blast
  have hv: "hv_from_str V (sm_signature_input msg) \<and> hv_to_str V (sm_signature_input msg)"
    "hv_from_str V (sm_signature msg) \<and> hv_to_str V (sm_signature msg)"
    using laws(2) T(1,3) unfolding ascii_values_def by blast+
  have "sign_response C V (Some ring) now response = ([Incr ''ucp_response_signed_total''], Inr ?sent)"
    using resp parts msg hv by (simp add: sign_response_def to_bytes_def signed_headers_def)
  moreover have "header V (hp_headers ?sent) SIGNATURE_INPUT_HEADER = Some (sm_signature_input msg)"
    "header V (hp_headers ?sent) SIGNATURE_HEADER = Some (sm_signature msg)"
    using hv T by (simp_all add: signed_headers_def header_insert_same header_insert_other)
  moreover have "body \<noteq> [] \<longrightarrow> (\<exists>digest. header V (hp_headers ?sent) CONTENT_DIGEST_HEADER = Some digest \<and>
      verify_content_digest C digest body = Inr ())"
    using P(4) content_digest_roundtrip [OF b64] by simp
  moreover have "hp_status ?sent = hp_status response \<and> hp_body ?sent = Some body" by simp
  ultimately show ?thesis using keys by blast
qed

definition sample_response :: http_response where
  "sample_response = \<lparr>hp_status = 200, hp_headers = [(''content-type'', ''application/json'')], hp_body = Some ''{}''\<rparr>"

theorem signed_response_verifies_witness:
  "\<exists>sent keys input signature.
     sign_response sample_crypto gate_values (Some sample_ring) 1700000000 sample_response =
       ([Incr ''ucp_response_signed_total''], Inr sent) \<and>
     from_jwks sample_crypto (\<lambda>_. Inr (public_jwks sample_crypto sample_ring)) ''{}'' = Inr keys \<and>
     verify_message sample_crypto keys (received_components gate_values sent) input signature
       [''@status'', ''content-digest''] 1700000200 = Inr ''key-2''"
proof -
  have h: "lower_case_names (hp_headers sample_response)" "header gate_values (hp_headers sample_response) ''@status'' = None"
    "kid_ok (ks_kid sample_spec)" "printable (ks_kid sample_spec)" "in_i64 1700000000"
    by code_simp+
  have f: "fresh 1700000200 1700000000 None" by (simp add: fresh_def MAX_SIGNATURE_SKEW_SECONDS_def)
  have v: "ascii_values gate_values" by (simp add: ascii_values_def gate_values_def)
  show ?thesis
    using signed_response_verifies [OF sample_laws v sample_specs_ring h(3,4),
        of "\<lambda>_. Inr (public_jwks sample_crypto sample_ring)" "''{}''" sample_response "''{}''", OF refl _ _ h(1,2,5) f]
    by (auto simp: sample_response_def sample_spec_def MAX_SIGNED_BODY_BYTES_def)
qed

end
