(* ===== verification/Server.thy ===== *)
theory Server
  imports Discovery Response_Signing
begin

text \<open>
  The server as one function of a request (\<open>orchestrator-http/src/app.rs\<close>, \<open>observability.rs\<close>, \<open>routes/mod.rs\<close> and
  the route tables of \<open>routes/v1.rs\<close>, \<open>routes/discovery.rs\<close>, \<open>routes/health.rs\<close>): the signature verifier, the
  request identifier, the routes, each handler behind its extractors in their order, and the signer of
  responses. What axum and serde do is the record \<open>edge\<close>: matching paths, reading bodies, printing answers.
\<close>

section \<open>Routes\<close>

text \<open>The handlers of \<open>v1.rs\<close> and \<open>a2a.rs\<close>, by the names they have there.\<close>

datatype endpoint =
    DispatchCartCommand
  | UcpCreateCart | UcpGetCart | UcpUpdateCart | UcpCancelCart | UcpSetCartFulfillment
  | UcpCreateCheckout | UcpGetCheckout | UcpUpdateCheckout | UcpCompleteCheckout | UcpCancelCheckout
  | UcpSetCheckoutFulfillment | UcpCreateEmbeddedCheckoutLink
  | UcpListPaymentHandlers | UcpGetPaymentHandler
  | UcpCatalogSearch | UcpCatalogLookup | UcpCatalogProduct | UcpGetOrder
  | AcpCreateSession | AcpGetSession | AcpUpdateSession | AcpCompleteSession | AcpCancelSession
  | AcpDelegatePayment | AcpCreateCart | AcpGetCart | AcpUpdateCart | AcpCancelCart
  | ExecuteCheckout
  | A2aExecuteCheckout | A2aDispatchCartCommand | A2aLinkIdentity | A2aGetOrder
  | A2aPostOperation | A2aGetTask | A2aPostTask
  | ListOrders | GetOneOrder | LookupCatalogItem
  | RegisterWebhook | ListWebhooks | UnregisterWebhook
  | CapturePayment | VoidPayment | RefundPayment
  | McpMessage | AcceptIncomingEvent | ProcessOutbox | ListDeadLetter | ReplayDeadLetter | RunReconciliation

text \<open>Routes without authentication, and those of \<open>v1.rs\<close>.\<close>

datatype route = WellKnownUcp | WellKnownAcp | AgentCard | Live | Ready | Metrics | OpenApi | V1 endpoint

definition v1_routes :: "(string \<times> string \<times> endpoint) list" where
  "v1_routes =
     [(''/cart/commands'', ''POST'', DispatchCartCommand),
      (''/ucp/carts'', ''POST'', UcpCreateCart),
      (''/ucp/carts/:id'', ''GET'', UcpGetCart), (''/ucp/carts/:id'', ''PUT'', UcpUpdateCart),
      (''/ucp/carts/:id/cancel'', ''POST'', UcpCancelCart),
      (''/ucp/checkout-sessions'', ''POST'', UcpCreateCheckout),
      (''/ucp/checkout-sessions/:id'', ''GET'', UcpGetCheckout), (''/ucp/checkout-sessions/:id'', ''PUT'', UcpUpdateCheckout),
      (''/ucp/checkout-sessions/:id/complete'', ''POST'', UcpCompleteCheckout),
      (''/ucp/checkout-sessions/:id/cancel'', ''POST'', UcpCancelCheckout),
      (''/ucp/cart'', ''POST'', UcpCreateCart),
      (''/ucp/cart/:id'', ''GET'', UcpGetCart),
      (''/ucp/cart/:id'', ''PUT'', UcpUpdateCart),
      (''/ucp/cart/:id/cancel'', ''POST'', UcpCancelCart),
      (''/ucp/cart/:id/fulfillment'', ''POST'', UcpSetCartFulfillment),
      (''/ucp/checkout'', ''POST'', UcpCreateCheckout),
      (''/ucp/checkout/:id'', ''GET'', UcpGetCheckout),
      (''/ucp/checkout/:id'', ''PUT'', UcpUpdateCheckout),
      (''/ucp/checkout/:id/complete'', ''POST'', UcpCompleteCheckout),
      (''/ucp/checkout/:id/cancel'', ''POST'', UcpCancelCheckout),
      (''/ucp/checkout/:id/fulfillment'', ''POST'', UcpSetCheckoutFulfillment),
      (''/ucp/checkout/:id/embedded-link'', ''POST'', UcpCreateEmbeddedCheckoutLink),
      (''/ucp/payment-handlers'', ''GET'', UcpListPaymentHandlers),
      (''/ucp/payment-handlers/:id'', ''GET'', UcpGetPaymentHandler),
      (''/ucp/catalog/search'', ''POST'', UcpCatalogSearch),
      (''/ucp/catalog/lookup'', ''POST'', UcpCatalogLookup),
      (''/ucp/catalog/product'', ''POST'', UcpCatalogProduct),
      (''/ucp/orders/:id'', ''GET'', UcpGetOrder),
      (''/acp/checkout_sessions'', ''POST'', AcpCreateSession),
      (''/acp/checkout_sessions/:id'', ''GET'', AcpGetSession),
      (''/acp/checkout_sessions/:id'', ''PUT'', AcpUpdateSession),
      (''/acp/checkout_sessions/:id/complete'', ''POST'', AcpCompleteSession),
      (''/acp/checkout_sessions/:id/cancel'', ''POST'', AcpCancelSession),
      (''/acp/delegate_payment'', ''POST'', AcpDelegatePayment),
      (''/acp/carts'', ''POST'', AcpCreateCart),
      (''/acp/carts/:id'', ''GET'', AcpGetCart),
      (''/acp/carts/:id'', ''PUT'', AcpUpdateCart),
      (''/acp/carts/:id/cancel'', ''POST'', AcpCancelCart),
      (''/checkout/execute'', ''POST'', ExecuteCheckout),
      (''/a2a/checkout'', ''POST'', A2aExecuteCheckout),
      (''/a2a/cart'', ''POST'', A2aDispatchCartCommand),
      (''/a2a/identity/link'', ''POST'', A2aLinkIdentity),
      (''/a2a/orders'', ''POST'', A2aGetOrder),
      (''/a2a/:operation'', ''POST'', A2aPostOperation),
      (''/a2a/tasks/:task'', ''GET'', A2aGetTask), (''/a2a/tasks/:task'', ''POST'', A2aPostTask),
      (''/orders'', ''GET'', ListOrders),
      (''/orders/:id'', ''GET'', GetOneOrder),
      (''/catalog/items/:id'', ''GET'', LookupCatalogItem),
      (''/webhooks'', ''POST'', RegisterWebhook),
      (''/webhooks'', ''GET'', ListWebhooks),
      (''/webhooks/:id'', ''DELETE'', UnregisterWebhook),
      (''/payments/capture'', ''POST'', CapturePayment),
      (''/payments/void'', ''POST'', VoidPayment),
      (''/payments/refund'', ''POST'', RefundPayment),
      (''/mcp/message'', ''POST'', McpMessage),
      (''/events/incoming'', ''POST'', AcceptIncomingEvent),
      (''/ops/outbox/process'', ''POST'', ProcessOutbox),
      (''/ops/dead-letter'', ''GET'', ListDeadLetter),
      (''/ops/dead-letter/replay'', ''POST'', ReplayDeadLetter),
      (''/ops/reconciliation'', ''POST'', RunReconciliation)]"

definition discovery_routes :: "(string \<times> string \<times> route) list" where
  "discovery_routes =
     [(''/.well-known/ucp'', ''GET'', WellKnownUcp), (''/.well-known/acp.json'', ''GET'', WellKnownAcp),
      (''/.well-known/agent-card.json'', ''GET'', AgentCard)]"

definition health_routes :: "(string \<times> string \<times> route) list" where
  "health_routes = [(''/health/live'', ''GET'', Live), (''/health/ready'', ''GET'', Ready), (''/metrics'', ''GET'', Metrics)]"

definition router :: "(string \<times> string \<times> route) list" where
  "router = discovery_routes @ health_routes @ [(''/api/v1/openapi.json'', ''GET'', OpenApi)] @
     map (\<lambda>(p, m, e). (''/api/v1'' @ p, m, V1 e)) v1_routes"

section \<open>Extractors and answers\<close>

text \<open>What the handlers answer with.\<close>

datatype answer =
    ACart cart_projection_dto | AUcpCart ucp_cart_response | ATransaction transaction_result_dto
  | ALink embedded_checkout_link | AHandlers "payment_handler_descriptor list" | AHandler payment_handler_descriptor
  | ACatalog ucp_catalog_response | AUcpOrder ucp_order_response | AAcp acp_cart_response
  | ADelegated acp_delegate_response | AIdentity identity_link_result_dto | AJson json
  | AOrder order_dto | AOrders "order_dto list" | AItem catalog_item
  | AWebhook webhook_registration_dto | AWebhooks "webhook_registration_dto list" | ARemoved bool
  | AOperation payment_operation_result | AAccepted bool | AProcessed | ADeadLetters "dead_letter_entry list"
  | AReplayed bool | AReport "payment_mismatch_dto list" | ARpc json_rpc_response | AReply a2a_reply
  | AProfile well_known_ucp | ADocument acp_discovery_document | ACard json | AHealth "u16 \<times> string"
  | AMetrics | AOpenApi

text \<open>
  \<open>eg_match\<close> gives the registered pattern a path matches, if any, with the values of its parameters;
  \<open>eg_serves\<close> whether a method router registered for one method answers another. A reader is the \<open>Json\<close> (or
  \<open>Path\<close>, \<open>Query\<close>, \<open>Bytes\<close>) extractor of its type: its value, or the response of its rejection. The clock is read
  at the verifier, in a handler and at the signer.
\<close>

record edge =
  eg_match :: "string list \<Rightarrow> string \<Rightarrow> (string \<times> string list) option"
  eg_serves :: "string \<Rightarrow> string \<Rightarrow> bool"
  eg_path :: "string list \<Rightarrow> http_response + string"
  eg_version_query :: "Http_Signing.http_request \<Rightarrow> http_response + string option"
  eg_bytes :: "Http_Signing.http_request \<Rightarrow> http_response + string"
  eg_json :: "Http_Signing.http_request \<Rightarrow> http_response + json"
  eg_cart_command :: "Http_Signing.http_request \<Rightarrow> http_response + cart_command_request"
  eg_ucp_cart :: "Http_Signing.http_request \<Rightarrow> http_response + ucp_cart_request"
  eg_selection :: "Http_Signing.http_request \<Rightarrow> http_response + ucp_fulfillment_selection_request"
  eg_checkout :: "Http_Signing.http_request \<Rightarrow> http_response + checkout_request_dto"
  eg_search :: "Http_Signing.http_request \<Rightarrow> http_response + string option"
  eg_lookup :: "Http_Signing.http_request \<Rightarrow> http_response + string list"
  eg_product :: "Http_Signing.http_request \<Rightarrow> http_response + string"
  eg_acp_create :: "Http_Signing.http_request \<Rightarrow> http_response + acp_create_request"
  eg_acp_update :: "Http_Signing.http_request \<Rightarrow> http_response + acp_update_request"
  eg_acp_complete :: "Http_Signing.http_request \<Rightarrow> http_response + acp_complete_request"
  eg_acp_delegate :: "Http_Signing.http_request \<Rightarrow> http_response + acp_delegate_request"
  eg_webhook :: "Http_Signing.http_request \<Rightarrow> http_response + webhook_registration_request"
  eg_lifecycle :: "Http_Signing.http_request \<Rightarrow> http_response + payment_lifecycle_request"
  eg_rpc :: "Http_Signing.http_request \<Rightarrow> http_response + json_rpc_request"
  eg_incoming :: "Http_Signing.http_request \<Rightarrow> http_response + string"
  eg_attempts :: "Http_Signing.http_request \<Rightarrow> http_response + u32"
  eg_replay :: "Http_Signing.http_request \<Rightarrow> http_response + string"
  eg_transactions :: "Http_Signing.http_request \<Rightarrow> http_response + string list"
  eg_answer :: "Http_Signing.http_request \<Rightarrow> answer \<Rightarrow> http_response"
  eg_error :: "u16 \<times> string \<times> string \<Rightarrow> http_response"
  eg_rejected :: "u16 \<Rightarrow> error_body \<Rightarrow> http_response"
  eg_not_found :: http_response
  eg_not_allowed :: "string \<Rightarrow> http_response"
  eg_verify_now :: i64
  eg_now :: i64
  eg_sign_now :: i64

text \<open>An endpoint answers, or ends in a response of an extractor or an error.\<close>

type_synonym 'a srv = "(world, http_response, 'a) op"

definition extracted :: "http_response + 'a \<Rightarrow> 'a srv" where
  "extracted x = (case x of Inl resp \<Rightarrow> op_fail resp | Inr a \<Rightarrow> op_return a)"

definition api :: "edge \<Rightarrow> app_state \<Rightarrow> ('a \<Rightarrow> answer) \<Rightarrow> 'a hnd \<Rightarrow> answer srv" where
  "api X st f h = op_map_err (\<lambda>e. eg_error X (api_error_parts (as_text st) e)) (op_bind h (\<lambda>a. op_return (f a)))"

definition replied :: "('a \<Rightarrow> answer) \<Rightarrow> (world \<Rightarrow> 'a \<times> world) \<Rightarrow> answer srv" where
  "replied f run w = (case run w of (a, w') \<Rightarrow> (Inr (f a), w'))"

text \<open>\<open>Uuid::new_v4()\<close>\<close>

definition with_new_v4 :: "app_state \<Rightarrow> (uuid \<Rightarrow> 'a hnd) \<Rightarrow> 'a hnd" where
  "with_new_v4 st f w = f (ru_new_v4 (fa_runner (as_facade st)) (w_uuid w)) (w\<lparr>w_uuid := Suc (w_uuid w)\<rparr>)"

text \<open>
  Each handler behind its extractors: the bearer authentication has succeeded, then the path, then the body.
\<close>

fun call_endpoint ::
  "edge \<Rightarrow> json_codec \<Rightarrow> app_state \<Rightarrow> auth_context \<Rightarrow> string list \<Rightarrow> Http_Signing.http_request \<Rightarrow> endpoint \<Rightarrow> answer srv" where
  "call_endpoint X C st auth ps rq DispatchCartCommand =
     op_bind (extracted (eg_cart_command X rq)) (\<lambda>req. api X st ACart (h_dispatch_cart_command st auth req))"
| "call_endpoint X C st auth ps rq UcpCreateCart =
     op_bind (extracted (eg_ucp_cart X rq)) (\<lambda>req. api X st AUcpCart (h_ucp_create_cart st auth req))"
| "call_endpoint X C st auth ps rq UcpGetCart =
     op_bind (extracted (eg_path X ps)) (\<lambda>i. api X st AUcpCart (h_ucp_get_cart st auth i))"
| "call_endpoint X C st auth ps rq UcpUpdateCart =
     op_bind (extracted (eg_path X ps)) (\<lambda>i.
     op_bind (extracted (eg_ucp_cart X rq)) (\<lambda>req. api X st AUcpCart (h_ucp_update_cart st auth i req)))"
| "call_endpoint X C st auth ps rq UcpCancelCart =
     op_bind (extracted (eg_path X ps)) (\<lambda>i. api X st AUcpCart (h_ucp_cancel_cart st auth i))"
| "call_endpoint X C st auth ps rq UcpSetCartFulfillment =
     op_bind (extracted (eg_path X ps)) (\<lambda>i.
     op_bind (extracted (eg_selection X rq)) (\<lambda>req. api X st AUcpCart (h_ucp_set_fulfillment st auth i req)))"
| "call_endpoint X C st auth ps rq UcpCreateCheckout =
     op_bind (extracted (eg_ucp_cart X rq)) (\<lambda>req. api X st AUcpCart (h_ucp_create_checkout st auth req))"
| "call_endpoint X C st auth ps rq UcpGetCheckout =
     op_bind (extracted (eg_path X ps)) (\<lambda>i. api X st AUcpCart (h_ucp_get_checkout st auth i))"
| "call_endpoint X C st auth ps rq UcpUpdateCheckout =
     op_bind (extracted (eg_path X ps)) (\<lambda>i.
     op_bind (extracted (eg_ucp_cart X rq)) (\<lambda>req. api X st AUcpCart (h_ucp_update_checkout st auth i req)))"
| "call_endpoint X C st auth ps rq UcpCompleteCheckout =
     op_bind (extracted (eg_path X ps)) (\<lambda>i.
     op_bind (extracted (eg_checkout X rq)) (\<lambda>req. api X st ATransaction (h_ucp_complete_checkout st auth i req)))"
| "call_endpoint X C st auth ps rq UcpCancelCheckout =
     op_bind (extracted (eg_path X ps)) (\<lambda>i. api X st AUcpCart (h_ucp_cancel_checkout st auth i))"
| "call_endpoint X C st auth ps rq UcpSetCheckoutFulfillment =
     op_bind (extracted (eg_path X ps)) (\<lambda>i.
     op_bind (extracted (eg_selection X rq)) (\<lambda>req. api X st AUcpCart (h_ucp_set_checkout_fulfillment st auth i req)))"
| "call_endpoint X C st auth ps rq UcpCreateEmbeddedCheckoutLink =
     op_bind (extracted (eg_path X ps)) (\<lambda>i. api X st ALink (h_ucp_embedded_link st auth (eg_now X) i))"
| "call_endpoint X C st auth ps rq UcpListPaymentHandlers = api X st AHandlers h_list_payment_handlers"
| "call_endpoint X C st auth ps rq UcpGetPaymentHandler =
     op_bind (extracted (eg_path X ps)) (\<lambda>i. api X st AHandler (h_get_payment_handler i))"
| "call_endpoint X C st auth ps rq UcpCatalogSearch =
     op_bind (extracted (eg_search X rq)) (\<lambda>q. api X st ACatalog (h_catalog_search st q))"
| "call_endpoint X C st auth ps rq UcpCatalogLookup =
     op_bind (extracted (eg_lookup X rq)) (\<lambda>ids. api X st ACatalog (h_catalog_lookup st ids))"
| "call_endpoint X C st auth ps rq UcpCatalogProduct =
     op_bind (extracted (eg_product X rq)) (\<lambda>i. api X st ACatalog (h_catalog_product st i))"
| "call_endpoint X C st auth ps rq UcpGetOrder =
     op_bind (extracted (eg_path X ps)) (\<lambda>i. api X st AUcpOrder (h_ucp_get_order st auth i))"
| "call_endpoint X C st auth ps rq AcpCreateSession =
     op_bind (extracted (eg_acp_create X rq)) (\<lambda>req. api X st AAcp (h_acp_create_session st auth (hq_headers rq) req))"
| "call_endpoint X C st auth ps rq AcpGetSession =
     op_bind (extracted (eg_path X ps)) (\<lambda>i. api X st AAcp (h_acp_get_session st auth (hq_headers rq) i))"
| "call_endpoint X C st auth ps rq AcpUpdateSession =
     op_bind (extracted (eg_path X ps)) (\<lambda>i.
     op_bind (extracted (eg_acp_update X rq)) (\<lambda>req. api X st AAcp (h_acp_update_session st auth (hq_headers rq) i req)))"
| "call_endpoint X C st auth ps rq AcpCompleteSession =
     op_bind (extracted (eg_path X ps)) (\<lambda>i.
     op_bind (extracted (eg_acp_complete X rq)) (\<lambda>req.
       api X st ATransaction (h_acp_complete_session st auth (hq_headers rq) i req)))"
| "call_endpoint X C st auth ps rq AcpCancelSession =
     op_bind (extracted (eg_path X ps)) (\<lambda>i. api X st AAcp (h_acp_cancel_session st auth (hq_headers rq) i))"
| "call_endpoint X C st auth ps rq AcpDelegatePayment =
     op_bind (extracted (eg_acp_delegate X rq)) (\<lambda>req. api X st ADelegated (h_acp_delegate_payment st auth (hq_headers rq) req))"
| "call_endpoint X C st auth ps rq AcpCreateCart =
     op_bind (extracted (eg_acp_create X rq)) (\<lambda>req. api X st AAcp (h_acp_create_cart st auth (hq_headers rq) req))"
| "call_endpoint X C st auth ps rq AcpGetCart =
     op_bind (extracted (eg_path X ps)) (\<lambda>i. api X st AAcp (h_acp_get_cart st auth (hq_headers rq) i))"
| "call_endpoint X C st auth ps rq AcpUpdateCart =
     op_bind (extracted (eg_path X ps)) (\<lambda>i.
     op_bind (extracted (eg_acp_update X rq)) (\<lambda>req. api X st AAcp (h_acp_update_cart st auth (hq_headers rq) i req)))"
| "call_endpoint X C st auth ps rq AcpCancelCart =
     op_bind (extracted (eg_path X ps)) (\<lambda>i. api X st AAcp (h_acp_cancel_cart st auth (hq_headers rq) i))"
| "call_endpoint X C st auth ps rq ExecuteCheckout =
     op_bind (extracted (eg_checkout X rq)) (\<lambda>req. api X st ATransaction (h_execute_checkout st auth req))"
| "call_endpoint X C st auth ps rq A2aExecuteCheckout =
     op_bind (extracted (eg_json X rq)) (\<lambda>body. api X st ATransaction (h_a2a_execute_checkout st C auth (hq_headers rq) body))"
| "call_endpoint X C st auth ps rq A2aDispatchCartCommand =
     op_bind (extracted (eg_json X rq)) (\<lambda>body. api X st ACart (h_a2a_dispatch_cart_command st auth (hq_headers rq) body))"
| "call_endpoint X C st auth ps rq A2aLinkIdentity =
     op_bind (extracted (eg_json X rq)) (\<lambda>body. api X st AIdentity (h_a2a_link_identity st C auth (hq_headers rq) body))"
| "call_endpoint X C st auth ps rq A2aGetOrder =
     op_bind (extracted (eg_json X rq)) (\<lambda>body. api X st AJson (h_a2a_get_order st C auth (hq_headers rq) body))"
| "call_endpoint X C st auth ps rq A2aPostOperation =
     op_bind (extracted (eg_path X ps)) (\<lambda>operation.
     op_bind (extracted (eg_bytes X rq)) (\<lambda>body. replied AReply (post_operation st C auth operation (hq_headers rq) body)))"
| "call_endpoint X C st auth ps rq A2aGetTask =
     op_bind (extracted (eg_path X ps)) (\<lambda>task. op_return (AReply (get_task st task (hq_headers rq))))"
| "call_endpoint X C st auth ps rq A2aPostTask =
     op_bind (extracted (eg_path X ps)) (\<lambda>task. op_return (AReply (post_task st task (hq_headers rq))))"
| "call_endpoint X C st auth ps rq ListOrders = api X st AOrders (h_list_orders st auth)"
| "call_endpoint X C st auth ps rq GetOneOrder =
     op_bind (extracted (eg_path X ps)) (\<lambda>i. api X st AOrder (h_get_order st auth i))"
| "call_endpoint X C st auth ps rq LookupCatalogItem =
     op_bind (extracted (eg_path X ps)) (\<lambda>i. api X st AItem (h_lookup_catalog_item st i))"
| "call_endpoint X C st auth ps rq RegisterWebhook =
     op_bind (extracted (eg_webhook X rq)) (\<lambda>req.
       api X st AWebhook (with_new_v4 st (\<lambda>wh. h_register_webhook st auth wh req)))"
| "call_endpoint X C st auth ps rq ListWebhooks = api X st AWebhooks (h_list_webhooks st auth)"
| "call_endpoint X C st auth ps rq UnregisterWebhook =
     op_bind (extracted (eg_path X ps)) (\<lambda>i. api X st ARemoved (h_unregister_webhook st auth i))"
| "call_endpoint X C st auth ps rq CapturePayment =
     op_bind (extracted (eg_lifecycle X rq)) (\<lambda>req. api X st AOperation (h_capture_payment st auth req))"
| "call_endpoint X C st auth ps rq VoidPayment =
     op_bind (extracted (eg_lifecycle X rq)) (\<lambda>req. api X st AOperation (h_void_payment st auth req))"
| "call_endpoint X C st auth ps rq RefundPayment =
     op_bind (extracted (eg_lifecycle X rq)) (\<lambda>req. api X st AOperation (h_refund_payment st auth req))"
| "call_endpoint X C st auth ps rq McpMessage =
     op_bind (extracted (eg_rpc X rq)) (\<lambda>req. replied ARpc (mcp_message st C auth (hq_headers rq) req))"
| "call_endpoint X C st auth ps rq AcceptIncomingEvent =
     op_bind (extracted (eg_incoming X rq)) (\<lambda>i. api X st AAccepted (h_accept_incoming_event st auth i))"
| "call_endpoint X C st auth ps rq ProcessOutbox =
     op_bind (extracted (eg_attempts X rq)) (\<lambda>n. api X st (\<lambda>_. AProcessed) (h_process_outbox st auth n))"
| "call_endpoint X C st auth ps rq ListDeadLetter = api X st ADeadLetters (h_list_dead_letter st auth)"
| "call_endpoint X C st auth ps rq ReplayDeadLetter =
     op_bind (extracted (eg_replay X rq)) (\<lambda>i. api X st AReplayed (h_replay_dead_letter st auth i))"
| "call_endpoint X C st auth ps rq RunReconciliation =
     op_bind (extracted (eg_transactions X rq)) (\<lambda>ids. api X st AReport (h_run_reconciliation st auth ids))"

definition call_route :: "edge \<Rightarrow> json_codec \<Rightarrow> served \<Rightarrow> string list \<Rightarrow> Http_Signing.http_request \<Rightarrow> route \<Rightarrow> answer srv" where
  "call_route X C sd ps rq r =
     (case r of
        WellKnownUcp \<Rightarrow> op_bind (extracted (eg_version_query X rq)) (\<lambda>v. op_return (AProfile (h_well_known_ucp sd v)))
      | WellKnownAcp \<Rightarrow> op_return (ADocument (h_well_known_acp sd))
      | AgentCard \<Rightarrow> op_return (ACard (h_agent_card sd))
      | Live \<Rightarrow> op_return (AHealth h_live)
      | Ready \<Rightarrow> op_return (AHealth (h_ready sd))
      | Metrics \<Rightarrow> op_return AMetrics
      | OpenApi \<Rightarrow> op_return AOpenApi
      | V1 e \<Rightarrow>
          (case authenticate (sd_app sd) (hq_headers rq) of
             Inl err \<Rightarrow> op_fail (eg_error X (api_error_parts (as_text (sd_app sd)) err))
           | Inr auth \<Rightarrow> call_endpoint X C (sd_app sd) auth ps rq e))"

section \<open>The server\<close>

datatype target = NoRoute | NoMethod string | To route "string list"

definition routed :: "edge \<Rightarrow> Http_Signing.http_request \<Rightarrow> target" where
  "routed X rq =
     (case eg_match X (map fst router) (hq_path rq) of
        None \<Rightarrow> NoRoute
      | Some (pattern, ps) \<Rightarrow>
          (case find (\<lambda>(p, m, _). p = pattern \<and> eg_serves X m (hq_method rq)) router of
             None \<Rightarrow> NoMethod pattern
           | Some (_, _, r) \<Rightarrow> To r ps))"

definition run_routes :: "edge \<Rightarrow> json_codec \<Rightarrow> served \<Rightarrow> Http_Signing.http_request \<Rightarrow> world \<Rightarrow> http_response \<times> world" where
  "run_routes X C sd rq w =
     (case routed X rq of
        NoRoute \<Rightarrow> (eg_not_found X, w)
      | NoMethod pattern \<Rightarrow> (eg_not_allowed X pattern, w)
      | To r ps \<Rightarrow>
          (case call_route X C sd ps rq r w of
             (Inl resp, w') \<Rightarrow> (resp, w')
           | (Inr a, w') \<Rightarrow> (eg_answer X rq a, w')))"

definition X_REQUEST_ID :: string where "X_REQUEST_ID = ''x-request-id''"

text \<open>Runs the routes with the caller's request identifier, or a new one, and repeats it in the response.\<close>

definition request_id_middleware ::
  "edge \<Rightarrow> json_codec \<Rightarrow> served \<Rightarrow> Http_Signing.http_request \<Rightarrow> world \<Rightarrow> http_response \<times> world" where
  "request_id_middleware X C sd rq w =
     (let st = sd_app sd in
      case (case header_get (as_values st) (hq_headers rq) X_REQUEST_ID of
              Some i \<Rightarrow> (i, w) | None \<Rightarrow> new_uuid st w) of
        (request_id, w) \<Rightarrow>
          (case run_routes X C sd rq w of
             (resp, w') \<Rightarrow>
               (if hv_from_str (as_values st) request_id
                then resp\<lparr>hp_headers := header_insert X_REQUEST_ID request_id (hp_headers resp)\<rparr> else resp, w')))"

text \<open>\<open>signed_router\<close>: the verifier runs outside the routes, the signer outside both.\<close>

definition signed_router ::
  "edge \<Rightarrow> json_codec \<Rightarrow> served \<Rightarrow> Http_Signing.http_request \<Rightarrow> world \<Rightarrow> http_response \<times> world" where
  "signed_router X C sd rq w =
     (let st = sd_app sd in
      case (case verify_request_signature (as_crypto st) (as_values st) (sd_inbound_keys sd) (eg_verify_now X) rq of
              (_, Http_Signing.Rejected status body) \<Rightarrow> (eg_rejected X status body, w)
            | (_, Forwarded rq') \<Rightarrow> request_id_middleware X C sd rq' w) of
        (resp, w') \<Rightarrow>
          ((case sign_response (as_crypto st) (as_values st) (as_signing st) (eg_sign_now X) resp of
              (_, Inl (status, body)) \<Rightarrow> eg_rejected X status body
            | (_, Inr signed_resp) \<Rightarrow> signed_resp), w'))"

end
