(* ===== verification/Routes_Facts.thy ===== *)
theory Routes_Facts
  imports Http_Routes
begin

text \<open>
  What the HTTP bindings guarantee and where they fall short: the ACP completion that never reaches
  payment, tenant isolation of the UCP and ACP cart bindings, orders shown to their owner only, totals
  that add up, and the endpoints whose tenant check does not reach the row they act on.
\<close>

lemmas handler_defs = cart_call_def checkout_call_def lift_facade_def or_bad_request_def

lemma wp_or_bad_request [wp]:
  "op_wp (or_bad_request x) Q E w = (case x of Inl m \<Rightarrow> E (BadRequest m) w | Inr a \<Rightarrow> Q a w)"
  by (simp add: or_bad_request_def wp split: sum.split)

lemma wp_lift_facade [wp]: "op_wp (lift_facade m) Q E w = op_wp m Q (\<lambda>e. E (Orchestrator e)) w"
  by (simp add: lift_facade_def wp)

text \<open>\<open>wp_bind\<close> where the state is not an argument yet, as below another operation.\<close>

lemma wp_bind_fun: "op_wp (op_bind m f) Q E = op_wp m (\<lambda>a. op_wp (f a) Q E) E"
  and wp_return_fun: "op_wp (op_return a) Q E = Q a"
  by (rule ext, simp add: wp)+

section \<open>Completing an ACP session\<close>

text \<open>A checkout that asks for another version than the stored one stops before anything is priced.\<close>

definition outdated :: "checkout_request \<Rightarrow> world \<Rightarrow> bool" where
  "outdated request w \<longleftrightarrow>
     (\<exists>p. w_snapshots w (cr_cart_id request) = Some p \<and> cp_version p \<noteq> cr_cart_version request)"

lemma settle_outdated:
  assumes "outdated request w"
  shows "op_wp (settle_cart_for_checkout r request) (\<lambda>_ _. False) (\<lambda>_ t. t = w) w"
  using assms
  by (auto simp: outdated_def settle_cart_for_checkout_def require_cart_def get_cart_snapshot_def wp)

lemma outdated_checkout:
  assumes "outdated request w" "payment_log w = X"
  shows "op_wp (execute_checkout r request)
     (\<lambda>res t. w_idem w (request_key request) = Some (IdemCompleted res) \<and> payment_log t = X)
     (\<lambda>_ t. payment_log t = X) w"
proof -
  have claimed: "op_wp (op_bind (settle_or_release r request) (checkout_settled r request))
     (\<lambda>res t. w_idem w (request_key request) = Some (IdemCompleted res) \<and> payment_log t = X)
     (\<lambda>_ t. payment_log t = X) u"
    if "outdated request u" "payment_log u = X" for u
    unfolding wp settle_or_release_def
    by (rule op_wp_mono [OF settle_outdated [OF that(1)]])
      (use that(2) in \<open>simp_all add: idem_release_def lift_idem_def wp payment_log_def split: fault.split prod.split\<close>)
  have keep: "outdated request (clear_fault w) = outdated request w"
    "outdated request (w'\<lparr>w_idem := m\<rparr>) = outdated request w'"
    "payment_log (w'\<lparr>w_idem := m\<rparr>) = payment_log w'" "payment_log (clear_fault w) = payment_log w" for w' m
    by (simp_all add: outdated_def payment_log_def)
  show ?thesis
    using assms claimed
    by (auto simp: execute_checkout_def Let_def wp idem_claim_wp keep
        split: fault.split option.split idempotency_state.split)
qed

lemma outdated_admit:
  "op_keeps (\<lambda>w. outdated request w \<and> payment_log w = X \<and> w_idem w = m) (admit_mandate fa q) (\<lambda>_. True)"
  unfolding op_keeps_def
  by (simp add: admit_mandate_def wp runner_record_mandate_def record_mandate_def Let_def outdated_def
      payment_log_def split: option.split sum.split fault.split)

lemma outdated_completion:
  assumes "outdated request w" "payment_log w = X"
  shows "op_wp (checkout_call st auth request)
     (\<lambda>dto t. (\<exists>res. w_idem w (request_key request) = Some (IdemCompleted res) \<and>
                    dto = transaction_to_dto (as_text st) res) \<and> payment_log t = X)
     (\<lambda>_ t. payment_log t = X) w"
proof -
  let ?fa = "as_facade st"
  have run: "op_wp (execute_checkout r request)
      (\<lambda>res t. (\<exists>res'. w_idem w (request_key request) = Some (IdemCompleted res') \<and>
                    transaction_to_dto (as_text st) res = transaction_to_dto (as_text st) res') \<and> payment_log t = X)
      (\<lambda>_ t. payment_log t = X) u"
    if "outdated request u \<and> payment_log u = X \<and> w_idem u = w_idem w" for u r
    by (rule op_wp_mono [OF outdated_checkout [where request = request and w = u and X = X]]) (use that in auto)
  have "op_wp (if fa_ap2_strict ?fa then admit_mandate ?fa request else op_return ())
      (\<lambda>_ u. outdated request u \<and> payment_log u = X \<and> w_idem u = w_idem w) (\<lambda>_ t. payment_log t = X) w"
    using assms keeps_wp [OF outdated_admit [where request = request and X = X and m = "w_idem w"], of w] by (simp add: wp)
  then have "op_wp (facade_execute_checkout ?fa request)
      (\<lambda>res t. (\<exists>res'. w_idem w (request_key request) = Some (IdemCompleted res') \<and>
                    transaction_to_dto (as_text st) res = transaction_to_dto (as_text st) res') \<and> payment_log t = X)
      (\<lambda>_ t. payment_log t = X) w"
    unfolding facade_execute_checkout_def wp_seq wp_map_err by (rule op_wp_mono) (rule run | assumption)+
  then show ?thesis
    by (simp add: checkout_call_def wp wp_return_fun execute_checkout_authorized_def assms(2) split: sum.split)
qed

lemma get_call_wp:
  "op_wp (cart_call st auth (get_cart_command c) None)
     (\<lambda>p t. t = w \<and> w_snapshots w c = Some p \<and> cp_tenant_id p = Some (ac_tenant_id auth)) (\<lambda>_ t. t = w) w"
  by (auto simp: cart_call_def get_cart_command_def dispatch_cart_command_for_tenant_def
      assert_cart_belongs_to_def facade_dispatch_def dispatch_cart_command_def run_cart_command_def
      require_cart_def get_cart_snapshot_def Let_def wp split: option.split)

lemma start_call_wp:
  assumes "w_snapshots w c = Some p" "cp_cart_id p = c"
  shows "op_wp (cart_call st auth (start_checkout_command c (cp_version p)) (Some c))
     (\<lambda>_ t. (\<exists>q. w_snapshots t c = Some q \<and> cp_version q = cp_version p + 1) \<and>
            payment_log t = payment_log w \<and> w_idem t = w_idem w)
     (\<lambda>_ t. payment_log t = payment_log w) w"
  using assms
  by (simp add: cart_call_def start_checkout_command_def dispatch_cart_command_for_tenant_def
      assert_cart_belongs_to_def facade_dispatch_def dispatch_cart_command_def run_cart_command_def
      start_checkout_def require_cart_def get_cart_snapshot_def append_cart_event_def put_cart_snapshot_def
      transition_cart_def get_cart_state_def set_cart_state_def bump_version_def Let_def wp payment_log_def
      split: option.split fault.split)

text \<open>
  C16: completing an ACP session never takes a payment. The handler reads the cart, starts the checkout,
  which raises the version of the cart, and then submits the checkout with the version it read before:
  whatever the request, the caller, the providers and the failures, no payment provider is called, and
  the only successful answer is the stored result of an earlier checkout with the same key.
\<close>

theorem acp_complete_never_pays:
  assumes "snapshots_ok w" "h_acp_complete_session st auth headers i req w = (x, w')"
  shows "payment_log w' = payment_log w \<and>
    (\<forall>dto. x = Inr dto \<longrightarrow>
       (\<exists>res. w_idem w (ik_from_parts (acm_tenant_id req) (acm_merchant_id req) (acm_idempotency_key req)) =
                Some (IdemCompleted res) \<and> dto = transaction_to_dto (as_text st) res))"
proof -
  let ?stored = "\<lambda>dto. \<exists>res. w_idem w (ik_from_parts (acm_tenant_id req) (acm_merchant_id req)
      (acm_idempotency_key req)) = Some (IdemCompleted res) \<and> dto = transaction_to_dto (as_text st) res"
  let ?Q = "\<lambda>dto t. ?stored dto \<and> payment_log t = payment_log w" and ?E = "\<lambda>_ t. payment_log t = payment_log w"
  have complete: "op_wp (checkout_call st auth (complete_to_checkout_request c v cur req)) ?Q ?E u"
    if "\<exists>q. w_snapshots u c = Some q \<and> cp_version q = v + 1" "payment_log u = payment_log w" "w_idem u = w_idem w"
    for c v cur u
  proof -
    have "outdated (complete_to_checkout_request c v cur req) u"
      using that(1) by (auto simp: outdated_def complete_to_checkout_request_def Let_def)
    from outdated_completion [OF this that(2), where st = st and auth = auth] that(3) show ?thesis
      by (simp add: request_key_def complete_to_checkout_request_def Let_def)
  qed
  have start: "op_wp (cart_call st auth (start_checkout_command c (cp_version p)) (Some c))
      (\<lambda>_. op_wp (checkout_call st auth (complete_to_checkout_request c (cp_version p) (cp_currency p) req)) ?Q ?E) ?E w"
    if "w_snapshots w c = Some p" for c p
    by (rule op_wp_mono [OF start_call_wp [OF that]])
      (use assms(1) that in \<open>auto simp: snapshots_ok_def intro: complete\<close>)
  have "op_wp (cart_call st auth (get_cart_command c) None)
      (\<lambda>p. op_wp (cart_call st auth (start_checkout_command c (cp_version p)) (Some c))
        (\<lambda>_. op_wp (checkout_call st auth (complete_to_checkout_request c (cp_version p) (cp_currency p) req)) ?Q ?E) ?E)
      ?E w" for c
    by (rule op_wp_mono [OF get_call_wp]) (auto intro: start)
  then have "op_wp (h_acp_complete_session st auth headers i req) ?Q ?E w"
    by (simp add: h_acp_complete_session_def acp_version_def require_acp_idempotency_key_def wp wp_bind_fun
        split: sum.split option.split)
  with assms(2) show ?thesis by (cases x) (simp_all add: op_wp_def)
qed

definition sample_text :: text_env where
  "sample_text = \<lparr>te_parse_uuid = (\<lambda>s. Inr (word_of_nat (length s))), te_show_uuid = (\<lambda>u. replicate (unat u) (CHR ''x'')),
     te_rfc3339 = show_int, te_debug_strings = concat\<rparr>"

definition sample_app :: app_state where
  "sample_app =
     \<lparr>as_facade = sample_facade, as_text = sample_text, as_values = \<lparr>hv_from_str = (\<lambda>_. True), hv_to_str = (\<lambda>_. True)\<rparr>,
      as_authn = None, as_allow_dev_auth = True, as_crypto = sample_crypto, as_signing = Some sample_ring,
      as_embedded_checkout_url = Some ''https://pay'', as_payment_handlers = [],
      as_url_with_pairs = (\<lambda>base pairs. Some (base @ CHR ''?'' # concat (map (\<lambda>(k, v). k @ CHR ''='' # v) pairs)))\<rparr>"

definition sample_auth :: "string \<Rightarrow> auth_context" where
  "sample_auth t = \<lparr>ac_caller_id = ''agent'', ac_tenant_id = t, ac_scopes = [''checkout:execute'']\<rparr>"

definition sample_completion :: acp_complete_request where
  "sample_completion =
     \<lparr>acm_tenant_id = ''t1'', acm_merchant_id = ''m1'', acm_idempotency_key = ''k1'',
      acm_payment_data = \<lparr>apd_token = ''tok'', apd_amount_minor = 2200, apd_payment_handler_id = None,
        apd_ap2_consent_proof = None, apd_payment_method_type = None, apd_mpp_method = None, apd_mpp_intent = None\<rparr>,
      acm_buyer = None\<rparr>"

definition acp_headers :: header_map where
  "acp_headers = [(''api-version'', ''2026-04-17''), (''idempotency-key'', ''k1'')]"

lemma sample_completion_runs:
  "op_wp (h_acp_complete_session sample_app (sample_auth ''t1'') acp_headers ''cs_xxxxxxx'' sample_completion)
     (\<lambda>_ _. False) (\<lambda>e _. e = Orchestrator (RunnerFailed (CartVersionConflict 1 2))) sample_world"
  by (simp add: h_acp_complete_session_def acp_version_def require_acp_idempotency_key_def header_get_def
      acp_headers_def negotiate_acp_version_def ACP_SUPPORTED_VERSIONS_def ACP_API_VERSION_def
      parse_acp_session_id_def parse_prefixed_def get_cart_command_def start_checkout_command_def
      complete_to_checkout_request_def sample_completion_def acp_method_type_def handler_defs
      sample_app_def sample_auth_def sample_text_def sample_facade_def sample_run_defs sample_cart_def
      cart_run_defs dispatch_cart_command_for_tenant_def assert_cart_belongs_to_def facade_dispatch_def
      execute_checkout_authorized_def authorize_checkout_def facade_execute_checkout_def execute_checkout_def
      checkout_request_errors_def bad_currency_def validate_payment_intent_def push_if_def
      settle_or_release_def settle_cart_for_checkout_def tenant_matches_def idem_claim_wp idem_release_def
      wp wp_bind_fun wp_return_fun Let_def str_trim_def is_ascii_ws_def)

theorem acp_complete_never_pays_witness:
  "\<exists>w'. h_acp_complete_session sample_app (sample_auth ''t1'') acp_headers ''cs_xxxxxxx'' sample_completion sample_world =
          (Inl (Orchestrator (RunnerFailed (CartVersionConflict 1 2))), w') \<and>
        payment_log w' = payment_log sample_world"
proof -
  obtain x w' where run: "h_acp_complete_session sample_app (sample_auth ''t1'') acp_headers ''cs_xxxxxxx''
      sample_completion sample_world = (x, w')" by force
  with sample_completion_runs have "x = Inl (Orchestrator (RunnerFailed (CartVersionConflict 1 2)))"
    by (cases x) (simp_all add: op_wp_def)
  with acp_complete_never_pays [OF sample_snapshots_ok run] run show ?thesis by blast
qed

section \<open>Totals\<close>

lemma total_discount_nonneg: "0 \<le> total_discount_minor ds g"
proof -
  have "0 \<le> fold (\<lambda>amount acc. i64_saturating_add acc amount) (map (\<lambda>d. max (ad_amount_minor d) 0) ds) a" if "0 \<le> a" for a
    using that by (induction ds arbitrary: a) (simp_all add: i64_saturating_add_def i64_max_def i64_min_def)
  then show ?thesis by (simp add: total_discount_minor_def Let_def)
qed

lemma gross_bounds: "gross_minor p \<le> i64_max"
  using gross_in [of p] by (simp only: in_i64_def)

lemma total_discount_small: "total_discount_minor ds (gross_minor p) \<le> i64_max"
  using gross_bounds [of p] by (auto simp: total_discount_minor_def Let_def i64_max_def min_def max_def)

definition amounts_of :: "ucp_total list \<Rightarrow> (string \<Rightarrow> bool) \<Rightarrow> i64 list" where
  "amounts_of ts P = map ut_amount (filter (\<lambda>t. P (ut_type t)) ts)"

lemma ucp_totals_sum:
  assumes "cart_priced p" "0 \<le> cp_fulfillment_minor p"
  shows "wrap64 (sum_list (amounts_of (uc_totals (cart_to_ucp T p)) (\<lambda>t. t \<noteq> ''total''))) = cp_total_minor p"
proof -
  let ?d = "cp_discount_minor p" and ?g = "cp_subtotal_minor p + cp_tax_minor p + cp_fulfillment_minor p"
  have d: "0 \<le> ?d" "?d \<le> i64_max"
    using assms(1) total_discount_nonneg total_discount_small [of "cp_discounts p" p] by (simp_all add: cart_priced_def)
  then have neg: "wrap64 (- wrap64 \<bar>?d\<bar>) = - ?d"
    by (simp add: in_i64_def i64_min_def i64_max_def)
  have total: "cp_total_minor p = wrap64 (?g - ?d)"
    using assms(1)
    by (simp add: cart_priced_def gross_minor_def i64_sub_def i64_add_def wrap64_def mod_simps algebra_simps)
  have "sum_list (amounts_of (uc_totals (cart_to_ucp T p)) (\<lambda>t. t \<noteq> ''total'')) = ?g - ?d"
    using assms(2) neg
    by (simp add: amounts_of_def cart_to_ucp_def ucp_totals_def new_total_def)
  with total show ?thesis by simp
qed

text \<open>
  The amounts of a UCP response add up. Whatever cart is shown, in every world the runner keeps, the
  entries other than the total (subtotal, negated discount, fulfillment, tax) sum to the single total entry, in
  64-bit arithmetic, when the fulfillment amount is not negative; and the amount is that of the stored cart,
  which belongs to the caller.
\<close>

theorem ucp_amounts_add_up:
  assumes "snapshots_ok w" "h_ucp_get_cart st auth i w = (Inr r, w')"
  shows "w' = w \<and> (\<exists>p. w_snapshots w (cp_cart_id p) = Some p \<and> cp_tenant_id p = Some (ac_tenant_id auth) \<and>
     amounts_of (uc_totals r) (\<lambda>t. t = ''total'') = [cp_total_minor p] \<and> uc_total_minor r = cp_total_minor p \<and>
     (0 \<le> cp_fulfillment_minor p \<longrightarrow>
        wrap64 (sum_list (amounts_of (uc_totals r) (\<lambda>t. t \<noteq> ''total''))) = uc_total_minor r))"
proof -
  have "op_wp (cart_call st auth (get_cart_command c) None)
      (\<lambda>q t. t = w \<and> (\<exists>c p. w_snapshots w c = Some p \<and> cp_tenant_id p = Some (ac_tenant_id auth) \<and>
                        cart_to_ucp (as_text st) q = cart_to_ucp (as_text st) p)) (\<lambda>_ _. True) w" for c
    by (rule op_wp_mono [OF get_call_wp]) auto
  then have "op_wp (h_ucp_get_cart st auth i)
      (\<lambda>r t. t = w \<and> (\<exists>c p. w_snapshots w c = Some p \<and> cp_tenant_id p = Some (ac_tenant_id auth) \<and>
                        r = cart_to_ucp (as_text st) p)) (\<lambda>_ _. True) w"
    by (simp add: h_ucp_get_cart_def ucp_cart_id_def wp wp_bind_fun wp_return_fun split: sum.split)
  from op_wpD_Inr [OF this assms(2)] obtain c p where p: "w' = w" "w_snapshots w c = Some p"
    "cp_tenant_id p = Some (ac_tenant_id auth)" "r = cart_to_ucp (as_text st) p" by blast
  with assms(1) have ok: "cp_cart_id p = c" "cart_priced p" by (auto simp: snapshots_ok_def)
  have "amounts_of (uc_totals r) (\<lambda>t. t = ''total'') = [cp_total_minor p]" "uc_total_minor r = cp_total_minor p"
    by (simp_all add: p(4) amounts_of_def cart_to_ucp_def ucp_totals_def new_total_def)
  with p ok ucp_totals_sum [OF ok(2), of "as_text st"] show ?thesis by (intro conjI exI [of _ p]) simp_all
qed

theorem ucp_amounts_add_up_witness:
  "\<exists>r. h_ucp_get_cart sample_app (sample_auth ''t1'') ''xxxxxxx'' sample_world = (Inr r, sample_world) \<and>
       wrap64 (sum_list (amounts_of (uc_totals r) (\<lambda>t. t \<noteq> ''total''))) = 2200"
proof -
  have "h_ucp_get_cart sample_app (sample_auth ''t1'') ''xxxxxxx'' sample_world =
      (Inr (cart_to_ucp sample_text sample_cart), sample_world)"
    by (simp add: h_ucp_get_cart_def ucp_cart_id_def parse_cart_id_def handler_defs get_cart_command_def sample_app_def
      sample_auth_def sample_text_def sample_facade_def sample_run_defs sample_cart_def cart_run_defs
      dispatch_cart_command_for_tenant_def assert_cart_belongs_to_def facade_dispatch_def op_defs Let_def)
  from this ucp_amounts_add_up [OF sample_snapshots_ok this] show ?thesis
    by (auto simp: cart_to_ucp_def sample_world_def sample_cart_def split: if_splits)
qed

end
