(* ===== verification/Route_Isolation.thy ===== *)
theory Route_Isolation
  imports Routes_Facts
begin

text \<open>
  Who may reach what over HTTP. The UCP and ACP cart bindings leave the carts of other tenants alone and the
  order endpoints answer from the caller's own orders; the webhook, payment and embedded checkout endpoints
  are followed to the row they act on.
\<close>

text \<open>The rules of a frame for what handlers add to the combinators.\<close>

locale handler_frame = frame R for R :: "world \<Rightarrow> world \<Rightarrow> bool"
begin

lemma rel_or_bad_request: "op_rel R (or_bad_request x)"
  unfolding or_bad_request_def by (auto intro: rel_rules split: sum.split)

lemma rel_fold_calls: "(\<And>x. x \<in> set xs \<Longrightarrow> op_rel R (f x)) \<Longrightarrow> op_rel R (fold_calls f xs p)"
  by (induction xs arbitrary: p) (simp_all add: rel_return rel_bind)

lemma rel_headers:
  "op_rel R (acp_version st headers)"
  "op_rel R (require_acp_idempotency_key st headers)"
  "op_rel R (ucp_cart_id st i)"
  unfolding acp_version_def require_acp_idempotency_key_def ucp_cart_id_def
  by (auto intro!: rel_rules rel_or_bad_request split: sum.split option.split)

lemmas handler_rules = rel_rules rel_or_bad_request rel_fold_calls rel_headers

end

section \<open>Cart bindings\<close>

text \<open>
  Carts of other tenants that no fresh identifier names are untouched. Identifiers are drawn from a counter
  that never goes back.
\<close>

definition isolated :: "runner \<Rightarrow> string \<Rightarrow> world \<Rightarrow> world \<Rightarrow> bool" where
  "isolated r t w w' \<longleftrightarrow>
     (snapshots_ok w \<longrightarrow>
        snapshots_ok w' \<and> w_uuid w \<le> w_uuid w' \<and>
        (\<forall>c p. w_snapshots w c = Some p \<longrightarrow> cp_tenant_id p \<noteq> Some t \<longrightarrow>
               (\<forall>n \<ge> w_uuid w. c \<noteq> CartId (ru_new_v4 r n)) \<longrightarrow>
               w_snapshots w' c = Some p \<and> w_states w' c = w_states w c \<and> w_events w' c = w_events w c))"

lemma isolated_refl: "isolated r t w w"
  by (simp add: isolated_def)

lemma isolated_trans: "isolated r t w u \<Longrightarrow> isolated r t u v \<Longrightarrow> isolated r t w v"
  unfolding isolated_def using order_trans by (smt (verit))

interpretation iso: handler_frame "isolated r t" for r t
  by unfold_locales (auto intro: isolated_refl isolated_trans)

interpretation counter: frame "\<lambda>w w'. w_uuid w \<le> w_uuid w'"
  by unfold_locales auto

lemma counter_steps:
  "op_rel (\<lambda>w w'. w_uuid w \<le> w_uuid w') (append_cart_event c ev)"
  "op_rel (\<lambda>w w'. w_uuid w \<le> w_uuid w') (put_cart_snapshot p)"
  "op_rel (\<lambda>w w'. w_uuid w \<le> w_uuid w') (set_cart_state c s)"
  "op_rel (\<lambda>w w'. w_uuid w \<le> w_uuid w') (provider_call e err f)"
  "op_rel (\<lambda>w w'. w_uuid w \<le> w_uuid w') (fresh_uuid r)"
  unfolding append_cart_event_def put_cart_snapshot_def set_cart_state_def
  by (rule rel_store_put rel_provider_call; simp)+ (simp add: op_rel_def fresh_uuid_def)

lemmas counter_rules = counter.rel_rules counter_steps

lemma counter_helpers:
  "op_rel (\<lambda>w w'. w_uuid w \<le> w_uuid w') (fresh_id r p)"
  "op_rel (\<lambda>w w'. w_uuid w \<le> w_uuid w') (require_cart c)"
  "op_rel (\<lambda>w w'. w_uuid w \<le> w_uuid w') (transition_cart c ev)"
  "op_rel (\<lambda>w w'. w_uuid w \<le> w_uuid w') (resolve_prices r q)"
  "op_rel (\<lambda>w w'. w_uuid w \<le> w_uuid w') (resolve_tax r q)"
  "op_rel (\<lambda>w w'. w_uuid w \<le> w_uuid w') (check_geo r q)"
  "op_rel (\<lambda>w w'. w_uuid w \<le> w_uuid w') (apply_discounts r q)"
  "op_rel (\<lambda>w w'. w_uuid w \<le> w_uuid w') (quote_options r q s ids)"
  "op_rel (\<lambda>w w'. w_uuid w \<le> w_uuid w') (selection_line_ids q s)"
  "op_rel (\<lambda>w w'. w_uuid w \<le> w_uuid w') (validate_adjustment r code)"
  unfolding fresh_id_def require_cart_def get_cart_snapshot_def transition_cart_def get_cart_state_def
    resolve_prices_def resolve_tax_def check_geo_def apply_discounts_def quote_options_def
    selection_line_ids_def validate_adjustment_def Let_def
  by (auto intro!: counter_rules split: option.split)

lemma counter_mutate: "op_rel (\<lambda>w w'. w_uuid w \<le> w_uuid w') (mutate_and_recalculate r c q ev)"
  unfolding mutate_and_recalculate_def Let_def by (intro counter_rules counter_helpers)

lemma counter_command: "op_rel (\<lambda>w w'. w_uuid w \<le> w_uuid w') (dispatch_cart_command r cmd c)"
  unfolding dispatch_cart_command_def run_cart_command_def create_cart_def add_item_def update_item_qty_def
    remove_item_def apply_adjustment_def set_fulfillment_selection_def start_checkout_def cancel_cart_def Let_def
  by (auto intro!: counter_rules counter_helpers counter_mutate split: cart_command.split)

text \<open>A command that does not name two different carts.\<close>

lemma isolated_dispatch:
  assumes "coherent cmd cart_id"
  shows "op_rel (isolated (fa_runner fa) t) (dispatch_cart_command_for_tenant fa t cmd cart_id)"
proof (rule op_relI)
  fix w
  obtain x w' where run: "dispatch_cart_command_for_tenant fa t cmd cart_id w = (x, w')" by force
  let ?C = "command_carts (fa_runner fa) w cmd cart_id"
  have steps: "w' = w \<or> (\<exists>y. dispatch_cart_command (fa_runner fa) (with_tenant cmd t) cart_id w = (y, w'))"
    using run by (auto simp: dispatch_cart_command_for_tenant_def assert_cart_belongs_to_def facade_dispatch_def
        op_defs Let_def split: option.splits prod.splits sum.splits if_splits)
  then have uuid: "w_uuid w \<le> w_uuid w'"
    using counter_command [THEN op_relD] by blast
  have "isolated (fa_runner fa) t w w'"
    unfolding isolated_def
  proof (intro impI conjI allI)
    assume ok: "snapshots_ok w"
    show "snapshots_ok w'"
      using steps dispatch_cart_inv [OF ok] ok by (auto simp: cart_inv_def)
    show "w_uuid w \<le> w_uuid w'" by (rule uuid)
    fix c p
    assume c: "w_snapshots w c = Some p" "cp_tenant_id p \<noteq> Some t"
      and new: "\<forall>n\<ge>w_uuid w. c \<noteq> CartId (ru_new_v4 (fa_runner fa) n)"
    have "w' = w" if "c \<in> ?C"
      using foreign_target_refused [OF c command_carts_target [OF that assms], of fa] new run by simp
    moreover have "w' = w \<or> cart_frame ?C w w'" by (rule facade_dispatch_frame [OF ok run])
    ultimately have same: "w' = w \<or> same_carts ?C w w' \<and> c \<notin> ?C" by (auto simp: cart_frame_def)
    then show "w_snapshots w' c = Some p" "w_states w' c = w_states w c" "w_events w' c = w_events w c"
      using c(1) by (auto simp: same_carts_def)
  qed
  with run show "isolated (fa_runner fa) t w (snd (dispatch_cart_command_for_tenant fa t cmd cart_id w))" by simp
qed

definition isolates :: "app_state \<Rightarrow> auth_context \<Rightarrow> 'a hnd \<Rightarrow> bool" where
  "isolates st auth h \<longleftrightarrow>
     op_rel (isolated (fa_runner (as_facade st)) (ac_tenant_id auth)) h"

lemma isolates_call:
  "coherent cmd cart_id \<Longrightarrow>
   op_rel (isolated (fa_runner (as_facade st)) (ac_tenant_id auth)) (cart_call st auth cmd cart_id)"
  unfolding cart_call_def lift_facade_def by (intro iso.rel_map_err isolated_dispatch)

lemma coherent_simps [simp]:
  "coherent cmd None"
  "coherent (CreateCart a) c" "coherent (AddItem b) c" "coherent (UpdateItemQty d) c"
  "coherent (RemoveItem e) c" "coherent (SetFulfillmentSelection f) c"
  "coherent (start_checkout_command i v) (Some i)"
  by (simp_all add: coherent_def start_checkout_command_def)

lemma acp_add_commands_coherent: "cmd \<in> set (acp_add_commands req) \<Longrightarrow> coherent cmd c"
  by (auto simp: acp_add_commands_def)

lemma isolates_parts:
  "op_rel (isolated (fa_runner (as_facade st)) (ac_tenant_id auth)) (created_with_lines st auth creq)"
  "op_rel (isolated (fa_runner (as_facade st)) (ac_tenant_id auth)) (replace_lines st auth c items)"
  unfolding created_with_lines_def replace_lines_def add_line_def update_line_def remove_line_def Let_def
  by (auto intro!: iso.handler_rules isolates_call split: option.split prod.split)

lemma isolates_acp_created:
  "op_rel (isolated (fa_runner (as_facade st)) (ac_tenant_id auth)) (acp_created st auth headers areq)"
  unfolding acp_created_def acp_create_command_def
  by (intro iso.handler_rules isolates_call coherent_simps acp_add_commands_coherent)

lemma isolates_commands:
  "op_rel (isolated (fa_runner (as_facade st)) (ac_tenant_id auth)) (cart_call st auth cmd None)"
  "op_rel (isolated (fa_runner (as_facade st)) (ac_tenant_id auth)) (cart_call st auth (SetFulfillmentSelection f) (Some c))"
  "op_rel (isolated (fa_runner (as_facade st)) (ac_tenant_id auth)) (cart_call st auth (start_checkout_command c v) (Some c))"
  by (rule isolates_call; simp)+

text \<open>
  Tenant isolation of the UCP and ACP cart bindings. Whatever the path, the headers and the body, and
  whether or not the request succeeds, none of the cart endpoints of either protocol changes a cart of
  another tenant than the caller's: its snapshot, its state and its event stream stay as they are, provided
  fresh identifiers do not collide with it.
\<close>

theorem cart_bindings_isolate_tenants:
  "isolates st auth (h_ucp_create_cart st auth creq) \<and>
   isolates st auth (h_ucp_get_cart st auth i) \<and>
   isolates st auth (h_ucp_update_cart st auth i creq) \<and>
   isolates st auth (h_ucp_cancel_cart st auth i) \<and>
   isolates st auth (h_ucp_set_fulfillment st auth i freq) \<and>
   isolates st auth (h_ucp_create_checkout st auth creq) \<and>
   isolates st auth (h_ucp_get_checkout st auth i) \<and>
   isolates st auth (h_ucp_update_checkout st auth i creq) \<and>
   isolates st auth (h_ucp_cancel_checkout st auth i) \<and>
   isolates st auth (h_ucp_set_checkout_fulfillment st auth i freq) \<and>
   isolates st auth (h_acp_create_session st auth headers areq) \<and>
   isolates st auth (h_acp_create_cart st auth headers areq) \<and>
   isolates st auth (h_acp_get_session st auth headers i) \<and>
   isolates st auth (h_acp_get_cart st auth headers i) \<and>
   isolates st auth (h_acp_update_session st auth headers i ureq) \<and>
   isolates st auth (h_acp_update_cart st auth headers i ureq) \<and>
   isolates st auth (h_acp_cancel_session st auth headers i) \<and>
   isolates st auth (h_acp_cancel_cart st auth headers i)"
  unfolding isolates_def h_ucp_create_cart_def h_ucp_get_cart_def h_ucp_update_cart_def h_ucp_cancel_cart_def
    h_ucp_set_fulfillment_def h_ucp_create_checkout_def h_ucp_get_checkout_def h_ucp_update_checkout_def
    h_ucp_cancel_checkout_def h_ucp_set_checkout_fulfillment_def as_checkout_def h_acp_create_session_def h_acp_create_cart_def
    h_acp_get_session_def h_acp_get_cart_def h_acp_update_session_def h_acp_update_cart_def
    h_acp_cancel_session_def h_acp_cancel_cart_def
  by (intro conjI iso.handler_rules isolates_parts isolates_acp_created isolates_commands)

section \<open>Orders\<close>

text \<open>What a tenant may see of the stored orders: that an id is taken, and the orders of its own.\<close>

definition visible_order :: "string \<Rightarrow> order_record option \<Rightarrow> order_record option option" where
  "visible_order t x = map_option (\<lambda>r. if or_tenant_id r = t then Some r else None) x"

definition same_orders_for :: "string \<Rightarrow> world \<Rightarrow> world \<Rightarrow> bool" where
  "same_orders_for t w v \<longleftrightarrow>
     (\<forall>i. visible_order t (order_get i (w_orders w)) = visible_order t (order_get i (w_orders v)))"

lemma tenant_order_run:
  "tenant_order auth i w =
     ((case visible_order (ac_tenant_id auth) (order_get i (w_orders w)) of
         None \<Rightarrow> Inl (NotFound ''order not found'')
       | Some None \<Rightarrow> Inl (Forbidden ''tenant mismatch'')
       | Some (Some r) \<Rightarrow> Inr r), w)"
  by (auto simp: tenant_order_def facade_get_order_def get_order_def lift_facade_def op_defs visible_order_def
      split: option.split)

lemma visible_own:
  "order_get i os = Some r \<and> or_tenant_id r = t \<longleftrightarrow> visible_order t (order_get i os) = Some (Some r)"
  by (auto simp: visible_order_def)

lemma list_orders_run:
  "h_list_orders st auth w =
     (Inr (map (order_to_dto (as_text st)) (list_by_tenant (ac_tenant_id auth) (w_orders w))), w)"
  by (simp add: h_list_orders_def facade_list_orders_def list_orders_def lift_facade_def op_defs)

text \<open>
  C34: orders are shown to their tenant only. The answers to reading an order, in either shape, and the set
  of orders listed depend on nothing but the caller's own orders and on which ids exist: in two worlds that
  agree on those, whatever other tenants' orders contain, they are the same; and reading changes nothing.
\<close>

theorem order_reads_scoped:
  assumes "same_orders_for (ac_tenant_id auth) w v" "orders_ok (w_orders w)" "orders_ok (w_orders v)"
  shows "h_get_order st auth i w = (fst (h_get_order st auth i v), w) \<and>
    h_ucp_get_order st auth i w = (fst (h_ucp_get_order st auth i v), w) \<and>
    (\<exists>ds es. h_list_orders st auth w = (Inr ds, w) \<and> h_list_orders st auth v = (Inr es, v) \<and> set ds = set es)"
proof (intro conjI)
  have "tenant_order auth i w = (fst (tenant_order auth i v), w)"
    using assms(1) by (simp add: tenant_order_run same_orders_for_def)
  then show "h_get_order st auth i w = (fst (h_get_order st auth i v), w)"
    "h_ucp_get_order st auth i w = (fst (h_ucp_get_order st auth i v), w)"
    by (simp_all add: h_get_order_def h_ucp_get_order_def op_bind_def op_return_def split: prod.split sum.split)
  have "set (list_by_tenant (ac_tenant_id auth) (w_orders w)) = set (list_by_tenant (ac_tenant_id auth) (w_orders v))"
    using assms by (auto simp: list_by_tenant_mem visible_own same_orders_for_def)
  then show "\<exists>ds es. h_list_orders st auth w = (Inr ds, w) \<and> h_list_orders st auth v = (Inr es, v) \<and> set ds = set es"
    by (auto simp: list_orders_run)
qed

definition sample_order_of :: "string \<Rightarrow> string \<Rightarrow> order_record" where
  "sample_order_of t i = new_order (sample_request\<lparr>cr_tenant_id := t\<rparr>) sample_cart i ''evt'' ''txn'' 0 0"

definition orders_world :: "order_record list \<Rightarrow> world" where
  "orders_world rs = empty_world\<lparr>w_orders := map (\<lambda>r. (or_order_id r, r)) rs\<rparr>"

theorem order_reads_scoped_witness:
  "\<exists>ds es. h_list_orders sample_app (sample_auth ''t1'') (orders_world [sample_order_of ''t1'' ''o1'', sample_order_of ''t2'' ''o2'']) =
             (Inr ds, orders_world [sample_order_of ''t1'' ''o1'', sample_order_of ''t2'' ''o2'']) \<and>
           h_list_orders sample_app (sample_auth ''t1'') (orders_world [sample_order_of ''t3'' ''o2'', sample_order_of ''t1'' ''o1'']) =
             (Inr es, orders_world [sample_order_of ''t3'' ''o2'', sample_order_of ''t1'' ''o1'']) \<and> set ds = set es"
proof -
  let ?w = "orders_world [sample_order_of ''t1'' ''o1'', sample_order_of ''t2'' ''o2'']"
  let ?v = "orders_world [sample_order_of ''t3'' ''o2'', sample_order_of ''t1'' ''o1'']"
  have fields: "or_order_id (sample_order_of t i) = i" "or_tenant_id (sample_order_of t i) = t" for t i
    by (simp_all add: sample_order_of_def new_order_def sample_request_def)
  have "same_orders_for (ac_tenant_id (sample_auth ''t1'')) ?w ?v" "orders_ok (w_orders ?w)" "orders_ok (w_orders ?v)"
    by (simp_all add: same_orders_for_def visible_order_def order_get_def orders_world_def orders_ok_def keyed_def
        fields sample_auth_def)
  from order_reads_scoped [OF this] show ?thesis by blast
qed

section \<open>Endpoints that check the caller but not the row\<close>

text \<open>
  Payments of another tenant. The refund endpoint compares the tenant of the request body with the
  caller's and nothing with the transaction: a caller that names its own tenant and a transaction of another
  tenant's order reaches the payment provider, and when the provider confirms, the payment state of the
  other tenant's transaction is overwritten. Capture and void take the same path.
\<close>

theorem refund_ignores_owner:
  assumes "order_get i (w_orders w) = Some r" "or_tenant_id r \<noteq> ac_tenant_id auth"
    and "pl_tenant_id req = ac_tenant_id auth" "pl_transaction_id req = or_transaction_id r"
    and "ps_refund (ru_providers (fa_runner (as_facade st))) (w_log w) req = Inr res" "por_success res"
  shows "\<exists>w'. h_refund_payment st auth req w = (Inr res, w') \<and>
    w_payments w' (or_transaction_id r) = Some Refunded \<and> w_log w' = w_log w @ [CallRefund req] \<and>
    order_get i (w_orders w') = Some r"
  using assms
  by (simp add: h_refund_payment_def lifecycle_call_def facade_refund_payment_def refund_payment_def lift_facade_def
      provider_call_def store_payment_state_def payment_state_put_def op_defs)

theorem refund_ignores_owner_witness:
  "\<exists>w'. h_refund_payment sample_app (sample_auth ''t2'')
           \<lparr>pl_tenant_id = ''t2'', pl_merchant_id = ''m2'', pl_transaction_id = ''txn'', pl_amount_minor = 2200,
            pl_idempotency_key = ''k''\<rparr>
           (orders_world [sample_order_of ''t1'' ''o1'']) = (Inr \<lparr>por_success = True, por_reference = ''refund''\<rparr>, w') \<and>
         w_payments w' ''txn'' = Some Refunded"
proof -
  let ?req = "\<lparr>pl_tenant_id = ''t2'', pl_merchant_id = ''m2'', pl_transaction_id = ''txn'', pl_amount_minor = 2200,
     pl_idempotency_key = ''k''\<rparr>"
  have fields: "or_order_id (sample_order_of t i) = i" "or_tenant_id (sample_order_of t i) = t"
    "or_transaction_id (sample_order_of t i) = ''txn''" for t i
    by (simp_all add: sample_order_of_def new_order_def sample_request_def)
  from refund_ignores_owner [of "''o1''" "orders_world [sample_order_of ''t1'' ''o1'']" "sample_order_of ''t1'' ''o1''"
      "sample_auth ''t2''" ?req sample_app "\<lparr>por_success = True, por_reference = ''refund''\<rparr>"]
  show ?thesis
    by (auto simp: fields order_get_def orders_world_def sample_auth_def sample_app_def sample_facade_def
        sample_runner_def sample_providers_def)
qed

text \<open>
  Webhooks of another tenant. Removing a registration asks for authentication only: any caller that
  knows its id removes the registration of another tenant, whose events are then no longer delivered there.
\<close>

theorem unregister_ignores_owner:
  assumes "w_faults w = []" "keyed wr_id (w_webhooks w)" "hook \<in> set (webhooks_list_by_tenant t (w_webhooks w))"
    and "t \<noteq> ac_tenant_id auth"
  shows "\<exists>w'. h_unregister_webhook st auth (wr_id hook) w = (Inr True, w') \<and>
    hook \<notin> set (webhooks_list_by_tenant t (w_webhooks w'))"
proof -
  let ?w = "w\<lparr>w_webhooks := AList.delete (wr_id hook) (w_webhooks w)\<rparr>"
  from assms(3) have "hook \<in> snd ` set (w_webhooks w)" by (auto simp: webhooks_list_by_tenant_def)
  then have row: "map_of (w_webhooks w) (wr_id hook) = Some hook" using keyed_mem [OF assms(2)] by blast
  have "hook \<notin> snd ` set (AList.delete (wr_id hook) (w_webhooks w))"
    using keyed_mem [OF keyed_delete [OF assms(2)], of hook "wr_id hook"] by (simp add: delete_conv)
  then have "hook \<notin> set (webhooks_list_by_tenant t (w_webhooks ?w))"
    by (auto simp: webhooks_list_by_tenant_def)
  moreover have "h_unregister_webhook st auth (wr_id hook) w = (Inr True, ?w)"
    using assms(1) row
    by (simp add: h_unregister_webhook_def facade_unregister_webhook_def unregister_webhook_def unregister_def
        lift_facade_def store_call_ok op_map_err_def)
  ultimately show ?thesis by blast
qed

definition sample_hook :: webhook_registration where
  "sample_hook = \<lparr>wr_id = ''wh_1'', wr_tenant_id = ''t1'', wr_url = ''https://t1'', wr_secret = ''s'',
     wr_event_filter = None, wr_active = True\<rparr>"

theorem unregister_ignores_owner_witness:
  "\<exists>w'. h_unregister_webhook sample_app (sample_auth ''t2'') ''wh_1''
           (empty_world\<lparr>w_webhooks := [(''wh_1'', sample_hook)]\<rparr>) = (Inr True, w') \<and>
         sample_hook \<notin> set (webhooks_list_by_tenant ''t1'' (w_webhooks w'))"
proof -
  have hook: "wr_id sample_hook = ''wh_1''" by (simp add: sample_hook_def)
  show ?thesis
    using unregister_ignores_owner [of "empty_world\<lparr>w_webhooks := [(''wh_1'', sample_hook)]\<rparr>" sample_hook "''t1''"
        "sample_auth ''t2''" sample_app]
    by (simp add: hook) (simp add: webhooks_list_by_tenant_def empty_world_def keyed_def sample_hook_def sample_auth_def)
qed

section \<open>Embedded checkout links\<close>

text \<open>
  C33: an embedded checkout link is made only for a cart of the caller, expires a quarter of an hour later
  (in 64-bit arithmetic), and its token is a signature over the session and the expiry that the keyring
  verifies under the key id in the link.
\<close>

theorem embedded_link_authentic:
  assumes "crypto_laws (as_crypto st)" "as_signing st = Some ring" "ring_ok (as_crypto st) ring"
    and "h_ucp_embedded_link st auth now i w = (Inr link, w')"
  shows "w' = w \<and> ek_expires_at link = i64_add now 900 \<and>
    (\<exists>c p kid token url. parse_cart_id (as_text st) i = Inr c \<and> w_snapshots w c = Some p \<and>
       cp_tenant_id p = Some (ac_tenant_id auth) \<and> as_embedded_checkout_url st = Some url \<and>
       ek_checkout_session_id link = cart_id_to_session_id (as_text st) c \<and>
       as_url_with_pairs st url [(''session'', ek_checkout_session_id link), (''expires'', show_int (ek_expires_at link)),
         (''kid'', kid), (''token'', token)] = Some (ek_embedded_url link) \<and>
       ring_verify (as_crypto st) ring kid
         (embedded_link_signing_base (ek_checkout_session_id link) (ek_expires_at link)) token = Inr ())"
proof -
  let ?P = "\<lambda>c link t. t = w \<and> ek_expires_at link = i64_add now 900 \<and>
    (\<exists>p kid token url. w_snapshots w c = Some p \<and>
       cp_tenant_id p = Some (ac_tenant_id auth) \<and> as_embedded_checkout_url st = Some url \<and>
       ek_checkout_session_id link = cart_id_to_session_id (as_text st) c \<and>
       as_url_with_pairs st url [(''session'', ek_checkout_session_id link), (''expires'', show_int (ek_expires_at link)),
         (''kid'', kid), (''token'', token)] = Some (ek_embedded_url link) \<and>
       ring_verify (as_crypto st) ring kid
         (embedded_link_signing_base (ek_checkout_session_id link) (ek_expires_at link)) token = Inr ())"
  have built: "?P c link w"
    if "build_embedded_checkout_link st url c ring now = Some link" "as_embedded_checkout_url st = Some url"
      "w_snapshots w c = Some p" "cp_tenant_id p = Some (ac_tenant_id auth)" for c url p link
    using that detached_roundtrip [OF assms(1,3)]
    by (auto simp: build_embedded_checkout_link_def Let_def EMBEDDED_CHECKOUT_LINK_TTL_SECONDS_def) blast
  have "op_wp (cart_call st auth (get_cart_command c) None)
      (\<lambda>_. op_wp (op_ok_or Internal (build_embedded_checkout_link st url c ring now)) (?P c) (\<lambda>_ _. True)) (\<lambda>_ _. True) w"
    if "as_embedded_checkout_url st = Some url" for c url
    by (rule op_wp_mono [OF get_call_wp]) (auto simp: wp split: option.split dest!: built [OF _ that])
  then have "op_wp (h_ucp_embedded_link st auth now i)
      (\<lambda>link t. \<exists>c. parse_cart_id (as_text st) i = Inr c \<and> ?P c link t) (\<lambda>_ _. True) w"
    using assms(2) by (simp add: h_ucp_embedded_link_def ucp_cart_id_def wp wp_bind_fun split: sum.split option.split)
  from op_wpD_Inr [OF this assms(4)] show ?thesis by blast
qed

lemma sample_ring_ok: "ring_ok sample_crypto sample_ring"
  using from_specs_ok sample_specs_ring by blast

lemma sample_session_id: "parse_cart_id sample_text ''xxxxxxx'' = Inr (CartId 7)"
  by (simp add: parse_cart_id_def sample_text_def)

theorem embedded_link_authentic_witness:
  "\<exists>link kid token. h_ucp_embedded_link sample_app (sample_auth ''t1'') 1000 ''xxxxxxx'' sample_world = (Inr link, sample_world) \<and>
     ek_expires_at link = 1900 \<and>
     ring_verify sample_crypto sample_ring kid
       (embedded_link_signing_base (cart_id_to_session_id sample_text (CartId 7)) 1900) token = Inr ()"
proof -
  have app: "as_signing sample_app = Some sample_ring" "as_crypto sample_app = sample_crypto"
    "as_text sample_app = sample_text" "\<exists>u. as_embedded_checkout_url sample_app = Some u"
    "\<And>u ps. \<exists>y. as_url_with_pairs sample_app u ps = Some y"
    by (simp_all add: sample_app_def)
  have get: "cart_call sample_app (sample_auth ''t1'') (get_cart_command (CartId 7)) None sample_world =
      (Inr sample_cart, sample_world)"
    by (simp add: handler_defs get_cart_command_def sample_app_def sample_auth_def sample_text_def sample_facade_def
      sample_run_defs sample_cart_def cart_run_defs dispatch_cart_command_for_tenant_def
      assert_cart_belongs_to_def facade_dispatch_def op_defs Let_def)
  obtain u link where "as_embedded_checkout_url sample_app = Some u"
    and "build_embedded_checkout_link sample_app u (CartId 7) sample_ring 1000 = Some link"
    using app(4,5) by (metis build_embedded_checkout_link_def option.simps(9))
  with app get have run: "h_ucp_embedded_link sample_app (sample_auth ''t1'') 1000 ''xxxxxxx'' sample_world = (Inr link, sample_world)"
    by (simp add: h_ucp_embedded_link_def ucp_cart_id_def or_bad_request_def sample_session_id op_ok_or_def op_defs)
  have "i64_add 1000 900 = 1900" by (simp add: i64_add_def in_i64_def i64_min_def i64_max_def)
  with embedded_link_authentic [OF _ app(1) _ run] run show ?thesis
    by (simp add: app(2,3) sample_laws sample_ring_ok sample_session_id) (elim conjE exE, simp, blast)
qed

end
