(* ===== verification/A2a_Facts.thy ===== *)
theory A2a_Facts
  imports A2a_Routes Route_Isolation
begin

text \<open>
  What the A2A bindings mean: a cart envelope does what the REST command it carries does, the replies of
  the message binding are well formed, and what the reading of raw JSON lets through.
\<close>

section \<open>Envelopes and REST commands\<close>

text \<open>
  The JSON of a REST command, as \<open>CartCommandDto\<close> derives it: the name of the variant under \<open>kind\<close> and its
  fields.
\<close>

fun command_json :: "cart_command_dto \<Rightarrow> json" where
  "command_json (CreateCartDto merchant_id currency) =
     JObj [(''kind'', JStr ''create_cart''), (''merchant_id'', JStr merchant_id), (''currency'', JStr currency)]"
| "command_json (AddItemDto item_id quantity) =
     JObj [(''kind'', JStr ''add_item''), (''item_id'', JStr item_id), (''quantity'', JInt (uint quantity))]"
| "command_json (UpdateItemQtyDto line_id quantity) =
     JObj [(''kind'', JStr ''update_item_qty''), (''line_id'', JStr line_id), (''quantity'', JInt (uint quantity))]"
| "command_json (RemoveItemDto line_id) = JObj [(''kind'', JStr ''remove_item''), (''line_id'', JStr line_id)]"
| "command_json (ApplyAdjustmentDto code) = JObj [(''kind'', JStr ''apply_adjustment''), (''code'', JStr code)]"
| "command_json (GetCartDto cart_id) = JObj [(''kind'', JStr ''get_cart''), (''cart_id'', JStr cart_id)]"
| "command_json (StartCheckoutDto cart_id cart_version) =
     JObj [(''kind'', JStr ''start_checkout''), (''cart_id'', JStr cart_id), (''cart_version'', JInt (uint cart_version))]"
| "command_json (CancelCartDto cart_id) = JObj [(''kind'', JStr ''cancel_cart''), (''cart_id'', JStr cart_id)]"

definition cart_envelope :: "string \<Rightarrow> cart_command_request \<Rightarrow> json" where
  "cart_envelope capability req =
     JObj [(''capability'', JStr capability),
           (''payload'', JObj ((''command'', command_json (cq_command req)) #
              (case cq_cart_id req of None \<Rightarrow> [] | Some c \<Rightarrow> [(''cart_id'', JStr c)])))]"

lemmas json_at_defs = json_str_at_def json_u64_at_def json_i64_at_def json_index_def

lemma word_bounds:
  "0 \<le> uint (q :: u32)" "uint (q :: u32) < 2 ^ 64" "0 \<le> uint (v :: u64)" "uint (v :: u64) < 2 ^ 64"
  using uint_bounded [of q] uint_bounded [of v] by simp_all

lemma quantity_of_json: "as_u64 (JInt (uint (q :: u32))) = Some (ucast q)"
  using word_bounds(2) [of q] by (simp add: unsigned_word_eqI)

lemma version_of_json: "as_u64 (JInt (uint (v :: u64))) = Some v"
  using word_bounds(4) [of v] by simp

lemma ucast_u32_back: "ucast (ucast (q :: u32) :: u64) = q"
  by (rule bit_word_eqI) (simp add: bit_simps)

text \<open>Reading the JSON of a command gives the command, except that there is no \<open>cancel_cart\<close>.\<close>

lemma read_command_json:
  "cart_value_to_command T (command_json d) =
     (case d of CancelCartDto c \<Rightarrow> Inl ''unknown command kind: cancel_cart'' | _ \<Rightarrow> cart_command_from_dto T d)"
  by (cases d)
    (simp_all add: cart_value_to_command_def json_at_defs str_or_empty_def quantity_at_def cart_id_at_def
      quantity_of_json version_of_json ucast_u32_back del: as_u64.simps)

text \<open>The cart id beside the command.\<close>

definition read_cart_id :: "text_env \<Rightarrow> string option \<Rightarrow> string + cart_id option" where
  "read_cart_id T x =
     (case x of None \<Rightarrow> Inr None | Some s \<Rightarrow> res_bind (parse_cart_id T s) (\<lambda>c. Inr (Some c)))"

lemma read_envelope:
  assumes "capability \<in> set CART_CAPABILITIES"
    and "\<forall>s. cq_cart_id req = Some s \<longrightarrow> s \<noteq> [] \<and> (\<exists>c. parse_cart_id (as_text st) s = Inr c)"
  shows "normalize_a2a_cart_envelope (as_text st) (cart_envelope capability req) =
      res_bind (cart_value_to_command (as_text st) (command_json (cq_command req))) (\<lambda>cmd.
      res_bind (read_cart_id (as_text st) (cq_cart_id req)) (\<lambda>cart_id. Inr (cmd, cart_id)))"
  using assms
  by (cases "cq_cart_id req"; cases "cart_value_to_command (as_text st) (command_json (cq_command req))")
    (auto simp: normalize_a2a_cart_envelope_def envelope_capability_def envelope_payload_def cart_envelope_def
      json_at_defs prefix_err_def read_cart_id_def)

lemma or_bad_request_bind:
  "or_bad_request (res_bind x f) = op_bind (or_bad_request x) (\<lambda>a. or_bad_request (f a))"
  "or_bad_request (Inr a) = op_return a" "or_bad_request (Inl e) = op_fail (BadRequest e)"
  by (cases x; simp add: or_bad_request_def; simp add: op_defs fun_eq_iff)+

lemma op_bind_fail: "op_bind (op_fail e) f = op_fail e"
  by (simp add: op_defs fun_eq_iff)

lemma a2a_equals_rest:
  assumes "capability \<in> set CART_CAPABILITIES"
    and "\<forall>s. cq_cart_id req = Some s \<longrightarrow> s \<noteq> [] \<and> (\<exists>c. parse_cart_id (as_text st) s = Inr c)"
  shows "run_a2a_cart st auth (cart_envelope capability req) =
    (case cq_command req of
       CancelCartDto c \<Rightarrow> op_fail (BadRequest ''unknown command kind: cancel_cart'')
     | _ \<Rightarrow> h_dispatch_cart_command st auth req)"
proof (cases "\<exists>c. cq_command req = CancelCartDto c")
  case True
  then show ?thesis
    using read_envelope [OF assms(1), of req st] assms(2)
    by (auto simp: run_a2a_cart_def read_command_json read_cart_id_def or_bad_request_bind op_bind_fail split: option.splits)
next
  case False
  then have "cart_value_to_command (as_text st) (command_json (cq_command req)) =
      cart_command_from_dto (as_text st) (cq_command req)"
    and id: "(case cq_command req of CancelCartDto c \<Rightarrow> op_fail (BadRequest ''unknown command kind: cancel_cart'')
       | _ \<Rightarrow> h_dispatch_cart_command st auth req) = h_dispatch_cart_command st auth req"
    by (auto simp: read_command_json split: cart_command_dto.split)
  then have "normalize_a2a_cart_envelope (as_text st) (cart_envelope capability req) =
      res_bind (cart_command_from_dto (as_text st) (cq_command req)) (\<lambda>cmd.
      res_bind (read_cart_id (as_text st) (cq_cart_id req)) (\<lambda>cart_id. Inr (cmd, cart_id)))"
    using read_envelope [OF assms] by simp
  then have "run_a2a_cart st auth (cart_envelope capability req) = h_dispatch_cart_command st auth req"
    unfolding run_a2a_cart_def h_dispatch_cart_command_def
    by (simp add: or_bad_request_bind op_bind_assoc read_cart_id_def split: option.split)
  then show ?thesis unfolding id .
qed

text \<open>
  The two differences in reading the cart id: A2A takes an empty one for none, and names the field when it
  refuses one.
\<close>

definition rest_form :: "cart_command_request \<Rightarrow> cart_command_request" where
  "rest_form req = (if cq_cart_id req = Some [] then req\<lparr>cq_cart_id := None\<rparr> else req)"

definition unreadable_cart_id :: "text_env \<Rightarrow> string option \<Rightarrow> string option" where
  "unreadable_cart_id T x =
     (case x of None \<Rightarrow> None
      | Some s \<Rightarrow> if s = [] then None else (case parse_cart_id T s of Inl e \<Rightarrow> Some e | Inr _ \<Rightarrow> None))"

lemma read_rest_form:
  assumes "capability \<in> set CART_CAPABILITIES"
  shows "normalize_a2a_cart_envelope T (cart_envelope capability req) =
    normalize_a2a_cart_envelope T (cart_envelope capability (rest_form req))"
  using assms
  by (simp add: rest_form_def normalize_a2a_cart_envelope_def envelope_capability_def envelope_payload_def
      cart_envelope_def json_at_defs)

lemma read_unreadable:
  assumes "capability \<in> set CART_CAPABILITIES" "unreadable_cart_id T (cq_cart_id req) = Some e"
  shows "normalize_a2a_cart_envelope T (cart_envelope capability req) = Inl (''invalid cart_id: '' @ e)"
  using assms
  by (auto simp: unreadable_cart_id_def normalize_a2a_cart_envelope_def envelope_capability_def
      envelope_payload_def cart_envelope_def json_at_defs prefix_err_def split: option.splits if_splits sum.splits)

text \<open>
  C15: over A2A as over REST. The cart capability of A2A does to the state and answers exactly what the REST
  endpoint does with the same command and cart id, with three exceptions: an empty cart id, which REST
  refuses, is taken for none; a cart id that cannot be read is refused with the name of the field before the
  command is looked at; and \<open>cancel_cart\<close> is not known and refused. A refusal touches nothing.
\<close>

theorem a2a_cart_equals_rest:
  assumes "capability \<in> set CART_CAPABILITIES"
  shows "run_a2a_cart st auth (cart_envelope capability req) =
    (case unreadable_cart_id (as_text st) (cq_cart_id req) of
       Some e \<Rightarrow> op_fail (BadRequest (''invalid cart_id: '' @ e))
     | None \<Rightarrow>
        (case cq_command req of
           CancelCartDto c \<Rightarrow> op_fail (BadRequest ''unknown command kind: cancel_cart'')
         | _ \<Rightarrow> h_dispatch_cart_command st auth (rest_form req)))"
proof (cases "unreadable_cart_id (as_text st) (cq_cart_id req)")
  case None
  then have "\<forall>s. cq_cart_id (rest_form req) = Some s \<longrightarrow> s \<noteq> [] \<and> (\<exists>c. parse_cart_id (as_text st) s = Inr c)"
    by (auto simp: rest_form_def unreadable_cart_id_def split: sum.splits)
  from a2a_equals_rest [OF assms this] None show ?thesis
    by (simp add: run_a2a_cart_def read_rest_form [OF assms, of _ req]) (simp add: rest_form_def)
next
  case (Some e)
  with read_unreadable [OF assms Some] show ?thesis
    by (simp add: run_a2a_cart_def or_bad_request_bind op_bind_fail)
qed

text \<open>A cart is read, and the envelope with an empty cart id does what REST does without one.\<close>

theorem a2a_cart_equals_rest_witness:
  "run_a2a_cart sample_app (sample_auth ''t1'') (cart_envelope ''cart'' \<lparr>cq_command = GetCartDto ''xxxxxxx'', cq_cart_id = Some ''xxxxxxx''\<rparr>) =
   h_dispatch_cart_command sample_app (sample_auth ''t1'') \<lparr>cq_command = GetCartDto ''xxxxxxx'', cq_cart_id = Some ''xxxxxxx''\<rparr> \<and>
   run_a2a_cart sample_app (sample_auth ''t1'') (cart_envelope ''cart'' \<lparr>cq_command = GetCartDto ''xxxxxxx'', cq_cart_id = Some []\<rparr>) =
   h_dispatch_cart_command sample_app (sample_auth ''t1'') \<lparr>cq_command = GetCartDto ''xxxxxxx'', cq_cart_id = None\<rparr>"
proof -
  have "as_text sample_app = sample_text" by (simp add: sample_app_def)
  then show ?thesis
    using a2a_cart_equals_rest [of "''cart''" sample_app "sample_auth ''t1''"] sample_session_id
    by (simp add: CART_CAPABILITIES_def unreadable_cart_id_def rest_form_def)
qed

section \<open>Carts of other tenants\<close>

text \<open>
  C14: a cart of another tenant is read. An envelope that names a cart of the caller's beside the command and
  another tenant's cart inside it is answered with that cart, over A2A and over REST alike: only the former
  is compared with the caller's tenant.
\<close>

theorem foreign_cart_read:
  assumes "parse_cart_id (as_text st) own_id = Inr own" "own_id \<noteq> []" "parse_cart_id (as_text st) victim_id = Inr victim"
    and "w_snapshots w own = Some p" "cp_tenant_id p = Some (ac_tenant_id auth)"
    and "w_snapshots w victim = Some q" "cp_tenant_id q \<noteq> Some (ac_tenant_id auth)"
    and "req = \<lparr>cq_command = GetCartDto victim_id, cq_cart_id = Some own_id\<rparr>"
  shows "run_a2a_cart st auth (cart_envelope ''cart'' req) w = (Inr (cart_to_dto (as_text st) q), w) \<and>
    h_dispatch_cart_command st auth req w = (Inr (cart_to_dto (as_text st) q), w)"
proof -
  have rest: "h_dispatch_cart_command st auth req w = (Inr (cart_to_dto (as_text st) q), w)"
    using assms
    by (simp add: h_dispatch_cart_command_def or_bad_request_bind op_bind_assoc cart_call_def lift_facade_def
        dispatch_cart_command_for_tenant_def assert_cart_belongs_to_def facade_dispatch_def cart_run_defs op_defs Let_def)
  moreover have "run_a2a_cart st auth (cart_envelope ''cart'' req) = h_dispatch_cart_command st auth req"
    using a2a_equals_rest [of "''cart''" req st auth] assms by (simp add: CART_CAPABILITIES_def)
  ultimately show ?thesis by simp
qed

theorem foreign_cart_read_witness:
  "\<exists>w. run_a2a_cart sample_app (sample_auth ''t2'') (cart_envelope ''cart''
          \<lparr>cq_command = GetCartDto ''xxxxxxx'', cq_cart_id = Some ''xxxxxxxx''\<rparr>) w =
        (Inr (cart_to_dto sample_text sample_cart), w) \<and> cp_tenant_id sample_cart = Some ''t1''"
proof -
  let ?own = "sample_cart\<lparr>cp_cart_id := CartId 8, cp_tenant_id := Some ''t2''\<rparr>"
  let ?w = "sample_world\<lparr>w_snapshots := [CartId 7 \<mapsto> sample_cart, CartId 8 \<mapsto> ?own]\<rparr>"
  let ?req = "\<lparr>cq_command = GetCartDto ''xxxxxxx'', cq_cart_id = Some ''xxxxxxxx''\<rparr>"
  have reader: "as_text sample_app = sample_text" by (simp add: sample_app_def)
  have "parse_cart_id sample_text ''xxxxxxxx'' = Inr (CartId 8)" by (simp add: parse_cart_id_def sample_text_def)
  with foreign_cart_read [of sample_app "''xxxxxxxx''" "CartId 8" "''xxxxxxx''" "CartId 7" ?w ?own "sample_auth ''t2''"
      sample_cart ?req] sample_session_id
  have "run_a2a_cart sample_app (sample_auth ''t2'') (cart_envelope ''cart'' ?req) ?w =
      (Inr (cart_to_dto sample_text sample_cart), ?w)"
    by (simp add: reader sample_auth_def sample_cart_def)
  then show ?thesis by (auto simp: sample_cart_def)
qed

section \<open>Quantities\<close>

text \<open>Reading a quantity keeps its value modulo \<open>2 ^ 32\<close>; anything that is no unsigned integer reads as zero.\<close>

lemma quantity_read:
  assumes "json_get ''quantity'' v = Some (JInt n)" "0 \<le> n" "n < 2 ^ 64"
  shows "quantity_at v = word_of_int n"
proof -
  have "json_u64_at ''quantity'' v = Some (word_of_int n)" using assms by (simp add: json_u64_at_def)
  then show ?thesis using assms by (simp add: quantity_at_def unsigned_of_int take_bit_int_eq_self)
qed

section \<open>Replies\<close>

text \<open>
  A well-formed reply: an agent message with the single data part it answers with, under status 200, or a
  \<open>google.rpc\<close> error whose code is the HTTP status, an error status, and whose status text belongs to it.
\<close>

definition message_body :: "json \<Rightarrow> bool" where
  "message_body body \<longleftrightarrow>
     (\<exists>i c data. body = JObj [(''message'', JObj
        [(''messageId'', JStr i), (''contextId'', JStr c), (''role'', JStr ''ROLE_AGENT''),
         (''parts'', JArr [JObj [(''data'', data), (''mediaType'', JStr ''application/json'')]])])])"

definition error_body :: "u16 \<Rightarrow> json \<Rightarrow> bool" where
  "error_body status body \<longleftrightarrow>
     (\<exists>message reason domain. body = JObj [(''error'', JObj
        [(''code'', JInt (uint status)), (''status'', JStr (rpc_status status)), (''message'', JStr message),
         (''details'', JArr [JObj [(''@type'', JStr ''type.googleapis.com/google.rpc.ErrorInfo''),
                                   (''reason'', JStr reason), (''domain'', JStr domain)]])])])"

definition reply_ok :: "a2a_reply \<Rightarrow> bool" where
  "reply_ok r \<longleftrightarrow> fst r = 200 \<and> message_body (snd r) \<or> 400 \<le> fst r \<and> fst r < 600 \<and> error_body (fst r) (snd r)"

lemma reply_error_ok: "400 \<le> status \<Longrightarrow> status < 600 \<Longrightarrow> reply_ok (a2a_error_body status reason domain message)"
  by (auto simp: reply_ok_def error_body_def a2a_error_body_def)

lemma runner_status: "400 \<le> fst (orchestrator_error_to_http e) \<and> fst (orchestrator_error_to_http e) < 600"
  by (cases e) (simp_all add: orchestrator_error_to_http_def split: runner_error.split)

lemma api_error_status: "400 \<le> fst (api_error_parts T e) \<and> fst (api_error_parts T e) < 600"
  by (cases e) (use runner_status in \<open>auto simp: api_error_parts_def case_prod_beta\<close>)

lemma replies_ok:
  "reply_ok (invalid_params m)" "reply_ok (task_not_found i)" "version_error st headers = Some r \<Longrightarrow> reply_ok r"
  "reply_ok (a2a_error 400 reason m)"
  by (auto simp: invalid_params_def task_not_found_def a2a_error_def version_error_def Let_def intro: reply_error_ok
      split: if_splits)

lemma answer_ok: "reply_ok (fst (answer_envelope st C auth message envelope w))"
proof -
  have "reply_ok (fst (agent_message st message data v))" for data v
    by (auto simp: agent_message_def reply_ok_def message_body_def split: prod.split option.split)
  moreover have "api_error_parts (as_text st) e = (status, code, t) \<Longrightarrow>
      reply_ok (a2a_error_body status code ''commerce-orchestrator'' t)" for e status code t
    using api_error_status [of "as_text st" e] by (auto intro: reply_error_ok)
  ultimately show ?thesis
    by (auto simp: answer_envelope_def split: prod.split sum.split)
qed

text \<open>
  The replies of the A2A message binding. Whatever the operation, the headers, the body and the state,
  the answer is an agent message under status 200 or an error of the \<open>google.rpc\<close> shape whose code is the
  HTTP status, and never a task. A request that is not an executed \<open>message:send\<close> leaves the state as it
  is: the wrong operation, the wrong version, and a body without a message of the right form.
\<close>

theorem a2a_replies_well_formed:
  "reply_ok (fst (post_operation st C auth operation headers body w)) \<and>
   reply_ok (get_task st task headers) \<and> reply_ok (post_task st task headers) \<and>
   (operation \<noteq> ''message:send'' \<or> version_error st headers \<noteq> None \<or>
    (\<forall>request. jc_parse C body = Inr request \<longrightarrow> data_part (json_index request ''message'') = None) \<longrightarrow>
      snd (post_operation st C auth operation headers body w) = w)"
proof (intro conjI impI)
  show "reply_ok (fst (post_operation st C auth operation headers body w))"
    by (auto simp: post_operation_def send_message_def Let_def replies_ok answer_ok split: option.split sum.split)
  show "reply_ok (get_task st task headers)"
    by (auto simp: get_task_def replies_ok split: option.split)
  show "reply_ok (post_task st task headers)"
    by (auto simp: post_task_def replies_ok split: option.split prod.split)
qed (auto simp: post_operation_def send_message_def Let_def split: option.split sum.split)

end
