(* ===== verification/Endpoint_Frame.thy ===== *)
theory Endpoint_Frame
  imports Mcp_Tools A2a_Facts
begin

text \<open>
  What holds of every endpoint because it holds of the facade: a relation between worlds that the operations
  of the facade respect is respected by the handlers of \<open>routes/v1.rs\<close>, the A2A routes and the MCP tools.
  The locale is interpreted on the isolation of tenants and on the paths of the runner.
\<close>

locale endpoint_frame = handler_frame R for R :: "world \<Rightarrow> world \<Rightarrow> bool" +
  fixes st :: app_state and auth :: auth_context and allowed :: "cart_command \<Rightarrow> cart_id option \<Rightarrow> bool"
  assumes commands: "allowed cmd c \<Longrightarrow> op_rel R (dispatch_cart_command_for_tenant (as_facade st) (ac_tenant_id auth) cmd c)"
    and coherent_allowed: "coherent cmd c \<Longrightarrow> allowed cmd c"
    and checkouts: "op_rel R (execute_checkout_authorized (as_facade st) auth q)"
    and lifecycle: "op_rel R (facade_capture_payment (as_facade st) l)" "op_rel R (facade_void_payment (as_facade st) l)"
      "op_rel R (facade_refund_payment (as_facade st) l)"
    and lookups: "op_rel R (facade_lookup_catalog_item (as_facade st) i)"
      "op_rel R (facade_lookup_catalog_items (as_facade st) is)" "op_rel R (facade_search_catalog_items (as_facade st) s)"
    and hooks: "op_rel R (facade_register_webhook reg)" "op_rel R (facade_unregister_webhook i)"
    and deliveries: "op_rel R (facade_accept_incoming_event_once i)" "op_rel R (facade_process_outbox_once (as_facade st) mx)"
      "op_rel R (facade_replay_from_dead_letter i)" "op_rel R (facade_run_reconciliation (as_facade st) is)"
    and identifiers: "R w (w\<lparr>w_uuid := Suc (w_uuid w)\<rparr>)"
begin

lemma reads:
  "op_rel R (facade_get_order i)" "op_rel R (facade_list_orders t)" "op_rel R (facade_list_webhooks t)"
  "op_rel R facade_list_dead_letter"
  unfolding facade_get_order_def facade_list_orders_def facade_list_webhooks_def facade_list_dead_letter_def
    get_order_def list_orders_def list_webhooks_def
  by (intro rel_rules)+

lemmas facade_rules = checkouts lifecycle lookups hooks deliveries reads

lemma rel_lift: "op_rel R m \<Longrightarrow> op_rel R (lift_facade m)"
  unfolding lift_facade_def by (rule rel_map_err)

lemma rel_call: "allowed cmd c \<Longrightarrow> op_rel R (cart_call st auth cmd c)"
  unfolding cart_call_def by (intro rel_lift commands)

lemma rel_own_call: "coherent cmd c \<Longrightarrow> op_rel R (cart_call st auth cmd c)"
  by (intro rel_call coherent_allowed)

lemma rel_checkout: "op_rel R (checkout_call st auth q)"
  unfolding checkout_call_def by (intro rel_rules rel_lift checkouts)

lemma rel_pure: "op_rel R (pure_call x)"
  unfolding pure_call_def by (auto intro: rel_rules split: sum.split)

lemma rel_tenant_order: "op_rel R (tenant_order auth i)"
  unfolding tenant_order_def by (intro rel_rules rel_lift reads)

lemma rel_link: "op_rel R (link_identity_for st auth q)"
  unfolding link_identity_for_def by (intro rel_rules rel_pure)

section \<open>Handlers\<close>

lemma rel_parts:
  "op_rel R (created_with_lines st auth creq)"
  "op_rel R (replace_lines st auth c items)"
  unfolding created_with_lines_def replace_lines_def add_line_def update_line_def remove_line_def Let_def
  by (auto intro!: handler_rules rel_own_call split: option.split prod.split)

lemma rel_acp_created: "op_rel R (acp_created st auth headers areq)"
  unfolding acp_created_def acp_create_command_def
  by (intro handler_rules rel_own_call coherent_simps acp_add_commands_coherent)

lemma own_calls:
  "op_rel R (cart_call st auth cmd None)"
  "op_rel R (cart_call st auth (SetFulfillmentSelection f) (Some c))"
  "op_rel R (cart_call st auth (start_checkout_command c v) (Some c))"
  by (rule rel_own_call; simp)+

lemmas part_rules = handler_rules rel_parts rel_acp_created own_calls rel_checkout rel_pure rel_tenant_order rel_link

lemma ucp_endpoints:
  "op_rel R (h_ucp_create_cart st auth creq)" "op_rel R (h_ucp_get_cart st auth i)"
  "op_rel R (h_ucp_update_cart st auth i creq)" "op_rel R (h_ucp_cancel_cart st auth i)"
  "op_rel R (h_ucp_set_fulfillment st auth i freq)" "op_rel R (h_ucp_create_checkout st auth creq)"
  "op_rel R (h_ucp_get_checkout st auth i)" "op_rel R (h_ucp_update_checkout st auth i creq)"
  "op_rel R (h_ucp_cancel_checkout st auth i)" "op_rel R (h_ucp_set_checkout_fulfillment st auth i freq)"
  "op_rel R (h_ucp_complete_checkout st auth i cq)" "op_rel R (h_ucp_get_order st auth i)"
  "op_rel R (h_execute_checkout st auth cq)"
  unfolding h_ucp_create_cart_def h_ucp_get_cart_def h_ucp_update_cart_def h_ucp_cancel_cart_def
    h_ucp_set_fulfillment_def h_ucp_create_checkout_def h_ucp_get_checkout_def h_ucp_update_checkout_def
    h_ucp_cancel_checkout_def h_ucp_set_checkout_fulfillment_def as_checkout_def h_ucp_complete_checkout_def
    h_ucp_get_order_def h_execute_checkout_def
  by (intro part_rules)+

lemma embedded_link_endpoint: "op_rel R (h_ucp_embedded_link st auth now i)"
  unfolding h_ucp_embedded_link_def by (auto intro!: part_rules split: option.split)

lemma acp_endpoints:
  "op_rel R (h_acp_create_session st auth headers areq)" "op_rel R (h_acp_create_cart st auth headers areq)"
  "op_rel R (h_acp_get_session st auth headers i)" "op_rel R (h_acp_get_cart st auth headers i)"
  "op_rel R (h_acp_update_session st auth headers i ureq)" "op_rel R (h_acp_update_cart st auth headers i ureq)"
  "op_rel R (h_acp_cancel_session st auth headers i)" "op_rel R (h_acp_cancel_cart st auth headers i)"
  "op_rel R (h_acp_complete_session st auth headers i preq)" "op_rel R (h_acp_delegate_payment st auth headers dreq)"
  unfolding h_acp_create_session_def h_acp_create_cart_def h_acp_get_session_def h_acp_get_cart_def
    h_acp_update_session_def h_acp_update_cart_def h_acp_cancel_session_def h_acp_cancel_cart_def
    h_acp_complete_session_def h_acp_delegate_payment_def
  by (intro part_rules)+

lemma operation_endpoints:
  "op_rel R (h_get_order st auth i)" "op_rel R (h_list_orders st auth)"
  "op_rel R (h_catalog_search st query)" "op_rel R (h_catalog_lookup st ids)" "op_rel R (h_catalog_product st i)"
  "op_rel R (h_lookup_catalog_item st i)" "op_rel R (h_register_webhook st auth u wreq)"
  "op_rel R (h_list_webhooks st auth)" "op_rel R (h_unregister_webhook st auth i)"
  "op_rel R (h_capture_payment st auth l)" "op_rel R (h_void_payment st auth l)" "op_rel R (h_refund_payment st auth l)"
  "op_rel R (h_accept_incoming_event st auth i)" "op_rel R (h_process_outbox st auth mx)"
  "op_rel R (h_list_dead_letter st auth)" "op_rel R (h_replay_dead_letter st auth i)"
  "op_rel R (h_run_reconciliation st auth ids)"
  unfolding h_get_order_def h_list_orders_def h_catalog_search_def h_catalog_lookup_def h_catalog_product_def
    h_lookup_catalog_item_def h_register_webhook_def h_list_webhooks_def h_unregister_webhook_def
    h_capture_payment_def h_void_payment_def h_refund_payment_def lifecycle_call_def h_accept_incoming_event_def
    h_process_outbox_def h_list_dead_letter_def h_replay_dead_letter_def h_run_reconciliation_def Let_def
  by (intro part_rules rel_lift facade_rules)+

section \<open>The tool server\<close>

lemma rel_arg: "op_rel R (arg x)"
  unfolding arg_def by (auto intro: rel_rules split: sum.split)

lemma rel_facade_call: "op_rel R m \<Longrightarrow> op_rel R (facade_call st m)"
  unfolding facade_call_def by (rule rel_map_err)

lemma rel_cart_tool: "coherent cmd c \<Longrightarrow> op_rel R (cart_tool st C auth cmd c)"
  unfolding cart_tool_def by (intro rel_rules rel_facade_call commands coherent_allowed)

lemma rel_on_cart:
  assumes "\<And>c cmd. command c = Inr cmd \<Longrightarrow> coherent cmd (Some c)"
  shows "op_rel R (on_cart st C auth args command)"
proof -
  have "op_rel R (op_bind (arg (command c)) (\<lambda>cmd. cart_tool st C auth cmd (Some c)))" for c
    using assms [of c]
    by (cases "command c") (auto simp: arg_def op_bind_fail intro!: rel_rules rel_cart_tool)
  then show ?thesis unfolding on_cart_def by (rule rel_bind [OF rel_arg])
qed

lemma rel_order_by_id: "op_rel R (order_by_id st i)"
  unfolding order_by_id_def by (intro rel_rules rel_facade_call reads)

lemma tool_rules:
  "op_rel R (tool_create_cart st C auth args)" "op_rel R (tool_execute_checkout st C auth args)"
  "op_rel R (tool_get_order st C args)" "op_rel R (tool_list_orders st C args)"
  "op_rel R (payment_tool st (facade_capture_payment (as_facade st)) args)"
  "op_rel R (payment_tool st (facade_void_payment (as_facade st)) args)"
  "op_rel R (payment_tool st (facade_refund_payment (as_facade st)) args)"
  "op_rel R (tool_lookup_item st args)" "op_rel R (tool_lookup_items st C args)" "op_rel R (tool_search_items st C args)"
  unfolding tool_create_cart_def tool_execute_checkout_def tool_get_order_def tool_list_orders_def payment_tool_def
    tool_lookup_item_def tool_lookup_items_def tool_search_items_def
  by (intro rel_rules rel_arg rel_facade_call rel_cart_tool rel_order_by_id facade_rules coherent_simps)+

lemma tool_commands_coherent:
  "add_item_command args c = Inr cmd \<Longrightarrow> coherent cmd (Some c)"
  "update_item_command args c = Inr cmd \<Longrightarrow> coherent cmd (Some c)"
  "remove_item_command args c = Inr cmd \<Longrightarrow> coherent cmd (Some c)"
  "apply_adjustment_command args c = Inr cmd \<Longrightarrow> coherent cmd (Some c)"
  "set_fulfillment_command args c = Inr cmd \<Longrightarrow> coherent cmd (Some c)"
  "get_cart_tool_command c = Inr cmd \<Longrightarrow> coherent cmd (Some c)"
  "start_checkout_tool_command args c = Inr cmd \<Longrightarrow> coherent cmd (Some c)"
  by (auto simp: add_item_command_def update_item_command_def remove_item_command_def apply_adjustment_command_def
      set_fulfillment_command_def get_cart_tool_command_def start_checkout_tool_command_def res_bind_Inr coherent_def)

lemma rel_dispatch_tool: "op_rel R (dispatch_tool st C auth name args)"
  unfolding dispatch_tool_def
  by (intro rel_if rel_fail tool_rules rel_on_cart; erule tool_commands_coherent)

lemma rel_read_resource: "op_rel R (read_resource st C auth uri)"
proof -
  have "coherent (GetCart \<lparr>gc_cart_id = c\<rparr>) (Some c)" for c by (simp add: coherent_def)
  then show ?thesis
    unfolding read_resource_def
    by (intro rel_case_option rel_rules rel_arg rel_facade_call commands coherent_allowed rel_order_by_id)
qed

lemma rel_mcp_method: "mcp_method st C auth v request = Inr run \<Longrightarrow> op_rel R run"
  by (auto simp: mcp_method_def Let_def rel_rules rel_dispatch_tool rel_read_resource split: if_splits)

lemma mcp_endpoint: "R w (snd (mcp_message st C auth headers request w))"
  using op_relD [OF rel_mcp_method]
  by (auto simp: mcp_message_def handle_mcp_request_with_version_def Let_def refl split: sum.splits if_splits prod.splits)

section \<open>The A2A routes\<close>

lemma a2a_rules:
  "op_rel R (run_a2a_checkout st C auth body)" "op_rel R (run_a2a_order_query st C auth body)"
  "op_rel R (run_a2a_identity_link st C auth body)"
  unfolding run_a2a_checkout_def run_a2a_order_query_def run_a2a_identity_link_def by (intro part_rules)+

lemma rel_a2a_cart:
  assumes "\<And>cmd c. normalize_a2a_cart_envelope (as_text st) envelope = Inr (cmd, c) \<Longrightarrow> allowed cmd c"
  shows "op_rel R (run_a2a_cart st auth envelope)"
proof (cases "normalize_a2a_cart_envelope (as_text st) envelope")
  case (Inl e)
  then show ?thesis by (simp add: run_a2a_cart_def or_bad_request_bind op_bind_fail rel_fail)
next
  case (Inr cc)
  then show ?thesis
    using assms by (cases cc) (auto simp: run_a2a_cart_def or_bad_request_bind intro!: rel_rules rel_call)
qed

lemma a2a_endpoints:
  "op_rel R (h_a2a_execute_checkout st C auth headers body)" "op_rel R (h_a2a_link_identity st C auth headers body)"
  "op_rel R (h_a2a_get_order st C auth headers body)"
  unfolding h_a2a_execute_checkout_def h_a2a_link_identity_def h_a2a_get_order_def a2a_version_def
  by (intro part_rules a2a_rules)+

lemma a2a_cart_endpoint:
  assumes "\<And>cmd c. normalize_a2a_cart_envelope (as_text st) body = Inr (cmd, c) \<Longrightarrow> allowed cmd c"
  shows "op_rel R (h_a2a_dispatch_cart_command st auth headers body)"
  unfolding h_a2a_dispatch_cart_command_def a2a_version_def by (intro part_rules rel_a2a_cart assms)

lemma cart_command_endpoint:
  assumes "\<And>cmd cart_id. cart_command_from_dto (as_text st) (cq_command req) = Inr cmd \<Longrightarrow>
      (case cq_cart_id req of None \<Rightarrow> cart_id = None
       | Some s \<Rightarrow> \<exists>c. parse_cart_id (as_text st) s = Inr c \<and> cart_id = Some c) \<Longrightarrow> allowed cmd cart_id"
  shows "op_rel R (h_dispatch_cart_command st auth req)"
proof (cases "cart_command_from_dto (as_text st) (cq_command req)")
  case (Inl e)
  then show ?thesis by (simp add: h_dispatch_cart_command_def or_bad_request_bind op_bind_fail rel_fail)
next
  case (Inr cmd)
  from assms [OF Inr] show ?thesis
    by (cases "cq_cart_id req"; cases "parse_cart_id (as_text st) (the (cq_cart_id req))")
      (auto simp: h_dispatch_cart_command_def or_bad_request_bind op_bind_return op_bind_fail Inr
        intro!: rel_rules rel_call)
qed

lemma rel_skill:
  assumes "\<And>cmd c. normalize_a2a_cart_envelope (as_text st) envelope = Inr (cmd, c) \<Longrightarrow> allowed cmd c"
  shows "op_rel R (run_skill st C auth envelope)"
  unfolding run_skill_def Let_def by (intro rel_if rel_bind rel_return a2a_rules rel_a2a_cart assms)

lemma rel_agent_message: "agent_message st message data w = (x, w') \<Longrightarrow> R w w'"
  using identifiers trans [OF identifiers identifiers, of w]
  by (auto simp: agent_message_def new_uuid_def split: option.splits)

lemma rel_answer:
  assumes "\<And>cmd c. normalize_a2a_cart_envelope (as_text st) envelope = Inr (cmd, c) \<Longrightarrow> allowed cmd c"
    and "answer_envelope st C auth message envelope w = (x, w')"
  shows "R w w'"
proof -
  obtain y u where run: "run_skill st C auth envelope w = (y, u)" by force
  have "R w u" by (rule op_relD [OF rel_skill run]) (rule assms(1))
  moreover have "w' = u \<or> (\<exists>data. agent_message st message data u = (x, w'))"
    using assms(2) run by (auto simp: answer_envelope_def split: sum.splits prod.splits)
  ultimately show ?thesis by (blast intro: trans [OF _ rel_agent_message])
qed

lemma message_endpoint:
  assumes "\<And>request envelope cmd c. jc_parse C body = Inr request \<Longrightarrow>
      data_part (json_index request ''message'') = Some envelope \<Longrightarrow>
      normalize_a2a_cart_envelope (as_text st) envelope = Inr (cmd, c) \<Longrightarrow> allowed cmd c"
    and "post_operation st C auth operation headers body w = (reply, w')"
  shows "R w w'"
  using assms(2)
  by (auto simp: post_operation_def send_message_def Let_def refl split: if_splits option.splits sum.splits
      intro: rel_answer [OF assms(1)])

end

end
