(* ===== verification/Agent_Isolation.thy ===== *)
theory Agent_Isolation
  imports Endpoint_Frame
begin

text \<open>
  Tenant isolation of the agent surfaces: whatever tool, resource or skill an agent asks for, checkouts and
  payments included, the carts of other tenants stay as they are, unless an A2A cart envelope names two
  different carts. Also what is not isolated: orders and payments over MCP.
\<close>

section \<open>The relation\<close>

text \<open>Carts of other tenants that no fresh identifier names are untouched, by checkouts too.\<close>

definition shielded :: "runner \<Rightarrow> string \<Rightarrow> world \<Rightarrow> world \<Rightarrow> bool" where
  "shielded r t w w' \<longleftrightarrow>
     (snapshots_ok w \<longrightarrow>
        snapshots_ok w' \<and> w_uuid w \<le> w_uuid w' \<and>
        (\<forall>c p u. w_snapshots w c = Some p \<longrightarrow> cp_tenant_id p = Some u \<longrightarrow> u \<noteq> t \<longrightarrow>
               (\<forall>n \<ge> w_uuid w. c \<noteq> CartId (ru_new_v4 r n)) \<longrightarrow>
               w_snapshots w' c = Some p \<and> w_states w' c = w_states w c \<and> w_events w' c = w_events w c))"

lemma shielded_refl: "shielded r t w w"
  by (simp add: shielded_def)

lemma shielded_trans: "shielded r t w u \<Longrightarrow> shielded r t u v \<Longrightarrow> shielded r t w v"
  unfolding shielded_def using order_trans by (smt (verit))

interpretation shielding: handler_frame "shielded r t" for r t
  by unfold_locales (auto intro: shielded_refl shielded_trans)

lemma isolated_shielded: "isolated r t w w' \<Longrightarrow> shielded r t w w'"
  by (auto simp: isolated_def shielded_def)

lemma shielded_eq:
  "w_snapshots w' = w_snapshots w \<Longrightarrow> w_states w' = w_states w \<Longrightarrow> w_events w' = w_events w \<Longrightarrow>
   w_uuid w \<le> w_uuid w' \<Longrightarrow> shielded r t w w'"
  by (simp add: shielded_def snapshots_ok_def)

section \<open>Operations of the facade\<close>

lemma counter_stores:
  "op_rel (\<lambda>w w'. w_uuid w \<le> w_uuid w') (store_reserve r c sku q t)"
  "op_rel (\<lambda>w w'. w_uuid w \<le> w_uuid w') (store_release c)"
  "op_rel (\<lambda>w w'. w_uuid w \<le> w_uuid w') (store_finalize c)"
  "op_rel (\<lambda>w w'. w_uuid w \<le> w_uuid w') (store_order rec)"
  "op_rel (\<lambda>w w'. w_uuid w \<le> w_uuid w') (store_enqueue m)"
  "op_rel (\<lambda>w w'. w_uuid w \<le> w_uuid w') (store_commit r c ref)"
  "op_rel (\<lambda>w w'. w_uuid w \<le> w_uuid w') (idem_complete k v)"
  "op_rel (\<lambda>w w'. w_uuid w \<le> w_uuid w') (idem_release k)"
  "op_rel (\<lambda>w w'. w_uuid w \<le> w_uuid w') (idem_claim k)"
  unfolding store_op_defs
  by (rule rel_store_put rel_store_call; simp add: lift_idem_def split: prod.split)+

lemma counter_plain:
  "op_rel (\<lambda>w w'. w_uuid w \<le> w_uuid w') (utc_now r)"
  "op_rel (\<lambda>w w'. w_uuid w \<le> w_uuid w') (store_payment_state i s)"
  by (simp_all add: op_rel_def utc_now_def store_payment_state_def op_defs)

lemma counter_checkout: "op_rel (\<lambda>w w'. w_uuid w \<le> w_uuid w') (execute_checkout r q)"
proof -
  note rules = counter_rules counter_helpers counter_stores counter_plain
  have "op_rel (\<lambda>w w'. w_uuid w \<le> w_uuid w') (settle_or_release r q)"
    unfolding settle_or_release_def settle_cart_for_checkout_def reprice_for_checkout_def Let_def
    by (auto intro!: rules)
  moreover have "op_rel (\<lambda>w w'. w_uuid w \<le> w_uuid w') (checkout_settled r q cart)" for cart
    unfolding checkout_settled_def pay_and_complete_def finish_unpaid_def commit_and_capture_def
      place_order_def complete_checkout_def reserve_lines_def advance_to_geo_checked_eq advance_paid
      final_status_eq op_bind_return Let_def
    by (auto intro!: rules split: policy_check_result.split)
  ultimately show ?thesis
    unfolding execute_checkout_def Let_def
    by (auto intro!: rules split: idempotency_state.split)
qed

lemma shield_checkout: "op_rel (shielded r (cr_tenant_id q)) (execute_checkout r q)"
proof (rule op_relI)
  fix w
  obtain x w' where run: "execute_checkout r q w = (x, w')" by force
  have frame: "w_states w' = w_states w" "w_events w' = w_events w"
    using checkout_keeps_streams [OF run] by simp_all
  have "w_snapshots w' c = Some p"
    if "snapshots_ok w" "w_snapshots w c = Some p" "cp_tenant_id p = Some u" "u \<noteq> cr_tenant_id q" for c p u
  proof (cases "c = cr_cart_id q")
    case True
    with that have "\<not> tenant_matches p q" by (simp add: tenant_matches_def)
    with True that checkout_foreign_kept [OF _ _ run] show ?thesis by simp
  next
    case False
    with checkout_carts_kept [OF that(1) run] that(2) show ?thesis by (simp add: carts_kept_def)
  qed
  then have "shielded r (cr_tenant_id q) w w'"
    using frame checkout_carts_kept [OF _ run] op_relD [OF counter_checkout run]
    by (auto simp: shielded_def carts_kept_def)
  with run show "shielded r (cr_tenant_id q) w (snd (execute_checkout r q w))" by simp
qed

lemma shield_provider: "op_rel (shielded r t) (provider_call c err p)"
  by (rule rel_provider_call) (simp add: shielded_eq)

lemma shield_admit: "op_rel (shielded r t) (admit_mandate fa q)"
proof -
  have "op_rel (shielded r t) (now_unix_timestamp fa)"
    by (simp add: op_rel_def now_unix_timestamp_def shielded_eq)
  moreover have "op_rel (shielded r t) (runner_record_mandate s i e)" for s i e
    unfolding runner_record_mandate_def
    by (rule rel_store_call) (simp_all add: shielded_eq split: prod.split)
  ultimately show ?thesis
    unfolding admit_mandate_def by (auto intro!: shielding.rel_rules split: sum.split)
qed

lemma shield_commands:
  "coherent cmd c \<Longrightarrow> op_rel (shielded (fa_runner fa) t) (dispatch_cart_command_for_tenant fa t cmd c)"
  by (rule op_rel_mono [OF isolated_dispatch]) (auto intro: isolated_shielded)

lemma shield_checkouts:
  "op_rel (shielded (fa_runner fa) (ac_tenant_id auth)) (execute_checkout_authorized fa auth q)"
  using shield_checkout [of "fa_runner fa" q]
  by (auto simp: execute_checkout_authorized_def authorize_checkout_def facade_execute_checkout_def
      intro!: shielding.rel_rules shield_admit)

lemma shield_payments:
  "op_rel (shielded r t) (facade_capture_payment fa l)"
  "op_rel (shielded r t) (facade_void_payment fa l)"
  "op_rel (shielded r t) (facade_refund_payment fa l)"
  "op_rel (shielded r t) (facade_lookup_catalog_item fa i)"
  "op_rel (shielded r t) (facade_lookup_catalog_items fa is)"
  "op_rel (shielded r t) (facade_search_catalog_items fa s)"
proof -
  have state: "op_rel (shielded r t) (store_payment_state i s)" for i s
    by (simp add: op_rel_def store_payment_state_def op_defs shielded_eq)
  show "op_rel (shielded r t) (facade_capture_payment fa l)" "op_rel (shielded r t) (facade_void_payment fa l)"
    "op_rel (shielded r t) (facade_refund_payment fa l)" "op_rel (shielded r t) (facade_lookup_catalog_item fa i)"
    "op_rel (shielded r t) (facade_lookup_catalog_items fa is)" "op_rel (shielded r t) (facade_search_catalog_items fa s)"
    unfolding facade_capture_payment_def facade_void_payment_def facade_refund_payment_def
      facade_lookup_catalog_item_def facade_lookup_catalog_items_def facade_search_catalog_items_def
      capture_payment_def void_payment_def refund_payment_def lookup_catalog_item_def
      lookup_catalog_items_def search_catalog_items_def
    by (intro shielding.rel_rules shield_provider state)+
qed

lemma shield_tables:
  "op_rel (shielded r t) (facade_register_webhook reg)"
  "op_rel (shielded r t) (facade_unregister_webhook i)"
  "op_rel (shielded r t) (facade_accept_incoming_event_once i)"
  unfolding facade_register_webhook_def facade_unregister_webhook_def facade_accept_incoming_event_once_def
    register_webhook_def unregister_webhook_def accept_incoming_event_once_def
  by (rule shielding.rel_map_err, rule rel_store_put rel_store_call; simp add: shielded_eq split: prod.split)+

lemma shield_queue:
  "op_rel (shielded r t) world_claim" "op_rel (shielded r t) (world_ack i)" "op_rel (shielded r t) (world_release m)"
  "op_rel (shielded r t) (world_dead_put m)" "op_rel (shielded r t) (world_dead_take i)"
  "op_rel (shielded r t) (store_enqueue m)"
  unfolding world_claim_def world_ack_def world_release_def world_dead_put_def world_dead_take_def store_enqueue_def
  by (rule rel_store_put rel_store_call; simp add: shielded_eq split: prod.split)+

lemma shield_delivery: "op_rel (shielded r t) (attempt_delivery (world_deliverer q) m)"
  by (auto simp: op_rel_def attempt_delivery_def world_deliverer_def split: option.splits prod.splits
      intro!: shielded_eq)

lemma shield_deliveries:
  "op_rel (shielded r t) (facade_process_outbox_once fa mx)"
  "op_rel (shielded r t) (facade_replay_from_dead_letter i)"
  "op_rel (shielded r t) (facade_run_reconciliation fa ids)"
proof -
  show "op_rel (shielded r t) (facade_process_outbox_once fa mx)"
    unfolding facade_process_outbox_once_def process_outbox_once_def run_outbox_once_def
      process_outbox_once_reporting_def settle_delivery_def Let_def
    by (auto intro!: shielding.rel_rules shield_queue shield_delivery split: option.split)
  show "op_rel (shielded r t) (facade_replay_from_dead_letter i)"
    unfolding facade_replay_from_dead_letter_def replay_from_dead_letter_def
    by (auto intro!: shielding.rel_rules shield_queue split: option.split)
  show "op_rel (shielded r t) (facade_run_reconciliation fa ids)"
    by (simp add: op_rel_def facade_run_reconciliation_def split_beta run_reconciliation_state shielded_eq)
qed

section \<open>Every endpoint\<close>

interpretation shield: endpoint_frame "shielded (fa_runner (as_facade st)) (ac_tenant_id auth)" st auth coherent
  for st auth
  by unfold_locales
    (auto intro: shield_commands shield_checkouts shield_payments shield_tables shield_deliveries shielded_eq)

text \<open>The envelope, when it is read as a cart command, does not name two different carts.\<close>

definition envelope_coherent :: "text_env \<Rightarrow> json \<Rightarrow> bool" where
  "envelope_coherent T envelope \<longleftrightarrow>
     (case normalize_a2a_cart_envelope T envelope of Inl e \<Rightarrow> True | Inr (cmd, c) \<Rightarrow> coherent cmd c)"

definition body_coherent :: "app_state \<Rightarrow> json_codec \<Rightarrow> string \<Rightarrow> bool" where
  "body_coherent st C body \<longleftrightarrow>
     (case jc_parse C body of
        Inl e \<Rightarrow> True
      | Inr request \<Rightarrow>
          (case data_part (json_index request ''message'') of
             None \<Rightarrow> True
           | Some envelope \<Rightarrow> envelope_coherent (as_text st) envelope))"

lemma shield_post:
  assumes "body_coherent st C body" "post_operation st C auth operation headers body w = (reply, w')"
  shows "shielded (fa_runner (as_facade st)) (ac_tenant_id auth) w w'"
  using assms(1) by (intro shield.message_endpoint [OF _ assms(2)]) (auto simp: body_coherent_def envelope_coherent_def)

text \<open>
  C12: tenant isolation of the agent surfaces. Whatever an agent sends to the MCP endpoint, any method, tool or
  resource, checkouts and payments included, and whatever it sends to the A2A message binding short of an
  envelope that names two different carts: every cart of another tenant than the caller's keeps its snapshot,
  its state and its events, provided fresh identifiers do not collide with it.
\<close>

theorem agents_isolate_tenants:
  "shielded (fa_runner (as_facade st)) (ac_tenant_id auth) w (snd (mcp_message st C auth headers request w)) \<and>
   (body_coherent st C body \<longrightarrow>
      shielded (fa_runner (as_facade st)) (ac_tenant_id auth) w (snd (post_operation st C auth operation headers body w)))"
proof (intro conjI impI)
  show "shielded (fa_runner (as_facade st)) (ac_tenant_id auth) w (snd (mcp_message st C auth headers request w))"
    by (rule shield.mcp_endpoint)
  show "shielded (fa_runner (as_facade st)) (ac_tenant_id auth) w (snd (post_operation st C auth operation headers body w))"
    if "body_coherent st C body" by (rule shield_post [OF that prod.collapse [symmetric]])
qed

text \<open>A codec for concrete inputs: every body is the same checkout of a cart, every object is printed empty.\<close>

definition sample_codec :: "json \<Rightarrow> json_codec" where
  "sample_codec v =
     \<lparr>jc_checkout = (\<lambda>_. Inr sample_request), jc_identity = (\<lambda>_. Inl ''identity''), jc_intent = (\<lambda>_. Inr (cr_payment_intent sample_request)),
      jc_of_cart_dto = (\<lambda>_. JNull), jc_of_transaction_dto = (\<lambda>_. JNull), jc_of_identity_dto = (\<lambda>_. JNull),
      jc_of_order_dto = (\<lambda>_. JNull), jc_of_cart = (\<lambda>_. JObj []), jc_of_transaction = (\<lambda>_. JNull),
      jc_of_order = (\<lambda>r. JStr (or_order_id r)), jc_of_item = (\<lambda>_. JNull), jc_print_cart = (\<lambda>_. []), jc_print_order = (\<lambda>_. []),
      jc_parse = (\<lambda>_. Inr v)\<rparr>"

definition checkout_message :: json where
  "checkout_message =
     JObj [(''message'', JObj [(''messageId'', JStr ''m''), (''role'', JStr ''ROLE_USER''),
        (''parts'', JArr [JObj [(''data'', JObj [(''capability'', JStr ''checkout''), (''payload'', JObj [])])]])])]"

text \<open>A server whose fresh identifiers are never 7.\<close>

definition agent_app :: app_state where
  "agent_app = sample_app\<lparr>as_facade := sample_facade\<lparr>fa_runner := sample_runner\<lparr>ru_new_v4 := (\<lambda>_. 9)\<rparr>\<rparr>\<rparr>"

theorem agents_isolate_tenants_witness:
  "w_snapshots (snd (post_operation agent_app (sample_codec checkout_message) (sample_auth ''t2'') ''message:send''
      [(''a2a-version'', ''1.0'')] ''body'' sample_world)) (CartId 7) = Some sample_cart"
proof -
  have "normalize_a2a_cart_envelope T (JObj [(''capability'', JStr ''checkout''), (''payload'', JObj [])]) =
      Inl ''missing command''" for T
    by (simp add: normalize_a2a_cart_envelope_def envelope_capability_def envelope_payload_def json_at_defs starts_with_def)
  then have "body_coherent agent_app (sample_codec checkout_message) ''body''"
    by (simp add: body_coherent_def sample_codec_def checkout_message_def data_part_def json_at_defs envelope_coherent_def)
  then have "shielded (fa_runner (as_facade agent_app)) (ac_tenant_id (sample_auth ''t2'')) sample_world
      (snd (post_operation agent_app (sample_codec checkout_message) (sample_auth ''t2'') ''message:send''
        [(''a2a-version'', ''1.0'')] ''body'' sample_world))"
    using agents_isolate_tenants [of agent_app "sample_auth ''t2''" sample_world "sample_codec checkout_message"] by blast
  moreover have "w_snapshots sample_world (CartId 7) = Some sample_cart" "cp_tenant_id sample_cart = Some ''t1''"
    by (simp_all add: sample_world_def sample_cart_def)
  ultimately show ?thesis
    using sample_snapshots_ok by (fastforce simp: shielded_def sample_auth_def agent_app_def)
qed

end
