(* ===== verification/Server_Facts.thy ===== *)
theory Server_Facts
  imports Server Agent_Isolation
begin

text \<open>
  What the composition of the layers, the routes and the handlers guarantees: which requests can change
  anything, that reading requests are safe, that tenants stay apart on every route, and that whatever requests a server
  answers, in whatever order, its state is one the runner reaches.
\<close>

section \<open>Layers\<close>

lemma forwarded_same:
  "snd (verify_request_signature C V keys now rq) = Forwarded rq' \<Longrightarrow> rq' = rq"
  by (auto simp: verify_request_signature_def to_bytes_def split: option.splits sum.splits if_splits)

text \<open>What the client's command on carts is, where a route lets the client write it down whole.\<close>

definition sum_option :: "'e + 'a \<Rightarrow> 'a option" where
  "sum_option x = (case x of Inl _ \<Rightarrow> None | Inr a \<Rightarrow> Some a)"

lemma sum_option_Some [simp]: "sum_option x = Some a \<longleftrightarrow> x = Inr a"
  by (cases x) (simp_all add: sum_option_def)

lemma sum_option_simps [simp]: "sum_option (Inl e) = None" "sum_option (Inr a) = Some a"
  by (simp_all add: sum_option_def)

definition rest_command :: "text_env \<Rightarrow> cart_command_request \<Rightarrow> (cart_command \<times> cart_id option) option" where
  "rest_command T req =
     Option.bind (sum_option (cart_command_from_dto T (cq_command req))) (\<lambda>cmd.
       case cq_cart_id req of
         None \<Rightarrow> Some (cmd, None)
       | Some s \<Rightarrow> Option.bind (sum_option (parse_cart_id T s)) (\<lambda>c. Some (cmd, Some c)))"

definition message_command :: "json_codec \<Rightarrow> text_env \<Rightarrow> string \<Rightarrow> (cart_command \<times> cart_id option) option" where
  "message_command C T body =
     Option.bind (sum_option (jc_parse C body)) (\<lambda>request.
     Option.bind (data_part (json_index request ''message'')) (\<lambda>envelope.
       sum_option (normalize_a2a_cart_envelope T envelope)))"

definition named_command ::
  "edge \<Rightarrow> json_codec \<Rightarrow> app_state \<Rightarrow> Http_Signing.http_request \<Rightarrow> endpoint \<Rightarrow> (cart_command \<times> cart_id option) option" where
  "named_command X C st rq e =
     (if e = DispatchCartCommand then Option.bind (sum_option (eg_cart_command X rq)) (rest_command (as_text st))
      else if e = A2aDispatchCartCommand
      then Option.bind (sum_option (eg_json X rq)) (\<lambda>body. sum_option (normalize_a2a_cart_envelope (as_text st) body))
      else if e = A2aPostOperation
      then Option.bind (sum_option (eg_bytes X rq)) (message_command C (as_text st))
      else None)"

lemma named_command_simps [simp]:
  "named_command X C st rq DispatchCartCommand = Option.bind (sum_option (eg_cart_command X rq)) (rest_command (as_text st))"
  "named_command X C st rq A2aDispatchCartCommand =
     Option.bind (sum_option (eg_json X rq)) (\<lambda>body. sum_option (normalize_a2a_cart_envelope (as_text st) body))"
  "named_command X C st rq A2aPostOperation = Option.bind (sum_option (eg_bytes X rq)) (message_command C (as_text st))"
  by (simp_all add: named_command_def)

context handler_frame begin

lemma rel_extracted: "(\<And>a. x = Inr a \<Longrightarrow> op_rel R (f a)) \<Longrightarrow> op_rel R (op_bind (extracted x) f)"
  by (cases x) (simp_all add: extracted_def op_bind_fail op_bind_return rel_fail)

lemma rel_api: "op_rel R h \<Longrightarrow> op_rel R (api X st g h)"
  unfolding api_def by (intro rel_rules)

lemma rel_replied: "(\<And>w. R w (snd (run w))) \<Longrightarrow> op_rel R (replied g run)"
  by (auto simp: op_rel_def replied_def split_beta)

end

context endpoint_frame begin

lemma rel_new_v4: "(\<And>u. op_rel R (f u)) \<Longrightarrow> op_rel R (with_new_v4 st f)"
  by (auto simp: op_rel_def with_new_v4_def intro: trans [OF identifiers])

lemmas endpoint_rules =
  rel_api rel_extracted rel_new_v4 rel_return ucp_endpoints embedded_link_endpoint acp_endpoints operation_endpoints
  a2a_endpoints

lemma rel_payment_handlers: "op_rel R h_list_payment_handlers" "op_rel R (h_get_payment_handler i)"
  unfolding h_list_payment_handlers_def h_get_payment_handler_def by (intro rel_rules)+

lemma rel_dispatch:
  assumes "\<And>cmd c. rest_command (as_text st) req = Some (cmd, c) \<Longrightarrow> allowed cmd c"
  shows "op_rel R (h_dispatch_cart_command st auth req)"
proof (rule cart_command_endpoint)
  fix cmd c
  assume "cart_command_from_dto (as_text st) (cq_command req) = Inr cmd"
    and "case cq_cart_id req of None \<Rightarrow> c = None
         | Some s \<Rightarrow> \<exists>i. parse_cart_id (as_text st) s = Inr i \<and> c = Some i"
  then have "rest_command (as_text st) req = Some (cmd, c)"
    by (auto simp: rest_command_def sum_option_def split: option.splits)
  then show "allowed cmd c" by (rule assms)
qed

lemma rel_message:
  assumes "\<And>cmd c. message_command C (as_text st) body = Some (cmd, c) \<Longrightarrow> allowed cmd c"
  shows "R w (snd (post_operation st C auth operation headers body w))"
  by (rule message_endpoint [OF _ prod.collapse [symmetric]]) (auto simp: message_command_def sum_option_def intro: assms)

lemma rel_endpoint:
  assumes "\<And>cmd c. named_command X C st rq e = Some (cmd, c) \<Longrightarrow> allowed cmd c"
  shows "op_rel R (call_endpoint X C st auth ps rq e)"
proof (cases e)
  case DispatchCartCommand
  with assms show ?thesis by (auto intro!: endpoint_rules rel_dispatch)
next
  case A2aDispatchCartCommand
  with assms show ?thesis by (auto intro!: endpoint_rules a2a_cart_endpoint)
next
  case A2aPostOperation
  with assms show ?thesis by (auto intro!: endpoint_rules rel_replied rel_message)
next
  case McpMessage
  then show ?thesis by (auto intro!: endpoint_rules rel_replied mcp_endpoint)
qed (simp_all only: call_endpoint.simps, (intro endpoint_rules rel_payment_handlers)+)

text \<open>The whole path of an authenticated request.\<close>

lemma rel_routes:
  assumes "sd_app sd = st" "authenticate st (hq_headers rq) = Inr auth"
    and "\<And>e ps cmd c. routed X rq = To (V1 e) ps \<Longrightarrow> named_command X C st rq e = Some (cmd, c) \<Longrightarrow> allowed cmd c"
  shows "R w (snd (run_routes X C sd rq w))"
proof (cases "routed X rq")
  case (To r ps)
  have "op_rel R (call_route X C sd ps rq r)"
  proof (cases r)
    case (V1 e)
    with assms(3) To have "op_rel R (call_endpoint X C st auth ps rq e)" by (intro rel_endpoint) blast
    with V1 assms(2) show ?thesis by (simp add: call_route_def assms(1))
  qed (auto simp: call_route_def intro: rel_return rel_extracted)
  with To show ?thesis by (auto simp: run_routes_def op_rel_def split: prod.splits sum.splits) (metis snd_conv)+
qed (simp_all add: run_routes_def refl)

lemma rel_server:
  assumes "sd_app sd = st" "authenticate st (hq_headers rq) = Inr auth"
    and "\<And>e ps cmd c. routed X rq = To (V1 e) ps \<Longrightarrow> named_command X C st rq e = Some (cmd, c) \<Longrightarrow> allowed cmd c"
  shows "R w (snd (signed_router X C sd rq w))"
proof -
  have "R v (snd (request_id_middleware X C sd rq v))" for v
    using rel_routes [OF assms] trans [OF identifiers rel_routes [OF assms]]
    by (auto simp: request_id_middleware_def new_uuid_def assms(1) split_beta split: option.split)
  then show ?thesis
    using forwarded_same [of "as_crypto (sd_app sd)" "as_values (sd_app sd)" "sd_inbound_keys sd" "eg_verify_now X" rq]
    by (auto simp: signed_router_def Let_def split_beta refl split: prod.splits verdict.splits)
qed

end

section \<open>Tenants on every route\<close>

definition request_coherent :: "edge \<Rightarrow> json_codec \<Rightarrow> app_state \<Rightarrow> Http_Signing.http_request \<Rightarrow> bool" where
  "request_coherent X C st rq \<longleftrightarrow>
     (\<forall>e ps cmd c. routed X rq = To (V1 e) ps \<longrightarrow> named_command X C st rq e = Some (cmd, c) \<longrightarrow> coherent cmd c)"

text \<open>
  C8: tenant isolation of the server. Whatever an authenticated caller sends, on any route and under any method, signed
  or not, answered or refused: every cart of another tenant keeps its snapshot, its state and its events, provided fresh
  identifiers do not collide with it. The one exception is a cart command, by REST or A2A, that names two carts.
\<close>

theorem server_isolates_tenants:
  assumes "authenticate (sd_app sd) (hq_headers rq) = Inr auth" "request_coherent X C (sd_app sd) rq"
  shows "shielded (fa_runner (as_facade (sd_app sd))) (ac_tenant_id auth) w (snd (signed_router X C sd rq w))"
  using assms by (intro shield.rel_server) (auto simp: request_coherent_def)

section \<open>Requests that change something\<close>

text \<open>The part of a registered pattern before its first parameter is matched literally.\<close>

definition literal_prefixes :: "edge \<Rightarrow> bool" where
  "literal_prefixes X \<longleftrightarrow>
     (\<forall>patterns path p vs. eg_match X patterns path = Some (p, vs) \<longrightarrow> starts_with path (takeWhile (\<lambda>c. c \<noteq> CHR '':'') p))"

lemma v1_prefix:
  assumes "(p, m, V1 e) \<in> set router"
  shows "\<exists>rest. takeWhile (\<lambda>c. c \<noteq> CHR '':'') p = SIGNED_PATH_PREFIX @ rest"
  using assms by (auto simp: router_def discovery_routes_def health_routes_def SIGNED_PATH_PREFIX_def)

lemma routed_entry: "routed X rq = To r ps \<Longrightarrow>
    \<exists>p m. eg_match X (map fst router) (hq_path rq) = Some (p, ps) \<and> eg_serves X m (hq_method rq) \<and> (p, m, r) \<in> set router"
  by (auto simp: routed_def find_Some_iff split: option.splits) (metis nth_mem)

lemma routed_path:
  assumes "literal_prefixes X" "routed X rq = To (V1 e) ps"
  shows "starts_with (hq_path rq) SIGNED_PATH_PREFIX"
proof -
  obtain p m where p: "eg_match X (map fst router) (hq_path rq) = Some (p, ps)" "(p, m, V1 e) \<in> set router"
    using routed_entry [OF assms(2)] by blast
  with assms(1) have "starts_with (hq_path rq) (takeWhile (\<lambda>c. c \<noteq> CHR '':'') p)" by (auto simp: literal_prefixes_def)
  with v1_prefix [OF p(2)] show ?thesis by (auto simp: starts_with_def strip_prefix_Some)
qed

text \<open>Routes that answer without credentials, and requests without them, change nothing.\<close>

lemma routes_without_credentials:
  assumes "\<nexists>e ps auth. routed X rq = To (V1 e) ps \<and> authenticate (sd_app sd) (hq_headers rq) = Inr auth"
  shows "snd (run_routes X C sd rq w) = w"
proof (cases "routed X rq")
  case (To r ps)
  have "snd (call_route X C sd ps rq r w) = w"
  proof (cases r)
    case (V1 e)
    with assms To obtain err where "authenticate (sd_app sd) (hq_headers rq) = Inl err"
      by (cases "authenticate (sd_app sd) (hq_headers rq)") auto
    with V1 show ?thesis by (simp add: call_route_def op_fail_def)
  next
    case WellKnownUcp
    then show ?thesis
      by (cases "eg_version_query X rq") (simp_all add: call_route_def extracted_def op_bind_def op_fail_def op_return_def)
  qed (simp_all add: call_route_def op_return_def)
  with To show ?thesis by (auto simp: run_routes_def split: prod.splits sum.splits)
qed (simp_all add: run_routes_def)

definition only_identifiers :: "world \<Rightarrow> world \<Rightarrow> bool" where
  "only_identifiers w w' \<longleftrightarrow> w' = w\<lparr>w_uuid := w_uuid w'\<rparr>"

lemma middleware_without_credentials:
  assumes "\<nexists>e ps auth. routed X rq = To (V1 e) ps \<and> authenticate (sd_app sd) (hq_headers rq) = Inr auth"
  shows "only_identifiers w (snd (request_id_middleware X C sd rq w))"
  using routes_without_credentials [OF assms]
  by (auto simp: request_id_middleware_def Let_def new_uuid_def only_identifiers_def split_beta split: option.split)

lemma server_without_credentials:
  assumes "\<nexists>e ps auth. routed X rq = To (V1 e) ps \<and> authenticate (sd_app sd) (hq_headers rq) = Inr auth"
  shows "only_identifiers w (snd (signed_router X C sd rq w))"
  using middleware_without_credentials [OF assms, of w C]
    forwarded_same [of "as_crypto (sd_app sd)" "as_values (sd_app sd)" "sd_inbound_keys sd" "eg_verify_now X" rq]
  by (auto simp: signed_router_def Let_def split_beta only_identifiers_def split: prod.splits verdict.splits)

text \<open>What the extractor accepts: a bearer token the resolver knows, or any caller where development access is allowed.\<close>

definition accepted_caller :: "app_state \<Rightarrow> header_map \<Rightarrow> auth_context \<Rightarrow> bool" where
  "accepted_caller st headers auth \<longleftrightarrow>
     (case as_authn st of
        None \<Rightarrow> as_allow_dev_auth st \<and> auth = dev_auth_context
      | Some resolve \<Rightarrow> \<exists>token. bearer_token (as_values st) headers = Some token \<and> resolve token = Some auth)"

lemma authenticated_caller: "authenticate st headers = Inr auth \<Longrightarrow> accepted_caller st headers auth"
  by (auto simp: authenticate_def accepted_caller_def res_bind_Inr ok_or_Inr split: option.splits if_splits)

text \<open>
  C9: nothing changes without credentials. A request that changes anything but the supply of fresh identifiers has a path
  under \<open>/api/v1\<close>. On a server with a resolver of tokens it carries a bearer token that the resolver accepts; on a server
  without one it is served only where development access is allowed, which is not in production. And where keys of agents
  are configured, its signature has been verified against them. No route answers around the verifier or the extractor.
\<close>

theorem changes_need_credentials:
  assumes "literal_prefixes X" "signed_router X C sd rq w = (resp, w')" "w' \<noteq> w\<lparr>w_uuid := w_uuid w'\<rparr>"
  shows "starts_with (hq_path rq) SIGNED_PATH_PREFIX \<and>
    (\<exists>auth. authenticate (sd_app sd) (hq_headers rq) = Inr auth \<and>
       (case as_authn (sd_app sd) of
          None \<Rightarrow> as_allow_dev_auth (sd_app sd) \<and> auth = dev_auth_context
        | Some resolve \<Rightarrow>
            \<exists>token. bearer_token (as_values (sd_app sd)) (hq_headers rq) = Some token \<and> resolve token = Some auth)) \<and>
    (\<forall>keyring. sd_inbound_keys sd = Some keyring \<longrightarrow>
       (\<exists>body kid. hq_body rq = Some body \<and>
          request_verified (as_crypto (sd_app sd)) (as_values (sd_app sd)) keyring (eg_verify_now X) rq body = Inr kid))"
proof -
  obtain e ps auth where route: "routed X rq = To (V1 e) ps" "authenticate (sd_app sd) (hq_headers rq) = Inr auth"
    using server_without_credentials [of X rq sd w C] assms(2,3) by (auto simp: only_identifiers_def)
  have path: "starts_with (hq_path rq) SIGNED_PATH_PREFIX" by (rule routed_path [OF assms(1) route(1)])
  have "\<exists>body kid. hq_body rq = Some body \<and>
      request_verified (as_crypto (sd_app sd)) (as_values (sd_app sd)) keyring (eg_verify_now X) rq body = Inr kid"
    if keys: "sd_inbound_keys sd = Some keyring" for keyring
  proof -
    obtain ms v where v: "verify_request_signature (as_crypto (sd_app sd)) (as_values (sd_app sd)) (Some keyring)
        (eg_verify_now X) rq = (ms, v)" by force
    have "v \<noteq> Http_Signing.Rejected status b" for status b
      using assms(2,3) v keys by (auto simp: signed_router_def Let_def)
    then obtain rq' where "v = Forwarded rq'" by (cases v) auto
    from verified_request [OF v [unfolded this] path] show ?thesis by blast
  qed
  with path route(2) authenticated_caller [OF route(2)] show ?thesis unfolding accepted_caller_def by blast
qed

section \<open>Reading\<close>

text \<open>Nothing happens but catalogue lookups and the use of fresh identifiers.\<close>

definition reading :: "world \<Rightarrow> world \<Rightarrow> bool" where
  "reading w w' \<longleftrightarrow> (\<exists>n items. w' = w\<lparr>w_uuid := n, w_log := w_log w @ map CallGetItem items\<rparr>)"

lemma reading_refl: "reading w w"
  unfolding reading_def by (intro exI [of _ "w_uuid w"] exI [of _ "[]"]) simp

lemma reading_trans: "reading w u \<Longrightarrow> reading u v \<Longrightarrow> reading w v"
  unfolding reading_def by (elim exE, hypsubst) (rule exI, rule_tac x = "items @ itemsa" in exI, simp)

interpretation read: handler_frame reading
  by unfold_locales (auto intro: reading_refl reading_trans)

lemma read_cart: "op_rel reading (cart_call st auth (get_cart_command c) None)"
proof -
  have "op_rel reading (dispatch_cart_command_for_tenant fa t (GetCart g) None)" for fa t g
    unfolding dispatch_cart_command_for_tenant_def assert_cart_belongs_to_def facade_dispatch_def
      dispatch_cart_command_def run_cart_command_def require_cart_def get_cart_snapshot_def Let_def
    by (auto intro!: read.rel_rules split: option.split)
  then show ?thesis unfolding cart_call_def lift_facade_def get_cart_command_def by (intro read.rel_map_err)
qed

lemma read_item: "op_rel reading (h_lookup_catalog_item st i)"
proof -
  have "reading w (w\<lparr>w_log := w_log w @ [CallGetItem i]\<rparr>)" for w i
    unfolding reading_def by (intro exI [of _ "w_uuid w"] exI [of _ "[i]"]) simp
  then show ?thesis
    unfolding h_lookup_catalog_item_def lift_facade_def facade_lookup_catalog_item_def lookup_catalog_item_def
    by (intro read.rel_map_err rel_provider_call)
qed

lemma read_orders: "op_rel reading (tenant_order auth i)" "op_rel reading (facade_list_orders t)"
  "op_rel reading (facade_list_webhooks t)" "op_rel reading facade_list_dead_letter"
  unfolding tenant_order_def lift_facade_def facade_get_order_def facade_list_orders_def facade_list_webhooks_def
    facade_list_dead_letter_def get_order_def list_orders_def list_webhooks_def
  by (intro read.rel_rules)+

lemma read_handlers:
  "op_rel reading (h_ucp_get_cart st auth i)" "op_rel reading (h_ucp_get_checkout st auth i)"
  "op_rel reading (h_acp_get_session st auth headers i)" "op_rel reading (h_acp_get_cart st auth headers i)"
  "op_rel reading (h_get_order st auth i)" "op_rel reading (h_ucp_get_order st auth i)"
  "op_rel reading (h_list_orders st auth)" "op_rel reading (h_list_webhooks st auth)"
  "op_rel reading (h_list_dead_letter st auth)" "op_rel reading h_list_payment_handlers"
  "op_rel reading (h_get_payment_handler i)"
  unfolding h_ucp_get_cart_def h_ucp_get_checkout_def as_checkout_def h_acp_get_session_def h_acp_get_cart_def
    h_get_order_def h_ucp_get_order_def h_list_orders_def h_list_webhooks_def h_list_dead_letter_def
    h_list_payment_handlers_def h_get_payment_handler_def lift_facade_def
  by (intro read.handler_rules read_cart read_orders)+

definition get_endpoints :: "endpoint list" where
  "get_endpoints = [UcpGetCart, UcpGetCheckout, UcpListPaymentHandlers, UcpGetPaymentHandler, UcpGetOrder, AcpGetSession,
     AcpGetCart, A2aGetTask, ListOrders, GetOneOrder, LookupCatalogItem, ListWebhooks, ListDeadLetter]"

lemma read_endpoint: "e \<in> set get_endpoints \<Longrightarrow> op_rel reading (call_endpoint X C st auth ps rq e)"
  by (auto simp: get_endpoints_def intro!: read.rel_api read.rel_extracted read_handlers read_item read.rel_return)

lemma get_routes: "(p, ''GET'', V1 e) \<in> set router \<Longrightarrow> e \<in> set get_endpoints"
  by (auto simp: router_def discovery_routes_def health_routes_def v1_routes_def get_endpoints_def)

text \<open>
  C29: reading is safe. A request with a method that only the routes registered for GET serve (GET and HEAD, in axum)
  changes no store, calls no provider but for catalogue items and sends nothing: whatever it reads, on whatever route, with
  whatever credentials, only the supply of fresh identifiers and the record of catalogue lookups move.
\<close>

theorem reads_are_safe:
  assumes "\<And>m. eg_serves X m (hq_method rq) \<Longrightarrow> m = ''GET''"
  shows "reading w (snd (signed_router X C sd rq w))"
proof -
  have routes: "reading v (snd (run_routes X C sd rq v))" for v
  proof (cases "routed X rq")
    case (To r ps)
    have "op_rel reading (call_route X C sd ps rq r)"
    proof (cases r)
      case (V1 e)
      with To routed_entry assms get_routes have "e \<in> set get_endpoints" by metis
      with V1 show ?thesis by (auto simp: call_route_def intro: read.rel_fail read_endpoint split: sum.split)
    qed (auto simp: call_route_def intro: read.rel_return read.rel_extracted)
    with To show ?thesis by (auto simp: run_routes_def op_rel_def split: prod.splits sum.splits) (metis snd_conv)+
  qed (simp_all add: run_routes_def reading_refl)
  have "reading v (v\<lparr>w_uuid := n\<rparr>)" for v n
    unfolding reading_def by (intro exI [of _ n] exI [of _ "[]"]) simp
  with routes reading_trans have "reading v (snd (request_id_middleware X C sd rq v))" for v
    by (auto simp: request_id_middleware_def Let_def new_uuid_def split_beta split: option.split) blast
  then show ?thesis
    using forwarded_same [of "as_crypto (sd_app sd)" "as_values (sd_app sd)" "sd_inbound_keys sd" "eg_verify_now X" rq]
    by (auto simp: signed_router_def Let_def split_beta reading_refl split: prod.splits verdict.splits)
qed

section \<open>The server refines the runner\<close>

lemma runner_identifiers: "runner_reach w (w\<lparr>w_uuid := n\<rparr>)"
  by (rule runner_step_reach [OF runner_step.env_uuid])

interpretation reached: endpoint_frame runner_reach st auth "\<lambda>_ _. True" for st auth
  by unfold_locales
    (auto intro: reach_refl runner_reach_trans path_facade path_reconciliation runner_identifiers)

lemma server_path: "runner_reach w (snd (signed_router X C sd rq w))"
proof (cases "authenticate (sd_app sd) (hq_headers rq)")
  case (Inl err)
  then have "only_identifiers w (snd (signed_router X C sd rq w))" by (intro server_without_credentials) simp
  then show ?thesis unfolding only_identifiers_def by (metis runner_identifiers)
next
  case (Inr auth)
  then show ?thesis by (rule reached.rel_server [OF refl]) simp
qed

text \<open>
  What may happen to the stores: requests to servers of any configuration, one after the other, and the calls of
  the background loop and of other clients of the facade.
\<close>

inductive served_reach :: "world \<Rightarrow> world \<Rightarrow> bool" for w where
  sv_refl: "served_reach w w"
| sv_request: "served_reach w u \<Longrightarrow> signed_router X C sd rq u = (resp, v) \<Longrightarrow> served_reach w v"
| sv_facade: "served_reach w u \<Longrightarrow> facade_step u v \<Longrightarrow> served_reach w v"

lemma served_path: "served_reach w v \<Longrightarrow> runner_reach w v"
proof (induction rule: served_reach.induct)
  case (sv_request u X C sd rq resp v)
  with server_path [of u X C sd rq] show ?case by (auto intro: runner_reach_trans)
qed (auto intro: reach_refl runner_reach_trans facade_step_path)

text \<open>
  C7: the server refines the runner. From empty stores, whatever requests servers answer, on any route, in any
  order, with any answers of providers and any store failures, the state is one the runner reaches, so every
  stored cart adds up and every table is filed under its own keys; and a checkout that was answered with a
  result over REST, by a server that is not in AP2 strict mode, is answered with the same result and without
  effect after whatever requests came in between, once the stores answer. In strict mode the mandate is used
  up and the same request is refused.
\<close>

theorem server_refines_runner:
  assumes "served_reach empty_world w"
  shows "runner_reach empty_world w \<and> world_ok w \<and>
    (\<forall>st auth req dto w' v. h_execute_checkout st auth req w = (Inr dto, w') \<longrightarrow> \<not> fa_ap2_strict (as_facade st) \<longrightarrow>
       served_reach w' v \<longrightarrow> w_faults v = [] \<longrightarrow> h_execute_checkout st auth req v = (Inr dto, v))"
proof (intro conjI allI impI)
  show reach: "runner_reach empty_world w" using assms by (rule served_path)
  show ok: "world_ok w" using reach empty_world_ok by (rule reach_invariant)
  fix st auth req dto w' v
  assume run: "h_execute_checkout st auth req w = (Inr dto, w')" and off: "\<not> fa_ap2_strict (as_facade st)"
    and v: "served_reach w' v" "w_faults v = []"
  from run off obtain q res where q: "checkout_request_from_dto (as_text st) req = Inr q"
      "authorize_checkout auth q = Inr ()" "execute_checkout (fa_runner (as_facade st)) q w = (Inr res, w')"
      "dto = transaction_to_dto (as_text st) res"
    by (auto simp: h_execute_checkout_def checkout_call_def lift_facade_def execute_checkout_authorized_def
        facade_execute_checkout_def or_bad_request_def op_defs op_map_err_def split: sum.splits prod.splits)
  from completed_forever [OF ok q(3) served_path [OF v(1)] v(2)] q off
  show "h_execute_checkout st auth req v = (Inr dto, v)"
    by (simp add: h_execute_checkout_def checkout_call_def lift_facade_def execute_checkout_authorized_def
        facade_execute_checkout_def or_bad_request_def op_defs op_map_err_def)
qed

section \<open>A sample exchange\<close>

text \<open>A framework that matches paths without parameters and reads the same cart request from every body.\<close>

definition sample_edge :: edge where
  "sample_edge =
     \<lparr>eg_match = (\<lambda>patterns path. if path \<in> set patterns then Some (path, []) else None), eg_serves = (=),
      eg_path = (\<lambda>_. Inl sample_response), eg_version_query = (\<lambda>_. Inr None), eg_bytes = (\<lambda>_. Inr []),
      eg_json = (\<lambda>_. Inr JNull),
      eg_cart_command = (\<lambda>_. Inr \<lparr>cq_command = CancelCartDto ''xxxxxxx'', cq_cart_id = None\<rparr>),
      eg_ucp_cart = (\<lambda>_. Inr \<lparr>ucr_merchant_id = Some ''m1'', ucr_currency = ''USD'', ucr_line_items = []\<rparr>),
      eg_selection = (\<lambda>_. Inl sample_response), eg_checkout = (\<lambda>_. Inl sample_response), eg_search = (\<lambda>_. Inr None),
      eg_lookup = (\<lambda>_. Inr []), eg_product = (\<lambda>_. Inr []), eg_acp_create = (\<lambda>_. Inl sample_response),
      eg_acp_update = (\<lambda>_. Inl sample_response), eg_acp_complete = (\<lambda>_. Inl sample_response),
      eg_acp_delegate = (\<lambda>_. Inl sample_response), eg_webhook = (\<lambda>_. Inl sample_response),
      eg_lifecycle = (\<lambda>_. Inl sample_response), eg_rpc = (\<lambda>_. Inl sample_response), eg_incoming = (\<lambda>_. Inr ''m''),
      eg_attempts = (\<lambda>_. Inr 3), eg_replay = (\<lambda>_. Inr ''m''), eg_transactions = (\<lambda>_. Inr []),
      eg_answer = (\<lambda>_ _. sample_response), eg_error = (\<lambda>(s, c, t). sample_response\<lparr>hp_status := s\<rparr>),
      eg_rejected = (\<lambda>s _. sample_response\<lparr>hp_status := s\<rparr>), eg_not_found = sample_response\<lparr>hp_status := 404\<rparr>,
      eg_not_allowed = (\<lambda>_. sample_response\<lparr>hp_status := 405\<rparr>), eg_verify_now = 0, eg_now = 0, eg_sign_now = 0\<rparr>"

text \<open>A development server whose fresh identifiers are never 7, and a request to it.\<close>

definition sample_served :: served where
  "sample_served = \<lparr>sd_app = agent_app\<lparr>as_signing := None\<rparr>, sd_shutdown_flag = False,
     sd_discovery_base_url = ''http://127.0.0.1:8080'', sd_inbound_keys = None, sd_payment_handlers = []\<rparr>"

definition plain_request :: "string \<Rightarrow> string \<Rightarrow> Http_Signing.http_request" where
  "plain_request method path = \<lparr>hq_method = method, hq_path = path, hq_query = None, hq_authority = None,
     hq_headers = [(''x-request-id'', ''r'')], hq_body = Some []\<rparr>"

lemma sample_authenticated: "authenticate (sd_app sample_served) headers = Inr dev_auth_context"
  by (simp add: authenticate_def sample_served_def agent_app_def sample_app_def)

lemma sample_literal: "literal_prefixes sample_edge"
proof -
  have "starts_with p (takeWhile (\<lambda>c. c \<noteq> CHR '':'') p)" for p
    using takeWhile_dropWhile_id [of "\<lambda>c. c \<noteq> CHR '':''" p] unfolding starts_with_def
    by (metis strip_prefix_Some option.distinct(1))
  then show ?thesis by (auto simp: literal_prefixes_def sample_edge_def split: if_splits)
qed

lemma sample_routed:
  "routed sample_edge (plain_request ''POST'' ''/api/v1/ucp/carts'') = To (V1 UcpCreateCart) []"
  "routed sample_edge (plain_request ''POST'' ''/api/v1/cart/commands'') = To (V1 DispatchCartCommand) []"
  by (simp_all add: routed_def sample_edge_def plain_request_def router_def discovery_routes_def health_routes_def
      v1_routes_def)

definition sample_exchange :: "world \<Rightarrow> http_response \<times> world" where
  "sample_exchange = signed_router sample_edge (sample_codec JNull) sample_served (plain_request ''POST'' ''/api/v1/ucp/carts'')"

text \<open>Without keys and with a request identifier the layers pass the request on as it is.\<close>

lemma plain_layers:
  assumes "sd_inbound_keys sd = None" "header_get (as_values (sd_app sd)) (hq_headers rq) X_REQUEST_ID = Some i"
  shows "snd (signed_router X C sd rq w) = snd (run_routes X C sd rq w)"
  using assms
  by (simp add: signed_router_def verify_request_signature_def request_id_middleware_def Let_def split_beta)

lemma sample_creates:
  "w_snapshots (snd (call_endpoint sample_edge C (agent_app\<lparr>as_authn := a, as_signing := None\<rparr>) auth [] rq UcpCreateCart
     empty_world)) \<noteq> Map.empty"
  by (simp add: sample_edge_def agent_app_def sample_app_def sample_facade_def sample_runner_def
      h_ucp_create_cart_def created_with_lines_def cart_call_def lift_facade_def api_def extracted_def
      dispatch_cart_command_for_tenant_def facade_dispatch_def
      dispatch_cart_command_def run_cart_command_def create_cart_def fresh_uuid_def
      append_cart_event_def put_cart_snapshot_def set_cart_state_def op_defs op_map_err_def Let_def
      empty_world_def bad_currency_def)

lemma served_creates:
  assumes "sd_app sd = agent_app\<lparr>as_authn := a, as_signing := None\<rparr>" "sd_inbound_keys sd = None"
    and "authenticate (sd_app sd) (hq_headers rq) = Inr auth"
    and "header_get (as_values (sd_app sd)) (hq_headers rq) X_REQUEST_ID = Some i"
    and "routed sample_edge rq = To (V1 UcpCreateCart) []"
  shows "w_snapshots (snd (signed_router sample_edge C sd rq empty_world)) \<noteq> Map.empty"
proof -
  have route: "call_route sample_edge C sd [] rq (V1 UcpCreateCart) =
      call_endpoint sample_edge C (sd_app sd) auth [] rq UcpCreateCart"
    by (simp add: call_route_def assms(3))
  obtain x w' where "call_endpoint sample_edge C (sd_app sd) auth [] rq UcpCreateCart empty_world = (x, w')" by force
  with sample_creates [of C a auth rq] show ?thesis
    unfolding plain_layers [OF assms(2,4)] run_routes_def assms(5) target.case route
    by (cases x) (simp_all add: assms(1))
qed

lemma sample_exchange_creates: "w_snapshots (snd (sample_exchange empty_world)) \<noteq> Map.empty"
  unfolding sample_exchange_def
proof (rule served_creates [OF _ _ sample_authenticated _ sample_routed(1)])
  have "as_authn agent_app = None" by (simp add: agent_app_def sample_app_def)
  then show "sd_app sample_served = agent_app\<lparr>as_authn := None, as_signing := None\<rparr>"
    by (simp add: sample_served_def agent_app_def sample_app_def)
qed (simp_all add: sample_served_def header_get_def plain_request_def X_REQUEST_ID_def agent_app_def sample_app_def)

text \<open>The same server with the token \<open>secret\<close>, and the same request with it.\<close>

definition token_served :: served where
  "token_served = sample_served\<lparr>sd_app := agent_app\<lparr>as_authn := Some (static_token_resolver ''secret'' ''t1'' ''c''), as_signing := None\<rparr>\<rparr>"

definition token_request :: Http_Signing.http_request where
  "token_request = (plain_request ''POST'' ''/api/v1/ucp/carts'')
     \<lparr>hq_headers := [(''authorization'', ''Bearer secret''), (''x-request-id'', ''r'')]\<rparr>"

lemma token_read: "bearer_token (as_values (sd_app token_served)) (hq_headers token_request) = Some ''secret''"
proof -
  have "map_option str_trim (strip_prefix ''Bearer '' (str_trim ''Bearer secret'')) = Some ''secret''" by code_simp
  then show ?thesis
    by (simp add: bearer_token_def header_get_def token_served_def token_request_def agent_app_def sample_app_def)
qed

lemma token_exchange_creates:
  "w_snapshots (snd (signed_router sample_edge C token_served token_request empty_world)) \<noteq> Map.empty"
proof (rule served_creates)
  show "sd_app token_served = agent_app\<lparr>as_authn := Some (static_token_resolver ''secret'' ''t1'' ''c''), as_signing := None\<rparr>"
    by (simp add: token_served_def)
  show "authenticate (sd_app token_served) (hq_headers token_request) =
      Inr \<lparr>ac_caller_id = ''c'', ac_tenant_id = ''t1'', ac_scopes = [''checkout:execute'']\<rparr>"
    unfolding authenticate_def token_read by (simp add: token_served_def static_token_resolver_def ok_or_def)
  show "routed sample_edge token_request = To (V1 UcpCreateCart) []"
    by (simp add: routed_def sample_edge_def token_request_def plain_request_def router_def discovery_routes_def
        health_routes_def v1_routes_def)
  show "header_get (as_values (sd_app token_served)) (hq_headers token_request) X_REQUEST_ID = Some ''r''"
    by (simp add: token_served_def header_get_def token_request_def X_REQUEST_ID_def agent_app_def sample_app_def)
qed (simp add: token_served_def sample_served_def)

theorem server_refines_runner_witness:
  "\<exists>w. served_reach empty_world w \<and> world_ok w \<and> w_snapshots w \<noteq> Map.empty"
proof -
  obtain resp where "sample_exchange empty_world = (resp, snd (sample_exchange empty_world))" by (metis prod.collapse)
  from sv_request [OF sv_refl this [unfolded sample_exchange_def]]
  have r: "served_reach empty_world (snd (sample_exchange empty_world))" by (simp add: sample_exchange_def)
  from server_refines_runner [OF this] r sample_exchange_creates show ?thesis by blast
qed

theorem changes_need_credentials_witness:
  "w_snapshots (snd (signed_router sample_edge (sample_codec JNull) token_served token_request empty_world)) \<noteq> Map.empty \<and>
   starts_with (hq_path token_request) SIGNED_PATH_PREFIX \<and>
   (\<exists>auth token. bearer_token (as_values (sd_app token_served)) (hq_headers token_request) = Some token \<and>
      static_token_resolver ''secret'' ''t1'' ''c'' token = Some auth)"
proof -
  obtain resp w' where run: "signed_router sample_edge (sample_codec JNull) token_served token_request empty_world = (resp, w')"
    by force
  with token_exchange_creates [of "sample_codec JNull"] have made: "w_snapshots w' \<noteq> Map.empty" by simp
  have "w' \<noteq> empty_world\<lparr>w_uuid := w_uuid w'\<rparr>"
  proof
    assume "w' = empty_world\<lparr>w_uuid := w_uuid w'\<rparr>"
    then have "w_snapshots w' = w_snapshots (empty_world\<lparr>w_uuid := w_uuid w'\<rparr>)" by (rule arg_cong)
    with made show False by (simp add: empty_world_def)
  qed
  from changes_need_credentials [OF sample_literal run this] made run show ?thesis
    by (auto simp: token_served_def)
qed

text \<open>A caller of tenant \<open>dev\<close> asks to cancel the cart of tenant \<open>t1\<close>.\<close>

theorem server_isolates_tenants_witness:
  "cp_tenant_id sample_cart = Some ''t1'' \<and>
   w_snapshots (snd (signed_router sample_edge (sample_codec JNull) sample_served
     (plain_request ''POST'' ''/api/v1/cart/commands'') sample_world)) (CartId 7) = Some sample_cart"
proof -
  have "request_coherent sample_edge (sample_codec JNull) (sd_app sample_served) (plain_request ''POST'' ''/api/v1/cart/commands'')"
  proof -
    have "eg_cart_command sample_edge rq = Inr \<lparr>cq_command = CancelCartDto ''xxxxxxx'', cq_cart_id = None\<rparr>" for rq
      by (simp add: sample_edge_def)
    then show ?thesis by (auto simp: request_coherent_def sample_routed rest_command_def Option.bind_eq_Some_conv)
  qed
  from server_isolates_tenants [OF sample_authenticated this, of sample_world]
  have "shielded (fa_runner (as_facade (sd_app sample_served))) ''dev'' sample_world
      (snd (signed_router sample_edge (sample_codec JNull) sample_served
        (plain_request ''POST'' ''/api/v1/cart/commands'') sample_world))"
    by (simp add: dev_auth_context_def)
  moreover have "w_snapshots sample_world (CartId 7) = Some sample_cart" "cp_tenant_id sample_cart = Some ''t1''"
    by (simp_all add: sample_world_def sample_cart_def)
  ultimately show ?thesis
    using sample_snapshots_ok by (fastforce simp: shielded_def sample_served_def agent_app_def)
qed

theorem reads_are_safe_witness:
  "w_snapshots (snd (signed_router sample_edge (sample_codec JNull) sample_served (plain_request ''GET'' ''/api/v1/orders'')
     sample_world)) = w_snapshots sample_world"
proof -
  have "reading sample_world (snd (signed_router sample_edge (sample_codec JNull) sample_served
      (plain_request ''GET'' ''/api/v1/orders'') sample_world))"
    by (rule reads_are_safe) (simp add: sample_edge_def plain_request_def)
  then show ?thesis unfolding reading_def by force
qed

end
