(* ===== verification/Mcp_Facts.thy ===== *)
theory Mcp_Facts
  imports Agent_Isolation
begin

text \<open>
  The MCP tool server: the shape of its responses, the agreement of the advertised schemas with what the
  tools require, the version rules, and the two places where the caller's tenant is not looked at.
\<close>

section \<open>Responses\<close>

definition response_ok :: "json_rpc_request \<Rightarrow> json_rpc_response \<Rightarrow> bool" where
  "response_ok request resp \<longleftrightarrow>
     rs_jsonrpc resp = ''2.0'' \<and> rs_id resp = rq_id request \<and>
     (rs_result resp = None) = (rs_error resp \<noteq> None) \<and>
     (case rs_error resp of
        None \<Rightarrow> True
      | Some e \<Rightarrow>
          re_code e \<in> {METHOD_NOT_FOUND, - 32600, UNSUPPORTED_PROTOCOL_VERSION, INTERNAL_ERROR} \<and>
          (re_data e \<noteq> None) = (re_code e = UNSUPPORTED_PROTOCOL_VERSION))"

lemma rpc_shapes:
  "response_ok request (rpc_success (rq_id request) v)"
  "response_ok request (rpc_error (rq_id request) METHOD_NOT_FOUND m)"
  "response_ok request (rpc_error (rq_id request) INTERNAL_ERROR m)"
  "response_ok request (rpc_error (rq_id request) (- 32600) m)"
  "response_ok request (unsupported_version (rq_id request) requested)"
  by (simp_all add: response_ok_def rpc_success_def rpc_error_def rpc_error_with_data_def unsupported_version_def
      METHOD_NOT_FOUND_def INTERNAL_ERROR_def UNSUPPORTED_PROTOCOL_VERSION_def)

lemma method_error: "mcp_method st C auth v request = Inl resp \<Longrightarrow> \<exists>m. resp = rpc_error (rq_id request) METHOD_NOT_FOUND m"
  by (auto simp: mcp_method_def Let_def split: if_splits)

text \<open>
  C30: the type of MCP responses. Every response, whatever the request, the headers and the state, is a
  JSON-RPC 2.0 response to that request: it echoes its id and carries either a result or an error, never
  both nor neither; an error has one of the four documented codes, and data exactly for an unsupported
  version. A request refused with any code but that of a failed tool has changed nothing.
\<close>

theorem mcp_response_typed:
  "response_ok request (fst (mcp_message st C auth headers request w)) \<and>
   (case rs_error (fst (mcp_message st C auth headers request w)) of
      None \<Rightarrow> True
    | Some e \<Rightarrow> re_code e = INTERNAL_ERROR \<or> snd (mcp_message st C auth headers request w) = w)"
proof -
  have codes: "rs_error (rpc_success i x) = None" "rs_error (rpc_error i INTERNAL_ERROR m) \<noteq> None"
    "rs_error (rpc_error i INTERNAL_ERROR m) = Some e \<Longrightarrow> re_code e = INTERNAL_ERROR" for i x m e
    by (auto simp: rpc_success_def rpc_error_def)
  show ?thesis
    unfolding mcp_message_def handle_mcp_request_with_version_def Let_def
    by (auto simp: rpc_shapes codes split: sum.split prod.split option.split dest!: method_error)
qed

section \<open>The catalogue\<close>

definition schema_required :: "json \<Rightarrow> string list" where
  "schema_required schema =
     (case Option.bind (json_get ''required'' schema) as_array of
        None \<Rightarrow> []
      | Some ks \<Rightarrow> List.map_filter as_str ks)"

lemma map_filter_strings: "List.map_filter as_str (map JStr ks) = ks"
  by (induction ks) (simp_all add: map_filter_simps)

lemma object_required [simp]: "schema_required (object_schema ps ks) = ks"
  by (simp add: schema_required_def object_schema_def map_filter_strings)

lemma tool_fields [simp]: "td_name (tool n d args) = n" "schema_required (td_input_schema (tool n d args)) = map fst args"
  by (simp_all add: tool_def)

text \<open>An operation that fails without touching the state.\<close>

definition refuses :: "world \<Rightarrow> (world, string, 'a) op \<Rightarrow> bool" where
  "refuses w m \<longleftrightarrow> (\<exists>e. m w = (Inl e, w))"

lemma refuses_arg: "(\<exists>e. x = Inl e) \<Longrightarrow> refuses w (op_bind (arg x) f)"
  by (auto simp: refuses_def arg_def op_defs)

lemma refuses_later: "(\<And>a. x = Inr a \<Longrightarrow> refuses w (f a)) \<Longrightarrow> refuses w (op_bind (arg x) f)"
  by (cases x) (auto simp: refuses_def arg_def op_defs)

lemma refuses_cart_id: "json_get ''cart_id'' args = None \<Longrightarrow> refuses w (on_cart st C auth args command)"
  unfolding on_cart_def by (rule refuses_arg) (simp add: get_str_def)

lemma refuses_on_cart: "(\<And>c. \<exists>e. command c = Inl e) \<Longrightarrow> refuses w (on_cart st C auth args command)"
  unfolding on_cart_def by (rule refuses_later, rule refuses_arg)

lemma refuses_by:
  "json_get k args = None \<Longrightarrow> k = ''cart_id'' \<or> (\<forall>c. \<exists>e. command c = Inl e) \<Longrightarrow> refuses w (on_cart st C auth args command)"
  by (auto intro: refuses_cart_id refuses_on_cart)

lemma res_bind_err: "(\<And>a. m = Inr a \<Longrightarrow> \<exists>e. f a = Inl e) \<Longrightarrow> \<exists>e. res_bind m f = Inl e"
  by (cases m) auto

lemma missing_arg: "json_get k args = None \<Longrightarrow> get_str args k = Inl (missing_field k)"
  "json_get k args = None \<Longrightarrow> get_u64 args k = Inl (missing_field k)"
  "json_get k args = None \<Longrightarrow> get_i64 args k = Inl (missing_field k)"
  by (simp_all add: get_str_def get_u64_def get_i64_def)

lemmas command_defs = add_item_command_def update_item_command_def remove_item_command_def apply_adjustment_command_def
  set_fulfillment_command_def start_checkout_tool_command_def fulfillment_selection_payload_def

lemma missing_create:
  "json_get k args = None \<Longrightarrow> k \<in> {''merchant_id'', ''currency''} \<Longrightarrow> refuses w (tool_create_cart st C auth args)"
  unfolding tool_create_cart_def by (auto intro!: refuses_arg refuses_later simp: missing_arg)

lemma missing_cart_commands:
  "json_get k args = None \<Longrightarrow> k \<in> {''item_id'', ''quantity''} \<Longrightarrow> \<exists>e. add_item_command args c = Inl e"
  "json_get k args = None \<Longrightarrow> k \<in> {''line_id'', ''quantity''} \<Longrightarrow> \<exists>e. update_item_command args c = Inl e"
  "json_get ''line_id'' args = None \<Longrightarrow> \<exists>e. remove_item_command args c = Inl e"
  "json_get ''code'' args = None \<Longrightarrow> \<exists>e. apply_adjustment_command args c = Inl e"
  "json_get k args = None \<Longrightarrow> k \<in> {''method_type'', ''destination''} \<Longrightarrow> \<exists>e. set_fulfillment_command args c = Inl e"
  "json_get ''cart_version'' args = None \<Longrightarrow> \<exists>e. start_checkout_tool_command args c = Inl e"
  unfolding command_defs by (auto intro!: res_bind_err simp: missing_arg res_bind_Inr)

lemma missing_checkout:
  assumes "json_get k args = None"
    and "k \<in> {''tenant_id'', ''merchant_id'', ''cart_id'', ''cart_version'', ''currency'', ''payment_intent'', ''idempotency_key''}"
  shows "\<exists>e. checkout_arguments st C args = Inl e"
  unfolding checkout_arguments_def using assms by (auto intro!: res_bind_err simp: missing_arg)

lemma missing_payment:
  assumes "json_get k args = None"
    and "k \<in> {''tenant_id'', ''merchant_id'', ''transaction_id'', ''amount_minor'', ''idempotency_key''}"
  shows "\<exists>e. payment_arguments args = Inl e"
  unfolding payment_arguments_def using assms by (auto intro!: res_bind_err simp: missing_arg)

lemma dispatch_simps:
  "dispatch_tool st C auth ''create_cart'' args = tool_create_cart st C auth args"
  "dispatch_tool st C auth ''add_item'' args = on_cart st C auth args (add_item_command args)"
  "dispatch_tool st C auth ''update_item_qty'' args = on_cart st C auth args (update_item_command args)"
  "dispatch_tool st C auth ''remove_item'' args = on_cart st C auth args (remove_item_command args)"
  "dispatch_tool st C auth ''apply_adjustment'' args = on_cart st C auth args (apply_adjustment_command args)"
  "dispatch_tool st C auth ''set_fulfillment_selection'' args = on_cart st C auth args (set_fulfillment_command args)"
  "dispatch_tool st C auth ''get_cart'' args = on_cart st C auth args get_cart_tool_command"
  "dispatch_tool st C auth ''start_checkout'' args = on_cart st C auth args (start_checkout_tool_command args)"
  "dispatch_tool st C auth ''execute_checkout'' args = tool_execute_checkout st C auth args"
  "dispatch_tool st C auth ''get_order'' args = tool_get_order st C args"
  "dispatch_tool st C auth ''list_orders'' args = tool_list_orders st C args"
  "dispatch_tool st C auth ''capture_payment'' args = payment_tool st (facade_capture_payment (as_facade st)) args"
  "dispatch_tool st C auth ''void_payment'' args = payment_tool st (facade_void_payment (as_facade st)) args"
  "dispatch_tool st C auth ''refund_payment'' args = payment_tool st (facade_refund_payment (as_facade st)) args"
  "dispatch_tool st C auth ''lookup_catalog_item'' args = tool_lookup_item st args"
  "dispatch_tool st C auth ''lookup_catalog_items'' args = tool_lookup_items st C args"
  "dispatch_tool st C auth ''search_catalog_items'' args = tool_search_items st C args"
  by (simp_all add: dispatch_tool_def)

lemma missing_requests:
  "\<exists>e. checkout_arguments st C args = Inl e \<Longrightarrow> refuses w (tool_execute_checkout st C auth args)"
  "\<exists>e. payment_arguments args = Inl e \<Longrightarrow> refuses w (payment_tool st call args)"
  unfolding tool_execute_checkout_def payment_tool_def by (erule refuses_arg)+

text \<open>For every tool, the arguments without which it refuses.\<close>

lemma tool_refuses:
  "json_get k args = None \<Longrightarrow> k \<in> {''merchant_id'', ''currency''} \<Longrightarrow> refuses w (tool_create_cart st C auth args)"
  "json_get k args = None \<Longrightarrow> k \<in> {''cart_id'', ''item_id'', ''quantity''} \<Longrightarrow> refuses w (on_cart st C auth args (add_item_command args))"
  "json_get k args = None \<Longrightarrow> k \<in> {''cart_id'', ''line_id'', ''quantity''} \<Longrightarrow> refuses w (on_cart st C auth args (update_item_command args))"
  "json_get k args = None \<Longrightarrow> k \<in> {''cart_id'', ''line_id''} \<Longrightarrow> refuses w (on_cart st C auth args (remove_item_command args))"
  "json_get k args = None \<Longrightarrow> k \<in> {''cart_id'', ''code''} \<Longrightarrow> refuses w (on_cart st C auth args (apply_adjustment_command args))"
  "json_get k args = None \<Longrightarrow> k \<in> {''cart_id'', ''method_type'', ''destination''} \<Longrightarrow>
   refuses w (on_cart st C auth args (set_fulfillment_command args))"
  "json_get k args = None \<Longrightarrow> k \<in> {''cart_id''} \<Longrightarrow> refuses w (on_cart st C auth args get_cart_tool_command)"
  "json_get k args = None \<Longrightarrow> k \<in> {''cart_id'', ''cart_version''} \<Longrightarrow> refuses w (on_cart st C auth args (start_checkout_tool_command args))"
  "json_get k args = None \<Longrightarrow>
   k \<in> {''tenant_id'', ''merchant_id'', ''cart_id'', ''cart_version'', ''currency'', ''payment_intent'', ''idempotency_key''} \<Longrightarrow>
   refuses w (tool_execute_checkout st C auth args)"
  "json_get k args = None \<Longrightarrow> k \<in> {''order_id''} \<Longrightarrow> refuses w (tool_get_order st C args)"
  "json_get k args = None \<Longrightarrow> k \<in> {''tenant_id''} \<Longrightarrow> refuses w (tool_list_orders st C args)"
  "json_get k args = None \<Longrightarrow>
   k \<in> {''tenant_id'', ''merchant_id'', ''transaction_id'', ''amount_minor'', ''idempotency_key''} \<Longrightarrow>
   refuses w (payment_tool st call args)"
  "json_get k args = None \<Longrightarrow> k \<in> {''item_id''} \<Longrightarrow> refuses w (tool_lookup_item st args)"
  "json_get k args = None \<Longrightarrow> k \<in> {''item_ids''} \<Longrightarrow> refuses w (tool_lookup_items st C args)"
proof -
  assume k: "json_get k args = None"
  show "k \<in> {''merchant_id'', ''currency''} \<Longrightarrow> refuses w (tool_create_cart st C auth args)" by (rule missing_create [OF k])
  show "k \<in> {''cart_id'', ''item_id'', ''quantity''} \<Longrightarrow> refuses w (on_cart st C auth args (add_item_command args))"
    by (rule refuses_by [OF k]) (use k missing_cart_commands(1) [OF k] in auto)
  show "k \<in> {''cart_id'', ''line_id'', ''quantity''} \<Longrightarrow> refuses w (on_cart st C auth args (update_item_command args))"
    by (rule refuses_by [OF k]) (use k missing_cart_commands(2) [OF k] in auto)
  show "k \<in> {''cart_id'', ''line_id''} \<Longrightarrow> refuses w (on_cart st C auth args (remove_item_command args))"
    by (rule refuses_by [OF k]) (use k missing_cart_commands(3) in auto)
  show "k \<in> {''cart_id'', ''code''} \<Longrightarrow> refuses w (on_cart st C auth args (apply_adjustment_command args))"
    by (rule refuses_by [OF k]) (use k missing_cart_commands(4) in auto)
  show "k \<in> {''cart_id'', ''method_type'', ''destination''} \<Longrightarrow> refuses w (on_cart st C auth args (set_fulfillment_command args))"
    by (rule refuses_by [OF k]) (use k missing_cart_commands(5) [OF k] in auto)
  show "k \<in> {''cart_id''} \<Longrightarrow> refuses w (on_cart st C auth args get_cart_tool_command)"
    using k by (auto intro!: refuses_cart_id)
  show "k \<in> {''cart_id'', ''cart_version''} \<Longrightarrow> refuses w (on_cart st C auth args (start_checkout_tool_command args))"
    by (rule refuses_by [OF k]) (use k missing_cart_commands(6) in auto)
  show "k \<in> {''order_id''} \<Longrightarrow> refuses w (tool_get_order st C args)" "k \<in> {''tenant_id''} \<Longrightarrow> refuses w (tool_list_orders st C args)"
    "k \<in> {''item_id''} \<Longrightarrow> refuses w (tool_lookup_item st args)" "k \<in> {''item_ids''} \<Longrightarrow> refuses w (tool_lookup_items st C args)"
    using k unfolding tool_get_order_def tool_list_orders_def tool_lookup_item_def tool_lookup_items_def
    by (auto intro!: refuses_arg simp: missing_arg)
  show "k \<in> {''tenant_id'', ''merchant_id'', ''cart_id'', ''cart_version'', ''currency'', ''payment_intent'', ''idempotency_key''} \<Longrightarrow>
      refuses w (tool_execute_checkout st C auth args)"
    by (rule missing_requests(1) [OF missing_checkout [OF k]])
  show "k \<in> {''tenant_id'', ''merchant_id'', ''transaction_id'', ''amount_minor'', ''idempotency_key''} \<Longrightarrow>
      refuses w (payment_tool st call args)"
    by (rule missing_requests(2) [OF missing_payment [OF k]])
qed

text \<open>
  C39: the catalogue is what the tools enforce. A call of an advertised tool without one of the arguments its
  schema requires fails and changes nothing, and so does a call of any tool that is not advertised.
\<close>

theorem catalogue_enforced:
  assumes "t \<in> set list_tools" "k \<in> set (schema_required (td_input_schema t))" "json_get k args = None"
    and "name \<notin> td_name ` set list_tools"
  shows "(\<exists>e. dispatch_tool st C auth (td_name t) args w = (Inl e, w)) \<and>
    dispatch_tool st C auth name args' w = (Inl (''unknown tool: '' @ name), w)"
proof
  have "refuses w (dispatch_tool st C auth (td_name t) args)"
    using assms(1-3)
    by (auto simp: list_tools_def fulfillment_tool_def lookup_items_tool_def search_items_tool_def payment_fields_def
        schema_required_def [of "JObj _"] dispatch_simps)
      (erule tool_refuses, simp)+
  then show "\<exists>e. dispatch_tool st C auth (td_name t) args w = (Inl e, w)" by (simp add: refuses_def)
  show "dispatch_tool st C auth name args' w = (Inl (''unknown tool: '' @ name), w)"
    using assms(4)
    by (auto simp: dispatch_tool_def op_defs list_tools_def fulfillment_tool_def lookup_items_tool_def search_items_tool_def)
qed

theorem catalogue_enforced_witness:
  "\<exists>e. dispatch_tool sample_app (sample_codec JNull) (sample_auth ''t1'') ''refund_payment'' (JObj [(''tenant_id'', JStr ''t1'')]) sample_world =
       (Inl e, sample_world)"
proof -
  let ?t = "tool ''refund_payment'' ''Refund a captured payment'' payment_fields"
  have "?t \<in> set list_tools" "''amount_minor'' \<in> set (schema_required (td_input_schema ?t))"
    "json_get ''amount_minor'' (JObj [(''tenant_id'', JStr ''t1'')]) = None" "[] \<notin> td_name ` set list_tools"
    by (auto simp: list_tools_def payment_fields_def fulfillment_tool_def lookup_items_tool_def search_items_tool_def)
  from catalogue_enforced [OF this, of sample_app "sample_codec JNull" "sample_auth ''t1''" sample_world] show ?thesis by simp
qed

section \<open>Quantities\<close>

text \<open>
  Quantities are truncated. Where REST refuses a quantity that does not fit 32 bits, the agent surfaces
  take any unsigned integer and keep its remainder modulo \<open>2 ^ 32\<close>: over MCP and over A2A adding \<open>n\<close> items is
  adding \<open>n mod 2 ^ 32\<close> of them, and the command is accepted.
\<close>

theorem agent_quantity_truncated:
  assumes "0 \<le> n" "n < 2 ^ 64" "json_get ''kind'' (JObj e) = Some (JStr ''add_item'')"
    and "json_get ''item_id'' (JObj e) = Some (JStr item)" "json_get ''quantity'' (JObj e) = Some (JInt n)"
  shows "cart_value_to_command T (JObj e) = Inr (AddItem \<lparr>ai_item_id = item, ai_quantity = word_of_int (n mod 2 ^ 32)\<rparr>) \<and>
    add_item_command (JObj e) c = Inr (AddItem \<lparr>ai_item_id = item, ai_quantity = word_of_int (n mod 2 ^ 32)\<rparr>)"
proof -
  have "json_u64_at ''quantity'' (JObj e) = Some (word_of_int n)" using assms by (simp add: json_u64_at_def)
  moreover have "ucast (word_of_int n :: u64) = (word_of_int (n mod 2 ^ 32) :: u32)"
    using assms(1,2) by (simp add: unsigned_of_int take_bit_int_eq_self) (simp add: word_of_int_eq_iff take_bit_eq_mod)
  ultimately show ?thesis
    using assms(3,4)
    by (simp_all add: cart_value_to_command_def add_item_command_def get_str_def get_u64_def quantity_at_def str_or_empty_def
        json_str_at_def)
qed

theorem agent_quantity_truncated_witness:
  "cart_value_to_command sample_text (JObj [(''kind'', JStr ''add_item''), (''item_id'', JStr ''sku''), (''quantity'', JInt (2 ^ 32 + 1))]) =
     Inr (AddItem \<lparr>ai_item_id = ''sku'', ai_quantity = 1\<rparr>)"
  by (subst agent_quantity_truncated [where n = "2 ^ 32 + 1" and item = "''sku''", THEN conjunct1]) simp_all

section \<open>Orders and payments of other tenants\<close>

lemmas tool_run_defs = get_str_def get_i64_def json_at_defs arg_def op_defs facade_call_def order_by_id_def
  facade_get_order_def get_order_def facade_list_orders_def list_orders_def

text \<open>
  Orders of other tenants over MCP. A caller of any tenant gets every order it names, with the tool and
  with the resource, and the list of all orders of any tenant; the REST endpoint refuses the same caller.
\<close>

theorem mcp_discloses_orders:
  assumes "order_get i (w_orders w) = Some r" "or_tenant_id r \<noteq> ac_tenant_id auth"
  shows "dispatch_tool st C auth ''get_order'' (JObj [(''order_id'', JStr i)]) w = (Inr (jc_of_order C r), w) \<and>
    read_resource st C auth (''order://'' @ i) w =
      (Inr (resource_contents (''order://'' @ i) (jc_print_order C r)), w) \<and>
    dispatch_tool st C auth ''list_orders'' (JObj [(''tenant_id'', JStr (or_tenant_id r))]) w =
      (Inr (JArr (map (jc_of_order C) (list_by_tenant (or_tenant_id r) (w_orders w)))), w) \<and>
    h_get_order st auth i w = (Inl (Forbidden ''tenant mismatch''), w)"
proof (intro conjI)
  have order: "order_by_id st i w = (Inr r, w)" using assms(1) by (simp add: tool_run_defs)
  then show "dispatch_tool st C auth ''get_order'' (JObj [(''order_id'', JStr i)]) w = (Inr (jc_of_order C r), w)"
    by (simp add: dispatch_simps tool_get_order_def get_str_def json_str_at_def arg_def op_defs)
  have "strip_prefix ''order://'' (''order://'' @ i) = Some i" by (simp only: strip_prefix_Some)
  with order show "read_resource st C auth (''order://'' @ i) w =
      (Inr (resource_contents (''order://'' @ i) (jc_print_order C r)), w)"
    by (simp add: read_resource_def op_defs)
  show "dispatch_tool st C auth ''list_orders'' (JObj [(''tenant_id'', JStr (or_tenant_id r))]) w =
      (Inr (JArr (map (jc_of_order C) (list_by_tenant (or_tenant_id r) (w_orders w)))), w)"
    by (simp add: dispatch_simps tool_list_orders_def tool_run_defs)
  show "h_get_order st auth i w = (Inl (Forbidden ''tenant mismatch''), w)"
    using assms by (simp add: h_get_order_def tenant_order_run visible_order_def op_defs)
qed

theorem mcp_discloses_orders_witness:
  "dispatch_tool sample_app (sample_codec JNull) (sample_auth ''t2'') ''get_order'' (JObj [(''order_id'', JStr ''o1'')])
     (orders_world [sample_order_of ''t1'' ''o1'']) = (Inr (JStr ''o1''), orders_world [sample_order_of ''t1'' ''o1''])"
proof -
  have fields: "or_order_id (sample_order_of t i) = i" "or_tenant_id (sample_order_of t i) = t" for t i
    by (simp_all add: sample_order_of_def new_order_def sample_request_def)
  from mcp_discloses_orders [of "''o1''" "orders_world [sample_order_of ''t1'' ''o1'']" "sample_order_of ''t1'' ''o1''"
      "sample_auth ''t2''" sample_app "sample_codec JNull"]
  show ?thesis by (simp add: fields order_get_def orders_world_def sample_auth_def sample_codec_def)
qed

text \<open>
  Payments over MCP. The payment tools never compare the tenant they are given with the caller's: a caller
  refunds in the name of any tenant any transaction, and when the provider confirms, its payment state is
  overwritten. REST refuses the same request of the same caller.
\<close>

theorem mcp_refunds_for_anyone:
  assumes "payment_arguments args = Inr req" "pl_tenant_id req \<noteq> ac_tenant_id auth"
    and "ps_refund (ru_providers (fa_runner (as_facade st))) (w_log w) req = Inr res" "por_success res"
  shows "\<exists>w'. dispatch_tool st C auth ''refund_payment'' args w =
        (Inr (JObj [(''success'', JBool True), (''reference'', JStr (por_reference res))]), w') \<and>
      w_payments w' (pl_transaction_id req) = Some Refunded \<and> w_log w' = w_log w @ [CallRefund req] \<and>
      h_refund_payment st auth req w = (Inl (Forbidden ''tenant mismatch''), w)"
  using assms
  by (simp_all add: dispatch_simps payment_tool_def arg_def facade_call_def facade_refund_payment_def refund_payment_def
      provider_call_def store_payment_state_def payment_state_put_def h_refund_payment_def lifecycle_call_def op_defs)

theorem mcp_refunds_for_anyone_witness:
  "\<exists>w'. dispatch_tool sample_app (sample_codec JNull) (sample_auth ''t2'') ''refund_payment''
      (JObj [(''tenant_id'', JStr ''t1''), (''merchant_id'', JStr ''m1''), (''transaction_id'', JStr ''txn''),
             (''amount_minor'', JInt 2200), (''idempotency_key'', JStr ''k'')])
      sample_world = (Inr (JObj [(''success'', JBool True), (''reference'', JStr ''refund'')]), w') \<and>
    w_payments w' ''txn'' = Some Refunded"
proof -
  let ?req = "\<lparr>pl_tenant_id = ''t1'', pl_merchant_id = ''m1'', pl_transaction_id = ''txn'', pl_amount_minor = 2200,
     pl_idempotency_key = ''k''\<rparr>"
  let ?args = "JObj [(''tenant_id'', JStr ''t1''), (''merchant_id'', JStr ''m1''), (''transaction_id'', JStr ''txn''),
     (''amount_minor'', JInt 2200), (''idempotency_key'', JStr ''k'')]"
  have "payment_arguments ?args = Inr ?req"
    by (simp add: payment_arguments_def get_str_def get_i64_def json_at_defs in_i64_def i64_min_def i64_max_def)
  from mcp_refunds_for_anyone [OF this, of "sample_auth ''t2''" sample_app sample_world
      "\<lparr>por_success = True, por_reference = ''refund''\<rparr>" "sample_codec JNull"]
  show ?thesis
    by (auto simp: sample_auth_def sample_app_def sample_facade_def sample_runner_def sample_providers_def)
qed

end
