(* ===== verification/Config_Facts.thy ===== *)
theory Config_Facts
  imports Discovery Routes_Facts
begin

text \<open>
  What the configuration guarantees: which variables a provider's credentials depend on, that the checks of
  production leave no client to fail, and that a server started in production authenticates every caller,
  signs with a usable keyring and calls every provider it needs.
\<close>

section \<open>Credentials\<close>

definition auth_suffixes :: "string list" where
  "auth_suffixes =
     [''AUTH_MODE'', ''AUTH_TOKEN'', ''AUTH_HEADER'', ''AUTH_VALUE'', ''OAUTH_TOKEN_URL'', ''OAUTH_CLIENT_ID'',
      ''OAUTH_CLIENT_SECRET'', ''OAUTH_SCOPE'', ''OAUTH_CLIENT_AUTH'', ''TLS_CLIENT_CERT_PATH'', ''TLS_CA_PATH'']"

definition auth_variables :: "provider \<Rightarrow> string list" where
  "auth_variables p = map (\<lambda>s. env_prefix p @ ''_'' @ s) auth_suffixes"

lemma pa_section_overrides:
  "pa_section (section_env_overrides E s) p = auth_env_overrides E (env_prefix p) (pa_section s p)"
  by (cases p) (simp_all add: section_env_overrides_def ALL_PROVIDERS_def)

lemma pa_default_overrides:
  "pa_default (section_env_overrides E s) = auth_env_overrides E ''PROVIDER'' (pa_default s)"
  by (simp add: section_env_overrides_def ALL_PROVIDERS_def)

lemma auth_overrides_cong:
  assumes "\<And>suffix. suffix \<in> set auth_suffixes \<Longrightarrow> E (prefix @ ''_'' @ suffix) = E' (prefix @ ''_'' @ suffix)"
  shows "auth_env_overrides E prefix a = auth_env_overrides E' prefix a"
  using assms by (simp add: auth_env_overrides_def auth_suffixes_def env_set_def env_text_def)

text \<open>The head of a variable's name tells the provider.\<close>

definition variable_tag :: "string \<Rightarrow> string" where
  "variable_tag k = (if take 9 k = ''PAYMENT_D'' then ''PAYMENT_D'' else take 3 k)"

definition provider_tag :: "provider \<Rightarrow> string" where
  "provider_tag p = (if p = PaymentDelegation then ''PAYMENT_D'' else take 3 (env_prefix p))"

lemma variable_tag: "k \<in> set (auth_variables p) \<Longrightarrow> variable_tag k = provider_tag p"
  by (cases p) (auto simp: auth_variables_def auth_suffixes_def variable_tag_def provider_tag_def)

lemma provider_tag_eq: "provider_tag p = provider_tag q \<longleftrightarrow> p = q"
  by (cases p; cases q; simp add: provider_tag_def)

lemma variables_disjoint:
  "p \<noteq> q \<Longrightarrow> k \<in> set (auth_variables q) \<Longrightarrow> k \<notin> set (auth_variables p)"
  using variable_tag [of k p] variable_tag [of k q] provider_tag_eq [of p q] by auto

lemma variables_not_default:
  "suffix \<in> set auth_suffixes \<Longrightarrow> ''PROVIDER_'' @ suffix \<notin> set (auth_variables p)"
  using variable_tag [of "''PROVIDER_'' @ suffix" p]
  by (cases p) (auto simp: variable_tag_def provider_tag_def)

text \<open>
  C25: Credentials of distinct providers do not mix: two environments that differ only in the credential
  variables of one provider (\<open>PAYMENT_AUTH_TOKEN\<close>, \<open>PAYMENT_TLS_CA_PATH\<close> and so on) give every other provider
  the same client, credentials and TLS material included. The payment and the payment delegation
  provider, whose prefixes overlap, are not an exception.
\<close>

theorem credentials_stay_with_provider:
  assumes "p \<noteq> q" and "\<forall>k. k \<notin> set (auth_variables p) \<longrightarrow> E k = E' k"
  shows "to_client_config_with_auth F h q (for_provider (section_env_overrides E s) q) =
         to_client_config_with_auth F h q (for_provider (section_env_overrides E' s) q)"
proof -
  have "auth_env_overrides E (env_prefix q) a = auth_env_overrides E' (env_prefix q) a" for a
    using assms(2) variables_disjoint [OF assms(1)]
    by (intro auth_overrides_cong) (simp add: auth_variables_def)
  moreover have "auth_env_overrides E ''PROVIDER'' a = auth_env_overrides E' ''PROVIDER'' a" for a
    using assms variables_not_default [of _ p] by (intro auth_overrides_cong) simp
  ultimately show ?thesis
    by (simp add: for_provider_def Let_def pa_section_overrides pa_default_overrides)
qed

definition sample_env :: env where
  "sample_env k =
     (if k = ''PAYMENT_DELEGATION_AUTH_MODE'' then Some ''bearer'' else if k = ''PAYMENT_DELEGATION_AUTH_TOKEN'' then Some ''d'' else None)"

theorem credentials_stay_with_provider_witness:
  "to_client_config_with_auth (\<lambda>_. Inl []) default_http_client_config PaymentDelegation
     (for_provider (section_env_overrides (sample_env(''PAYMENT_AUTH_TOKEN'' \<mapsto> ''x'')) (sc_provider_auth default_server_config))
        PaymentDelegation) =
   to_client_config_with_auth (\<lambda>_. Inl []) default_http_client_config PaymentDelegation
     (for_provider (section_env_overrides sample_env (sc_provider_auth default_server_config)) PaymentDelegation)"
  by (rule credentials_stay_with_provider [of Payment]) (auto simp: auth_variables_def auth_suffixes_def)

section \<open>Overrides are idempotent\<close>

lemma env_idem [simp]:
  "env_set E k (env_set E k x) = env_set E k x"
  "env_string E k (env_string E k s) = env_string E k s"
  "env_replace E k (env_replace E k x) = env_replace E k x"
  "env_pairs E k (env_pairs E k ps) = env_pairs E k ps"
  "env_num f E k (env_num f E k n) = env_num f E k n"
  by (simp_all add: env_set_def env_string_def env_replace_def env_pairs_def env_num_def split: option.split)

lemma auth_overrides_idem [simp]:
  "auth_env_overrides E prefix (auth_env_overrides E prefix a) = auth_env_overrides E prefix a"
  by (simp add: auth_env_overrides_def)

lemma section_overrides_idem [simp]:
  "section_env_overrides E (section_env_overrides E s) = section_env_overrides E s"
  by (rule provider_auth_section.equality) (simp_all add: fun_eq_iff pa_section_overrides pa_default_overrides)

section \<open>Production\<close>

lemma res_map_each:
  "res_map f xs = Inr ys \<Longrightarrow> x \<in> set xs \<Longrightarrow> \<exists>y. f x = Inr y"
  by (induction xs arbitrary: ys) (auto simp: res_bind_Inr)

lemma res_map_images:
  "res_map f xs = Inr ys \<Longrightarrow> (\<And>x y. f x = Inr y \<Longrightarrow> g y = h x) \<Longrightarrow> map g ys = map h xs"
  by (induction xs arbitrary: ys) (auto simp: res_bind_Inr)

lemma all_providers: "p \<in> set ALL_PROVIDERS"
  by (cases p) (simp_all add: ALL_PROVIDERS_def)

lemma provider_text_Inr [simp]: "provider_text p x = Inr a \<longleftrightarrow> x = Inr a"
  by (cases x) (simp_all add: provider_text_def)

lemma key_text_Inr [simp]: "key_text x = Inr a \<longleftrightarrow> x = Inr a"
  by (cases x) (simp_all add: key_text_def)

lemma to_keyring_ring_ok:
  assumes "to_keyring C s = Inr (Some ring)"
  shows "ring_ok C ring \<and> Some (k_kid (hd ring)) = ss_key_id s"
proof -
  obtain key_id secret algorithm previous where h: "nonempty (ss_key_id s) = Some key_id"
    "from_specs C \<lparr>ks_kid = key_id, ks_algorithm = algorithm, ks_secret = secret\<rparr> previous = Inr ring"
    using assms by (auto simp: to_keyring_def res_bind_Inr split: option.splits)
  then show ?thesis using from_specs_ok [OF h(2)] by (simp add: nonempty_Some)
qed

lemma require_production_Inr:
  assumes "require_production C F c = Inr d"
  shows "auth_token_of (sc_auth c) = Inr (pd_auth_token d)" "require_all (sc_components c) = Inr (pd_components d)"
    "to_keyring C (sc_signing c) = Inr (Some (pd_signing d))" "pd_provider_auth d = sc_provider_auth c"
    "pd_http_client d = sc_http_client c" "pd_auth_mode d = auth_mode_of (sc_auth c)"
    "\<exists>us. res_map (check_provider F (sc_provider_auth c)) ALL_PROVIDERS = Inr us"
  using assms by (auto simp: require_production_def res_bind_Inr ok_or_Inr)

lemma auth_token_ne: "auth_token_of a = Inr token \<Longrightarrow> token \<noteq> []"
  by (auto simp: auth_token_of_def ok_or_Inr nonempty_Some split: if_splits)

lemma require_all_Inr:
  "require_all g = Inr r \<Longrightarrow> list_all (\<lambda>(p, url). url \<noteq> []) (required_adapters r)"
  by (auto simp: require_all_def url_required_def res_bind_Inr ok_or_Inr nonempty_Some required_adapters_def)

text \<open>
  After the checks of production no client is left to fail: for each of the nine providers the client
  is built, with its own credentials (the shared ones only where the provider has none), its breaker named
  after it, a threshold of at least one failure and a probe timeout of at least a second, whatever numbers
  the operator configured.
\<close>

theorem production_clients_built:
  assumes "require_production C F c = Inr d"
  shows "\<exists>cfg breaker. client_config_for F d p = Inr cfg \<and>
           to_outbound_auth (for_provider (sc_provider_auth c) p) = Inr (hc_auth cfg) \<and>
           to_tls_config F (for_provider (sc_provider_auth c) p) = Inr (hc_tls cfg) \<and>
           hc_circuit_breaker cfg = Some (provider_label p, breaker) \<and>
           1 \<le> cb_failure_threshold breaker \<and> 1000 \<le> cb_probe_timeout breaker"
proof -
  obtain us where "res_map (check_provider F (sc_provider_auth c)) ALL_PROVIDERS = Inr us"
    using require_production_Inr(7) [OF assms] ..
  then obtain u where "check_provider F (sc_provider_auth c) p = Inr u"
    using res_map_each [OF _ all_providers] by metis
  then obtain auth tls where built: "to_outbound_auth (for_provider (sc_provider_auth c) p) = Inr auth"
    "to_tls_config F (for_provider (sc_provider_auth c) p) = Inr tls"
    by (auto simp: check_provider_def Let_def res_bind_Inr)
  have "1 \<le> unat (max n 1 :: u64)" for n
    by (metis max.cobounded2 unat_1 word_le_nat_alt)
  then have "1000 \<le> from_secs (max n 1)" for n by (simp add: from_secs_def)
  then show ?thesis
    using built require_production_Inr(4,5) [OF assms]
    by (simp add: client_config_for_def to_client_config_with_auth_def res_bind_Inr breaker_to_config_def)
qed

section \<open>Start-up\<close>

lemma text_error_Inr [simp]:
  "(case x of Inl e \<Rightarrow> Inl (m @ e) | Inr c \<Rightarrow> Inr c) = Inr a \<longleftrightarrow> x = Inr a"
  by (cases x) simp_all

lemma startup_Inr:
  assumes "startup B c = Inr su"
  shows "startup_profile B c =
           Inr (su_authn su, su_allow_dev_auth su, su_discovery_base_url su, su_signing su, su_clients su)"
    "bo_addr B (sv_bind_addr (sc_server c)) = None"
    "payment_handlers_of (bo_json B) (sc_server c) = Inr (su_payment_handlers su)"
  using assms by (auto simp: startup_def res_bind_Inr split: option.splits)

lemma main_start_serves:
  assumes "main_start B = Inr (Some su)"
  obtains c where "load_config B (default_config_path B) = Inr c" "startup B c = Inr su"
  using assms by (auto simp: main_start_def res_bind_Inr split: if_splits option.splits)

lemma adapter_of_Inr:
  "adapter_of B d (p, url) = Inr (q, url', cfg) \<Longrightarrow> q = p \<and> url' = url \<and> client_config_for (bo_read B) d p = Inr cfg"
  by (auto simp: adapter_of_def res_bind_Inr split: option.splits)

lemma require_all_optional:
  assumes "require_all g = Inr r"
  shows "rc_fulfillment_base_url r \<noteq> Some []" "rc_payment_delegation_base_url r \<noteq> Some []"
    "rc_identity_link_base_url r \<noteq> Some []"
  using assms by (auto simp: require_all_def res_bind_Inr nonempty_Some)

lemma optional_urls:
  assumes "require_all g = Inr r"
  shows "list_all (\<lambda>(p, url). url \<noteq> []) (optional_adapters r)"
  using require_all_optional [OF assms]
  by (cases "rc_fulfillment_base_url r"; cases "rc_payment_delegation_base_url r"; cases "rc_identity_link_base_url r";
      simp add: optional_adapters_def map_filter_simps)

lemma production_start:
  assumes "main_start B = Inr (Some su)" "profile_from_env (bo_env B) = Production"
  obtains c d where "load_config B (default_config_path B) = Inr c"
    "require_production (bo_crypto B) (bo_read B) c = Inr d" "su_authn su = Some (production_authn B d)" "\<not> su_allow_dev_auth su" "su_signing su = Some (pd_signing d)"
    "map (\<lambda>(p, url, _). (p, url)) (su_clients su) =
       required_adapters (pd_components d) @ optional_adapters (pd_components d)"
proof -
  obtain c where load: "load_config B (default_config_path B) = Inr c" and c: "startup B c = Inr su"
    using main_start_serves [OF assms(1)] .
  obtain d adapters more where d: "require_production (bo_crypto B) (bo_read B) c = Inr d"
    "Some (production_authn B d) = su_authn su" "\<not> su_allow_dev_auth su" "Some (pd_signing d) = su_signing su"
    "adapters @ more = su_clients su"
    "res_map (adapter_of B d) (required_adapters (pd_components d)) = Inr adapters"
    "res_map (adapter_of B d) (optional_adapters (pd_components d)) = Inr more"
    using startup_Inr(1) [OF c] assms(2) by (auto simp: startup_profile_def is_production_def res_bind_Inr split: option.splits)
  have "adapter_of B d x = Inr y \<Longrightarrow> (\<lambda>(p, url, _). (p, url)) y = id x" for x y
    by (cases x; cases y) (auto dest: adapter_of_Inr)
  then have "map (\<lambda>(p, url, _). (p, url)) (su_clients su) =
      required_adapters (pd_components d) @ optional_adapters (pd_components d)"
    using res_map_images [OF d(6), of "\<lambda>(p, url, _). (p, url)" id]
      res_map_images [OF d(7), of "\<lambda>(p, url, _). (p, url)" id] d(5) [symmetric] by simp
  then show thesis by (intro that [OF load d(1) d(2) [symmetric] d(3) d(4) [symmetric]])
qed

lemma opt_apply_simps [simp]:
  "opt_apply f None b = b" "opt_apply f (Some a) b = f a b"
  by (simp_all add: opt_apply_def)

lemma served_app [simp]:
  "as_authn (sd_app (served_state X profile su fa)) = su_authn su"
  "as_allow_dev_auth (sd_app (served_state X profile su fa)) = (\<not> is_production profile)"
  "as_signing (sd_app (served_state X profile su fa)) = su_signing su"
  "as_crypto (sd_app (served_state X profile su fa)) = ou_crypto X"
  "as_values (sd_app (served_state X profile su fa)) = ou_values X"
  "as_facade (sd_app (served_state X profile su fa)) = fa"
  "as_embedded_checkout_url (sd_app (served_state X profile su fa)) = su_embedded_checkout_url su"
  "sd_inbound_keys (served_state X profile su fa) = su_inbound su"
  "sd_payment_handlers (served_state X profile su fa) = su_payment_handlers su"
  by (cases "su_authn su"; cases "su_signing su"; cases "su_embedded_checkout_url su"; cases "su_inbound su";
      simp add: served_state_def Let_def new_served_def with_authn_def with_signing_def with_embedded_checkout_url_def
        with_inbound_verification_def with_payment_handlers_def with_discovery_base_url_def production_mode_def)+

lemma auth_token_Inr:
  assumes "auth_token_of a = Inr token"
  shows "token \<noteq> [] \<and> (if auth_mode_of a = ''jwt'' then au_jwt_hs256_secret a = Some token else au_bearer_token a = Some token)"
  using assms by (auto simp: auth_token_of_def ok_or_Inr nonempty_Some split: if_splits)

text \<open>
  The credentials a configuration asks for: in JWT mode a token that decodes under the configured secret, with
  an issuer among the trusted ones where there are any, and the tenant of its claims; in any other mode
  the configured bearer token itself and the configured tenant. Neither the secret nor the token is empty.
\<close>

definition configured_credentials :: "boot \<Rightarrow> auth_section \<Rightarrow> string \<Rightarrow> auth_context \<Rightarrow> bool" where
  "configured_credentials B a token auth \<longleftrightarrow>
     (if auth_mode_of a = ''jwt''
      then \<exists>secret claims. au_jwt_hs256_secret a = Some secret \<and> secret \<noteq> [] \<and> bo_decode_jwt B secret token = Some claims \<and>
             ac_tenant_id auth = jc_tenant_id claims \<and> ac_caller_id auth = jc_sub claims \<and>
             (let trusted = trusted_issuers_of (or_else [] (au_trusted_issuers a))
              in trusted \<noteq> [] \<longrightarrow> (\<exists>iss. jc_iss claims = Some iss \<and> list_ex (\<lambda>t. eq_ignore_ascii_case t iss) trusted))
      else au_bearer_token a = Some token \<and> token \<noteq> [] \<and> ac_tenant_id auth = or_else ''prod'' (au_tenant_id a))"

lemma production_credentials:
  assumes "require_production C F c = Inr d" "production_authn B d token = Some auth"
  shows "configured_credentials B (sc_auth c) token auth"
proof -
  have d: "pd_auth_mode d = auth_mode_of (sc_auth c)" "pd_trusted_issuers d = or_else [] (au_trusted_issuers (sc_auth c))"
      "pd_auth_tenant_id d = or_else ''prod'' (au_tenant_id (sc_auth c))"
    using assms(1) by (auto simp: require_production_def res_bind_Inr)
  show ?thesis
    using auth_token_Inr [OF require_production_Inr(1) [OF assms(1)]] assms(2)
    by (auto simp: configured_credentials_def production_authn_def d resolve_bearer_def static_token_resolver_def Let_def
        split: if_splits option.splits)
qed

text \<open>
  C13: Production fails closed. Whatever file, environment and facade, a server that came up with
  \<open>ENV=production\<close> takes a request only with a bearer token, and that token is the one the configuration it
  started from names: the configured bearer token, which is not empty, or in JWT mode a token that decodes
  under the configured secret, which is not empty, and whose issuer is trusted where issuers are listed. The
  tenant is the configured one or the one of the claims. The development context is never handed out.
\<close>

theorem production_fails_closed:
  assumes "main_start B = Inr (Some su)" "profile_from_env (bo_env B) = Production"
    and "authenticate (sd_app (served_state X Production su fa)) headers = Inr auth"
  shows "\<exists>c token. load_config B (default_config_path B) = Inr c \<and> bearer_token (ou_values X) headers = Some token \<and>
           configured_credentials B (sc_auth c) token auth"
proof -
  obtain c d where d: "load_config B (default_config_path B) = Inr c"
    "require_production (bo_crypto B) (bo_read B) c = Inr d" "su_authn su = Some (production_authn B d)"
    using production_start [OF assms(1,2)] .
  obtain token where "bearer_token (ou_values X) headers = Some token" "production_authn B d token = Some auth"
    using assms(3) d(3) by (auto simp: authenticate_def res_bind_Inr ok_or_Inr)
  with d(1) production_credentials [OF d(2)] show ?thesis by blast
qed

text \<open>
  C31: A production start-up is complete: the keyring in use is well formed (keys, distinct ids, each
  usable) and the profile publishes exactly its public keys; a client stands for catalogue, pricing, tax,
  geo, payment and receipt, and every client has a base URL.
\<close>

theorem production_startup_complete:
  assumes "main_start B = Inr (Some su)" "profile_from_env (bo_env B) = Production"
  shows "\<exists>ring. su_signing su = Some ring \<and> ring_ok (bo_crypto B) ring \<and>
           wk_keys (h_well_known_ucp (served_state X Production su fa) None) = Some (public_jwks (ou_crypto X) ring) \<and>
           take 6 (map fst (su_clients su)) = [Catalog, Pricing, Tax, Geo, Payment, Receipt] \<and>
           list_all (\<lambda>(p, url, cfg). url \<noteq> []) (su_clients su)"
proof -
  obtain c d where d: "require_production (bo_crypto B) (bo_read B) c = Inr d" "su_signing su = Some (pd_signing d)"
    "map (\<lambda>(p, url, _). (p, url)) (su_clients su) =
       required_adapters (pd_components d) @ optional_adapters (pd_components d)"
    using production_start [OF assms] .
  have ring: "ring_ok (bo_crypto B) (pd_signing d)"
    using to_keyring_ring_ok [OF require_production_Inr(3) [OF d(1)]] by simp
  then have "public_jwks (ou_crypto X) (pd_signing d) \<noteq> []" by (simp add: ring_ok_def public_jwks_def)
  then have keys: "wk_keys (h_well_known_ucp (served_state X Production su fa) None) = Some (public_jwks (ou_crypto X) (pd_signing d))"
    using d(2) by (simp add: h_well_known_ucp_def build_well_known_manifest_with_version_def latest_profile_def
        Let_def advertised_of_def some_keys_def)
  have "map fst (su_clients su) = map fst (map (\<lambda>(p, url, _). (p, url)) (su_clients su))"
    by (simp add: case_prod_unfold)
  then have names: "take 6 (map fst (su_clients su)) = [Catalog, Pricing, Tax, Geo, Payment, Receipt]"
    unfolding d(3) by (simp add: required_adapters_def)
  have "list_all (\<lambda>(p, url). url \<noteq> []) (map (\<lambda>(p, url, _). (p, url)) (su_clients su))"
    unfolding d(3) list_all_append using require_all_Inr optional_urls require_production_Inr(2) [OF d(1)] by blast
  then have "list_all (\<lambda>(p, url, cfg). url \<noteq> []) (su_clients su)"
    by (simp add: list_all_iff case_prod_unfold)
  with ring keys names d(2) show ?thesis by blast
qed

section \<open>A sample deployment\<close>

definition sample_config :: server_config where
  "sample_config = default_server_config
     \<lparr>sc_server := default_server_section\<lparr>sv_bind_addr := ''0.0.0.0:8080'', sv_public_base_url := Some ''https://shop''\<rparr>,
      sc_auth := (sc_auth default_server_config)\<lparr>au_bearer_token := Some ''secret''\<rparr>,
      sc_database_url := Some ''postgres://db'',
      sc_components := \<lparr>cg_catalog_base_url = Some ''http://c'', cg_pricing_base_url = Some ''http://p'',
        cg_tax_base_url = Some ''http://t'', cg_geo_base_url = Some ''http://g'', cg_payment_base_url = Some ''http://pay'',
        cg_receipt_base_url = Some ''http://r'', cg_fulfillment_base_url = None,
        cg_payment_delegation_base_url = None, cg_identity_link_base_url = Some ''http://id''\<rparr>,
      sc_signing := no_signing\<lparr>ss_key_id := Some ''key-1'', ss_key := Some (letters (replicate 32 (CHR ''o'')))\<rparr>\<rparr>"

definition sample_boot :: "string \<Rightarrow> boot" where
  "sample_boot profile =
     \<lparr>bo_env = (\<lambda>k. if k = ''ENV'' then Some profile else None), bo_args = [''server''], bo_exists = (\<lambda>p. True),
      bo_read = (\<lambda>_. Inr []), bo_cwd = Some ''/srv'', bo_join = (\<lambda>d f. d @ CHR ''/'' # f), bo_yaml = (\<lambda>_. Inr sample_config),
      bo_json = (\<lambda>_. Inl ''text''), bo_jwks = (\<lambda>_. Inr []), bo_url = (\<lambda>_. None),
      bo_addr = (\<lambda>a. if a = [] then Some ''invalid socket address syntax'' else None),
      bo_build_client = (\<lambda>_ _. None), bo_database = (\<lambda>_. None), bo_migrate = (\<lambda>_. None),
      bo_decode_jwt = (\<lambda>_ _. None), bo_crypto = sample_crypto\<rparr>"

lemma sample_keyring:
  "to_keyring sample_crypto (sc_signing sample_config) =
     Inr (Some [\<lparr>k_kid = ''key-1'', k_private = Ed25519_private (replicate 32 (CHR ''o''))\<rparr>])"
proof -
  have "decode_base64 sample_crypto (letters b) = Some b" if "b \<noteq> []" for b
    using decode_base64_url [of sample_crypto b] that sample_laws by (simp add: crypto_laws_def sample_crypto_def)
  then have "build_key sample_crypto \<lparr>ks_kid = ''key-1'', ks_algorithm = EdDsa, ks_secret = letters (replicate 32 (CHR ''o''))\<rparr> =
      Inr \<lparr>k_kid = ''key-1'', k_private = Ed25519_private (replicate 32 (CHR ''o''))\<rparr>"
    by (simp add: build_key_def str_trim_def is_ascii_ws_def)
  then show ?thesis
    by (simp add: to_keyring_def sample_config_def no_signing_def nonempty_def letters_ne key_text_def from_specs_def)
qed

text \<open>Variables that are not set change nothing.\<close>

definition only_env :: "env \<Rightarrow> bool" where
  "only_env E \<longleftrightarrow> (\<forall>k. k \<noteq> ''ENV'' \<longrightarrow> E k = None)"

lemma unset [simp]:
  "E k = None \<Longrightarrow> env_set E k x = x" "E k = None \<Longrightarrow> env_string E k s = s" "E k = None \<Longrightarrow> env_replace E k x = x"
  "E k = None \<Longrightarrow> env_pairs E k ps = ps" "E k = None \<Longrightarrow> env_num f E k n = n"
  by (simp_all add: env_set_def env_text_def env_string_def env_replace_def env_pairs_def env_num_def)

lemma only_env_section: "only_env E \<Longrightarrow> section_env_overrides E s = s"
proof (rule provider_auth_section.equality)
  assume E: "only_env E"
  have "prefix @ ''_'' @ k \<noteq> ''ENV''" for prefix k :: string
  proof
    assume "prefix @ ''_'' @ k = ''ENV''"
    then have "CHR ''_'' \<in> set ''ENV''" by (metis append_Cons in_set_conv_decomp)
    then show False by simp
  qed
  then have "auth_env_overrides E prefix a = a" for prefix a
    using E by (simp add: auth_env_overrides_def only_env_def)
  then show "pa_default (section_env_overrides E s) = pa_default s" "pa_section (section_env_overrides E s) = pa_section s"
    by (simp_all add: pa_default_overrides pa_section_overrides fun_eq_iff)
qed simp

lemma only_env_config: "only_env E \<Longrightarrow> config_env_overrides E c = c"
  by (simp add: config_env_overrides_def only_env_section)
    (simp add: only_env_def server_env_overrides_def auth_section_env_overrides_def persistence_path_override_def
       components_env_overrides_def breaker_env_overrides_def outbox_env_overrides_def signing_env_overrides_def)

lemma only_env_sample: "only_env (bo_env (sample_boot profile))"
  by (simp add: only_env_def sample_boot_def)

lemma sample_load: "load_config (sample_boot profile) (default_config_path (sample_boot profile)) = Inr sample_config"
proof -
  have "bo_env (sample_boot profile) ''CONFIG_FILE'' = None" by (simp add: sample_boot_def)
  then have "default_config_path (sample_boot profile) = Some ''/srv/config.yaml''"
    by (simp add: default_config_path_def) (simp add: sample_boot_def)
  moreover have "bo_exists (sample_boot profile) = (\<lambda>_. True)" "bo_read (sample_boot profile) = (\<lambda>_. Inr [])"
    "bo_yaml (sample_boot profile) = (\<lambda>_. Inr sample_config)"
    by (simp_all add: sample_boot_def)
  ultimately show ?thesis by (simp add: load_config_def only_env_config [OF only_env_sample])
qed

lemma sample_production:
  "require_production sample_crypto (\<lambda>_. Inr []) sample_config = Inr
     \<lparr>pd_public_base_url = ''https://shop'', pd_database_url = ''postgres://db'',
      pd_signing = [\<lparr>k_kid = ''key-1'', k_private = Ed25519_private (replicate 32 (CHR ''o''))\<rparr>],
      pd_auth_mode = ''static'', pd_auth_token = ''secret'', pd_trusted_issuers = [], pd_auth_tenant_id = ''prod'',
      pd_auth_caller_id = ''prod'',
      pd_components = \<lparr>rc_catalog_base_url = ''http://c'', rc_pricing_base_url = ''http://p'', rc_tax_base_url = ''http://t'',
        rc_geo_base_url = ''http://g'', rc_payment_base_url = ''http://pay'', rc_receipt_base_url = ''http://r'',
        rc_fulfillment_base_url = None, rc_payment_delegation_base_url = None, rc_identity_link_base_url = Some ''http://id''\<rparr>,
      pd_http_client = default_http_client_config, pd_provider_auth = sc_provider_auth default_server_config\<rparr>"
proof -
  have mode: "mode_str no_provider_auth = ''none''" by code_simp
  have "check_provider (\<lambda>_. Inr []) (sc_provider_auth default_server_config) p = Inr ()" for p
    by (simp add: check_provider_def default_server_config_def for_provider_def to_outbound_auth_def mode)
      (simp add: no_provider_auth_def auth_is_empty_def to_tls_config_def read_tls_def nonempty_def provider_text_def)
  then have "\<exists>us. res_map (check_provider (\<lambda>_. Inr []) (sc_provider_auth default_server_config)) ALL_PROVIDERS = Inr us"
    by (simp add: ALL_PROVIDERS_def)
  moreover have "auth_mode_of (sc_auth sample_config) = ''static''" by code_simp
  moreover have "sc_provider_auth sample_config = sc_provider_auth default_server_config" by (simp add: sample_config_def)
  ultimately show ?thesis
    using sample_keyring
    by (auto simp: require_production_def res_bind_Inr ok_or_Inr auth_token_of_def)
      (simp_all add: sample_config_def default_server_config_def default_server_section_def nonempty_def ok_or_def or_else_def
        require_all_def url_required_def)
qed

definition sample_outside :: outside where
  "sample_outside = \<lparr>ou_text = sample_text, ou_values = \<lparr>hv_from_str = (\<lambda>_. True), hv_to_str = (\<lambda>_. True)\<rparr>,
     ou_crypto = sample_crypto, ou_url_with_pairs = as_url_with_pairs sample_app, ou_render = (\<lambda>_. [])\<rparr>"

lemma sample_profile:
  "profile_from_env (bo_env (sample_boot ''production'')) = Production"
  by (simp add: profile_from_env_def sample_boot_def)

lemma sample_startup:
  "\<exists>su. main_start (sample_boot ''production'') = Inr (Some su) \<and>
     su_authn su = Some (static_token_resolver ''secret'' ''prod'' ''prod'') \<and>
     map fst (su_clients su) = [Catalog, Pricing, Tax, Geo, Payment, Receipt, IdentityLink]"
proof -
  let ?B = "sample_boot ''production''"
  have fields: "bo_crypto ?B = sample_crypto" "bo_read ?B = (\<lambda>_. Inr [])" "bo_database ?B = (\<lambda>_. None)"
    "bo_build_client ?B = (\<lambda>_ _. None)" "bo_addr ?B ''0.0.0.0:8080'' = None" "run_mode_from_env (bo_args ?B) (bo_env ?B) = Serve"
    by (simp_all add: sample_boot_def run_mode_from_env_def run_mode_resolve_def)
  obtain d where d: "require_production sample_crypto (\<lambda>_. Inr []) sample_config = Inr d"
    "pd_auth_mode d = ''static''" "pd_auth_token d = ''secret''" "pd_auth_tenant_id d = ''prod''" "pd_auth_caller_id d = ''prod''"
    "map fst (required_adapters (pd_components d)) = [Catalog, Pricing, Tax, Geo, Payment, Receipt]"
    "map fst (optional_adapters (pd_components d)) = [IdentityLink]"
    using sample_production by (simp add: required_adapters_def optional_adapters_def map_filter_simps)
  have adapter: "\<exists>cfg. adapter_of ?B d pu = Inr (fst pu, snd pu, cfg)" for pu
    using production_clients_built [OF d(1), of "fst pu"] by (cases pu) (auto simp: adapter_of_def fields)
  have adapters: "\<exists>ys. res_map (adapter_of ?B d) pus = Inr ys \<and> map fst ys = map fst pus" for pus
  proof (induction pus)
    case (Cons pu pus)
    then show ?case using adapter [of pu] by auto
  qed simp
  have server: "payment_handlers_of parse (sc_server sample_config) = Inr []"
    "sv_embedded_checkout_url (sc_server sample_config) = None" "sv_bind_addr (sc_server sample_config) = ''0.0.0.0:8080''"
    "to_verifying_keyring C decode (sc_signing sample_config) = Inr None" for parse C decode
    by (simp_all add: sample_config_def default_server_section_def payment_handlers_of_def to_verifying_keyring_def no_signing_def)
  have authn: "production_authn ?B d = static_token_resolver ''secret'' ''prod'' ''prod''"
    by (simp add: production_authn_def d(2-5))
  obtain xs ys where "res_map (adapter_of ?B d) (required_adapters (pd_components d)) = Inr xs"
    "res_map (adapter_of ?B d) (optional_adapters (pd_components d)) = Inr ys"
    "map fst xs = [Catalog, Pricing, Tax, Geo, Payment, Receipt]" "map fst ys = [IdentityLink]"
    using adapters d(6,7) by metis
  then have "startup_profile ?B sample_config = Inr (Some (static_token_resolver ''secret'' ''prod'' ''prod''), False,
      pd_public_base_url d, Some (pd_signing d), xs @ ys)"
    using d(1) by (simp add: startup_profile_def sample_profile is_production_def fields authn)
  then show ?thesis
    using \<open>map fst xs = _\<close> \<open>map fst ys = _\<close>
    by (simp add: main_start_def sample_load fields startup_def server)
qed

theorem production_fails_closed_witness:
  "\<exists>su auth. main_start (sample_boot ''production'') = Inr (Some su) \<and>
     authenticate (sd_app (served_state sample_outside Production su sample_facade)) [(''authorization'', ''Bearer secret'')] = Inr auth \<and>
     configured_credentials (sample_boot ''production'') (sc_auth sample_config) ''secret'' auth"
proof -
  obtain su where su: "main_start (sample_boot ''production'') = Inr (Some su)"
    "su_authn su = Some (static_token_resolver ''secret'' ''prod'' ''prod'')" using sample_startup by blast
  have token: "bearer_token (ou_values sample_outside) [(''authorization'', ''Bearer secret'')] = Some ''secret''"
  proof -
    have "map_option str_trim (strip_prefix ''Bearer '' (str_trim ''Bearer secret'')) = Some ''secret''" by code_simp
    then show ?thesis by (simp add: bearer_token_def header_get_def sample_outside_def)
  qed
  have auth: "authenticate (sd_app (served_state sample_outside Production su sample_facade)) [(''authorization'', ''Bearer secret'')] =
      Inr \<lparr>ac_caller_id = ''prod'', ac_tenant_id = ''prod'', ac_scopes = [''checkout:execute'']\<rparr>"
    by (simp add: authenticate_def su(2) token static_token_resolver_def ok_or_def)
  from production_fails_closed [OF su(1) sample_profile auth] token sample_load
  have "configured_credentials (sample_boot ''production'') (sc_auth sample_config) ''secret''
      \<lparr>ac_caller_id = ''prod'', ac_tenant_id = ''prod'', ac_scopes = [''checkout:execute'']\<rparr>" by auto
  with auth su(1) show ?thesis by blast
qed

theorem production_startup_complete_witness:
  "\<exists>su ring. main_start (sample_boot ''production'') = Inr (Some su) \<and> su_signing su = Some ring \<and>
     ring_ok (bo_crypto (sample_boot ''production'')) ring \<and>
     take 6 (map fst (su_clients su)) = [Catalog, Pricing, Tax, Geo, Payment, Receipt]"
  using sample_startup production_startup_complete [OF _ sample_profile] by blast

theorem production_clients_built_witness:
  "\<exists>d cfg. require_production sample_crypto (\<lambda>_. Inr []) sample_config = Inr d \<and>
     client_config_for (\<lambda>_. Inr []) d IdentityLink = Inr cfg"
  using sample_production production_clients_built [where p = IdentityLink] by blast

section \<open>The listen address\<close>

text \<open>
  The documented default address is never used. Without a configuration file and without \<open>BIND_ADDR\<close> the
  derived default of the server section leaves the address empty, and since the empty text is no socket
  address the server does not start, in development as in production; \<open>0.0.0.0:8080\<close> is only the default of a
  server section that is written in a file without the field.
\<close>

theorem default_address_not_used:
  assumes "\<And>path. \<not> bo_exists B path" "bo_env B ''BIND_ADDR'' = None" "bo_addr B [] = Some e"
  shows "main_start B \<noteq> Inr (Some su)"
proof
  assume "main_start B = Inr (Some su)"
  then obtain c where c: "load_config B (default_config_path B) = Inr c" "startup B c = Inr su"
    by (rule main_start_serves)
  have "c = config_env_overrides (bo_env B) default_server_config"
    using c(1) assms(1) by (auto simp: load_config_def res_bind_Inr split: option.splits)
  then have "sv_bind_addr (sc_server c) = []"
    using assms(2) by (simp add: config_env_overrides_def server_env_overrides_def default_server_config_def default_server_section_def)
  then show False using startup_Inr(2) [OF c(2)] assms(3) by simp
qed

theorem default_address_not_used_witness:
  "main_start (sample_boot ''development''\<lparr>bo_exists := \<lambda>_. False\<rparr>) \<noteq> Inr (Some su)"
  by (rule default_address_not_used) (simp_all add: sample_boot_def)

section \<open>Payment handlers\<close>

lemma check_entry_Inr:
  "check_entry name e = Inr u \<Longrightarrow>
     \<exists>i v. json_str_at ''id'' e = Some i \<and> json_str_at ''version'' e = Some v \<and> is_dated_version v"
  by (auto simp: check_entry_def split: if_splits option.splits)

lemma check_handler_Inr:
  assumes "check_handler (name, entries) = Inr u"
  shows "is_reverse_domain_name name \<and> (\<exists>es. entries = JArr es \<and>
           (\<forall>e \<in> set es. \<exists>i v. json_str_at ''id'' e = Some i \<and> json_str_at ''version'' e = Some v \<and> is_dated_version v))"
proof -
  obtain es us where es: "is_reverse_domain_name name" "as_array entries = Some es" "res_map (check_entry name) es = Inr us"
    using assms by (auto simp: check_handler_def res_bind_Inr ok_or_Inr split: if_splits)
  moreover have "entries = JArr es" using es(2) by (cases entries) simp_all
  ultimately show ?thesis using res_map_each [OF es(3)] check_entry_Inr by blast
qed

text \<open>
  The payment handlers a started server publishes are well formed: the current profile carries an object
  whose names are reverse-DNS names and whose values are arrays, each entry with a textual id and a dated
  version.
\<close>

theorem published_handlers_well_formed:
  assumes "main_start B = Inr (Some su)"
  shows "\<exists>registry. us_payment_handlers (wk_ucp (h_well_known_ucp (served_state X profile su fa) None)) = Some (JObj registry) \<and>
           (\<forall>(name, entries) \<in> set registry. is_reverse_domain_name name \<and> (\<exists>es. entries = JArr es \<and>
              (\<forall>e \<in> set es. \<exists>i v. json_str_at ''id'' e = Some i \<and> json_str_at ''version'' e = Some v \<and> is_dated_version v)))"
proof -
  obtain c where "startup B c = Inr su" using main_start_serves [OF assms] .
  then have "payment_handlers_of (bo_json B) (sc_server c) = Inr (su_payment_handlers su)" by (rule startup_Inr)
  then have "\<exists>us. res_map check_handler (su_payment_handlers su) = Inr us"
    by (auto simp: payment_handlers_of_def res_bind_Inr split: option.splits if_splits sum.splits json.splits)
  then have "\<forall>(name, entries) \<in> set (su_payment_handlers su). \<exists>u. check_handler (name, entries) = Inr u"
    using res_map_each by fastforce
  then have "\<forall>(name, entries) \<in> set (su_payment_handlers su). is_reverse_domain_name name \<and> (\<exists>es. entries = JArr es \<and>
      (\<forall>e \<in> set es. \<exists>i v. json_str_at ''id'' e = Some i \<and> json_str_at ''version'' e = Some v \<and> is_dated_version v))"
    using check_handler_Inr by fast
  then show ?thesis
    by (simp add: h_well_known_ucp_def build_well_known_manifest_with_version_def latest_profile_def Let_def advertised_of_def)
qed

theorem published_handlers_well_formed_witness:
  "\<exists>su registry. main_start (sample_boot ''production'') = Inr (Some su) \<and>
     us_payment_handlers (wk_ucp (h_well_known_ucp (served_state sample_outside Production su sample_facade) None)) =
       Some (JObj registry)"
  using sample_startup published_handlers_well_formed by blast

end
