(* ===== verification/Discovery_Facts.thy ===== *)
theory Discovery_Facts
  imports Config_Facts
begin

text \<open>
  Discovery against the handlers: the optional capabilities of a deployment are advertised exactly where
  their endpoints are configured, each advertised version is served, and what the old manifests claim.
\<close>

section \<open>Answers of a deployment that lacks a capability\<close>

fun not_configured :: "api_error \<Rightarrow> bool" where
  "not_configured (Orchestrator (NotConfigured m)) = True"
| "not_configured _ = False"

text \<open>\<open>answers b m\<close>: if \<open>b\<close>, then \<open>m\<close> never answers that the capability is not configured; otherwise it never succeeds.\<close>

definition answers :: "bool \<Rightarrow> 'a hnd \<Rightarrow> bool" where
  "answers b m \<longleftrightarrow> (\<forall>w. case fst (m w) of Inr _ \<Rightarrow> b | Inl e \<Rightarrow> b \<longrightarrow> \<not> not_configured e)"

lemma answers_wp: "answers b m \<longleftrightarrow> (\<forall>w. op_wp m (\<lambda>_ _. b) (\<lambda>e _. b \<longrightarrow> \<not> not_configured e) w)"
  by (simp add: answers_def op_wp_def case_prod_unfold)

lemma dispatch_configured:
  "op_wp (dispatch_cart_command_for_tenant fa t cmd i) (\<lambda>_ _. True) (\<lambda>e _. \<forall>m. e \<noteq> NotConfigured m) w"
  by (auto simp: dispatch_cart_command_for_tenant_def assert_cart_belongs_to_def facade_dispatch_def wp Let_def
      op_wp_all split: option.splits)

lemma cart_call_configured:
  "op_wp (cart_call st auth cmd i) (\<lambda>_ _. True) (\<lambda>e _. \<not> not_configured e) w"
  by (simp add: cart_call_def lift_facade_def wp, rule op_wp_mono [OF dispatch_configured])
    (auto elim: not_configured.elims)

lemma link_answers: "answers (supports_identity_linking (as_facade st)) (link_identity_for st auth req)"
  by (auto simp: answers_wp link_identity_for_def link_identity_def supports_identity_linking_def pure_call_def wp
      split: option.splits sum.splits)

lemma delegate_answers: "answers (supports_payment_delegation (as_facade st)) (h_acp_delegate_payment st auth headers req)"
  by (auto simp: answers_wp h_acp_delegate_payment_def delegate_payment_def supports_payment_delegation_def pure_call_def
      acp_version_def require_acp_idempotency_key_def wp split: option.splits sum.splits)

lemma cart_call_then:
  "op_wp (cart_call st auth cmd i) (\<lambda>a. op_wp (op_ok_or Internal x) (\<lambda>_ _. True) (\<lambda>e _. \<not> not_configured e))
     (\<lambda>e _. \<not> not_configured e) w"
  by (rule op_wp_mono [OF cart_call_configured]) (simp_all add: wp split: option.split)

lemma embedded_answers: "answers (embedded_checkout st \<noteq> None) (h_ucp_embedded_link st auth now i)"
  by (cases "embedded_checkout st")
    (auto simp: answers_wp h_ucp_embedded_link_def ucp_cart_id_def or_bad_request_def embedded_checkout_def wp_bind wp_return
      wp_fail bind_eq_None_conv intro: cart_call_then split: option.splits sum.splits)

section \<open>What is advertised\<close>

definition offers :: "well_known_ucp \<Rightarrow> string \<Rightarrow> bool" where
  "offers wk capability \<longleftrightarrow> (case us_capabilities (wk_ucp wk) of None \<Rightarrow> False | Some cs \<Rightarrow> cs capability \<noteq> None)"

definition transports :: "well_known_ucp \<Rightarrow> string list" where
  "transports wk =
     (case us_services (wk_ucp wk) of
        None \<Rightarrow> []
      | Some services \<Rightarrow> (case services ''dev.ucp.shopping'' of None \<Rightarrow> [] | Some bs \<Rightarrow> map usb_transport bs))"

lemma core_offers:
  "(core_capabilities version advertised slugs ''dev.ucp.common.identity_linking'' \<noteq> None) = av_identity_linking advertised"
  by (simp add: core_capabilities_def Let_def)

lemma current_profiles:
  assumes "v = None \<or> v = Some UCP_LATEST_VERSION \<or> v = Some UCP_PREVIOUS_VERSION"
  shows "offers (h_well_known_ucp sd v) ''dev.ucp.common.identity_linking'' = supports_identity_linking (as_facade (sd_app sd))"
    "(''embedded'' \<in> set (transports (h_well_known_ucp sd v))) = (embedded_checkout (sd_app sd) \<noteq> None)"
  using assms core_offers
  by (auto simp: h_well_known_ucp_def build_well_known_manifest_with_version_def UCP_SUPPORTED_VERSIONS_def
      UCP_LATEST_VERSION_def UCP_PREVIOUS_VERSION_def latest_profile_def profile_2026_04_08_def Let_def offers_def
      transports_def new_ucp_section_def advertised_of_def)

lemma acp_services:
  "(''delegate_payment'' \<in> set (acd_services (h_well_known_acp sd))) = supports_payment_delegation (as_facade (sd_app sd))"
  by (simp add: h_well_known_acp_def build_acp_discovery_document_def)

text \<open>The skills of the agent card, by id.\<close>

definition card_skill_ids :: "json \<Rightarrow> string option list" where
  "card_skill_ids document =
     (case as_array (json_index document ''skills'') of None \<Rightarrow> [] | Some skills \<Rightarrow> map (json_str_at ''id'') skills)"

lemma card_skill_ids:
  "card_skill_ids (h_agent_card sd) = [Some ''cart'', Some ''checkout'', Some ''order-lookup''] @
     (if supports_identity_linking (as_facade (sd_app sd)) then [Some ''identity-linking''] else [])"
proof -
  have "json_index (h_agent_card sd) ''skills'' = JArr (card_skills (supports_identity_linking (as_facade (sd_app sd))))"
    by (cases "as_authn (sd_app sd)")
      (simp_all add: h_agent_card_def Let_def json_index_def json_insert_def update_conv')
  then show ?thesis by (simp add: card_skill_ids_def card_skills_def skill_json_def json_str_at_def)
qed

text \<open>The manifests of the two oldest versions.\<close>

definition legacy_flags_linking :: "well_known_ucp \<Rightarrow> bool" where
  "legacy_flags_linking wk \<longleftrightarrow>
     (case us_capability_flags (wk_ucp wk) of None \<Rightarrow> False | Some flags \<Rightarrow> flags ''dev.ucp.identity.linking'' = Some True)"

lemma legacy_profile:
  assumes "version \<in> {''2026-01-23'', ''2026-01-11''}"
  shows "h_well_known_ucp sd (Some version) =
    legacy_well_known_manifest (trim_end_matches (CHR ''/'') (sd_discovery_base_url sd)) version"
  using assms by (auto simp: h_well_known_ucp_def build_well_known_manifest_with_version_def Let_def
      UCP_SUPPORTED_VERSIONS_def UCP_LATEST_VERSION_def UCP_PREVIOUS_VERSION_def)

lemma legacy_linking:
  "version \<in> {''2026-01-23'', ''2026-01-11''} \<Longrightarrow> legacy_flags_linking (h_well_known_ucp sd (Some version))"
  by (simp add: legacy_profile legacy_flags_linking_def legacy_well_known_manifest_def manifest_for_version_def
      new_ucp_section_def)

text \<open>
  C17: Discovery tells the truth about what is optional, in its current documents: the profile of the latest
  version, the ACP document and the agent card advertise identity linking, the embedded checkout and
  delegated payment exactly in the deployments whose endpoints work. Where one is advertised its endpoint
  never answers that it is not configured, where it is not the endpoint never succeeds; the profile of the
  previous version says the same, and the card offers the linking skill under the same condition. The two
  oldest profiles, 2026-01-23 and 2026-01-11, are the exception: they claim identity linking in every deployment.
\<close>

theorem advertised_iff_served:
  "answers (offers (h_well_known_ucp sd None) ''dev.ucp.common.identity_linking'') (link_identity_for (sd_app sd) auth link) \<and>
   answers (''embedded'' \<in> set (transports (h_well_known_ucp sd None))) (h_ucp_embedded_link (sd_app sd) auth now session) \<and>
   answers (''delegate_payment'' \<in> set (acd_services (h_well_known_acp sd)))
     (h_acp_delegate_payment (sd_app sd) auth headers payment) \<and>
   offers (h_well_known_ucp sd (Some UCP_PREVIOUS_VERSION)) ''dev.ucp.common.identity_linking'' =
     offers (h_well_known_ucp sd None) ''dev.ucp.common.identity_linking'' \<and>
   (''embedded'' \<in> set (transports (h_well_known_ucp sd (Some UCP_PREVIOUS_VERSION)))) =
     (''embedded'' \<in> set (transports (h_well_known_ucp sd None))) \<and>
   (Some ''identity-linking'' \<in> set (card_skill_ids (h_agent_card sd))) =
     offers (h_well_known_ucp sd None) ''dev.ucp.common.identity_linking'' \<and>
   legacy_flags_linking (h_well_known_ucp sd (Some ''2026-01-23'')) \<and>
   legacy_flags_linking (h_well_known_ucp sd (Some ''2026-01-11''))"
  by (simp add: legacy_linking  current_profiles acp_services card_skill_ids link_answers embedded_answers delegate_answers del: not_None_eq)

text \<open>
  The manifests of the two oldest versions claim identity linking, as a flag and as a capability, in
  every deployment, also in one without an identity provider, where no request to link can succeed.
\<close>

theorem legacy_manifest_overclaims:
  assumes "version \<in> {''2026-01-23'', ''2026-01-11''}" "fa_identity_link (as_facade (sd_app sd)) = None"
  shows "(\<exists>flags manifest. us_capability_flags (wk_ucp (h_well_known_ucp sd (Some version))) = Some flags \<and>
            flags ''dev.ucp.identity.linking'' = Some True \<and>
            us_manifest (wk_ucp (h_well_known_ucp sd (Some version))) = Some manifest \<and>
            ''dev.ucp.identity.linking'' \<in> set (map cd_id (cm_capabilities manifest))) \<and>
         answers False (link_identity_for (sd_app sd) auth request)"
proof -
  have "h_well_known_ucp sd (Some version) =
      legacy_well_known_manifest (trim_end_matches (CHR ''/'') (sd_discovery_base_url sd)) version"
    by (rule legacy_profile [OF assms(1)])
  moreover have "answers False (link_identity_for (sd_app sd) auth request)"
    using link_answers [of "sd_app sd" auth request] assms(2) by (simp add: supports_identity_linking_def)
  ultimately show ?thesis by (simp add: legacy_well_known_manifest_def manifest_for_version_def new_ucp_section_def)
qed

theorem legacy_manifest_overclaims_witness:
  "\<exists>flags. us_capability_flags (wk_ucp (h_well_known_ucp (new_served sample_outside sample_facade) (Some ''2026-01-11''))) =
     Some flags \<and> flags ''dev.ucp.identity.linking'' = Some True"
  using legacy_manifest_overclaims [of "''2026-01-11''" "new_served sample_outside sample_facade"]
  by (auto simp: new_served_def sample_facade_def)

text \<open>
  Version selection of the profile: a supported version is served as asked, any other request gets the
  latest; each link the latest profile gives to an older version leads to a profile of that version and no
  supported version lacks its link; and every MCP version it names is one the MCP server negotiates.
\<close>

theorem discovery_versions:
  "us_version (wk_ucp (h_well_known_ucp sd v)) =
     (case v of None \<Rightarrow> UCP_LATEST_VERSION
      | Some n \<Rightarrow> if n \<in> set UCP_SUPPORTED_VERSIONS then n else UCP_LATEST_VERSION) \<and>
   (\<exists>links ext. us_supported_versions (wk_ucp (h_well_known_ucp sd None)) = Some (JObj links) \<and>
     set (map fst links) = set UCP_SUPPORTED_VERSIONS - {UCP_LATEST_VERSION} \<and>
     list_all (\<lambda>(n, link). link = JStr (trim_end_matches (CHR ''/'') (sd_discovery_base_url sd) @ ''/.well-known/ucp?ucp_version='' @ n) \<and>
        us_version (wk_ucp (h_well_known_ucp sd (Some n))) = n) links \<and>
     wk_orchestrator (h_well_known_ucp sd None) = Some ext \<and>
     list_all (\<lambda>n. match_supported n = Some n) (ox_mcp_supported_versions ext))"
proof -
  have version: "us_version (wk_ucp (h_well_known_ucp sd v)) =
     (case v of None \<Rightarrow> UCP_LATEST_VERSION
      | Some n \<Rightarrow> if n \<in> set UCP_SUPPORTED_VERSIONS then n else UCP_LATEST_VERSION)" for v
    by (auto simp: h_well_known_ucp_def build_well_known_manifest_with_version_def latest_profile_def profile_2026_04_08_def
        legacy_well_known_manifest_def new_ucp_section_def Let_def split: option.split)
  define base where "base = trim_end_matches (CHR ''/'') (sd_discovery_base_url sd)"
  define links where "links = map (\<lambda>n. (n, JStr (base @ ''/.well-known/ucp?ucp_version='' @ n)))
    (filter (\<lambda>n. n \<noteq> UCP_LATEST_VERSION) UCP_SUPPORTED_VERSIONS)"
  obtain ext where latest: "us_supported_versions (wk_ucp (h_well_known_ucp sd None)) = Some (JObj links)"
    "wk_orchestrator (h_well_known_ucp sd None) = Some ext" "ox_mcp_supported_versions ext = DISCOVERY_MCP_VERSIONS"
    by (simp add: h_well_known_ucp_def build_well_known_manifest_with_version_def latest_profile_def Let_def
        new_ucp_section_def links_def base_def)
  moreover have "list_all (\<lambda>n. match_supported n = Some n) DISCOVERY_MCP_VERSIONS" by code_simp
  moreover have "set (map fst links) = set UCP_SUPPORTED_VERSIONS - {UCP_LATEST_VERSION}"
    by (auto simp: links_def)
  moreover have "list_all (\<lambda>(n, link). link = JStr (base @ ''/.well-known/ucp?ucp_version='' @ n) \<and>
      us_version (wk_ucp (h_well_known_ucp sd (Some n))) = n) links"
    by (simp add: links_def list_all_iff version)
  ultimately show ?thesis using version unfolding base_def by auto
qed

section \<open>A started deployment\<close>

lemma started_offers:
  "supports_identity_linking (started_facade A env su fa) =
     (supports_identity_linking fa \<or> client_of su IdentityLink \<noteq> None)"
  "supports_payment_delegation (started_facade A env su fa) =
     (supports_payment_delegation fa \<or> client_of su PaymentDelegation \<noteq> None)"
  by (cases "client_of su IdentityLink"; cases "client_of su PaymentDelegation"; cases "client_of su Fulfillment";
      simp add: started_facade_def Let_def with_webhook_delivery_def with_ap2_strict_def with_fulfillment_provider_def
        with_payment_delegation_def with_identity_link_provider_def supports_identity_linking_def
        supports_payment_delegation_def)+

text \<open>
  What an operator configures is what is advertised: the server started from a configuration offers identity
  linking exactly when a client of the identity system was built, delegated payment exactly when one of the
  payment delegation service was, and the embedded checkout exactly when both the hosted page and signing
  keys are configured.
\<close>

lemma deployment_advertises_what_it_wired:
  assumes "fa_identity_link fa = None" "fa_payment_delegation fa = None"
    and sd_def: "sd = served_state X profile su (started_facade A env su fa)"
  shows "offers (h_well_known_ucp sd None) ''dev.ucp.common.identity_linking'' = (client_of su IdentityLink \<noteq> None) \<and>
         (''delegate_payment'' \<in> set (acd_services (h_well_known_acp sd))) = (client_of su PaymentDelegation \<noteq> None) \<and>
         (''embedded'' \<in> set (transports (h_well_known_ucp sd None))) =
           (su_embedded_checkout_url su \<noteq> None \<and> su_signing su \<noteq> None)"
proof -
  have "\<not> supports_identity_linking fa" "\<not> supports_payment_delegation fa"
    using assms(1,2) by (simp_all add: supports_identity_linking_def supports_payment_delegation_def)
  then show ?thesis
    by (cases "su_embedded_checkout_url su"; cases "su_signing su")
      (simp_all add: sd_def current_profiles acp_services started_offers embedded_checkout_def del: not_None_eq)
qed

end
