(* ===== verification/Provider_Mocks.thy ===== *)
theory Provider_Mocks
  imports Facade Text_Parsing Json "HOL-Library.List_Lexorder" "HOL-Library.Char_ord"
begin

text \<open>
  The providers a development server runs on (\<open>provider-mocks\<close>), with the defaults of the provider traits for
  what they leave out. The catalogue is a table of items by id; its search sorts by id, so the order in which
  a \<open>HashMap\<close> is walked does not matter. New identifiers of delegated payments and links are arguments.
\<close>

section \<open>Catalogue\<close>

type_synonym mock_catalog = "(string \<times> catalog_item) list"

definition add_mock_item :: "catalog_item \<Rightarrow> mock_catalog \<Rightarrow> mock_catalog" where
  "add_mock_item item items = AList.update (ci_id item) item items"

definition mock_get_item :: "mock_catalog \<Rightarrow> string \<Rightarrow> catalog_error + catalog_item" where
  "mock_get_item items item_id = ok_or (CatalogNotFound item_id) (map_of items item_id)"

definition mock_lookup_items :: "mock_catalog \<Rightarrow> string list \<Rightarrow> catalog_error + catalog_item list" where
  "mock_lookup_items items item_ids = Inr (List.map_filter (map_of items) item_ids)"

definition mock_search_items :: "mock_catalog \<Rightarrow> string option \<Rightarrow> catalog_error + catalog_item list" where
  "mock_search_items items query =
     (let q = map ascii_lower (case query of None \<Rightarrow> [] | Some s \<Rightarrow> s)
      in Inr (sort_key ci_id (filter
           (\<lambda>item. q = [] \<or> str_contains (map ascii_lower (ci_id item)) q \<or> str_contains (map ascii_lower (ci_title item)) q)
           (map snd items))))"

section \<open>Prices, tax, geography\<close>

definition mock_resolve_prices :: "cart_projection \<Rightarrow> pricing_error + line_price list" where
  "mock_resolve_prices cart =
     Inr (map (\<lambda>line. \<lparr>lp_line_id = li_line_id line, lp_unit_price_minor = li_unit_price_minor line,
                 lp_total_minor = i64_mul (li_unit_price_minor line) (i64_of_u32 (li_quantity line))\<rparr>) (cp_lines cart))"

text \<open>The default of the trait grants nothing.\<close>

definition default_resolve_discounts :: "cart_projection \<Rightarrow> string list \<Rightarrow> pricing_error + applied_discount list" where
  "default_resolve_discounts cart codes = Inr []"

text \<open>The division of integers truncates towards zero.\<close>

definition i64_quotient :: "i64 \<Rightarrow> i64 \<Rightarrow> i64" where
  "i64_quotient a b = sgn a * sgn b * (\<bar>a\<bar> div \<bar>b\<bar>)"

definition mock_resolve_tax :: "cart_projection \<Rightarrow> tax_error + i64" where
  "mock_resolve_tax cart = Inr (i64_quotient (cp_subtotal_minor cart) 10)"

definition mock_geo_check :: "cart_projection \<Rightarrow> checkout_request \<Rightarrow> geo_error + bool" where
  "mock_geo_check cart request =
     Inr (case Option.bind (cr_location request) lh_country_code of None \<Rightarrow> True | Some cc \<Rightarrow> cc \<noteq> ''ZZ'')"

section \<open>Payment and receipts\<close>

definition mock_authorize :: "checkout_request \<Rightarrow> payment_error + auth_result" where
  "mock_authorize request = Inr \<lparr>ar_authorized = True, ar_reference = ''mock_'' @ cr_idempotency_key request\<rparr>"

definition mock_capture :: "payment_lifecycle_request \<Rightarrow> payment_error + payment_operation_result" where
  "mock_capture request = Inr \<lparr>por_success = True, por_reference = ''captured_'' @ pl_transaction_id request\<rparr>"

definition mock_void :: "payment_lifecycle_request \<Rightarrow> payment_error + payment_operation_result" where
  "mock_void request = Inr \<lparr>por_success = True, por_reference = ''voided_'' @ pl_transaction_id request\<rparr>"

definition mock_refund :: "payment_lifecycle_request \<Rightarrow> payment_error + payment_operation_result" where
  "mock_refund request = Inr \<lparr>por_success = True, por_reference = ''refunded_'' @ pl_transaction_id request\<rparr>"

definition default_get_payment_state :: "string \<Rightarrow> payment_state option" where
  "default_get_payment_state transaction_id = None"

definition mock_receipt :: "(uuid \<Rightarrow> string) \<Rightarrow> cart_projection \<Rightarrow> transaction_result \<Rightarrow> receipt_error + string" where
  "mock_receipt render cart result =
     Inr (''Receipt txn='' @ tr_transaction_id result @ '' cart='' @ (case cp_cart_id cart of CartId u \<Rightarrow> render u) @
          '' total='' @ show_int (tb_total_minor (tr_totals_breakdown result)))"

definition mock_delegate ::
  "string \<Rightarrow> string \<Rightarrow> payment_delegation_request \<Rightarrow> delegation_error + delegated_payment" where
  "mock_delegate u v request =
     (if str_trim (pd_token request) = [] then Inl (DelegationRejected ''empty token'')
      else Inr \<lparr>dp_id = ''dpay_'' @ u, dp_token = ''delegated_'' @ v, dp_status = ''delegated'', dp_expires_at = None\<rparr>)"

definition mock_link :: "string \<Rightarrow> provider_identity_link_request \<Rightarrow> identity_link_provider_error + identity_link_record" where
  "mock_link u request = Inr \<lparr>ir_link_id = ''idlink_'' @ u, ir_status = ''linked'', ir_expires_at = None\<rparr>"

section \<open>The providers of a development server\<close>

definition mock_providers :: "(uuid \<Rightarrow> string) \<Rightarrow> mock_catalog \<Rightarrow> provider_set" where
  "mock_providers render items =
     \<lparr>ps_get_item = (\<lambda>_. mock_get_item items), ps_lookup_items = (\<lambda>_. mock_lookup_items items),
      ps_search_items = (\<lambda>_. mock_search_items items), ps_resolve_prices = (\<lambda>_. mock_resolve_prices),
      ps_resolve_discounts = (\<lambda>_. default_resolve_discounts), ps_resolve_tax = (\<lambda>_. mock_resolve_tax),
      ps_geo_check = (\<lambda>_. mock_geo_check), ps_authorize = (\<lambda>_. mock_authorize), ps_capture = (\<lambda>_. mock_capture),
      ps_void = (\<lambda>_. mock_void), ps_refund = (\<lambda>_. mock_refund),
      ps_payment_state = (\<lambda>_. default_get_payment_state), ps_receipt = (\<lambda>_. mock_receipt render), ps_fulfillment = None\<rparr>"

end
