(* ===== verification/Mock_Facts.thy ===== *)
theory Mock_Facts
  imports Provider_Mocks Checkout_Outcome
begin

text \<open>
  Progress. On stores that do not fail and providers that never refuse, a checkout that passes the checks of
  the runtime always ends in a captured payment; the providers of a development server are such providers,
  and on them a shopper can go from an empty cart to a completed order, at a price that is a function of the
  catalogue.
\<close>

section \<open>Providers that never refuse\<close>

definition captured_with :: "checkout_request \<Rightarrow> totals_breakdown \<Rightarrow> transaction_result \<Rightarrow> world \<Rightarrow> bool" where
  "captured_with request totals res w \<longleftrightarrow>
     tr_status res = Completed \<and> tr_payment_state res = Captured \<and> tr_totals_breakdown res = totals \<and>
     tr_order_id res \<noteq> None \<and> w_idem w (request_key request) = Some (IdemCompleted res) \<and> w_faults w = []"

locale willing_providers =
  fixes providers :: provider_set
  assumes authorizes: "case ps_authorize providers h request of Inl e \<Rightarrow> False | Inr a \<Rightarrow> ar_authorized a"
    and captures: "case ps_capture providers h lr of Inl e \<Rightarrow> False | Inr a \<Rightarrow> por_success a"
    and receipts: "case ps_receipt providers h cart res of Inl e \<Rightarrow> False | Inr a \<Rightarrow> True"
begin

lemma never_refused [simp]:
  "ps_authorize providers h request \<noteq> Inl e" "ps_capture providers h lr \<noteq> Inl e'"
  "ps_receipt providers h cart res \<noteq> Inl e''"
  using authorizes captures receipts by (metis old.sum.simps(5))+

lemma granted:
  "ps_authorize providers h request = Inr a \<Longrightarrow> ar_authorized a"
  "ps_capture providers h lr = Inr c \<Longrightarrow> por_success c"
  using authorizes captures by (metis old.sum.simps(6))+

lemma complete_checkout_captures:
  assumes "ru_providers r = providers" "w_faults w = []" "por_success capture"
  shows "op_wp (complete_checkout r request cart cm capture Committed oid)
           (captured_with request (cart_totals cart)) (\<lambda>_ _. False) w"
  using assms
  by (simp add: complete_checkout_def Let_def wp store_finalize_def store_enqueue_def idem_complete_def lift_idem_def
      mem_complete_def store_payment_state_def captured_with_def paid_result_def split: sum.splits)

lemma pay_and_complete_captures:
  assumes "ru_providers r = providers" "w_faults w = []"
  shows "op_wp (pay_and_complete r request cart KGeoChecked) (captured_with request (cart_totals cart))
           (\<lambda>_ _. False) w"
proof -
  have order: "op_wp (op_bind (place_order r request cart cm) (complete_checkout r request cart cm capture Committed))
      (captured_with request (cart_totals cart)) (\<lambda>_ _. False) t"
    if "w_faults t = []" "por_success capture" for cm capture t
    using that assms by (simp add: place_order_def wp store_order_def complete_checkout_captures)
  show ?thesis
    by (simp add: pay_and_complete_def commit_and_capture_def Let_def wp store_commit_def order [unfolded wp] assms
        granted split: sum.splits prod.splits)
qed

lemma checkout_settled_captures:
  assumes "ru_providers r = providers" "w_faults w = []"
    and "check_checkout (ru_policy r) request (cp_total_minor cart) = Allowed"
  shows "op_wp (checkout_settled r request cart) (captured_with request (cart_totals cart)) (\<lambda>_ _. False) w"
proof -
  have "op_wp (op_for ls (\<lambda>line. store_reserve r c (li_item_id line) (li_quantity line) 300))
      (\<lambda>_ t. w_faults t = []) (\<lambda>_ _. False) w" for ls :: "cart_line_projection list" and c
    by (rule wp_for) (simp_all add: wp store_reserve_def assms(2))
  from op_wp_mono [OF this] show ?thesis
    using assms by (simp add: checkout_settled_def reserve_lines_def wp pay_and_complete_captures)
qed

text \<open>A checkout whose cart settles, within the policy, is paid.\<close>

lemma execute_checkout_captures:
  assumes "ru_providers r = providers" "w_faults w = []" "vr_valid (validate_checkout_request request)"
    and "w_idem w (request_key request) = None"
    and "op_wp (settle_cart_for_checkout r request)
           (\<lambda>cart t. w_faults t = [] \<and> cart_totals cart = totals \<and>
              check_checkout (ru_policy r) request (cp_total_minor cart) = Allowed)
           (\<lambda>_ _. False) (w\<lparr>w_idem := (w_idem w)(request_key request \<mapsto> InFlight)\<rparr>)"
  shows "op_wp (execute_checkout r request) (captured_with request totals) (\<lambda>_ _. False) w"
proof -
  have "op_wp (op_bind (settle_or_release r request) (checkout_settled r request)) (captured_with request totals)
      (\<lambda>_ _. False) (w\<lparr>w_idem := (w_idem w)(request_key request \<mapsto> InFlight)\<rparr>)"
    unfolding settle_or_release_def wp_bind wp_catch
    by (rule op_wp_mono [OF assms(5)]) (use assms(1) checkout_settled_captures in auto)
  then show ?thesis
    using assms(2,3,4) by (simp add: execute_checkout_def Let_def wp_fail wp_bind [of "idem_claim _"] idem_claim_wp)
qed

end

section \<open>The providers of a development server\<close>

interpretation mocks: willing_providers "mock_providers render items"
  by unfold_locales (simp_all add: mock_providers_def mock_authorize_def mock_capture_def mock_receipt_def)

text \<open>What a cart costs on them: a function of the unit prices and quantities of its lines.\<close>

definition line_cost :: "cart_line_projection \<Rightarrow> i64" where
  "line_cost l = i64_mul (li_unit_price_minor l) (i64_of_u32 (li_quantity l))"

definition mock_totals :: "cart_projection \<Rightarrow> totals_breakdown" where
  "mock_totals cart =
     (let sub = wrap64 (sum_list (map line_cost (cp_lines cart)));
          tax = i64_quotient sub 10
      in \<lparr>tb_subtotal_minor = sub, tb_tax_minor = tax, tb_discount_minor = 0,
          tb_fulfillment_minor = cp_fulfillment_minor cart,
          tb_total_minor = i64_add (i64_add sub tax) (cp_fulfillment_minor cart)\<rparr>)"

definition costed :: "cart_line_projection \<Rightarrow> cart_line_projection" where
  "costed l = l\<lparr>li_total_minor := line_cost l\<rparr>"

text \<open>When no two lines share an id, the prices of the mock find their own lines.\<close>

definition own_price :: "cart_line_projection \<Rightarrow> line_price" where
  "own_price l = \<lparr>lp_line_id = li_line_id l, lp_unit_price_minor = li_unit_price_minor l, lp_total_minor = line_cost l\<rparr>"

lemma mock_resolve_prices_eq: "mock_resolve_prices cart = Inr (map own_price (cp_lines cart))"
  by (simp add: mock_resolve_prices_def own_price_def line_cost_def)

lemma update_first_skip: "(\<And>x. x \<in> set xs \<Longrightarrow> \<not> P x) \<Longrightarrow> update_first P f (xs @ ys) = xs @ update_first P f ys"
  by (induction xs) simp_all

lemma apply_own_price:
  assumes "li_line_id l \<notin> li_line_id ` set ds"
  shows "apply_line_price (own_price l) (ds @ l # rest) = ds @ costed l # rest"
proof -
  have "update_first (\<lambda>x. li_line_id x = li_line_id l) f (ds @ l # rest) =
      ds @ update_first (\<lambda>x. li_line_id x = li_line_id l) f (l # rest)" for f
    by (rule update_first_skip) (use assms in \<open>metis image_eqI\<close>)
  then show ?thesis by (simp add: apply_line_price_def own_price_def costed_def)
qed

lemma apply_own_prices:
  "distinct (map li_line_id (ds @ ls)) \<Longrightarrow>
   fold apply_line_price (map own_price ls) (map costed ds @ ls) = map costed (ds @ ls)"
proof (induction ls arbitrary: ds)
  case Nil
  show ?case by simp
next
  case (Cons l ls)
  have "li_line_id l \<notin> li_line_id ` set (map costed ds)" using Cons.prems by (auto simp: costed_def)
  from apply_own_price [OF this] Cons.IH [of "ds @ [l]"] Cons.prems show ?case by simp
qed

lemma mock_lines:
  "distinct (map li_line_id ls) \<Longrightarrow> apply_prices (map own_price ls) ls = map costed ls"
  using apply_own_prices [of "[]" ls] by (simp add: apply_prices_def)

lemma costed_sum [simp]: "lines_total (map costed ls) = wrap64 (sum_list (map line_cost ls))"
  by (simp add: lines_total_eq costed_def comp_def)

section \<open>Prices and checkouts on the mocks\<close>

definition mock_repriced :: "cart_projection \<Rightarrow> cart_projection" where
  "mock_repriced p =
     p\<lparr>cp_lines := map costed (cp_lines p), cp_subtotal_minor := tb_subtotal_minor (mock_totals p),
       cp_tax_minor := tb_tax_minor (mock_totals p), cp_discounts := [], cp_discount_minor := 0,
       cp_total_minor := tb_total_minor (mock_totals p)\<rparr>"

lemma mock_repriced_fields [simp]:
  "cp_cart_id (mock_repriced p) = cp_cart_id p" "cp_tenant_id (mock_repriced p) = cp_tenant_id p"
  "cp_version (mock_repriced p) = cp_version p" "cp_fulfillment (mock_repriced p) = cp_fulfillment p"
  "cp_fulfillment_minor (mock_repriced p) = cp_fulfillment_minor p" "cp_lines (mock_repriced p) = map costed (cp_lines p)"
  "cp_total_minor (mock_repriced p) = tb_total_minor (mock_totals p)"
  by (simp_all add: mock_repriced_def)

lemma mock_repriced_totals [simp]: "cart_totals (mock_repriced p) = mock_totals p"
  by (simp add: cart_totals_def mock_repriced_def mock_totals_def Let_def)

lemma cart_totals_geo [simp]: "cart_totals (p\<lparr>cp_geo_ok := b\<rparr>) = cart_totals p"
  by (simp add: cart_totals_def)

lemma i64_sub_zero [simp]: "in_i64 a \<Longrightarrow> i64_sub a 0 = a"
  by (simp add: i64_sub_def)

lemma set_no_discounts [simp]:
  "set_discounts [] p = p\<lparr>cp_discounts := [], cp_discount_minor := 0, cp_total_minor := gross_minor p\<rparr>"
  by (cases p) (simp add: set_discounts_def gross_minor_def)

lemmas mock_price_defs =
  resolve_prices_def resolve_tax_def apply_discounts_def reprice_lines_def mock_resolve_prices_eq
  mock_resolve_tax_def default_resolve_discounts_def gross_minor_def mock_providers_def

definition mock_deliverable :: "cart_projection \<Rightarrow> bool" where
  "mock_deliverable cart \<longleftrightarrow> Option.bind (cart_location_hint cart) lh_country_code \<noteq> Some ''ZZ''"

lemma mock_geo_deliverable: "mock_deliverable cart \<Longrightarrow> mock_geo_check cart' (geo_check_request cart) = Inr True"
  by (simp add: mock_geo_check_def geo_check_request_def mock_deliverable_def) (auto split: option.splits)

lemma deliverable_repriced [simp]: "mock_deliverable (mock_repriced cart) = mock_deliverable cart"
  by (simp add: mock_deliverable_def cart_location_hint_def mock_repriced_def)

lemma mock_reprices:
  assumes "ru_providers r = mock_providers render items" "distinct (map li_line_id (cp_lines p))"
    and "\<And>log. Q (mock_repriced p) (w\<lparr>w_log := log\<rparr>)"
  shows "op_wp (reprice_for_checkout r p) Q E w"
  using assms
  by (simp add: reprice_for_checkout_def mock_price_defs wp mock_lines mock_repriced_def mock_totals_def Let_def)

lemma mock_settles:
  assumes "ru_providers r = mock_providers render items" "w_faults w = []"
    and "w_snapshots w (cr_cart_id request) = Some cart" "tenant_matches cart request"
    and "cp_version cart = cr_cart_version request" "mock_deliverable cart"
    and "distinct (map li_line_id (cp_lines cart))"
    and "pi_amount_minor (cr_payment_intent request) = tb_total_minor (mock_totals cart)"
  shows "op_wp (settle_cart_for_checkout r request)
           (\<lambda>c t. w_faults t = [] \<and> cart_totals c = mock_totals cart \<and> cp_total_minor c = tb_total_minor (mock_totals cart))
           (\<lambda>_ _. False) w"
proof -
  have total: "cp_total_minor (mock_repriced cart) = tb_total_minor (mock_totals cart)"
    by (simp add: mock_repriced_def)
  have geo: "ps_geo_check (mock_providers render items) h (mock_repriced cart) (geo_check_request (mock_repriced cart)) = Inr True" for h
    using assms(6) by (simp add: mock_providers_def mock_geo_deliverable)
  show ?thesis
    unfolding settle_cart_for_checkout_def
    using assms total
    by (auto simp: wp require_cart_def get_cart_snapshot_def check_geo_def geo put_cart_snapshot_def Let_def
        intro!: mock_reprices [OF assms(1) assms(7)])
qed

lemma mock_checkout:
  assumes "ru_providers r = mock_providers render items" "w_faults w = []" "vr_valid (validate_checkout_request request)"
    and "w_idem w (request_key request) = None" "w_snapshots w (cr_cart_id request) = Some cart"
    and "tenant_matches cart request" "cp_version cart = cr_cart_version request" "mock_deliverable cart"
    and "distinct (map li_line_id (cp_lines cart))"
    and "pi_amount_minor (cr_payment_intent request) = tb_total_minor (mock_totals cart)"
    and "check_checkout (ru_policy r) request (tb_total_minor (mock_totals cart)) = Allowed"
  shows "op_wp (execute_checkout r request) (captured_with request (mock_totals cart)) (\<lambda>_ _. False) w"
proof -
  have "op_wp (settle_cart_for_checkout r request)
      (\<lambda>c t. w_faults t = [] \<and> cart_totals c = mock_totals cart \<and>
         check_checkout (ru_policy r) request (cp_total_minor c) = Allowed)
      (\<lambda>_ _. False) (w\<lparr>w_idem := (w_idem w)(request_key request \<mapsto> InFlight)\<rparr>)"
  proof (rule op_wp_mono [OF mock_settles [OF assms(1)]])
    show "w_faults t = [] \<and> cart_totals a = mock_totals cart \<and>
        check_checkout (ru_policy r) request (cp_total_minor a) = Allowed"
      if "w_faults t = [] \<and> cart_totals a = mock_totals cart \<and> cp_total_minor a = tb_total_minor (mock_totals cart)" for a t
      using that assms(11) by metis
  qed (simp_all add: assms(2,5-10))
  from mocks.execute_checkout_captures [OF assms(1-4) this] show ?thesis .
qed

lemma op_wp_returns: "op_wp m Q (\<lambda>_ _. False) w \<Longrightarrow> \<exists>a w'. m w = (Inr a, w') \<and> Q a w'"
  by (auto simp: op_wp_def split: prod.splits sum.splits)

text \<open>
  C6: a checkout on the development providers completes. When the stores work, the request is valid and its key
  free, the cart it names is stored, belongs to its tenant, has the version it names, ships to a country the
  mock delivers to and costs the amount it authorizes (the line costs at the stored unit prices, a tenth of
  them as tax, the shipping), and the policy allows that amount, then the checkout answers with a completed
  transaction, its payment captured, at exactly these totals, and that answer is what the key holds.
\<close>

theorem mock_checkout_completes:
  assumes "ru_providers r = mock_providers render items" "w_faults w = []" "vr_valid (validate_checkout_request request)"
    and "w_idem w (request_key request) = None" "w_snapshots w (cr_cart_id request) = Some cart"
    and "tenant_matches cart request" "cp_version cart = cr_cart_version request" "mock_deliverable cart"
    and "distinct (map li_line_id (cp_lines cart))"
    and "pi_amount_minor (cr_payment_intent request) = tb_total_minor (mock_totals cart)"
    and "check_checkout (ru_policy r) request (tb_total_minor (mock_totals cart)) = Allowed"
  shows "\<exists>res w'. execute_checkout r request w = (Inr res, w') \<and> captured_with request (mock_totals cart) res w'"
  by (rule op_wp_returns [OF mock_checkout [OF assms]])

definition mock_runner :: "mock_catalog \<Rightarrow> runner" where
  "mock_runner items = sample_runner\<lparr>ru_providers := mock_providers (\<lambda>u. replicate (unat u) CHR ''x'') items\<rparr>"

theorem mock_checkout_completes_witness:
  "\<exists>res w'. execute_checkout (mock_runner []) sample_request sample_world = (Inr res, w') \<and>
     tr_status res = Completed \<and> tb_total_minor (tr_totals_breakdown res) = 2200"
proof -
  have cart: "mock_totals sample_cart = sample_totals"
    by (simp add: mock_totals_def sample_defs line_cost_def i64_mul_def i64_add_def wrap64_def i64_of_u32_def
        i64_quotient_def Let_def)
  have "\<exists>res w'. execute_checkout (mock_runner []) sample_request sample_world = (Inr res, w') \<and>
      captured_with sample_request (mock_totals sample_cart) res w'"
    by (rule mock_checkout_completes)
      (simp_all add: mock_runner_def sample_runner_def sample_world_def empty_world_def sample_request_valid cart
        sample_policy, simp_all add: sample_defs tenant_matches_def mock_deliverable_def cart_location_hint_def)
  then show ?thesis by (auto simp: captured_with_def cart sample_totals_def)
qed

section \<open>Shopping on the mocks\<close>

text \<open>A catalogue nothing was put into, as the one a development server starts with, sells nothing.\<close>

lemma empty_catalogue_sells_nothing:
  assumes "ru_providers r = mock_providers render []"
  shows "\<exists>err w'. dispatch_cart_command r (AddItem p) cart_id w = (Inl err, w')"
proof -
  have "op_wp (dispatch_cart_command r (AddItem p) cart_id) (\<lambda>_ _. False) (\<lambda>_ _. True) w"
    by (simp add: dispatch_cart_command_def run_cart_command_def add_item_def wp assms mock_providers_def
        mock_get_item_def ok_or_def split: option.splits)
  then show ?thesis by (auto simp: op_wp_def split: prod.splits sum.splits)
qed

text \<open>An item that is put into the catalogue is found, and the others stay as they are.\<close>

lemma added_item_found [simp]:
  "mock_get_item (add_mock_item item items) i = (if i = ci_id item then Inr item else mock_get_item items i)"
  by (simp add: mock_get_item_def add_mock_item_def ok_or_def update_conv' split: option.splits)

text \<open>
  The session of a shopper: a new cart, the items one by one, the start of the checkout, and a checkout of the
  cart as it was last answered, at the total it shows.
\<close>

record shopper =
  sh_tenant :: string
  sh_merchant :: string
  sh_currency :: string
  sh_token :: string
  sh_key :: string

definition shopper_ok :: "shopper \<Rightarrow> bool" where
  "shopper_ok s \<longleftrightarrow> sh_tenant s \<noteq> [] \<and> sh_merchant s \<noteq> [] \<and> length (sh_currency s) = 3 \<and> sh_token s \<noteq> [] \<and> sh_key s \<noteq> []"

definition basket_command :: "string \<times> u32 \<Rightarrow> cart_command" where
  "basket_command e = AddItem \<lparr>ai_item_id = fst e, ai_quantity = snd e\<rparr>"

definition shopper_request :: "shopper \<Rightarrow> cart_projection \<Rightarrow> checkout_request" where
  "shopper_request s cart =
     \<lparr>cr_tenant_id = sh_tenant s, cr_merchant_id = sh_merchant s, cr_cart_id = cp_cart_id cart,
      cr_cart_version = cp_version cart, cr_currency = sh_currency s, cr_customer = None, cr_location = None,
      cr_payment_intent = \<lparr>pi_amount_minor = cp_total_minor cart, pi_token_or_reference = sh_token s,
        pi_ap2_consent_proof = None, pi_payment_handler_id = None, pi_payment_method_type = None,
        pi_mpp_method = None, pi_mpp_intent = None\<rparr>,
      cr_idempotency_key = sh_key s\<rparr>"

definition shop :: "runner \<Rightarrow> shopper \<Rightarrow> (string \<times> u32) list \<Rightarrow> transaction_result run" where
  "shop r s basket =
     op_bind (dispatch_cart_command r (CreateCart \<lparr>cc_merchant_id = sh_merchant s, cc_currency = sh_currency s,
                cc_tenant_id = Some (sh_tenant s)\<rparr>) None) (\<lambda>cart.
     op_seq (op_for basket (\<lambda>e. op_bind (dispatch_cart_command r (basket_command e) (Some (cp_cart_id cart)))
               (\<lambda>_. op_return ())))
     (op_bind (dispatch_cart_command r (GetCart \<lparr>gc_cart_id = cp_cart_id cart\<rparr>) None) (\<lambda>cart.
     op_bind (dispatch_cart_command r
               (StartCheckout \<lparr>sc_cart_id = cp_cart_id cart, sc_cart_version = cp_version cart\<rparr>) None) (\<lambda>ready.
     execute_checkout r (shopper_request s ready)))))"

text \<open>What the basket costs by the catalogue, in exact arithmetic.\<close>

definition price_of :: "mock_catalog \<Rightarrow> string \<Rightarrow> int" where
  "price_of items i = (case map_of items i of Some item \<Rightarrow> ci_price_minor item | None \<Rightarrow> 0)"

definition basket_cost :: "mock_catalog \<Rightarrow> (string \<times> u32) list \<Rightarrow> int" where
  "basket_cost items basket = sum_list (map (\<lambda>e. price_of items (fst e) * int (unat (snd e))) basket)"

text \<open>The cart after the items \<open>basket\<close>, as a state of the stores.\<close>

definition uuid_text :: "runner \<Rightarrow> nat \<Rightarrow> string" where
  "uuid_text r k = ru_uuid_str r (ru_new_v4 r k)"

definition line_ids_between :: "runner \<Rightarrow> nat \<Rightarrow> nat \<Rightarrow> string set" where
  "line_ids_between r m n = (\<lambda>k. ''li_'' @ uuid_text r k) ` {m..<n}"

definition basket_line :: "mock_catalog \<Rightarrow> cart_line_projection \<Rightarrow> string \<times> u32 \<Rightarrow> bool" where
  "basket_line items l e \<longleftrightarrow> li_quantity l = snd e \<and> li_unit_price_minor l = price_of items (fst e)"

definition shopping :: "runner \<Rightarrow> mock_catalog \<Rightarrow> shopper \<Rightarrow> cart_id \<Rightarrow> (string \<times> u32) list \<Rightarrow> world \<Rightarrow> world \<Rightarrow> bool" where
  "shopping r items s i basket w0 w \<longleftrightarrow>
     w_faults w = [] \<and> w_idem w = w_idem w0 \<and> w_uuid w = w_uuid w0 + Suc (length basket) \<and>
     w_states w i \<in> {Some CartCreated, Some GeoChecked} \<and>
     (\<exists>p. w_snapshots w i = Some p \<and> cp_cart_id p = i \<and> cp_tenant_id p = Some (sh_tenant s) \<and>
        cp_version p = of_nat (Suc (length basket)) \<and> cp_fulfillment p = None \<and> cp_fulfillment_minor p = 0 \<and>
        cp_total_minor p = tb_total_minor (mock_totals p) \<and>
        list_all2 (basket_line items) (cp_lines p) basket \<and> distinct (map li_line_id (cp_lines p)) \<and>
        li_line_id ` set (cp_lines p) \<subseteq> line_ids_between r (w_uuid w0) (w_uuid w))"

lemma line_cost_costed [simp]: "line_cost (costed l) = line_cost l" "li_line_id (costed l) = li_line_id l"
  by (simp_all add: line_cost_def costed_def)

lemma basket_line_costed [simp]: "basket_line items (costed l) e = basket_line items l e"
  by (simp add: basket_line_def costed_def)

lemma mock_totals_repriced [simp]: "mock_totals (mock_repriced p) = mock_totals p"
  by (simp add: mock_totals_def mock_repriced_def comp_def)

text \<open>Recalculation on the mocks.\<close>

lemma mock_mutates:
  assumes "ru_providers r = mock_providers render items" "w_faults w = []"
    and "w_states w i \<in> {Some CartCreated, Some GeoChecked}" "mock_deliverable p" "distinct (map li_line_id (cp_lines p))"
  shows "op_wp (mutate_and_recalculate r i p ev)
           (\<lambda>_ t. w_faults t = [] \<and> w_idem t = w_idem w \<and> w_uuid t = w_uuid w \<and> w_states t i = Some GeoChecked \<and>
              w_snapshots t = (w_snapshots w)(cp_cart_id p \<mapsto> (mock_repriced p)\<lparr>cp_geo_ok := True\<rparr>)) (\<lambda>_ _. False) w"
proof -
  have geo: "mock_geo_check c (geo_check_request (mock_repriced p)) = Inr True" for c
    using assms(4) by (simp add: mock_geo_deliverable)
  have changed: "\<exists>x. w_states w i = Some x \<and> next_cart_state x ItemChanged = Some ItemsMutated"
    using assms(3) by auto
  have repriced: "p\<lparr>cp_lines := map costed (cp_lines p), cp_subtotal_minor := wrap64 (sum_list (map line_cost (cp_lines p))),
      cp_tax_minor := i64_quotient (wrap64 (sum_list (map line_cost (cp_lines p)))) 10, cp_discounts := [],
      cp_discount_minor := 0, cp_total_minor := i64_add (i64_add (wrap64 (sum_list (map line_cost (cp_lines p))))
        (i64_quotient (wrap64 (sum_list (map line_cost (cp_lines p)))) 10)) (cp_fulfillment_minor p)\<rparr> = mock_repriced p"
    by (simp add: mock_repriced_def mock_totals_def Let_def)
  show ?thesis
    using assms changed
    by (auto simp: mutate_and_recalculate_def wp transition_cart_def get_cart_state_def set_cart_state_def
        append_cart_event_def put_cart_snapshot_def check_geo_def mock_price_defs mock_lines repriced geo Let_def)
qed

lemma mock_totals_frame [simp]:
  "mock_totals (p\<lparr>cp_geo_ok := b\<rparr>) = mock_totals p" "mock_totals (p\<lparr>cp_status := st\<rparr>) = mock_totals p"
  "mock_totals (bump_version p) = mock_totals p"
  by (simp_all add: mock_totals_def bump_version_def)

lemma no_fulfillment_deliverable: "cp_fulfillment p = None \<Longrightarrow> mock_deliverable p"
  by (simp add: mock_deliverable_def cart_location_hint_def)

lemma fresh_line_id:
  assumes "inj_on (uuid_text r) {m..n}"
  shows "''li_'' @ uuid_text r n \<notin> line_ids_between r m n"
    and "m \<le> n \<Longrightarrow> line_ids_between r m (Suc n) = insert (''li_'' @ uuid_text r n) (line_ids_between r m n)"
  using assms by (auto simp: line_ids_between_def atLeastLessThanSuc dest: inj_onD)

lemma shopping_starts:
  assumes "shopper_ok s" "w_faults w = []"
  shows "op_wp (dispatch_cart_command r (CreateCart \<lparr>cc_merchant_id = sh_merchant s, cc_currency = sh_currency s,
            cc_tenant_id = Some (sh_tenant s)\<rparr>) None) (\<lambda>cart. shopping r items s (cp_cart_id cart) [] w) (\<lambda>_ _. False) w"
  using assms
  by (auto simp: dispatch_cart_command_def run_cart_command_def create_cart_def append_cart_event_def
      put_cart_snapshot_def set_cart_state_def wp Let_def shopper_ok_def bad_currency_def new_cart_def shopping_def
      mock_totals_def i64_quotient_def i64_add_def)

text \<open>One more item.\<close>

lemma shopping_step:
  assumes "ru_providers r = mock_providers render items" "inj_on (uuid_text r) {w_uuid w0..w_uuid w}"
    and "shopping r items s i basket w0 w" "fst e \<noteq> []" "snd e \<noteq> 0" "map_of items (fst e) = Some item"
  shows "op_wp (dispatch_cart_command r (basket_command e) (Some i)) (\<lambda>_. shopping r items s i (basket @ [e]) w0)
           (\<lambda>_ _. False) w"
proof -
  obtain p where p: "w_snapshots w i = Some p" "cp_cart_id p = i" "cp_tenant_id p = Some (sh_tenant s)"
      "cp_version p = of_nat (Suc (length basket))" "cp_fulfillment p = None" "cp_fulfillment_minor p = 0"
      "list_all2 (basket_line items) (cp_lines p) basket" "distinct (map li_line_id (cp_lines p))"
      "li_line_id ` set (cp_lines p) \<subseteq> line_ids_between r (w_uuid w0) (w_uuid w)"
    and w: "w_faults w = []" "w_idem w = w_idem w0" "w_uuid w = w_uuid w0 + Suc (length basket)" "w_states w i \<in> {Some CartCreated, Some GeoChecked}"
    using assms(3) by (auto simp: shopping_def)
  let ?id = "''li_'' @ uuid_text r (w_uuid w)"
  define line where "line = \<lparr>li_line_id = ?id, li_item_id = ci_id item, li_title = ci_title item, li_quantity = snd e,
      li_unit_price_minor = ci_price_minor item, li_total_minor = i64_mul (ci_price_minor item) (i64_of_u32 (snd e))\<rparr>"
  define q where "q = bump_version (p\<lparr>cp_lines := cp_lines p @ [line]\<rparr>)"
  let ?w = "w\<lparr>w_log := w_log w @ [CallGetItem (fst e)], w_uuid := Suc (w_uuid w)\<rparr>"
  have fields: "cp_lines q = cp_lines p @ [line]" "cp_cart_id q = i" "cp_tenant_id q = Some (sh_tenant s)"
      "cp_version q = of_nat (Suc (Suc (length basket)))" "cp_fulfillment q = None" "cp_fulfillment_minor q = 0"
    using p by (simp_all add: q_def bump_version_def)
  have line: "li_line_id line = ?id" "basket_line items line e"
    using assms(6) by (simp_all add: line_def basket_line_def price_of_def)
  have new: "?id \<notin> li_line_id ` set (cp_lines p)" using p(9) fresh_line_id(1) [OF assms(2)] by blast
  have distinct: "distinct (map li_line_id (cp_lines q))" using p(8) new by (simp add: fields line)
  have all: "list_all2 (basket_line items) (cp_lines q) (basket @ [e])"
    using p(7) line by (simp add: fields list_all2_appendI)
  have ids: "li_line_id ` set (cp_lines q) \<subseteq> line_ids_between r (w_uuid w0) (Suc (w_uuid w))"
  proof -
    have "w_uuid w0 \<le> w_uuid w" using w(3) by simp
    then show ?thesis using p(9) by (auto simp: fields line fresh_line_id(2) [OF assms(2)])
  qed
  have "op_wp (mutate_and_recalculate r i q ev) (\<lambda>_. shopping r items s i (basket @ [e]) w0) (\<lambda>_ _. False) ?w" for ev
    by (rule op_wp_mono [OF mock_mutates [OF assms(1)]])
      (use w distinct all ids fields(2-6) in \<open>auto simp: shopping_def no_fulfillment_deliverable comp_def list_all2_map1\<close>)
  then show ?thesis
    using assms(1,4,5,6) p(1)
    by (simp add: dispatch_cart_command_def run_cart_command_def basket_command_def add_item_def require_cart_def
        get_cart_snapshot_def wp Let_def mock_providers_def mock_get_item_def ok_or_def q_def line_def uuid_text_def)
qed

lemma shopping_items:
  assumes "ru_providers r = mock_providers render items" "inj_on (uuid_text r) {w_uuid w0..w_uuid w0 + length bought + length basket}"
    and "shopping r items s i bought w0 w"
    and "\<And>e. e \<in> set basket \<Longrightarrow> fst e \<noteq> [] \<and> snd e \<noteq> 0 \<and> map_of items (fst e) \<noteq> None"
  shows "op_wp (op_for basket (\<lambda>e. op_bind (dispatch_cart_command r (basket_command e) (Some i)) (\<lambda>_. op_return ())))
           (\<lambda>_. shopping r items s i (bought @ basket) w0) (\<lambda>_ _. False) w"
  using assms(2,3,4)
proof (induction basket arbitrary: bought w)
  case Nil
  then show ?case by (simp add: wp)
next
  case (Cons e basket)
  from Cons.prems(3) [of e] obtain item where e: "fst e \<noteq> []" "snd e \<noteq> 0" "map_of items (fst e) = Some item" by auto
  have rest: "op_wp (op_for basket (\<lambda>e. op_bind (dispatch_cart_command r (basket_command e) (Some i)) (\<lambda>_. op_return ())))
      (\<lambda>_. shopping r items s i (bought @ e # basket) w0) (\<lambda>_ _. False) t"
    if "shopping r items s i (bought @ [e]) w0 t" for t
    using Cons.IH [OF _ that] Cons.prems(1,3) by simp
  have "w_uuid w = w_uuid w0 + Suc (length bought)" using Cons.prems(2) by (simp add: shopping_def)
  then have "inj_on (uuid_text r) {w_uuid w0..w_uuid w}" using Cons.prems(1) by (rule_tac inj_on_subset) auto
  from shopping_step [OF assms(1) this Cons.prems(2) e] show ?case
    unfolding op_for.simps wp by (rule op_wp_mono) (use rest in auto)
qed

text \<open>The price in exact arithmetic.\<close>

lemma exact_line_costs:
  assumes "list_all2 (basket_line items) ls basket" "basket_cost items basket \<le> i64_max"
    and "\<And>e. e \<in> set basket \<Longrightarrow> 0 \<le> price_of items (fst e)"
  shows "sum_list (map line_cost ls) = basket_cost items basket" "0 \<le> basket_cost items basket"
proof -
  have "sum_list (map line_cost ls) = basket_cost items basket \<and> 0 \<le> basket_cost items basket"
    using assms
  proof (induction rule: list_all2_induct)
    case Nil
    then show ?case by (simp add: basket_cost_def)
  next
    case (Cons l ls e basket)
    let ?c = "price_of items (fst e) * int (unat (snd e))"
    have c: "0 \<le> ?c" using Cons.prems(2) [of e] by simp
    have tail: "0 \<le> basket_cost items basket"
    proof -
      have "0 \<le> price_of items (fst b) * int (unat (snd b))" if "b \<in> set basket" for b
        using Cons.prems(2) [of b] that by simp
      then show ?thesis unfolding basket_cost_def by (intro sum_list_nonneg) auto
    qed
    have cost: "basket_cost items (e # basket) = ?c + basket_cost items basket" by (simp add: basket_cost_def)
    with c tail Cons.prems(1) have "in_i64 ?c" by (simp add: in_i64_def i64_min_def)
    with Cons.hyps(1) have "line_cost l = ?c"
      by (simp add: line_cost_def basket_line_def i64_mul_def i64_of_u32_def)
    with Cons c tail cost show ?case by simp
  qed
  then show "sum_list (map line_cost ls) = basket_cost items basket" "0 \<le> basket_cost items basket" by simp_all
qed

definition exact_totals :: "int \<Rightarrow> totals_breakdown" where
  "exact_totals cost =
     \<lparr>tb_subtotal_minor = cost, tb_tax_minor = cost div 10, tb_discount_minor = 0, tb_fulfillment_minor = 0,
      tb_total_minor = cost + cost div 10\<rparr>"

lemma mock_totals_exact:
  assumes "sum_list (map line_cost (cp_lines p)) = cost" "cp_fulfillment_minor p = 0" "0 \<le> cost"
    and "cost + cost div 10 \<le> i64_max"
  shows "mock_totals p = exact_totals cost"
proof -
  have "in_i64 cost" "in_i64 (cost + cost div 10)" using assms(3,4) by (auto simp: in_i64_def i64_min_def)
  moreover have "i64_quotient cost 10 = cost div 10"
    using assms(3) by (cases "cost = 0") (simp_all add: i64_quotient_def)
  ultimately show ?thesis
    using assms(1,2) by (simp add: mock_totals_def exact_totals_def Let_def i64_add_def)
qed

text \<open>The start of the checkout keeps the cart, one version later, and the checkout of that cart is paid.\<close>

definition shopper_key :: "shopper \<Rightarrow> idempotency_key" where
  "shopper_key s = ik_from_parts (sh_tenant s) (sh_merchant s) (sh_key s)"

lemma version_not_zero: "Suc n < 2 ^ 64 \<Longrightarrow> of_nat (Suc n) \<noteq> (0 :: u64)"
  using of_nat_inverse [of "Suc n" "0 :: u64"] by auto

lemma shopper_request_valid:
  assumes "shopper_ok s" "0 \<le> cp_total_minor cart" "cp_version cart \<noteq> 0"
  shows "checkout_request_errors (shopper_request s cart) = []"
  using assms
  by (auto simp: checkout_request_errors_def validate_payment_intent_def shopper_request_def shopper_ok_def bad_currency_def)

lemma start_checkout_on:
  assumes "w_faults w = []" "w_states w i \<in> {Some CartCreated, Some GeoChecked}" "w_snapshots w i = Some p" "cp_cart_id p = i"
    and "cp_version p \<noteq> 0"
    and "\<And>t. w_faults t = [] \<Longrightarrow> w_idem t = w_idem w \<Longrightarrow> 
          w_snapshots t i = Some (bump_version (p\<lparr>cp_status := cart_status.CheckoutReady\<rparr>)) \<Longrightarrow>
          Q (bump_version (p\<lparr>cp_status := cart_status.CheckoutReady\<rparr>)) t"
  shows "op_wp (dispatch_cart_command r (StartCheckout \<lparr>sc_cart_id = i, sc_cart_version = cp_version p\<rparr>) None) Q E w"
proof -
  have "\<exists>x. w_states w i = Some x \<and> next_cart_state x MarkCheckoutReady = Some cart_state.CheckoutReady"
    using assms(2) by auto
  moreover have "cp_cart_id (bump_version (p\<lparr>cp_status := cart_status.CheckoutReady\<rparr>)) = i"
    using assms(4) by (simp add: bump_version_def)
  ultimately show ?thesis
    using assms(1,3,5,6)
    by (auto simp: dispatch_cart_command_def run_cart_command_def start_checkout_def require_cart_def get_cart_snapshot_def
        append_cart_event_def put_cart_snapshot_def transition_cart_def get_cart_state_def set_cart_state_def wp Let_def)
qed

lemma shopper_policy: "shopper_ok s \<Longrightarrow> check_checkout policy_default (shopper_request s cart) t = Allowed"
  by (simp add: check_checkout_def policy_errors_def policy_default_def country_blocked_def shopper_request_def
      shopper_ok_def)

definition affordable :: "mock_catalog \<Rightarrow> (string \<times> u32) list \<Rightarrow> bool" where
  "affordable items basket \<longleftrightarrow>
     list_all (\<lambda>e. fst e \<noteq> [] \<and> snd e \<noteq> 0 \<and> map_of items (fst e) \<noteq> None \<and> 0 \<le> price_of items (fst e)) basket \<and>
     basket_cost items basket + basket_cost items basket div 10 \<le> i64_max \<and> length basket < 2 ^ 63"

definition served_at_price :: "mock_catalog \<Rightarrow> (string \<times> u32) list \<Rightarrow> transaction_result \<Rightarrow> bool" where
  "served_at_price items basket res \<longleftrightarrow>
     tr_status res = Completed \<and> tr_payment_state res = Captured \<and> tr_order_id res \<noteq> None \<and>
     tr_totals_breakdown res = exact_totals (basket_cost items basket)"

lemma ready_checkout:
  assumes "ru_providers r = mock_providers render items" "ru_policy r = policy_default" "shopper_ok s"
    and "affordable items basket" "w_faults t = []" "w_idem t (shopper_key s) = None"
    and "w_snapshots t (cp_cart_id q) = Some q" "cp_tenant_id q = Some (sh_tenant s)" "cp_version q \<noteq> 0"
    and "cp_fulfillment q = None" "cp_fulfillment_minor q = 0" "cp_total_minor q = tb_total_minor (mock_totals q)"
    and "list_all2 (basket_line items) (cp_lines q) basket" "distinct (map li_line_id (cp_lines q))"
  shows "op_wp (execute_checkout r (shopper_request s q))
           (captured_with (shopper_request s q) (exact_totals (basket_cost items basket))) (\<lambda>_ _. False) t"
proof -
  let ?c = "basket_cost items basket"
  have prices: "0 \<le> price_of items (fst e)" if "e \<in> set basket" for e
    using assms(4) that by (auto simp: affordable_def list_all_iff)
  have nonneg: "0 \<le> ?c"
    unfolding basket_cost_def by (rule sum_list_nonneg) (use prices in \<open>auto intro!: mult_nonneg_nonneg\<close>)
  have bound: "?c + ?c div 10 \<le> i64_max" using assms(4) by (simp add: affordable_def)
  have "?c \<le> i64_max" using bound nonneg by (simp add: pos_imp_zdiv_nonneg_iff)
  note cost = exact_line_costs(1) [OF assms(13) this prices]
  have totals: "mock_totals q = exact_totals ?c"
    by (rule mock_totals_exact [OF cost assms(11) nonneg bound])
  have total: "0 \<le> cp_total_minor q" using nonneg by (simp add: assms(12) totals exact_totals_def)
  show ?thesis
    unfolding totals [symmetric]
    by (rule mock_checkout [OF assms(1,5)])
      (use assms total in \<open>simp_all add: shopper_request_valid shopper_policy no_fulfillment_deliverable\<close>,
       simp_all add: shopper_request_def request_key_def shopper_key_def tenant_matches_def)
qed

lemma shopping_checkout:
  assumes "ru_providers r = mock_providers render items" "ru_policy r = policy_default" "shopper_ok s"
    and "affordable items basket" "w_idem w0 (shopper_key s) = None" "shopping r items s i basket w0 w"
  shows "op_wp (op_bind (dispatch_cart_command r (GetCart \<lparr>gc_cart_id = i\<rparr>) None) (\<lambda>cart.
           op_bind (dispatch_cart_command r
               (StartCheckout \<lparr>sc_cart_id = cp_cart_id cart, sc_cart_version = cp_version cart\<rparr>) None) (\<lambda>ready.
           execute_checkout r (shopper_request s ready))))
           (\<lambda>res w'. served_at_price items basket res) (\<lambda>_ _. False) w"
proof -
  obtain p where p: "w_snapshots w i = Some p" "cp_cart_id p = i" "cp_tenant_id p = Some (sh_tenant s)"
      "cp_version p = of_nat (Suc (length basket))" "cp_fulfillment p = None" "cp_fulfillment_minor p = 0"
      "cp_total_minor p = tb_total_minor (mock_totals p)"
      "list_all2 (basket_line items) (cp_lines p) basket" "distinct (map li_line_id (cp_lines p))"
    and w: "w_faults w = []" "w_idem w = w_idem w0" "w_states w i \<in> {Some CartCreated, Some GeoChecked}"
    using assms(6) by (auto simp: shopping_def)
  define q where "q = bump_version (p\<lparr>cp_status := cart_status.CheckoutReady\<rparr>)"
  have q: "cp_cart_id q = i" "cp_tenant_id q = Some (sh_tenant s)" "cp_fulfillment q = None" "cp_fulfillment_minor q = 0"
      "cp_lines q = cp_lines p" "cp_total_minor q = tb_total_minor (mock_totals q)"
    using p by (simp_all add: q_def) (simp_all add: bump_version_def)
  have "Suc (length basket) < 2 ^ 64" "Suc (Suc (length basket)) < 2 ^ 64" using assms(4) by (auto simp: affordable_def)
  from version_not_zero [OF this(1)] version_not_zero [OF this(2)]
  have versions: "cp_version p \<noteq> 0" "cp_version q \<noteq> 0"
    using p(4) by (simp_all add: q_def bump_version_def add_ac)
  have checkout: "op_wp (execute_checkout r (shopper_request s q))
      (\<lambda>res w'. served_at_price items basket res) (\<lambda>_ _. False) t"
    if "w_faults t = []" "w_idem t = w_idem w" "w_snapshots t i = Some q" for t
    by (rule op_wp_mono [OF ready_checkout [OF assms(1-4) that(1) _ _ q(2) versions(2) q(3,4,6)]])
      (use that w(2) assms(5) p(8,9) q(1,5) in \<open>auto simp: captured_with_def served_at_price_def\<close>)
  have start: "op_wp (op_bind (dispatch_cart_command r
        (StartCheckout \<lparr>sc_cart_id = i, sc_cart_version = cp_version p\<rparr>) None) (\<lambda>ready. execute_checkout r (shopper_request s ready)))
      (\<lambda>res w'. served_at_price items basket res) (\<lambda>_ _. False) w"
    unfolding wp by (rule start_checkout_on [of w i p, folded q_def, OF w(1,3) p(1,2) versions(1)]) (rule checkout)
  have "dispatch_cart_command r (GetCart \<lparr>gc_cart_id = i\<rparr>) None w = (Inr p, w)"
    using p(1) by (simp add: dispatch_cart_command_def run_cart_command_def require_cart_def get_cart_snapshot_def op_defs)
  with start p(2) show ?thesis by (simp add: op_wp_def)
qed

text \<open>
  C5: a shopper on a development server always gets through. On working stores, with the mock providers, the
  default policy and identifiers that do not repeat, take any shopper with names, a three-letter currency, a token and a
  key that is free, and any basket of listed items in positive quantities at prices that are not negative, whose cost
  with a tenth of it as tax fits a signed 64-bit amount. Creating the cart, adding the items one by one, starting
  the checkout and checking out at the total shown ends in a completed transaction with its payment captured and
  an order placed, whose totals are exactly the catalogue price of the basket and a tenth of it as tax.
\<close>

theorem shopper_always_served:
  assumes "ru_providers r = mock_providers render items" "ru_policy r = policy_default"
    and "inj_on (uuid_text r) {w_uuid w..w_uuid w + length basket}" "w_faults w = []"
    and "shopper_ok s" "w_idem w (shopper_key s) = None" "affordable items basket"
  shows "\<exists>res w'. shop r s basket w = (Inr res, w') \<and> served_at_price items basket res"
proof -
  let ?Q = "\<lambda>res w'. served_at_price items basket res"
  have items: "fst e \<noteq> [] \<and> snd e \<noteq> 0 \<and> map_of items (fst e) \<noteq> None" if "e \<in> set basket" for e
    using assms(7) that by (simp add: affordable_def list_all_iff)
  have fill: "op_wp (op_seq (op_for basket (\<lambda>e. op_bind (dispatch_cart_command r (basket_command e) (Some i)) (\<lambda>_. op_return ())))
      (op_bind (dispatch_cart_command r (GetCart \<lparr>gc_cart_id = i\<rparr>) None) (\<lambda>cart.
       op_bind (dispatch_cart_command r
           (StartCheckout \<lparr>sc_cart_id = cp_cart_id cart, sc_cart_version = cp_version cart\<rparr>) None) (\<lambda>ready.
       execute_checkout r (shopper_request s ready))))) ?Q (\<lambda>_ _. False) t"
    if "shopping r items s i [] w t" for i t
    unfolding op_seq_def [of "op_for _ _"] wp_bind [of "op_for _ _"]
    by (rule op_wp_mono [OF shopping_items [OF assms(1) _ that items]])
      (use assms(3) shopping_checkout [OF assms(1,2,5,7,6)] in simp_all)
  have "op_wp (shop r s basket) ?Q (\<lambda>_ _. False) w"
    unfolding shop_def wp_bind [of "dispatch_cart_command _ (CreateCart _) _"]
    by (rule op_wp_mono [OF shopping_starts [OF assms(5,4)]]) (use fill in auto)
  then show ?thesis by (rule op_wp_returns)
qed

definition sample_catalog :: mock_catalog where
  "sample_catalog = add_mock_item \<lparr>ci_id = ''a'', ci_title = ''Apple'', ci_price_minor = 1000\<rparr>
     (add_mock_item \<lparr>ci_id = ''b'', ci_title = ''Bread'', ci_price_minor = 250\<rparr> [])"

definition sample_shopper :: shopper where
  "sample_shopper = \<lparr>sh_tenant = ''t1'', sh_merchant = ''m1'', sh_currency = ''USD'', sh_token = ''tok'', sh_key = ''k1''\<rparr>"

theorem shopper_always_served_witness:
  "\<exists>res w'. shop (mock_runner sample_catalog) sample_shopper [(''a'', 2), (''b'', 1)] empty_world = (Inr res, w') \<and>
     tr_status res = Completed \<and> tb_total_minor (tr_totals_breakdown res) = 2475"
proof -
  have cost: "basket_cost sample_catalog [(''a'', 2), (''b'', 1)] = 2250"
    by (simp add: basket_cost_def price_of_def sample_catalog_def add_mock_item_def)
  have "uuid_text (mock_runner sample_catalog) k = replicate (unat (word_of_nat k :: uuid)) CHR ''x''" for k
    by (simp add: uuid_text_def mock_runner_def sample_runner_def)
  moreover have "{0..Suc (Suc 0)} = {0, 1, 2}" by auto
  ultimately have "inj_on (uuid_text (mock_runner sample_catalog)) {0..Suc (Suc 0)}" by (simp add: inj_on_def)
  moreover have "affordable sample_catalog [(''a'', 2), (''b'', 1)]"
    unfolding affordable_def cost by (simp add: i64_max_def price_of_def sample_catalog_def add_mock_item_def)
  ultimately have "\<exists>res w'. shop (mock_runner sample_catalog) sample_shopper [(''a'', 2), (''b'', 1)] empty_world = (Inr res, w') \<and>
      served_at_price sample_catalog [(''a'', 2), (''b'', 1)] res"
    by (intro shopper_always_served)
      (simp_all add: mock_runner_def sample_runner_def empty_world_def sample_shopper_def shopper_ok_def shopper_key_def)
  then show ?thesis by (auto simp: served_at_price_def exact_totals_def cost)
qed

end
