(* ===== verification/Processor_Loop.thy ===== *)
theory Processor_Loop
  imports Outbox_Processor
begin

text \<open>
  The life of the background processor (\<open>OutboxProcessor::run\<close> in \<open>outbox_processor.rs\<close>): batches until shutdown is
  signalled, then a drain. The loop ends when the signal comes and not before, so it is a partial function.
\<close>

section \<open>The loop\<close>

text \<open>
  \<open>shutdown n\<close> is the value of the watch at the head of round \<open>n\<close>. \<open>meantime b n\<close> is what the other tasks of the
  server do to the stores between rounds \<open>n\<close> and \<open>n + 1\<close>: while the processor waits for its interval or for a
  change of the signal (\<open>b\<close>), or at the points where it yields when it goes on at once.
\<close>

partial_function (option) processor_loop ::
  "runner \<Rightarrow> outbox_processor_config \<Rightarrow> (nat \<Rightarrow> bool) \<Rightarrow> (bool \<Rightarrow> nat \<Rightarrow> world \<Rightarrow> world) \<Rightarrow> nat \<Rightarrow> world \<Rightarrow> world option"
  where
  "processor_loop r config shutdown meantime n w =
     (if shutdown n then Some w
      else case process_batch r config w of
        ((handled, _), w') \<Rightarrow>
          if 0 < handled then processor_loop r config shutdown meantime (Suc n) (meantime False n w')
          else processor_loop r config shutdown meantime (Suc n) (meantime True n w'))"

text \<open>\<open>fuel\<close> bounds the batches of the drain at the end.\<close>

definition processor_run ::
  "nat \<Rightarrow> runner \<Rightarrow> outbox_processor_config \<Rightarrow> (nat \<Rightarrow> bool) \<Rightarrow> (bool \<Rightarrow> nat \<Rightarrow> world \<Rightarrow> world) \<Rightarrow> world \<Rightarrow>
   (nat \<times> world) option" where
  "processor_run fuel r config shutdown meantime w =
     Option.bind (processor_loop r config shutdown meantime 0 w) (drain fuel r config)"

section \<open>When it ends\<close>

text \<open>A loop that has ended has seen the signal.\<close>

lemma loop_saw_signal:
  assumes "processor_loop r config shutdown meantime n w = Some w'"
  shows "\<exists>k \<ge> n. shutdown k"
proof (rule processor_loop.raw_induct [OF _ assms, of "\<lambda>r config shutdown meantime n w w'. \<exists>k \<ge> n. shutdown k"])
  fix loop :: "runner \<Rightarrow> outbox_processor_config \<Rightarrow> (nat \<Rightarrow> bool) \<Rightarrow> (bool \<Rightarrow> nat \<Rightarrow> world \<Rightarrow> world) \<Rightarrow> nat \<Rightarrow> world \<Rightarrow> world option"
    and r config shutdown meantime n w w'
  assume IH: "\<And>r config shutdown meantime n w w'. loop r config shutdown meantime n w = Some w' \<Longrightarrow> \<exists>k \<ge> n. shutdown k"
    and step: "(if shutdown n then Some w
      else case process_batch r config w of
        ((handled, _), w') \<Rightarrow>
          if 0 < handled then loop r config shutdown meantime (Suc n) (meantime False n w')
          else loop r config shutdown meantime (Suc n) (meantime True n w')) = Some w'"
  show "\<exists>k \<ge> n. shutdown k"
  proof (cases "shutdown n")
    case False
    with step obtain u where "loop r config shutdown meantime (Suc n) u = Some w'"
      by (auto split: prod.splits if_splits)
    from IH [OF this] show ?thesis by (meson Suc_leD)
  qed blast
qed

text \<open>A condition that batches and the other tasks keep holds where the loop ends, at the first signal at the latest.\<close>

lemma loop_ends:
  assumes "shutdown (n + d)" "I w"
    and batch: "\<And>w. I w \<Longrightarrow> I (snd (process_batch r config w))"
    and others: "\<And>b k w. I w \<Longrightarrow> I (meantime b k w)"
  shows "\<exists>w'. processor_loop r config shutdown meantime n w = Some w' \<and> I w'"
  using assms(1,2)
proof (induction d arbitrary: n w)
  case 0
  then show ?case by (simp add: processor_loop.simps)
next
  case (Suc d)
  obtain handled pauses w1 where b: "process_batch r config w = ((handled, pauses), w1)" by (metis prod.collapse)
  have "I (meantime x n w1)" for x using batch [OF Suc.prems(2)] b by (simp add: others)
  with Suc.IH [of "Suc n"] Suc.prems show ?case
    by (subst processor_loop.simps) (simp add: b)
qed

definition drainable :: "outbox_processor_config \<Rightarrow> world \<Rightarrow> bool" where
  "drainable config w \<longleftrightarrow> w_faults w = [] \<and> attempts_ok (oc_max_attempts config) (w_outbox w)"

lemma batch_drainable:
  assumes "drainable config w" "oc_max_attempts config < - 1"
  shows "drainable config (snd (process_batch r config w))"
  using batch_progress [where w = w and mx = "oc_max_attempts config" and config = config and r = r
      and n = "oc_batch_size config" and h = 0 and ps = "[]"] assms
  by (auto simp: drainable_def process_batch_def split: prod.splits)

lemma loop_returns:
  assumes "drainable config w" "oc_max_attempts config < - 1" "shutdown n"
    and "\<And>b n w. drainable config w \<Longrightarrow> drainable config (meantime b n w)"
  shows "\<exists>w'. processor_loop r config shutdown meantime 0 w = Some w' \<and> drainable config w'"
proof -
  have "shutdown (0 + n)" using assms(3) by simp
  then show ?thesis by (rule loop_ends) (use assms batch_drainable in auto)
qed

text \<open>The end of a run: an empty outbox, or a clock that the drain read past its deadline.\<close>

definition drained_or_late :: "runner \<Rightarrow> outbox_processor_config \<Rightarrow> world \<Rightarrow> world \<Rightarrow> bool" where
  "drained_or_late r config w w' \<longleftrightarrow>
     w_outbox w' = [] \<or>
     (\<exists>t. w_ticks w < t \<and> t < w_ticks w' \<and>
        ru_instant r (w_ticks w) + int (oc_drain_timeout config) \<le> ru_instant r t)"

lemma drain_returns:
  assumes "drainable config w" "oc_max_attempts config < - 1" "0 < oc_batch_size config"
  shows "\<exists>fuel h w'. drain fuel r config w = Some (h, w') \<and> drained_or_late r config w w'"
proof -
  let ?deadline = "ru_instant r (w_ticks w) + int (oc_drain_timeout config)" and ?w = "w\<lparr>w_ticks := Suc (w_ticks w)\<rparr>"
  obtain h w' where "drain_loop (Suc (attempts_left (oc_max_attempts config) (w_outbox ?w))) r config ?deadline 0 ?w = Some (h, w')"
    "w_outbox w' = [] \<or> (\<exists>t \<in> {w_ticks ?w..<w_ticks w'}. ?deadline \<le> ru_instant r t)"
    using drain_loop_terminates [where w = ?w and r = r and config = config and deadline = ?deadline and h = 0
        and fuel = "Suc (attempts_left (oc_max_attempts config) (w_outbox ?w))"] assms
    by (auto simp: drainable_def)
  then have "drain (Suc (attempts_left (oc_max_attempts config) (w_outbox ?w))) r config w = Some (h, w')"
    "drained_or_late r config w w'"
    by (auto simp: drain_def Let_def drained_or_late_def Suc_le_eq)
  then show ?thesis by blast
qed

text \<open>
  C38: the processor stops when it is told to, and only then. On stores that do not fail, with a positive batch
  size, a limit below the largest \<open>u32\<close> and other tasks that leave messages within the attempt limit, the loop
  of the background processor ends if and only if the shutdown signal is raised in some round, whatever the
  deliverer answers and whatever is enqueued meanwhile. When it is raised, the whole run ends, drain included,
  and it leaves an empty outbox unless the drain read a clock past its deadline; when it never is, no run ends.
\<close>

theorem processor_stops_iff_told:
  assumes "drainable config w" "oc_max_attempts config < - 1" "0 < oc_batch_size config"
    and "\<And>b n w. drainable config w \<Longrightarrow> drainable config (meantime b n w)"
  shows "if \<exists>n. shutdown n
    then \<exists>w1 fuel h w'. processor_loop r config shutdown meantime 0 w = Some w1 \<and>
           processor_run fuel r config shutdown meantime w = Some (h, w') \<and> drained_or_late r config w1 w'
    else \<forall>fuel. processor_run fuel r config shutdown meantime w = None"
proof (cases "\<exists>n. shutdown n")
  case True
  then obtain n where "shutdown n" by blast
  with loop_returns [where shutdown = shutdown and meantime = meantime and config = config and n = n and w = w and r = r] assms
  obtain w1 where loop: "processor_loop r config shutdown meantime 0 w = Some w1" "drainable config w1" by blast
  from drain_returns [OF loop(2) assms(2,3)] obtain fuel h w' where
    "drain fuel r config w1 = Some (h, w')" "drained_or_late r config w1 w'" by blast
  with loop(1) True show ?thesis by (auto simp: processor_run_def)
next
  case False
  then have "processor_loop r config shutdown meantime 0 w = None"
    using loop_saw_signal [where n = 0 and r = r and config = config and shutdown = shutdown and meantime = meantime and w = w]
    by (cases "processor_loop r config shutdown meantime 0 w") auto
  with False show ?thesis by (simp add: processor_run_def)
qed

text \<open>A server that is told to stop in its third round, while a message with its attempts spent waits.\<close>

theorem processor_stops_iff_told_witness:
  "\<exists>fuel h w'. processor_run fuel sample_runner default_outbox_processor_config (\<lambda>n. 2 \<le> n) (\<lambda>_ _ w. w) sample_queue = Some (h, w')"
proof -
  have "drainable default_outbox_processor_config sample_queue"
    by (simp add: drainable_def sample_queue_def empty_world_def sample_message_def attempts_ok_def
        default_outbox_processor_config_def)
  from processor_stops_iff_told [OF this, where meantime = "\<lambda>_ _ w. w" and r = sample_runner and shutdown = "\<lambda>n. 2 \<le> n"]
  have "\<exists>w1 fuel h w'. processor_loop sample_runner default_outbox_processor_config (\<lambda>n. 2 \<le> n) (\<lambda>_ _ w. w) 0 sample_queue = Some w1 \<and>
      processor_run fuel sample_runner default_outbox_processor_config (\<lambda>n. 2 \<le> n) (\<lambda>_ _ w. w) sample_queue = Some (h, w') \<and>
      drained_or_late sample_runner default_outbox_processor_config w1 w'"
    by (auto simp: default_outbox_processor_config_def split: if_splits)
  then show ?thesis by blast
qed

end
