(* ===== verification/Spec2Isabelle.thy ===== *)
theory Spec2Isabelle
  imports Facade_Ops File_Refinement Pg_Facts Client_Facts Adapter_Facts Server_Facts Mcp_Facts Discovery_Facts Mock_Facts Processor_Loop
begin

text \<open>
  Verification of the commerce orchestrator: a Rust service that stands between shopping agents and a merchant's
  providers (catalogue, pricing, tax, geo policy, payment, receipts, fulfillment rates, identity, payment
  delegation). It keeps carts, runs checkouts with deduplication by idempotency key, keeps orders, delivers
  webhooks through an outbox, and speaks UCP, ACP, A2A and MCP over HTTP, with message signatures.

  \<^bold>\<open>The parts and how they interact.\<close> The binary reads its configuration and starts (\<open>config.rs\<close>, \<open>main.rs\<close>); a
  request passes the signature verifier (\<open>signing.rs\<close>), the bearer authentication (\<open>auth.rs\<close>) and a handler
  (\<open>routes/v1.rs\<close>, \<open>routes/a2a.rs\<close>, \<open>orchestrator-mcp\<close>), which translates transfer objects and calls the facade
  (\<open>facade.rs\<close>); the facade checks tenants, mandates and authorization and calls the runner (\<open>runner.rs\<close>); the
  runner calls the providers, through HTTP adapters (\<open>integration-adapters\<close>) with retries and circuit breakers,
  and its stores, kept in memory, in files or in PostgreSQL. A background loop drains the outbox.

  \<^bold>\<open>Style.\<close> A struct is a record, an enum a datatype, a dictionary a map or an association list, \<open>u32\<close>, \<open>u64\<close> and
  \<open>u16\<close> are words; \<open>i64\<close> is \<open>int\<close> with the wrap-around and the overflow checks written out. A method that may
  fail is an operation \<open>'s \<Rightarrow> ('e + 'a) \<times> 's\<close>: it leaves a state on failure too, as the code does. Every
  definition has the order of calls, the guards and the early returns of the code.

  \<^bold>\<open>Theories and the code they model.\<close>

  \<^item> \<open>Commerce_Prelude\<close>, \<open>Text_Parsing\<close>, \<open>Json\<close>: integers, operations and their weakest preconditions, invariants
    and frames (locale \<open>frame\<close>), the string functions of Rust's \<open>str\<close>, the values of \<open>serde_json\<close>.
  \<^item> \<open>Contract\<close>, \<open>Validation\<close>, \<open>State_Machine\<close>: \<open>orchestrator-core\<close> (\<open>contract.rs\<close>, \<open>fulfillment.rs\<close>, \<open>discount.rs\<close>,
    \<open>validation.rs\<close>, \<open>policy.rs\<close>, \<open>state_machine.rs\<close>).
  \<^item> \<open>Idempotency\<close>, \<open>Effects\<close>, \<open>Inventory\<close>, \<open>Orders\<close>, \<open>Webhooks\<close>: the in-memory stores of \<open>orchestrator-runtime\<close> and the
    contracts of the store traits as locales, interpreted on each implementation.
  \<^item> \<open>File_Store\<close>, \<open>File_Facts\<close>, \<open>File_Refinement\<close>: \<open>persistence/file_backed.rs\<close>, one step per call under the lock, with
    a plan \<open>fs_io\<close> of which writes succeed, fail or tear, and restarts.
  \<^item> \<open>Pg_Store\<close>, \<open>Pg_Facts\<close>: \<open>persistence/postgres_backed.rs\<close>, one step per SQL statement or transaction, with a plan
    \<open>pg_faults\<close> of failing statements.
  \<^item> \<open>World\<close>, \<open>Samples\<close>, \<open>Runner_Cart\<close>, \<open>Runner_Checkout\<close>, \<open>Outbox_Processor\<close>, \<open>Processor_Loop\<close>, \<open>Runner_Ops\<close> with \<open>Cart_Facts\<close>,
    \<open>Checkout_Facts\<close>, \<open>Checkout_Outcome\<close>, \<open>Checkout_Frame\<close>: \<open>runner.rs\<close> and \<open>outbox_processor.rs\<close>. The record
    \<open>world\<close> holds all stores, the history of provider calls, the posts sent and the plan \<open>w_faults\<close> of store
    calls that fail before or after they took effect.
  \<^item> \<open>Ap2_Verification\<close>, \<open>Access\<close>, \<open>Facade\<close>, \<open>Facade_Ops\<close>: \<open>orchestrator-api\<close> (\<open>ap2_verification.rs\<close>, \<open>authz.rs\<close>,
    \<open>authn.rs\<close>, \<open>pii.rs\<close>, \<open>facade.rs\<close>).
  \<^item> \<open>Signing\<close>, \<open>Signing_Facts\<close>, \<open>Signing_Safety\<close>, \<open>Http_Signing\<close>, \<open>Response_Signing\<close>: \<open>signing.rs\<close> of the api and of the
    server (RFC 9421 and 9530).
  \<^item> \<open>Circuit\<close>, \<open>Http_Client\<close>, \<open>Client_Facts\<close>: \<open>integration-adapters\<close> (\<open>circuit.rs\<close>, \<open>client.rs\<close>, \<open>auth.rs\<close>, \<open>error.rs\<close>).
  \<^item> \<open>Provider_Adapters\<close>, \<open>Adapter_Facts\<close>: its nine adapters (\<open>catalog.rs\<close>, \<open>pricing.rs\<close>, \<open>tax.rs\<close>, \<open>geo.rs\<close>, \<open>payment.rs\<close>,
    \<open>receipt.rs\<close>, \<open>fulfillment.rs\<close>, \<open>delegation.rs\<close>); \<open>http_providers\<close> is the provider set of a production server,
    each adapter with the client state its earlier calls left.
  \<^item> \<open>Http_Dto\<close>, \<open>Ucp_Dto\<close>, \<open>Acp_Mapping\<close>, \<open>Http_Routes\<close> with \<open>Routes_Facts\<close>, \<open>Route_Isolation\<close>: \<open>dto.rs\<close>, \<open>error.rs\<close>,
    \<open>auth.rs\<close>, \<open>acp_mapping.rs\<close> and the handlers of \<open>routes/v1.rs\<close>.
  \<^item> \<open>A2a_Mapping\<close>, \<open>A2a_Routes\<close>, \<open>Mcp_Tools\<close> with \<open>A2a_Facts\<close>, \<open>Agent_Isolation\<close>, \<open>Mcp_Facts\<close>: the agent surfaces,
    \<open>adapters.rs\<close>, \<open>routes/a2a.rs\<close> and \<open>orchestrator-mcp\<close>.
  \<^item> \<open>Server\<close> with \<open>Endpoint_Frame\<close>, \<open>Server_Facts\<close>: \<open>app.rs\<close>, \<open>observability.rs\<close>, \<open>routes/mod.rs\<close> and the route
    tables. \<open>signed_router\<close> is the server as a function of a request: verifier, request identifier, routes,
    extractors, handler, signer. The locale \<open>endpoint_frame\<close> carries what the facade respects to every route.
  \<^item> \<open>Provider_Config\<close>, \<open>Server_Config\<close>, \<open>Discovery\<close> with \<open>Config_Facts\<close>, \<open>Discovery_Facts\<close>: \<open>config.rs\<close>, \<open>main.rs\<close>,
    \<open>state.rs\<close>, \<open>ucp_mapping.rs\<close>, \<open>capability.rs\<close>, \<open>routes/discovery.rs\<close> and \<open>routes/health.rs\<close>.
  \<^item> \<open>Provider_Mocks\<close> with \<open>Mock_Facts\<close>: \<open>provider-mocks\<close>, the providers of a development server, and progress: the
    locale \<open>willing_providers\<close> (providers that never refuse) is interpreted on them.
\<close>

text \<open>
  \<^bold>\<open>What the lemmas show.\<close> Money: a checkout charges at most once, for exactly the total of an
  allowed cart at the prices, tax and discounts the providers answer in that execution, and a repeated request is
  answered from the stored outcome for ever; the exceptions are stated as such (a key stranded for good by a late
  failure, a retry in AP2 strict mode, a claim that PostgreSQL grants twice); on the HTTP adapters the same holds of the
  requests the payment service receives, each with its idempotency key, and the client stops at the first that is
  answered with success.
  Stores: every contract of a store trait is a locale; the in-memory and file implementations are interpretations of
  it, across restarts, and the PostgreSQL one where it keeps it. Delivery: a pass over the outbox neither loses nor
  duplicates a message, the background processor ends exactly when it is told to and drains, leases are offered again. Tenants: no request, on any route or agent
  surface, touches the carts of other tenants, short of a cart command that names two different carts, and order endpoints answer from the caller's own orders; the endpoints
  that do not look at the tenant are proved to let a stranger through. The server: nothing changes without
  a bearer token the resolver accepts (or, without a resolver, outside development), reading is safe, and whatever requests it answers its state is one the runner reaches. Signatures: what
  a keyring signs verifies against the keys it publishes, an accepted request agrees with one an agent signed on
  everything the gate requires, and the exact reach of the freshness check is stated. Deployment: production takes only
  the credentials of the configuration it loaded, credentials of providers do not mix, and
  the current discovery documents advertise exactly what is wired up. Progress: on the mock providers a
  valid checkout always completes, and a shopper gets from an empty cart to a captured order at the catalogue price.
  Frames and isolation are instances of one locale: a relation on
  worlds that the stages respect is respected by every operation built from them.

  \<^bold>\<open>Bounds and fuel.\<close> The retry loop is structural in the number of attempts left, which the configuration bounds.
  Draining is a loop with a measure: the attempts a message has left and the queue. The scanners of headers
  recurse on the text. The loop of the background processor is a partial function (\<open>processor_loop\<close>): \<open>None\<close> is a run
  that is never told to stop. Only \<open>drain\<close> takes a clock, and it ends by its deadline or with an empty queue.

  \<^bold>\<open>Parameters.\<close> Code outside this repository is an argument: the providers (\<open>provider_set\<close>), the clocks and random
  identifiers of the runner, the JSON codecs that \<open>serde\<close> derives (\<open>json_codec\<close>, \<open>codec\<close>, \<open>wire\<close>), HMAC and the webhook
  client (\<open>webhook_env\<close>), \<open>reqwest\<close> and the token endpoint (\<open>http_env\<close>), the signature and base64 crates
  (\<open>crypto\<close>, with their laws as named hypotheses that a sample satisfies), which texts are header values
  (\<open>header_values\<close>), axum (\<open>edge\<close>), UUID and date texts (\<open>text_env\<close>), and what the start-up reads (\<open>boot\<close>).

  \<^bold>\<open>Not modelled.\<close> The accept loop of tokio, metrics and tracing, the generated OpenAPI document, connecting to PostgreSQL and its migrations, and
  building TLS clients. Interleavings are those of the store calls: a store operation in
  memory or on files is one step under its lock, a PostgreSQL one is its statements. The stores of \<open>world\<close> are the
  in-memory ones: their reads do not fail, and their claim refuses a key in flight. The calls of the payment delegation
  and the identity provider change nothing in the orchestrator and are not in the history of provider calls. \<open>str_trim\<close>
  strips ASCII white space.
\<close>

end
